(* ===== verification/Prelude.thy ===== *)
theory Prelude
  imports
    Main
    "HOL-Library.Word"
    "HOL-Library.Monad_Syntax"
    "HOL-Library.Sublist"
begin

text \<open>
  Shared vocabulary of the development: the named collections the component proofs use, the
  names of the Go types, the outcome of a Go call (a panic, or a returned error together with
  the state it leaves), and the few functions of Go's standard library (package \<open>strings\<close>,
  \<open>strconv\<close>, \<open>encoding/hex\<close>, \<open>bytes\<close>, \<open>math/big\<close>) that the sources call, with their lemmas.

  A Go \<open>string\<close> and a \<open>[]byte\<close> are both sequences of bytes; both are modelled by the type
  \<open>string\<close>, whose characters are bytes. A Go call that may panic has a result of type
  \<open>'a option\<close> where \<open>None\<close> is the panic; the option monad sequences such calls.
\<close>

named_theorems go_simps \<open>equations that evaluate the Go primitives\<close>
named_theorems outcome_elims \<open>elimination of successful outcomes\<close>

section \<open>Go types and outcomes\<close>

type_synonym u8 = "8 word"
type_synonym u16 = "16 word"
type_synonym u32 = "32 word"
type_synonym u64 = "64 word"
type_synonym i64 = "64 word" \<comment> \<open>an \<open>int64\<close> by its bits; \<open>sint\<close> reads it\<close>

text \<open>
  What a Go method with an \<open>error\<close> result does to its receiver: \<open>None\<close> is a panic,
  \<open>Some (None, s)\<close> a return of \<open>nil\<close> in state \<open>s\<close>, \<open>Some (Some e, s)\<close> a return of the
  error \<open>e\<close> in state \<open>s\<close> (Go keeps the assignments made before the return).
  An error is represented by the constant part of its message.
\<close>

type_synonym 's outcome = "(string option \<times> 's) option"

abbreviation ret_nil :: "'s \<Rightarrow> 's outcome" where
  "ret_nil s \<equiv> Some (None, s)"

abbreviation ret_err :: "string \<Rightarrow> 's \<Rightarrow> 's outcome" where
  "ret_err e s \<equiv> Some (Some e, s)"

abbreviation panics :: "'a option \<Rightarrow> bool" where
  "panics r \<equiv> r = None"

lemmas bind_Some_iff = Option.bind_eq_Some_conv
lemmas bind_None_iff = Option.bind_eq_None_conv

lemma bind_SomeE [outcome_elims]:
  assumes "Option.bind m f = Some r"
  obtains x where "m = Some x" "f x = Some r"
  using assms by (auto simp: bind_Some_iff)

section \<open>Decimal digits\<close>

definition is_digit :: "char \<Rightarrow> bool" where
  "is_digit c \<longleftrightarrow> (48::nat) \<le> of_char c \<and> (of_char c :: nat) \<le> 57"

definition digit_val :: "char \<Rightarrow> nat" where
  "digit_val c = of_char c - 48"

definition digit_char :: "nat \<Rightarrow> char" where
  "digit_char d = char_of (48 + d)"

text \<open>The value of a digit sequence, most significant first.\<close>

definition digits_val :: "string \<Rightarrow> nat" where
  "digits_val s = foldl (\<lambda>n c. 10 * n + digit_val c) 0 s"

text \<open>\<open>big.Int.String\<close> and the verb \<open>%d\<close> on a natural number.\<close>

fun nat_string :: "nat \<Rightarrow> string" where
  "nat_string n = (if n < 10 then [digit_char n] else nat_string (n div 10) @ [digit_char (n mod 10)])"

declare nat_string.simps [simp del]

lemma is_digit_digit_char [simp]: "d < 10 \<Longrightarrow> is_digit (digit_char d)"
  by (simp add: is_digit_def digit_char_def)

lemma digit_val_digit_char [simp]: "d < 10 \<Longrightarrow> digit_val (digit_char d) = d"
  by (simp add: digit_val_def digit_char_def)

lemma digit_char_digit_val [simp]: "is_digit c \<Longrightarrow> digit_char (digit_val c) = c"
  by (simp add: digit_val_def digit_char_def is_digit_def)

lemma digit_val_less [simp]: "is_digit c \<Longrightarrow> digit_val c < 10"
  by (auto simp: digit_val_def is_digit_def)

lemma digits_val_Nil [simp]: "digits_val [] = 0"
  by (simp add: digits_val_def)

lemma digits_val_snoc [simp]: "digits_val (s @ [c]) = 10 * digits_val s + digit_val c"
  by (simp add: digits_val_def)

lemma digits_val_append: "digits_val (s @ t) = digits_val s * 10 ^ length t + digits_val t"
proof (induction t rule: rev_induct)
  case Nil
  show ?case by simp
next
  case (snoc c t)
  then show ?case
    by (simp del: append_assoc add: append_assoc [symmetric] algebra_simps)
qed

lemma digits_val_zeros [simp]: "digits_val (replicate n CHR ''0'') = 0"
proof (induction n)
  case (Suc n)
  then show ?case
    using digits_val_append [of "[CHR ''0'']" "replicate n CHR ''0''"]
    by (simp add: digits_val_def digit_val_def)
qed simp

lemma digits_val_less: "list_all is_digit s \<Longrightarrow> digits_val s < 10 ^ length s"
proof (induction s rule: rev_induct)
  case (snoc c s)
  then have "digits_val s < 10 ^ length s" and "digit_val c < 10"
    by simp_all
  then show ?case by simp
qed simp

lemma digits_val_nat_string [simp]: "digits_val (nat_string n) = n"
proof (induction n rule: nat_string.induct)
  case (1 n)
  then show ?case
    by (cases "n < 10") (auto simp: nat_string.simps [of n] digits_val_def)
qed

lemma nat_string_digits [simp]: "list_all is_digit (nat_string n)"
proof (induction n rule: nat_string.induct)
  case (1 n)
  then show ?case
    by (cases "n < 10") (auto simp: nat_string.simps [of n])
qed

lemma nat_string_not_Nil [simp]: "nat_string n \<noteq> []"
  by (subst nat_string.simps) simp

lemma length_nat_string_le: "n < 10 ^ k \<Longrightarrow> 0 < k \<Longrightarrow> length (nat_string n) \<le> k"
proof (induction k arbitrary: n)
  case (Suc k)
  show ?case
  proof (cases "n < 10")
    case True
    then show ?thesis by (simp add: nat_string.simps [of n])
  next
    case False
    with Suc.prems have "n div 10 < 10 ^ k" and "0 < k"
      by (auto simp: less_mult_imp_div_less mult.commute intro: gr0I)
    with False Suc.IH [of "n div 10"] show ?thesis
      by (simp add: nat_string.simps [of n])
  qed
qed simp

lemma is_digit_neq [simp]:
  "is_digit c \<Longrightarrow> c \<noteq> CHR ''.''" "is_digit c \<Longrightarrow> c \<noteq> CHR ''-''" "is_digit c \<Longrightarrow> c \<noteq> CHR ''+''"
  by (auto simp: is_digit_def)

section \<open>Package strings\<close>

text \<open>\<open>strings.Split(s, sep)\<close> for a separator of one byte.\<close>

fun go_split :: "char \<Rightarrow> string \<Rightarrow> string list" where
  "go_split sep [] = [[]]"
| "go_split sep (c # cs) =
     (if c = sep then [] # go_split sep cs
      else case go_split sep cs of [] \<Rightarrow> [[c]] | p # ps \<Rightarrow> (c # p) # ps)"

lemma go_split_not_Nil [simp]: "go_split sep s \<noteq> []"
  by (induction s) (auto split: list.splits)

lemma go_split_no_sep: "sep \<notin> set s \<Longrightarrow> go_split sep s = [s]"
  by (induction s) auto

lemma go_split_once: "sep \<notin> set s \<Longrightarrow> go_split sep (s @ sep # t) = s # go_split sep t"
  by (induction s) auto

lemma go_split_parts_no_sep: "p \<in> set (go_split sep s) \<Longrightarrow> sep \<notin> set p"
  by (induction s arbitrary: p) (auto split: list.splits if_splits)

lemma go_split_one: "go_split sep s = [p] \<Longrightarrow> s = p"
  by (induction s arbitrary: p) (auto split: list.splits if_splits)

lemma go_split_two: "go_split sep s = [p, q] \<Longrightarrow> s = p @ sep # q"
  by (induction s arbitrary: p q) (auto split: list.splits if_splits dest: go_split_one)

text \<open>\<open>strings.TrimRight(s, cutset)\<close> for a cutset of one byte.\<close>

definition go_trim_right :: "char \<Rightarrow> string \<Rightarrow> string" where
  "go_trim_right c s = rev (dropWhile (\<lambda>x. x = c) (rev s))"

lemma go_trim_right_decomp: "s = go_trim_right c s @ replicate (length s - length (go_trim_right c s)) c"
proof -
  let ?a = "takeWhile (\<lambda>x. x = c) (rev s)" and ?b = "dropWhile (\<lambda>x. x = c) (rev s)"
  have a: "?a = replicate (length ?a) c"
    by (rule replicate_length_same [symmetric]) (auto dest: set_takeWhileD)
  have l: "length s = length ?a + length ?b"
    by (metis length_append length_rev takeWhile_dropWhile_id)
  have "s = rev (?a @ ?b)" by simp
  also have "\<dots> = rev ?b @ rev ?a" by (rule rev_append)
  also have "rev ?a = replicate (length ?a) c"
    by (subst a) (rule rev_replicate)
  finally show ?thesis using l by (simp add: go_trim_right_def)
qed

text \<open>Lower case of an ASCII byte.\<close>

definition ascii_lower :: "char \<Rightarrow> char" where
  "ascii_lower c = (if (65::nat) \<le> of_char c \<and> (of_char c :: nat) \<le> 90 then char_of ((of_char c :: nat) + 32) else c)"

definition is_ascii :: "char \<Rightarrow> bool" where
  "is_ascii c \<longleftrightarrow> (of_char c :: nat) < 128"

text \<open>
  \<open>strings.ToLower\<close>: byte by byte on ASCII text. On text with a byte above 127 Go consults
  the Unicode tables, which are not part of the sources: the function \<open>ul\<close> stands for them.
\<close>

definition go_to_lower :: "(string \<Rightarrow> string) \<Rightarrow> string \<Rightarrow> string" where
  "go_to_lower ul s = (if list_all is_ascii s then map ascii_lower s else ul s)"

lemma ascii_lower_ascii [simp]: "is_ascii c \<Longrightarrow> is_ascii (ascii_lower c)"
  by (auto simp: ascii_lower_def is_ascii_def)

lemma ascii_lower_idem [simp]: "ascii_lower (ascii_lower c) = ascii_lower c"
  by (auto simp: ascii_lower_def)

lemma go_to_lower_ascii_idem:
  "list_all is_ascii s \<Longrightarrow> go_to_lower ul (go_to_lower ul s) = go_to_lower ul s"
  by (auto simp: go_to_lower_def list_all_iff)

text \<open>\<open>strings.Join\<close>.\<close>

fun go_join :: "string list \<Rightarrow> string \<Rightarrow> string" where
  "go_join [] sep = []"
| "go_join [s] sep = s"
| "go_join (s # ss) sep = s @ sep @ go_join ss sep"

section \<open>Packages bytes, encoding/hex and strconv\<close>

text \<open>The UTF-8 encodings of the characters \<open>bytes.TrimSpace\<close> removes.\<close>

definition go_spaces :: "string list" where
  "go_spaces =
     [[CHR 0x09], [CHR 0x0a], [CHR 0x0b], [CHR 0x0c], [CHR 0x0d], [CHR 0x20],
      [CHR 0xc2, CHR 0x85], [CHR 0xc2, CHR 0xa0], [CHR 0xe1, CHR 0x9a, CHR 0x80]]
     @ map (\<lambda>b. [CHR 0xe2, CHR 0x80, char_of (0x80 + b)]) [0 ..< 11]
     @ [[CHR 0xe2, CHR 0x80, CHR 0xa8], [CHR 0xe2, CHR 0x80, CHR 0xa9], [CHR 0xe2, CHR 0x80, CHR 0xaf],
        [CHR 0xe2, CHR 0x81, CHR 0x9f], [CHR 0xe3, CHR 0x80, CHR 0x80]]"

fun trim_prefixes :: "nat \<Rightarrow> string list \<Rightarrow> string \<Rightarrow> string" where
  "trim_prefixes 0 ps s = s"
| "trim_prefixes (Suc k) ps s =
     (case find (\<lambda>p. prefix p s) ps of None \<Rightarrow> s | Some p \<Rightarrow> trim_prefixes k ps (drop (length p) s))"

text \<open>\<open>bytes.TrimSpace\<close>: a run of spaces is at most as long as the text, which is the fuel.\<close>

definition go_trim_space :: "string \<Rightarrow> string" where
  "go_trim_space s =
     (let l = trim_prefixes (length s) go_spaces s
      in rev (trim_prefixes (length l) (map rev go_spaces) (rev l)))"

definition hex_digit :: "nat \<Rightarrow> char" where
  "hex_digit d = (if d < 10 then char_of (48 + d) else char_of (87 + d))"

text \<open>\<open>hex.EncodeToString\<close>.\<close>

definition hex_encode :: "string \<Rightarrow> string" where
  "hex_encode s = concat (map (\<lambda>c. [hex_digit (of_char c div 16), hex_digit (of_char c mod 16)]) s)"

definition hex_val :: "char \<Rightarrow> nat option" where
  "hex_val c =
     (let n = of_char c in
      if (48::nat) \<le> n \<and> n \<le> 57 then Some (n - 48)
      else if 97 \<le> n \<and> n \<le> 102 then Some (n - 87)
      else if 65 \<le> n \<and> n \<le> 70 then Some (n - 55)
      else None)"

text \<open>\<open>hex.DecodeString\<close>: \<open>None\<close> is the error.\<close>

fun hex_decode :: "string \<Rightarrow> string option" where
  "hex_decode [] = Some []"
| "hex_decode [c] = None"
| "hex_decode (a # b # s) =
     (case (hex_val a, hex_val b) of
        (Some x, Some y) \<Rightarrow> map_option ((#) (char_of (16 * x + y))) (hex_decode s)
      | _ \<Rightarrow> None)"

lemma hex_val_hex_digit [simp]: "d < 16 \<Longrightarrow> hex_val (hex_digit d) = Some d"
  by (auto simp: hex_val_def hex_digit_def Let_def)

lemma of_char_bound [simp]: "(of_char c :: nat) < 256"
proof -
  have "of_char c < (2 ^ 8 :: nat)"
    by (simp add: of_char_def horner_sum_of_bool_2_less [where bs = "[digit0 c, digit1 c, digit2 c, digit3 c, digit4 c, digit5 c, digit6 c, digit7 c]", simplified])
  then show ?thesis by simp
qed

text \<open>\<open>strconv.ParseUint(s, 10, 64)\<close>: \<open>None\<close> is the error.\<close>

definition parse_uint64 :: "string \<Rightarrow> nat option" where
  "parse_uint64 s =
     (if s = [] \<or> \<not> list_all is_digit s then None
      else if int (digits_val s) < 2 ^ 64 then Some (digits_val s) else None)"

section \<open>Package math/big\<close>

text \<open>\<open>big.Int.SetString(s, 10)\<close>: an optional sign and at least one digit.\<close>

definition big_SetString :: "string \<Rightarrow> int option" where
  "big_SetString s =
     (let (neg, ds) = (case s of [] \<Rightarrow> (False, [])
                       | c # cs \<Rightarrow> if c = CHR ''-'' then (True, cs) else if c = CHR ''+'' then (False, cs)
                                   else (False, s))
      in if ds = [] \<or> \<not> list_all is_digit ds then None
         else Some (if neg then - int (digits_val ds) else int (digits_val ds)))"

lemma big_SetString_digits:
  "s \<noteq> [] \<Longrightarrow> list_all is_digit s \<Longrightarrow> big_SetString s = Some (int (digits_val s))"
  by (cases s) (auto simp: big_SetString_def)

lemma big_SetString_neg:
  "s \<noteq> [] \<Longrightarrow> list_all is_digit s \<Longrightarrow> big_SetString (CHR ''-'' # s) = Some (- int (digits_val s))"
  by (auto simp: big_SetString_def)

text \<open>
  \<open>big.Int.Div\<close> is Euclidean division (the remainder is never negative) and panics on a zero
  divisor; \<open>big.Int.Sqrt\<close> is the floor of the square root and panics on a negative argument.
\<close>

definition big_Div :: "int \<Rightarrow> int \<Rightarrow> int option" where
  "big_Div x y = (if y = 0 then None else Some (sgn y * (x div \<bar>y\<bar>)))"

fun isqrt :: "nat \<Rightarrow> nat" where
  "isqrt n = (if n = 0 then 0
              else let r = 2 * isqrt (n div 4) in if (r + 1) * (r + 1) \<le> n then r + 1 else r)"

declare isqrt.simps [simp del]

definition big_Sqrt :: "int \<Rightarrow> int option" where
  "big_Sqrt x = (if x < 0 then None else Some (int (isqrt (nat x))))"

lemma big_Div_pos: "0 < y \<Longrightarrow> big_Div x y = Some (x div y)"
  by (simp add: big_Div_def)

lemma big_Div_rem:
  assumes "big_Div x y = Some q"
  shows "0 \<le> x - q * y" and "x - q * y < \<bar>y\<bar>"
proof -
  from assms have y: "y \<noteq> 0" and q: "q = sgn y * (x div \<bar>y\<bar>)"
    by (auto simp: big_Div_def split: if_splits)
  have "q * y = (x div \<bar>y\<bar>) * \<bar>y\<bar>"
    by (simp add: q abs_sgn mult.assoc mult.commute mult.left_commute)
  then have "x - q * y = x mod \<bar>y\<bar>"
    by (simp add: minus_div_mult_eq_mod)
  then show "0 \<le> x - q * y" and "x - q * y < \<bar>y\<bar>"
    using y by simp_all
qed

lemma isqrt_bounds: "isqrt n * isqrt n \<le> n \<and> n < (isqrt n + 1) * (isqrt n + 1)"
proof (induction n rule: isqrt.induct)
  case (1 n)
  show ?case
  proof (cases "n = 0")
    case True
    then show ?thesis by (simp add: isqrt.simps)
  next
    case False
    define q where "q = isqrt (n div 4)"
    from 1 [OF False] have lo: "q * q \<le> n div 4" and hi: "n div 4 < (q + 1) * (q + 1)"
      by (simp_all add: q_def)
    from lo have lo': "(2 * q) * (2 * q) \<le> n" by simp
    from hi have "n div 4 + 1 \<le> (q + 1) * (q + 1)" by simp
    then have "4 * (n div 4 + 1) \<le> (2 * q + 2) * (2 * q + 2)" by (simp add: algebra_simps)
    moreover have "n < 4 * (n div 4 + 1)" by simp
    ultimately have hi': "n < (2 * q + 2) * (2 * q + 2)" by linarith
    from False lo' hi' show ?thesis
      by (simp add: isqrt.simps [of n] q_def [symmetric] Let_def not_le)
  qed
qed

end
