(* ===== verification/Decimal_Arith.thy ===== *)
theory Decimal_Arith
  imports Prelude
begin

text \<open>
  The fixed-point decimals of \<open>decimal/decimal.go\<close>: an unbounded integer \<open>Val\<close> scaled by a
  number \<open>Precition\<close> of decimal places. A Go \<open>*Decimal\<close> may be \<open>nil\<close>, and every method accepts a
  \<open>nil\<close> receiver, so a pointer is a \<open>Decimal option\<close>. \<open>Add\<close>, \<open>Sub\<close> and \<open>Cmp\<close> panic when the
  precisions differ, \<open>Div\<close> on a zero divisor, \<open>Sqrt\<close> on a negative value and every use of
  \<open>precisionFactor\<close> on a precision above 18: such a method returns an option, \<open>None\<close> for the panic.

  The lemmas give the exact grammar and value of \<open>NewDecimalFromString\<close>, the round trip with
  \<open>String\<close>, and the value of the arithmetic on decimals of one precision.
\<close>

record Decimal =
  Precition :: nat
  Val :: int

type_synonym decp = "Decimal option"

definition MAX_PRECISION :: nat where
  "MAX_PRECISION = 18"

definition precisionFactor :: "nat \<Rightarrow> int option" where
  "precisionFactor p = (if p < 19 then Some (10 ^ p) else None)"

section \<open>Constructors\<close>

definition NewDecimal :: "u64 \<Rightarrow> nat \<Rightarrow> decp" where
  "NewDecimal v p =
     (let p = (if p > MAX_PRECISION then MAX_PRECISION else p)
      in Some \<lparr>Precition = p, Val = uint v\<rparr>)"

definition NewDecimalCopy :: "decp \<Rightarrow> decp" where
  "NewDecimalCopy other =
     (case other of None \<Rightarrow> None | Some d \<Rightarrow> Some \<lparr>Precition = Precition d, Val = Val d\<rparr>)"

definition NewDecimalFromString :: "string \<Rightarrow> nat \<Rightarrow> (string + Decimal) option" where
  "NewDecimalFromString s maxPrecision =
     (if s = '''' then Some (Inl ''empty string'')
      else
        let parts = go_split CHR ''.'' s
        in if length parts > 2 then Some (Inl ''invalid decimal format'')
        else
          let integerPartStr = parts ! 0
          in if integerPartStr = '''' \<or> integerPartStr ! 0 = CHR ''+'' then Some (Inl ''empty integer'')
          else (case big_SetString integerPartStr of
              None \<Rightarrow> Some (Inl ''invalid integer format'')
            | Some integerPart \<Rightarrow>
                let decimalPart =
                  (if length parts = 2 then
                     let decimalPartStr = parts ! 1
                     in if decimalPartStr = '''' \<or> decimalPartStr ! 0 = CHR ''-'' \<or> decimalPartStr ! 0 = CHR ''+''
                        then Inl ''empty decimal''
                        else
                          let currPrecision = length decimalPartStr
                          in if currPrecision > maxPrecision then Inl ''decimal exceeds maximum precision''
                          else
                            let n = maxPrecision - currPrecision;
                                decimalPartStr = decimalPartStr @ replicate n CHR ''0''
                            in (case big_SetString decimalPartStr of
                                  None \<Rightarrow> Inl ''invalid decimal format''
                                | Some dp \<Rightarrow> if dp < 0 then Inl ''invalid decimal format'' else Inr dp)
                   else Inr 0)
                in (case decimalPart of
                      Inl e \<Rightarrow> Some (Inl e)
                    | Inr dp \<Rightarrow> do {
                        f \<leftarrow> precisionFactor maxPrecision;
                        let value = integerPart * f;
                        let value = (if value < 0 then value - dp else value + dp);
                        Some (Inr \<lparr>Precition = maxPrecision, Val = value\<rparr>) })))"

definition MustNewDecimalFromString :: "string \<Rightarrow> nat \<Rightarrow> Decimal option" where
  "MustNewDecimalFromString s maxPrecision =
     (let parts = go_split CHR ''.'' s;
          s = (if length parts = 2 then go_trim_right CHR ''.'' (go_trim_right CHR ''0'' s) else s)
      in do {
        r \<leftarrow> NewDecimalFromString s maxPrecision;
        (case r of Inl e \<Rightarrow> None | Inr val \<Rightarrow> Some val) })"

section \<open>Methods\<close>

text \<open>\<open>fmt.Sprintf("%0*d", w, n)\<close> on a natural number.\<close>

definition zero_padded :: "nat \<Rightarrow> nat \<Rightarrow> string" where
  "zero_padded w n = replicate (w - length (nat_string n)) CHR ''0'' @ nat_string n"

definition Decimal_String :: "decp \<Rightarrow> string option" where
  "Decimal_String dp =
     (case dp of None \<Rightarrow> Some ''0''
      | Some d \<Rightarrow> do {
          let value = nat \<bar>Val d\<bar>;
          f \<leftarrow> precisionFactor (Precition d);
          let quotient = value div nat f;
          let remainder = value mod nat f;
          let sign = (if Val d < 0 then ''-'' else '''');
          (if remainder = 0 then Some (sign @ nat_string quotient)
           else
             let decimalPart = go_trim_right CHR ''0'' (zero_padded (Precition d) remainder)
             in Some (sign @ nat_string quotient @ ''.'' @ decimalPart)) })"

definition Decimal_Add :: "decp \<Rightarrow> decp \<Rightarrow> decp option" where
  "Decimal_Add dp other =
     (case (dp, other) of
        (None, None) \<Rightarrow> Some None
      | (Some d, None) \<Rightarrow> Some (Some \<lparr>Precition = Precition d, Val = Val d\<rparr>)
      | (None, Some e) \<Rightarrow> Some (Some \<lparr>Precition = Precition e, Val = Val e\<rparr>)
      | (Some d, Some e) \<Rightarrow>
          if Precition d \<noteq> Precition e then None
          else Some (Some \<lparr>Precition = Precition d, Val = Val d + Val e\<rparr>))"

definition Decimal_Sub :: "decp \<Rightarrow> decp \<Rightarrow> decp option" where
  "Decimal_Sub dp other =
     (case (dp, other) of
        (None, None) \<Rightarrow> Some None
      | (Some d, None) \<Rightarrow> Some (Some \<lparr>Precition = Precition d, Val = Val d\<rparr>)
      | (None, Some e) \<Rightarrow> Some (Some \<lparr>Precition = Precition e, Val = - Val e\<rparr>)
      | (Some d, Some e) \<Rightarrow>
          if Precition d \<noteq> Precition e then None
          else Some (Some \<lparr>Precition = Precition d, Val = Val d - Val e\<rparr>))"

definition Decimal_Mul :: "decp \<Rightarrow> decp \<Rightarrow> decp" where
  "Decimal_Mul dp other =
     (case (dp, other) of
        (Some d, Some e) \<Rightarrow> Some \<lparr>Precition = Precition d, Val = Val d * Val e\<rparr>
      | _ \<Rightarrow> None)"

definition Decimal_Sqrt :: "decp \<Rightarrow> decp option" where
  "Decimal_Sqrt dp =
     (case dp of None \<Rightarrow> Some None
      | Some d \<Rightarrow> do { value \<leftarrow> big_Sqrt (Val d); Some (Some \<lparr>Precition = MAX_PRECISION, Val = value\<rparr>) })"

definition Decimal_Div :: "decp \<Rightarrow> decp \<Rightarrow> decp option" where
  "Decimal_Div dp other =
     (case (dp, other) of
        (Some d, Some e) \<Rightarrow> do { value \<leftarrow> big_Div (Val d) (Val e); Some (Some \<lparr>Precition = Precition d, Val = value\<rparr>) }
      | _ \<Rightarrow> Some None)"

definition Decimal_NewPrecition :: "decp \<Rightarrow> nat \<Rightarrow> decp option" where
  "Decimal_NewPrecition dp p =
     (case dp of None \<Rightarrow> Some None
      | Some d \<Rightarrow>
          let c = int (Precition d) - int p
          in if c = 0 then Some (Some d)
             else if c < 0 then None
             else do {
               f \<leftarrow> precisionFactor (nat c);
               val \<leftarrow> big_Div (Val d) f;
               Some (Some \<lparr>Precition = p, Val = val\<rparr>) })"

definition int_cmp :: "int \<Rightarrow> int \<Rightarrow> int" where
  "int_cmp a b = (if a < b then -1 else if a = b then 0 else 1)"

definition Decimal_Sign :: "decp \<Rightarrow> int" where
  "Decimal_Sign dp = (case dp of None \<Rightarrow> 0 | Some d \<Rightarrow> sgn (Val d))"

definition Decimal_Cmp :: "decp \<Rightarrow> decp \<Rightarrow> int option" where
  "Decimal_Cmp dp other =
     (case (dp, other) of
        (None, None) \<Rightarrow> Some 0
      | (Some d, None) \<Rightarrow> Some (sgn (Val d))
      | (None, Some e) \<Rightarrow> Some (- sgn (Val e))
      | (Some d, Some e) \<Rightarrow> if Precition d \<noteq> Precition e then None else Some (int_cmp (Val d) (Val e)))"

definition Decimal_CmpAlign :: "decp \<Rightarrow> decp \<Rightarrow> int" where
  "Decimal_CmpAlign dp other =
     (case (dp, other) of
        (None, None) \<Rightarrow> 0
      | (Some d, None) \<Rightarrow> sgn (Val d)
      | (None, Some e) \<Rightarrow> - sgn (Val e)
      | (Some d, Some e) \<Rightarrow> int_cmp (Val d) (Val e))"

definition MaxUint64 :: int where
  "MaxUint64 = 2 ^ 64 - 1"

definition Decimal_IsOverflowUint64 :: "decp \<Rightarrow> bool option" where
  "Decimal_IsOverflowUint64 dp =
     (case dp of None \<Rightarrow> Some False
      | Some d \<Rightarrow> do { f \<leftarrow> precisionFactor (Precition d); Some (Val d > MaxUint64 * f) })"

definition Decimal_GetMaxUint64 :: "decp \<Rightarrow> decp option" where
  "Decimal_GetMaxUint64 dp =
     (case dp of None \<Rightarrow> Some None
      | Some d \<Rightarrow> do {
          f \<leftarrow> precisionFactor (Precition d);
          Some (Some \<lparr>Precition = Precition d, Val = MaxUint64 * f\<rparr>) })"

text \<open>\<open>Value\<close> and \<open>Scan\<close>, the way a decimal is stored in a database column and read back.
  A \<open>nil\<close> decimal is stored as SQL NULL, and reading NULL leaves the receiver unchanged.\<close>

definition Decimal_Value :: "decp \<Rightarrow> string option option" where
  "Decimal_Value dp = (case dp of None \<Rightarrow> Some None | Some d \<Rightarrow> do { s \<leftarrow> Decimal_String dp; Some (Some s) })"

definition Decimal_Scan :: "Decimal \<Rightarrow> string option \<Rightarrow> Decimal outcome" where
  "Decimal_Scan d value =
     (case value of None \<Rightarrow> ret_nil d
      | Some v \<Rightarrow> do {
          r \<leftarrow> NewDecimalFromString v MAX_PRECISION;
          (case r of Inl err \<Rightarrow> ret_err err d
           | Inr dec \<Rightarrow> ret_nil (d\<lparr>Precition := Precition dec, Val := Val dec\<rparr>)) })"

section \<open>The abstract amount\<close>

text \<open>
  A pointer denotes an integer amount: \<open>nil\<close> is the amount 0. Two pointers can be combined without
  a panic when both have the precision \<open>p\<close>, \<open>nil\<close> having every precision.
\<close>

definition decval :: "decp \<Rightarrow> int" where
  "decval dp = (case dp of None \<Rightarrow> 0 | Some d \<Rightarrow> Val d)"

definition dec_ok :: "nat \<Rightarrow> decp \<Rightarrow> bool" where
  "dec_ok p dp = (case dp of None \<Rightarrow> True | Some d \<Rightarrow> Precition d = p)"

lemma decval_simps [simp]: "decval None = 0" "decval (Some d) = Val d"
  by (simp_all add: decval_def)

lemma dec_ok_simps [simp]: "dec_ok p None" "dec_ok p (Some d) \<longleftrightarrow> Precition d = p"
  by (simp_all add: dec_ok_def)

lemma NewDecimalCopy_id [simp]: "NewDecimalCopy d = d"
  by (simp add: NewDecimalCopy_def split: option.splits)

lemma NewDecimal_props [simp]:
  "decval (NewDecimal v p) = uint v" "p \<le> 18 \<Longrightarrow> dec_ok p (NewDecimal v p)"
  by (simp_all add: NewDecimal_def MAX_PRECISION_def Let_def)

lemma int_cmp_simps [simp]:
  "int_cmp a b < 0 \<longleftrightarrow> a < b" "int_cmp a b > 0 \<longleftrightarrow> a > b" "int_cmp a b = 0 \<longleftrightarrow> a = b"
  "int_cmp a b \<ge> 0 \<longleftrightarrow> a \<ge> b" "int_cmp a b \<le> 0 \<longleftrightarrow> a \<le> b"
  by (auto simp: int_cmp_def)

lemma Decimal_Sign_decval: "Decimal_Sign d = sgn (decval d)"
  by (simp add: Decimal_Sign_def split: option.splits)

lemma Decimal_Sign_simps [simp]:
  "Decimal_Sign d < 0 \<longleftrightarrow> decval d < 0" "Decimal_Sign d \<le> 0 \<longleftrightarrow> decval d \<le> 0"
  "Decimal_Sign d = 0 \<longleftrightarrow> decval d = 0" "0 < Decimal_Sign d \<longleftrightarrow> 0 < decval d"
  by (auto simp: Decimal_Sign_decval sgn_if)

lemma Decimal_Add_val: "Decimal_Add a b = Some c \<Longrightarrow> decval c = decval a + decval b"
  by (auto simp: Decimal_Add_def split: option.splits if_splits)

lemma Decimal_Sub_val: "Decimal_Sub a b = Some c \<Longrightarrow> decval c = decval a - decval b"
  by (auto simp: Decimal_Sub_def split: option.splits if_splits)

lemma Decimal_Cmp_val: "Decimal_Cmp a b = Some c \<Longrightarrow> c = int_cmp (decval a) (decval b)"
  by (auto simp: Decimal_Cmp_def int_cmp_def sgn_if split: option.splits if_splits)

lemma Decimal_Add_ok: "dec_ok p a \<Longrightarrow> dec_ok p b \<Longrightarrow> \<exists>c. Decimal_Add a b = Some c \<and> dec_ok p c"
  by (auto simp: Decimal_Add_def split: option.splits)

lemma Decimal_Sub_ok: "dec_ok p a \<Longrightarrow> dec_ok p b \<Longrightarrow> \<exists>c. Decimal_Sub a b = Some c \<and> dec_ok p c"
  by (auto simp: Decimal_Sub_def split: option.splits)

lemma Decimal_Cmp_ok:
  "dec_ok p a \<Longrightarrow> dec_ok p b \<Longrightarrow> Decimal_Cmp a b = Some (int_cmp (decval a) (decval b))"
  by (auto simp: Decimal_Cmp_def int_cmp_def sgn_if split: option.splits)

lemma Decimal_Mul_val: "Decimal_Mul a b = Some c \<Longrightarrow> Val c = decval a * decval b"
  by (auto simp: Decimal_Mul_def split: option.splits)

lemma Decimal_Div_val:
  "Decimal_Div a b = Some (Some c) \<Longrightarrow> 0 < decval b \<Longrightarrow> Val c = decval a div decval b"
  by (auto simp: Decimal_Div_def big_Div_def bind_Some_iff split: option.splits if_splits)

text \<open>
  What the components rely on when they move an amount from one account to another: the partial
  addition, subtraction and comparison of values that denote integers. The lemmas proved inside
  are the conservation facts every transfer between two accounts rests on.
\<close>

locale amounts =
  fixes ok :: "'d \<Rightarrow> bool"
    and val :: "'d \<Rightarrow> int"
    and add sub :: "'d \<Rightarrow> 'd \<Rightarrow> 'd option"
    and cmp :: "'d \<Rightarrow> 'd \<Rightarrow> int option"
  assumes add_total: "ok a \<Longrightarrow> ok b \<Longrightarrow> \<exists>c. add a b = Some c \<and> ok c"
    and sub_total: "ok a \<Longrightarrow> ok b \<Longrightarrow> \<exists>c. sub a b = Some c \<and> ok c"
    and cmp_total: "ok a \<Longrightarrow> ok b \<Longrightarrow> cmp a b = Some (int_cmp (val a) (val b))"
    and add_val: "add a b = Some c \<Longrightarrow> val c = val a + val b"
    and sub_val: "sub a b = Some c \<Longrightarrow> val c = val a - val b"
begin

lemma add_keeps_ok: "add a b = Some c \<Longrightarrow> ok a \<Longrightarrow> ok b \<Longrightarrow> ok c"
  using add_total by fastforce

lemma sub_keeps_ok: "sub a b = Some c \<Longrightarrow> ok a \<Longrightarrow> ok b \<Longrightarrow> ok c"
  using sub_total by fastforce

lemma cmp_val: "cmp a b = Some c \<Longrightarrow> ok a \<Longrightarrow> ok b \<Longrightarrow> c = int_cmp (val a) (val b)"
  using cmp_total by fastforce

lemma move_conserves:
  "sub a x = Some a' \<Longrightarrow> add b x = Some b' \<Longrightarrow> val a' + val b' = val a + val b"
  by (simp add: add_val sub_val)

lemma guarded_sub_nonneg:
  "cmp a x = Some c \<Longrightarrow> \<not> c < 0 \<Longrightarrow> ok a \<Longrightarrow> ok x \<Longrightarrow> sub a x = Some a' \<Longrightarrow> 0 \<le> val a'"
  by (auto simp: sub_val dest: cmp_val)

lemma move_total:
  assumes "ok a" "ok b" "ok x"
  shows "\<exists>a' b'. sub a x = Some a' \<and> add b x = Some b' \<and> ok a' \<and> ok b' \<and>
    val a' = val a - val x \<and> val b' = val b + val x"
  using sub_total [OF assms(1,3)] add_total [OF assms(2,3)] add_val sub_val by blast

end

interpretation dec: amounts "dec_ok p" decval Decimal_Add Decimal_Sub Decimal_Cmp for p :: nat
  by unfold_locales
    (auto simp: Decimal_Add_ok Decimal_Sub_ok Decimal_Cmp_ok dest: Decimal_Add_val Decimal_Sub_val)

section \<open>Parsing and printing\<close>

text \<open>The text of a sign, an integer part and a fractional part (empty for no fraction).\<close>

definition decimal_text :: "bool \<Rightarrow> string \<Rightarrow> string \<Rightarrow> string" where
  "decimal_text neg ip fp = (if neg then ''-'' else '''') @ ip @ (if fp = [] then [] else CHR ''.'' # fp)"

text \<open>The scaled value of such a text: the sign counts only where the integer part is not zero.\<close>

definition decimal_text_val :: "nat \<Rightarrow> bool \<Rightarrow> string \<Rightarrow> string \<Rightarrow> int" where
  "decimal_text_val p neg ip fp =
     (let m = int (digits_val ip * 10 ^ p + digits_val fp * 10 ^ (p - length fp))
      in if neg \<and> digits_val ip \<noteq> 0 then - m else m)"

lemma list_all_digit_no: "list_all is_digit s \<Longrightarrow> CHR ''.'' \<notin> set s"
  by (auto simp: list_all_iff dest: is_digit_neq(1))

lemma hd_digit: "list_all is_digit s \<Longrightarrow> s \<noteq> [] \<Longrightarrow> is_digit (s ! 0)"
  by (cases s) auto

lemma big_SetString_Some:
  assumes "big_SetString s = Some n" and "s ! 0 \<noteq> CHR ''+''"
  shows "\<exists>neg ds. s = (if neg then ''-'' else '''') @ ds \<and> ds \<noteq> [] \<and> list_all is_digit ds \<and>
    n = (if neg then - int (digits_val ds) else int (digits_val ds))"
proof (cases s)
  case Nil
  with assms show ?thesis by (simp add: big_SetString_def)
next
  case (Cons c cs)
  show ?thesis
  proof (cases "c = CHR ''-''")
    case True
    with assms Cons show ?thesis
      by (intro exI [of _ True] exI [of _ cs]) (auto simp: big_SetString_def split: if_splits)
  next
    case False
    with assms Cons show ?thesis
      by (intro exI [of _ False] exI [of _ s]) (auto simp: big_SetString_def split: if_splits)
  qed
qed

lemma digits_val_pad:
  "length fp \<le> p \<Longrightarrow> digits_val (fp @ replicate (p - length fp) CHR ''0'') = digits_val fp * 10 ^ (p - length fp)"
  by (simp add: digits_val_append)

lemma is_digit_zero [simp]: "is_digit CHR ''0''"
  by (simp add: is_digit_def)

lemma list_all_replicate: "P x \<Longrightarrow> list_all P (replicate n x)"
  by (induction n) auto

lemma parse_text:
  assumes p: "p \<le> 18" and ip: "ip \<noteq> []" "list_all is_digit ip"
    and fp: "list_all is_digit fp" "length fp \<le> p"
  shows "NewDecimalFromString (decimal_text neg ip fp) p =
    Some (Inr \<lparr>Precition = p, Val = decimal_text_val p neg ip fp\<rparr>)"
proof -
  let ?i = "(if neg then ''-'' else '''') @ ip"
  have nosep: "CHR ''.'' \<notin> set ?i"
    using list_all_digit_no [OF ip(2)] by auto
  have split: "go_split CHR ''.'' (decimal_text neg ip fp) = (if fp = [] then [?i] else [?i, fp])"
  proof (cases "fp = []")
    case True
    then show ?thesis using go_split_no_sep [OF nosep] by (simp add: decimal_text_def)
  next
    case False
    then have "decimal_text neg ip fp = ?i @ CHR ''.'' # fp" by (simp add: decimal_text_def)
    with False go_split_once [OF nosep, of fp] go_split_no_sep [OF list_all_digit_no [OF fp(1)]]
    show ?thesis by simp
  qed
  have i0: "?i \<noteq> []" "?i ! 0 \<noteq> CHR ''+''"
    using ip hd_digit [OF ip(2,1)] by auto
  have iv: "big_SetString ?i = Some (if neg then - int (digits_val ip) else int (digits_val ip))"
    using ip by (simp add: big_SetString_digits big_SetString_neg)
  let ?f = "fp @ replicate (p - length fp) CHR ''0''"
  have fv: "fp \<noteq> [] \<Longrightarrow> big_SetString ?f = Some (int (digits_val fp * 10 ^ (p - length fp)))"
    using fp by (subst big_SetString_digits) (auto simp: list_all_replicate digits_val_pad)
  have f0: "fp \<noteq> [] \<Longrightarrow> fp ! 0 \<noteq> CHR ''-'' \<and> fp ! 0 \<noteq> CHR ''+''"
    using hd_digit [OF fp(1)] by auto
  have ne: "decimal_text neg ip fp \<noteq> []" using i0(1) by (simp add: decimal_text_def)
  have pf: "precisionFactor p = Some (10 ^ p)" using p by (simp add: precisionFactor_def)
  have neg0: "- (int (digits_val ip) * 10 ^ p) < 0 \<longleftrightarrow> digits_val ip \<noteq> 0"
    by (simp add: zero_less_mult_iff)
  have pos0: "\<not> (int (digits_val ip) * 10 ^ p < 0)" by (simp add: not_less)
  have fpos: "\<not> (int (digits_val fp) * 10 ^ (p - length fp) < 0)" by (simp add: not_less)
  show ?thesis
    using ne i0 f0 iv fv split fp(2) pf neg0 pos0 fpos
    by (cases "fp = []"; cases neg)
      (simp_all add: NewDecimalFromString_def decimal_text_val_def Let_def)
qed

lemma parse_Some:
  assumes p: "p \<le> 18" and r: "NewDecimalFromString s p = Some (Inr d)"
  shows "\<exists>neg ip fp. s = decimal_text neg ip fp \<and> ip \<noteq> [] \<and> list_all is_digit ip \<and>
    list_all is_digit fp \<and> length fp \<le> p"
proof -
  let ?parts = "go_split CHR ''.'' s"
  have s: "s \<noteq> []" using r by (cases "s = []") (simp_all add: NewDecimalFromString_def)
  have len: "\<not> length ?parts > 2"
    using r s by (cases "length ?parts > 2") (simp_all add: NewDecimalFromString_def)
  have i: "\<not> (?parts ! 0 = [] \<or> ?parts ! 0 ! 0 = CHR ''+'')"
    using r s len by (cases "?parts ! 0 = [] \<or> ?parts ! 0 ! 0 = CHR ''+''") (auto simp: NewDecimalFromString_def)
  then have i0: "?parts ! 0 \<noteq> []" "?parts ! 0 ! 0 \<noteq> CHR ''+''" by simp_all
  obtain n where n: "big_SetString (?parts ! 0) = Some n"
    using r s len i by (cases "big_SetString (?parts ! 0)") (auto simp: NewDecimalFromString_def)
  from big_SetString_Some [OF n i0(2)] obtain neg ip where
    ip: "?parts ! 0 = (if neg then ''-'' else '''') @ ip" "ip \<noteq> []" "list_all is_digit ip"
    by blast
  have "0 < length ?parts" by simp
  with len consider "length ?parts = 1" | "length ?parts = 2" by linarith
  then show ?thesis
  proof cases
    case 1
    then obtain a where a: "?parts = [a]" by (cases ?parts) auto
    with ip have "s = decimal_text neg ip []"
      using go_split_one [OF a] by (auto simp: decimal_text_def)
    with ip show ?thesis by (intro exI [of _ neg] exI [of _ ip] exI [of _ "[]"]) simp
  next
    case 2
    then obtain a b where ab: "?parts = [a, b]"
      by (auto simp: numeral_2_eq_2 length_Suc_conv)
    have r': "NewDecimalFromString s p = (case
        (if b = '''' \<or> b ! 0 = CHR ''-'' \<or> b ! 0 = CHR ''+'' then Inl ''empty decimal''
         else if length b > p then Inl ''decimal exceeds maximum precision''
         else (case big_SetString (b @ replicate (p - length b) CHR ''0'') of
            None \<Rightarrow> Inl ''invalid decimal format''
          | Some dp \<Rightarrow> if dp < 0 then Inl ''invalid decimal format'' else Inr dp))
        of Inl e \<Rightarrow> Some (Inl e)
         | Inr dp \<Rightarrow> do { f \<leftarrow> precisionFactor p;
             Some (Inr \<lparr>Precition = p, Val = (if n * f < 0 then n * f - dp else n * f + dp)\<rparr>) })"
      using s i n by (simp add: NewDecimalFromString_def ab Let_def)
    have b: "b \<noteq> []" "b ! 0 \<noteq> CHR ''-''" "b ! 0 \<noteq> CHR ''+''" "length b \<le> p"
      using r unfolding r' by (auto split: if_splits)
    obtain m where m: "big_SetString (b @ replicate (p - length b) CHR ''0'') = Some m"
      using r b unfolding r' by (auto split: option.splits)
    have hd: "(b @ replicate (p - length b) CHR ''0'') ! 0 = b ! 0"
      using b(1) by (simp add: nth_append)
    from big_SetString_Some [OF m] hd b obtain g ds where
      ds: "b @ replicate (p - length b) CHR ''0'' = (if g then ''-'' else '''') @ ds" "list_all is_digit ds"
      by auto
    have "\<not> g" using ds(1) hd b(2) by (cases b) auto
    with ds have "list_all is_digit b" by (metis append_Nil list_all_append)
    moreover have "s = decimal_text neg ip b"
      using go_split_two [OF ab] ip ab b by (simp add: decimal_text_def)
    ultimately show ?thesis using ip b by blast
  qed
qed

text \<open>
  C35. \<open>NewDecimalFromString(s, p)\<close> accepts exactly the texts of an optional minus sign, a non-empty
  digit string and optionally a point with between 1 and \<open>p\<close> digits, and the decimal it returns has
  precision \<open>p\<close> and the value of the text scaled by \<open>10 ^ p\<close>; a minus sign in front of an integer
  part that is zero is ignored.
\<close>

theorem NewDecimalFromString_grammar:
  assumes "p \<le> 18"
  shows "NewDecimalFromString s p = Some (Inr d) \<longleftrightarrow>
    (\<exists>neg ip fp. s = decimal_text neg ip fp \<and> ip \<noteq> [] \<and> list_all is_digit ip \<and>
       list_all is_digit fp \<and> length fp \<le> p \<and> d = \<lparr>Precition = p, Val = decimal_text_val p neg ip fp\<rparr>)"
    (is "?L \<longleftrightarrow> ?R")
proof
  assume l: ?L
  from parse_Some [OF assms l] obtain neg ip fp where
    t: "s = decimal_text neg ip fp" "ip \<noteq> []" "list_all is_digit ip" "list_all is_digit fp" "length fp \<le> p"
    by blast
  with parse_text [OF assms t(2-5), of neg] l show ?R by auto
next
  assume ?R
  then show ?L using parse_text [OF assms] by auto
qed

theorem NewDecimalFromString_grammar_witness:
  "(2::nat) \<le> 18 \<and> NewDecimalFromString ''-7.5'' 2 = Some (Inr \<lparr>Precition = 2, Val = -750\<rparr>)"
proof -
  have p: "(2::nat) \<le> 18" by simp
  have v: "decimal_text_val 2 True ''7'' ''5'' = -750"
    by (simp add: decimal_text_val_def digits_val_def digit_val_def)
  have "\<exists>neg ip fp. ''-7.5'' = decimal_text neg ip fp \<and> ip \<noteq> [] \<and> list_all is_digit ip \<and>
    list_all is_digit fp \<and> length fp \<le> 2 \<and>
    \<lparr>Precition = 2, Val = -750\<rparr> = \<lparr>Precition = 2, Val = decimal_text_val 2 neg ip fp\<rparr>"
    by (intro exI [of _ True] exI [of _ "''7''"] exI [of _ "''5''"])
      (simp add: decimal_text_def is_digit_def v)
  then show ?thesis
    using NewDecimalFromString_grammar [OF p, of "''-7.5''" "\<lparr>Precition = 2, Val = -750\<rparr>"] p by simp
qed

lemma zero_padded_props:
  assumes "r < 10 ^ p" and "0 < p"
  shows "length (zero_padded p r) = p" and "digits_val (zero_padded p r) = r" and "list_all is_digit (zero_padded p r)"
proof -
  show "length (zero_padded p r) = p"
    using length_nat_string_le [OF assms] by (simp add: zero_padded_def)
  show "digits_val (zero_padded p r) = r"
    by (simp add: zero_padded_def digits_val_append)
  show "list_all is_digit (zero_padded p r)"
    by (simp add: zero_padded_def list_all_replicate)
qed

lemma trimmed_fraction:
  assumes "r < 10 ^ p" and "r \<noteq> 0"
  defines "fp \<equiv> go_trim_right CHR ''0'' (zero_padded p r)"
  shows "list_all is_digit fp" and "length fp \<le> p" and "fp \<noteq> []"
    and "digits_val fp * 10 ^ (p - length fp) = r"
proof -
  from assms(1,2) have p: "0 < p" by (cases p) auto
  note z = zero_padded_props [OF assms(1) p]
  have d: "zero_padded p r = fp @ replicate (p - length fp) CHR ''0''"
    using go_trim_right_decomp [of "zero_padded p r" "CHR ''0''"] by (simp add: fp_def z(1))
  from z(3) d show "list_all is_digit fp" by (metis list_all_append)
  from d z(1) show len: "length fp \<le> p" by (metis le_add1 length_append)
  from z(2) d have "digits_val (fp @ replicate (p - length fp) CHR ''0'') = r" by simp
  with digits_val_pad [OF len] show v: "digits_val fp * 10 ^ (p - length fp) = r" by simp
  with assms(2) show "fp \<noteq> []" by auto
qed

lemma String_text:
  assumes "p \<le> 18"
  shows "\<exists>ip fp. Decimal_String (Some \<lparr>Precition = p, Val = v\<rparr>) = Some (decimal_text (v < 0) ip fp) \<and>
    ip \<noteq> [] \<and> list_all is_digit ip \<and> list_all is_digit fp \<and> length fp \<le> p \<and>
    digits_val ip = nat \<bar>v\<bar> div 10 ^ p \<and> digits_val fp * 10 ^ (p - length fp) = nat \<bar>v\<bar> mod 10 ^ p"
proof -
  let ?q = "nat \<bar>v\<bar> div 10 ^ p" and ?r = "nat \<bar>v\<bar> mod 10 ^ p"
  have pf: "precisionFactor p = Some (10 ^ p)" using assms by (simp add: precisionFactor_def)
  have n: "nat ((10::int) ^ p) = 10 ^ p" by (simp add: nat_power_eq)
  show ?thesis
  proof (cases "?r = 0")
    case True
    then show ?thesis
      by (intro exI [of _ "nat_string ?q"] exI [of _ "[]"])
        (simp add: Decimal_String_def pf n decimal_text_def Let_def)
  next
    case False
    have lt: "?r < 10 ^ p" by simp
    note f = trimmed_fraction [OF lt False]
    show ?thesis
      using f False
      by (intro exI [of _ "nat_string ?q"] exI [of _ "go_trim_right CHR ''0'' (zero_padded p ?r)"])
        (simp add: Decimal_String_def pf n decimal_text_def Let_def)
  qed
qed

lemma parse_String:
  assumes "p \<le> 18"
  shows "\<exists>s. Decimal_String (Some \<lparr>Precition = p, Val = v\<rparr>) = Some s \<and>
    NewDecimalFromString s p = Some (Inr \<lparr>Precition = p, Val = (if v \<le> - (10 ^ p) then v else \<bar>v\<bar>)\<rparr>)"
proof -
  from String_text [OF assms] obtain ip fp where
    s: "Decimal_String (Some \<lparr>Precition = p, Val = v\<rparr>) = Some (decimal_text (v < 0) ip fp)"
    and t: "ip \<noteq> []" "list_all is_digit ip" "list_all is_digit fp" "length fp \<le> p"
    and q: "digits_val ip = nat \<bar>v\<bar> div 10 ^ p" and r: "digits_val fp * 10 ^ (p - length fp) = nat \<bar>v\<bar> mod 10 ^ p"
    by blast
  have m: "int (digits_val ip * 10 ^ p + digits_val fp * 10 ^ (p - length fp)) = \<bar>v\<bar>"
    by (simp only: q r div_mult_mod_eq)
  have "digits_val ip = 0 \<longleftrightarrow> \<bar>v\<bar> < 10 ^ p"
    by (simp add: q div_eq_0_iff nat_less_iff)
  then have "decimal_text_val p (v < 0) ip fp = (if v \<le> - (10 ^ p) then v else \<bar>v\<bar>)"
    by (auto simp: decimal_text_val_def Let_def m simp del: of_nat_add of_nat_mult)
  with s parse_text [OF assms t, of "v < 0"] show ?thesis by auto
qed

text \<open>
  C36. When printing and parsing a decimal gives it back. The text of a decimal, parsed at its precision, is
  the decimal again exactly when the precision is at most 18 and the value is at most -1 or not negative: a
  greater precision panics, and a value strictly between -1 and 0 loses its sign.
\<close>

theorem String_parse_roundtrip:
  "(\<exists>s. Decimal_String (Some d) = Some s \<and> NewDecimalFromString s (Precition d) = Some (Inr d)) \<longleftrightarrow>
     Precition d \<le> 18 \<and> (Val d \<le> - (10 ^ Precition d) \<or> 0 \<le> Val d)"
proof (cases "Precition d \<le> 18")
  case True
  from parse_String [OF this, of "Val d"] obtain s where
    "Decimal_String (Some d) = Some s" "NewDecimalFromString s (Precition d) =
       Some (Inr \<lparr>Precition = Precition d, Val = (if Val d \<le> - (10 ^ Precition d) then Val d else \<bar>Val d\<bar>)\<rparr>)" by (cases d) auto
  with True show ?thesis by (cases d) auto
next
  case False
  then show ?thesis by (simp add: Decimal_String_def precisionFactor_def)
qed

text \<open>
  C37. A decimal strictly between -1 and 0 loses its sign when it is printed and parsed back: the parser
  reads the text \<open>-0.5\<close> as 0.5, because it takes the sign from the integer part alone.
\<close>

theorem String_parse_sign_lost:
  assumes "Precition d \<le> 18" and "- (10 ^ Precition d) < Val d" and "Val d < 0"
  shows "\<exists>s. Decimal_String (Some d) = Some s \<and>
    NewDecimalFromString s (Precition d) = Some (Inr (d\<lparr>Val := - Val d\<rparr>))"
  using parse_String [OF assms(1), of "Val d"] assms(2,3) by (cases d) auto

theorem String_parse_sign_lost_witness:
  "\<exists>s. Decimal_String (Some \<lparr>Precition = 1, Val = -5\<rparr>) = Some s \<and>
    NewDecimalFromString s 1 = Some (Inr \<lparr>Precition = 1, Val = 5\<rparr>)"
  using String_parse_sign_lost [of "\<lparr>Precition = 1, Val = -5\<rparr>"] by simp

end
