(* ===== verification/Go_Env.thy ===== *)
theory Go_Env
  imports Prelude
begin

text \<open>
  The environment of the indexer and the helper functions of \<open>utils/utils.go\<close>.

  \<open>ext\<close> collects what the sources import and what a run is configured with: the Unicode tables
  behind \<open>strings.ToLower\<close>, the JSON parser of \<open>encoding/json\<close>, SHA-256, btcsuite's address codec,
  the BIP-322 signature check of btcsuite's script engine, the clock, and the variables of
  \<open>conf/conf.go\<close>. Every definition that uses one of them takes the environment as an argument, so
  the theorems hold for every choice of it.

  The lemmas show that a module identifier has exactly one script address.
\<close>

section \<open>JSON values\<close>

datatype json =
    JNull
  | JBool bool
  | JNum string \<comment> \<open>the literal\<close>
  | JStr string
  | JArr "json list"
  | JObj "(string \<times> json) list" \<comment> \<open>members in order, duplicates kept\<close>

text \<open>A token of \<open>json.Decoder\<close>: a delimiter, a string, or another value.\<close>

datatype jtoken = TDelim char | TString string | TValue

record ext =
  ext_unicode_lower :: "string \<Rightarrow> string"
  ext_json_parse :: "string \<Rightarrow> json option"
  ext_float_ok :: "string \<Rightarrow> bool" \<comment> \<open>\<open>strconv.ParseFloat(lit, 64)\<close> succeeds\<close>
  ext_json_tokens :: "string \<Rightarrow> (jtoken \<times> u64) list \<times> bool"
    \<comment> \<open>what \<open>Decoder.Token\<close> returns, each token with \<open>InputOffset\<close> after it; whether \<open>io.EOF\<close> ends it\<close>
  ext_sha256 :: "string \<Rightarrow> string"
  ext_address_script :: "string \<Rightarrow> string option option"
    \<comment> \<open>\<open>DecodeAddress\<close> fails, or \<open>PayToAddrScript\<close> fails, or the script\<close>
  ext_bip322_verify :: "string list \<Rightarrow> string \<Rightarrow> string \<Rightarrow> bool"
  ext_range :: "string list \<Rightarrow> string list" \<comment> \<open>the order in which \<open>range\<close> visits the keys of a map\<close>
  ext_now_unix :: u32
  conf_MODULE_SWAP_SOURCE_INSCRIPTION_ID :: string
  conf_TICKS_ENABLED :: string
  conf_ENABLE_SELF_MINT_HEIGHT :: u32
  conf_ENABLE_SWAP_WITHDRAW_HEIGHT :: u32

definition ToLower :: "ext \<Rightarrow> string \<Rightarrow> string" where
  "ToLower e s = go_to_lower (ext_unicode_lower e) s"

lemma ToLower_ascii: "list_all is_ascii s \<Longrightarrow> ToLower e s = map ascii_lower s"
  by (simp add: ToLower_def go_to_lower_def)

text \<open>Decoding into \<open>interface{}\<close> fails on a number that is no \<open>float64\<close>, at any depth.\<close>

fun json_numbers_ok :: "ext \<Rightarrow> json \<Rightarrow> bool" where
  "json_numbers_ok e (JNum l) = ext_float_ok e l"
| "json_numbers_ok e (JArr js) = list_all (json_numbers_ok e) js"
| "json_numbers_ok e (JObj ms) = list_all (\<lambda>m. json_numbers_ok e (snd m)) ms"
| "json_numbers_ok e _ = True"

text \<open>\<open>json.Unmarshal\<close> into a \<open>map[string]interface{}\<close>: the last of two equal keys wins.\<close>

definition json_to_map :: "ext \<Rightarrow> string \<Rightarrow> (string \<rightharpoonup> json) option" where
  "json_to_map e content =
     (case ext_json_parse e content of
        Some (JObj ms) \<Rightarrow> if json_numbers_ok e (JObj ms) then Some (map_of (rev ms)) else None
      | Some JNull \<Rightarrow> Some Map.empty
      | _ \<Rightarrow> None)"

text \<open>The type assertion \<open>v, ok := m[k].(string)\<close>.\<close>

definition as_string :: "json option \<Rightarrow> string option" where
  "as_string v = (case v of Some (JStr s) \<Rightarrow> Some s | _ \<Rightarrow> None)"

definition string_or :: "string \<Rightarrow> json option \<Rightarrow> string" where
  "string_or d v = (case as_string v of Some s \<Rightarrow> s | None \<Rightarrow> d)"

text \<open>
  \<open>json.Unmarshal\<close> into a struct matches a key with a field name up to letter case, where the long
  s and the Kelvin sign fold to \<open>s\<close> and \<open>k\<close>.
\<close>

fun json_fold :: "string \<Rightarrow> string" where
  "json_fold (a # b # c # s) =
     (if a = CHR 0xe2 \<and> b = CHR 0x84 \<and> c = CHR 0xaa then CHR ''k'' # json_fold s
      else if a = CHR 0xc5 \<and> b = CHR 0xbf then CHR ''s'' # json_fold (c # s)
      else ascii_lower a # json_fold (b # c # s))"
| "json_fold [a, b] = (if a = CHR 0xc5 \<and> b = CHR 0xbf then ''s'' else [ascii_lower a, ascii_lower b])"
| "json_fold [a] = [ascii_lower a]"
| "json_fold [] = []"

section \<open>Package utils\<close>

definition byte_at :: "string \<Rightarrow> nat \<Rightarrow> nat" where
  "byte_at s i = of_char (s ! i)"

definition DecodeTokensFromSwapPair :: "string \<Rightarrow> (string \<times> string) option" where
  "DecodeTokensFromSwapPair tickPair =
     (if length tickPair \<noteq> 9 \<or> tickPair ! 4 \<noteq> CHR ''/'' then None
      else Some (take 4 tickPair, drop 5 tickPair))"

definition GetValidUniqueLowerTickerTicker :: "ext \<Rightarrow> string \<Rightarrow> string option" where
  "GetValidUniqueLowerTickerTicker e ticker =
     (if length ticker \<noteq> 4 \<and> length ticker \<noteq> 5 then None else Some (ToLower e ticker))"

definition GetSha256 :: "ext \<Rightarrow> string \<Rightarrow> string" where
  "GetSha256 e s = ext_sha256 e s"

definition GetHash256 :: "ext \<Rightarrow> string \<Rightarrow> string" where
  "GetHash256 e s = ext_sha256 e (ext_sha256 e s)"

definition HashString :: "string \<Rightarrow> string" where
  "HashString s = (if length s \<noteq> 32 then replicate 64 CHR ''0'' else hex_encode (rev s))"

definition ReverseBytes :: "string \<Rightarrow> string" where
  "ReverseBytes s = foldl (\<lambda>result b. [b] @ result) [] s"

definition GetPkScriptByAddress :: "ext \<Rightarrow> string \<Rightarrow> string option" where
  "GetPkScriptByAddress e addr =
     (if length addr = 0 then None
      else case ext_address_script e addr of
        None \<Rightarrow>
          if length addr \<noteq> 68 \<or> \<not> prefix ''6a20'' addr then None
          else hex_decode addr
      | Some None \<Rightarrow> None
      | Some (Some pk) \<Rightarrow> Some pk)"

text \<open>A little-endian number of up to four bytes.\<close>

fun le_val :: "string \<Rightarrow> nat" where
  "le_val [] = 0"
| "le_val (c # cs) = of_char c + 256 * le_val cs"

definition slice :: "string \<Rightarrow> nat \<Rightarrow> nat \<Rightarrow> string" where
  "slice s i j = take (j - i) (drop i s)"

definition GetModuleFromScript :: "string \<Rightarrow> string option" where
  "GetModuleFromScript script =
     (let n = length script
      in if n < 34 \<or> n > 38 then None
      else if byte_at script 0 \<noteq> 0x6a then None
      else if byte_at script 1 + 2 \<noteq> n then None
      else if n > 34 \<and> byte_at script (n - 1) = 0 then None
      else
        let l = byte_at script 1;
            idx = (if l \<le> 32 then 0
                   else if l \<le> 33 then byte_at script 34
                   else if l \<le> 34 then le_val (slice script 34 36)
                   else if l \<le> 35 then byte_at script 34 + 256 * byte_at script 35 + 65536 * byte_at script 36
                   else if l \<le> 36 then le_val (slice script 34 38)
                   else 0)
        in Some (HashString (slice script 2 34) @ ''i'' @ nat_string idx))"

definition DecodeInscriptionFromBin :: "string \<Rightarrow> string" where
  "DecodeInscriptionFromBin script =
     (let n = length script
      in if n < 32 \<or> n > 36 then ''''
      else
        let idx = (if n = 32 then 0
                   else if n \<le> 33 then byte_at script 32
                   else if n \<le> 34 then le_val (slice script 32 34)
                   else if n \<le> 35 then byte_at script 32 + 256 * byte_at script 33 + 65536 * byte_at script 34
                   else if n \<le> 36 then le_val (slice script 32 36)
                   else 0)
        in HashString (slice script 0 32) @ ''i'' @ nat_string idx)"

section \<open>Lemmas\<close>

lemma ReverseBytes_rev: "ReverseBytes s = rev s"
proof -
  have "foldl (\<lambda>result b. [b] @ result) acc s = rev s @ acc" for acc
    by (induction s arbitrary: acc) auto
  then show ?thesis by (simp add: ReverseBytes_def)
qed

lemma hex_encode_Cons:
  "hex_encode (c # s) = hex_digit (of_char c div 16) # hex_digit (of_char c mod 16) # hex_encode s"
  by (simp add: hex_encode_def)

lemma length_hex_encode [simp]: "length (hex_encode s) = 2 * length s"
  by (induction s) (auto simp: hex_encode_def)

lemma of_char_div_16 [simp]: "(of_char c :: nat) div 16 < 16"
  using of_char_bound [of c] by (simp add: less_mult_imp_div_less)

lemma hex_decode_encode [simp]: "hex_decode (hex_encode s) = Some s"
proof (induction s)
  case (Cons c s)
  then show ?case by (simp add: hex_encode_Cons)
qed (simp add: hex_encode_def)

lemma hex_encode_inject: "hex_encode s = hex_encode t \<Longrightarrow> s = t"
  by (metis hex_decode_encode option.inject)

lemma HashString_inject: "length s = 32 \<Longrightarrow> length t = 32 \<Longrightarrow> HashString s = HashString t \<Longrightarrow> s = t"
  by (auto simp: HashString_def dest: hex_encode_inject)

lemma length_HashString [simp]: "length (HashString s) = 64"
  by (simp add: HashString_def)

lemma nat_string_inject: "nat_string m = nat_string n \<Longrightarrow> m = n"
  by (metis digits_val_nat_string)

lemma of_char_nat_inject: "(of_char c :: nat) = of_char d \<Longrightarrow> c = d"
  by (metis char_of_char)

text \<open>A little-endian number without a trailing zero byte determines its bytes.\<close>

lemma le_val_inject:
  assumes "le_val s = le_val t" and "s \<noteq> [] \<Longrightarrow> of_char (last s) \<noteq> (0::nat)"
    and "t \<noteq> [] \<Longrightarrow> of_char (last t) \<noteq> (0::nat)"
  shows "s = t"
  using assms
proof (induction s arbitrary: t)
  case Nil
  show ?case
  proof (rule ccontr)
    assume "[] \<noteq> t"
    moreover have "le_val t = 0 \<Longrightarrow> t \<noteq> [] \<Longrightarrow> of_char (last t) = (0::nat)" for t
      by (induction t) auto
    ultimately show False using Nil by auto
  qed
next
  case (Cons c s)
  have nz: "le_val u = 0 \<Longrightarrow> u \<noteq> [] \<Longrightarrow> of_char (last u) = (0::nat)" for u
    by (induction u) auto
  from Cons.prems nz [of "c # s"] have "le_val t \<noteq> 0" by auto
  then obtain d u where t: "t = d # u" by (cases t) auto
  have b: "(of_char c :: nat) < 256" "(of_char d :: nat) < 256" by simp_all
  from Cons.prems(1) t have eq: "of_char c + 256 * le_val s = (of_char d :: nat) + 256 * le_val u" by simp
  then have "(of_char c + 256 * le_val s) mod 256 = ((of_char d :: nat) + 256 * le_val u) mod 256" by simp
  with b have "(of_char c :: nat) = of_char d" by simp
  with eq have cd: "c = d" and "le_val s = le_val u" by (auto dest: of_char_nat_inject)
  moreover have "s \<noteq> [] \<Longrightarrow> of_char (last s) \<noteq> (0::nat)" "u \<noteq> [] \<Longrightarrow> of_char (last u) \<noteq> (0::nat)"
    using Cons.prems t by auto
  ultimately show ?case using Cons.IH t by blast
qed

definition script_idx :: "string \<Rightarrow> nat" where
  "script_idx script =
     (let l = byte_at script 1 in
      if l \<le> 32 then 0
      else if l \<le> 33 then byte_at script 34
      else if l \<le> 34 then le_val (slice script 34 36)
      else if l \<le> 35 then byte_at script 34 + 256 * byte_at script 35 + 65536 * byte_at script 36
      else if l \<le> 36 then le_val (slice script 34 38)
      else 0)"

lemma le_val_3: "length ix = 3 \<Longrightarrow> le_val ix = of_char (ix ! 0) + 256 * of_char (ix ! 1) + 65536 * of_char (ix ! 2)"
  by (cases ix; cases "tl ix"; cases "tl (tl ix)") auto

lemma script_idx_le_val:
  assumes l: "byte_at s 1 = 32 + length ix" and le: "length ix \<le> 4"
    and sl: "slice s 34 36 = take 2 ix" "slice s 34 38 = take 4 ix"
    and nth: "\<And>k. k < length ix \<Longrightarrow> byte_at s (34 + k) = of_char (ix ! k)"
  shows "script_idx s = le_val ix"
proof -
  consider "length ix = 0" | "length ix = 1" | "length ix = 2" | "length ix = 3" | "length ix = 4"
    using le by linarith
  then show ?thesis
  proof cases
    case 2
    then obtain c where "ix = [c]" by (cases ix) auto
    with l nth [of 0] show ?thesis by (simp add: script_idx_def)
  next
    case 4
    with l nth [of 0] nth [of 1] nth [of 2] show ?thesis by (simp add: script_idx_def le_val_3)
  qed (use l sl in \<open>simp_all add: script_idx_def\<close>)
qed

lemma GetModuleFromScript_decomp:
  assumes "GetModuleFromScript s = Some m"
  shows "\<exists>h ix. s = CHR 0x6a # char_of (32 + length ix) # h @ ix \<and> length h = 32 \<and> length ix \<le> 4 \<and>
    (ix \<noteq> [] \<longrightarrow> of_char (last ix) \<noteq> (0::nat)) \<and> m = HashString h @ ''i'' @ nat_string (le_val ix)"
proof -
  let ?n = "length s"
  from assms have n: "34 \<le> ?n" "?n \<le> 38" and b0: "byte_at s 0 = 0x6a" and b1: "byte_at s 1 + 2 = ?n"
    and tr: "?n > 34 \<longrightarrow> byte_at s (?n - 1) \<noteq> 0"
    by (auto simp: GetModuleFromScript_def Let_def split: if_splits)
  from n obtain a b r where s: "s = a # b # r"
    by (cases s; cases "tl s") auto
  define h where "h = take 32 r"
  define ix where "ix = drop 32 r"
  have r: "r = h @ ix" by (simp add: h_def ix_def)
  have lh: "length h = 32" and li: "length ix = ?n - 34" using n s by (simp_all add: h_def ix_def)
  have ba: "of_char a = (0x6a :: nat)" using b0 s by (simp add: byte_at_def)
  have "a = char_of (of_char a :: nat)" by simp
  then have "a = char_of (0x6a :: nat)" by (simp only: ba)
  then have a: "a = CHR 0x6a" by (simp add: char_of_def bit_0)
  have bb: "of_char b = 32 + length ix" using b1 s n li by (simp add: byte_at_def)
  have "b = char_of (of_char b :: nat)" by simp
  then have b: "b = char_of (32 + length ix)" by (simp only: bb)
  have last: "ix \<noteq> [] \<longrightarrow> of_char (last ix) \<noteq> (0::nat)"
  proof
    assume ne: "ix \<noteq> []"
    then have "last s = last ix" "s \<noteq> []" by (simp_all add: s r)
    then have "byte_at s (?n - 1) = of_char (last ix)" by (metis byte_at_def last_conv_nth)
    moreover have "?n > 34" using ne li by (cases ix) auto
    ultimately show "of_char (last ix) \<noteq> (0::nat)" using tr by simp
  qed
  have h': "slice s 2 34 = h" by (simp add: slice_def s h_def)
  have ix': "slice s 34 36 = take 2 ix" "slice s 34 38 = take 4 ix"
    by (simp_all add: slice_def s ix_def)
  have nth: "k < length ix \<Longrightarrow> byte_at s (34 + k) = of_char (ix ! k)" for k
    using lh by (simp add: byte_at_def s r nth_append nth_Cons')
  have ge1: "byte_at s 1 = 32 + length ix" using b1 n li by simp
  have nl: "?n = 34 + length ix" using n li by simp
  have "m = HashString h @ ''i'' @ nat_string (script_idx s)"
    using assms n b0 ge1 tr h' nl
    by (simp add: GetModuleFromScript_def script_idx_def Let_def split: if_splits)
  moreover have "script_idx s = le_val ix"
    using script_idx_le_val [OF ge1 _ ix' nth] n li by simp
  ultimately have "m = HashString h @ ''i'' @ nat_string (le_val ix)" by simp
  with s r a b lh li n last show ?thesis
    by (intro exI [of _ h] exI [of _ ix]) auto
qed

text \<open>
  A module identifier has exactly one script address: two scripts that \<open>GetModuleFromScript\<close> reads
  as the same module are equal (the check for a trailing zero byte makes the encoding canonical).
\<close>

theorem GetModuleFromScript_injective:
  assumes "GetModuleFromScript s = Some m" and "GetModuleFromScript t = Some m"
  shows "s = t"
proof -
  from GetModuleFromScript_decomp [OF assms(1)] obtain h ix where
    s: "s = CHR 0x6a # char_of (32 + length ix) # h @ ix" "length h = 32"
      "ix \<noteq> [] \<longrightarrow> of_char (last ix) \<noteq> (0::nat)" "m = HashString h @ ''i'' @ nat_string (le_val ix)"
    by blast
  from GetModuleFromScript_decomp [OF assms(2)] obtain k iy where
    t: "t = CHR 0x6a # char_of (32 + length iy) # k @ iy" "length k = 32"
      "iy \<noteq> [] \<longrightarrow> of_char (last iy) \<noteq> (0::nat)" "m = HashString k @ ''i'' @ nat_string (le_val iy)"
    by blast
  from s(4) t(4) have "HashString h = HashString k" "nat_string (le_val ix) = nat_string (le_val iy)"
    by (auto simp: append_eq_append_conv)
  then have "h = k" "le_val ix = le_val iy"
    using s(2) t(2) by (auto dest: HashString_inject nat_string_inject)
  with s(1,3) t(1,3) le_val_inject [of ix iy] show ?thesis by auto
qed

theorem GetModuleFromScript_injective_witness:
  "GetModuleFromScript (CHR 0x6a # CHR 0x21 # replicate 32 CHR 0x07 @ [CHR 0x05]) =
    Some (concat (replicate 32 ''07'') @ ''i5'') \<and>
   {t. GetModuleFromScript t = Some (concat (replicate 32 ''07'') @ ''i5'')} =
     {CHR 0x6a # CHR 0x21 # replicate 32 CHR 0x07 @ [CHR 0x05]}"
proof -
  have e: "GetModuleFromScript (CHR 0x6a # CHR 0x21 # replicate 32 CHR 0x07 @ [CHR 0x05]) =
    Some (concat (replicate 32 ''07'') @ ''i5'')"
    by code_simp
  show ?thesis using e GetModuleFromScript_injective [OF _ e] by blast
qed

section \<open>A concrete environment\<close>

text \<open>
  For the evaluation of the model on concrete inputs: no Unicode folding, every address is its own
  script, every signature is accepted, and the JSON parser knows one text.
\<close>

definition demo_env :: "json \<Rightarrow> ext" where
  "demo_env j =
     \<lparr>ext_unicode_lower = (\<lambda>s. s), ext_json_parse = (\<lambda>_. Some j), ext_float_ok = (\<lambda>_. True),
      ext_json_tokens = (\<lambda>_. ([], True)), ext_sha256 = (\<lambda>_. replicate 32 CHR 0x00),
      ext_address_script = (\<lambda>a. Some (Some a)), ext_bip322_verify = (\<lambda>_ _ _. True), ext_range = (\<lambda>ks. ks),
      ext_now_unix = 0, conf_MODULE_SWAP_SOURCE_INSCRIPTION_ID = '''', conf_TICKS_ENABLED = '''',
      conf_ENABLE_SELF_MINT_HEIGHT = 0, conf_ENABLE_SWAP_WITHDRAW_HEIGHT = 0\<rparr>"

end
