(* ===== verification/Brc20_Model.thy ===== *)
theory Brc20_Model
  imports Decimal_Arith Go_Env
begin

text \<open>
  The data model of the base token protocol (\<open>model/model.go\<close>): inscription events, the contents
  they carry, token information and balances.

  A field keeps its Go name behind a prefix that names its struct (\<open>d_\<close> for
  \<open>InscriptionBRC20Data\<close>, \<open>r_\<close> for \<open>InscriptionBRC20InfoResp\<close>, \<open>ti_\<close> for
  \<open>InscriptionBRC20TickInfo\<close>, \<open>tk_\<close> for \<open>BRC20TokenInfo\<close>, \<open>tb_\<close> for
  \<open>BRC20TokenBalance\<close>). A \<open>*decimal.Decimal\<close> is a \<open>decp\<close>, whose \<open>None\<close> is \<open>nil\<close>.
  A map that is only read, written and deleted by key is a HOL map; the code tests a \<open>nil\<close>
  \<open>ValidTransferMap\<close> before it writes it, so \<open>nil\<close> and the empty map are not distinguished.
\<close>

section \<open>Inscription events\<close>

definition le_bytes :: "nat \<Rightarrow> nat \<Rightarrow> string" where
  "le_bytes k n = map (\<lambda>i. char_of (n div 256 ^ i)) [0 ..< k]"

record NFTCreateIdxKey =
  k_Height :: u32
  k_IdxInBlock :: u64

definition NFTCreateIdxKey_String :: "NFTCreateIdxKey \<Rightarrow> string" where
  "NFTCreateIdxKey_String p = le_bytes 4 (unat (k_Height p)) @ le_bytes 8 (unat (k_IdxInBlock p))"

record InscriptionBRC20Data =
  d_IsTransfer :: bool
  d_TxId :: string
  d_Idx :: u32
  d_Vout :: u32
  d_Offset :: u64
  d_Satoshi :: u64
  d_PkScript :: string
  d_Fee :: i64
  d_InscriptionNumber :: i64
  d_Parent :: string
  d_ContentBody :: string
  d_CreateIdxKey :: string
  d_Height :: u32
  d_TxIdx :: u32
  d_BlockTime :: u32
  d_Sequence :: u16
  d_InscriptionId :: string

text \<open>
  The Go method also stores the computed identifier in the field \<open>InscriptionId\<close>, a cache that no
  other code reads: it is a function of the event.
\<close>

definition inscription_id :: "string \<Rightarrow> u32 \<Rightarrow> string" where
  "inscription_id txid idx = HashString txid @ ''i'' @ nat_string (unat idx)"

definition Data_GetInscriptionId :: "InscriptionBRC20Data \<Rightarrow> string" where
  "Data_GetInscriptionId data =
     (if d_InscriptionId data = '''' then inscription_id (d_TxId data) (d_Idx data) else d_InscriptionId data)"

record InscriptionBRC20InfoResp =
  r_Operation :: string
  r_BRC20Tick :: string
  r_BRC20Max :: string
  r_BRC20Limit :: string
  r_BRC20Amount :: string
  r_BRC20Decimal :: string
  r_BRC20Minted :: string
  r_BRC20SelfMint :: string

section \<open>Contents\<close>

text \<open>The bodies are decoded into fresh structs, whose string fields start empty.\<close>

record InscriptionBRC20ProtocalContent =
  pc_Proto :: string
  pc_Operation :: string

definition ProtocalContent_Unmarshal :: "ext \<Rightarrow> string \<Rightarrow> InscriptionBRC20ProtocalContent option" where
  "ProtocalContent_Unmarshal e contentBody =
     (case json_to_map e contentBody of
        None \<Rightarrow> None
      | Some bodyMap \<Rightarrow>
          Some \<lparr>pc_Proto = string_or '''' (bodyMap ''p''), pc_Operation = string_or '''' (bodyMap ''op'')\<rparr>)"

record InscriptionBRC20MintTransferContent =
  mt_Proto :: string
  mt_Operation :: string
  mt_BRC20Tick :: string
  mt_BRC20Amount :: string

definition MintTransferContent_Unmarshal :: "ext \<Rightarrow> string \<Rightarrow> InscriptionBRC20MintTransferContent option" where
  "MintTransferContent_Unmarshal e contentBody =
     (case json_to_map e contentBody of
        None \<Rightarrow> None
      | Some bodyMap \<Rightarrow>
          Some \<lparr>mt_Proto = string_or '''' (bodyMap ''p''), mt_Operation = string_or '''' (bodyMap ''op''),
                mt_BRC20Tick = string_or '''' (bodyMap ''tick''), mt_BRC20Amount = string_or '''' (bodyMap ''amt'')\<rparr>)"

record InscriptionBRC20DeployContent =
  dc_Proto :: string
  dc_Operation :: string
  dc_BRC20Tick :: string
  dc_BRC20Max :: string
  dc_BRC20Limit :: string
  dc_BRC20Decimal :: string
  dc_BRC20SelfMint :: string

definition DeployContent_Unmarshal :: "ext \<Rightarrow> string \<Rightarrow> InscriptionBRC20DeployContent option" where
  "DeployContent_Unmarshal e contentBody =
     (case json_to_map e contentBody of
        None \<Rightarrow> None
      | Some bodyMap \<Rightarrow>
          let mx = string_or '''' (bodyMap ''max'') in
          Some \<lparr>dc_Proto = string_or '''' (bodyMap ''p''), dc_Operation = string_or '''' (bodyMap ''op''),
                dc_BRC20Tick = string_or '''' (bodyMap ''tick''),
                dc_BRC20Max = mx,
                dc_BRC20Limit = (if bodyMap ''lim'' = None then mx else string_or '''' (bodyMap ''lim'')),
                dc_BRC20Decimal =
                  (if bodyMap ''dec'' = None then ''18'' else string_or '''' (bodyMap ''dec'')),
                dc_BRC20SelfMint =
                  (if bodyMap ''self_mint'' = None then '''' else string_or ''false'' (bodyMap ''self_mint''))\<rparr>)"

section \<open>Tokens\<close>

record InscriptionBRC20TickInfo =
  ti_Data :: InscriptionBRC20InfoResp
  ti_Tick :: string
  ti_Amount :: decp
  ti_Meta :: "InscriptionBRC20Data option"
  ti_SelfMint :: bool
  ti_Max :: decp
  ti_Limit :: decp
  ti_TotalMinted :: decp
  ti_ConfirmedMinted :: decp
  ti_ConfirmedMinted1h :: decp
  ti_ConfirmedMinted24h :: decp
  ti_Burned :: decp
  ti_MintTimes :: u32
  ti_Decimal :: u8
  ti_TxId :: string
  ti_Idx :: u32
  ti_Vout :: u32
  ti_Offset :: u64
  ti_Satoshi :: u64
  ti_PkScript :: string
  ti_InscriptionNumber :: i64
  ti_CreateIdxKey :: string
  ti_Height :: u32
  ti_TxIdx :: u32
  ti_BlockTime :: u32
  ti_CompleteHeight :: u32
  ti_CompleteBlockTime :: u32
  ti_InscriptionNumberStart :: i64
  ti_InscriptionNumberEnd :: i64

definition TickInfo_GetInscriptionId :: "InscriptionBRC20TickInfo \<Rightarrow> string" where
  "TickInfo_GetInscriptionId d = inscription_id (ti_TxId d) (ti_Idx d)"

text \<open>The copy leaves \<open>Meta\<close> unset.\<close>

definition TickInfo_DeepCopy :: "InscriptionBRC20TickInfo \<Rightarrow> InscriptionBRC20TickInfo" where
  "TickInfo_DeepCopy i = i
     \<lparr>ti_Meta := None,
      ti_Max := NewDecimalCopy (ti_Max i), ti_Limit := NewDecimalCopy (ti_Limit i),
      ti_TotalMinted := NewDecimalCopy (ti_TotalMinted i),
      ti_ConfirmedMinted := NewDecimalCopy (ti_ConfirmedMinted i),
      ti_ConfirmedMinted1h := NewDecimalCopy (ti_ConfirmedMinted1h i),
      ti_ConfirmedMinted24h := NewDecimalCopy (ti_ConfirmedMinted24h i),
      ti_Burned := NewDecimalCopy (ti_Burned i), ti_Amount := NewDecimalCopy (ti_Amount i)\<rparr>"

definition NewInscriptionBRC20TickInfo ::
    "string \<Rightarrow> string \<Rightarrow> InscriptionBRC20Data \<Rightarrow> InscriptionBRC20TickInfo" where
  "NewInscriptionBRC20TickInfo tick operation data =
     \<lparr>ti_Data = \<lparr>r_Operation = operation, r_BRC20Tick = tick, r_BRC20Max = '''', r_BRC20Limit = '''',
        r_BRC20Amount = '''', r_BRC20Decimal = '''', r_BRC20Minted = '''', r_BRC20SelfMint = ''''\<rparr>,
      ti_Tick = tick, ti_Amount = None, ti_Meta = None, ti_SelfMint = False, ti_Max = None, ti_Limit = None,
      ti_TotalMinted = None, ti_ConfirmedMinted = None, ti_ConfirmedMinted1h = None,
      ti_ConfirmedMinted24h = None, ti_Burned = None, ti_MintTimes = 0, ti_Decimal = 18,
      ti_TxId = d_TxId data, ti_Idx = d_Idx data, ti_Vout = d_Vout data, ti_Offset = d_Offset data,
      ti_Satoshi = d_Satoshi data, ti_PkScript = d_PkScript data,
      ti_InscriptionNumber = d_InscriptionNumber data, ti_CreateIdxKey = d_CreateIdxKey data,
      ti_Height = d_Height data, ti_TxIdx = d_TxIdx data, ti_BlockTime = d_BlockTime data,
      ti_CompleteHeight = 0, ti_CompleteBlockTime = 0, ti_InscriptionNumberStart = 0,
      ti_InscriptionNumberEnd = 0\<rparr>"

record BRC20TokenInfo =
  tk_UpdateHeight :: u32
  tk_Ticker :: string
  tk_Deploy :: InscriptionBRC20TickInfo
  tk_History :: "u32 list"
  tk_HistoryMint :: "u32 list"
  tk_HistoryInscribeTransfer :: "u32 list"
  tk_HistoryTransfer :: "u32 list"
  tk_HistoryWithdraw :: "u32 list"

record BRC20UserHistory =
  uh_History :: "u32 list"

section \<open>Balances\<close>

record BRC20TokenBalance =
  tb_UpdateHeight :: u32
  tb_Ticker :: string
  tb_PkScript :: string
  tb_AvailableBalance :: decp
  tb_AvailableBalanceSafe :: decp
  tb_TransferableBalance :: decp
  tb_ValidTransferMap :: "string \<rightharpoonup> InscriptionBRC20TickInfo"
  tb_History :: "u32 list"
  tb_HistoryMint :: "u32 list"
  tb_HistoryInscribeTransfer :: "u32 list"
  tb_HistorySend :: "u32 list"
  tb_HistoryReceive :: "u32 list"

text \<open>The composite literal \<open>&BRC20TokenBalance{Ticker: ticker, PkScript: pkScript}\<close>.\<close>

definition new_token_balance :: "string \<Rightarrow> string \<Rightarrow> BRC20TokenBalance" where
  "new_token_balance ticker pkScript =
     \<lparr>tb_UpdateHeight = 0, tb_Ticker = ticker, tb_PkScript = pkScript, tb_AvailableBalance = None,
      tb_AvailableBalanceSafe = None, tb_TransferableBalance = None, tb_ValidTransferMap = Map.empty,
      tb_History = [], tb_HistoryMint = [], tb_HistoryInscribeTransfer = [], tb_HistorySend = [],
      tb_HistoryReceive = []\<rparr>"

definition OverallBalance :: "BRC20TokenBalance \<Rightarrow> decp option" where
  "OverallBalance bal = Decimal_Add (tb_AvailableBalance bal) (tb_TransferableBalance bal)"

text \<open>The copy leaves \<open>UpdateHeight\<close> zero and copies every valid transfer.\<close>

definition TokenBalance_DeepCopy :: "BRC20TokenBalance \<Rightarrow> BRC20TokenBalance" where
  "TokenBalance_DeepCopy i = i
     \<lparr>tb_UpdateHeight := 0,
      tb_AvailableBalanceSafe := NewDecimalCopy (tb_AvailableBalanceSafe i),
      tb_AvailableBalance := NewDecimalCopy (tb_AvailableBalance i),
      tb_TransferableBalance := NewDecimalCopy (tb_TransferableBalance i),
      tb_ValidTransferMap := (\<lambda>k. map_option TickInfo_DeepCopy (tb_ValidTransferMap i k))\<rparr>"

lemma length_le_bytes [simp]: "length (le_bytes k n) = k"
  by (simp add: le_bytes_def)

lemma le_bytes_0: "le_bytes 0 n = []"
  by (simp add: le_bytes_def)

lemma le_bytes_Suc: "le_bytes (Suc k) n = char_of n # le_bytes k (n div 256)"
  by (simp add: le_bytes_def upt_conv_Cons map_Suc_upt [symmetric] div_mult2_eq comp_def del: upt_Suc)

lemma le_val_le_bytes: "n < 256 ^ k \<Longrightarrow> le_val (le_bytes k n) = n"
proof (induction k arbitrary: n)
  case (Suc k)
  then have "n div 256 < 256 ^ k" by (simp add: less_mult_imp_div_less mult.commute)
  with Suc.IH show ?case by (simp add: le_bytes_Suc)
qed (simp add: le_bytes_def)

lemma le_bytes_inject: "le_bytes k m = le_bytes k n \<Longrightarrow> m < 256 ^ k \<Longrightarrow> n < 256 ^ k \<Longrightarrow> m = n"
  by (metis le_val_le_bytes)

text \<open>
  The key under which an inscription is indexed determines the height and the index in the block
  it was created at: different creation points have different keys.
\<close>

theorem NFTCreateIdxKey_String_injective:
  assumes "NFTCreateIdxKey_String p = NFTCreateIdxKey_String q"
  shows "p = q"
proof -
  have u: "unat (k_Height x) < 256 ^ 4" "unat (k_IdxInBlock x) < 256 ^ 8" for x
    using unsigned_less [of "k_Height x", where 'a = nat] unsigned_less [of "k_IdxInBlock x", where 'a = nat] by simp_all
  from assms have "le_bytes 4 (unat (k_Height p)) = le_bytes 4 (unat (k_Height q))"
    "le_bytes 8 (unat (k_IdxInBlock p)) = le_bytes 8 (unat (k_IdxInBlock q))"
    by (simp_all add: NFTCreateIdxKey_String_def)
  then have "unat (k_Height p) = unat (k_Height q)" "unat (k_IdxInBlock p) = unat (k_IdxInBlock q)"
    using le_bytes_inject u by blast+
  then show ?thesis by (cases p; cases q) (simp add: word_unat_eq_iff)
qed

theorem NFTCreateIdxKey_String_injective_witness:
  "{q. NFTCreateIdxKey_String q = NFTCreateIdxKey_String \<lparr>k_Height = 1, k_IdxInBlock = 2\<rparr>} =
   {\<lparr>k_Height = 1, k_IdxInBlock = 2\<rparr>}"
  using NFTCreateIdxKey_String_injective [of _ "\<lparr>k_Height = 1, k_IdxInBlock = 2\<rparr>"] by blast

end
