(* ===== verification/Script_Codec.thy ===== *)
theory Script_Codec
  imports Prelude
begin

text \<open>
  The codecs of \<open>utils/script/compress.go\<close>: variable length quantities (VLQ), compressed
  scripts, compressed amounts and compressed transaction outputs.

  A function that writes into a byte slice takes the slice and returns the slice it leaves with the
  number of bytes written; \<open>None\<close> is a panic (an index or a slice bound out of range). A slice has
  no spare capacity. A Go \<open>int\<close> is a \<open>nat\<close> where it counts bytes and an \<open>int\<close> where the
  code converts a \<open>uint64\<close> to it.

  The lemmas give each writer a reference encoding (the bytes it writes) and show that the readers
  invert the encodings.
\<close>

unbundle bit_operations_syntax

section \<open>Byte slices\<close>

definition set_byte :: "string \<Rightarrow> nat \<Rightarrow> char \<Rightarrow> string option" where
  "set_byte target i c = (if i < length target then Some (target[i := c]) else None)"

text \<open>\<open>copy(target[off:], src)\<close> for an offset in range: as many bytes as fit.\<close>

definition go_copy :: "string \<Rightarrow> nat \<Rightarrow> string \<Rightarrow> string" where
  "go_copy target off src =
     take off target @ take (length target - off) src @ drop (off + length src) target"

text \<open>\<open>s[i:j]\<close>.\<close>

definition go_slice :: "string \<Rightarrow> nat \<Rightarrow> nat \<Rightarrow> string option" where
  "go_slice s i j = (if i \<le> j \<and> j \<le> length s then Some (take (j - i) (drop i s)) else None)"

definition go_slice_from :: "string \<Rightarrow> nat \<Rightarrow> string option" where
  "go_slice_from s i = (if i \<le> length s then Some (drop i s) else None)"

definition byte_u64 :: "char \<Rightarrow> u64" where
  "byte_u64 c = word_of_nat (of_char c)"

text \<open>The conversion \<open>byte(w)\<close>.\<close>

definition u64_byte :: "u64 \<Rightarrow> char" where
  "u64_byte w = char_of (unat w)"

section \<open>Variable length quantities\<close>

function serializeSizeVLQ_loop :: "u64 \<Rightarrow> nat \<Rightarrow> nat" where
  "serializeSizeVLQ_loop n sz =
     (if n > 0x7f then serializeSizeVLQ_loop (drop_bit 7 n - 1) (sz + 1) else sz)"
  by pat_completeness auto

lemma vlq_step_less:
  assumes "n > (0x7f :: u64)"
  shows "unat (drop_bit 7 n - 1) < unat n"
proof -
  have n: "127 < unat n" using assms by (simp add: word_less_nat_alt)
  have d: "unat (drop_bit 7 n) = unat n div 128" by (simp add: drop_bit_eq_div unat_div)
  with n have "unat (drop_bit 7 n) < unat n" "1 \<le> unat (drop_bit 7 n)" by linarith+
  then show ?thesis by (simp add: unat_minus_one unat_sub word_le_nat_alt)
qed

termination serializeSizeVLQ_loop
  by (relation "measure (\<lambda>(n, _). unat n)") (auto intro: vlq_step_less)

definition serializeSizeVLQ :: "u64 \<Rightarrow> nat" where
  "serializeSizeVLQ n = serializeSizeVLQ_loop n 1"

text \<open>The first loop of \<open>PutVLQ\<close> writes the groups of seven bits, least significant first.\<close>

function PutVLQ_loop :: "string \<Rightarrow> u64 \<Rightarrow> nat \<Rightarrow> (string \<times> nat) option" where
  "PutVLQ_loop target n offset =
     (let highBitMask = (if offset = 0 then 0x00 else 0x80) in
      case set_byte target offset (u64_byte ((n AND 0x7f) OR highBitMask)) of
        None \<Rightarrow> None
      | Some target' \<Rightarrow>
          if n \<le> 0x7f then Some (target', offset)
          else PutVLQ_loop target' (drop_bit 7 n - 1) (offset + 1))"
  by pat_completeness auto

termination PutVLQ_loop
  by (relation "measure (\<lambda>(_, n, _). unat n)") (auto intro: vlq_step_less)

text \<open>The second loop swaps the bytes so that the most significant group comes first.\<close>

fun swap_loop :: "string \<Rightarrow> nat \<Rightarrow> nat \<Rightarrow> string" where
  "swap_loop target i j =
     (if i < j then swap_loop (target[i := target ! j, j := target ! i]) (i + 1) (j - 1) else target)"

declare serializeSizeVLQ_loop.simps [simp del] PutVLQ_loop.simps [simp del] swap_loop.simps [simp del]

definition PutVLQ :: "string \<Rightarrow> u64 \<Rightarrow> (string \<times> nat) option" where
  "PutVLQ target n =
     (case PutVLQ_loop target n 0 of
        None \<Rightarrow> None
      | Some (target', offset) \<Rightarrow> Some (swap_loop target' 0 offset, offset + 1))"

fun DeserializeVLQ_loop :: "string \<Rightarrow> u64 \<Rightarrow> nat \<Rightarrow> u64 \<times> nat" where
  "DeserializeVLQ_loop [] n sz = (n, sz)"
| "DeserializeVLQ_loop (val # serialized) n sz =
     (let n' = push_bit 7 n OR (byte_u64 val AND 0x7f) in
      if byte_u64 val AND 0x80 \<noteq> 0x80 then (n', sz + 1)
      else DeserializeVLQ_loop serialized (n' + 1) (sz + 1))"

definition DeserializeVLQ :: "string \<Rightarrow> u64 \<times> nat" where
  "DeserializeVLQ serialized = DeserializeVLQ_loop serialized 0 0"

section \<open>Compressed scripts\<close>

definition OP_DUP :: char where "OP_DUP = CHR 0x76"
definition OP_HASH160 :: char where "OP_HASH160 = CHR 0xa9"
definition OP_DATA_20 :: char where "OP_DATA_20 = CHR 0x14"
definition OP_DATA_33 :: char where "OP_DATA_33 = CHR 0x21"
definition OP_DATA_65 :: char where "OP_DATA_65 = CHR 0x41"
definition OP_EQUAL :: char where "OP_EQUAL = CHR 0x87"
definition OP_EQUALVERIFY :: char where "OP_EQUALVERIFY = CHR 0x88"
definition OP_CHECKSIG :: char where "OP_CHECKSIG = CHR 0xac"

lemmas op_defs = OP_DUP_def OP_HASH160_def OP_DATA_20_def OP_DATA_33_def OP_DATA_65_def OP_EQUAL_def
  OP_EQUALVERIFY_def OP_CHECKSIG_def

definition numSpecialScripts :: nat where
  "numSpecialScripts = 6"

definition isPubKeyHash :: "string \<Rightarrow> string option" where
  "isPubKeyHash script =
     (if length script = 25 \<and> script ! 0 = OP_DUP \<and> script ! 1 = OP_HASH160 \<and> script ! 2 = OP_DATA_20
         \<and> script ! 23 = OP_EQUALVERIFY \<and> script ! 24 = OP_CHECKSIG
      then Some (take 20 (drop 3 script)) else None)"

definition isScriptHash :: "string \<Rightarrow> string option" where
  "isScriptHash script =
     (if length script = 23 \<and> script ! 0 = OP_HASH160 \<and> script ! 1 = OP_DATA_20 \<and> script ! 22 = OP_EQUAL
      then Some (take 20 (drop 2 script)) else None)"

definition isPubKey :: "string \<Rightarrow> string option" where
  "isPubKey script =
     (if length script = 35 \<and> script ! 0 = OP_DATA_33 \<and> script ! 34 = OP_CHECKSIG
         \<and> (script ! 1 = CHR 0x02 \<or> script ! 1 = CHR 0x03)
      then Some (take 33 (drop 1 script))
      else if length script = 67 \<and> script ! 0 = OP_DATA_65 \<and> script ! 66 = OP_CHECKSIG \<and> script ! 1 = CHR 0x04
      then Some (take 65 (drop 1 script))
      else None)"

definition compressedScriptSize :: "string \<Rightarrow> nat" where
  "compressedScriptSize pkScript =
     (if isPubKeyHash pkScript \<noteq> None then 21
      else if isScriptHash pkScript \<noteq> None then 21
      else case isPubKey pkScript of
        Some k \<Rightarrow> if k ! 0 = CHR 0x04 then 65 else 33
      | None \<Rightarrow> serializeSizeVLQ (word_of_nat (length pkScript + numSpecialScripts)) + length pkScript)"

definition DecodeCompressedScriptSize :: "string \<Rightarrow> int" where
  "DecodeCompressedScriptSize serialized =
     (let (scriptSize, bytesRead) = DeserializeVLQ serialized in
      if bytesRead = 0 then 0
      else if scriptSize = 0 then 21
      else if scriptSize = 1 then 21
      else if scriptSize = 2 \<or> scriptSize = 3 then 33
      else if scriptSize = 4 \<or> scriptSize = 5 then 65
      else sint (scriptSize - word_of_nat numSpecialScripts + word_of_nat bytesRead))"

definition PutCompressedScript :: "string \<Rightarrow> string \<Rightarrow> (string \<times> nat) option" where
  "PutCompressedScript target pkScript =
     (case isPubKeyHash pkScript of
        Some hash \<Rightarrow>
          do { t \<leftarrow> set_byte target 0 CHR 0x00;
               _ \<leftarrow> go_slice t 1 21;
               Some (go_copy t 1 hash, 21) }
      | None \<Rightarrow>
     (case isScriptHash pkScript of
        Some hash \<Rightarrow>
          do { t \<leftarrow> set_byte target 0 CHR 0x01;
               _ \<leftarrow> go_slice t 1 21;
               Some (go_copy t 1 hash, 21) }
      | None \<Rightarrow>
     (case isPubKey pkScript of
        Some serializedPubKey \<Rightarrow>
          do { t \<leftarrow> set_byte target 0 (serializedPubKey ! 0);
               if serializedPubKey ! 0 = CHR 0x04
               then do { _ \<leftarrow> go_slice t 1 65;
                         Some (go_copy t 1 (take 64 (drop 1 serializedPubKey)), 65) }
               else do { _ \<leftarrow> go_slice t 1 33;
                         Some (go_copy t 1 (take 32 (drop 1 serializedPubKey)), 33) } }
      | None \<Rightarrow>
          do { (t, vlqSizeLen) \<leftarrow> PutVLQ target (word_of_nat (length pkScript + numSpecialScripts));
               Some (go_copy t vlqSizeLen pkScript, vlqSizeLen + length pkScript) })))"

text \<open>
  A script of \<open>n\<close> bytes built by \<open>make\<close> and element stores; the switch falls through to the
  general format.
\<close>

definition DecompressScript :: "string \<Rightarrow> string option" where
  "DecompressScript compressedPkScript =
     (if compressedPkScript = [] then Some []
      else let (encodedScriptSize, bytesRead) = DeserializeVLQ compressedPkScript in
      if encodedScriptSize = 0 then
        do { h \<leftarrow> go_slice compressedPkScript bytesRead (bytesRead + 20);
             Some ([OP_DUP, OP_HASH160, OP_DATA_20] @ h @ [OP_EQUALVERIFY, OP_CHECKSIG]) }
      else if encodedScriptSize = 1 then
        do { h \<leftarrow> go_slice compressedPkScript bytesRead (bytesRead + 20);
             Some ([OP_HASH160, OP_DATA_20] @ h @ [OP_EQUAL]) }
      else if encodedScriptSize = 2 \<or> encodedScriptSize = 3 then
        do { k \<leftarrow> go_slice compressedPkScript bytesRead (bytesRead + 32);
             Some ([OP_DATA_33, u64_byte encodedScriptSize] @ k @ [OP_CHECKSIG]) }
      else if encodedScriptSize = 4 \<or> encodedScriptSize = 5 then
        (if length (drop bytesRead compressedPkScript) < 64 then Some []
         else do { k \<leftarrow> go_slice compressedPkScript bytesRead (bytesRead + 64);
                   Some ([OP_DATA_65, u64_byte encodedScriptSize] @ k @ [OP_CHECKSIG]) })
      else
        let scriptSize = sint (encodedScriptSize - word_of_nat numSpecialScripts) in
        if scriptSize < 0 then None
        else go_slice compressedPkScript bytesRead (bytesRead + nat scriptSize))"

section \<open>Compressed amounts\<close>

fun trim_zeros_loop :: "nat \<Rightarrow> u64 \<Rightarrow> nat \<Rightarrow> u64 \<times> nat" where
  "trim_zeros_loop 0 amount exponent = (amount, exponent)"
| "trim_zeros_loop (Suc k) amount exponent =
     (if amount mod 10 = 0 \<and> exponent < 9 then trim_zeros_loop k (amount div 10) (exponent + 1)
      else (amount, exponent))"

text \<open>The loop guard stops it at exponent 9, so nine rounds are enough.\<close>

definition CompressTxOutAmount :: "u64 \<Rightarrow> u64" where
  "CompressTxOutAmount amount =
     (if amount = 0 then 0
      else let (amount, exponent) = trim_zeros_loop 9 amount 0 in
        if exponent < 9
        then 1 + 10 * (9 * (amount div 10) + amount mod 10 - 1) + word_of_nat exponent
        else 10 + 10 * (amount - 1))"

fun mult_10_loop :: "nat \<Rightarrow> u64 \<Rightarrow> u64" where
  "mult_10_loop 0 n = n"
| "mult_10_loop (Suc exponent) n = mult_10_loop exponent (n * 10)"

definition DecompressTxOutAmount :: "u64 \<Rightarrow> u64" where
  "DecompressTxOutAmount amount =
     (if amount = 0 then 0
      else
        let amount = amount - 1;
            exponent = unat (amount mod 10);
            amount = amount div 10;
            n = (if exponent < 9 then (amount div 9) * 10 + (amount mod 9 + 1) else amount + 1)
        in mult_10_loop exponent n)"

section \<open>Compressed transaction outputs\<close>

definition compressedTxOutSize :: "u64 \<Rightarrow> string \<Rightarrow> nat" where
  "compressedTxOutSize amount pkScript =
     serializeSizeVLQ (CompressTxOutAmount amount) + compressedScriptSize pkScript"

definition putCompressedTxOut :: "string \<Rightarrow> u64 \<Rightarrow> string \<Rightarrow> (string \<times> nat) option" where
  "putCompressedTxOut target amount pkScript =
     do { (t, offset) \<leftarrow> PutVLQ target (CompressTxOutAmount amount);
          (u, n) \<leftarrow> PutCompressedScript (drop offset t) pkScript;
          Some (take offset t @ u, offset + n) }"

definition decodeCompressedTxOut :: "string \<Rightarrow> (string + u64 \<times> string \<times> nat) option" where
  "decodeCompressedTxOut serialized =
     (let (compressedAmount, bytesRead) = DeserializeVLQ serialized in
      if bytesRead \<ge> length serialized then Some (Inl ''unexpected end of data after compressed amount'')
      else
        let rest = drop bytesRead serialized;
            scriptSize = DecodeCompressedScriptSize rest in
        if int (length rest) < scriptSize then Some (Inl ''unexpected end of data after script size'')
        else if scriptSize < 0 then None
        else do { script \<leftarrow> DecompressScript (take (nat scriptSize) rest);
                  Some (Inr (DecompressTxOutAmount compressedAmount, script, bytesRead + nat scriptSize)) })"

section \<open>Reference encodings and round trips\<close>

subsection \<open>VLQ\<close>

function vlq_le :: "u64 \<Rightarrow> bool \<Rightarrow> string" where
  "vlq_le n more =
     u64_byte ((n AND 0x7f) OR (if more then 0x80 else 0)) #
     (if n \<le> 0x7f then [] else vlq_le (drop_bit 7 n - 1) True)"
  by pat_completeness auto

termination vlq_le
  by (relation "measure (\<lambda>(n, _). unat n)") (auto intro: vlq_step_less)

declare vlq_le.simps [simp del]

text \<open>The encoding of a number, most significant group first; every byte but the last has its high bit set.\<close>

definition vlq :: "u64 \<Rightarrow> string" where
  "vlq n = rev (vlq_le n False)"

lemma byte_u64_u64_byte: "byte_u64 (u64_byte w) = take_bit 8 w"
proof -
  have "unat w mod 256 = unat (take_bit 8 w)"
    by (simp add: unsigned_take_bit_eq flip: take_bit_eq_mod [of 8, simplified])
  then show ?thesis by (simp add: byte_u64_def u64_byte_def)
qed

lemma bit_128_int: "bit (0x80 :: int) k \<longleftrightarrow> k = 7"
  using bit_exp_iff [of 7 k, where 'a = int] by (auto simp: possible_bit_def)

lemma group_bits:
  fixes n :: u64
  shows "byte_u64 (u64_byte ((n AND 0x7f) OR 0x80)) AND 0x7f = n AND 0x7f"
    and "byte_u64 (u64_byte ((n AND 0x7f) OR 0x80)) AND 0x80 = 0x80"
    and "byte_u64 (u64_byte (n AND 0x7f)) AND 0x7f = n AND 0x7f"
    and "byte_u64 (u64_byte (n AND 0x7f)) AND 0x80 = 0"
proof -
  have m: "(0x7f :: u64) = mask 7" by (simp add: mask_eq_exp_minus_1)
  show "byte_u64 (u64_byte ((n AND 0x7f) OR 0x80)) AND 0x7f = n AND 0x7f"
    "byte_u64 (u64_byte ((n AND 0x7f) OR 0x80)) AND 0x80 = 0x80"
    "byte_u64 (u64_byte (n AND 0x7f)) AND 0x7f = n AND 0x7f" "byte_u64 (u64_byte (n AND 0x7f)) AND 0x80 = 0"
    unfolding m byte_u64_u64_byte by (auto intro!: bit_word_eqI simp: bit_simps bit_128_int)
qed

lemma join_groups:
  fixes n :: u64
  shows "push_bit 7 (drop_bit 7 n) OR (n AND 0x7f) = n"
proof -
  have m: "(0x7f :: u64) = mask 7" by (simp add: mask_eq_exp_minus_1)
  show ?thesis unfolding m by (auto intro!: bit_word_eqI simp: bit_simps)
qed

lemma vlq_le_not_Nil [simp]: "vlq_le n b \<noteq> []"
  by (subst vlq_le.simps) simp

lemma DeserializeVLQ_loop_more:
  "DeserializeVLQ_loop (rev (vlq_le n True) @ rest) 0 sz =
   DeserializeVLQ_loop rest (n + 1) (sz + length (vlq_le n True))"
proof (induction n "True" arbitrary: rest sz rule: vlq_le.induct)
  case (1 n)
  show ?case
  proof (cases "n \<le> 0x7f")
    case True
    then have z: "drop_bit 7 n = 0"
      by (simp add: drop_bit_eq_div unat_eq_0 [symmetric] unat_div word_le_nat_alt)
    have nn: "n AND 0x7f = n" using join_groups [of n] by (simp add: z)
    show ?thesis
      using True by (simp add: vlq_le.simps [of n] group_bits) (simp add: nn)
  next
    case False
    show ?thesis
      using False 1 [OF False] join_groups [of n]
      by (simp add: vlq_le.simps [of n] group_bits)
  qed
qed

lemma DeserializeVLQ_vlq: "DeserializeVLQ (vlq n @ rest) = (n, length (vlq n))"
proof (cases "n \<le> 0x7f")
  case True
  then have z: "drop_bit 7 n = 0"
    by (simp add: drop_bit_eq_div unat_eq_0 [symmetric] unat_div word_le_nat_alt)
  have nn: "n AND 0x7f = n" using join_groups [of n] by (simp add: z)
  show ?thesis
    using True
    by (simp add: DeserializeVLQ_def vlq_def vlq_le.simps [of n] group_bits) (simp add: nn)
next
  case False
  then show ?thesis
    using DeserializeVLQ_loop_more [of "drop_bit 7 n - 1" "u64_byte (n AND 0x7f) # rest" 0] join_groups [of n]
    by (simp add: DeserializeVLQ_def vlq_def vlq_le.simps [of n] group_bits)
qed

lemma serializeSizeVLQ_loop_length: "serializeSizeVLQ_loop n sz = sz + length (vlq_le n b) - 1"
proof (induction n sz arbitrary: b rule: serializeSizeVLQ_loop.induct)
  case (1 n sz)
  show ?case
  proof (cases "n > 0x7f")
    case True
    moreover have "length (vlq_le (drop_bit 7 n - 1) True) \<ge> 1"
      by (simp add: Suc_le_eq)
    ultimately show ?thesis
      using 1 [OF True, of True]
      by (simp add: serializeSizeVLQ_loop.simps [of n] vlq_le.simps [of n])
  qed (simp add: serializeSizeVLQ_loop.simps [of n] vlq_le.simps [of n])
qed

lemma serializeSizeVLQ_length: "serializeSizeVLQ n = length (vlq n)"
  by (simp add: serializeSizeVLQ_def vlq_def serializeSizeVLQ_loop_length [of _ _ False])

lemma PutVLQ_loop_spec:
  assumes "offset \<le> length target"
  shows "PutVLQ_loop target n offset =
    (let l = vlq_le n (offset \<noteq> 0) in
     if offset + length l \<le> length target
     then Some (take offset target @ l @ drop (offset + length l) target, offset + length l - 1) else None)"
  using assms
proof (induction target n offset rule: PutVLQ_loop.induct)
  case (1 target n offset)
  define c where "c = u64_byte ((n AND 0x7f) OR (if offset = 0 then 0 else 0x80))"
  show ?case
  proof (cases "offset < length target")
    case False
    then show ?thesis
      using "1.prems" by (simp add: PutVLQ_loop.simps [of _ n] set_byte_def vlq_le.simps [of n] Let_def)
  next
    case True
    have sb: "set_byte target offset c = Some (target[offset := c])" using True by (simp add: set_byte_def)
    show ?thesis
    proof (cases "n \<le> 0x7f")
      case True
      then show ?thesis
        using sb \<open>offset < length target\<close>
        by (simp add: PutVLQ_loop.simps [of _ n] c_def [symmetric] vlq_le.simps [of n] upd_conv_take_nth_drop)
          (auto simp: c_def)
    next
      case False
      let ?m = "drop_bit 7 n - 1"
      have ih: "PutVLQ_loop (target[offset := c]) ?m (offset + 1) =
        (let l = vlq_le ?m True in
         if offset + 1 + length l \<le> length target
         then Some (take (offset + 1) (target[offset := c]) @ l @ drop (offset + 1 + length l) (target[offset := c]),
           offset + 1 + length l - 1) else None)"
        using "1.IH" [OF refl, of "target[offset := c]"] sb False \<open>offset < length target\<close> by (simp add: c_def)
      have tk: "take (Suc offset) (target[offset := c]) = take offset target @ [c]"
        using \<open>offset < length target\<close> by (simp add: take_Suc_conv_app_nth)
      show ?thesis
        using ih sb False \<open>offset < length target\<close> tk
        by (simp add: PutVLQ_loop.simps [of _ n] c_def [symmetric] vlq_le.simps [of n] Let_def)
          (auto simp: c_def)
    qed
  qed
qed

lemma swap_loop_rev:
  "m \<noteq> [] \<Longrightarrow> swap_loop (p @ m @ s) (length p) (length p + length m - 1) = p @ rev m @ s"
proof (induction "length m" arbitrary: p m s rule: less_induct)
  case less
  show ?case
  proof (cases "length m = 1")
    case True
    then obtain a where "m = [a]" by (auto simp: length_Suc_conv)
    then show ?thesis by (simp add: swap_loop.simps)
  next
    case False
    with less.prems obtain a m' b where m: "m = a # m' @ [b]"
      by (metis append_butlast_last_id append_self_conv2 length_append_singleton list.exhaust list.size(3) One_nat_def)
    have upd: "(p @ m @ s)[length p := (p @ m @ s) ! (length p + length m - 1),
        length p + length m - 1 := (p @ m @ s) ! length p] = (p @ [b]) @ m' @ (a # s)"
      by (simp add: m nth_append list_update_append)
    have step: "swap_loop (p @ m @ s) (length p) (length p + length m - 1) =
      swap_loop ((p @ [b]) @ m' @ (a # s)) (length (p @ [b])) (length p + length m' )"
      using upd by (subst swap_loop.simps) (simp add: m)
    show ?thesis
    proof (cases "m' = []")
      case True
      then show ?thesis using step by (simp add: m swap_loop.simps)
    next
      case False
      have "length m' < length m" by (simp add: m)
      from less.hyps [OF this False, of "p @ [b]" "a # s"] step show ?thesis by (simp add: m)
    qed
  qed
qed

lemma PutVLQ_spec:
  "PutVLQ target n =
    (if length (vlq n) \<le> length target then Some (vlq n @ drop (length (vlq n)) target, length (vlq n)) else None)"
proof -
  have "1 \<le> length (vlq_le n False)" by (simp add: Suc_le_eq)
  then show ?thesis
    using swap_loop_rev [of "vlq_le n False" "[]"]
    by (simp add: PutVLQ_def PutVLQ_loop_spec vlq_def Let_def)
qed

subsection \<open>Scripts\<close>

definition script_bytes :: "string \<Rightarrow> string" where
  "script_bytes pk =
     (case isPubKeyHash pk of Some h \<Rightarrow> CHR 0x00 # h
      | None \<Rightarrow> case isScriptHash pk of Some h \<Rightarrow> CHR 0x01 # h
      | None \<Rightarrow> case isPubKey pk of Some k \<Rightarrow> k
      | None \<Rightarrow> vlq (word_of_nat (length pk + numSpecialScripts)) @ pk)"

lemma take_take_drop: "s = take i s @ take j (drop i s) @ drop (i + j) s"
  by (metis append_take_drop_id drop_drop add.commute)

lemma drop_last1: "length s = Suc k \<Longrightarrow> drop k s = [s ! k]"
  by (metis Cons_nth_drop_Suc drop_all lessI order_refl)

lemma drop_last2: "length s = Suc (Suc k) \<Longrightarrow> drop k s = [s ! k, s ! Suc k]"
  by (metis Cons_nth_drop_Suc drop_last1 less_Suc_eq)

lemma take_first1: "0 < length s \<Longrightarrow> take (Suc 0) s = [s ! 0]"
  by (cases s) auto

lemma take_first2: "Suc 0 < length s \<Longrightarrow> take (Suc (Suc 0)) s = [s ! 0, s ! Suc 0]"
  by (cases s; cases "tl s") auto

lemma take_first3: "Suc (Suc 0) < length s \<Longrightarrow> take (Suc (Suc (Suc 0))) s = [s ! 0, s ! Suc 0, s ! Suc (Suc 0)]"
  by (cases s; cases "tl s"; cases "tl (tl s)") auto

lemma isPubKeyHash_Some:
  assumes "isPubKeyHash pk = Some h"
  shows "length h = 20 \<and> pk = [OP_DUP, OP_HASH160, OP_DATA_20] @ h @ [OP_EQUALVERIFY, OP_CHECKSIG]"
  using assms take_take_drop [of pk 3 20] take_first3 [of pk] drop_last2 [of pk 23]
  by (auto simp: isPubKeyHash_def numeral_3_eq_3 [symmetric] numeral_2_eq_2 [symmetric] split: if_splits)

lemma isScriptHash_Some:
  assumes "isScriptHash pk = Some h"
  shows "length h = 20 \<and> pk = [OP_HASH160, OP_DATA_20] @ h @ [OP_EQUAL]"
  using assms take_take_drop [of pk 2 20] take_first2 [of pk] drop_last1 [of pk 22]
  by (auto simp: isScriptHash_def numeral_2_eq_2 [symmetric] split: if_splits)

lemma isPubKey_Some:
  assumes "isPubKey pk = Some k"
  shows "(\<exists>c x. (c = CHR 0x02 \<or> c = CHR 0x03) \<and> length x = 32 \<and> k = c # x \<and> pk = [OP_DATA_33, c] @ x @ [OP_CHECKSIG]) \<or>
    (\<exists>x. length x = 64 \<and> k = CHR 0x04 # x \<and> pk = [OP_DATA_65, CHR 0x04] @ x @ [OP_CHECKSIG])"
proof (cases "length pk = 35")
  case True
  have k: "k = take 33 (drop 1 pk)" and c: "pk ! 1 = CHR 0x02 \<or> pk ! 1 = CHR 0x03" "pk ! 0 = OP_DATA_33" "pk ! 34 = OP_CHECKSIG"
    using assms True by (auto simp: isPubKey_def split: if_splits)
  have "k = pk ! 1 # take 32 (drop 2 pk)"
    using True Cons_nth_drop_Suc [of 1 pk, symmetric] by (simp add: k numeral_2_eq_2)
  moreover have "pk = [pk ! 0, pk ! 1] @ take 32 (drop 2 pk) @ [pk ! 34]"
    using True take_take_drop [of pk 2 32] take_first2 [of pk] drop_last1 [of pk 34]
    by (simp add: numeral_2_eq_2 [symmetric])
  ultimately show ?thesis
    using c True by (intro disjI1 exI [of _ "pk ! 1"] exI [of _ "take 32 (drop 2 pk)"]) auto
next
  case False
  then have l: "length pk = 67" and k: "k = take 65 (drop 1 pk)" and c: "pk ! 1 = CHR 0x04" "pk ! 0 = OP_DATA_65" "pk ! 66 = OP_CHECKSIG"
    using assms by (auto simp: isPubKey_def split: if_splits)
  have "k = pk ! 1 # take 64 (drop 2 pk)"
    using l Cons_nth_drop_Suc [of 1 pk, symmetric] by (simp add: k numeral_2_eq_2)
  moreover have "pk = [pk ! 0, pk ! 1] @ take 64 (drop 2 pk) @ [pk ! 66]"
    using l take_take_drop [of pk 2 64] take_first2 [of pk] drop_last1 [of pk 66]
    by (simp add: numeral_2_eq_2 [symmetric])
  ultimately show ?thesis
    using c l by (intro disjI2 exI [of _ "take 64 (drop 2 pk)"]) auto
qed

lemma go_copy_exact:
  "off + length src \<le> length t \<Longrightarrow> go_copy t off src = take off t @ src @ drop (off + length src) t"
  by (simp add: go_copy_def)

text \<open>What \<open>PutCompressedScript\<close> does when the slice has room: it writes the reference encoding.\<close>

lemma compressedScriptSize_bytes: "compressedScriptSize pk = length (script_bytes pk)"
  by (auto simp: compressedScriptSize_def script_bytes_def serializeSizeVLQ_length
      dest: isPubKeyHash_Some isScriptHash_Some isPubKey_Some split: option.splits)

lemma put_type_byte:
  assumes "length (c # x) \<le> length target"
  shows "set_byte target 0 c = Some (c # tl target)"
    and "go_slice (c # tl target) 1 (Suc (length x)) \<noteq> None"
    and "go_copy (c # tl target) 1 x = (c # x) @ drop (length (c # x)) target"
  using assms by (cases target; auto simp: set_byte_def go_slice_def go_copy_def)+

lemma PutCompressedScript_spec:
  assumes "length (script_bytes pk) \<le> length target"
  shows "PutCompressedScript target pk =
    Some (script_bytes pk @ drop (length (script_bytes pk)) target, length (script_bytes pk))"
proof (cases "isPubKeyHash pk")
  case (Some h)
  then have b: "script_bytes pk = CHR 0x00 # h" and l: "length h = 20"
    by (auto simp: script_bytes_def dest: isPubKeyHash_Some)
  note p = put_type_byte [of "CHR 0x00" h target, OF assms [unfolded b]]
  show ?thesis using p Some l b by (auto simp: PutCompressedScript_def)
next
  case pkh: None
  show ?thesis
  proof (cases "isScriptHash pk")
    case (Some h)
    then have b: "script_bytes pk = CHR 0x01 # h" and l: "length h = 20"
      using pkh by (auto simp: script_bytes_def dest: isScriptHash_Some)
    note p = put_type_byte [of "CHR 0x01" h target, OF assms [unfolded b]]
    show ?thesis using p Some l b pkh by (auto simp: PutCompressedScript_def)
  next
    case sh: None
    show ?thesis
    proof (cases "isPubKey pk")
      case (Some k)
      then have b: "script_bytes pk = k" using pkh sh by (auto simp: script_bytes_def)
      from isPubKey_Some [OF Some] obtain c x where k: "k = c # x"
        and cx: "c = CHR 0x04 \<and> length x = 64 \<or> c \<noteq> CHR 0x04 \<and> length x = 32" by auto
      note p = put_type_byte [of c x target, OF assms [unfolded b k]]
      from cx show ?thesis using p Some b k pkh sh by (auto simp: PutCompressedScript_def)
    next
      case pk: None
      let ?v = "vlq (word_of_nat (length pk + numSpecialScripts))"
      have b: "script_bytes pk = ?v @ pk" using pkh sh pk by (simp add: script_bytes_def)
      show ?thesis
        using assms pkh sh pk b
        by (simp add: PutCompressedScript_def PutVLQ_spec go_copy_def add.commute)
    qed
  qed
qed

lemma length_vlq_le: "unat n < 128 ^ k \<Longrightarrow> 0 < k \<Longrightarrow> length (vlq_le n b) \<le> k"
proof (induction k arbitrary: n b)
  case (Suc k)
  show ?case
  proof (cases "n \<le> 0x7f")
    case False
    then have n: "127 < unat n" by (simp add: word_le_nat_alt not_le)
    have d: "unat (drop_bit 7 n) = unat n div 128" by (simp add: drop_bit_eq_div unat_div)
    have "unat n div 128 < 128 ^ k" using Suc.prems by (simp add: less_mult_imp_div_less mult.commute)
    then have "unat (drop_bit 7 n - 1) < 128 ^ k"
      using d n by (simp add: unat_sub word_le_nat_alt)
    moreover have "0 < k" using Suc.prems n by (intro gr0I) auto
    ultimately show ?thesis using Suc.IH [of "drop_bit 7 n - 1" True] by (simp add: vlq_le.simps [of n])
  qed (simp add: vlq_le.simps [of n])
qed simp

lemma length_vlq_le_k: "unat n < 128 ^ k \<Longrightarrow> 0 < k \<Longrightarrow> length (vlq n) \<le> k"
  by (simp add: vlq_def length_vlq_le)

lemma length_vlq_le_10: "length (vlq n) \<le> 10"
proof (rule length_vlq_le_k)
  have "unat n < 2 ^ 64" using unsigned_less [of n, where 'a = nat] by simp
  also have "(2::nat) ^ 64 \<le> 128 ^ 10" by simp
  finally show "unat n < 128 ^ 10" .
qed simp

lemma vlq_not_Nil [simp]: "vlq n \<noteq> []"
  by (simp add: vlq_def)

lemma length_vlq_pos [simp]: "0 < length (vlq n)"
  by (simp add: vlq_def)

lemma DeserializeVLQ_small:
  "byte_u64 c AND 0x80 \<noteq> 0x80 \<Longrightarrow> DeserializeVLQ (c # r) = (byte_u64 c AND 0x7f, 1)"
  by (simp add: DeserializeVLQ_def)

lemma byte_u64_tags [simp]:
  "byte_u64 CHR 0x00 = 0" "byte_u64 CHR 0x01 = 1" "byte_u64 CHR 0x02 = 2" "byte_u64 CHR 0x03 = 3" "byte_u64 CHR 0x04 = 4"
  by (simp_all add: byte_u64_def)

lemma u64_byte_tags [simp]:
  "u64_byte 2 = CHR 0x02" "u64_byte 3 = CHR 0x03" "u64_byte 4 = CHR 0x04"
  by (simp_all add: u64_byte_def char_of_def bit_0)

lemma general_size:
  assumes "length pk < 2 ^ 62"
  shows "unat (word_of_nat (length pk + 6) :: u64) = length pk + 6"
    and "(word_of_nat (length pk + 6) :: u64) - 6 = word_of_nat (length pk)"
    and "sint (word_of_nat (length pk) :: u64) = int (length pk)"
    and "sint (word_of_nat (length pk) + word_of_nat (length (vlq n)) :: u64) = int (length pk + length (vlq n))"
proof -
  have s: "sint (word_of_nat m :: u64) = int m" if "m < 2 ^ 63" for m
    using that by (simp add: signed_of_nat signed_take_bit_int_eq_self)
  show "unat (word_of_nat (length pk + 6) :: u64) = length pk + 6"
    using assms by (simp add: unsigned_of_nat take_bit_nat_eq_self del: of_nat_add)
  show "(word_of_nat (length pk + 6) :: u64) - 6 = word_of_nat (length pk)" by simp
  show "sint (word_of_nat (length pk) :: u64) = int (length pk)" using assms by (simp add: s)
  have "length pk + length (vlq n) < 2 ^ 63" using assms length_vlq_le_10 [of n] by simp
  from s [OF this] show "sint (word_of_nat (length pk) + word_of_nat (length (vlq n)) :: u64) = int (length pk + length (vlq n))"
    by (simp only: of_nat_add)
qed

lemma script_bytes_cases:
  obtains (pubkeyhash) h where "length h = 20" "script_bytes pk = CHR 0x00 # h"
      "pk = [OP_DUP, OP_HASH160, OP_DATA_20] @ h @ [OP_EQUALVERIFY, OP_CHECKSIG]"
    | (scripthash) h where "length h = 20" "script_bytes pk = CHR 0x01 # h" "pk = [OP_HASH160, OP_DATA_20] @ h @ [OP_EQUAL]"
    | (compressed) c x where "c = CHR 0x02 \<or> c = CHR 0x03" "length x = 32" "script_bytes pk = c # x"
      "pk = [OP_DATA_33, c] @ x @ [OP_CHECKSIG]"
    | (uncompressed) x where "length x = 64" "script_bytes pk = CHR 0x04 # x" "pk = [OP_DATA_65, CHR 0x04] @ x @ [OP_CHECKSIG]"
    | (general) "script_bytes pk = vlq (word_of_nat (length pk + 6)) @ pk"
proof (cases "isPubKeyHash pk")
  case (Some h)
  then have "script_bytes pk = CHR 0x00 # h" by (simp add: script_bytes_def)
  with isPubKeyHash_Some [OF Some] pubkeyhash show ?thesis by blast
next
  case pkh: None
  show ?thesis
  proof (cases "isScriptHash pk")
    case (Some h)
    then have "script_bytes pk = CHR 0x01 # h" using pkh by (simp add: script_bytes_def)
    with isScriptHash_Some [OF Some] scripthash show ?thesis by blast
  next
    case sh: None
    show ?thesis
    proof (cases "isPubKey pk")
      case (Some k)
      then have "script_bytes pk = k" using pkh sh by (simp add: script_bytes_def)
      with isPubKey_Some [OF Some] compressed uncompressed show ?thesis by blast
    next
      case None
      then show ?thesis using pkh sh general by (simp add: script_bytes_def numSpecialScripts_def)
    qed
  qed
qed

lemma DecodeCompressedScriptSize_bytes:
  assumes "length pk < 2 ^ 62"
  shows "DecodeCompressedScriptSize (script_bytes pk @ rest) = int (length (script_bytes pk))"
proof (cases pk rule: script_bytes_cases)
  case general
  let ?n = "word_of_nat (length pk + 6) :: u64"
  note g = general_size [OF assms]
  have ne: "?n \<noteq> 0" "?n \<noteq> 1" "?n \<noteq> 2" "?n \<noteq> 3" "?n \<noteq> 4" "?n \<noteq> 5"
    using g(1) by (auto simp del: of_nat_add dest!: arg_cong [where f = unat])
  show ?thesis
    using ne g(2,4)
    by (simp add: DecodeCompressedScriptSize_def general DeserializeVLQ_vlq numSpecialScripts_def add.commute del: of_nat_add)
qed (auto simp: DecodeCompressedScriptSize_def DeserializeVLQ_small)

lemma DecompressScript_bytes:
  assumes "length pk < 2 ^ 62"
  shows "DecompressScript (script_bytes pk) = Some pk"
proof (cases pk rule: script_bytes_cases)
  case general
  let ?n = "word_of_nat (length pk + 6) :: u64"
  note g = general_size [OF assms]
  have ne: "?n \<noteq> 0" "?n \<noteq> 1" "?n \<noteq> 2" "?n \<noteq> 3" "?n \<noteq> 4" "?n \<noteq> 5"
    using g(1) by (auto simp del: of_nat_add dest!: arg_cong [where f = unat])
  have d: "DeserializeVLQ (vlq ?n @ pk) = (?n, length (vlq ?n))" by (rule DeserializeVLQ_vlq)
  show ?thesis
    using ne g(2,3) d
    by (simp add: DecompressScript_def general numSpecialScripts_def go_slice_def del: of_nat_add)
next
  case (compressed c x)
  have "DecompressScript (c # x) = Some ([OP_DATA_33, c] @ x @ [OP_CHECKSIG])"
    using compressed(1,2) by (auto simp: DecompressScript_def DeserializeVLQ_small go_slice_def)
  with compressed(3,4) show ?thesis by simp
next
  case (pubkeyhash h)
  have "DecompressScript (CHR 0x00 # h) = Some ([OP_DUP, OP_HASH160, OP_DATA_20] @ h @ [OP_EQUALVERIFY, OP_CHECKSIG])"
    using pubkeyhash(1) by (simp add: DecompressScript_def DeserializeVLQ_small go_slice_def)
  with pubkeyhash(2,3) show ?thesis by simp
next
  case (scripthash h)
  have "DecompressScript (CHR 0x01 # h) = Some ([OP_HASH160, OP_DATA_20] @ h @ [OP_EQUAL])"
    using scripthash(1) by (simp add: DecompressScript_def DeserializeVLQ_small go_slice_def)
  with scripthash(2,3) show ?thesis by simp
next
  case (uncompressed x)
  have "DecompressScript (CHR 0x04 # x) = Some ([OP_DATA_65, CHR 0x04] @ x @ [OP_CHECKSIG])"
    using uncompressed(1) by (simp add: DecompressScript_def DeserializeVLQ_small go_slice_def)
  with uncompressed(2,3) show ?thesis by simp
qed

subsection \<open>Amounts\<close>

lemma unat_of_nat_small: "m < 2 ^ 64 \<Longrightarrow> unat (word_of_nat m :: u64) = m"
  by (simp add: unsigned_of_nat take_bit_nat_eq_self)

lemma word_of_nat_div_mod:
  assumes "m < 2 ^ 64"
  shows "(word_of_nat m :: u64) div 10 = word_of_nat (m div 10)" "(word_of_nat m :: u64) mod 10 = word_of_nat (m mod 10)"
    and "(word_of_nat m :: u64) div 9 = word_of_nat (m div 9)" "(word_of_nat m :: u64) mod 9 = word_of_nat (m mod 9)"
proof -
  have l: "m div k < 2 ^ 64" "m mod k < 2 ^ 64" for k
    using assms le_less_trans [OF div_le_dividend [of m k]] le_less_trans [OF mod_less_eq_dividend [of m k]] by auto
  show "(word_of_nat m :: u64) div 10 = word_of_nat (m div 10)" "(word_of_nat m :: u64) mod 10 = word_of_nat (m mod 10)"
    "(word_of_nat m :: u64) div 9 = word_of_nat (m div 9)" "(word_of_nat m :: u64) mod 9 = word_of_nat (m mod 9)"
    using assms l [of 10] l [of 9] by (simp_all add: word_unat_eq_iff unat_div unat_mod unat_of_nat_small)
qed

lemma mult_10_loop_pow: "mult_10_loop k n = n * 10 ^ k"
  by (induction k arbitrary: n) (simp_all add: mult.assoc)

fun trim_zeros :: "nat \<Rightarrow> nat \<Rightarrow> nat \<times> nat" where
  "trim_zeros 0 m = (m, 0)"
| "trim_zeros (Suc k) m = (if m mod 10 = 0 then (let (a, e) = trim_zeros k (m div 10) in (a, Suc e)) else (m, 0))"

lemma trim_zeros_loop_nat:
  "m < 2 ^ 64 \<Longrightarrow> e + k = 9 \<Longrightarrow>
   trim_zeros_loop k (word_of_nat m) e = (word_of_nat (fst (trim_zeros k m)), e + snd (trim_zeros k m))"
proof (induction k arbitrary: m e)
  case (Suc k)
  have "(word_of_nat m :: u64) mod 10 = 0 \<longleftrightarrow> m mod 10 = 0"
    using Suc.prems(1) by (simp add: word_of_nat_div_mod word_unat_eq_iff unat_of_nat_small)
  moreover have "m div 10 < 2 ^ 64" using Suc.prems(1) by simp
  ultimately show ?case using Suc by (simp add: word_of_nat_div_mod case_prod_beta)
qed simp

lemma trim_zeros_spec:
  "0 < m \<Longrightarrow> m = fst (trim_zeros k m) * 10 ^ snd (trim_zeros k m) \<and> 0 < fst (trim_zeros k m) \<and>
   snd (trim_zeros k m) \<le> k \<and> (snd (trim_zeros k m) < k \<longrightarrow> fst (trim_zeros k m) mod 10 \<noteq> 0)"
proof (induction k arbitrary: m)
  case (Suc k)
  show ?case
  proof (cases "m mod 10 = 0")
    case True
    with Suc.prems have "0 < m div 10" and m: "m = 10 * (m div 10)" by auto
    from Suc.IH [OF this(1)] have ih: "m div 10 = fst (trim_zeros k (m div 10)) * 10 ^ snd (trim_zeros k (m div 10))"
      "0 < fst (trim_zeros k (m div 10))" "snd (trim_zeros k (m div 10)) \<le> k"
      "snd (trim_zeros k (m div 10)) < k \<longrightarrow> fst (trim_zeros k (m div 10)) mod 10 \<noteq> 0" by blast+
    have "m = 10 * (fst (trim_zeros k (m div 10)) * 10 ^ snd (trim_zeros k (m div 10)))"
      using m ih(1) by simp
    with True ih(2-4) show ?thesis by (simp add: case_prod_beta)
  qed simp
qed simp

text \<open>The compressed value as a natural number.\<close>

definition amount_code :: "nat \<Rightarrow> nat" where
  "amount_code m =
     (if m = 0 then 0
      else let (a, e) = trim_zeros 9 m in
        if e < 9 then 1 + 10 * (9 * (a div 10) + (a mod 10 - 1)) + e else 10 + 10 * (a - 1))"

lemma CompressTxOutAmount_code:
  assumes "m < 2 ^ 64"
  shows "CompressTxOutAmount (word_of_nat m) = word_of_nat (amount_code m)"
proof (cases "m = 0")
  case False
  obtain a e where ae: "trim_zeros 9 m = (a, e)" by fastforce
  from trim_zeros_spec [of m 9] False ae have s: "m = a * 10 ^ e" "0 < a" "e \<le> 9" "e < 9 \<longrightarrow> a mod 10 \<noteq> 0" by auto
  have al: "a < 2 ^ 64" using assms s(1) by (metis le_less_trans le_simps(1) less_not_refl2 linorder_not_less mult_le_mono2 nat_mult_1_right one_le_numeral one_le_power)
  have nz: "(word_of_nat m :: u64) \<noteq> 0" using False assms by (simp add: word_unat_eq_iff unat_of_nat_small)
  have t: "trim_zeros_loop 9 (word_of_nat m) 0 = (word_of_nat a, e)"
    using trim_zeros_loop_nat [of m 0 9] assms ae by simp
  show ?thesis
  proof (cases "e < 9")
    case True
    then have "1 \<le> a mod 10" using s(4) by simp
    then have "(word_of_nat (9 * (a div 10) + (a mod 10 - 1)) :: u64) = 9 * word_of_nat (a div 10) + word_of_nat (a mod 10) - 1"
      by (simp add: of_nat_diff)
    then show ?thesis
      using True nz t False al by (simp add: CompressTxOutAmount_def amount_code_def ae word_of_nat_div_mod)
  next
    case e: False
    then show ?thesis
      using nz t False s(2) by (simp add: CompressTxOutAmount_def amount_code_def ae of_nat_diff Suc_le_eq)
  qed
qed (simp add: CompressTxOutAmount_def amount_code_def)

lemma amount_code_le: "amount_code m \<le> 10 * m"
proof (cases "m = 0")
  case False
  obtain a e where ae: "trim_zeros 9 m = (a, e)" by fastforce
  from trim_zeros_spec [of m 9] False ae have s: "m = a * 10 ^ e" "0 < a" "e \<le> 9" "e < 9 \<longrightarrow> a mod 10 \<noteq> 0" by auto
  have "a \<le> m" using s(1) by simp
  show ?thesis
  proof (cases "e < 9")
    case True
    with s(4) have "1 \<le> a mod 10" by simp
    moreover have "a = 10 * (a div 10) + a mod 10" by simp
    ultimately have "9 * (a div 10) + (a mod 10 - 1) + 1 \<le> a" by linarith
    with True False ae \<open>a \<le> m\<close> show ?thesis by (simp add: amount_code_def)
  next
    case e: False
    with False ae \<open>a \<le> m\<close> s(2) show ?thesis by (simp add: amount_code_def)
  qed
qed (simp add: amount_code_def)

lemma DecompressTxOutAmount_code:
  assumes "amount_code m < 2 ^ 64"
  shows "DecompressTxOutAmount (word_of_nat (amount_code m)) = word_of_nat m"
proof (cases "m = 0")
  case False
  obtain a e where ae: "trim_zeros 9 m = (a, e)" by fastforce
  from trim_zeros_spec [of m 9] False ae have s: "m = a * 10 ^ e" "0 < a" "e \<le> 9" "e < 9 \<longrightarrow> a mod 10 \<noteq> 0" by auto
  define w where "w = (if e < 9 then 9 * (a div 10) + (a mod 10 - 1) else a - 1)"
  have c: "amount_code m = Suc (10 * w + e)"
    using False s(2,3) ae by (auto simp: amount_code_def w_def)
  have wl: "10 * w + e < 2 ^ 64" "w < 2 ^ 64" using assms c by auto
  have nz: "(word_of_nat (amount_code m) :: u64) \<noteq> 0" using assms c by (simp add: word_unat_eq_iff unat_of_nat_small del: of_nat_Suc)
  have d: "(word_of_nat (amount_code m) :: u64) - 1 = word_of_nat (10 * w + e)" by (simp add: c)
  have x: "unat ((word_of_nat (10 * w + e) :: u64) mod 10) = e mod 10" "(word_of_nat (10 * w + e) :: u64) div 10 = word_of_nat w"
    using wl s(3) by (simp_all add: word_of_nat_div_mod unat_of_nat_small del: of_nat_add)
  have "e mod 10 = e" using s(3) by simp
  have n: "(if e < 9 then word_of_nat w div 9 * 10 + (word_of_nat w mod 9 + 1) else word_of_nat w + 1) = (word_of_nat a :: u64)"
  proof (cases "e < 9")
    case True
    with s(4) have "1 \<le> a mod 10" by simp
    define q where "q = a div 10"
    define r where "r = a mod 10 - 1"
    have "r < 9" by (simp add: r_def less_diff_conv2 \<open>1 \<le> a mod 10\<close>)
    have "w = 9 * q + r" using True by (simp add: w_def q_def r_def)
    with \<open>r < 9\<close> have "w div 9 = a div 10" "w mod 9 = a mod 10 - 1" by (simp_all add: q_def r_def)
    then have "w div 9 * 10 + (w mod 9 + 1) = a" using \<open>1 \<le> a mod 10\<close> by simp
    then have "(word_of_nat (w div 9 * 10 + (w mod 9 + 1)) :: u64) = word_of_nat a" by (simp only:)
    then have "(word_of_nat (w div 9) * 10 + (word_of_nat (w mod 9) + 1) :: u64) = word_of_nat a"
      by (simp only: of_nat_add of_nat_mult of_nat_1 of_nat_numeral)
    then show ?thesis using True wl by (simp only: word_of_nat_div_mod if_True)
  next
    case e: False
    then have "w + 1 = a" using s(2) by (simp add: w_def)
    then show ?thesis using e by (metis of_nat_1 of_nat_add)
  qed
  have "DecompressTxOutAmount (word_of_nat (amount_code m)) = word_of_nat a * 10 ^ e"
    unfolding DecompressTxOutAmount_def Let_def mult_10_loop_pow d x \<open>e mod 10 = e\<close> n using nz by simp
  also have "\<dots> = word_of_nat m" by (simp add: s(1))
  finally show ?thesis .
qed (simp add: DecompressTxOutAmount_def amount_code_def)

section \<open>Prefix codecs\<close>

text \<open>
  The contract the readers and writers share: a reader finds an encoded value at the front of any
  text and reports its length. Such an encoding is prefix-free, so a sequence of values decodes in
  one way.
\<close>

locale prefix_codec =
  fixes enc :: "'a \<Rightarrow> string" and dec :: "string \<Rightarrow> ('a \<times> nat) option" and valid :: "'a \<Rightarrow> bool"
  assumes dec_enc: "valid x \<Longrightarrow> dec (enc x @ rest) = Some (x, length (enc x))"
begin

lemma enc_prefix_free:
  assumes "valid x" and "valid y" and "enc x @ r = enc y @ s"
  shows "x = y \<and> r = s"
  using dec_enc [OF assms(1), of r] dec_enc [OF assms(2), of s] assms(3) by auto

lemma enc_seq_inject:
  "list_all valid xs \<Longrightarrow> list_all valid ys \<Longrightarrow> length xs = length ys \<Longrightarrow>
   concat (map enc xs) @ r = concat (map enc ys) @ s \<Longrightarrow> xs = ys \<and> r = s"
proof (induction xs arbitrary: ys)
  case (Cons x xs)
  then obtain y zs where y: "ys = y # zs" by (cases ys) auto
  have "x = y \<and> concat (map enc xs) @ r = concat (map enc zs) @ s"
    using Cons.prems y by (intro enc_prefix_free) simp_all
  with Cons.IH [of zs] Cons.prems y show ?case by auto
qed simp

end

definition read_script :: "string \<Rightarrow> (string \<times> nat) option" where
  "read_script serialized =
     (let scriptSize = DecodeCompressedScriptSize serialized in
      if int (length serialized) < scriptSize \<or> scriptSize < 0 then None
      else map_option (\<lambda>s. (s, nat scriptSize)) (DecompressScript (take (nat scriptSize) serialized)))"

lemma read_script_bytes:
  "length pk < 2 ^ 62 \<Longrightarrow> read_script (script_bytes pk @ rest) = Some (pk, length (script_bytes pk))"
  by (simp add: read_script_def DecodeCompressedScriptSize_bytes DecompressScript_bytes)

definition read_txout :: "string \<Rightarrow> ((u64 \<times> string) \<times> nat) option" where
  "read_txout s =
     (case decodeCompressedTxOut s of Some (Inr (amount, script, n)) \<Rightarrow> Some ((amount, script), n) | _ \<Rightarrow> None)"

definition txout_bytes :: "u64 \<times> string \<Rightarrow> string" where
  "txout_bytes out = (case out of (amount, pk) \<Rightarrow> vlq (CompressTxOutAmount amount) @ script_bytes pk)"

definition txout_valid :: "u64 \<times> string \<Rightarrow> bool" where
  "txout_valid out = (case out of (amount, pk) \<Rightarrow> 10 * unat amount < 2 ^ 64 \<and> length pk < 2 ^ 62)"

lemma amount_roundtrip:
  assumes "10 * unat amount < 2 ^ 64"
  shows "DecompressTxOutAmount (CompressTxOutAmount amount) = amount"
  using CompressTxOutAmount_code [of "unat amount"] DecompressTxOutAmount_code [of "unat amount"]
    amount_code_le [of "unat amount"] assms
  by (simp add: le_less_trans)

lemma script_bytes_not_Nil [simp]: "script_bytes pk \<noteq> []"
  by (cases pk rule: script_bytes_cases) auto

lemma decodeCompressedTxOut_bytes:
  assumes "txout_valid (amount, pk)"
  shows "decodeCompressedTxOut (txout_bytes (amount, pk) @ rest) =
    Some (Inr (amount, pk, length (txout_bytes (amount, pk))))"
  using assms amount_roundtrip [of amount]
  by (simp add: decodeCompressedTxOut_def txout_bytes_def txout_valid_def DeserializeVLQ_vlq
      DecodeCompressedScriptSize_bytes DecompressScript_bytes)

lemma putCompressedTxOut_spec:
  assumes "length (txout_bytes (amount, pk)) \<le> length target"
  shows "putCompressedTxOut target amount pk =
    Some (txout_bytes (amount, pk) @ drop (length (txout_bytes (amount, pk))) target, length (txout_bytes (amount, pk)))"
  using assms by (simp add: putCompressedTxOut_def txout_bytes_def PutVLQ_spec PutCompressedScript_spec add.commute)

interpretation vlq_codec: prefix_codec vlq "\<lambda>s. Some (DeserializeVLQ s)" "\<lambda>_. True"
  by unfold_locales (simp add: DeserializeVLQ_vlq)

interpretation script_codec: prefix_codec script_bytes read_script "\<lambda>pk. length pk < 2 ^ 62"
  by unfold_locales (rule read_script_bytes)

interpretation txout_codec: prefix_codec txout_bytes read_txout txout_valid
  by unfold_locales (auto simp: read_txout_def decodeCompressedTxOut_bytes)

text \<open>
  \<open>PutVLQ\<close> panics exactly when the slice is shorter than \<open>serializeSizeVLQ\<close> says, and otherwise
  writes so many bytes, leaves the rest of the slice alone, and \<open>DeserializeVLQ\<close> reads the number
  back, for every 64-bit number.
\<close>

theorem PutVLQ_roundtrip:
  "PutVLQ target n =
     (if length target < serializeSizeVLQ n then None
      else Some (vlq n @ drop (serializeSizeVLQ n) target, serializeSizeVLQ n)) \<and>
   length (vlq n) = serializeSizeVLQ n \<and> serializeSizeVLQ n \<le> 10 \<and>
   DeserializeVLQ (vlq n @ rest) = (n, serializeSizeVLQ n)"
  using length_vlq_le_10 [of n] by (auto simp: PutVLQ_spec serializeSizeVLQ_length DeserializeVLQ_vlq)

text \<open>
  VLQ encodings are prefix-free: a text begins with the encoding of at most one number, so each
  number has one representation and each representation stands for one number.
\<close>

theorem vlq_canonical:
  assumes "PutVLQ t m = Some (b, k)" and "PutVLQ t' n = Some (b', k')" and "take k b @ r = take k' b' @ s"
  shows "m = n \<and> r = s"
proof -
  have "take k b = vlq m" "take k' b' = vlq n"
    using assms(1,2) by (auto simp: PutVLQ_spec serializeSizeVLQ_length split: if_splits)
  with assms(3) show ?thesis using vlq_codec.enc_prefix_free [of m r n s] by simp
qed

theorem vlq_canonical_witness:
  "PutVLQ (replicate 4 CHR 0x00) 300 = Some ([CHR 0x81, CHR 0x2c, CHR 0x00, CHR 0x00], 2) \<and>
   PutVLQ (replicate 3 CHR 0x07) 300 = Some ([CHR 0x81, CHR 0x2c, CHR 0x07], 2) \<and> (300 :: u64) = 300 \<and> ''x'' = ''x''"
proof -
  have 1: "PutVLQ (replicate 4 CHR 0x00) 300 = Some ([CHR 0x81, CHR 0x2c, CHR 0x00, CHR 0x00], 2)" by code_simp
  have 2: "PutVLQ (replicate 3 CHR 0x07) 300 = Some ([CHR 0x81, CHR 0x2c, CHR 0x07], 2)" by code_simp
  show ?thesis using 1 2 vlq_canonical [OF 1 2, of "''x''" "''x''"] by simp
qed

text \<open>
  C38. A transaction output that \<open>putCompressedTxOut\<close> writes into a slice with room for
  \<open>compressedTxOutSize\<close> bytes is read back by \<open>decodeCompressedTxOut\<close> with its amount, script and
  size, for every amount below a tenth of the 64-bit range and every script shorter than 2 to the 62 bytes.
\<close>

theorem putCompressedTxOut_roundtrip:
  assumes "compressedTxOutSize amount pk \<le> length target"
    and "10 * unat amount < 2 ^ 64" and "length pk < 2 ^ 62"
  shows "\<exists>t. putCompressedTxOut target amount pk = Some (t, compressedTxOutSize amount pk) \<and>
    length t = length target \<and>
    decodeCompressedTxOut t = Some (Inr (amount, pk, compressedTxOutSize amount pk))"
proof -
  have s: "compressedTxOutSize amount pk = length (txout_bytes (amount, pk))"
    by (simp add: compressedTxOutSize_def txout_bytes_def serializeSizeVLQ_length compressedScriptSize_bytes)
  show ?thesis
    using putCompressedTxOut_spec [of amount pk target] decodeCompressedTxOut_bytes [of amount pk] assms
    by (simp add: s txout_valid_def)
qed

theorem putCompressedTxOut_roundtrip_witness:
  "\<exists>t. putCompressedTxOut (replicate 30 CHR 0x00) 5000000000 (replicate 22 CHR 0x14) =
      Some (t, compressedTxOutSize 5000000000 (replicate 22 CHR 0x14)) \<and>
    length t = length (replicate 30 CHR 0x00) \<and>
    decodeCompressedTxOut t =
      Some (Inr (5000000000, replicate 22 CHR 0x14, compressedTxOutSize 5000000000 (replicate 22 CHR 0x14)))"
proof (rule putCompressedTxOut_roundtrip)
  show "compressedTxOutSize 5000000000 (replicate 22 CHR 0x14) \<le> length (replicate 30 CHR 0x00)" by code_simp
qed simp_all

end
