(* ===== verification/Brc20_History.thy ===== *)
theory Brc20_History
  imports Brc20_Model Script_Codec
begin

text \<open>
  History records of the base protocol (\<open>model/history.go\<close>): their construction, and the binary
  form in which the indexer keeps them. \<open>Marshal\<close> writes into a buffer of 1024 bytes; \<open>None\<close> is
  the panic of a write or a slice out of the buffer. The struct \<open>BRC20History\<close> embeds
  \<open>BRC20HistoryBase\<close>, which is record extension here.

  The lemmas give the exact bytes of a record, characterise when \<open>Marshal\<close> panics, and show that
  \<open>Unmarshal\<close> inverts it.
\<close>

section \<open>Records\<close>

record BRC20HistoryBase =
  h_Type :: u8
  h_Valid :: bool
  h_TxId :: string
  h_Idx :: u32
  h_Vout :: u32
  h_Offset :: u64
  h_PkScriptFrom :: string
  h_PkScriptTo :: string
  h_Satoshi :: u64
  h_Fee :: i64
  h_Height :: u32
  h_TxIdx :: u32
  h_BlockTime :: u32

record InscriptionBRC20TickInfoResp =
  ir_Height :: u32
  ir_Data :: "InscriptionBRC20InfoResp option"
  ir_InscriptionNumber :: i64
  ir_InscriptionId :: string
  ir_Satoshi :: u64
  ir_Confirmations :: int

record BRC20History = BRC20HistoryBase +
  h_Inscription :: InscriptionBRC20TickInfoResp
  h_Amount :: string
  h_OverallBalance :: string
  h_TransferableBalance :: string
  h_AvailableBalance :: string

definition NewBRC20History ::
    "u8 \<Rightarrow> bool \<Rightarrow> bool \<Rightarrow> InscriptionBRC20TickInfo \<Rightarrow> BRC20TokenBalance option \<Rightarrow> InscriptionBRC20Data
     \<Rightarrow> BRC20History option" where
  "NewBRC20History historyType isValid isTransfer from bal dst =
     do {
       amount \<leftarrow> Decimal_String (ti_Amount from);
       (overall, transferable, available) \<leftarrow>
         (case bal of
            Some b \<Rightarrow> do {
              ov \<leftarrow> Decimal_Add (tb_AvailableBalance b) (tb_TransferableBalance b);
              os \<leftarrow> Decimal_String ov;
              ts \<leftarrow> Decimal_String (tb_TransferableBalance b);
              as \<leftarrow> Decimal_String (tb_AvailableBalance b);
              Some (os, ts, as) }
          | None \<Rightarrow> Some (''0'', ''0'', ''0''));
       Some \<lparr>h_Type = historyType, h_Valid = isValid,
         h_TxId = (if isTransfer then d_TxId dst else ti_TxId from),
         h_Idx = (if isTransfer then d_Idx dst else ti_Idx from),
         h_Vout = (if isTransfer then d_Vout dst else ti_Vout from),
         h_Offset = (if isTransfer then d_Offset dst else ti_Offset from),
         h_PkScriptFrom = (if isTransfer then ti_PkScript from else ''''),
         h_PkScriptTo =
           (if isTransfer then (if d_Satoshi dst = 0 then ti_PkScript from else d_PkScript dst)
            else ti_PkScript from),
         h_Satoshi = (if isTransfer then d_Satoshi dst else ti_Satoshi from),
         h_Fee = d_Fee dst, h_Height = d_Height dst, h_TxIdx = d_TxIdx dst, h_BlockTime = d_BlockTime dst,
         h_Inscription = \<lparr>ir_Height = ti_Height from, ir_Data = Some (ti_Data from),
           ir_InscriptionNumber = ti_InscriptionNumber from,
           ir_InscriptionId = TickInfo_GetInscriptionId from, ir_Satoshi = ti_Satoshi from, ir_Confirmations = 0\<rparr>,
         h_Amount = amount, h_OverallBalance = overall, h_TransferableBalance = transferable,
         h_AvailableBalance = available\<rparr> }"

section \<open>Marshal\<close>

type_synonym wbuf = "string \<times> nat" \<comment> \<open>the buffer and the offset\<close>

definition put_step :: "(string \<Rightarrow> (string \<times> nat) option) \<Rightarrow> wbuf \<Rightarrow> wbuf option" where
  "put_step f w = (case w of (buf, offset) \<Rightarrow>
     do { t \<leftarrow> go_slice_from buf offset;
          (u, n) \<leftarrow> f t;
          Some (take offset buf @ u, offset + n) })"

definition put_vlq :: "u64 \<Rightarrow> wbuf \<Rightarrow> wbuf option" where
  "put_vlq n = put_step (\<lambda>t. PutVLQ t n)"

definition put_script :: "string \<Rightarrow> wbuf \<Rightarrow> wbuf option" where
  "put_script s = put_step (\<lambda>t. PutCompressedScript t s)"

definition put_u32 :: "u32 \<Rightarrow> wbuf \<Rightarrow> wbuf option" where
  "put_u32 v = put_step (\<lambda>t. if length t < 4 then None else Some (le_bytes 4 (unat v) @ drop 4 t, 4))"

text \<open>A string shorter than its limit is written behind its length; a longer one is dropped.\<close>

definition put_str :: "nat \<Rightarrow> string \<Rightarrow> wbuf \<Rightarrow> wbuf option" where
  "put_str limit s w = (case w of (buf, offset) \<Rightarrow>
     let n = length s in
     if n < limit then
       do { buf \<leftarrow> set_byte buf offset (char_of n);
            _ \<leftarrow> go_slice buf (offset + 1) (offset + 1 + n);
            Some (go_copy buf (offset + 1) s, offset + 1 + n) }
     else do { buf \<leftarrow> set_byte buf offset CHR 0x00; Some (buf, offset + 1) })"

definition Marshal_head :: "BRC20History \<Rightarrow> wbuf \<Rightarrow> wbuf option" where
  "Marshal_head h w =
     do { w \<leftarrow> put_vlq (ucast (h_Idx h)) w;
          w \<leftarrow> put_vlq (ucast (h_Vout h)) w;
          w \<leftarrow> put_vlq (h_Offset h) w;
          w \<leftarrow> put_script (h_PkScriptFrom h) w;
          w \<leftarrow> put_script (h_PkScriptTo h) w;
          w \<leftarrow> put_vlq (h_Satoshi h) w;
          w \<leftarrow> put_vlq (h_Fee h) w;
          w \<leftarrow> put_u32 (h_Height h) w;
          w \<leftarrow> put_vlq (ucast (h_TxIdx h)) w;
          put_u32 (h_BlockTime h) w }"

definition Marshal_amounts :: "BRC20History \<Rightarrow> wbuf \<Rightarrow> wbuf option" where
  "Marshal_amounts h w =
     do { w \<leftarrow> put_str 40 (h_Amount h) w;
          w \<leftarrow> put_str 40 (h_OverallBalance h) w;
          w \<leftarrow> put_str 40 (h_TransferableBalance h) w;
          put_str 40 (h_AvailableBalance h) w }"

definition Marshal_inscription :: "BRC20History \<Rightarrow> wbuf \<Rightarrow> wbuf option" where
  "Marshal_inscription h w =
     do { w \<leftarrow> put_u32 (ir_Height (h_Inscription h)) w;
          w \<leftarrow> put_vlq (ir_InscriptionNumber (h_Inscription h)) w;
          w \<leftarrow> put_vlq (ir_Satoshi (h_Inscription h)) w;
          put_str 70 (ir_InscriptionId (h_Inscription h)) w }"

definition Marshal_data :: "InscriptionBRC20InfoResp \<Rightarrow> wbuf \<Rightarrow> wbuf option" where
  "Marshal_data d w =
     do { w \<leftarrow> put_str 16 (r_BRC20Tick d) w;
          w \<leftarrow> put_str 40 (r_BRC20Max d) w;
          w \<leftarrow> put_str 40 (r_BRC20Limit d) w;
          w \<leftarrow> put_str 40 (r_BRC20Amount d) w;
          w \<leftarrow> put_str 8 (r_BRC20Decimal d) w;
          w \<leftarrow> put_str 40 (r_BRC20Minted d) w;
          put_str 8 (r_BRC20SelfMint d) w }"

definition Marshal_init :: "BRC20History \<Rightarrow> wbuf" where
  "Marshal_init h =
     (let buf = replicate 1024 CHR 0x00;
          buf = buf[0 := char_of (unat (h_Type h))];
          buf = buf[1 := if h_Valid h then CHR 0x01 else CHR 0x00]
      in (go_copy buf 2 (take 32 (h_TxId h)), 34))"

definition Marshal :: "BRC20History \<Rightarrow> string option" where
  "Marshal h =
     do { w \<leftarrow> Marshal_head h (Marshal_init h);
          w \<leftarrow> Marshal_amounts h w;
          w \<leftarrow> Marshal_inscription h w;
          (buf, offset) \<leftarrow> (case ir_Data (h_Inscription h) of None \<Rightarrow> Some w | Some d \<Rightarrow> Marshal_data d w);
          go_slice buf 0 offset }"

section \<open>Unmarshal\<close>

text \<open>
  The readers take what follows as a continuation; \<open>Unmarshal\<close> returns with the receiver as it is
  when a quantity ends the buffer.
\<close>

definition get_vlq :: "string \<Rightarrow> nat \<Rightarrow> 'h \<Rightarrow> (u64 \<Rightarrow> nat \<Rightarrow> 'h option) \<Rightarrow> 'h option" where
  "get_vlq buf offset h k =
     do { t \<leftarrow> go_slice_from buf offset;
          let (v, bytesRead) = DeserializeVLQ t;
          if bytesRead \<ge> length t then Some h else k v (offset + bytesRead) }"

definition get_script :: "string \<Rightarrow> nat \<Rightarrow> 'h \<Rightarrow> (string \<Rightarrow> nat \<Rightarrow> 'h option) \<Rightarrow> 'h option" where
  "get_script buf offset h k =
     do { t \<leftarrow> go_slice_from buf offset;
          let scriptSize = DecodeCompressedScriptSize t;
          if int (length t) < scriptSize then Some h
          else if scriptSize < 0 then None
          else do { s \<leftarrow> DecompressScript (take (nat scriptSize) t); k s (offset + nat scriptSize) } }"

definition get_u32 :: "string \<Rightarrow> nat \<Rightarrow> (u32 \<Rightarrow> nat \<Rightarrow> 'h option) \<Rightarrow> 'h option" where
  "get_u32 buf offset k =
     do { t \<leftarrow> go_slice_from buf offset;
          if length t < 4 then None else k (word_of_nat (le_val (take 4 t))) (offset + 4) }"

definition get_str :: "string \<Rightarrow> nat \<Rightarrow> string \<Rightarrow> (string \<Rightarrow> nat \<Rightarrow> 'h option) \<Rightarrow> 'h option" where
  "get_str buf offset old k =
     (if offset < length buf then
        let n = of_char (buf ! offset) in
        if n > 0 then do { s \<leftarrow> go_slice buf (offset + 1) (offset + 1 + n); k s (offset + 1 + n) }
        else k old (offset + 1)
      else None)"

definition Unmarshal_data :: "string \<Rightarrow> nat \<Rightarrow> InscriptionBRC20InfoResp option" where
  "Unmarshal_data buf offset =
     get_str buf offset '''' (\<lambda>tick offset.
     get_str buf offset '''' (\<lambda>mx offset.
     get_str buf offset '''' (\<lambda>lim offset.
     get_str buf offset '''' (\<lambda>amt offset.
     get_str buf offset '''' (\<lambda>dec offset.
     get_str buf offset '''' (\<lambda>minted offset.
     get_str buf offset '''' (\<lambda>self offset.
       Some \<lparr>r_Operation = '''', r_BRC20Tick = tick, r_BRC20Max = mx, r_BRC20Limit = lim, r_BRC20Amount = amt,
             r_BRC20Decimal = dec, r_BRC20Minted = minted, r_BRC20SelfMint = self\<rparr>)))))))"

definition Unmarshal_inscription :: "string \<Rightarrow> nat \<Rightarrow> BRC20History \<Rightarrow> BRC20History option" where
  "Unmarshal_inscription buf offset h =
     get_u32 buf offset (\<lambda>v offset. let h = h\<lparr>h_Inscription := (h_Inscription h)\<lparr>ir_Height := v\<rparr>\<rparr> in
     get_vlq buf offset h (\<lambda>v offset. let h = h\<lparr>h_Inscription := (h_Inscription h)\<lparr>ir_InscriptionNumber := v\<rparr>\<rparr> in
     get_vlq buf offset h (\<lambda>v offset. let h = h\<lparr>h_Inscription := (h_Inscription h)\<lparr>ir_Satoshi := v\<rparr>\<rparr> in
     get_str buf offset (ir_InscriptionId (h_Inscription h)) (\<lambda>s offset.
       let h = h\<lparr>h_Inscription := (h_Inscription h)\<lparr>ir_InscriptionId := s\<rparr>\<rparr> in
     do { t \<leftarrow> go_slice_from buf offset;
          if length t = 0 then Some h
          else do { d \<leftarrow> Unmarshal_data buf offset;
                    Some (h\<lparr>h_Inscription := (h_Inscription h)\<lparr>ir_Data := Some d\<rparr>\<rparr>) } }))))"

definition Unmarshal_amounts :: "string \<Rightarrow> nat \<Rightarrow> BRC20History \<Rightarrow> BRC20History option" where
  "Unmarshal_amounts buf offset h =
     get_str buf offset (h_Amount h) (\<lambda>s offset. let h = h\<lparr>h_Amount := s\<rparr> in
     get_str buf offset (h_OverallBalance h) (\<lambda>s offset. let h = h\<lparr>h_OverallBalance := s\<rparr> in
     get_str buf offset (h_TransferableBalance h) (\<lambda>s offset. let h = h\<lparr>h_TransferableBalance := s\<rparr> in
     get_str buf offset (h_AvailableBalance h) (\<lambda>s offset. let h = h\<lparr>h_AvailableBalance := s\<rparr> in
     Unmarshal_inscription buf offset h))))"

definition Unmarshal :: "BRC20History \<Rightarrow> string \<Rightarrow> BRC20History option" where
  "Unmarshal h buf =
     (if length buf < 34 then None
      else
     let h = h\<lparr>h_Type := word_of_nat (of_char (buf ! 0)), h_Valid := (buf ! 1 = CHR 0x01),
               h_TxId := take 32 (drop 2 buf)\<rparr> in
     get_vlq buf 34 h (\<lambda>v offset. let h = h\<lparr>h_Idx := ucast v\<rparr> in
     get_vlq buf offset h (\<lambda>v offset. let h = h\<lparr>h_Vout := ucast v\<rparr> in
     get_vlq buf offset h (\<lambda>v offset. let h = h\<lparr>h_Offset := v\<rparr> in
     get_script buf offset h (\<lambda>s offset. let h = h\<lparr>h_PkScriptFrom := s\<rparr> in
     get_script buf offset h (\<lambda>s offset. let h = h\<lparr>h_PkScriptTo := s\<rparr> in
     get_vlq buf offset h (\<lambda>v offset. let h = h\<lparr>h_Satoshi := v\<rparr> in
     get_vlq buf offset h (\<lambda>v offset. let h = h\<lparr>h_Fee := v\<rparr> in
     get_u32 buf offset (\<lambda>v offset. let h = h\<lparr>h_Height := v\<rparr> in
     get_vlq buf offset h (\<lambda>v offset. let h = h\<lparr>h_TxIdx := ucast v\<rparr> in
     get_u32 buf offset (\<lambda>v offset. let h = h\<lparr>h_BlockTime := v\<rparr> in
     Unmarshal_amounts buf offset h)))))))))))"

section \<open>The bytes of a record\<close>

definition str_bytes :: "nat \<Rightarrow> string \<Rightarrow> string" where
  "str_bytes limit s = (if length s < limit then char_of (length s) # s else [CHR 0x00])"

definition head_bytes :: "BRC20History \<Rightarrow> string" where
  "head_bytes h =
     char_of (unat (h_Type h)) # (if h_Valid h then CHR 0x01 else CHR 0x00) #
     take 32 (h_TxId h) @ replicate (32 - length (h_TxId h)) CHR 0x00"

definition chain_bytes :: "BRC20History \<Rightarrow> string" where
  "chain_bytes h =
     vlq (ucast (h_Idx h)) @ vlq (ucast (h_Vout h)) @ vlq (h_Offset h) @
     script_bytes (h_PkScriptFrom h) @ script_bytes (h_PkScriptTo h) @ vlq (h_Satoshi h) @ vlq (h_Fee h) @
     le_bytes 4 (unat (h_Height h)) @ vlq (ucast (h_TxIdx h)) @ le_bytes 4 (unat (h_BlockTime h))"

definition amount_bytes :: "BRC20History \<Rightarrow> string" where
  "amount_bytes h =
     str_bytes 40 (h_Amount h) @ str_bytes 40 (h_OverallBalance h) @ str_bytes 40 (h_TransferableBalance h) @
     str_bytes 40 (h_AvailableBalance h)"

definition inscription_bytes :: "BRC20History \<Rightarrow> string" where
  "inscription_bytes h =
     le_bytes 4 (unat (ir_Height (h_Inscription h))) @ vlq (ir_InscriptionNumber (h_Inscription h)) @
     vlq (ir_Satoshi (h_Inscription h)) @ str_bytes 70 (ir_InscriptionId (h_Inscription h))"

definition data_bytes :: "InscriptionBRC20InfoResp \<Rightarrow> string" where
  "data_bytes d =
     str_bytes 16 (r_BRC20Tick d) @ str_bytes 40 (r_BRC20Max d) @ str_bytes 40 (r_BRC20Limit d) @
     str_bytes 40 (r_BRC20Amount d) @ str_bytes 8 (r_BRC20Decimal d) @ str_bytes 40 (r_BRC20Minted d) @
     str_bytes 8 (r_BRC20SelfMint d)"

definition history_bytes :: "BRC20History \<Rightarrow> string" where
  "history_bytes h =
     head_bytes h @ chain_bytes h @ amount_bytes h @ inscription_bytes h @
     (case ir_Data (h_Inscription h) of None \<Rightarrow> [] | Some d \<Rightarrow> data_bytes d)"

text \<open>
  A writer state that has written \<open>d\<close>: the buffer holds \<open>d\<close> and zeros, or, when \<open>d\<close> does not
  fit, the writer has panicked or its offset has left the buffer.
\<close>

definition writes :: "wbuf option \<Rightarrow> string \<Rightarrow> bool" where
  "writes r d \<longleftrightarrow>
     (if length d \<le> 1024 then r = Some (d @ replicate (1024 - length d) CHR 0x00, length d)
      else r = None \<or> (\<exists>buf offset. r = Some (buf, offset) \<and> length buf < offset))"

lemma put_step_writes:
  assumes "writes r d"
    and fits: "\<And>t. length b \<le> length t \<Longrightarrow> f t = Some (b @ drop (length b) t, length b)"
    and over: "\<And>t. length t < length b \<Longrightarrow> f t = None \<or> (\<exists>u. f t = Some (u, length b) \<and> length u = length t)"
  shows "writes (r \<bind> put_step f) (d @ b)"
proof (cases "length d \<le> 1024")
  case True
  then have r: "r = Some (d @ replicate (1024 - length d) CHR 0x00, length d)" using assms(1) by (simp add: writes_def)
  let ?t = "replicate (1024 - length d) CHR 0x00"
  show ?thesis
  proof (cases "length b \<le> length ?t")
    case True
    with \<open>length d \<le> 1024\<close> fits [OF True] show ?thesis
      by (simp add: r put_step_def go_slice_from_def writes_def)
  next
    case False
    with over [of ?t] \<open>length d \<le> 1024\<close> show ?thesis
      by (auto simp: r put_step_def go_slice_from_def writes_def)
  qed
next
  case False
  then show ?thesis using assms(1) by (auto simp: writes_def put_step_def go_slice_from_def)
qed

lemma put_vlq_writes: "writes r d \<Longrightarrow> writes (r \<bind> put_vlq n) (d @ vlq n)"
  unfolding put_vlq_def by (rule put_step_writes) (simp_all add: PutVLQ_spec)

lemma put_u32_writes: "writes r d \<Longrightarrow> writes (r \<bind> put_u32 v) (d @ le_bytes 4 (unat v))"
  unfolding put_u32_def by (rule put_step_writes) simp_all

text \<open>Without room, \<open>PutCompressedScript\<close> panics or truncates the copy and reports the full size.\<close>

lemma PutCompressedScript_over:
  assumes "length t < length (script_bytes pk)"
  shows "PutCompressedScript t pk = None \<or> (\<exists>u. PutCompressedScript t pk = Some (u, length (script_bytes pk)) \<and> length u = length t)"
proof (cases "isPubKeyHash pk")
  case (Some h)
  then have "length h = 20" using isPubKeyHash_Some by blast
  then show ?thesis
    using assms Some by (simp add: PutCompressedScript_def script_bytes_def set_byte_def go_slice_def)
next
  case pkh: None
  show ?thesis
  proof (cases "isScriptHash pk")
    case (Some h)
    then have "length h = 20" using isScriptHash_Some by blast
    then show ?thesis
      using assms Some pkh by (simp add: PutCompressedScript_def script_bytes_def set_byte_def go_slice_def)
  next
    case sh: None
    show ?thesis
    proof (cases "isPubKey pk")
      case (Some k)
      then obtain c x where k: "k = c # x" and cx: "c = CHR 0x04 \<and> length x = 64 \<or> c \<noteq> CHR 0x04 \<and> length x = 32"
        using isPubKey_Some [OF Some] by auto
      have "script_bytes pk = c # x" using Some pkh sh k by (simp add: script_bytes_def)
      with cx show ?thesis
        using assms Some pkh sh k by (auto simp: PutCompressedScript_def set_byte_def go_slice_def)
    next
      case None
      then show ?thesis
        using assms pkh sh by (simp add: PutCompressedScript_def script_bytes_def PutVLQ_spec go_copy_def)
    qed
  qed
qed

lemma put_script_writes: "writes r d \<Longrightarrow> writes (r \<bind> put_script s) (d @ script_bytes s)"
  unfolding put_script_def by (rule put_step_writes, assumption, erule PutCompressedScript_spec, erule PutCompressedScript_over)

lemma put_str_writes: "writes r d \<Longrightarrow> writes (r \<bind> put_str limit s) (d @ str_bytes limit s)"
proof -
  assume w: "writes r d"
  show ?thesis
  proof (cases "length d \<le> 1024")
    case False
    then have l: "\<not> length (d @ str_bytes limit s) \<le> 1024" by simp
    from False w have "r = None \<or> (\<exists>buf offset. r = Some (buf, offset) \<and> length buf < offset)" by (simp add: writes_def)
    then have "(r \<bind> put_str limit s) = None" by (auto simp: put_str_def set_byte_def Let_def)
    then show ?thesis unfolding writes_def if_not_P [OF l] by simp
  next
    case True
    then have r: "r = Some (d @ replicate (1024 - length d) CHR 0x00, length d)" using w by (simp add: writes_def)
    show ?thesis
    proof (cases "length d = 1024")
      case True
      then show ?thesis by (simp add: r writes_def put_str_def set_byte_def Let_def str_bytes_def)
    next
      case False
      define k where "k = 1023 - length d"
      have k: "1024 - length d = Suc k" using True False by (simp add: k_def)
      have r': "r = Some (d @ CHR 0x00 # replicate k CHR 0x00, length d)" using r by (simp add: k)
      have sb: "set_byte (d @ c # x) (length d) c' = Some (d @ c' # x)" for c c' and x :: string
        by (simp add: set_byte_def list_update_append)
      have kd: "length d + Suc k = 1024" using True False by (simp add: k_def)
      show ?thesis
      proof (cases "length s < limit")
        case False
        then show ?thesis using kd by (auto simp: r' put_str_def sb writes_def str_bytes_def Let_def)
      next
        case True
        show ?thesis
        proof (cases "length s \<le> k")
          case fits: True
          have "1024 - (length d + Suc (length s)) = k - length s" using kd by simp
          then show ?thesis
            using True fits kd by (simp add: r' put_str_def sb writes_def str_bytes_def Let_def go_slice_def go_copy_def)
        next
          case False
          then show ?thesis
            using True kd by (simp add: r' put_str_def sb writes_def str_bytes_def Let_def go_slice_def)
        qed
      qed
    qed
  qed
qed

lemmas writers = put_vlq_writes put_u32_writes put_script_writes put_str_writes

lemma writes_init: "writes (Some (Marshal_init h)) (head_bytes h)"
proof -
  have r: "replicate 1024 CHR 0x00 = CHR 0x00 # CHR 0x00 # replicate 1022 CHR 0x00"
    by (simp add: numeral_eq_Suc)
  have "go_copy (a # b # replicate 1022 CHR 0x00) 2 (take 32 t) =
    a # b # (take 32 t @ replicate (32 - length t) CHR 0x00) @ replicate 990 CHR 0x00" for a b t
    by (cases "length t \<le> 32") (simp_all add: go_copy_def replicate_add [symmetric] min_def)
  moreover have "min (length (h_TxId h)) 32 + (32 - length (h_TxId h)) = 32" by (simp add: min_def)
  ultimately show ?thesis
    by (simp add: writes_def Marshal_init_def r head_bytes_def Let_def)
qed

lemma writes_chain:
  assumes "writes (Some w) d"
  shows "writes (Marshal_head h w) (d @ chain_bytes h)"
proof -
  note 1 = writers(1) [OF assms, of "ucast (h_Idx h)"]
  note 2 = writers(1) [OF 1, of "ucast (h_Vout h)"]
  note 3 = writers(1) [OF 2, of "h_Offset h"]
  note 4 = writers(3) [OF 3, of "h_PkScriptFrom h"]
  note 5 = writers(3) [OF 4, of "h_PkScriptTo h"]
  note 6 = writers(1) [OF 5, of "h_Satoshi h"]
  note 7 = writers(1) [OF 6, of "h_Fee h"]
  note 8 = writers(2) [OF 7, of "h_Height h"]
  note 9 = writers(1) [OF 8, of "ucast (h_TxIdx h)"]
  note 10 = writers(2) [OF 9, of "h_BlockTime h"]
  then show ?thesis by (simp add: Marshal_head_def chain_bytes_def)
qed

lemma writes_bind: "(\<And>w. writes (Some w) d \<Longrightarrow> writes (f w) (d @ b)) \<Longrightarrow> writes r d \<Longrightarrow> writes (r \<bind> f) (d @ b)"
  by (cases r) (auto simp: writes_def split: if_splits)

lemma writes_amounts:
  assumes "writes (Some w) d"
  shows "writes (Marshal_amounts h w) (d @ amount_bytes h)"
  using writers(4) [OF writers(4) [OF writers(4) [OF writers(4) [OF assms, of 40 "h_Amount h"],
    of 40 "h_OverallBalance h"], of 40 "h_TransferableBalance h"], of 40 "h_AvailableBalance h"]
  by (simp add: Marshal_amounts_def amount_bytes_def)

lemma writes_inscription:
  assumes "writes (Some w) d"
  shows "writes (Marshal_inscription h w) (d @ inscription_bytes h)"
  using writers(4) [OF writers(1) [OF writers(1) [OF writers(2) [OF assms, of "ir_Height (h_Inscription h)"],
    of "ir_InscriptionNumber (h_Inscription h)"], of "ir_Satoshi (h_Inscription h)"], of 70 "ir_InscriptionId (h_Inscription h)"]
  by (simp add: Marshal_inscription_def inscription_bytes_def)

lemma writes_data:
  assumes "writes (Some w) d"
  shows "writes (Marshal_data x w) (d @ data_bytes x)"
  using writers(4) [OF writers(4) [OF writers(4) [OF writers(4) [OF writers(4) [OF writers(4) [OF writers(4) [OF assms,
    of 16 "r_BRC20Tick x"], of 40 "r_BRC20Max x"], of 40 "r_BRC20Limit x"], of 40 "r_BRC20Amount x"],
    of 8 "r_BRC20Decimal x"], of 40 "r_BRC20Minted x"], of 8 "r_BRC20SelfMint x"]
  by (simp add: Marshal_data_def data_bytes_def)

lemma writes_finish:
  "writes r d \<Longrightarrow> (r \<bind> (\<lambda>(buf, offset). go_slice buf 0 offset)) = (if length d \<le> 1024 then Some d else None)"
  by (auto simp: writes_def go_slice_def split: if_splits)

lemma Marshal_bytes: "Marshal h = (if length (history_bytes h) \<le> 1024 then Some (history_bytes h) else None)"
proof -
  note 1 = writes_chain [OF writes_init [of h], of h]
  note 2 = writes_bind [OF writes_amounts [where h = h] 1]
  note 3 = writes_bind [OF writes_inscription [where h = h] 2]
  let ?d = "\<lambda>w. case ir_Data (h_Inscription h) of None \<Rightarrow> Some w | Some d \<Rightarrow> Marshal_data d w"
  let ?b = "case ir_Data (h_Inscription h) of None \<Rightarrow> [] | Some d \<Rightarrow> data_bytes d"
  have "writes (Some w) d \<Longrightarrow> writes (?d w) (d @ ?b)" for w d
    by (auto simp: writes_data split: option.splits)
  note 4 = writes_bind [OF this 3]
  from writes_finish [OF 4] show ?thesis
    by (simp add: Marshal_def history_bytes_def)
qed

section \<open>Reading the bytes back\<close>

text \<open>The reader stands at offset \<open>off\<close> and the rest of the buffer is \<open>r\<close>.\<close>

definition at_rest :: "string \<Rightarrow> nat \<Rightarrow> string \<Rightarrow> bool" where
  "at_rest buf off r \<longleftrightarrow> off \<le> length buf \<and> drop off buf = r"

lemma at_rest_step: "at_rest buf off (b @ r) \<Longrightarrow> at_rest buf (off + length b) r"
proof -
  assume a: "at_rest buf off (b @ r)"
  then have "length buf = off + length b + length r" by (metis at_rest_def add.assoc length_append length_drop le_add_diff_inverse)
  moreover have "drop (off + length b) buf = r"
    using a drop_drop [of "length b" off buf] by (simp add: at_rest_def add.commute)
  ultimately show ?thesis by (simp add: at_rest_def)
qed

lemma get_vlq_step:
  assumes "at_rest buf off (vlq n @ r)" and "r \<noteq> []" and "\<And>off'. at_rest buf off' r \<Longrightarrow> k n off' = x"
  shows "get_vlq buf off h k = x"
  using assms(1,2) assms(3) [OF at_rest_step [OF assms(1)]]
  by (simp add: at_rest_def get_vlq_def go_slice_from_def DeserializeVLQ_vlq)

lemma get_script_step:
  assumes "at_rest buf off (script_bytes s @ r)" and "length s < 2 ^ 62"
    and "\<And>off'. at_rest buf off' r \<Longrightarrow> k s off' = x"
  shows "get_script buf off h k = x"
  using assms(1,2) assms(3) [OF at_rest_step [OF assms(1)]]
  by (simp add: at_rest_def get_script_def go_slice_from_def DecodeCompressedScriptSize_bytes DecompressScript_bytes)

lemma get_u32_step:
  assumes "at_rest buf off (le_bytes 4 (unat v) @ r)" and "\<And>off'. at_rest buf off' r \<Longrightarrow> k v off' = x"
  shows "get_u32 buf off k = x"
  using assms(1) assms(2) [OF at_rest_step [OF assms(1)]] unsigned_less [of v, where 'a = nat]
  by (simp add: at_rest_def get_u32_def go_slice_from_def le_val_le_bytes)

text \<open>A string field comes back if it is shorter than its limit; an empty one leaves the receiver's field.\<close>

lemma get_str_step:
  assumes a: "at_rest buf off (str_bytes limit s @ r)" and l: "length s < limit" "limit \<le> 256"
    and k: "\<And>off'. at_rest buf off' r \<Longrightarrow> k (if s = [] then old else s) off' = x"
  shows "get_str buf off old k = x"
proof -
  from a l have d: "drop off buf = char_of (length s) # s @ r" and o: "off < length buf"
    by (auto simp: at_rest_def str_bytes_def intro: leI) (metis drop_all list.distinct(1) not_le)
  have c: "buf ! off = char_of (length s)" using d o by (metis hd_drop_conv_nth list.sel(1))
  have t: "drop (Suc off) buf = s @ r" using d by (metis drop_Suc list.sel(3) tl_drop)
  then have n: "off + 1 + length s \<le> length buf" using o by (metis add.commute append_take_drop_id length_append length_drop Suc_eq_plus1 Suc_leI le_add_diff_inverse le_add1 add_le_cancel_left)
  have e: "off + length (str_bytes limit s) = off + 1 + length s" using l by (simp add: str_bytes_def)
  show ?thesis
    using k [OF at_rest_step [OF a], unfolded e] o c t n l
    by (cases "s = []") (simp_all add: get_str_def go_slice_def Let_def)
qed

lemma get_str_step_nil:
  assumes "at_rest buf off (str_bytes limit s @ r)" "length s < limit" "limit \<le> 256" "old = []"
    and "\<And>off'. at_rest buf off' r \<Longrightarrow> k s off' = x"
  shows "get_str buf off old k = x"
proof (rule get_str_step [OF assms(1-3)])
  have "(if s = [] then old else s) = s" using assms(4) by simp
  then show "k (if s = [] then old else s) off' = x" if "at_rest buf off' r" for off'
    using assms(5) [OF that] by (simp only:)
qed

text \<open>The records the indexer writes: a 32-byte transaction id and strings within their limits.\<close>

definition data_fits :: "InscriptionBRC20InfoResp \<Rightarrow> bool" where
  "data_fits d \<longleftrightarrow>
     length (r_BRC20Tick d) < 16 \<and> length (r_BRC20Max d) < 40 \<and> length (r_BRC20Limit d) < 40 \<and>
     length (r_BRC20Amount d) < 40 \<and> length (r_BRC20Decimal d) < 8 \<and> length (r_BRC20Minted d) < 40 \<and>
     length (r_BRC20SelfMint d) < 8"

definition history_fits :: "BRC20History \<Rightarrow> bool" where
  "history_fits h \<longleftrightarrow>
     length (h_TxId h) = 32 \<and> length (h_Amount h) < 40 \<and> length (h_OverallBalance h) < 40 \<and>
     length (h_TransferableBalance h) < 40 \<and> length (h_AvailableBalance h) < 40 \<and>
     length (ir_InscriptionId (h_Inscription h)) < 70 \<and>
     (case ir_Data (h_Inscription h) of None \<Rightarrow> True | Some d \<Rightarrow> data_fits d)"

definition empty_inscription :: InscriptionBRC20TickInfoResp where
  "empty_inscription = \<lparr>ir_Height = 0, ir_Data = None, ir_InscriptionNumber = 0, ir_InscriptionId = '''',
     ir_Satoshi = 0, ir_Confirmations = 0\<rparr>"

definition empty_history :: BRC20History where
  "empty_history = \<lparr>h_Type = 0, h_Valid = False, h_TxId = '''', h_Idx = 0, h_Vout = 0, h_Offset = 0,
     h_PkScriptFrom = '''', h_PkScriptTo = '''', h_Satoshi = 0, h_Fee = 0, h_Height = 0, h_TxIdx = 0, h_BlockTime = 0,
     h_Inscription = empty_inscription, h_Amount = '''', h_OverallBalance = '''', h_TransferableBalance = '''',
     h_AvailableBalance = ''''\<rparr>"

text \<open>What a record keeps: the operation name and the confirmations are not written.\<close>

definition stored_data :: "InscriptionBRC20InfoResp \<Rightarrow> InscriptionBRC20InfoResp" where
  "stored_data d = d\<lparr>r_Operation := ''''\<rparr>"

definition stored :: "BRC20History \<Rightarrow> BRC20History" where
  "stored h = h\<lparr>h_Inscription := (h_Inscription h)\<lparr>ir_Data := map_option stored_data (ir_Data (h_Inscription h)),
     ir_Confirmations := 0\<rparr>\<rparr>"

lemma str_bytes_not_Nil [simp]: "str_bytes l s \<noteq> []"
  by (simp add: str_bytes_def)

lemma le_bytes_4_not_Nil [simp]: "le_bytes 4 n \<noteq> []"
  using length_le_bytes [of 4 n] by (metis length_0_conv zero_neq_numeral)

lemma Unmarshal_data_bytes:
  assumes "data_fits d" and "at_rest buf off (data_bytes d @ r)"
  shows "Unmarshal_data buf off = Some (stored_data d)"
  using assms unfolding Unmarshal_data_def data_bytes_def data_fits_def append_assoc
  apply (elim conjE)
  apply (rule get_str_step, assumption, assumption, simp)+
  apply (simp add: stored_data_def)
  done

lemma let_step: "(\<And>h. h = e \<Longrightarrow> f h = x) \<Longrightarrow> (let h = e in f h) = x"
  by simp

lemma Unmarshal_inscription_bytes:
  assumes "length (ir_InscriptionId (h_Inscription h)) < 70"
    and "case ir_Data (h_Inscription h) of None \<Rightarrow> True | Some d \<Rightarrow> data_fits d"
    and "at_rest buf off (inscription_bytes h @ (case ir_Data (h_Inscription h) of None \<Rightarrow> [] | Some d \<Rightarrow> data_bytes d))"
    and "h_Inscription h0 = empty_inscription"
  shows "Unmarshal_inscription buf off h0 = Some (h0\<lparr>h_Inscription := h_Inscription (stored h)\<rparr>)"
proof -
  let ?d = "ir_Data (h_Inscription h)"
  let ?i = "\<lparr>ir_Height = ir_Height (h_Inscription h), ir_Data = None, ir_InscriptionNumber = ir_InscriptionNumber (h_Inscription h),
     ir_InscriptionId = ir_InscriptionId (h_Inscription h), ir_Satoshi = ir_Satoshi (h_Inscription h), ir_Confirmations = 0\<rparr>"
  have tail: "(do { t \<leftarrow> go_slice_from buf off';
          if length t = 0 then Some h'
          else do { d \<leftarrow> Unmarshal_data buf off';
                    Some (h'\<lparr>h_Inscription := (h_Inscription h')\<lparr>ir_Data := Some d\<rparr>\<rparr>) } })
      = Some (h0\<lparr>h_Inscription := h_Inscription (stored h)\<rparr>)"
    if "at_rest buf off' (case ?d of None \<Rightarrow> [] | Some d \<Rightarrow> data_bytes d)" "h' = h0\<lparr>h_Inscription := ?i\<rparr>" for off' h'
  proof (cases ?d)
    case None
    then show ?thesis using that by (auto simp: at_rest_def go_slice_from_def stored_def)
  next
    case (Some d)
    then have "data_bytes d \<noteq> []" "data_fits d" "at_rest buf off' (data_bytes d @ [])"
      using assms(2) that by (simp_all add: data_bytes_def)
    with Unmarshal_data_bytes [of d buf off' "[]"] Some that show ?thesis
      by (auto simp: at_rest_def go_slice_from_def stored_def)
  qed
  show ?thesis
    using assms(1,3) unfolding Unmarshal_inscription_def inscription_bytes_def append_assoc
    apply -
    apply (rule get_u32_step, assumption, rule let_step)
    apply (rule get_vlq_step, assumption, simp, rule let_step)
    apply (rule get_vlq_step, assumption, simp, rule let_step)
    apply (rule get_str_step, assumption, assumption, simp, rule let_step)
    apply (rule tail, assumption)
    apply (simp add: assms(4) empty_inscription_def)
    done
qed

lemma Unmarshal_amounts_bytes:
  assumes "history_fits h" and "at_rest buf off (amount_bytes h @ r)"
    and "\<And>off'. at_rest buf off' r \<Longrightarrow>
      Unmarshal_inscription buf off' (h0\<lparr>h_Amount := h_Amount h, h_OverallBalance := h_OverallBalance h,
        h_TransferableBalance := h_TransferableBalance h, h_AvailableBalance := h_AvailableBalance h\<rparr>) = x"
    and "h_Amount h0 = ''''" "h_OverallBalance h0 = ''''" "h_TransferableBalance h0 = ''''" "h_AvailableBalance h0 = ''''"
  shows "Unmarshal_amounts buf off h0 = x"
proof -
  have f: "length (h_Amount h) < 40" "length (h_OverallBalance h) < 40" "length (h_TransferableBalance h) < 40"
    "length (h_AvailableBalance h) < 40" using assms(1) by (simp_all add: history_fits_def)
  show ?thesis
    using f assms(2) unfolding Unmarshal_amounts_def amount_bytes_def append_assoc
    apply -
    apply (rule get_str_step_nil, assumption, assumption, simp, simp add: assms(4-), rule let_step)+
    apply (drule assms(3))
    apply simp
    done
qed

lemma ucast_u32_u64 [simp]: "ucast (ucast w :: u64) = (w :: u32)"
  by (rule bit_word_eqI) (auto simp: bit_simps)

lemma Unmarshal_bytes:
  assumes f: "history_fits h" and l: "length (h_PkScriptFrom h) < 2 ^ 62" "length (h_PkScriptTo h) < 2 ^ 62"
  shows "Unmarshal empty_history (history_bytes h) = Some (stored h)"
proof -
  let ?r = "amount_bytes h @ inscription_bytes h @ (case ir_Data (h_Inscription h) of None \<Rightarrow> [] | Some d \<Rightarrow> data_bytes d)"
  let ?buf = "history_bytes h"
  have t: "length (h_TxId h) = 32" using f by (simp add: history_fits_def)
  have hd: "head_bytes h = char_of (unat (h_Type h)) # (if h_Valid h then CHR 0x01 else CHR 0x00) # h_TxId h"
    using t by (simp add: head_bytes_def)
  have a: "at_rest ?buf 34 (chain_bytes h @ ?r)"
    using t by (simp add: at_rest_def history_bytes_def hd)
  have tk: "take 32 (drop 2 ?buf) = h_TxId h" "?buf ! 0 = char_of (unat (h_Type h))"
    "?buf ! 1 = (if h_Valid h then CHR 0x01 else CHR 0x00)" "\<not> length ?buf < 34"
    using t by (simp_all add: history_bytes_def hd)
  have ty: "word_of_nat (of_char (char_of (unat (h_Type h)) :: char)) = h_Type h"
    using unsigned_less [of "h_Type h", where 'a = nat] by simp
  have am [simp]: "amount_bytes h \<noteq> []" by (simp add: amount_bytes_def)
  have fi: "length (ir_InscriptionId (h_Inscription h)) < 70"
    "case ir_Data (h_Inscription h) of None \<Rightarrow> True | Some d \<Rightarrow> data_fits d"
    using f by (simp_all add: history_fits_def)
  show ?thesis
    using a unfolding Unmarshal_def chain_bytes_def append_assoc if_not_P [OF tk(4)] tk(1-3) ty
    apply -
    apply (rule let_step)
    apply (rule get_vlq_step, assumption, simp, rule let_step)+
    apply (rule get_script_step, assumption, rule l, rule let_step)+
    apply (rule get_vlq_step, assumption, simp, rule let_step)+
    apply (rule get_u32_step, assumption, rule let_step)
    apply (rule get_vlq_step, assumption, simp, rule let_step)
    apply (rule get_u32_step, assumption, rule let_step)
    apply (rule Unmarshal_amounts_bytes [OF f], assumption)
        apply (subst Unmarshal_inscription_bytes [OF fi], assumption)
    apply (simp_all add: empty_history_def stored_def)
    done
qed

text \<open>
  C39. \<open>Marshal\<close> panics exactly when the encoding of a history record is longer than its buffer of 1024
  bytes; otherwise \<open>Unmarshal\<close> of its result gives the record back, up to the operation name and the
  confirmations, which are not stored. (Strings at or above their limits are dropped by \<open>Marshal\<close>,
  \<open>history_fits\<close> excludes them.)
\<close>

theorem Marshal_Unmarshal_roundtrip:
  assumes "history_fits h"
  shows "(Marshal h = None \<longleftrightarrow> 1024 < length (history_bytes h)) \<and>
    (1024 < length (history_bytes h) \<or>
     (\<exists>b. Marshal h = Some b \<and> Unmarshal empty_history b = Some (stored h)))"
proof (cases "length (history_bytes h) \<le> 1024")
  case True
  have s: "length pk \<le> length (script_bytes pk) + 4" for pk
    by (cases pk rule: script_bytes_cases) auto
  have "length (script_bytes (h_PkScriptFrom h)) \<le> 1024" "length (script_bytes (h_PkScriptTo h)) \<le> 1024"
    using True by (simp_all add: history_bytes_def chain_bytes_def)
  then have "length (h_PkScriptFrom h) < 2 ^ 62" "length (h_PkScriptTo h) < 2 ^ 62"
    using s [of "h_PkScriptFrom h"] s [of "h_PkScriptTo h"] by simp_all
  from Unmarshal_bytes [OF assms this] True show ?thesis by (simp add: Marshal_bytes)
qed (simp add: Marshal_bytes)

theorem Marshal_Unmarshal_roundtrip_witness:
  "let h = empty_history\<lparr>h_TxId := replicate 32 CHR ''t'', h_PkScriptTo := replicate 34 CHR ''s'', h_Amount := ''1.5''\<rparr>
   in (Marshal h = None \<longleftrightarrow> 1024 < length (history_bytes h)) \<and>
    (1024 < length (history_bytes h) \<or>
     (\<exists>b. Marshal h = Some b \<and> Unmarshal empty_history b = Some (stored h)))"
  unfolding Let_def
  by (rule Marshal_Unmarshal_roundtrip) (simp add: history_fits_def empty_history_def empty_inscription_def)

text \<open>
  C40. A transfer to an output script longer than 1024 bytes makes \<open>Marshal\<close> panic: the history
  buffer has a fixed size and nothing bounds the scripts before they are written to it.
\<close>

theorem Marshal_long_script_panics:
  assumes "1024 < length (h_PkScriptTo h)"
  shows "Marshal h = None"
proof -
  have "length (script_bytes (h_PkScriptTo h)) > 1024"
    using assms by (cases "h_PkScriptTo h" rule: script_bytes_cases) auto
  then show ?thesis by (simp add: Marshal_bytes history_bytes_def chain_bytes_def)
qed

theorem Marshal_long_script_panics_witness:
  "Marshal (empty_history\<lparr>h_PkScriptTo := replicate 1025 CHR ''s''\<rparr>) = None"
  by (rule Marshal_long_script_panics) simp

end
