(* ===== verification/Module_Model.thy ===== *)
theory Module_Model
  imports Brc20_History
begin

text \<open>
  The data model of the swap module: \<open>model/swap.go\<close>, \<open>model/module.go\<close>,
  \<open>model/history_module.go\<close> and \<open>model/conditional_approve.go\<close>.

  Field prefixes: \<open>mb_\<close> for \<open>BRC20ModuleTokenBalance\<close>, \<open>pl_\<close> for
  \<open>BRC20ModulePoolTotalBalance\<close>, \<open>m_\<close> for \<open>BRC20ModuleSwapInfo\<close>, \<open>si_\<close> for
  \<open>InscriptionBRC20SwapInfo\<close>, \<open>ca_\<close> for \<open>InscriptionBRC20SwapConditionalApproveInfo\<close>,
  \<open>ts_\<close>, \<open>as_\<close>, \<open>ce_\<close> for the states and events of conditional approval, \<open>sf_\<close> for
  \<open>SwapFunctionData\<close>.

  Pointers. The inner maps of \<open>TokenUsersBalanceDataMap\<close> hold the same pointers as those of
  \<open>UsersTokenBalanceDataMap\<close>, so they are modelled by the set of their keys. A transfer state is
  shared between the indexer and the modules, so a module keeps addresses of a heap
  (\<open>TransferHeap\<close> of the indexer). A conditional approval is referred to by its create key.
\<close>

section \<open>Contents and commit functions\<close>

record SwapFunctionData =
  sf_Address :: string
  sf_Function :: string
  sf_Params :: "string list"
  sf_Timestamp :: u64
  sf_Signature :: string
  sf_ID :: string
  sf_PkScript :: string

text \<open>An element of \<open>Data\<close> is \<open>nil\<close> where the JSON array has \<open>null\<close>.\<close>

record InscriptionBRC20ModuleSwapCommitContent =
  cc_Proto :: string
  cc_Operation :: string
  cc_Module :: string
  cc_Parent :: string
  cc_GasPrice :: string
  cc_Data :: "SwapFunctionData option list"

record InscriptionBRC20ModuleSwapApproveContent =
  ac_Proto :: string
  ac_Operation :: string
  ac_Module :: string
  ac_Tick :: string
  ac_Amount :: string

record InscriptionBRC20ModuleDeploySwapContent =
  md_Proto :: string
  md_Operation :: string
  md_Name :: string
  md_Source :: string
  md_Init :: "string \<rightharpoonup> string"

record SwapFunctionResultCheckStateForUser =
  ru_Address :: string
  ru_Tick :: string
  ru_Balance :: string

record SwapFunctionResultCheckStateForPool =
  rp_Pair :: string
  rp_ReserveAmount0 :: string
  rp_ReserveAmount1 :: string
  rp_LPAmount :: string

record SwapFunctionResultCheckState =
  rs_Users :: "SwapFunctionResultCheckStateForUser list"
  rs_Pools :: "SwapFunctionResultCheckStateForPool list"
  rs_CommitId :: string
  rs_FunctionIdx :: int

section \<open>Module history\<close>

record InscriptionBRC20SwapInfoResp =
  sr_ContentBody :: string
  sr_InscriptionNumber :: i64
  sr_InscriptionId :: string
  sr_Height :: u32
  sr_Confirmations :: int

text \<open>What the code stores in the field \<open>Data any\<close>.\<close>

datatype module_history_data =
    NoData
  | WithdrawData string string \<comment> \<open>\<open>BRC20SwapHistoryWithdrawData\<close>: tick, amount\<close>
  | ApproveData string string \<comment> \<open>\<open>BRC20SwapHistoryApproveData\<close>: tick, amount\<close>
  | CondApproveData string string string string string
      \<comment> \<open>\<open>BRC20SwapHistoryCondApproveData\<close>: tick, amount, balance, transfer, transferMax\<close>

record BRC20ModuleHistory = BRC20HistoryBase +
  mh_Inscription :: InscriptionBRC20SwapInfoResp
  mh_Data :: module_history_data

definition NewBRC20ModuleHistory ::
    "bool \<Rightarrow> u8 \<Rightarrow> InscriptionBRC20Data \<Rightarrow> InscriptionBRC20Data \<Rightarrow> module_history_data \<Rightarrow> bool \<Rightarrow> BRC20ModuleHistory" where
  "NewBRC20ModuleHistory isTransfer historyType from dst data isValid =
     (let src = (if isTransfer then dst else from) in
      \<lparr>h_Type = historyType, h_Valid = isValid, h_TxId = d_TxId src, h_Idx = d_Idx src, h_Vout = d_Vout src,
       h_Offset = d_Offset src, h_PkScriptFrom = (if isTransfer then d_PkScript from else ''''),
       h_PkScriptTo = d_PkScript src, h_Satoshi = d_Satoshi src, h_Fee = 0, h_Height = d_Height src,
       h_TxIdx = d_TxIdx src, h_BlockTime = d_BlockTime src,
       mh_Inscription = \<lparr>sr_ContentBody = d_ContentBody from, sr_InscriptionNumber = d_InscriptionNumber from,
         sr_InscriptionId = Data_GetInscriptionId from, sr_Height = d_Height from, sr_Confirmations = 0\<rparr>,
       mh_Data = data\<rparr>)"

section \<open>Approvals\<close>

record InscriptionBRC20SwapInfo =
  si_Module :: string
  si_Tick :: string
  si_Amount :: decp
  si_Data :: InscriptionBRC20Data

record InscriptionBRC20SwapConditionalApproveInfo =
  ca_UpdateHeight :: u32
  ca_Module :: string
  ca_Tick :: string
  ca_Amount :: decp
  ca_Balance :: decp
  ca_HasMoved :: bool
  ca_OwnerPkScript :: string
  ca_DelegatorPkScript :: string
  ca_Data :: InscriptionBRC20Data

record TransferStateForConditionalApprove =
  ts_Tick :: string
  ts_From :: string
  ts_To :: string
  ts_Balance :: decp
  ts_InscriptionId :: string
  ts_Max :: string

record ApproveStateForConditionalApprove =
  as_Module :: string
  as_Tick :: string
  as_Owner :: string
  as_Balance :: decp
  as_ApproveInfo :: InscriptionBRC20SwapConditionalApproveInfo
  as_ToData :: InscriptionBRC20Data

record ConditionalApproveEvent =
  ce_Module :: string
  ce_Tick :: string
  ce_TransferInscriptionId :: string
  ce_TransferMax :: string
  ce_From :: string
  ce_To :: string
  ce_Amount :: decp
  ce_Balance :: decp
  ce_FromData :: InscriptionBRC20Data
  ce_ToData :: InscriptionBRC20Data
  ce_ApproveInfo :: InscriptionBRC20SwapConditionalApproveInfo

definition NewConditionalApproveEvent ::
    "string \<Rightarrow> string \<Rightarrow> decp \<Rightarrow> decp \<Rightarrow> InscriptionBRC20Data \<Rightarrow>
     InscriptionBRC20SwapConditionalApproveInfo \<Rightarrow> string \<Rightarrow> string \<Rightarrow> ConditionalApproveEvent" where
  "NewConditionalApproveEvent senderPkScript receiverPkScript amount balance data approveInfo
       transferInscriptionId transferMax =
     \<lparr>ce_Module = ca_Module approveInfo, ce_Tick = ca_Tick approveInfo,
      ce_TransferInscriptionId = transferInscriptionId, ce_TransferMax = transferMax,
      ce_From = senderPkScript, ce_To = receiverPkScript, ce_Amount = amount, ce_Balance = balance,
      ce_FromData = (ca_Data approveInfo)\<lparr>d_PkScript := senderPkScript\<rparr>,
      ce_ToData = data\<lparr>d_PkScript := receiverPkScript\<rparr>, ce_ApproveInfo = approveInfo\<rparr>"

record BRC20ModuleConditionalApproveStateBalance =
  cs_Tick :: string
  cs_BalanceDeposite :: decp
  cs_BalanceApprove :: decp
  cs_BalanceNewApprove :: decp
  cs_BalanceCancelApprove :: decp
  cs_BalanceWaitApprove :: decp

definition new_state_balance :: "string \<Rightarrow> BRC20ModuleConditionalApproveStateBalance" where
  "new_state_balance tick = \<lparr>cs_Tick = tick, cs_BalanceDeposite = None, cs_BalanceApprove = None,
     cs_BalanceNewApprove = None, cs_BalanceCancelApprove = None, cs_BalanceWaitApprove = None\<rparr>"

section \<open>Balances and pools\<close>

record BRC20ModuleTokenBalance =
  mb_UpdateHeight :: u32
  mb_Tick :: string
  mb_PkScript :: string
  mb_SwapAccountBalanceSafe :: decp
  mb_ModuleAccountBalanceSafe :: decp
  mb_SwapAccountBalance :: decp
  mb_AvailableBalanceSafe :: decp
  mb_AvailableBalance :: decp
  mb_ApproveableBalance :: decp
  mb_CondApproveableBalance :: decp
  mb_ReadyToWithdrawAmount :: decp
  mb_ValidConditionalApproveMap :: "string \<rightharpoonup> InscriptionBRC20Data"
  mb_ValidApproveMap :: "string \<rightharpoonup> InscriptionBRC20Data"
  mb_ReadyToWithdrawMap :: "string \<rightharpoonup> InscriptionBRC20Data"
  mb_History :: "BRC20ModuleHistory list"

definition new_module_balance :: "string \<Rightarrow> string \<Rightarrow> BRC20ModuleTokenBalance" where
  "new_module_balance tick pkScript =
     \<lparr>mb_UpdateHeight = 0, mb_Tick = tick, mb_PkScript = pkScript, mb_SwapAccountBalanceSafe = None,
      mb_ModuleAccountBalanceSafe = None, mb_SwapAccountBalance = None, mb_AvailableBalanceSafe = None,
      mb_AvailableBalance = None, mb_ApproveableBalance = None, mb_CondApproveableBalance = None,
      mb_ReadyToWithdrawAmount = None, mb_ValidConditionalApproveMap = Map.empty,
      mb_ValidApproveMap = Map.empty, mb_ReadyToWithdrawMap = Map.empty, mb_History = []\<rparr>"

definition ModuleTokenBalance_String :: "BRC20ModuleTokenBalance \<Rightarrow> string option" where
  "ModuleTokenBalance_String b = Decimal_String (mb_SwapAccountBalance b)"

definition ModuleBalance :: "BRC20ModuleTokenBalance \<Rightarrow> decp option" where
  "ModuleBalance bal =
     do { a \<leftarrow> Decimal_Add (mb_AvailableBalance bal) (mb_ApproveableBalance bal);
          Decimal_Add a (mb_CondApproveableBalance bal) }"

text \<open>The cherry-picked copy keeps the amounts and drops the maps, the history and the height.\<close>

definition ModuleTokenBalance_CherryPick :: "BRC20ModuleTokenBalance \<Rightarrow> BRC20ModuleTokenBalance" where
  "ModuleTokenBalance_CherryPick i =
     (new_module_balance (mb_Tick i) (mb_PkScript i))
     \<lparr>mb_SwapAccountBalanceSafe := NewDecimalCopy (mb_SwapAccountBalanceSafe i),
      mb_ModuleAccountBalanceSafe := NewDecimalCopy (mb_ModuleAccountBalanceSafe i),
      mb_SwapAccountBalance := NewDecimalCopy (mb_SwapAccountBalance i),
      mb_AvailableBalanceSafe := NewDecimalCopy (mb_AvailableBalanceSafe i),
      mb_AvailableBalance := NewDecimalCopy (mb_AvailableBalance i),
      mb_ApproveableBalance := NewDecimalCopy (mb_ApproveableBalance i),
      mb_CondApproveableBalance := NewDecimalCopy (mb_CondApproveableBalance i),
      mb_ReadyToWithdrawAmount := NewDecimalCopy (mb_ReadyToWithdrawAmount i)\<rparr>"

text \<open>The arrays of length two are pairs of fields, addressed by the index 0 or 1.\<close>

record BRC20ModulePoolTotalBalance =
  pl_UpdateHeight :: u32
  pl_Tick0 :: string
  pl_Tick1 :: string
  pl_TickBalance0 :: decp
  pl_TickBalance1 :: decp
  pl_LpBalance :: decp
  pl_LastRootK :: decp
  pl_History :: "BRC20ModuleHistory list"

definition pool_balance :: "BRC20ModulePoolTotalBalance \<Rightarrow> nat \<Rightarrow> decp" where
  "pool_balance pool idx = (if idx = 0 then pl_TickBalance0 pool else pl_TickBalance1 pool)"

definition set_pool_balance :: "BRC20ModulePoolTotalBalance \<Rightarrow> nat \<Rightarrow> decp \<Rightarrow> BRC20ModulePoolTotalBalance" where
  "set_pool_balance pool idx d =
     (if idx = 0 then pool\<lparr>pl_TickBalance0 := d\<rparr> else pool\<lparr>pl_TickBalance1 := d\<rparr>)"

definition PoolTotalBalance_CherryPick :: "BRC20ModulePoolTotalBalance \<Rightarrow> BRC20ModulePoolTotalBalance" where
  "PoolTotalBalance_CherryPick i = i
     \<lparr>pl_UpdateHeight := 0, pl_LpBalance := NewDecimalCopy (pl_LpBalance i),
      pl_LastRootK := NewDecimalCopy (pl_LastRootK i), pl_History := []\<rparr>"

section \<open>Modules\<close>

record BRC20ModuleSwapInfo =
  m_UpdateHeight :: u32
  m_ID :: string
  m_Name :: string
  m_DeployerPkScript :: string
  m_SequencerPkScript :: string
  m_GasToPkScript :: string
  m_LpFeePkScript :: string
  m_FeeRateSwap :: string
  m_GasTick :: string
  m_History :: "BRC20ModuleHistory list"
  m_CommitInvalidMap :: "string set"
  m_CommitIdMap :: "string set"
  m_CommitIdChainMap :: "string set"
  m_UsersTokenBalanceDataMap :: "string \<rightharpoonup> string \<rightharpoonup> BRC20ModuleTokenBalance"
  m_TokenUsersBalanceDataMap :: "string \<rightharpoonup> string set"
  m_LPTokenUsersBalanceMap :: "string \<rightharpoonup> string \<rightharpoonup> decp"
  m_LPTokenUsersBalanceUpdatedMap :: "string set option" \<comment> \<open>\<open>None\<close> is a \<open>nil\<close> map\<close>
  m_UsersLPTokenBalanceMap :: "string \<rightharpoonup> string \<rightharpoonup> decp"
  m_SwapPoolTotalBalanceDataMap :: "string \<rightharpoonup> BRC20ModulePoolTotalBalance"
  m_ConditionalApproveStateBalanceDataMap :: "string \<rightharpoonup> BRC20ModuleConditionalApproveStateBalance"
  m_ThisTxId :: string
  m_TransferStatesForConditionalApprove :: "nat list" \<comment> \<open>addresses\<close>
  m_ApproveStatesForConditionalApprove :: "ApproveStateForConditionalApprove list"

text \<open>
  \<open>CherryPick\<close> copies the balances of every user and pool; its three filters are not used. The
  copy has no history and no state of conditional approval.
\<close>

definition ModuleSwapInfo_CherryPick :: "BRC20ModuleSwapInfo \<Rightarrow> BRC20ModuleSwapInfo" where
  "ModuleSwapInfo_CherryPick m = m
     \<lparr>m_UpdateHeight := 0, m_History := [], m_CommitInvalidMap := {},
      m_UsersTokenBalanceDataMap :=
        (\<lambda>address. map_option (\<lambda>dataMap tick. map_option ModuleTokenBalance_CherryPick (dataMap tick))
                     (m_UsersTokenBalanceDataMap m address)),
      m_LPTokenUsersBalanceUpdatedMap := Some {},
      m_UsersLPTokenBalanceMap :=
        (\<lambda>address. map_option (\<lambda>dataMap pair. map_option NewDecimalCopy (dataMap pair))
                     (m_UsersLPTokenBalanceMap m address)),
      m_LPTokenUsersBalanceMap :=
        (\<lambda>pair. map_option (\<lambda>dataMap address. map_option
            (\<lambda>_. case m_UsersLPTokenBalanceMap m address of None \<Rightarrow> None
                 | Some b \<Rightarrow> (case b pair of None \<Rightarrow> None | Some d \<Rightarrow> NewDecimalCopy d))
            (dataMap address)) (m_LPTokenUsersBalanceMap m pair)),
      m_SwapPoolTotalBalanceDataMap :=
        (\<lambda>pair. map_option PoolTotalBalance_CherryPick (m_SwapPoolTotalBalanceDataMap m pair)),
      m_ConditionalApproveStateBalanceDataMap := Map.empty, m_ThisTxId := '''',
      m_TransferStatesForConditionalApprove := [], m_ApproveStatesForConditionalApprove := []\<rparr>"

section \<open>Access to a module's balances\<close>

text \<open>
  A method that returns a pointer to a balance is modelled by the module state with the entry
  present; the balance is then read and written through its keys.
\<close>

definition GetTickConditionalApproveStateBalance :: "ext \<Rightarrow> BRC20ModuleSwapInfo \<Rightarrow> string \<Rightarrow> BRC20ModuleSwapInfo" where
  "GetTickConditionalApproveStateBalance e m ticker =
     (let lt = ToLower e ticker in
      case m_ConditionalApproveStateBalanceDataMap m lt of
        None \<Rightarrow> m\<lparr>m_ConditionalApproveStateBalanceDataMap :=
                   (m_ConditionalApproveStateBalanceDataMap m)(lt \<mapsto> new_state_balance ticker)\<rparr>
      | Some _ \<Rightarrow> m)"

definition upd_state_balance :: "ext \<Rightarrow> string \<Rightarrow>
    (BRC20ModuleConditionalApproveStateBalance \<Rightarrow> BRC20ModuleConditionalApproveStateBalance) \<Rightarrow>
    BRC20ModuleSwapInfo \<Rightarrow> BRC20ModuleSwapInfo" where
  "upd_state_balance e ticker f m =
     (let m = GetTickConditionalApproveStateBalance e m ticker; lt = ToLower e ticker in
      m\<lparr>m_ConditionalApproveStateBalanceDataMap :=
         (m_ConditionalApproveStateBalanceDataMap m)
           (lt := map_option f (m_ConditionalApproveStateBalanceDataMap m lt))\<rparr>)"

definition user_balance :: "BRC20ModuleSwapInfo \<Rightarrow> string \<Rightarrow> string \<Rightarrow> BRC20ModuleTokenBalance option" where
  "user_balance m pk lt = (case m_UsersTokenBalanceDataMap m pk of None \<Rightarrow> None | Some b \<Rightarrow> b lt)"

definition set_user_balance :: "BRC20ModuleSwapInfo \<Rightarrow> string \<Rightarrow> string \<Rightarrow> BRC20ModuleTokenBalance \<Rightarrow> BRC20ModuleSwapInfo" where
  "set_user_balance m pk lt b =
     m\<lparr>m_UsersTokenBalanceDataMap := (m_UsersTokenBalanceDataMap m)
         (pk \<mapsto> (case m_UsersTokenBalanceDataMap m pk of None \<Rightarrow> Map.empty | Some t \<Rightarrow> t)(lt \<mapsto> b))\<rparr>"

definition Module_GetUserTokenBalance :: "ext \<Rightarrow> BRC20ModuleSwapInfo \<Rightarrow> string \<Rightarrow> string \<Rightarrow> BRC20ModuleSwapInfo" where
  "Module_GetUserTokenBalance e m ticker userPkScript =
     (let lt = ToLower e ticker in
      case user_balance m userPkScript lt of
        Some _ \<Rightarrow> m
      | None \<Rightarrow>
          let m = set_user_balance m userPkScript lt (new_module_balance ticker userPkScript);
              users = (case m_TokenUsersBalanceDataMap m lt of None \<Rightarrow> {} | Some u \<Rightarrow> u)
          in m\<lparr>m_TokenUsersBalanceDataMap := (m_TokenUsersBalanceDataMap m)(lt \<mapsto> insert userPkScript users)\<rparr>)"

definition the_balance :: "ext \<Rightarrow> BRC20ModuleSwapInfo \<Rightarrow> string \<Rightarrow> string \<Rightarrow> BRC20ModuleTokenBalance" where
  "the_balance e m ticker pk =
     (case user_balance m pk (ToLower e ticker) of None \<Rightarrow> new_module_balance ticker pk | Some b \<Rightarrow> b)"

definition put_balance :: "ext \<Rightarrow> BRC20ModuleSwapInfo \<Rightarrow> string \<Rightarrow> string \<Rightarrow> BRC20ModuleTokenBalance \<Rightarrow> BRC20ModuleSwapInfo" where
  "put_balance e m ticker pk b = set_user_balance m pk (ToLower e ticker) b"

end
