(* ===== verification/Indexer_State.thy ===== *)
theory Indexer_State
  imports Module_Model
begin

text \<open>
  The state of the indexer (\<open>indexer/init.go\<close>): the struct \<open>BRC20ModuleIndexer\<close>, its
  initialisation, the history index, the access to balances, the matching of transfers with
  conditional approvals, and the partial copy a commit is checked on.

  Representation. \<open>ModulesInfoMap\<close> is an association list, because one loop ranges over it; the
  order of that loop is \<open>ext_range\<close> of the environment. The three maps of the withdraw
  operation are never allocated by \<open>initModule\<close>, so they are optional: writing to \<open>None\<close> is a
  panic. \<open>InscriptionsValidBRC20DataMap\<close> keeps, under the key of a deploy, the pointer to the
  data of the token, which a mint updates: that pointer is \<open>DeployData\<close>. The inner maps of
  \<open>TokenUsersBalanceData\<close> hold the pointers of \<open>UserTokensBalanceData\<close> and are modelled by
  their keys. \<open>TransferHeap\<close> holds the transfer states that the indexer and the modules share.
  Logging is left out.
\<close>

section \<open>Constants\<close>

definition MEMPOOL_HEIGHT :: u32 where "MEMPOOL_HEIGHT = 0x3fffff"

definition BRC20_P :: string where "BRC20_P = ''brc-20''"
definition BRC20_P_MODULE :: string where "BRC20_P_MODULE = ''brc20-module''"
definition BRC20_P_SWAP :: string where "BRC20_P_SWAP = ''brc20-swap''"

definition ZERO_ADDRESS_PKSCRIPT :: string where
  "ZERO_ADDRESS_PKSCRIPT = [CHR 0x6a, CHR 0x20] @ replicate 32 CHR 0x00"

definition HISTORY_INSCRIBE_DEPLOY :: u8 where "HISTORY_INSCRIBE_DEPLOY = 0"
definition HISTORY_INSCRIBE_MINT :: u8 where "HISTORY_INSCRIBE_MINT = 1"
definition HISTORY_INSCRIBE_TRANSFER :: u8 where "HISTORY_INSCRIBE_TRANSFER = 2"
definition HISTORY_TRANSFER :: u8 where "HISTORY_TRANSFER = 3"
definition HISTORY_SEND :: u8 where "HISTORY_SEND = 4"
definition HISTORY_RECEIVE :: u8 where "HISTORY_RECEIVE = 5"
definition HISTORY_INSCRIBE_MODULE :: u8 where "HISTORY_INSCRIBE_MODULE = 6"
definition HISTORY_INSCRIBE_WITHDRAW :: u8 where "HISTORY_INSCRIBE_WITHDRAW = 7"
definition HISTORY_WITHDRAW :: u8 where "HISTORY_WITHDRAW = 8"
definition HISTORY_WITHDRAW_FROM :: u8 where "HISTORY_WITHDRAW_FROM = 9"
definition HISTORY_INSCRIBE_APPROVE :: u8 where "HISTORY_INSCRIBE_APPROVE = 11"
definition HISTORY_APPROVE :: u8 where "HISTORY_APPROVE = 12"
definition HISTORY_INSCRIBE_CONDITIONAL_APPROVE :: u8 where "HISTORY_INSCRIBE_CONDITIONAL_APPROVE = 13"
definition HISTORY_CONDITIONAL_APPROVE :: u8 where "HISTORY_CONDITIONAL_APPROVE = 14"
definition HISTORY_APPROVE_FROM :: u8 where "HISTORY_APPROVE_FROM = 15"
definition HISTORY_APPROVE_TO :: u8 where "HISTORY_APPROVE_TO = 16"
definition HISTORY_COMMIT :: u8 where "HISTORY_COMMIT = 18"

section \<open>The struct\<close>

datatype brc20_data_ref = DeployData string \<comment> \<open>lower-case ticker\<close> | InfoData InscriptionBRC20InfoResp

record BRC20ModuleIndexer =
  g_BestHeight :: u32
  g_Durty :: bool
  g_EnableHistory :: bool
  g_HistoryCount :: u32
  g_HistoryData :: "string list"
  g_FirstHistoryByHeight :: "u32 \<rightharpoonup> u32"
  g_LastHistoryHeight :: u32
  g_AllHistory :: "u32 list"
  g_UserAllHistory :: "string \<rightharpoonup> BRC20UserHistory"
  g_InscriptionsTickerInfoMap :: "string \<rightharpoonup> BRC20TokenInfo"
  g_UserTokensBalanceData :: "string \<rightharpoonup> string \<rightharpoonup> BRC20TokenBalance"
  g_TokenUsersBalanceData :: "string \<rightharpoonup> string set"
  g_InscriptionsValidBRC20DataMap :: "string \<rightharpoonup> brc20_data_ref"
  g_InscriptionsTransferRemoveMap :: "string \<rightharpoonup> u32"
  g_InscriptionsValidTransferMap :: "string \<rightharpoonup> InscriptionBRC20TickInfo"
  g_InscriptionsInvalidTransferMap :: "string \<rightharpoonup> InscriptionBRC20TickInfo"
  g_ModulesInfoMap :: "(string \<times> BRC20ModuleSwapInfo) list"
  g_InscriptionsValidApproveMap :: "string \<rightharpoonup> InscriptionBRC20SwapInfo"
  g_InscriptionsInvalidApproveMap :: "string \<rightharpoonup> InscriptionBRC20SwapInfo"
  g_InscriptionsApproveRemoveMap :: "string \<rightharpoonup> u32"
  g_InscriptionsValidConditionalApproveMap :: "string \<rightharpoonup> InscriptionBRC20SwapConditionalApproveInfo"
  g_InscriptionsInvalidConditionalApproveMap :: "string \<rightharpoonup> InscriptionBRC20SwapConditionalApproveInfo"
  g_InscriptionsCommitRemoveMap :: "string \<rightharpoonup> u32"
  g_InscriptionsValidCommitMap :: "string \<rightharpoonup> InscriptionBRC20Data"
  g_InscriptionsInvalidCommitMap :: "string \<rightharpoonup> InscriptionBRC20Data"
  g_InscriptionsValidCommitMapById :: "string \<rightharpoonup> InscriptionBRC20Data"
  g_InscriptionsWithdrawRemoveMap :: "(string \<rightharpoonup> u32) option"
  g_InscriptionsWithdrawMap :: "(string \<rightharpoonup> InscriptionBRC20SwapInfo) option"
  g_InscriptionsValidWithdrawMap :: "(string \<rightharpoonup> u32) option"
  g_ThisTxId :: string
  g_TxStaticTransferStatesForConditionalApprove :: "nat list" \<comment> \<open>addresses\<close>
  g_TransferHeap :: "TransferStateForConditionalApprove list"

text \<open>The fields that no code of the indexer writes or reads (\<open>UsersModuleWithTokenMap\<close>,
  \<open>UsersModuleWithLpTokenMap\<close>, \<open>InscriptionsCondApproveRemoveMap\<close>) are left out.\<close>

definition initBRC20 :: "BRC20ModuleIndexer \<Rightarrow> BRC20ModuleIndexer" where
  "initBRC20 g = g
     \<lparr>g_EnableHistory := True, g_BestHeight := 0, g_HistoryCount := 0, g_HistoryData := [],
      g_FirstHistoryByHeight := Map.empty, g_LastHistoryHeight := 0, g_AllHistory := [],
      g_UserAllHistory := Map.empty, g_InscriptionsTickerInfoMap := Map.empty,
      g_UserTokensBalanceData := Map.empty, g_TokenUsersBalanceData := Map.empty,
      g_InscriptionsValidBRC20DataMap := Map.empty, g_InscriptionsTransferRemoveMap := Map.empty,
      g_InscriptionsValidTransferMap := Map.empty, g_InscriptionsInvalidTransferMap := Map.empty\<rparr>"

definition initModule :: "BRC20ModuleIndexer \<Rightarrow> BRC20ModuleIndexer" where
  "initModule g = g
     \<lparr>g_ModulesInfoMap := [], g_InscriptionsApproveRemoveMap := Map.empty,
      g_InscriptionsValidApproveMap := Map.empty, g_InscriptionsInvalidApproveMap := Map.empty,
      g_InscriptionsValidConditionalApproveMap := Map.empty,
      g_InscriptionsInvalidConditionalApproveMap := Map.empty, g_InscriptionsCommitRemoveMap := Map.empty,
      g_InscriptionsValidCommitMap := Map.empty, g_InscriptionsInvalidCommitMap := Map.empty,
      g_InscriptionsValidCommitMapById := Map.empty\<rparr>"

definition Init :: "BRC20ModuleIndexer \<Rightarrow> BRC20ModuleIndexer" where
  "Init g = initModule (initBRC20 g)"

text \<open>The zero value \<open>&BRC20ModuleIndexer{}\<close>; reading a \<open>nil\<close> map finds nothing.\<close>

definition zero_indexer :: BRC20ModuleIndexer where
  "zero_indexer =
     \<lparr>g_BestHeight = 0, g_Durty = False, g_EnableHistory = False, g_HistoryCount = 0, g_HistoryData = [],
      g_FirstHistoryByHeight = Map.empty, g_LastHistoryHeight = 0, g_AllHistory = [],
      g_UserAllHistory = Map.empty, g_InscriptionsTickerInfoMap = Map.empty,
      g_UserTokensBalanceData = Map.empty, g_TokenUsersBalanceData = Map.empty,
      g_InscriptionsValidBRC20DataMap = Map.empty, g_InscriptionsTransferRemoveMap = Map.empty,
      g_InscriptionsValidTransferMap = Map.empty, g_InscriptionsInvalidTransferMap = Map.empty,
      g_ModulesInfoMap = [], g_InscriptionsValidApproveMap = Map.empty,
      g_InscriptionsInvalidApproveMap = Map.empty, g_InscriptionsApproveRemoveMap = Map.empty,
      g_InscriptionsValidConditionalApproveMap = Map.empty,
      g_InscriptionsInvalidConditionalApproveMap = Map.empty, g_InscriptionsCommitRemoveMap = Map.empty,
      g_InscriptionsValidCommitMap = Map.empty, g_InscriptionsInvalidCommitMap = Map.empty,
      g_InscriptionsValidCommitMapById = Map.empty, g_InscriptionsWithdrawRemoveMap = None,
      g_InscriptionsWithdrawMap = None, g_InscriptionsValidWithdrawMap = None, g_ThisTxId = '''',
      g_TxStaticTransferStatesForConditionalApprove = [], g_TransferHeap = []\<rparr>"

section \<open>Modules by identifier\<close>

fun alist_put :: "'k \<Rightarrow> 'v \<Rightarrow> ('k \<times> 'v) list \<Rightarrow> ('k \<times> 'v) list" where
  "alist_put k v [] = [(k, v)]"
| "alist_put k v ((k', v') # xs) = (if k' = k then (k, v) # xs else (k', v') # alist_put k v xs)"

lemma map_of_alist_put [simp]: "map_of (alist_put k v xs) = (map_of xs)(k \<mapsto> v)"
  by (induction xs) auto

lemma fst_set_alist_put: "fst ` set (alist_put k v xs) = insert k (fst ` set xs)"
  by (induction k v xs rule: alist_put.induct) (simp_all add: insert_commute)

lemma distinct_alist_put: "distinct (map fst xs) \<Longrightarrow> distinct (map fst (alist_put k v xs))"
  by (induction k v xs rule: alist_put.induct) (simp_all add: fst_set_alist_put, metis)

definition module_of :: "BRC20ModuleIndexer \<Rightarrow> string \<Rightarrow> BRC20ModuleSwapInfo option" where
  "module_of g moduleId = map_of (g_ModulesInfoMap g) moduleId"

definition set_module :: "BRC20ModuleIndexer \<Rightarrow> string \<Rightarrow> BRC20ModuleSwapInfo \<Rightarrow> BRC20ModuleIndexer" where
  "set_module g moduleId m = g\<lparr>g_ModulesInfoMap := alist_put moduleId m (g_ModulesInfoMap g)\<rparr>"

section \<open>History\<close>

definition GetBRC20HistoryByUserForAPI :: "BRC20ModuleIndexer \<Rightarrow> string \<Rightarrow> BRC20UserHistory" where
  "GetBRC20HistoryByUserForAPI g pkScript =
     (case g_UserAllHistory g pkScript of None \<Rightarrow> \<lparr>uh_History = []\<rparr> | Some h \<Rightarrow> h)"

text \<open>
  \<open>userHistory := g.GetBRC20HistoryByUser(pk); userHistory.History = append(userHistory.History, h)\<close>:
  the method creates the entry when it is missing and returns the pointer to it.
\<close>

definition GetBRC20HistoryByUser :: "BRC20ModuleIndexer \<Rightarrow> string \<Rightarrow> BRC20ModuleIndexer" where
  "GetBRC20HistoryByUser g pkScript =
     (case g_UserAllHistory g pkScript of
        None \<Rightarrow> g\<lparr>g_UserAllHistory := (g_UserAllHistory g)(pkScript \<mapsto> \<lparr>uh_History = []\<rparr>)\<rparr>
      | Some _ \<Rightarrow> g)"

definition append_user_history :: "string \<Rightarrow> u32 \<Rightarrow> BRC20ModuleIndexer \<Rightarrow> BRC20ModuleIndexer" where
  "append_user_history pkScript history g =
     (let g = GetBRC20HistoryByUser g pkScript in
      g\<lparr>g_UserAllHistory := (g_UserAllHistory g)
         (pkScript := map_option (\<lambda>u. u\<lparr>uh_History := uh_History u @ [history]\<rparr>) (g_UserAllHistory g pkScript))\<rparr>)"

text \<open>
  The loop over the heights since the last record does not end for the greatest height of 32 bits
  (the counter wraps around); that call does not return.
\<close>

definition fill_heights :: "u32 \<Rightarrow> u32 \<Rightarrow> u32 \<Rightarrow> (u32 \<rightharpoonup> u32) \<Rightarrow> (u32 \<rightharpoonup> u32) option" where
  "fill_heights start height history m =
     (if height = - 1 then None
      else Some (fold (\<lambda>h m. m(word_of_nat h \<mapsto> history)) [unat start ..< Suc (unat height)] m))"

definition UpdateHistoryHeightAndGetHistoryIndex ::
    "BRC20ModuleIndexer \<Rightarrow> BRC20History \<Rightarrow> (u32 \<times> BRC20ModuleIndexer) option" where
  "UpdateHistoryHeightAndGetHistoryIndex g historyObj =
     (let height = h_Height historyObj; history = g_HistoryCount g in
      do { b \<leftarrow> Marshal historyObj;
           let g = g\<lparr>g_HistoryData := g_HistoryData g @ [b], g_HistoryCount := g_HistoryCount g + 1\<rparr>;
           if height = g_LastHistoryHeight g \<or> height = MEMPOOL_HEIGHT then Some (history, g)
           else do {
             first \<leftarrow> (if g_LastHistoryHeight g = 0
                       then Some ((g_FirstHistoryByHeight g)(height \<mapsto> history))
                       else fill_heights (g_LastHistoryHeight g + 1) height history (g_FirstHistoryByHeight g));
             Some (history, g\<lparr>g_FirstHistoryByHeight := first, g_LastHistoryHeight := height\<rparr>) } })"

section \<open>Balances\<close>

definition balance_of :: "BRC20ModuleIndexer \<Rightarrow> string \<Rightarrow> string \<Rightarrow> BRC20TokenBalance option" where
  "balance_of g pk lt = (case g_UserTokensBalanceData g pk of None \<Rightarrow> None | Some t \<Rightarrow> t lt)"

definition set_balance :: "BRC20ModuleIndexer \<Rightarrow> string \<Rightarrow> string \<Rightarrow> BRC20TokenBalance \<Rightarrow> BRC20ModuleIndexer" where
  "set_balance g pk lt b =
     g\<lparr>g_UserTokensBalanceData := (g_UserTokensBalanceData g)
         (pk \<mapsto> (case g_UserTokensBalanceData g pk of None \<Rightarrow> Map.empty | Some t \<Rightarrow> t)(lt \<mapsto> b))\<rparr>"

text \<open>
  \<open>GetUserTokenBalance\<close> returns the pointer to the balance; here it returns the balance and the
  state in which the entry exists and the user is among the token's holders. \<open>None\<close> is
  \<open>log.Panicf\<close>.
\<close>

definition GetUserTokenBalance ::
    "ext \<Rightarrow> BRC20ModuleIndexer \<Rightarrow> string \<Rightarrow> string \<Rightarrow> (BRC20TokenBalance \<times> BRC20ModuleIndexer) option" where
  "GetUserTokenBalance e g ticker userPkScript =
     (let lt = ToLower e ticker;
          b = (case balance_of g userPkScript lt of
                 None \<Rightarrow> new_token_balance ticker userPkScript | Some b \<Rightarrow> b);
          g = set_balance g userPkScript lt b in
      case g_TokenUsersBalanceData g lt of
        None \<Rightarrow> None
      | Some users \<Rightarrow>
          Some (b, g\<lparr>g_TokenUsersBalanceData := (g_TokenUsersBalanceData g)(lt \<mapsto> insert userPkScript users)\<rparr>))"

section \<open>Matching transfers with conditional approvals\<close>

text \<open>The loop of the module's \<open>GenerateApproveEventsByTransfer\<close> over its approve states.\<close>

fun match_transfer ::
    "TransferStateForConditionalApprove \<Rightarrow> ApproveStateForConditionalApprove list \<Rightarrow> decp \<Rightarrow>
     (ApproveStateForConditionalApprove list \<times> decp \<times> ConditionalApproveEvent list) option" where
  "match_transfer t [] balanceAmt = Some ([], balanceAmt, [])"
| "match_transfer t (a # rest) balanceAmt =
     (if as_Tick a \<noteq> ts_Tick t \<or> as_Owner a \<noteq> ts_To t \<or> Decimal_Sign (as_Balance a) = 0 then
        do { (rest', b, es) \<leftarrow> match_transfer t rest balanceAmt; Some (a # rest', b, es) }
      else if Decimal_Sign balanceAmt = 0 then Some (a # rest, balanceAmt, [])
      else do {
        c \<leftarrow> Decimal_Cmp (as_Balance a) balanceAmt;
        if c \<le> 0 then do {
          balanceAmt' \<leftarrow> Decimal_Sub balanceAmt (as_Balance a);
          let event = NewConditionalApproveEvent (as_Owner a) (ts_From t) (as_Balance a) None (as_ToData a)
                        (as_ApproveInfo a) (ts_InscriptionId t) (ts_Max t);
          (rest', b, es) \<leftarrow> match_transfer t rest balanceAmt';
          Some (a\<lparr>as_Balance := None\<rparr> # rest', b, event # es) }
        else do {
          ab \<leftarrow> Decimal_Sub (as_Balance a) balanceAmt;
          let event = NewConditionalApproveEvent (as_Owner a) (ts_From t) balanceAmt ab (as_ToData a)
                        (as_ApproveInfo a) (ts_InscriptionId t) (ts_Max t);
          Some (a\<lparr>as_Balance := ab\<rparr> # rest, None, [event]) } })"

definition Module_GenerateApproveEventsByTransfer ::
    "TransferStateForConditionalApprove \<Rightarrow> BRC20ModuleSwapInfo \<Rightarrow> TransferStateForConditionalApprove list \<Rightarrow>
     (BRC20ModuleSwapInfo \<times> TransferStateForConditionalApprove list \<times> ConditionalApproveEvent list) option" where
  "Module_GenerateApproveEventsByTransfer t m heap =
     do { (states, balanceAmt, events) \<leftarrow> match_transfer t (m_ApproveStatesForConditionalApprove m) (ts_Balance t);
          let m = m\<lparr>m_ApproveStatesForConditionalApprove := states\<rparr>;
          if Decimal_Sign balanceAmt > 0
          then Some (m\<lparr>m_TransferStatesForConditionalApprove := m_TransferStatesForConditionalApprove m @ [length heap]\<rparr>,
                     heap @ [t\<lparr>ts_Balance := balanceAmt\<rparr>], events)
          else Some (m, heap, events) }"

text \<open>The loop of the module's \<open>GenerateApproveEventsByApprove\<close> over its transfer states.\<close>

fun match_approve ::
    "string \<Rightarrow> InscriptionBRC20Data \<Rightarrow> InscriptionBRC20SwapConditionalApproveInfo \<Rightarrow> nat list \<Rightarrow>
     TransferStateForConditionalApprove list \<Rightarrow> decp \<Rightarrow>
     (TransferStateForConditionalApprove list \<times> decp \<times> ConditionalApproveEvent list) option" where
  "match_approve owner data info [] heap balanceAmt = Some (heap, balanceAmt, [])"
| "match_approve owner data info (x # rest) heap balanceAmt =
     (if Decimal_Sign balanceAmt = 0 then Some (heap, balanceAmt, [])
      else if x \<ge> length heap then None
      else
        let t = heap ! x in
        if ts_Tick t \<noteq> ca_Tick info \<or> ts_To t \<noteq> owner \<or> Decimal_Sign (ts_Balance t) = 0
        then match_approve owner data info rest heap balanceAmt
        else do {
          c \<leftarrow> Decimal_Cmp (ts_Balance t) balanceAmt;
          if c \<le> 0 then do {
            balanceAmt' \<leftarrow> Decimal_Sub balanceAmt (ts_Balance t);
            let event = NewConditionalApproveEvent owner (ts_From t) (ts_Balance t) balanceAmt' data info
                          (ts_InscriptionId t) (ts_Max t);
            (heap', b, es) \<leftarrow> match_approve owner data info rest (heap[x := t\<lparr>ts_Balance := None\<rparr>]) balanceAmt';
            Some (heap', b, event # es) }
          else do {
            tb \<leftarrow> Decimal_Sub (ts_Balance t) balanceAmt;
            let event = NewConditionalApproveEvent owner (ts_From t) balanceAmt None data info
                          (ts_InscriptionId t) (ts_Max t);
            Some (heap[x := t\<lparr>ts_Balance := tb\<rparr>], None, [event]) } })"

definition Module_GenerateApproveEventsByApprove ::
    "string \<Rightarrow> decp \<Rightarrow> InscriptionBRC20Data \<Rightarrow> InscriptionBRC20SwapConditionalApproveInfo \<Rightarrow>
     BRC20ModuleSwapInfo \<Rightarrow> TransferStateForConditionalApprove list \<Rightarrow>
     (BRC20ModuleSwapInfo \<times> TransferStateForConditionalApprove list \<times> ConditionalApproveEvent list) option" where
  "Module_GenerateApproveEventsByApprove owner balance data approveInfo m heap =
     do { (heap', balanceAmt, events) \<leftarrow>
            match_approve owner data approveInfo (m_TransferStatesForConditionalApprove m) heap (NewDecimalCopy balance);
          if Decimal_Sign balanceAmt > 0
          then Some (m\<lparr>m_ApproveStatesForConditionalApprove := m_ApproveStatesForConditionalApprove m @
                 [\<lparr>as_Module = ca_Module approveInfo, as_Tick = ca_Tick approveInfo, as_Owner = owner,
                   as_Balance = balanceAmt, as_ApproveInfo = approveInfo, as_ToData = data\<rparr>]\<rparr>, heap', events)
          else Some (m, heap', events) }"

text \<open>The first event of a transaction clears the states of a module.\<close>

definition module_enter_tx :: "string \<Rightarrow> BRC20ModuleSwapInfo \<Rightarrow> BRC20ModuleSwapInfo" where
  "module_enter_tx txid m =
     (if txid \<noteq> m_ThisTxId m
      then m\<lparr>m_TransferStatesForConditionalApprove := [], m_ApproveStatesForConditionalApprove := [], m_ThisTxId := txid\<rparr>
      else m)"

fun transfer_modules_loop ::
    "string list \<Rightarrow> TransferStateForConditionalApprove \<Rightarrow> BRC20ModuleIndexer \<Rightarrow>
     (BRC20ModuleIndexer \<times> ConditionalApproveEvent list) option" where
  "transfer_modules_loop [] t g = Some (g, [])"
| "transfer_modules_loop (k # ks) t g =
     (case module_of g k of
        None \<Rightarrow> transfer_modules_loop ks t g
      | Some m \<Rightarrow>
          let m = module_enter_tx (g_ThisTxId g) m in
          if m_ApproveStatesForConditionalApprove m = []
          then transfer_modules_loop ks t (set_module g k m)
          else do {
            (m, heap, innerEvents) \<leftarrow> Module_GenerateApproveEventsByTransfer t m (g_TransferHeap g);
            (g, events) \<leftarrow> transfer_modules_loop ks t ((set_module g k m)\<lparr>g_TransferHeap := heap\<rparr>);
            Some (g, innerEvents @ events) })"

definition GenerateApproveEventsByTransfer ::
    "ext \<Rightarrow> BRC20ModuleIndexer \<Rightarrow> string \<Rightarrow> string \<Rightarrow> string \<Rightarrow> string \<Rightarrow> decp \<Rightarrow>
     (BRC20ModuleIndexer \<times> ConditionalApproveEvent list) option" where
  "GenerateApproveEventsByTransfer e g inscription tick from dst amt =
     do { mx \<leftarrow> Decimal_String amt;
          let t = \<lparr>ts_Tick = tick, ts_From = from, ts_To = dst, ts_Balance = NewDecimalCopy amt,
                   ts_InscriptionId = inscription, ts_Max = mx\<rparr>;
          let g = g\<lparr>g_TxStaticTransferStatesForConditionalApprove :=
                     g_TxStaticTransferStatesForConditionalApprove g @ [length (g_TransferHeap g)],
                   g_TransferHeap := g_TransferHeap g @ [t]\<rparr>;
          transfer_modules_loop (ext_range e (map fst (g_ModulesInfoMap g))) t g }"

definition GenerateApproveEventsByApprove ::
    "BRC20ModuleIndexer \<Rightarrow> string \<Rightarrow> decp \<Rightarrow> InscriptionBRC20Data \<Rightarrow> InscriptionBRC20SwapConditionalApproveInfo \<Rightarrow>
     (BRC20ModuleIndexer \<times> ConditionalApproveEvent list) option" where
  "GenerateApproveEventsByApprove g owner balance data approveInfo =
     (case module_of g (ca_Module approveInfo) of
        None \<Rightarrow> Some (g, [])
      | Some m \<Rightarrow>
          let m = module_enter_tx (g_ThisTxId g) m;
              m = (if m_ApproveStatesForConditionalApprove m = []
                   then m\<lparr>m_TransferStatesForConditionalApprove := g_TxStaticTransferStatesForConditionalApprove g\<rparr>
                   else m)
          in do { (m, heap, events) \<leftarrow> Module_GenerateApproveEventsByApprove owner balance data approveInfo m (g_TransferHeap g);
                  Some ((set_module g (ca_Module approveInfo) m)\<lparr>g_TransferHeap := heap\<rparr>, events) })"

section \<open>The copy a commit is checked on\<close>

definition cherryPickBRC20Data ::
    "BRC20ModuleIndexer \<Rightarrow> BRC20ModuleIndexer \<Rightarrow> string set \<Rightarrow> string set \<Rightarrow> BRC20ModuleIndexer" where
  "cherryPickBRC20Data copyDup base pickUsersPkScript pickTokensTick =
     (let users = (\<lambda>u. if u \<in> pickUsersPkScript
            then map_option (\<lambda>userTokens t. if t \<in> pickTokensTick then map_option TokenBalance_DeepCopy (userTokens t) else None)
                   (g_UserTokensBalanceData base u)
            else g_UserTokensBalanceData copyDup u);
          holders = (\<lambda>t. {u \<in> pickUsersPkScript. case users u of None \<Rightarrow> False | Some ut \<Rightarrow> ut t \<noteq> None}) in
      copyDup
      \<lparr>g_InscriptionsTickerInfoMap :=
         (\<lambda>t. if t \<in> pickTokensTick then
                (case g_InscriptionsTickerInfoMap base t of
                   None \<Rightarrow> g_InscriptionsTickerInfoMap copyDup t
                 | Some v \<Rightarrow> Some \<lparr>tk_UpdateHeight = 0, tk_Ticker = tk_Ticker v, tk_Deploy = TickInfo_DeepCopy (tk_Deploy v),
                     tk_History = [], tk_HistoryMint = [], tk_HistoryInscribeTransfer = [], tk_HistoryTransfer = [],
                     tk_HistoryWithdraw = []\<rparr>)
              else g_InscriptionsTickerInfoMap copyDup t),
       g_UserTokensBalanceData := users,
       g_TokenUsersBalanceData :=
         (\<lambda>t. if holders t = {} then g_TokenUsersBalanceData copyDup t else Some (holders t))\<rparr>)"

definition cherryPickModuleData :: "BRC20ModuleIndexer \<Rightarrow> BRC20ModuleIndexer \<Rightarrow> string \<Rightarrow> BRC20ModuleIndexer" where
  "cherryPickModuleData copyDup base moduleId =
     (let copyDup = (case module_of base moduleId of
            None \<Rightarrow> copyDup | Some info \<Rightarrow> set_module copyDup moduleId (ModuleSwapInfo_CherryPick info))
      in copyDup\<lparr>g_InscriptionsValidCommitMapById :=
           g_InscriptionsValidCommitMapById copyDup ++ g_InscriptionsValidCommitMapById base\<rparr>)"

definition CherryPick :: "ext \<Rightarrow> BRC20ModuleIndexer \<Rightarrow> string \<Rightarrow> string set \<Rightarrow> string set \<Rightarrow> BRC20ModuleIndexer" where
  "CherryPick e base moduleId pickUsersPkScript pickTokensTick =
     (let copyDup = Init zero_indexer;
          pickTokensTick = (case module_of base moduleId of
            None \<Rightarrow> pickTokensTick | Some m \<Rightarrow> insert (ToLower e (m_GasTick m)) pickTokensTick);
          copyDup = cherryPickBRC20Data copyDup base pickUsersPkScript pickTokensTick
      in cherryPickModuleData copyDup base moduleId)"

lemma CherryPick_BestHeight [simp]: "g_BestHeight (CherryPick e g mid us ts) = 0"
  by (simp add: CherryPick_def cherryPickModuleData_def cherryPickBRC20Data_def Let_def set_module_def
      Init_def initBRC20_def initModule_def split: option.splits)

lemma CherryPick_module:
  "module_of g mid = Some m \<Longrightarrow> module_of (CherryPick e g mid us ts) mid = Some (ModuleSwapInfo_CherryPick m)"
  by (simp add: CherryPick_def cherryPickModuleData_def cherryPickBRC20Data_def Let_def set_module_def module_of_def)

end
