(* ===== verification/Json_Decode.thy ===== *)
theory Json_Decode
  imports Indexer_State
begin

text \<open>
  \<open>json.Unmarshal\<close> into the structs of the swap module (the JSON tags of \<open>model/swap.go\<close> and
  \<open>model/module.go\<close>). A member is stored in the field whose tag equals its key up to letter
  case; \<open>null\<close> leaves a field unchanged; a value of another type is an error; of two members for
  one field the later one is decoded into what the earlier one left. \<open>None\<close> is the error.

  The elements of an array are decoded into the array that is under the slice of the field, which an
  earlier member may have filled: a \<open>null\<close> then keeps the old string, and an object is merged into the old
  struct. The slice is cut to the elements of the last array, and what is beyond them stays under it. A
  slice that is decoded is therefore a pair: the slice, and the array from its first element on
  (beyond which it is zero). An empty array and \<open>null\<close> give a new slice.

  Also the measuring of the items of a commit, \<open>GetEachItemLengthOfCommitJsonData\<close> of
  \<open>indexer/module_commit_utils.go\<close>, over the token stream of \<open>json.Decoder\<close>.
\<close>

section \<open>Fields\<close>

definition json_members :: "string \<Rightarrow> (string \<times> json) list \<Rightarrow> json list" where
  "json_members tag ms = map snd (filter (\<lambda>m. json_fold (fst m) = tag) ms)"

fun json_string_into :: "string \<Rightarrow> json list \<Rightarrow> string option" where
  "json_string_into s [] = Some s"
| "json_string_into s (j # js) =
     (case j of JStr t \<Rightarrow> json_string_into t js | JNull \<Rightarrow> json_string_into s js | _ \<Rightarrow> None)"

definition json_string_field :: "string \<Rightarrow> (string \<times> json) list \<Rightarrow> string option" where
  "json_string_field tag ms = json_string_into '''' (json_members tag ms)"

text \<open>A \<open>uint\<close> field accepts a literal of digits that fits.\<close>

fun json_uint_into :: "nat \<Rightarrow> json list \<Rightarrow> nat option" where
  "json_uint_into n [] = Some n"
| "json_uint_into n (j # js) =
     (case j of
        JNum l \<Rightarrow> (case parse_uint64 l of None \<Rightarrow> None | Some k \<Rightarrow> json_uint_into k js)
      | JNull \<Rightarrow> json_uint_into n js
      | _ \<Rightarrow> None)"

fun json_string_elems :: "string list \<Rightarrow> json list \<Rightarrow> string list option" where
  "json_string_elems old [] = Some []"
| "json_string_elems old (j # js) =
     do { s \<leftarrow> (case j of JStr s \<Rightarrow> Some s | JNull \<Rightarrow> Some (case old of [] \<Rightarrow> '''' | t # _ \<Rightarrow> t) | _ \<Rightarrow> None);
          ss \<leftarrow> json_string_elems (tl old) js;
          Some (s # ss) }"

text \<open>The slice and the array under it after an array with the elements \<open>xs\<close> was decoded into \<open>old\<close>.\<close>

definition slice_over :: "'a list \<Rightarrow> 'a list \<Rightarrow> 'a list \<times> 'a list" where
  "slice_over xs old = (xs, if xs = [] then [] else xs @ drop (length xs) old)"

fun json_strings_into :: "string list \<times> string list \<Rightarrow> json list \<Rightarrow> (string list \<times> string list) option" where
  "json_strings_into sl [] = Some sl"
| "json_strings_into sl (j # js) =
     (case j of
        JArr es \<Rightarrow> (case json_string_elems (snd sl) es of None \<Rightarrow> None | Some ss \<Rightarrow> json_strings_into (slice_over ss (snd sl)) js)
      | JNull \<Rightarrow> json_strings_into ([], []) js
      | _ \<Rightarrow> None)"

text \<open>A \<open>map[string]string\<close>: an object adds to the map, \<open>null\<close> makes it \<open>nil\<close>.\<close>

fun json_map_entries :: "(string \<rightharpoonup> string) \<Rightarrow> (string \<times> json) list \<Rightarrow> (string \<rightharpoonup> string) option" where
  "json_map_entries m [] = Some m"
| "json_map_entries m ((k, j) # es) =
     (case j of
        JStr s \<Rightarrow> json_map_entries (m(k \<mapsto> s)) es
      | JNull \<Rightarrow> json_map_entries (m(k \<mapsto> '''')) es
      | _ \<Rightarrow> None)"

fun json_map_into :: "(string \<rightharpoonup> string) \<Rightarrow> json list \<Rightarrow> (string \<rightharpoonup> string) option" where
  "json_map_into m [] = Some m"
| "json_map_into m (j # js) =
     (case j of
        JObj es \<Rightarrow> (case json_map_entries m es of None \<Rightarrow> None | Some m' \<Rightarrow> json_map_into m' js)
      | JNull \<Rightarrow> json_map_into Map.empty js
      | _ \<Rightarrow> None)"

section \<open>Structs\<close>

text \<open>A struct is decoded from an object, and \<open>null\<close> leaves it zero.\<close>

definition json_struct :: "ext \<Rightarrow> string \<Rightarrow> (string \<times> json) list option" where
  "json_struct e content =
     (case ext_json_parse e content of Some (JObj ms) \<Rightarrow> Some ms | Some JNull \<Rightarrow> Some [] | _ \<Rightarrow> None)"

definition Unmarshal_ApproveContent :: "ext \<Rightarrow> string \<Rightarrow> InscriptionBRC20ModuleSwapApproveContent option" where
  "Unmarshal_ApproveContent e content =
     do { ms \<leftarrow> json_struct e content;
          p \<leftarrow> json_string_field ''p'' ms;
          op \<leftarrow> json_string_field ''op'' ms;
          module \<leftarrow> json_string_field ''module'' ms;
          tick \<leftarrow> json_string_field ''tick'' ms;
          amt \<leftarrow> json_string_field ''amt'' ms;
          Some \<lparr>ac_Proto = p, ac_Operation = op, ac_Module = module, ac_Tick = tick, ac_Amount = amt\<rparr> }"

definition Unmarshal_DeploySwapContent :: "ext \<Rightarrow> string \<Rightarrow> InscriptionBRC20ModuleDeploySwapContent option" where
  "Unmarshal_DeploySwapContent e content =
     do { ms \<leftarrow> json_struct e content;
          p \<leftarrow> json_string_field ''p'' ms;
          op \<leftarrow> json_string_field ''op'' ms;
          name \<leftarrow> json_string_field ''name'' ms;
          source \<leftarrow> json_string_field ''source'' ms;
          i \<leftarrow> json_map_into Map.empty (json_members ''init'' ms);
          Some \<lparr>md_Proto = p, md_Operation = op, md_Name = name, md_Source = source, md_Init = i\<rparr> }"

text \<open>A function with the array under its parameters, and the zero one that a new pointer points to.\<close>

type_synonym decoded_function = "SwapFunctionData \<times> string list"

definition zero_function :: decoded_function where
  "zero_function = (\<lparr>sf_Address = '''', sf_Function = '''', sf_Params = [], sf_Timestamp = 0, sf_Signature = '''', sf_ID = '''', sf_PkScript = ''''\<rparr>, [])"

definition Unmarshal_SwapFunctionData :: "decoded_function \<Rightarrow> (string \<times> json) list \<Rightarrow> decoded_function option" where
  "Unmarshal_SwapFunctionData old ms =
     (case old of (f, arr) \<Rightarrow>
     do { addr \<leftarrow> json_string_into (sf_Address f) (json_members ''addr'' ms);
          func \<leftarrow> json_string_into (sf_Function f) (json_members ''func'' ms);
          (params, arr) \<leftarrow> json_strings_into (sf_Params f, arr) (json_members ''params'' ms);
          ts \<leftarrow> json_uint_into (unat (sf_Timestamp f)) (json_members ''ts'' ms);
          sig \<leftarrow> json_string_into (sf_Signature f) (json_members ''sig'' ms);
          Some (f\<lparr>sf_Address := addr, sf_Function := func, sf_Params := params, sf_Timestamp := word_of_nat ts,
                sf_Signature := sig\<rparr>, arr) })"

text \<open>The elements are pointers: \<open>null\<close> makes one \<open>nil\<close>, and an object is decoded into the struct it points to.\<close>

fun json_functions :: "decoded_function option list \<Rightarrow> json list \<Rightarrow> decoded_function option list option" where
  "json_functions old [] = Some []"
| "json_functions old (j # js) =
     do { f \<leftarrow> (case j of
             JNull \<Rightarrow> Some None
           | JObj ms \<Rightarrow>
               map_option Some (Unmarshal_SwapFunctionData (case old of Some f # _ \<Rightarrow> f | _ \<Rightarrow> zero_function) ms)
           | _ \<Rightarrow> None);
          fs \<leftarrow> json_functions (tl old) js;
          Some (f # fs) }"

fun json_functions_into ::
    "decoded_function option list \<times> decoded_function option list \<Rightarrow> json list \<Rightarrow>
     (decoded_function option list \<times> decoded_function option list) option" where
  "json_functions_into sl [] = Some sl"
| "json_functions_into sl (j # js) =
     (case j of
        JArr es \<Rightarrow> (case json_functions (snd sl) es of None \<Rightarrow> None | Some fs \<Rightarrow> json_functions_into (slice_over fs (snd sl)) js)
      | JNull \<Rightarrow> json_functions_into ([], []) js
      | _ \<Rightarrow> None)"

text \<open>
  A commit is decoded into a pointer: \<open>Some None\<close> is a \<open>nil\<close> body (the text \<open>null\<close>), whose use is
  a panic.
\<close>

definition Unmarshal_CommitContent :: "ext \<Rightarrow> string \<Rightarrow> InscriptionBRC20ModuleSwapCommitContent option option" where
  "Unmarshal_CommitContent e content =
     (case ext_json_parse e content of
        Some JNull \<Rightarrow> Some None
      | Some (JObj ms) \<Rightarrow>
          do { p \<leftarrow> json_string_field ''p'' ms;
               op \<leftarrow> json_string_field ''op'' ms;
               module \<leftarrow> json_string_field ''module'' ms;
               parent \<leftarrow> json_string_field ''parent'' ms;
               gas \<leftarrow> json_string_field ''gas_price'' ms;
               fs \<leftarrow> json_functions_into ([], []) (json_members ''data'' ms);
               Some (Some \<lparr>cc_Proto = p, cc_Operation = op, cc_Module = module, cc_Parent = parent,
                 cc_GasPrice = gas, cc_Data = map (map_option fst) (fst fs)\<rparr>) }
      | _ \<Rightarrow> None)"

section \<open>The sizes of a commit's functions\<close>

datatype token_type = TOKEN_TYPE_OBJ | TOKEN_TYPE_ARR
datatype token_value = TOKEN_VALUE_MAPKEY | TOKEN_VALUE_MAPVALUE | TOKEN_VALUE_ARRAY_ELEMENT

record item_scan =
  sc_curType :: "token_type option"
  sc_curEle :: "token_value option"
  sc_indentLevel :: int
  sc_stack :: "token_type list" \<comment> \<open>back of the Go list first\<close>
  sc_readyDataProcess :: bool
  sc_startDataProcess :: bool
  sc_lastPos :: u64
  sc_results :: "u64 list"

definition setEleType :: "item_scan \<Rightarrow> item_scan" where
  "setEleType s =
     (case sc_curType s of
        None \<Rightarrow> s
      | Some TOKEN_TYPE_OBJ \<Rightarrow> s\<lparr>sc_curEle := Some TOKEN_VALUE_MAPKEY\<rparr>
      | Some TOKEN_TYPE_ARR \<Rightarrow> s\<lparr>sc_curEle := Some TOKEN_VALUE_ARRAY_ELEMENT\<rparr>)"

definition scan_push :: "token_type \<Rightarrow> item_scan \<Rightarrow> item_scan" where
  "scan_push t s =
     (let s = setEleType (s\<lparr>sc_stack := t # sc_stack s, sc_curType := Some t\<rparr>)
      in s\<lparr>sc_indentLevel := sc_indentLevel s + 1\<rparr>)"

text \<open>\<open>stack.Remove(stack.Back())\<close> panics on an empty stack.\<close>

definition scan_pop :: "item_scan \<Rightarrow> item_scan option" where
  "scan_pop s =
     (case sc_stack s of
        [] \<Rightarrow> None
      | _ # st \<Rightarrow>
          let s = s\<lparr>sc_stack := st\<rparr>;
              s = (case st of [] \<Rightarrow> s | t # _ \<Rightarrow> setEleType (s\<lparr>sc_curType := Some t\<rparr>))
          in Some (s\<lparr>sc_indentLevel := sc_indentLevel s - 1\<rparr>))"

definition scan_value :: "jtoken \<Rightarrow> item_scan \<Rightarrow> item_scan" where
  "scan_value tok s =
     (if sc_curType s = Some TOKEN_TYPE_OBJ then
        (case sc_curEle s of
           Some TOKEN_VALUE_MAPKEY \<Rightarrow>
             let s = (if sc_indentLevel s = 1 then
                        (if tok = TString ''data''
                         then s\<lparr>sc_results := [], sc_readyDataProcess := True, sc_startDataProcess := False\<rparr>
                         else s\<lparr>sc_readyDataProcess := False, sc_startDataProcess := False\<rparr>)
                      else s)
             in s\<lparr>sc_curEle := Some TOKEN_VALUE_MAPVALUE\<rparr>
         | Some TOKEN_VALUE_MAPVALUE \<Rightarrow> s\<lparr>sc_curEle := Some TOKEN_VALUE_MAPKEY\<rparr>
         | _ \<Rightarrow> s)
      else s)"

definition scan_token :: "jtoken \<Rightarrow> u64 \<Rightarrow> item_scan \<Rightarrow> item_scan option" where
  "scan_token tok offset s =
     (let on = (sc_readyDataProcess s \<and> sc_startDataProcess s) in
      case tok of
        TDelim c \<Rightarrow>
          if c = CHR 0x7b then
            Some (scan_push TOKEN_TYPE_OBJ (if sc_indentLevel s = 2 \<and> on then s\<lparr>sc_lastPos := offset\<rparr> else s))
          else if c = CHR 0x7d then
            scan_pop (if sc_indentLevel s = 3 \<and> on
                      then s\<lparr>sc_results := sc_results s @ [offset - sc_lastPos s + 1]\<rparr> else s)
          else if c = CHR 0x5b then
            Some (scan_push TOKEN_TYPE_ARR
              (if sc_indentLevel s = 1 \<and> sc_readyDataProcess s \<and> \<not> sc_startDataProcess s
               then s\<lparr>sc_results := [], sc_startDataProcess := True\<rparr> else s))
          else if c = CHR 0x5d then
            scan_pop (if sc_indentLevel s = 2 \<and> on
                      then s\<lparr>sc_readyDataProcess := False, sc_startDataProcess := False\<rparr> else s)
          else Some s
      | _ \<Rightarrow> Some (scan_value tok s))"

fun scan_tokens :: "(jtoken \<times> u64) list \<Rightarrow> item_scan \<Rightarrow> item_scan option" where
  "scan_tokens [] s = Some s"
| "scan_tokens ((tok, offset) # ts) s = do { s \<leftarrow> scan_token tok offset s; scan_tokens ts s }"

definition scan_start :: item_scan where
  "scan_start = \<lparr>sc_curType = None, sc_curEle = None, sc_indentLevel = 0, sc_stack = [],
     sc_readyDataProcess = False, sc_startDataProcess = False, sc_lastPos = 0, sc_results = []\<rparr>"

text \<open>The outer option is the panic, the inner one the error.\<close>

definition GetEachItemLengthOfCommitJsonData :: "ext \<Rightarrow> string \<Rightarrow> u64 list option option" where
  "GetEachItemLengthOfCommitJsonData e body =
     (case ext_json_tokens e body of (ts, eof) \<Rightarrow>
        do { s \<leftarrow> scan_tokens ts scan_start;
             Some (if eof then Some (sc_results s) else None) })"

end
