(* ===== verification/Commit_Utils.thy ===== *)
theory Commit_Utils
  imports Json_Decode
begin

text \<open>
  The checks of \<open>indexer/module_commit_utils.go\<close>: amounts, tickers, the name of a pool, and the
  signature of a commit function.

  \<open>CheckAmountVerify\<close> and \<open>CheckTickVerify\<close> return \<open>(amt, ok)\<close>: here \<open>Some r\<close>, where
  \<open>r = None\<close> is \<open>(nil, false)\<close> and \<open>r = Some amt\<close> is \<open>(amt, true)\<close>; the outer \<open>None\<close> is a
  panic. \<open>amt_of\<close> is the amount a caller sees that ignores \<open>ok\<close>.
\<close>

section \<open>Amounts and tickers\<close>

definition amt_of :: "decp option \<Rightarrow> decp" where
  "amt_of r = (case r of None \<Rightarrow> None | Some d \<Rightarrow> d)"

text \<open>\<open>amt, _ := decimal.NewDecimalFromString(s, p)\<close>: \<open>nil\<close> on an error.\<close>

definition parse_or_nil :: "string \<Rightarrow> nat \<Rightarrow> decp option" where
  "parse_or_nil s p = do { r \<leftarrow> NewDecimalFromString s p; Some (case r of Inl _ \<Rightarrow> None | Inr d \<Rightarrow> Some d) }"

definition CheckAmountVerify :: "string \<Rightarrow> nat \<Rightarrow> decp option option" where
  "CheckAmountVerify amtStr nDecimal =
     do { r \<leftarrow> NewDecimalFromString amtStr nDecimal;
          Some (case r of
             Inl _ \<Rightarrow> None
           | Inr amt \<Rightarrow> if Decimal_Sign (Some amt) < 0 then None else Some (Some amt)) }"

definition CheckTickVerify :: "ext \<Rightarrow> BRC20ModuleIndexer \<Rightarrow> string \<Rightarrow> string \<Rightarrow> decp option option" where
  "CheckTickVerify e g tick amtStr =
     (case g_InscriptionsTickerInfoMap g (ToLower e tick) of
        None \<Rightarrow> Some None
      | Some tokenInfo \<Rightarrow>
          if amtStr = '''' then Some (Some None)
          else do {
            r \<leftarrow> NewDecimalFromString amtStr (unat (ti_Decimal (tk_Deploy tokenInfo)));
            case r of
              Inl _ \<Rightarrow> Some None
            | Inr amt \<Rightarrow>
                if Decimal_Sign (Some amt) < 0 then Some None
                else do { c \<leftarrow> Decimal_Cmp (Some amt) (ti_Max (tk_Deploy tokenInfo));
                          Some (if c > 0 then None else Some (Some amt)) } })"

definition CheckTickVerifyBigInt :: "ext \<Rightarrow> BRC20ModuleIndexer \<Rightarrow> string \<Rightarrow> string \<Rightarrow> decp option option" where
  "CheckTickVerifyBigInt e g tick amtStr =
     (case g_InscriptionsTickerInfoMap g (ToLower e tick) of
        None \<Rightarrow> Some None
      | Some tokenInfo \<Rightarrow>
          if amtStr = '''' then Some (Some None)
          else do {
            r \<leftarrow> NewDecimalFromString amtStr 0;
            case r of
              Inl _ \<Rightarrow> Some None
            | Inr amt \<Rightarrow>
                let amt = amt\<lparr>Precition := unat (ti_Decimal (tk_Deploy tokenInfo))\<rparr> in
                if Decimal_Sign (Some amt) < 0 then Some None
                else do { c \<leftarrow> Decimal_Cmp (Some amt) (ti_Max (tk_Deploy tokenInfo));
                          Some (if c > 0 then None else Some (Some amt)) } })"

section \<open>Pool names\<close>

text \<open>Go compares strings byte by byte.\<close>

fun go_less :: "string \<Rightarrow> string \<Rightarrow> bool" where
  "go_less [] [] = False"
| "go_less [] (d # ds) = True"
| "go_less (c # cs) [] = False"
| "go_less (c # cs) (d # ds) =
     ((of_char c :: nat) < of_char d \<or> (of_char c :: nat) = of_char d \<and> go_less cs ds)"

definition GetLowerInnerPairNameByToken :: "ext \<Rightarrow> string \<Rightarrow> string \<Rightarrow> string" where
  "GetLowerInnerPairNameByToken e token0 token1 =
     (let token0 = ToLower e token0; token1 = ToLower e token1 in
      if go_less token1 token0 then [char_of (length token1)] @ token1 @ token0
      else [char_of (length token0)] @ token0 @ token1)"

section \<open>Signatures\<close>

definition nl :: string where "nl = [CHR 0x0a]"

definition GetFunctionDataContent :: "string \<Rightarrow> SwapFunctionData \<Rightarrow> string" where
  "GetFunctionDataContent contentPrefix data =
     contentPrefix @ ''addr: '' @ sf_Address data @ nl @ ''func: '' @ sf_Function data @ nl @
     ''params: '' @ go_join (sf_Params data) '' '' @ nl @ ''ts: '' @ nat_string (unat (sf_Timestamp data)) @ nl"

text \<open>
  \<open>base64.StdEncoding.DecodeString\<close>: line breaks are skipped, quanta of four characters, padding
  in the last one only; \<open>None\<close> is the error.
\<close>

definition base64_val :: "char \<Rightarrow> nat option" where
  "base64_val c =
     (let n = of_char c in
      if (65::nat) \<le> n \<and> n \<le> 90 then Some (n - 65)
      else if 97 \<le> n \<and> n \<le> 122 then Some (n - 71)
      else if 48 \<le> n \<and> n \<le> 57 then Some (n + 4)
      else if n = 43 then Some 62
      else if n = 47 then Some 63
      else None)"

fun base64_quanta :: "string \<Rightarrow> string option" where
  "base64_quanta [] = Some []"
| "base64_quanta (a # b # c # d # s) =
     (case (base64_val a, base64_val b) of
        (Some x, Some y) \<Rightarrow>
          if c = CHR ''='' then
            (if d = CHR ''='' \<and> s = [] then Some [char_of (4 * x + y div 16)] else None)
          else (case base64_val c of
              None \<Rightarrow> None
            | Some z \<Rightarrow>
                if d = CHR ''='' then
                  (if s = [] then Some [char_of (4 * x + y div 16), char_of (16 * y + z div 4)] else None)
                else (case base64_val d of
                    None \<Rightarrow> None
                  | Some w \<Rightarrow>
                      map_option (\<lambda>r. [char_of (4 * x + y div 16), char_of (16 * y + z div 4), char_of (64 * z + w)] @ r)
                        (base64_quanta s)))
      | _ \<Rightarrow> None)"
| "base64_quanta _ = None"

definition base64_decode :: "string \<Rightarrow> string option" where
  "base64_decode s = base64_quanta (filter (\<lambda>c. c \<noteq> CHR 0x0a \<and> c \<noteq> CHR 0x0d) s)"

definition CheckFunctionSigVerify :: "ext \<Rightarrow> string \<Rightarrow> SwapFunctionData \<Rightarrow> string list \<Rightarrow> string \<times> bool" where
  "CheckFunctionSigVerify e contentPrefix data previous =
     (let contentPrefix = (if previous \<noteq> [] then contentPrefix @ ''prevs: '' @ go_join previous '' '' @ nl else contentPrefix);
          content = GetFunctionDataContent contentPrefix data;
          i = HashString (GetSha256 e content);
          message = GetFunctionDataContent (''id: '' @ i @ nl) data in
      case base64_decode (sf_Signature data) of
        None \<Rightarrow> (i, False)
      | Some signature \<Rightarrow>
          let n = length signature in
          if n = 66 then (i, ext_bip322_verify e [drop 2 signature] (sf_PkScript data) message)
          else if n > 2 + 64 + 34 \<and> n \<le> 2 + 72 + 34 then
            (i, ext_bip322_verify e [take (n - 34 - 2) (drop 2 signature), drop (n - 33) signature] (sf_PkScript data) message)
          else (i, False))"

section \<open>Lemmas\<close>

lemma go_less_irrefl [simp]: "\<not> go_less s s"
  by (induction s) auto

lemma go_less_asym: "go_less s t \<Longrightarrow> \<not> go_less t s"
  by (induction s t rule: go_less.induct) auto

lemma go_less_linear: "\<not> go_less s t \<Longrightarrow> \<not> go_less t s \<Longrightarrow> s = t"
  by (induction s t rule: go_less.induct) (auto simp: not_less dest: of_char_nat_inject)

lemma pair_name_commute: "GetLowerInnerPairNameByToken e a b = GetLowerInnerPairNameByToken e b a"
  using go_less_asym [of "ToLower e a" "ToLower e b"] go_less_linear [of "ToLower e a" "ToLower e b"]
  by (auto simp: GetLowerInnerPairNameByToken_def Let_def)

text \<open>The length byte separates the two names.\<close>

lemma sized_append_inject:
  assumes "char_of (length a) # a @ b = char_of (length c) # c @ d" and "length a < 256" and "length c < 256"
  shows "a = c \<and> b = d"
proof -
  from assms have "length a = length c" by simp
  with assms(1) show ?thesis by simp
qed

text \<open>
  The name of a pool does not depend on the order of its tokens, and it determines the pair of
  tokens up to letter case and order: two pairs of tickers with the same pool name are the same pair.
\<close>

theorem pair_name_unique:
  assumes "length (ToLower e a) < 256" "length (ToLower e b) < 256" "length (ToLower e c) < 256" "length (ToLower e d) < 256"
  shows "GetLowerInnerPairNameByToken e a b = GetLowerInnerPairNameByToken e c d \<longleftrightarrow>
    {ToLower e a, ToLower e b} = {ToLower e c, ToLower e d}"
proof
  assume "GetLowerInnerPairNameByToken e a b = GetLowerInnerPairNameByToken e c d"
  then show "{ToLower e a, ToLower e b} = {ToLower e c, ToLower e d}"
    using assms by (auto simp: GetLowerInnerPairNameByToken_def Let_def dest!: sized_append_inject split: if_splits)
next
  assume "{ToLower e a, ToLower e b} = {ToLower e c, ToLower e d}"
  then have "ToLower e a = ToLower e c \<and> ToLower e b = ToLower e d \<or> ToLower e a = ToLower e d \<and> ToLower e b = ToLower e c"
    by (metis doubleton_eq_iff)
  then show "GetLowerInnerPairNameByToken e a b = GetLowerInnerPairNameByToken e c d"
    using pair_name_commute [of e c d] by (auto simp: GetLowerInnerPairNameByToken_def Let_def)
qed

theorem pair_name_unique_witness:
  "GetLowerInnerPairNameByToken (demo_env JNull) ''ORDI'' ''sats'' = GetLowerInnerPairNameByToken (demo_env JNull) ''SATS'' ''ordi'' \<longleftrightarrow>
    {ToLower (demo_env JNull) ''ORDI'', ToLower (demo_env JNull) ''sats''} =
    {ToLower (demo_env JNull) ''SATS'', ToLower (demo_env JNull) ''ordi''}"
  by (rule pair_name_unique) code_simp+

end
