(* ===== verification/Commit_Functions.thy ===== *)
theory Commit_Functions
  imports Commit_Utils
begin

text \<open>
  The functions a commit executes on a module (\<open>indexer/module_commit_*.go\<close>): deployPool, addLiq,
  removeLiq, swap, send, sendLp, decreaseApproval and the gas fee.

  Each takes the module \<open>m\<close> and returns it changed; the indexer \<open>g\<close> is only read. A parameter the
  function has not got is an index out of range, a panic. A returned error keeps the changes made
  before it. Balances, pools and LP balances are read through their keys at each use, so that two
  names of one entry stay one entry.
\<close>

section \<open>Parameters, pools and LP balances\<close>

definition param :: "SwapFunctionData \<Rightarrow> nat \<Rightarrow> string option" where
  "param f i = (if i < length (sf_Params f) then Some (sf_Params f ! i) else None)"

text \<open>The two tokens of a function, one parameter \<open>tick/tick\<close> before the withdraw height and two
  parameters after it: the inner \<open>None\<close> is the error of the decoder.\<close>

definition pool_tokens :: "ext \<Rightarrow> BRC20ModuleIndexer \<Rightarrow> SwapFunctionData \<Rightarrow> (string \<times> string) option option" where
  "pool_tokens e g f =
     do { token0 \<leftarrow> param f 0; token1 \<leftarrow> param f 1;
          Some (if g_BestHeight g < conf_ENABLE_SWAP_WITHDRAW_HEIGHT e then DecodeTokensFromSwapPair token0
                else Some (token0, token1)) }"

definition param_offset :: "ext \<Rightarrow> BRC20ModuleIndexer \<Rightarrow> nat" where
  "param_offset e g = (if g_BestHeight g \<ge> conf_ENABLE_SWAP_WITHDRAW_HEIGHT e then 1 else 0)"

definition token_indexes :: "string \<Rightarrow> BRC20ModulePoolTotalBalance \<Rightarrow> nat \<times> nat" where
  "token_indexes token0 pool = (if token0 = pl_Tick0 pool then (0, 1) else (1, 0))"

definition set_pool :: "BRC20ModuleSwapInfo \<Rightarrow> string \<Rightarrow> BRC20ModulePoolTotalBalance \<Rightarrow> BRC20ModuleSwapInfo" where
  "set_pool m pair pool = m\<lparr>m_SwapPoolTotalBalanceDataMap := (m_SwapPoolTotalBalanceDataMap m)(pair \<mapsto> pool)\<rparr>"

text \<open>\<open>LPTokenUsersBalanceMap[pair][pk]\<close> and \<open>UsersLPTokenBalanceMap[pk][pair]\<close>: a missing entry is \<open>nil\<close>.\<close>

definition lp_entry :: "(string \<rightharpoonup> string \<rightharpoonup> decp) \<Rightarrow> string \<Rightarrow> string \<Rightarrow> decp" where
  "lp_entry t a b = (case t a of None \<Rightarrow> None | Some u \<Rightarrow> (case u b of None \<Rightarrow> None | Some d \<Rightarrow> d))"

definition put_lp_entry :: "string \<Rightarrow> string \<Rightarrow> decp \<Rightarrow> (string \<rightharpoonup> string \<rightharpoonup> decp) \<Rightarrow> (string \<rightharpoonup> string \<rightharpoonup> decp)" where
  "put_lp_entry a b d t = t(a \<mapsto> (case t a of None \<Rightarrow> Map.empty | Some u \<Rightarrow> u)(b \<mapsto> d))"

definition lp_of_pool :: "BRC20ModuleSwapInfo \<Rightarrow> string \<Rightarrow> string \<Rightarrow> decp" where
  "lp_of_pool m pair pk = lp_entry (m_LPTokenUsersBalanceMap m) pair pk"

definition lp_of_user :: "BRC20ModuleSwapInfo \<Rightarrow> string \<Rightarrow> string \<Rightarrow> decp" where
  "lp_of_user m pk pair = lp_entry (m_UsersLPTokenBalanceMap m) pk pair"

text \<open>
  The two copies of an LP balance are written separately. With the first its key is marked as updated:
  the functions below read the set of marks first, since a write to a \<open>nil\<close> map is a panic.
\<close>

definition set_lp_of_pool :: "string \<Rightarrow> string \<Rightarrow> decp \<Rightarrow> BRC20ModuleSwapInfo \<Rightarrow> BRC20ModuleSwapInfo" where
  "set_lp_of_pool pair pk d m =
     m\<lparr>m_LPTokenUsersBalanceMap := put_lp_entry pair pk d (m_LPTokenUsersBalanceMap m),
       m_LPTokenUsersBalanceUpdatedMap := map_option (insert (pair @ pk)) (m_LPTokenUsersBalanceUpdatedMap m)\<rparr>"

definition set_lp_of_user :: "string \<Rightarrow> string \<Rightarrow> decp \<Rightarrow> BRC20ModuleSwapInfo \<Rightarrow> BRC20ModuleSwapInfo" where
  "set_lp_of_user pk pair d m = m\<lparr>m_UsersLPTokenBalanceMap := put_lp_entry pk pair d (m_UsersLPTokenBalanceMap m)\<rparr>"

text \<open>
  Crediting LP tokens (the LP fee, the provider of liquidity, the zero address): the new balance is
  computed from the pool's copy and stored in both.
\<close>

definition credit_lp :: "BRC20ModuleSwapInfo \<Rightarrow> string \<Rightarrow> string \<Rightarrow> decp \<Rightarrow> BRC20ModuleSwapInfo option" where
  "credit_lp m pair pk amt =
     do { d \<leftarrow> Decimal_Add (lp_of_pool m pair pk) amt;
          marks \<leftarrow> m_LPTokenUsersBalanceUpdatedMap m;
          Some (set_lp_of_user pk pair d (set_lp_of_pool pair pk d m)) }"

definition upd_user :: "ext \<Rightarrow> string \<Rightarrow> string \<Rightarrow> (BRC20ModuleTokenBalance \<Rightarrow> BRC20ModuleTokenBalance) \<Rightarrow>
    BRC20ModuleSwapInfo \<Rightarrow> BRC20ModuleSwapInfo" where
  "upd_user e tick pk f m = put_balance e m tick pk (f (the_balance e m tick pk))"

text \<open>\<open>balance.SwapAccountBalance = balance.SwapAccountBalance.Sub(amt)\<close> and \<open>Add(amt)\<close>.\<close>

definition swap_debit :: "ext \<Rightarrow> string \<Rightarrow> string \<Rightarrow> decp \<Rightarrow> BRC20ModuleSwapInfo \<Rightarrow> BRC20ModuleSwapInfo option" where
  "swap_debit e tick pk amt m =
     do { d \<leftarrow> Decimal_Sub (mb_SwapAccountBalance (the_balance e m tick pk)) amt;
          Some (upd_user e tick pk (\<lambda>b. b\<lparr>mb_SwapAccountBalance := d\<rparr>) m) }"

definition swap_credit :: "ext \<Rightarrow> string \<Rightarrow> string \<Rightarrow> decp \<Rightarrow> BRC20ModuleSwapInfo \<Rightarrow> BRC20ModuleSwapInfo option" where
  "swap_credit e tick pk amt m =
     do { d \<leftarrow> Decimal_Add (mb_SwapAccountBalance (the_balance e m tick pk)) amt;
          Some (upd_user e tick pk (\<lambda>b. b\<lparr>mb_SwapAccountBalance := d\<rparr>) m) }"

definition touch_user :: "ext \<Rightarrow> BRC20ModuleIndexer \<Rightarrow> string \<Rightarrow> string \<Rightarrow> BRC20ModuleSwapInfo \<Rightarrow> BRC20ModuleSwapInfo" where
  "touch_user e g tick pk m = upd_user e tick pk (\<lambda>b. b\<lparr>mb_UpdateHeight := g_BestHeight g\<rparr>) m"

section \<open>deployPool\<close>

definition ProcessCommitFunctionDeployPool ::
    "ext \<Rightarrow> BRC20ModuleIndexer \<Rightarrow> BRC20ModuleSwapInfo \<Rightarrow> SwapFunctionData \<Rightarrow> BRC20ModuleSwapInfo outcome" where
  "ProcessCommitFunctionDeployPool e g m f =
     do {
       token0 \<leftarrow> param f 0; token1 \<leftarrow> param f 1;
       let poolPair = GetLowerInnerPairNameByToken e token0 token1;
       if m_SwapPoolTotalBalanceDataMap m poolPair \<noteq> None then ret_err ''deploy: twice'' m
       else do {
         let m = m\<lparr>m_LPTokenUsersBalanceMap := (m_LPTokenUsersBalanceMap m)(poolPair \<mapsto> Map.empty)\<rparr>;
         token0Amt \<leftarrow> CheckTickVerify e g token0 ''0'';
         token1Amt \<leftarrow> CheckTickVerify e g token1 ''0'';
         ret_nil (set_pool m poolPair
           \<lparr>pl_UpdateHeight = 0, pl_Tick0 = token0, pl_Tick1 = token1, pl_TickBalance0 = amt_of token0Amt,
            pl_TickBalance1 = amt_of token1Amt, pl_LpBalance = None, pl_LastRootK = None, pl_History = []\<rparr>) } }"

section \<open>addLiq\<close>

text \<open>The LP issued to the fee address since the last change of liquidity, common to addLiq and removeLiq.\<close>

definition lp_fee :: "BRC20ModulePoolTotalBalance \<Rightarrow> nat \<Rightarrow> nat \<Rightarrow> decp option" where
  "lp_fee pool token0Idx token1Idx =
     do { rootK \<leftarrow> Decimal_Sqrt (Decimal_Mul (pool_balance pool token0Idx) (pool_balance pool token1Idx));
          d \<leftarrow> Decimal_Sub rootK (pl_LastRootK pool);
          den \<leftarrow> Decimal_Add (Decimal_Mul rootK (NewDecimal 5 0)) (pl_LastRootK pool);
          Decimal_Div (Decimal_Mul (pl_LpBalance pool) d) den }"

definition issue_lp_fee ::
    "BRC20ModuleSwapInfo \<Rightarrow> string \<Rightarrow> BRC20ModulePoolTotalBalance \<Rightarrow> nat \<Rightarrow> nat \<Rightarrow>
     (BRC20ModulePoolTotalBalance \<times> BRC20ModuleSwapInfo) option" where
  "issue_lp_fee m poolPair pool token0Idx token1Idx =
     do { lpFee \<leftarrow> lp_fee pool token0Idx token1Idx;
          if Decimal_Sign lpFee > 0 then do {
            lp \<leftarrow> Decimal_Add (pl_LpBalance pool) lpFee;
            let pool = pool\<lparr>pl_LpBalance := lp\<rparr>;
            m \<leftarrow> credit_lp (set_pool m poolPair pool) poolPair (m_LpFeePkScript m) lpFee;
            Some (pool, m) }
          else Some (pool, m) }"

text \<open>The amounts the provider pays and the LP the pool issues, when the pool is not empty.\<close>

definition liquidity_amounts ::
    "BRC20ModulePoolTotalBalance \<Rightarrow> nat \<Rightarrow> nat \<Rightarrow> decp \<Rightarrow> decp \<Rightarrow> (decp \<times> decp \<times> decp) option" where
  "liquidity_amounts pool token0Idx token1Idx token0Amt token1Amt =
     do {
       token1AdjustAmt \<leftarrow> Decimal_Div (Decimal_Mul (pool_balance pool token1Idx) token0Amt) (pool_balance pool token0Idx);
       c \<leftarrow> Decimal_Cmp token1Amt token1AdjustAmt;
       (token0Amt, token1Amt) \<leftarrow>
         (if c \<ge> 0 then Some (token0Amt, token1AdjustAmt)
          else do {
            token0AdjustAmt \<leftarrow> Decimal_Div (Decimal_Mul (pool_balance pool token0Idx) token1Amt) (pool_balance pool token1Idx);
            Some (token0AdjustAmt, token1Amt) });
       lp0 \<leftarrow> Decimal_Div (Decimal_Mul (pl_LpBalance pool) token0Amt) (pool_balance pool token0Idx);
       lp1 \<leftarrow> Decimal_Div (Decimal_Mul (pl_LpBalance pool) token1Amt) (pool_balance pool token1Idx);
       c \<leftarrow> Decimal_Cmp lp0 lp1;
       Some (token0Amt, token1Amt, if c > 0 then lp1 else lp0) }"

text \<open>The last part of addLiq: the balance checks and the updates.\<close>

definition add_liq_apply ::
    "ext \<Rightarrow> BRC20ModuleIndexer \<Rightarrow> BRC20ModuleSwapInfo \<Rightarrow> SwapFunctionData \<Rightarrow> string \<Rightarrow> BRC20ModulePoolTotalBalance \<Rightarrow>
     bool \<Rightarrow> string \<Rightarrow> string \<Rightarrow> nat \<Rightarrow> nat \<Rightarrow> decp \<Rightarrow> decp \<Rightarrow> decp \<Rightarrow> decp \<Rightarrow> BRC20ModuleSwapInfo outcome" where
  "add_liq_apply e g m f poolPair pool first token0 token1 token0Idx token1Idx token0Amt token1Amt lpForPool lpForUser =
     do {
       let m = Module_GetUserTokenBalance e m token0 (sf_PkScript f);
       let m = Module_GetUserTokenBalance e m token1 (sf_PkScript f);
       c0 \<leftarrow> Decimal_Cmp (mb_SwapAccountBalance (the_balance e m token0 (sf_PkScript f))) token0Amt;
       if c0 < 0 then ret_err ''addLiq: token0 balance insufficient'' m
       else do {
         c1 \<leftarrow> Decimal_Cmp (mb_SwapAccountBalance (the_balance e m token1 (sf_PkScript f))) token1Amt;
         if c1 < 0 then ret_err ''addLiq: token1 balance insufficient'' m
         else do {
           m \<leftarrow> swap_debit e token0 (sf_PkScript f) token0Amt m;
           m \<leftarrow> swap_debit e token1 (sf_PkScript f) token1Amt m;
           let m = touch_user e g token1 (sf_PkScript f) (touch_user e g token0 (sf_PkScript f) m);
           m \<leftarrow> credit_lp m poolPair (sf_PkScript f) lpForUser;
           m \<leftarrow> (if first then credit_lp m poolPair ZERO_ADDRESS_PKSCRIPT (NewDecimal 1000 18) else Some m);
           r0 \<leftarrow> Decimal_Add (pool_balance pool token0Idx) token0Amt;
           let pool = set_pool_balance pool token0Idx r0;
           r1 \<leftarrow> Decimal_Add (pool_balance pool token1Idx) token1Amt;
           let pool = set_pool_balance pool token1Idx r1;
           lp \<leftarrow> Decimal_Add (pl_LpBalance pool) lpForPool;
           rootK \<leftarrow> Decimal_Sqrt (Decimal_Mul (pool_balance pool token0Idx) (pool_balance pool token1Idx));
           ret_nil (set_pool m poolPair
             (pool\<lparr>pl_LpBalance := lp, pl_UpdateHeight := g_BestHeight g, pl_LastRootK := rootK\<rparr>)) } } }"

text \<open>The slippage check, then the last part.\<close>

definition add_liq_finish ::
    "ext \<Rightarrow> BRC20ModuleIndexer \<Rightarrow> BRC20ModuleSwapInfo \<Rightarrow> SwapFunctionData \<Rightarrow> string \<Rightarrow> BRC20ModulePoolTotalBalance \<Rightarrow>
     bool \<Rightarrow> string \<Rightarrow> string \<Rightarrow> nat \<Rightarrow> nat \<Rightarrow> decp \<Rightarrow> decp \<Rightarrow> decp \<Rightarrow> decp \<Rightarrow> decp \<Rightarrow> decp \<Rightarrow> BRC20ModuleSwapInfo outcome" where
  "add_liq_finish e g m f poolPair pool first token0 token1 token0Idx token1Idx token0Amt token1Amt lpForPool lpForUser
       tokenLpAmt slippageAmt =
     do {
       r \<leftarrow> Decimal_Sub (NewDecimal 1000 3) slippageAmt;
       lpMin \<leftarrow> Decimal_Div (Decimal_Mul tokenLpAmt r) (NewDecimal 1000 3);
       c \<leftarrow> Decimal_Cmp lpForUser lpMin;
       if c < 0 then ret_err ''addLiq: over slippage'' m
       else add_liq_apply e g m f poolPair pool first token0 token1 token0Idx token1Idx token0Amt token1Amt lpForPool lpForUser }"

definition ProcessCommitFunctionAddLiquidity ::
    "ext \<Rightarrow> BRC20ModuleIndexer \<Rightarrow> BRC20ModuleSwapInfo \<Rightarrow> SwapFunctionData \<Rightarrow> BRC20ModuleSwapInfo outcome" where
  "ProcessCommitFunctionAddLiquidity e g m f =
     do {
       tokens \<leftarrow> pool_tokens e g f;
       case tokens of
         None \<Rightarrow> ret_err ''func: addLiq poolPair invalid'' m
       | Some (token0, token1) \<Rightarrow>
           let poolPair = GetLowerInnerPairNameByToken e token0 token1 in
           (case m_SwapPoolTotalBalanceDataMap m poolPair of
              None \<Rightarrow> ret_err ''addLiq: pool invalid'' m
            | Some pool \<Rightarrow>
                if m_LPTokenUsersBalanceMap m poolPair = None then ret_err ''addLiq: users invalid'' m
                else do {
                  let offset = param_offset e g;
                  token0AmtStr \<leftarrow> param f (1 + offset);
                  token1AmtStr \<leftarrow> param f (2 + offset);
                  tokenLpAmtStr \<leftarrow> param f (3 + offset);
                  t0 \<leftarrow> CheckTickVerify e g token0 token0AmtStr;
                  t1 \<leftarrow> CheckTickVerify e g token1 token1AmtStr;
                  tokenLpAmt \<leftarrow> parse_or_nil tokenLpAmtStr 18;
                  slippageAmtStr \<leftarrow> param f (4 + offset);
                  slippageAmt \<leftarrow> parse_or_nil slippageAmtStr 3;
                  let (token0Idx, token1Idx) = token_indexes token0 pool;
                  if Decimal_Sign (pl_TickBalance0 pool) = 0 \<and> Decimal_Sign (pl_TickBalance1 pool) = 0 then do {
                    lpForPool \<leftarrow> Decimal_Sqrt (Decimal_Mul (amt_of t0) (amt_of t1));
                    c \<leftarrow> Decimal_Cmp lpForPool (NewDecimal 1000 18);
                    if c < 0 then ret_err ''addLiq: lp less than 1000'' m
                    else do {
                      lpForUser \<leftarrow> Decimal_Sub lpForPool (NewDecimal 1000 18);
                      add_liq_finish e g m f poolPair pool True token0 token1 token0Idx token1Idx (amt_of t0) (amt_of t1)
                        lpForPool lpForUser tokenLpAmt slippageAmt } }
                  else do {
                    fee \<leftarrow> CheckAmountVerify (m_FeeRateSwap m) 3;
                    case fee of
                      None \<Rightarrow> ret_err ''addLiq: feerate swap invalid'' m
                    | Some feeRateSwapAmt \<Rightarrow> do {
                        (pool, m) \<leftarrow> (if Decimal_Sign feeRateSwapAmt > 0 then issue_lp_fee m poolPair pool token0Idx token1Idx
                                      else Some (pool, m));
                        (token0Amt, token1Amt, lpForPool) \<leftarrow>
                          liquidity_amounts pool token0Idx token1Idx (amt_of t0) (amt_of t1);
                        add_liq_finish e g m f poolPair pool False token0 token1 token0Idx token1Idx token0Amt token1Amt
                          lpForPool lpForPool tokenLpAmt slippageAmt } } }) }"

section \<open>removeLiq\<close>

text \<open>The checks and updates after the LP fee was issued.\<close>

definition remove_liq_apply ::
    "ext \<Rightarrow> BRC20ModuleIndexer \<Rightarrow> BRC20ModuleSwapInfo \<Rightarrow> SwapFunctionData \<Rightarrow> string \<Rightarrow> BRC20ModulePoolTotalBalance \<Rightarrow>
     string \<Rightarrow> string \<Rightarrow> nat \<Rightarrow> nat \<Rightarrow> decp \<Rightarrow> decp \<Rightarrow> decp \<Rightarrow> BRC20ModuleSwapInfo outcome" where
  "remove_liq_apply e g m f poolPair pool token0 token1 token0Idx token1Idx amt0 amt1 tokenLpAmt =
     do {
       c \<leftarrow> Decimal_Cmp (pl_LpBalance pool) tokenLpAmt;
       if c < 0 then ret_err ''removeLiq: tokenLp balance insufficient'' m else do {
       c \<leftarrow> Decimal_Cmp (pool_balance pool token0Idx) amt0;
       if c < 0 then ret_err ''removeLiq: pool balance insufficient'' m else do {
       c \<leftarrow> Decimal_Cmp (pool_balance pool token1Idx) amt1;
       if c < 0 then ret_err ''removeLiq: pool balance insufficient'' m else do {
       let userbalance = lp_of_pool m poolPair (sf_PkScript f);
       let lpBalance = lp_of_user m (sf_PkScript f) poolPair;
       c \<leftarrow> Decimal_Cmp userbalance lpBalance;
       if c \<noteq> 0 then ret_err (''removeLiq: user'' @ [CHR 0x27] @ ''s tokenLp balance miss match'') m else do {
       c \<leftarrow> Decimal_Cmp userbalance tokenLpAmt;
       if c < 0 then ret_err (''removeLiq: user'' @ [CHR 0x27] @ ''s tokenLp balance insufficient'') m else do {
       c \<leftarrow> Decimal_Cmp lpBalance tokenLpAmt;
       if c < 0 then ret_err (''removeLiq: user'' @ [CHR 0x27] @ ''s tokenLp balance insufficient'') m else do {
       ub \<leftarrow> Decimal_Sub userbalance tokenLpAmt;
       marks \<leftarrow> m_LPTokenUsersBalanceUpdatedMap m;
       let m = set_lp_of_pool poolPair (sf_PkScript f) ub m;
       lb \<leftarrow> Decimal_Sub lpBalance tokenLpAmt;
       let m = set_lp_of_user (sf_PkScript f) poolPair lb m;
       let m = Module_GetUserTokenBalance e m token0 (sf_PkScript f);
       let m = Module_GetUserTokenBalance e m token1 (sf_PkScript f);
       m \<leftarrow> swap_credit e token0 (sf_PkScript f) amt0 m;
       m \<leftarrow> swap_credit e token1 (sf_PkScript f) amt1 m;
       let m = touch_user e g token1 (sf_PkScript f) (touch_user e g token0 (sf_PkScript f) m);
       lp \<leftarrow> Decimal_Sub (pl_LpBalance pool) tokenLpAmt;
       r0 \<leftarrow> Decimal_Sub (pool_balance pool token0Idx) amt0;
       let pool = set_pool_balance pool token0Idx r0;
       r1 \<leftarrow> Decimal_Sub (pool_balance pool token1Idx) amt1;
       let pool = set_pool_balance pool token1Idx r1;
       rootK \<leftarrow> Decimal_Sqrt (Decimal_Mul (pool_balance pool token0Idx) (pool_balance pool token1Idx));
       ret_nil (set_pool m poolPair
         (pool\<lparr>pl_UpdateHeight := g_BestHeight g, pl_LpBalance := lp, pl_LastRootK := rootK\<rparr>)) } } } } } } }"

text \<open>The share of a reserve that belongs to \<open>tokenLpAmt\<close>.\<close>

definition lp_share :: "BRC20ModulePoolTotalBalance \<Rightarrow> nat \<Rightarrow> decp \<Rightarrow> decp option" where
  "lp_share pool idx tokenLpAmt = Decimal_Div (Decimal_Mul (pool_balance pool idx) tokenLpAmt) (pl_LpBalance pool)"

definition ProcessCommitFunctionRemoveLiquidity ::
    "ext \<Rightarrow> BRC20ModuleIndexer \<Rightarrow> BRC20ModuleSwapInfo \<Rightarrow> SwapFunctionData \<Rightarrow> BRC20ModuleSwapInfo outcome" where
  "ProcessCommitFunctionRemoveLiquidity e g m f =
     do {
       tokens \<leftarrow> pool_tokens e g f;
       case tokens of
         None \<Rightarrow> ret_err ''func: removeLiq poolPair invalid'' m
       | Some (token0, token1) \<Rightarrow>
           let poolPair = GetLowerInnerPairNameByToken e token0 token1 in
           (case m_SwapPoolTotalBalanceDataMap m poolPair of
              None \<Rightarrow> ret_err ''removeLiq: pool invalid'' m
            | Some pool \<Rightarrow>
                if m_LPTokenUsersBalanceMap m poolPair = None then ret_err ''removeLiq: lps balance map missing pair'' m
                else if m_UsersLPTokenBalanceMap m (sf_PkScript f) = None
                then ret_err ''removeLiq: users balance map missing user'' m
                else do {
                  let offset = param_offset e g;
                  tokenLpAmtStr \<leftarrow> param f (1 + offset);
                  token0AmtStr \<leftarrow> param f (2 + offset);
                  token1AmtStr \<leftarrow> param f (3 + offset);
                  t0 \<leftarrow> CheckTickVerify e g token0 token0AmtStr;
                  t1 \<leftarrow> CheckTickVerify e g token1 token1AmtStr;
                  tokenLpAmt \<leftarrow> parse_or_nil tokenLpAmtStr 18;
                  slippageAmtStr \<leftarrow> param f (4 + offset);
                  slippageAmt \<leftarrow> parse_or_nil slippageAmtStr 3;
                  let (token0Idx, token1Idx) = token_indexes token0 pool;
                  fee \<leftarrow> CheckAmountVerify (m_FeeRateSwap m) 3;
                  (pool, m) \<leftarrow> (if Decimal_Sign (amt_of fee) > 0 then issue_lp_fee m poolPair pool token0Idx token1Idx
                                else Some (pool, m));
                  amt0 \<leftarrow> lp_share pool token0Idx tokenLpAmt;
                  min0 \<leftarrow> Decimal_Sub (amt_of t0) (Decimal_Mul (amt_of t0) slippageAmt);
                  c \<leftarrow> Decimal_Cmp amt0 min0;
                  if c < 0 then ret_err ''removeLiq: over slippage'' m
                  else do {
                    amt1 \<leftarrow> lp_share pool token1Idx tokenLpAmt;
                    min1 \<leftarrow> Decimal_Sub (amt_of t1) (Decimal_Mul (amt_of t1) slippageAmt);
                    c \<leftarrow> Decimal_Cmp amt1 min1;
                    if c < 0 then ret_err ''removeLiq: over slippage'' m
                    else remove_liq_apply e g m f poolPair pool token0 token1 token0Idx token1Idx amt0 amt1 tokenLpAmt } }) }"

section \<open>swap\<close>

text \<open>The output of an exact input, with and without a fee.\<close>

definition swap_amount_out :: "decp \<Rightarrow> decp \<Rightarrow> decp \<Rightarrow> decp \<Rightarrow> decp option" where
  "swap_amount_out reserveIn reserveOut tokenInAmt feeRateSwapAmt =
     (if Decimal_Sign feeRateSwapAmt > 0 then do {
        r \<leftarrow> Decimal_Sub (NewDecimal 1000 3) feeRateSwapAmt;
        let amountInWithFee = Decimal_Mul tokenInAmt r;
        den \<leftarrow> Decimal_Add (Decimal_Mul reserveIn (NewDecimal 1000 3)) amountInWithFee;
        Decimal_Div (Decimal_Mul reserveOut amountInWithFee) den }
      else do {
        den \<leftarrow> Decimal_Add reserveIn tokenInAmt;
        Decimal_Div (Decimal_Mul reserveOut tokenInAmt) den })"

text \<open>The input of an exact output; \<open>tokenInAmt.Precition\<close> dereferences the pointer.\<close>

definition swap_amount_in :: "decp \<Rightarrow> decp \<Rightarrow> decp \<Rightarrow> decp \<Rightarrow> decp \<Rightarrow> decp option" where
  "swap_amount_in reserveIn reserveOut tokenInAmt tokenOutAmt feeRateSwapAmt =
     do {
       rest \<leftarrow> Decimal_Sub reserveOut tokenOutAmt;
       q \<leftarrow> (if Decimal_Sign feeRateSwapAmt > 0 then do {
               r \<leftarrow> Decimal_Sub (NewDecimal 1000 3) feeRateSwapAmt;
               Decimal_Div (Decimal_Mul reserveIn (Decimal_Mul tokenOutAmt (NewDecimal 1000 3))) (Decimal_Mul rest r) }
             else Decimal_Div (Decimal_Mul reserveIn tokenOutAmt) rest);
       d \<leftarrow> tokenInAmt;
       Decimal_Add q (NewDecimal 1 (Precition d)) }"

text \<open>Which token goes in and which comes out, with the texts of their amounts.\<close>

definition swap_direction ::
    "SwapFunctionData \<Rightarrow> nat \<Rightarrow> string \<Rightarrow> string \<Rightarrow> (string \<times> string \<times> string \<times> string \<times> string) option" where
  "swap_direction f offset token0 token1 =
     do {
       derection \<leftarrow> param f (3 + offset);
       if derection = ''exactIn'' then do {
         tokenIn \<leftarrow> param f (1 + offset);
         tokenInAmtStr \<leftarrow> param f (2 + offset);
         tokenOutAmtStr \<leftarrow> param f (4 + offset);
         Some (derection, tokenIn, tokenInAmtStr, if tokenIn = token0 then token1 else token0, tokenOutAmtStr) }
       else if derection = ''exactOut'' then do {
         tokenOut \<leftarrow> param f (1 + offset);
         tokenOutAmtStr \<leftarrow> param f (2 + offset);
         tokenInAmtStr \<leftarrow> param f (4 + offset);
         Some (derection, if tokenOut = token0 then token1 else token0, tokenInAmtStr, tokenOut, tokenOutAmtStr) }
       else Some (derection, '''', '''', '''', '''') }"

text \<open>The amounts of the swap after the slippage check; the inner \<open>None\<close> is the slippage error.\<close>

definition swap_amounts ::
    "string \<Rightarrow> decp \<Rightarrow> decp \<Rightarrow> decp \<Rightarrow> decp \<Rightarrow> decp \<Rightarrow> decp \<Rightarrow> (decp \<times> decp) option option" where
  "swap_amounts derection reserveIn reserveOut tokenInAmt tokenOutAmt slippageAmt feeRateSwapAmt =
     (if derection = ''exactIn'' then do {
        amountOut \<leftarrow> swap_amount_out reserveIn reserveOut tokenInAmt feeRateSwapAmt;
        den \<leftarrow> Decimal_Add (NewDecimal 1000 3) slippageAmt;
        amountOutMin \<leftarrow> Decimal_Div (Decimal_Mul tokenOutAmt (NewDecimal 1000 3)) den;
        c \<leftarrow> Decimal_Cmp amountOut amountOutMin;
        Some (if c < 0 then None else Some (tokenInAmt, amountOut)) }
      else if derection = ''exactOut'' then do {
        amountIn \<leftarrow> swap_amount_in reserveIn reserveOut tokenInAmt tokenOutAmt feeRateSwapAmt;
        r \<leftarrow> Decimal_Add (NewDecimal 1000 3) slippageAmt;
        let amountInMax = Decimal_Mul tokenInAmt r;
        c \<leftarrow> Decimal_Cmp amountInMax amountIn;
        Some (if c < 0 then None else Some (amountIn, tokenOutAmt)) }
      else Some (Some (None, None)))"

text \<open>The checks and updates of the swap once the amounts are known.\<close>

definition swap_apply ::
    "ext \<Rightarrow> BRC20ModuleIndexer \<Rightarrow> BRC20ModuleSwapInfo \<Rightarrow> SwapFunctionData \<Rightarrow> string \<Rightarrow> BRC20ModulePoolTotalBalance \<Rightarrow>
     string \<Rightarrow> string \<Rightarrow> nat \<Rightarrow> nat \<Rightarrow> decp \<Rightarrow> decp \<Rightarrow> decp \<Rightarrow> BRC20ModuleSwapInfo outcome" where
  "swap_apply e g m f poolPair pool tokenIn tokenOut tokenInIdx tokenOutIdx tokenInAmt amountIn amountOut =
     do {
       c \<leftarrow> Decimal_Cmp (pool_balance pool tokenOutIdx) amountOut;
       if c < 0 then ret_err ''swap: pool tokenOut balance insufficient'' m else do {
       let m = Module_GetUserTokenBalance e m tokenIn (sf_PkScript f);
       let m = Module_GetUserTokenBalance e m tokenOut (sf_PkScript f);
       let m = touch_user e g tokenOut (sf_PkScript f) (touch_user e g tokenIn (sf_PkScript f) m);
       c \<leftarrow> Decimal_Cmp (mb_SwapAccountBalance (the_balance e m tokenIn (sf_PkScript f))) tokenInAmt;
       if c < 0 then ret_err ''swap: user tokenIn balance insufficient'' m else do {
       r0 \<leftarrow> Decimal_Sub (pool_balance pool tokenOutIdx) amountOut;
       let pool = set_pool_balance pool tokenOutIdx r0;
       m \<leftarrow> swap_debit e tokenIn (sf_PkScript f) amountIn m;
       r1 \<leftarrow> Decimal_Add (pool_balance pool tokenInIdx) amountIn;
       let pool = set_pool_balance pool tokenInIdx r1;
       m \<leftarrow> swap_credit e tokenOut (sf_PkScript f) amountOut m;
       ret_nil (set_pool m poolPair (pool\<lparr>pl_UpdateHeight := g_BestHeight g\<rparr>)) } } }"

definition ProcessCommitFunctionSwap ::
    "ext \<Rightarrow> BRC20ModuleIndexer \<Rightarrow> BRC20ModuleSwapInfo \<Rightarrow> SwapFunctionData \<Rightarrow> BRC20ModuleSwapInfo outcome" where
  "ProcessCommitFunctionSwap e g m f =
     do {
       tokens \<leftarrow> pool_tokens e g f;
       case tokens of
         None \<Rightarrow> ret_err ''func: swap poolPair invalid'' m
       | Some (token0, token1) \<Rightarrow>
           let poolPair = GetLowerInnerPairNameByToken e token0 token1 in
           (case m_SwapPoolTotalBalanceDataMap m poolPair of
              None \<Rightarrow> ret_err ''swap: pool invalid'' m
            | Some pool \<Rightarrow>
                if token0 \<noteq> pl_Tick0 pool \<and> token0 \<noteq> pl_Tick1 pool then ret_err ''func: swap token invalid'' m
                else if token1 \<noteq> pl_Tick0 pool \<and> token1 \<noteq> pl_Tick1 pool then ret_err ''func: swap token invalid'' m
                else do {
                  let offset = param_offset e g;
                  (derection, tokenIn, tokenInAmtStr, tokenOut, tokenOutAmtStr) \<leftarrow> swap_direction f offset token0 token1;
                  i \<leftarrow> CheckTickVerify e g tokenIn tokenInAmtStr;
                  out \<leftarrow> CheckTickVerify e g tokenOut tokenOutAmtStr;
                  let (tokenInIdx, tokenOutIdx) = token_indexes tokenIn pool;
                  slippageAmtStr \<leftarrow> param f (5 + offset);
                  slippageAmt \<leftarrow> parse_or_nil slippageAmtStr 3;
                  fee \<leftarrow> CheckAmountVerify (m_FeeRateSwap m) 3;
                  amounts \<leftarrow> swap_amounts derection (pool_balance pool tokenInIdx) (pool_balance pool tokenOutIdx)
                               (amt_of i) (amt_of out) slippageAmt (amt_of fee);
                  case amounts of
                    None \<Rightarrow> ret_err ''swap: slippage error'' m
                  | Some (amountIn, amountOut) \<Rightarrow>
                      swap_apply e g m f poolPair pool tokenIn tokenOut tokenInIdx tokenOutIdx (amt_of i) amountIn amountOut }) }"

section \<open>send, sendLp, decreaseApproval and the gas fee\<close>

text \<open>Moving swap balance between two users, the body of send and of the gas fee.\<close>

definition move_swap_balance ::
    "ext \<Rightarrow> BRC20ModuleIndexer \<Rightarrow> string \<Rightarrow> string \<Rightarrow> string \<Rightarrow> decp \<Rightarrow> BRC20ModuleSwapInfo \<Rightarrow> string \<Rightarrow> BRC20ModuleSwapInfo outcome" where
  "move_swap_balance e g token from dst amt m err =
     do {
       let m = Module_GetUserTokenBalance e m token from;
       c \<leftarrow> Decimal_Cmp (mb_SwapAccountBalance (the_balance e m token from)) amt;
       if c < 0 then ret_err err m
       else do {
         let m = Module_GetUserTokenBalance e m token dst;
         m \<leftarrow> swap_debit e token from amt m;
         m \<leftarrow> swap_credit e token dst amt m;
         ret_nil (touch_user e g token dst (touch_user e g token from m)) } }"

definition ProcessCommitFunctionSend ::
    "ext \<Rightarrow> BRC20ModuleIndexer \<Rightarrow> BRC20ModuleSwapInfo \<Rightarrow> SwapFunctionData \<Rightarrow> BRC20ModuleSwapInfo outcome" where
  "ProcessCommitFunctionSend e g m f =
     do {
       addressTo \<leftarrow> param f 0;
       let pkScriptTo = (case GetPkScriptByAddress e addressTo of None \<Rightarrow> '''' | Some pk \<Rightarrow> pk);
       token \<leftarrow> param f 1;
       tokenAmtStr \<leftarrow> param f 2;
       r \<leftarrow> CheckTickVerify e g token tokenAmtStr;
       move_swap_balance e g token (sf_PkScript f) pkScriptTo (amt_of r) m ''send: token balance insufficient'' }"

definition ProcessCommitFunctionGasFee ::
    "ext \<Rightarrow> BRC20ModuleIndexer \<Rightarrow> BRC20ModuleSwapInfo \<Rightarrow> string \<Rightarrow> decp \<Rightarrow> BRC20ModuleSwapInfo outcome" where
  "ProcessCommitFunctionGasFee e g m userPkScript gasAmt =
     move_swap_balance e g (m_GasTick m) userPkScript (m_GasToPkScript m) gasAmt m ''gas fee: token balance insufficient''"

definition ProcessCommitFunctionSendLp ::
    "ext \<Rightarrow> BRC20ModuleIndexer \<Rightarrow> BRC20ModuleSwapInfo \<Rightarrow> SwapFunctionData \<Rightarrow> BRC20ModuleSwapInfo outcome" where
  "ProcessCommitFunctionSendLp e g m f =
     do {
       addressTo \<leftarrow> param f 0;
       let pkScriptTo = (case GetPkScriptByAddress e addressTo of None \<Rightarrow> '''' | Some pk \<Rightarrow> pk);
       token0 \<leftarrow> param f 1;
       token1 \<leftarrow> param f 2;
       let poolPair = GetLowerInnerPairNameByToken e token0 token1;
       if m_SwapPoolTotalBalanceDataMap m poolPair = None then ret_err ''sendlp: pool invalid'' m
       else if m_LPTokenUsersBalanceMap m poolPair = None then ret_err ''sendlp: lps balance map missing pair'' m
       else if m_UsersLPTokenBalanceMap m (sf_PkScript f) = None then ret_err ''sendlp: users balance map missing user'' m
       else do {
         let lpBalanceFrom = lp_of_user m (sf_PkScript f) poolPair;
         let userbalanceFrom = lp_of_pool m poolPair (sf_PkScript f);
         c \<leftarrow> Decimal_Cmp userbalanceFrom lpBalanceFrom;
         if c \<noteq> 0 then ret_err (''sendlp: user'' @ [CHR 0x27] @ ''s tokenLp balance miss match'') m
         else do {
           tokenAmtStr \<leftarrow> param f 3;
           r \<leftarrow> CheckAmountVerify tokenAmtStr 18;
           let tokenLpAmt = amt_of r;
           c \<leftarrow> Decimal_Cmp userbalanceFrom tokenLpAmt;
           if c < 0 then ret_err (''sendlp: user'' @ [CHR 0x27] @ ''s tokenLp balance insufficient'') m
           else do {
             c \<leftarrow> Decimal_Cmp lpBalanceFrom tokenLpAmt;
             if c < 0 then ret_err (''sendlp: user'' @ [CHR 0x27] @ ''s tokenLp balance insufficient'') m
             else do {
               ub \<leftarrow> Decimal_Sub userbalanceFrom tokenLpAmt;
               lb \<leftarrow> Decimal_Sub lpBalanceFrom tokenLpAmt;
               marks \<leftarrow> m_LPTokenUsersBalanceUpdatedMap m;
               let m = set_lp_of_user (sf_PkScript f) poolPair lb (set_lp_of_pool poolPair (sf_PkScript f) ub m);
               m \<leftarrow> credit_lp m poolPair pkScriptTo tokenLpAmt;
               ret_nil m } } } } }"

definition ProcessCommitFunctionDecreaseApproval ::
    "ext \<Rightarrow> BRC20ModuleIndexer \<Rightarrow> BRC20ModuleSwapInfo \<Rightarrow> SwapFunctionData \<Rightarrow> BRC20ModuleSwapInfo outcome" where
  "ProcessCommitFunctionDecreaseApproval e g m f =
     do {
       token \<leftarrow> param f 0;
       tokenAmtStr \<leftarrow> param f 1;
       r \<leftarrow> CheckTickVerify e g token tokenAmtStr;
       let m = Module_GetUserTokenBalance e m token (sf_PkScript f);
       let b = the_balance e m token (sf_PkScript f);
       c \<leftarrow> Decimal_Cmp (mb_SwapAccountBalance b) (amt_of r);
       if c < 0 then ret_err ''decreaseApproval: token balance insufficient'' m
       else do {
         sw \<leftarrow> Decimal_Sub (mb_SwapAccountBalance b) (amt_of r);
         av \<leftarrow> Decimal_Add (mb_AvailableBalance b) (amt_of r);
         ret_nil (upd_user e token (sf_PkScript f)
           (\<lambda>b. b\<lparr>mb_SwapAccountBalance := sw, mb_AvailableBalance := av, mb_UpdateHeight := g_BestHeight g\<rparr>) m) } }"

end
