(* ===== verification/Commit_Verify.thy ===== *)
theory Commit_Verify
  imports Commit_Functions
begin

text \<open>
  Verification of a commit (\<open>indexer/module_commit_verify.go\<close>): the checks made when it is inscribed
  (\<open>ProcessInscribeCommitPreVerify\<close>), its execution (\<open>ProcessCommitVerify\<close>), the comparison with
  expected results (\<open>BRC20ResultsPreVerify\<close>) and the filter of the partial copy
  (\<open>InitCherryPickFilter\<close>).

  A method that returns an index, a flag and an error returns \<open>None\<close> for the \<open>nil\<close> error and
  \<open>Some (index, critical, err)\<close> otherwise, inside an option whose \<open>None\<close> is a panic. The package
  variable \<open>GResultsExternal\<close> is the argument \<open>ext_results\<close>, \<open>None\<close> for \<open>nil\<close>. Writing
  \<open>f.PkScript\<close> changes the commit's own copy of the function data only, so it is passed along.
\<close>

section \<open>Function names\<close>

definition FUNCTION_DEPLOY_POOL :: string where "FUNCTION_DEPLOY_POOL = ''deployPool''"
definition FUNCTION_ADD_LIQ :: string where "FUNCTION_ADD_LIQ = ''addLiq''"
definition FUNCTION_REMOVE_LIQ :: string where "FUNCTION_REMOVE_LIQ = ''removeLiq''"
definition FUNCTION_SWAP :: string where "FUNCTION_SWAP = ''swap''"
definition FUNCTION_SEND :: string where "FUNCTION_SEND = ''send''"
definition FUNCTION_SENDLP :: string where "FUNCTION_SENDLP = ''sendLp''"
definition FUNCTION_DECREASE_APPROVAL :: string where "FUNCTION_DECREASE_APPROVAL = ''decreaseApproval''"

lemmas function_names = FUNCTION_DEPLOY_POOL_def FUNCTION_ADD_LIQ_def FUNCTION_REMOVE_LIQ_def FUNCTION_SWAP_def
  FUNCTION_SEND_def FUNCTION_SENDLP_def FUNCTION_DECREASE_APPROVAL_def

section \<open>Expected results\<close>

definition result_user_check ::
    "ext \<Rightarrow> BRC20ModuleIndexer \<Rightarrow> SwapFunctionResultCheckStateForUser \<Rightarrow> BRC20ModuleSwapInfo \<Rightarrow> BRC20ModuleSwapInfo outcome" where
  "result_user_check e g user m =
     (case (if ru_Address user \<noteq> ''0'' then GetPkScriptByAddress e (ru_Address user) else Some ZERO_ADDRESS_PKSCRIPT) of
        None \<Rightarrow> ret_err ''result users addr invalid'' m
      | Some userPkScript \<Rightarrow>
          if length (ru_Tick user) = 4 then do {
            r \<leftarrow> CheckTickVerify e g (ru_Tick user) (ru_Balance user);
            case r of
              None \<Rightarrow> ret_err ''result users balance invalid'' m
            | Some tokenAmt \<Rightarrow> do {
                let m = Module_GetUserTokenBalance e m (ru_Tick user) userPkScript;
                c \<leftarrow> Decimal_Cmp (mb_SwapAccountBalance (the_balance e m (ru_Tick user) userPkScript)) tokenAmt;
                if c \<noteq> 0 then ret_err ''result users amount not match'' m else ret_nil m } }
          else (case DecodeTokensFromSwapPair (ru_Tick user) of
              None \<Rightarrow> ret_err ''result users tick invalid'' m
            | Some (token0, token1) \<Rightarrow> do {
                r0 \<leftarrow> CheckTickVerify e g token0 '''';
                if r0 = None then ret_err ''result users tick/0 invalid'' m else do {
                r1 \<leftarrow> CheckTickVerify e g token1 '''';
                if r1 = None then ret_err ''result users tick/1 invalid'' m else do {
                l \<leftarrow> CheckAmountVerify (ru_Balance user) 18;
                case l of
                  None \<Rightarrow> ret_err ''result users Lp Amount invalid'' m
                | Some lpAmt \<Rightarrow>
                    let poolPair = GetLowerInnerPairNameByToken e token0 token1 in
                    if m_LPTokenUsersBalanceMap m poolPair = None then ret_err ''result users Pair invalid'' m
                    else do {
                      c \<leftarrow> Decimal_Cmp (lp_of_pool m poolPair userPkScript) lpAmt;
                      if c \<noteq> 0 then ret_err ''result users lp balance not match'' m else ret_nil m } } } }))"

definition result_pool_check ::
    "ext \<Rightarrow> BRC20ModuleIndexer \<Rightarrow> SwapFunctionResultCheckStateForPool \<Rightarrow> BRC20ModuleSwapInfo \<Rightarrow> BRC20ModuleSwapInfo outcome" where
  "result_pool_check e g poolResult m =
     (case DecodeTokensFromSwapPair (rp_Pair poolResult) of
        None \<Rightarrow> ret_err ''result pools Pair invalid'' m
      | Some (token0, token1) \<Rightarrow> do {
          r0 \<leftarrow> CheckTickVerify e g token0 (rp_ReserveAmount0 poolResult);
          if r0 = None then ret_err ''result pools Amount0 invalid'' m else do {
          r1 \<leftarrow> CheckTickVerify e g token1 (rp_ReserveAmount1 poolResult);
          if r1 = None then ret_err ''result pools Amount1 invalid'' m else do {
          l \<leftarrow> CheckAmountVerify (rp_LPAmount poolResult) 18;
          if l = None then ret_err ''result pools Lp Amount invalid'' m
          else (case m_SwapPoolTotalBalanceDataMap m (GetLowerInnerPairNameByToken e token0 token1) of
              None \<Rightarrow> ret_err ''result pools missing pair'' m
            | Some pool \<Rightarrow> do {
                let (token0Idx, token1Idx) = token_indexes token0 pool;
                c \<leftarrow> Decimal_Cmp (amt_of r0) (pool_balance pool token0Idx);
                if c \<noteq> 0 then ret_err ''result pool balance not match'' m else do {
                c \<leftarrow> Decimal_Cmp (amt_of r1) (pool_balance pool token1Idx);
                if c \<noteq> 0 then ret_err ''result pool balance not match'' m else do {
                c \<leftarrow> Decimal_Cmp (map_option (\<lambda>d. d\<lparr>Precition := 18\<rparr>) (amt_of l)) (pl_LpBalance pool);
                if c \<noteq> 0 then ret_err ''result pool lpbalance not match'' m else ret_nil m } } }) } } })"

fun check_each :: "('a \<Rightarrow> 's \<Rightarrow> 's outcome) \<Rightarrow> 'a list \<Rightarrow> 's \<Rightarrow> 's outcome" where
  "check_each f [] s = ret_nil s"
| "check_each f (x # xs) s =
     do { (err, s) \<leftarrow> f x s; case err of Some x \<Rightarrow> ret_err x s | None \<Rightarrow> check_each f xs s }"

definition BRC20ResultsPreVerify ::
    "ext \<Rightarrow> BRC20ModuleIndexer \<Rightarrow> SwapFunctionResultCheckState option \<Rightarrow> BRC20ModuleSwapInfo \<Rightarrow> BRC20ModuleSwapInfo outcome" where
  "BRC20ResultsPreVerify e g result m =
     do { r \<leftarrow> result;
          (err, m) \<leftarrow> check_each (result_user_check e g) (rs_Users r) m;
          case err of
            Some x \<Rightarrow> ret_err x m
          | None \<Rightarrow> check_each (result_pool_check e g) (rs_Pools r) m }"

section \<open>Checks of an inscribed commit\<close>

text \<open>\<open>if _, ok := check; !ok { return idx, errors.New(err) }\<close>; the result of the checks is the error.\<close>

definition require :: "'a option option \<Rightarrow> string \<Rightarrow> string option option \<Rightarrow> string option option" where
  "require r err k = do { x \<leftarrow> r; if x = None then Some (Some err) else k }"

definition check_deploy_pool :: "ext \<Rightarrow> BRC20ModuleIndexer \<Rightarrow> SwapFunctionData \<Rightarrow> string option option" where
  "check_deploy_pool e g f =
     (if length (sf_Params f) \<noteq> 2 then Some (Some ''func: deploy params invalid'')
      else do {
        token0 \<leftarrow> param f 0; token1 \<leftarrow> param f 1;
        Some (if token0 = token1 then Some ''func: deploy same tokens''
              else if g_InscriptionsTickerInfoMap g (ToLower e token0) = None then Some ''func: deploy tick0 invalid''
              else if g_InscriptionsTickerInfoMap g (ToLower e token1) = None then Some ''func: deploy tick1 invalid''
              else None) })"

definition check_add_liq :: "ext \<Rightarrow> BRC20ModuleIndexer \<Rightarrow> SwapFunctionData \<Rightarrow> string option option" where
  "check_add_liq e g f =
     (let o0 = param_offset e g in
      if length (sf_Params f) \<noteq> 5 + o0 then Some (Some ''func: addLiq params invalid'')
      else do {
        tokens \<leftarrow> pool_tokens e g f;
        case tokens of
          None \<Rightarrow> Some (Some ''func: addLiq poolPair invalid'')
        | Some (token0, token1) \<Rightarrow> do {
            a0 \<leftarrow> param f (1 + o0); a1 \<leftarrow> param f (2 + o0); lp \<leftarrow> param f (3 + o0); slippage \<leftarrow> param f (4 + o0);
            require (CheckTickVerify e g token0 a0) ''func: addLiq amt0 invalid'' (
            require (CheckTickVerify e g token1 a1) ''func: addLiq amt1 invalid'' (
            require (CheckAmountVerify lp 18) ''func: addLiq amtLp invalid'' (
            require (CheckAmountVerify slippage 3) ''func: addLiq slippage invalid'' (Some None)))) } })"

definition check_remove_liq :: "ext \<Rightarrow> BRC20ModuleIndexer \<Rightarrow> SwapFunctionData \<Rightarrow> string option option" where
  "check_remove_liq e g f =
     (let o0 = param_offset e g in
      if length (sf_Params f) \<noteq> 5 + o0 then Some (Some ''func: removeLiq params invalid'')
      else do {
        tokens \<leftarrow> pool_tokens e g f;
        case tokens of
          None \<Rightarrow> Some (Some ''func: removeLiq poolPair invalid'')
        | Some (token0, token1) \<Rightarrow> do {
            lp \<leftarrow> param f (1 + o0); a0 \<leftarrow> param f (2 + o0); a1 \<leftarrow> param f (3 + o0); slippage \<leftarrow> param f (4 + o0);
            require (CheckAmountVerify lp 18) ''func: removeLiq amtLp invalid'' (
            require (CheckTickVerify e g token0 a0) ''func: removeLiq amt0 invalid'' (
            require (CheckTickVerify e g token1 a1) ''func: removeLiq amt1 invalid'' (
            require (CheckAmountVerify slippage 3) ''func: removeLiq slippage invalid'' (Some None)))) } })"

definition check_swap :: "ext \<Rightarrow> BRC20ModuleIndexer \<Rightarrow> SwapFunctionData \<Rightarrow> string option option" where
  "check_swap e g f =
     (let o0 = param_offset e g in
      if length (sf_Params f) \<noteq> 6 + o0 then Some (Some ''func: swap params invalid'')
      else do {
        tokens \<leftarrow> pool_tokens e g f;
        case tokens of
          None \<Rightarrow> Some (Some ''func: swap poolPair invalid'')
        | Some (token0, token1) \<Rightarrow> do {
            token \<leftarrow> param f (1 + o0);
            if token \<noteq> token0 \<and> token \<noteq> token1 then Some (Some ''func: swap token invalid'')
            else do {
              (derection, tokenIn, tokenInAmtStr, tokenOut, tokenOutAmtStr) \<leftarrow> swap_direction f o0 token0 token1;
              if derection \<noteq> ''exactIn'' \<and> derection \<noteq> ''exactOut'' then Some (Some ''func: swap derection invalid'')
              else do {
                slippage \<leftarrow> param f (5 + o0);
                require (CheckTickVerify e g tokenIn tokenInAmtStr) ''func: swap token amount invalid'' (
                require (CheckTickVerify e g tokenOut tokenOutAmtStr) ''func: swap amt1 invalid'' (
                require (CheckAmountVerify slippage 3) ''func: swap slippage invalid'' (Some None))) } } } })"

definition check_decrease_approval :: "ext \<Rightarrow> BRC20ModuleIndexer \<Rightarrow> SwapFunctionData \<Rightarrow> string option option" where
  "check_decrease_approval e g f =
     (if length (sf_Params f) \<noteq> 2 then Some (Some ''func: decrease approval params invalid'')
      else do {
        token \<leftarrow> param f 0; amt \<leftarrow> param f 1;
        require (CheckTickVerify e g token amt) ''func: decrease approval amt invalid'' (Some None) })"

definition check_send :: "ext \<Rightarrow> BRC20ModuleIndexer \<Rightarrow> SwapFunctionData \<Rightarrow> string option option" where
  "check_send e g f =
     (if length (sf_Params f) \<noteq> 3 then Some (Some ''func: send params invalid'')
      else do {
        addressTo \<leftarrow> param f 0; token \<leftarrow> param f 1; amt \<leftarrow> param f 2;
        if GetPkScriptByAddress e addressTo = None then Some (Some ''send addr invalid'')
        else require (CheckTickVerify e g token amt) ''func: send amt invalid'' (Some None) })"

definition check_sendlp :: "ext \<Rightarrow> BRC20ModuleIndexer \<Rightarrow> SwapFunctionData \<Rightarrow> string option option" where
  "check_sendlp e g f =
     (if length (sf_Params f) \<noteq> 4 then Some (Some ''func: send params invalid'')
      else do {
        addressTo \<leftarrow> param f 0; token0 \<leftarrow> param f 1; token1 \<leftarrow> param f 2; amt \<leftarrow> param f 3;
        if GetPkScriptByAddress e addressTo = None then Some (Some ''send addr invalid'')
        else if DecodeTokensFromSwapPair (GetLowerInnerPairNameByToken e token0 token1) = None
        then Some (Some ''func: send lp invalid'')
        else require (CheckAmountVerify amt 18) ''func: send amtLp invalid'' (Some None) })"

definition check_function :: "ext \<Rightarrow> BRC20ModuleIndexer \<Rightarrow> SwapFunctionData \<Rightarrow> string option option" where
  "check_function e g f =
     (if sf_Function f = FUNCTION_DEPLOY_POOL then check_deploy_pool e g f
      else if sf_Function f = FUNCTION_ADD_LIQ then check_add_liq e g f
      else if sf_Function f = FUNCTION_REMOVE_LIQ then check_remove_liq e g f
      else if sf_Function f = FUNCTION_SWAP then check_swap e g f
      else if sf_Function f = FUNCTION_DECREASE_APPROVAL then check_decrease_approval e g f
      else if sf_Function f = FUNCTION_SEND then check_send e g f
      else if sf_Function f = FUNCTION_SENDLP then check_sendlp e g f
      else Some (Some ''func invalid''))"

text \<open>The loop; \<open>prev\<close> is \<open>functionsByAddressMap\<close>, the identifiers of an address's earlier functions.\<close>

fun pre_verify_loop ::
    "ext \<Rightarrow> BRC20ModuleIndexer \<Rightarrow> string \<Rightarrow> (string \<Rightarrow> string list) \<Rightarrow> int \<Rightarrow> SwapFunctionData option list \<Rightarrow> (int \<times> string) option option" where
  "pre_verify_loop e g content prev idx [] = Some None"
| "pre_verify_loop e g content prev idx (fp # fs) =
     do {
       f \<leftarrow> fp;
       case GetPkScriptByAddress e (sf_Address f) of
         None \<Rightarrow> Some (Some (idx, ''addr invalid''))
       | Some pkScript \<Rightarrow>
           let f = f\<lparr>sf_PkScript := pkScript\<rparr>; previous = prev (sf_Address f) in
           (case CheckFunctionSigVerify e content f previous of
              (i, ok) \<Rightarrow>
                if \<not> ok then Some (Some (idx, ''function sig invalid''))
                else do {
                  err \<leftarrow> check_function e g f;
                  case err of
                    Some x \<Rightarrow> Some (Some (idx, x))
                  | None \<Rightarrow> pre_verify_loop e g content (prev(sf_Address f := previous @ [i])) (idx + 1) fs }) }"

definition ProcessInscribeCommitPreVerify ::
    "ext \<Rightarrow> BRC20ModuleIndexer \<Rightarrow> InscriptionBRC20ModuleSwapCommitContent \<Rightarrow> (int \<times> string) option option" where
  "ProcessInscribeCommitPreVerify e g body =
     (if cc_Module body \<noteq> ToLower e (cc_Module body) then Some (Some (-1, ''module id invalid''))
      else case module_of g (cc_Module body) of
        None \<Rightarrow> Some (Some (-1, ''module invalid''))
      | Some moduleInfo \<Rightarrow> do {
          r \<leftarrow> CheckTickVerify e g (m_GasTick moduleInfo) (cc_GasPrice body);
          if r = None then Some (Some (-1, ''gas price invalid''))
          else
            let content = ''module: '' @ m_ID moduleInfo @ nl @
                  (if cc_Parent body \<noteq> '''' then ''parent: '' @ cc_Parent body @ nl else '''') @
                  (if cc_GasPrice body \<noteq> '''' then ''gas_price: '' @ cc_GasPrice body @ nl else '''') in
            pre_verify_loop e g content (\<lambda>_. []) 0 (cc_Data body) })"

section \<open>Execution of a commit\<close>

definition commit_function ::
    "ext \<Rightarrow> BRC20ModuleIndexer \<Rightarrow> BRC20ModuleSwapInfo \<Rightarrow> SwapFunctionData \<Rightarrow> BRC20ModuleSwapInfo outcome" where
  "commit_function e g m f =
     (if sf_Function f = FUNCTION_DEPLOY_POOL then ProcessCommitFunctionDeployPool e g m f
      else if sf_Function f = FUNCTION_ADD_LIQ then ProcessCommitFunctionAddLiquidity e g m f
      else if sf_Function f = FUNCTION_REMOVE_LIQ then ProcessCommitFunctionRemoveLiquidity e g m f
      else if sf_Function f = FUNCTION_SWAP then ProcessCommitFunctionSwap e g m f
      else if sf_Function f = FUNCTION_DECREASE_APPROVAL then ProcessCommitFunctionDecreaseApproval e g m f
      else if sf_Function f = FUNCTION_SEND then ProcessCommitFunctionSend e g m f
      else if sf_Function f = FUNCTION_SENDLP then ProcessCommitFunctionSendLp e g m f
      else ret_nil m)"

text \<open>One function: its gas, then the function itself.\<close>

definition commit_gas ::
    "ext \<Rightarrow> BRC20ModuleIndexer \<Rightarrow> decp \<Rightarrow> u64 \<Rightarrow> SwapFunctionData \<Rightarrow> BRC20ModuleSwapInfo \<Rightarrow> BRC20ModuleSwapInfo outcome" where
  "commit_gas e g gasPriceAmt sz f m =
     (if Decimal_Sign gasPriceAmt > 0 then
        let sz = (if g_BestHeight g \<ge> conf_ENABLE_SWAP_WITHDRAW_HEIGHT e then 1 else sz) in
        ProcessCommitFunctionGasFee e g m (sf_PkScript f) (Decimal_Mul gasPriceAmt (NewDecimal sz 3))
      else ret_nil m)"

definition commit_step ::
    "ext \<Rightarrow> BRC20ModuleIndexer \<Rightarrow> decp \<Rightarrow> u64 \<Rightarrow> SwapFunctionData \<Rightarrow> BRC20ModuleSwapInfo \<Rightarrow> BRC20ModuleSwapInfo outcome" where
  "commit_step e g gasPriceAmt sz f m =
     do { (err, m) \<leftarrow> commit_gas e g gasPriceAmt sz f m;
          case err of Some x \<Rightarrow> ret_err x m | None \<Rightarrow> commit_function e g m f }"

text \<open>The expected results of the function with index \<open>idx\<close>: those of the caller and those of the test file.\<close>

definition results_of ::
    "string \<Rightarrow> nat \<Rightarrow> nat \<Rightarrow> SwapFunctionResultCheckState option list \<Rightarrow> SwapFunctionResultCheckState option list option \<Rightarrow>
     SwapFunctionResultCheckState option list" where
  "results_of commitId n idx results ext_results =
     (if length results = n \<and> idx < n then [results ! idx] else []) @
     filter (\<lambda>r. case r of None \<Rightarrow> True | Some x \<Rightarrow> rs_CommitId x = commitId \<and> rs_FunctionIdx x = int idx)
       (case ext_results of None \<Rightarrow> [] | Some rs \<Rightarrow> rs)"

type_synonym 's verdict = "((int \<times> bool \<times> string) option \<times> 's) option"

fun commit_verify_loop ::
    "ext \<Rightarrow> BRC20ModuleIndexer \<Rightarrow> string \<Rightarrow> SwapFunctionResultCheckState option list \<Rightarrow>
     SwapFunctionResultCheckState option list option \<Rightarrow> decp \<Rightarrow> u64 list \<Rightarrow> nat \<Rightarrow> nat \<Rightarrow>
     SwapFunctionData option list \<Rightarrow> BRC20ModuleSwapInfo \<Rightarrow> BRC20ModuleSwapInfo verdict" where
  "commit_verify_loop e g commitId results ext_results gasPriceAmt sizes n idx [] m = Some (None, m)"
| "commit_verify_loop e g commitId results ext_results gasPriceAmt sizes n idx (fp # fs) m =
     do {
       f \<leftarrow> fp;
       case GetPkScriptByAddress e (sf_Address f) of
         None \<Rightarrow> Some (Some (int idx, True, ''commit, addr invalid''), m)
       | Some pkScript \<Rightarrow> do {
           let f = f\<lparr>sf_PkScript := pkScript\<rparr>;
           (err, m) \<leftarrow> commit_step e g gasPriceAmt (sizes ! idx) f m;
           case err of
             Some x \<Rightarrow> Some (Some (int idx, True, x), m)
           | None \<Rightarrow> do {
               (err, m) \<leftarrow> check_each (BRC20ResultsPreVerify e g) (results_of commitId n idx results ext_results) m;
               case err of
                 Some x \<Rightarrow> Some (Some (int idx, False, x), m)
               | None \<Rightarrow> commit_verify_loop e g commitId results ext_results gasPriceAmt sizes n (idx + 1) fs m } } }"

text \<open>The checks of the parent: every commit but the first of a module names the last one.\<close>

definition commit_parent_check :: "BRC20ModuleSwapInfo \<Rightarrow> string \<Rightarrow> string option" where
  "commit_parent_check m parent =
     (if parent = '''' then (if m_CommitIdMap m \<noteq> {} then Some ''commit, missing parent'' else None)
      else if parent \<in> m_CommitIdChainMap m then Some ''commit, parent already sattled''
      else if parent \<notin> m_CommitIdMap m then Some ''commit, parent invalid''
      else None)"

definition ProcessCommitVerify ::
    "ext \<Rightarrow> SwapFunctionResultCheckState option list option \<Rightarrow> BRC20ModuleIndexer \<Rightarrow> string \<Rightarrow>
     InscriptionBRC20ModuleSwapCommitContent \<Rightarrow> u64 list \<Rightarrow> SwapFunctionResultCheckState option list \<Rightarrow>
     BRC20ModuleIndexer verdict" where
  "ProcessCommitVerify e ext_results g commitId body eachFuntionSize results =
     (case module_of g (cc_Module body) of
        None \<Rightarrow> Some (Some (-1, True, ''commit, module not exist''), g)
      | Some moduleInfo \<Rightarrow>
          (case commit_parent_check moduleInfo (cc_Parent body) of
             Some x \<Rightarrow> Some (Some (-1, True, x), g)
           | None \<Rightarrow> do {
               gas \<leftarrow> CheckTickVerify e g (m_GasTick moduleInfo) (cc_GasPrice body);
               if length (cc_Data body) \<noteq> length eachFuntionSize
               then Some (Some (-1, True, ''commit, function size not match data''), g)
               else do {
                 (err, m) \<leftarrow> commit_verify_loop e g commitId results ext_results (amt_of gas) eachFuntionSize
                              (length (cc_Data body)) 0 (cc_Data body) moduleInfo;
                 Some (err, set_module g (cc_Module body) m) } }))"

section \<open>The filter of the partial copy\<close>

text \<open>The users and tickers and pools a function touches; \<open>Inl\<close> is the error.\<close>

definition pair_picks :: "ext \<Rightarrow> string \<Rightarrow> string \<Rightarrow> string set \<times> string set \<times> string set" where
  "pair_picks e token0 token1 = ({}, {ToLower e token0, ToLower e token1}, {GetLowerInnerPairNameByToken e token0 token1})"

definition pick_pool_function ::
    "ext \<Rightarrow> BRC20ModuleIndexer \<Rightarrow> SwapFunctionData \<Rightarrow> nat \<Rightarrow> string \<Rightarrow> (string + string set \<times> string set \<times> string set) option" where
  "pick_pool_function e g f n what =
     (if length (sf_Params f) \<noteq> n + param_offset e g then Some (Inl (''func: '' @ what @ '' params invalid''))
      else do {
        tokens \<leftarrow> pool_tokens e g f;
        Some (case tokens of
            None \<Rightarrow> Inl (''func: '' @ what @ '' poolPair invalid'')
          | Some (token0, token1) \<Rightarrow> Inr (pair_picks e token0 token1)) })"

definition pick_function ::
    "ext \<Rightarrow> BRC20ModuleIndexer \<Rightarrow> SwapFunctionData \<Rightarrow> (string + string set \<times> string set \<times> string set) option" where
  "pick_function e g f =
     (if sf_Function f = FUNCTION_DEPLOY_POOL then
        (if length (sf_Params f) \<noteq> 2 then Some (Inl ''func: deploy params invalid'')
         else do { token0 \<leftarrow> param f 0; token1 \<leftarrow> param f 1; Some (Inr (pair_picks e token0 token1)) })
      else if sf_Function f = FUNCTION_ADD_LIQ then pick_pool_function e g f 5 ''addLiq''
      else if sf_Function f = FUNCTION_REMOVE_LIQ then pick_pool_function e g f 5 ''removeLiq''
      else if sf_Function f = FUNCTION_SWAP then pick_pool_function e g f 6 ''swap''
      else if sf_Function f = FUNCTION_DECREASE_APPROVAL then
        (if length (sf_Params f) \<noteq> 2 then Some (Inl ''func: decrease approval params invalid'')
         else do { token0 \<leftarrow> param f 0; Some (Inr ({}, {ToLower e token0}, {})) })
      else if sf_Function f = FUNCTION_SEND then
        (if length (sf_Params f) \<noteq> 3 then Some (Inl ''func: send params invalid'')
         else do {
           addressTo \<leftarrow> param f 0; token0 \<leftarrow> param f 1;
           Some (case GetPkScriptByAddress e addressTo of
               None \<Rightarrow> Inl ''send addr invalid''
             | Some pk \<Rightarrow> Inr ({pk}, {ToLower e token0}, {})) })
      else if sf_Function f = FUNCTION_SENDLP then
        (if length (sf_Params f) \<noteq> 4 then Some (Inl ''func: send params invalid'')
         else do {
           addressTo \<leftarrow> param f 0; token0 \<leftarrow> param f 1; token1 \<leftarrow> param f 2;
           Some (case GetPkScriptByAddress e addressTo of
               None \<Rightarrow> Inl ''send addr invalid''
             | Some pk \<Rightarrow> (case pair_picks e token0 token1 of (us, ts, ps) \<Rightarrow> Inr (insert pk us, ts, ps))) })
      else Some (Inl ''func invalid''))"

fun cherry_pick_loop ::
    "ext \<Rightarrow> BRC20ModuleIndexer \<Rightarrow> int \<Rightarrow> SwapFunctionData option list \<Rightarrow> string set \<times> string set \<times> string set \<Rightarrow>
     ((int \<times> string) option \<times> string set \<times> string set \<times> string set) option" where
  "cherry_pick_loop e g idx [] (us, ts, ps) = Some (None, us, ts, ps)"
| "cherry_pick_loop e g idx (fp # fs) (us, ts, ps) =
     do {
       f \<leftarrow> fp;
       case GetPkScriptByAddress e (sf_Address f) of
         None \<Rightarrow> Some (Some (idx, ''addr invalid''), us, ts, ps)
       | Some pkScript \<Rightarrow> do {
           r \<leftarrow> pick_function e g f;
           case r of
             Inl err \<Rightarrow> Some (Some (idx, err), insert pkScript us, ts, ps)
           | Inr (us', ts', ps') \<Rightarrow>
               cherry_pick_loop e g (idx + 1) fs (insert pkScript us \<union> us', ts \<union> ts', ps \<union> ps') } }"

definition InitCherryPickFilter ::
    "ext \<Rightarrow> BRC20ModuleIndexer \<Rightarrow> InscriptionBRC20ModuleSwapCommitContent \<Rightarrow> string set \<times> string set \<times> string set \<Rightarrow>
     ((int \<times> string) option \<times> string set \<times> string set \<times> string set) option" where
  "InitCherryPickFilter e g body picks =
     (case picks of (us, ts, ps) \<Rightarrow>
        case module_of g (cc_Module body) of
          None \<Rightarrow> Some (Some (-1, ''module invalid''), us, ts, ps)
        | Some m \<Rightarrow>
            cherry_pick_loop e g 0 (cc_Data body)
              (us \<union> {m_GasToPkScript m, m_LpFeePkScript m, m_SequencerPkScript m, m_DeployerPkScript m},
               insert (m_GasTick m) ts, ps))"

end
