(* ===== verification/Cond_Approve.thy ===== *)
theory Cond_Approve
  imports Indexer_State
begin

text \<open>
  Conditional approvals (\<open>indexer/module_cond_approve.go\<close>) but for the inscription, which is in
  \<open>Module_Ops\<close>: the processing of the events that pair a transfer with an approval, and the moves
  of an approve inscription.

  An event refers to its approval by pointer; the two fields the code writes through it
  (\<open>UpdateHeight\<close>, \<open>Balance\<close>) are written to the entry of
  \<open>InscriptionsValidConditionalApproveMap\<close> under the approval's create key.
\<close>

definition GetConditionalApproveInfoByKey ::
    "BRC20ModuleIndexer \<Rightarrow> string \<Rightarrow> InscriptionBRC20SwapConditionalApproveInfo option \<times> bool" where
  "GetConditionalApproveInfoByKey g createIdxKey =
     (case g_InscriptionsValidConditionalApproveMap g createIdxKey of
        Some a \<Rightarrow> (Some a, False)
      | None \<Rightarrow> (g_InscriptionsInvalidConditionalApproveMap g createIdxKey, True))"

definition upd_cond_approve ::
    "string \<Rightarrow> (InscriptionBRC20SwapConditionalApproveInfo \<Rightarrow> InscriptionBRC20SwapConditionalApproveInfo) \<Rightarrow>
     BRC20ModuleIndexer \<Rightarrow> BRC20ModuleIndexer" where
  "upd_cond_approve k f g =
     g\<lparr>g_InscriptionsValidConditionalApproveMap := (g_InscriptionsValidConditionalApproveMap g)
         (k := map_option f (g_InscriptionsValidConditionalApproveMap g k))\<rparr>"

text \<open>
  The body of the first loop, for one event and the module it names: the sender's conditional
  balance is debited and the receiver's swap balance credited. The two balances may be the same
  object, so the sender is written before the receiver is read.
\<close>

definition cond_approve_move ::
    "ext \<Rightarrow> u32 \<Rightarrow> ConditionalApproveEvent \<Rightarrow> BRC20ModuleSwapInfo \<Rightarrow> BRC20ModuleSwapInfo option" where
  "cond_approve_move e bestHeight event m =
     (let lt = ToLower e (ce_Tick event);
          m = Module_GetUserTokenBalance e m (ce_Tick event) (ce_To event);
          fb = the_balance e m (ce_Tick event) (ce_From event) in
      do {
        ca \<leftarrow> Decimal_Sub (mb_CondApproveableBalance fb) (ce_Amount event);
        let m = set_user_balance m (ce_From event) lt
          (fb\<lparr>mb_CondApproveableBalance := ca, mb_UpdateHeight := bestHeight,
              mb_History := mb_History fb @ [NewBRC20ModuleHistory True HISTORY_APPROVE_FROM (ce_FromData event) (ce_ToData event) NoData True]\<rparr>);
        let tb = the_balance e m (ce_Tick event) (ce_To event);
        safe \<leftarrow> (if d_BlockTime (ce_ToData event) > 0
                 then Decimal_Add (mb_SwapAccountBalanceSafe tb) (ce_Amount event) else Some (mb_SwapAccountBalanceSafe tb));
        sw \<leftarrow> Decimal_Add (mb_SwapAccountBalance tb) (ce_Amount event);
        let m = set_user_balance m (ce_To event) lt
          (tb\<lparr>mb_SwapAccountBalanceSafe := safe, mb_SwapAccountBalance := sw, mb_UpdateHeight := bestHeight,
              mb_History := mb_History tb @ [NewBRC20ModuleHistory True HISTORY_APPROVE_TO (ce_FromData event) (ce_ToData event) NoData True]\<rparr>);
        let m = GetTickConditionalApproveStateBalance e m (ce_Tick event);
        case m_ConditionalApproveStateBalanceDataMap m lt of
          None \<Rightarrow> None
        | Some sb \<Rightarrow> do {
            sb \<leftarrow> (if ce_From event = ce_To event
                   then do { d \<leftarrow> Decimal_Add (cs_BalanceCancelApprove sb) (ce_Amount event); Some (sb\<lparr>cs_BalanceCancelApprove := d\<rparr>) }
                   else do { d \<leftarrow> Decimal_Add (cs_BalanceApprove sb) (ce_Amount event); Some (sb\<lparr>cs_BalanceApprove := d\<rparr>) });
            Some (m\<lparr>m_ConditionalApproveStateBalanceDataMap := (m_ConditionalApproveStateBalanceDataMap m)(lt \<mapsto> sb)\<rparr>) } })"

definition process_cond_event :: "ext \<Rightarrow> BRC20ModuleIndexer \<Rightarrow> ConditionalApproveEvent \<Rightarrow> BRC20ModuleIndexer outcome" where
  "process_cond_event e g event =
     (let lt = ToLower e (ce_Tick event) in
      if g_InscriptionsTickerInfoMap g lt = None then ret_err ''approve event, invalid ticker'' g
      else case module_of g (ce_Module event) of
        None \<Rightarrow> ret_err ''approve event, module invalid'' g
      | Some m \<Rightarrow> do {
          amt \<leftarrow> Decimal_String (ce_Amount event);
          bal \<leftarrow> Decimal_String (ce_Balance event);
          let history = NewBRC20ModuleHistory True HISTORY_CONDITIONAL_APPROVE (ce_FromData event) (ce_ToData event)
                (CondApproveData (ce_Tick event) amt bal (ce_TransferInscriptionId event) (ce_TransferMax event)) True;
          let m = m\<lparr>m_History := m_History m @ [history]\<rparr>;
          let g = set_module g (ce_Module event) m;
          case m_UsersTokenBalanceDataMap m (ce_From event) of
            None \<Rightarrow> ret_err ''approve, send from user missing'' g
          | Some fromUserTokens \<Rightarrow>
             (case fromUserTokens lt of
                None \<Rightarrow> ret_err ''approve, send from ticker missing'' g
              | Some fb \<Rightarrow>
                  if mb_ValidConditionalApproveMap fb (d_CreateIdxKey (ce_ToData event)) = None
                  then ret_err ''approve, send from approve missing(dup)'' g
                  else do { m \<leftarrow> cond_approve_move e (g_BestHeight g) event m;
                            ret_nil (set_module g (ce_Module event) m) }) })"

fun process_cond_events_loop :: "ext \<Rightarrow> ConditionalApproveEvent list \<Rightarrow> BRC20ModuleIndexer \<Rightarrow> BRC20ModuleIndexer outcome" where
  "process_cond_events_loop e [] g = ret_nil g"
| "process_cond_events_loop e (event # events) g =
     (case process_cond_event e g event of
        None \<Rightarrow> None
      | Some (Some err, g) \<Rightarrow> ret_err err g
      | Some (None, g) \<Rightarrow> process_cond_events_loop e events g)"

definition settle_cond_event :: "ConditionalApproveEvent \<Rightarrow> BRC20ModuleIndexer \<Rightarrow> BRC20ModuleIndexer" where
  "settle_cond_event event g =
     upd_cond_approve (d_CreateIdxKey (ca_Data (ce_ApproveInfo event)))
       (\<lambda>a. a\<lparr>ca_UpdateHeight := g_BestHeight g, ca_Balance := ce_Balance event\<rparr>) g"

definition ProcessConditionalApproveEvents ::
    "ext \<Rightarrow> BRC20ModuleIndexer \<Rightarrow> ConditionalApproveEvent list \<Rightarrow> BRC20ModuleIndexer outcome" where
  "ProcessConditionalApproveEvents e g events =
     (case process_cond_events_loop e events g of
        Some (None, g) \<Rightarrow> ret_nil (fold settle_cond_event events g)
      | r \<Rightarrow> r)"

text \<open>
  A move of an approve inscription. \<open>k\<close> is the key the approval was found under, so the writes
  \<open>approveInfo.HasMoved = true\<close> and so on go to the entry of the valid map.
\<close>

definition cond_approve_return ::
    "ext \<Rightarrow> BRC20ModuleIndexer \<Rightarrow> string \<Rightarrow> string \<Rightarrow> decp \<Rightarrow> InscriptionBRC20Data \<Rightarrow>
     InscriptionBRC20SwapConditionalApproveInfo \<Rightarrow> BRC20ModuleIndexer outcome" where
  "cond_approve_return e g k pkScript amt data info =
     ProcessConditionalApproveEvents e (upd_cond_approve k (\<lambda>a. a\<lparr>ca_Balance := None\<rparr>) g)
       [NewConditionalApproveEvent pkScript pkScript amt None data (info\<lparr>ca_Balance := None\<rparr>) '''' '''']"

definition ProcessConditionalApprove ::
    "ext \<Rightarrow> BRC20ModuleIndexer \<Rightarrow> InscriptionBRC20Data \<Rightarrow> InscriptionBRC20SwapConditionalApproveInfo \<Rightarrow> bool \<Rightarrow>
     BRC20ModuleIndexer outcome" where
  "ProcessConditionalApprove e g data approveInfo isInvalid =
     (let k = d_CreateIdxKey data in
      if g_InscriptionsTickerInfoMap g (ToLower e (ca_Tick approveInfo)) = None
      then ret_err ''approve, invalid ticker'' g
      else case module_of g (ca_Module approveInfo) of
        None \<Rightarrow> ret_err ''approve, module invalid'' g
      | Some m \<Rightarrow>
          if isInvalid then
            ret_nil (set_module g (ca_Module approveInfo) (m\<lparr>m_History := m_History m @
              [NewBRC20ModuleHistory True HISTORY_CONDITIONAL_APPROVE (ca_Data approveInfo) data NoData False]\<rparr>))
          else
            let receiver = d_PkScript data in
            if \<not> ca_HasMoved approveInfo then
              let sender = d_PkScript (ca_Data approveInfo);
                  g = upd_cond_approve k (\<lambda>a. a\<lparr>ca_HasMoved := True\<rparr>) g in
              if d_Satoshi data = 0 \<or> sender = receiver
              then cond_approve_return e g k sender (ca_Amount approveInfo) data (approveInfo\<lparr>ca_HasMoved := True\<rparr>)
              else ret_nil (upd_cond_approve k (\<lambda>a. a\<lparr>ca_DelegatorPkScript := receiver\<rparr>) g)
            else
              let sender = ca_DelegatorPkScript approveInfo in
              if d_Satoshi data = 0 \<or> sender \<noteq> receiver
              then cond_approve_return e g k (ca_OwnerPkScript approveInfo) (ca_Balance approveInfo) data approveInfo
              else
                let g = (if g_ThisTxId g \<noteq> d_TxId data
                         then g\<lparr>g_TxStaticTransferStatesForConditionalApprove := [], g_ThisTxId := d_TxId data\<rparr> else g)
                in do { (g, events) \<leftarrow> GenerateApproveEventsByApprove g (ca_OwnerPkScript approveInfo)
                                           (ca_Balance approveInfo) data approveInfo;
                        ProcessConditionalApproveEvents e g events })"

end
