(* ===== verification/Brc20_Ops.thy ===== *)
theory Brc20_Ops
  imports Cond_Approve
begin

text \<open>
  The operations of the base protocol: deploy, mint, inscribe-transfer and transfer
  (\<open>indexer/brc20_deploy.go\<close>, \<open>brc20_mint.go\<close>, \<open>brc20_transfer.go\<close>).

  Every handler takes the state and the inscription event and returns an outcome: the error it
  returns, if any, with the state it leaves, or \<open>None\<close> for a panic. A write through a pointer to a
  token or a balance is a write to the map entry the pointer was obtained from.
\<close>

section \<open>Writes through pointers\<close>

definition upd_ticker :: "string \<Rightarrow> (BRC20TokenInfo \<Rightarrow> BRC20TokenInfo) \<Rightarrow> BRC20ModuleIndexer \<Rightarrow> BRC20ModuleIndexer" where
  "upd_ticker lt f g =
     g\<lparr>g_InscriptionsTickerInfoMap :=
         (g_InscriptionsTickerInfoMap g)(lt := map_option f (g_InscriptionsTickerInfoMap g lt))\<rparr>"

definition upd_deploy :: "string \<Rightarrow> (InscriptionBRC20TickInfo \<Rightarrow> InscriptionBRC20TickInfo) \<Rightarrow> BRC20ModuleIndexer \<Rightarrow> BRC20ModuleIndexer" where
  "upd_deploy lt f = upd_ticker lt (\<lambda>t. t\<lparr>tk_Deploy := f (tk_Deploy t)\<rparr>)"

definition upd_balance :: "string \<Rightarrow> string \<Rightarrow> (BRC20TokenBalance \<Rightarrow> BRC20TokenBalance) \<Rightarrow> BRC20ModuleIndexer \<Rightarrow> BRC20ModuleIndexer" where
  "upd_balance pk lt f g = (case balance_of g pk lt of None \<Rightarrow> g | Some b \<Rightarrow> set_balance g pk lt (f b))"

definition append_all_history :: "u32 \<Rightarrow> BRC20ModuleIndexer \<Rightarrow> BRC20ModuleIndexer" where
  "append_all_history history g = g\<lparr>g_AllHistory := g_AllHistory g @ [history]\<rparr>"

section \<open>Deploy\<close>

definition deploy_history ::
    "BRC20ModuleIndexer \<Rightarrow> InscriptionBRC20TickInfo \<Rightarrow> InscriptionBRC20Data \<Rightarrow> BRC20TokenInfo \<Rightarrow> BRC20TokenBalance \<Rightarrow>
     (BRC20TokenInfo \<times> BRC20TokenBalance \<times> BRC20ModuleIndexer) option" where
  "deploy_history g tinfo data tokenInfo tokenBalance =
     (if g_EnableHistory g then do {
        historyObj \<leftarrow> NewBRC20History HISTORY_INSCRIBE_DEPLOY True False tinfo None data;
        (history, g) \<leftarrow> UpdateHistoryHeightAndGetHistoryIndex g historyObj;
        Some (tokenInfo\<lparr>tk_History := [history]\<rparr>, tokenBalance\<lparr>tb_History := [history]\<rparr>,
              append_all_history history (append_user_history (d_PkScript data) history g)) }
      else Some (tokenInfo, tokenBalance, g))"

text \<open>The effects of a valid deploy.\<close>

definition deploy_token ::
    "BRC20ModuleIndexer \<Rightarrow> string \<Rightarrow> InscriptionBRC20DeployContent \<Rightarrow> InscriptionBRC20TickInfo \<Rightarrow> InscriptionBRC20Data \<Rightarrow>
     BRC20ModuleIndexer outcome" where
  "deploy_token g lt body tinfo data =
     (let tokenInfo = \<lparr>tk_UpdateHeight = 0, tk_Ticker = dc_BRC20Tick body, tk_Deploy = tinfo, tk_History = [],
            tk_HistoryMint = [], tk_HistoryInscribeTransfer = [], tk_HistoryTransfer = [], tk_HistoryWithdraw = []\<rparr>;
          tokenBalance = (new_token_balance (dc_BRC20Tick body) (d_PkScript data))\<lparr>tb_UpdateHeight := d_Height data\<rparr> in
      do {
        (tokenInfo, tokenBalance, g) \<leftarrow> deploy_history g tinfo data tokenInfo tokenBalance;
        let g = g\<lparr>g_InscriptionsTickerInfoMap :=
                   (g_InscriptionsTickerInfoMap g)(lt \<mapsto> tokenInfo\<lparr>tk_UpdateHeight := d_Height data\<rparr>)\<rparr>;
        let g = set_balance g (d_PkScript data) lt tokenBalance;
        ret_nil (g\<lparr>g_TokenUsersBalanceData := (g_TokenUsersBalanceData g)(lt \<mapsto> {d_PkScript data}),
                   g_InscriptionsValidBRC20DataMap :=
                     (g_InscriptionsValidBRC20DataMap g)(d_CreateIdxKey data \<mapsto> DeployData lt)\<rparr>) })"

text \<open>The limit is checked after the maximum; \<open>tinfo\<close> already has the decimals and the maximum.\<close>

definition deploy_limit ::
    "BRC20ModuleIndexer \<Rightarrow> string \<Rightarrow> InscriptionBRC20DeployContent \<Rightarrow> InscriptionBRC20TickInfo \<Rightarrow> InscriptionBRC20Data \<Rightarrow>
     BRC20ModuleIndexer outcome" where
  "deploy_limit g lt body tinfo data =
     do { r \<leftarrow> NewDecimalFromString (r_BRC20Limit (ti_Data tinfo)) (unat (ti_Decimal tinfo));
          case r of
            Inl _ \<Rightarrow> ret_err ''deploy, but lim invalid'' g
          | Inr lim \<Rightarrow> do {
              bad \<leftarrow> (if Decimal_Sign (Some lim) < 0 then Some True else Decimal_IsOverflowUint64 (Some lim));
              if bad then ret_err ''deploy, but lim invalid (range)'' g
              else if Decimal_Sign (Some lim) = 0 then
                (if ti_SelfMint tinfo
                 then do { l \<leftarrow> Decimal_GetMaxUint64 (Some lim); deploy_token g lt body (tinfo\<lparr>ti_Limit := l\<rparr>) data }
                 else ret_err ''deploy, but lim invalid (0)'' g)
              else deploy_token g lt body (tinfo\<lparr>ti_Limit := Some lim\<rparr>) data } }"

definition deploy_max ::
    "BRC20ModuleIndexer \<Rightarrow> string \<Rightarrow> InscriptionBRC20DeployContent \<Rightarrow> InscriptionBRC20TickInfo \<Rightarrow> InscriptionBRC20Data \<Rightarrow>
     BRC20ModuleIndexer outcome" where
  "deploy_max g lt body tinfo data =
     do { r \<leftarrow> NewDecimalFromString (dc_BRC20Max body) (unat (ti_Decimal tinfo));
          case r of
            Inl _ \<Rightarrow> ret_err ''deploy, but max invalid'' g
          | Inr mx \<Rightarrow> do {
              bad \<leftarrow> (if Decimal_Sign (Some mx) < 0 then Some True else Decimal_IsOverflowUint64 (Some mx));
              if bad then ret_nil g
              else if Decimal_Sign (Some mx) = 0 then
                (if ti_SelfMint tinfo
                 then do { l \<leftarrow> Decimal_GetMaxUint64 (Some mx); deploy_limit g lt body (tinfo\<lparr>ti_Max := l\<rparr>) data }
                 else ret_err ''deploy, but max invalid (0)'' g)
              else deploy_limit g lt body (tinfo\<lparr>ti_Max := Some mx\<rparr>) data } }"

definition deploy_info :: "InscriptionBRC20DeployContent \<Rightarrow> InscriptionBRC20Data \<Rightarrow> InscriptionBRC20TickInfo" where
  "deploy_info body data =
     (let tinfo = NewInscriptionBRC20TickInfo (dc_BRC20Tick body) (dc_Operation body) data;
          self = (length (dc_BRC20Tick body) = 5 \<and> dc_BRC20SelfMint body = ''true'') in
      tinfo\<lparr>ti_Data := (ti_Data tinfo)\<lparr>r_BRC20Max := dc_BRC20Max body, r_BRC20Limit := dc_BRC20Limit body,
              r_BRC20Decimal := dc_BRC20Decimal body, r_BRC20Minted := ''0'',
              r_BRC20SelfMint := (if self then ''true'' else '''')\<rparr>,
            ti_InscriptionNumberStart := d_InscriptionNumber data, ti_SelfMint := self\<rparr>)"

definition ProcessDeploy :: "ext \<Rightarrow> BRC20ModuleIndexer \<Rightarrow> InscriptionBRC20Data \<Rightarrow> BRC20ModuleIndexer outcome" where
  "ProcessDeploy e g data =
     (case DeployContent_Unmarshal e (d_ContentBody data) of
        None \<Rightarrow> ret_nil g
      | Some body \<Rightarrow>
     (case GetValidUniqueLowerTickerTicker e (dc_BRC20Tick body) of
        None \<Rightarrow> ret_nil g
      | Some lt \<Rightarrow>
          if length (dc_BRC20Tick body) = 5 \<and>
             (dc_BRC20SelfMint body \<noteq> ''true'' \<or> d_Height data < conf_ENABLE_SELF_MINT_HEIGHT e) then ret_nil g
          else if conf_TICKS_ENABLED e \<noteq> '''' \<and> (CHR '' '' \<in> set lt \<or> \<not> sublist lt (conf_TICKS_ENABLED e)) then ret_nil g
          else if g_InscriptionsTickerInfoMap g lt \<noteq> None then ret_nil g
          else if dc_BRC20Max body = '''' then ret_err ''deploy, but max missing'' g
          else
            let tinfo = deploy_info body data in
            case parse_uint64 (r_BRC20Decimal (ti_Data tinfo)) of
              None \<Rightarrow> ret_err ''deploy, but dec invalid'' g
            | Some dec \<Rightarrow>
                if dec > 18 then ret_err ''deploy, but dec invalid'' g
                else deploy_max g lt body (tinfo\<lparr>ti_Decimal := word_of_nat dec\<rparr>) data))"

section \<open>Mint\<close>

definition is_burn_script :: "string \<Rightarrow> bool" where
  "is_burn_script pk \<longleftrightarrow> length pk = 1 \<and> pk ! 0 = CHR 0x6a"

text \<open>The history entry of a mint that comes after the token is minted out.\<close>

definition mint_invalid ::
    "BRC20ModuleIndexer \<Rightarrow> string \<Rightarrow> string \<Rightarrow> InscriptionBRC20TickInfo \<Rightarrow> BRC20TokenBalance \<Rightarrow> InscriptionBRC20Data \<Rightarrow>
     BRC20ModuleIndexer outcome" where
  "mint_invalid g lt key mintInfo bal data =
     (if g_EnableHistory g then do {
        historyObj \<leftarrow> NewBRC20History HISTORY_INSCRIBE_MINT False False mintInfo (Some bal) data;
        (history, g) \<leftarrow> UpdateHistoryHeightAndGetHistoryIndex g historyObj;
        let g = upd_balance (d_PkScript data) key
          (\<lambda>b. b\<lparr>tb_History := tb_History b @ [history], tb_HistoryMint := tb_HistoryMint b @ [history]\<rparr>) g;
        ret_nil (upd_ticker lt (\<lambda>t. t\<lparr>tk_History := tk_History t @ [history], tk_HistoryMint := tk_HistoryMint t @ [history]\<rparr>) g) }
      else ret_nil g)"

text \<open>What a mint of \<open>minted\<close> changes in the token information.\<close>

definition mint_confirmed :: "ext \<Rightarrow> InscriptionBRC20TickInfo \<Rightarrow> decp \<Rightarrow> InscriptionBRC20Data \<Rightarrow> InscriptionBRC20TickInfo option" where
  "mint_confirmed e tinfo minted data =
     (if d_BlockTime data > 0 then do {
        cm \<leftarrow> Decimal_Add (ti_ConfirmedMinted tinfo) minted;
        c1 \<leftarrow> (if d_BlockTime data < ext_now_unix e - 3600
               then Decimal_Add (ti_ConfirmedMinted1h tinfo) minted else Some (ti_ConfirmedMinted1h tinfo));
        c24 \<leftarrow> (if d_BlockTime data < ext_now_unix e - 86400
                then Decimal_Add (ti_ConfirmedMinted24h tinfo) minted else Some (ti_ConfirmedMinted24h tinfo));
        Some (tinfo\<lparr>ti_ConfirmedMinted := cm, ti_ConfirmedMinted1h := c1, ti_ConfirmedMinted24h := c24\<rparr>) }
      else Some tinfo)"

definition mint_tinfo :: "ext \<Rightarrow> InscriptionBRC20TickInfo \<Rightarrow> decp \<Rightarrow> InscriptionBRC20Data \<Rightarrow> InscriptionBRC20TickInfo option" where
  "mint_tinfo e tinfo minted data =
     do {
       total \<leftarrow> Decimal_Add (ti_TotalMinted tinfo) minted;
       let tinfo = tinfo\<lparr>ti_TotalMinted := total\<rparr>;
       c \<leftarrow> Decimal_Cmp total (ti_Max tinfo);
       let tinfo = (if c \<ge> 0 then tinfo\<lparr>ti_CompleteHeight := d_Height data, ti_CompleteBlockTime := d_BlockTime data\<rparr> else tinfo);
       tinfo \<leftarrow> mint_confirmed e tinfo minted data;
       s \<leftarrow> Decimal_String total;
       burned \<leftarrow> (if is_burn_script (d_PkScript data) then Decimal_Add (ti_Burned tinfo) minted else Some (ti_Burned tinfo));
       Some (tinfo\<lparr>ti_MintTimes := ti_MintTimes tinfo + 1, ti_Data := (ti_Data tinfo)\<lparr>r_BRC20Minted := s\<rparr>,
               ti_InscriptionNumberEnd := d_InscriptionNumber data, ti_Burned := burned\<rparr>) }"

definition mint_history ::
    "BRC20ModuleIndexer \<Rightarrow> string \<Rightarrow> string \<Rightarrow> InscriptionBRC20TickInfo \<Rightarrow> BRC20TokenBalance \<Rightarrow> InscriptionBRC20Data \<Rightarrow>
     BRC20ModuleIndexer outcome" where
  "mint_history g lt key mintInfo bal data =
     (if g_EnableHistory g then do {
        historyObj \<leftarrow> NewBRC20History HISTORY_INSCRIBE_MINT True False mintInfo (Some bal) data;
        (history, g) \<leftarrow> UpdateHistoryHeightAndGetHistoryIndex g historyObj;
        let g = upd_balance (d_PkScript data) key
          (\<lambda>b. b\<lparr>tb_History := tb_History b @ [history], tb_HistoryMint := tb_HistoryMint b @ [history]\<rparr>) g;
        let g = upd_ticker lt (\<lambda>t. t\<lparr>tk_History := tk_History t @ [history], tk_HistoryMint := tk_HistoryMint t @ [history]\<rparr>) g;
        ret_nil (append_all_history history (append_user_history (d_PkScript data) history g)) }
      else ret_nil g)"

definition mint_valid ::
    "ext \<Rightarrow> BRC20ModuleIndexer \<Rightarrow> string \<Rightarrow> string \<Rightarrow> InscriptionBRC20TickInfo \<Rightarrow> InscriptionBRC20TickInfo \<Rightarrow> decp \<Rightarrow>
     InscriptionBRC20Data \<Rightarrow> BRC20ModuleIndexer outcome" where
  "mint_valid e g lt key tinfo mintInfo amt data =
     do {
       sum \<leftarrow> Decimal_Add (ti_TotalMinted tinfo) amt;
       c \<leftarrow> Decimal_Cmp sum (ti_Max tinfo);
       balanceMinted \<leftarrow> (if c > 0 then Decimal_Sub (ti_Max tinfo) (ti_TotalMinted tinfo) else Some (NewDecimalCopy amt));
       tinfo \<leftarrow> mint_tinfo e tinfo balanceMinted data;
       ms \<leftarrow> Decimal_String balanceMinted;
       let mintInfo = mintInfo\<lparr>ti_Data := (ti_Data mintInfo)\<lparr>r_BRC20Minted := ms\<rparr>, ti_Amount := balanceMinted\<rparr>;
       let g = upd_ticker lt (\<lambda>t. t\<lparr>tk_UpdateHeight := d_Height data, tk_Deploy := tinfo\<rparr>) g;
       bal \<leftarrow> balance_of g (d_PkScript data) key;
       safe \<leftarrow> (if d_BlockTime data > 0 then Decimal_Add (tb_AvailableBalanceSafe bal) balanceMinted
                else Some (tb_AvailableBalanceSafe bal));
       av \<leftarrow> Decimal_Add (tb_AvailableBalance bal) balanceMinted;
       let bal = bal\<lparr>tb_AvailableBalanceSafe := safe, tb_AvailableBalance := av\<rparr>;
       let g = set_balance g (d_PkScript data) key bal;
       mint_history g lt key mintInfo bal data }"

definition ProcessMint :: "ext \<Rightarrow> BRC20ModuleIndexer \<Rightarrow> InscriptionBRC20Data \<Rightarrow> BRC20ModuleIndexer outcome" where
  "ProcessMint e g data =
     (case MintTransferContent_Unmarshal e (d_ContentBody data) of
        None \<Rightarrow> ret_nil g
      | Some body \<Rightarrow>
     (case GetValidUniqueLowerTickerTicker e (mt_BRC20Tick body) of
        None \<Rightarrow> ret_nil g
      | Some lt \<Rightarrow>
     (case g_InscriptionsTickerInfoMap g lt of
        None \<Rightarrow> ret_nil g
      | Some tokenInfo \<Rightarrow>
          let tinfo = tk_Deploy tokenInfo in
          if ti_SelfMint tinfo \<and> DecodeInscriptionFromBin (d_Parent data) \<noteq> TickInfo_GetInscriptionId tinfo
          then ret_err ''self mint, but parent invalid'' g
          else do {
            r \<leftarrow> NewDecimalFromString (mt_BRC20Amount body) (unat (ti_Decimal tinfo));
            case r of
              Inl _ \<Rightarrow> ret_err ''mint, but invalid amount'' g
            | Inr amt \<Rightarrow> do {
                bad \<leftarrow> (if Decimal_Sign (Some amt) \<le> 0 then Some True
                        else do { c \<leftarrow> Decimal_Cmp (Some amt) (ti_Limit tinfo); Some (c > 0) });
                if bad then ret_err ''mint, invalid amount, limit'' g
                else do {
                  let key = ToLower e (tk_Ticker tokenInfo);
                  (bal, g) \<leftarrow> GetUserTokenBalance e g (tk_Ticker tokenInfo) (d_PkScript data);
                  let g = upd_balance (d_PkScript data) key (\<lambda>b. b\<lparr>tb_UpdateHeight := d_Height data\<rparr>) g;
                  s \<leftarrow> Decimal_String (Some amt);
                  let mintInfo = NewInscriptionBRC20TickInfo (tk_Ticker tokenInfo) (mt_Operation body) data;
                  let mintInfo = mintInfo\<lparr>ti_Data := (ti_Data mintInfo)\<lparr>r_BRC20Amount := mt_BRC20Amount body, r_BRC20Minted := s\<rparr>,
                        ti_Decimal := ti_Decimal tinfo, ti_Amount := Some amt\<rparr>;
                  out \<leftarrow> Decimal_Cmp (ti_TotalMinted tinfo) (ti_Max tinfo);
                  if out \<ge> 0 then mint_invalid g lt key mintInfo (bal\<lparr>tb_UpdateHeight := d_Height data\<rparr>) data
                  else mint_valid e g lt key tinfo mintInfo (Some amt) data } } })))"

section \<open>Transfer\<close>

definition GetTransferInfoByKey :: "BRC20ModuleIndexer \<Rightarrow> string \<Rightarrow> InscriptionBRC20TickInfo option \<times> bool" where
  "GetTransferInfoByKey g createIdxKey =
     (case g_InscriptionsValidTransferMap g createIdxKey of
        Some t \<Rightarrow> (Some t, False)
      | None \<Rightarrow> (g_InscriptionsInvalidTransferMap g createIdxKey, True))"

text \<open>The entry in the token's history that every move of a transfer inscription leaves.\<close>

definition transfer_global_history ::
    "BRC20ModuleIndexer \<Rightarrow> string \<Rightarrow> InscriptionBRC20TickInfo \<Rightarrow> bool \<Rightarrow> InscriptionBRC20Data \<Rightarrow> BRC20ModuleIndexer option" where
  "transfer_global_history g lt transferInfo isInvalid data =
     (if g_EnableHistory g then do {
        historyObj \<leftarrow> NewBRC20History HISTORY_TRANSFER (\<not> isInvalid) True transferInfo None data;
        (history, g) \<leftarrow> UpdateHistoryHeightAndGetHistoryIndex g historyObj;
        let g = upd_ticker lt (\<lambda>t. t\<lparr>tk_History := tk_History t @ [history], tk_HistoryTransfer := tk_HistoryTransfer t @ [history]\<rparr>) g;
        Some (if isInvalid then g else append_all_history history g) }
      else Some g)"

text \<open>The sender's history entry, for the balance as it is now.\<close>

definition transfer_send_history ::
    "BRC20ModuleIndexer \<Rightarrow> string \<Rightarrow> string \<Rightarrow> InscriptionBRC20TickInfo \<Rightarrow> bool \<Rightarrow> InscriptionBRC20Data \<Rightarrow> BRC20ModuleIndexer option" where
  "transfer_send_history g pk lt transferInfo valid data =
     (if g_EnableHistory g then do {
        b \<leftarrow> balance_of g pk lt;
        historyObj \<leftarrow> NewBRC20History HISTORY_SEND valid True transferInfo (Some b) data;
        (history, g) \<leftarrow> UpdateHistoryHeightAndGetHistoryIndex g historyObj;
        let g = upd_balance pk lt (\<lambda>b. b\<lparr>tb_History := tb_History b @ [history], tb_HistorySend := tb_HistorySend b @ [history]\<rparr>) g;
        Some (append_user_history pk history g) }
      else Some g)"

text \<open>Credit of the receiver: balance, burn counter and history.\<close>

definition transfer_receive ::
    "ext \<Rightarrow> BRC20ModuleIndexer \<Rightarrow> string \<Rightarrow> string \<Rightarrow> InscriptionBRC20TickInfo \<Rightarrow> InscriptionBRC20Data \<Rightarrow> BRC20ModuleIndexer option" where
  "transfer_receive e g lt pk transferInfo data =
     do {
       (b, g) \<leftarrow> GetUserTokenBalance e g (ti_Tick transferInfo) pk;
       let key = ToLower e (ti_Tick transferInfo);
       safe \<leftarrow> (if d_BlockTime data > 0 then Decimal_Add (tb_AvailableBalanceSafe b) (ti_Amount transferInfo)
                else Some (tb_AvailableBalanceSafe b));
       av \<leftarrow> Decimal_Add (tb_AvailableBalance b) (ti_Amount transferInfo);
       let b = b\<lparr>tb_UpdateHeight := d_Height data, tb_AvailableBalanceSafe := safe, tb_AvailableBalance := av\<rparr>;
       let g = set_balance g pk key b;
       g \<leftarrow> (if is_burn_script pk then
               (case g_InscriptionsTickerInfoMap g lt of
                  None \<Rightarrow> None
                | Some t \<Rightarrow> do { burned \<leftarrow> Decimal_Add (ti_Burned (tk_Deploy t)) (ti_Amount transferInfo);
                                Some (upd_deploy lt (\<lambda>d. d\<lparr>ti_Burned := burned\<rparr>) g) })
             else Some g);
       if g_EnableHistory g then do {
         historyObj \<leftarrow> NewBRC20History HISTORY_RECEIVE True True transferInfo (Some b) data;
         (history, g) \<leftarrow> UpdateHistoryHeightAndGetHistoryIndex g historyObj;
         let g = upd_balance pk key (\<lambda>b. b\<lparr>tb_History := tb_History b @ [history], tb_HistoryReceive := tb_HistoryReceive b @ [history]\<rparr>) g;
         Some (append_user_history pk history g) }
       else Some g }"

text \<open>A transfer to a module address is a deposit to the sender's swap balance in the module.\<close>

definition module_deposit ::
    "ext \<Rightarrow> InscriptionBRC20TickInfo \<Rightarrow> InscriptionBRC20Data \<Rightarrow> InscriptionBRC20Data \<Rightarrow> string \<Rightarrow> BRC20ModuleSwapInfo \<Rightarrow>
     BRC20ModuleSwapInfo option" where
  "module_deposit e transferInfo meta data sender m =
     (let tick = ti_Tick transferInfo; amt = ti_Amount transferInfo;
          m = m\<lparr>m_History := m_History m @ [NewBRC20ModuleHistory True HISTORY_TRANSFER meta data NoData True]\<rparr>;
          m = Module_GetUserTokenBalance e m tick sender;
          b = the_balance e m tick sender in
      do {
        safe \<leftarrow> (if d_BlockTime data > 0 then Decimal_Add (mb_SwapAccountBalanceSafe b) amt else Some (mb_SwapAccountBalanceSafe b));
        sw \<leftarrow> Decimal_Add (mb_SwapAccountBalance b) amt;
        let m = put_balance e m tick sender
          (b\<lparr>mb_UpdateHeight := d_Height data, mb_SwapAccountBalanceSafe := safe, mb_SwapAccountBalance := sw\<rparr>);
        let m = GetTickConditionalApproveStateBalance e m tick;
        (case m_ConditionalApproveStateBalanceDataMap m (ToLower e tick) of
           None \<Rightarrow> None
         | Some sb \<Rightarrow> do {
             d \<leftarrow> Decimal_Add (cs_BalanceDeposite sb) amt;
             Some (upd_state_balance e tick (\<lambda>s. s\<lparr>cs_BalanceDeposite := d\<rparr>) m) }) })"

text \<open>What follows the credit: conditional approvals and module deposits.\<close>

definition transfer_module_part ::
    "ext \<Rightarrow> BRC20ModuleIndexer \<Rightarrow> string \<Rightarrow> string \<Rightarrow> string \<Rightarrow> InscriptionBRC20TickInfo \<Rightarrow> InscriptionBRC20Data \<Rightarrow>
     BRC20ModuleIndexer outcome" where
  "transfer_module_part e g lt sender receiver transferInfo data =
     (case g_InscriptionsTickerInfoMap g lt of
        None \<Rightarrow> None
      | Some tokenInfo \<Rightarrow>
          if ti_SelfMint (tk_Deploy tokenInfo) then ret_nil g
          else
            let g = (if g_ThisTxId g \<noteq> d_TxId data
                     then g\<lparr>g_TxStaticTransferStatesForConditionalApprove := [], g_ThisTxId := d_TxId data\<rparr> else g)
            in do {
              (err, g) \<leftarrow> (if d_Height data < conf_ENABLE_SWAP_WITHDRAW_HEIGHT e then
                  (case ti_Meta transferInfo of
                     None \<Rightarrow> None
                   | Some meta \<Rightarrow> do {
                       (g, events) \<leftarrow> GenerateApproveEventsByTransfer e g (Data_GetInscriptionId meta) (ti_Tick transferInfo)
                                          sender receiver (ti_Amount transferInfo);
                       ProcessConditionalApproveEvents e g events })
                else ret_nil g);
              case err of
                Some er \<Rightarrow> ret_err er g
              | None \<Rightarrow>
                (case GetModuleFromScript receiver of
                   None \<Rightarrow> ret_nil g
                 | Some moduleId \<Rightarrow>
                  (case module_of g moduleId of
                     None \<Rightarrow> ret_nil g
                   | Some m \<Rightarrow>
                      (case ti_Meta transferInfo of
                         None \<Rightarrow> None
                       | Some meta \<Rightarrow> do {
                           m \<leftarrow> module_deposit e transferInfo meta data sender m;
                           ret_nil (set_module g moduleId m) }))) })"

text \<open>A move once the sender's balance is found; \<open>receiver\<close> is the sender when the inscription was spent as fee.\<close>

definition transfer_apply ::
    "ext \<Rightarrow> BRC20ModuleIndexer \<Rightarrow> InscriptionBRC20Data \<Rightarrow> string \<Rightarrow> string \<Rightarrow> string \<Rightarrow> BRC20TokenBalance \<Rightarrow>
     InscriptionBRC20TickInfo \<Rightarrow> bool \<Rightarrow> BRC20ModuleIndexer outcome" where
  "transfer_apply e g data lt sender receiver fb transferInfo isInvalid =
     (let g = set_balance g sender lt (fb\<lparr>tb_UpdateHeight := d_Height data\<rparr>) in
      if isInvalid then do {
        g \<leftarrow> transfer_send_history g sender lt transferInfo False data;
        ret_nil g }
      else if tb_ValidTransferMap fb (d_CreateIdxKey data) = None
      then ret_err ''transfer, invalid transfer'' g
      else do {
        tr \<leftarrow> Decimal_Sub (tb_TransferableBalance fb) (ti_Amount transferInfo);
        let g = set_balance g sender lt
          (fb\<lparr>tb_UpdateHeight := d_Height data, tb_TransferableBalance := tr,
              tb_ValidTransferMap := (tb_ValidTransferMap fb)(d_CreateIdxKey data := None)\<rparr>);
        g \<leftarrow> transfer_send_history g sender lt transferInfo True data;
        g \<leftarrow> transfer_receive e g lt receiver transferInfo data;
        transfer_module_part e g lt sender receiver transferInfo data })"

definition ProcessTransfer ::
    "ext \<Rightarrow> BRC20ModuleIndexer \<Rightarrow> InscriptionBRC20Data \<Rightarrow> InscriptionBRC20TickInfo \<Rightarrow> bool \<Rightarrow> BRC20ModuleIndexer outcome" where
  "ProcessTransfer e g data transferInfo isInvalid =
     (let lt = ToLower e (ti_Tick transferInfo) in
      if g_InscriptionsTickerInfoMap g lt = None then ret_err ''transfer, invalid ticker'' g
      else
        let sender = ti_PkScript transferInfo;
            receiver = (if d_Satoshi data = 0 then sender else d_PkScript data);
            data = data\<lparr>d_PkScript := receiver\<rparr> in
        do {
          g \<leftarrow> transfer_global_history g lt transferInfo isInvalid data;
          case g_UserTokensBalanceData g sender of
            None \<Rightarrow> ret_err ''transfer, invalid from data'' g
          | Some fromUserTokens \<Rightarrow>
           (case fromUserTokens lt of
              None \<Rightarrow> ret_err ''transfer, invalid from balance'' g
            | Some fb \<Rightarrow> transfer_apply e g data lt sender receiver fb transferInfo isInvalid) })"

section \<open>Inscribing a transfer\<close>

definition transfer_info ::
    "BRC20TokenInfo \<Rightarrow> InscriptionBRC20MintTransferContent \<Rightarrow> decp \<Rightarrow> InscriptionBRC20Data \<Rightarrow> InscriptionBRC20TickInfo" where
  "transfer_info tokenInfo body amt data =
     (let t = NewInscriptionBRC20TickInfo (tk_Ticker tokenInfo) (mt_Operation body) data; dd = ti_Data (tk_Deploy tokenInfo) in
      t\<lparr>ti_Data := (ti_Data t)\<lparr>r_BRC20Amount := mt_BRC20Amount body, r_BRC20Limit := r_BRC20Limit dd,
          r_BRC20Decimal := r_BRC20Decimal dd\<rparr>,
        ti_Tick := tk_Ticker tokenInfo, ti_Amount := amt, ti_Meta := Some data\<rparr>)"

text \<open>The history of both outcomes; they differ in the entry of \<open>AllHistory\<close>.\<close>

definition inscribe_transfer_history ::
    "BRC20ModuleIndexer \<Rightarrow> string \<Rightarrow> InscriptionBRC20TickInfo \<Rightarrow> BRC20TokenBalance \<Rightarrow> bool \<Rightarrow> InscriptionBRC20Data \<Rightarrow>
     BRC20ModuleIndexer option" where
  "inscribe_transfer_history g lt transferInfo bal valid data =
     (if g_EnableHistory g then do {
        let history = g_HistoryCount g;
        historyObj \<leftarrow> NewBRC20History HISTORY_INSCRIBE_TRANSFER True False transferInfo (Some bal) data;
        let g = upd_balance (d_PkScript data) lt
          (\<lambda>b. b\<lparr>tb_History := tb_History b @ [history], tb_HistoryInscribeTransfer := tb_HistoryInscribeTransfer b @ [history]\<rparr>) g;
        let g = append_user_history (d_PkScript data) history g;
        let g = upd_ticker lt
          (\<lambda>t. t\<lparr>tk_History := tk_History t @ [history], tk_HistoryInscribeTransfer := tk_HistoryInscribeTransfer t @ [history]\<rparr>) g;
        let g = (if valid then append_all_history history g else g);
        (_, g) \<leftarrow> UpdateHistoryHeightAndGetHistoryIndex g (historyObj\<lparr>h_Valid := valid\<rparr>);
        Some g }
      else Some g)"

text \<open>The balance check and the updates, for the owner's balance \<open>b\<close>.\<close>

definition inscribe_transfer_apply ::
    "BRC20ModuleIndexer \<Rightarrow> string \<Rightarrow> BRC20TokenBalance \<Rightarrow> InscriptionBRC20TickInfo \<Rightarrow> InscriptionBRC20Data \<Rightarrow> BRC20ModuleIndexer outcome" where
  "inscribe_transfer_apply g lt b transferInfo data =
     (let k = d_CreateIdxKey data in
      do {
        c \<leftarrow> Decimal_Cmp (tb_AvailableBalance b) (ti_Amount transferInfo);
        g \<leftarrow> inscribe_transfer_history g lt transferInfo b (c \<ge> 0) data;
        if c < 0 then
          ret_nil (g\<lparr>g_InscriptionsInvalidTransferMap := (g_InscriptionsInvalidTransferMap g)(k \<mapsto> transferInfo)\<rparr>)
        else do {
          safe \<leftarrow> Decimal_Sub (tb_AvailableBalanceSafe b) (ti_Amount transferInfo);
          av \<leftarrow> Decimal_Sub (tb_AvailableBalance b) (ti_Amount transferInfo);
          tr \<leftarrow> Decimal_Add (tb_TransferableBalance b) (ti_Amount transferInfo);
          let g = upd_balance (d_PkScript data) lt (\<lambda>b. b\<lparr>tb_AvailableBalanceSafe := safe, tb_AvailableBalance := av,
            tb_TransferableBalance := tr, tb_ValidTransferMap := (tb_ValidTransferMap b)(k \<mapsto> transferInfo)\<rparr>) g;
          ret_nil (g\<lparr>g_InscriptionsValidTransferMap := (g_InscriptionsValidTransferMap g)(k \<mapsto> transferInfo),
                     g_InscriptionsValidBRC20DataMap :=
                       (g_InscriptionsValidBRC20DataMap g)(k \<mapsto> InfoData (ti_Data transferInfo))\<rparr>) } })"

definition ProcessInscribeTransfer :: "ext \<Rightarrow> BRC20ModuleIndexer \<Rightarrow> InscriptionBRC20Data \<Rightarrow> BRC20ModuleIndexer outcome" where
  "ProcessInscribeTransfer e g data =
     (case MintTransferContent_Unmarshal e (d_ContentBody data) of
        None \<Rightarrow> ret_nil g
      | Some body \<Rightarrow>
     (case GetValidUniqueLowerTickerTicker e (mt_BRC20Tick body) of
        None \<Rightarrow> ret_nil g
      | Some lt \<Rightarrow>
     (case g_InscriptionsTickerInfoMap g lt of
        None \<Rightarrow> ret_nil g
      | Some tokenInfo \<Rightarrow> do {
          r \<leftarrow> NewDecimalFromString (mt_BRC20Amount body) (unat (ti_Decimal (tk_Deploy tokenInfo)));
          case r of
            Inl _ \<Rightarrow> ret_nil g
          | Inr amt \<Rightarrow> do {
              bad \<leftarrow> (if Decimal_Sign (Some amt) \<le> 0 then Some True
                      else do { c \<leftarrow> Decimal_Cmp (Some amt) (ti_Max (tk_Deploy tokenInfo)); Some (c > 0) });
              if bad then ret_nil g
              else
                let pk = d_PkScript data;
                    b = (case balance_of g pk lt of None \<Rightarrow> new_token_balance (tk_Ticker tokenInfo) pk | Some b \<Rightarrow> b) in
                case g_TokenUsersBalanceData g lt of
                  None \<Rightarrow> None
                | Some users \<Rightarrow>
                    let b = b\<lparr>tb_UpdateHeight := d_Height data\<rparr>;
                        g = (set_balance g pk lt b)\<lparr>g_TokenUsersBalanceData := (g_TokenUsersBalanceData g)(lt \<mapsto> insert pk users)\<rparr> in
                    inscribe_transfer_apply g lt b (transfer_info tokenInfo body (NewDecimalCopy (Some amt)) data) data } })))"

end
