(* ===== verification/Module_Ops.thy ===== *)
theory Module_Ops
  imports Brc20_Ops Commit_Utils
begin

text \<open>
  The operations of modules outside commits: the creation of a module
  (\<open>indexer/module_create.go\<close>), approvals (\<open>module_approve.go\<close>), the inscription of a
  conditional approval (\<open>module_cond_approve.go\<close>) and withdrawals (\<open>module_withdraw.go\<close>).
\<close>

section \<open>Creation\<close>

definition new_module ::
    "InscriptionBRC20Data \<Rightarrow> string \<Rightarrow> string \<Rightarrow> string \<Rightarrow> string \<Rightarrow> string \<Rightarrow> string \<Rightarrow> BRC20ModuleSwapInfo" where
  "new_module data name sequencer gasTo lpFeeTo feeRateSwap gasTick =
     \<lparr>m_UpdateHeight = d_Height data, m_ID = Data_GetInscriptionId data, m_Name = name,
      m_DeployerPkScript = d_PkScript data, m_SequencerPkScript = sequencer, m_GasToPkScript = gasTo,
      m_LpFeePkScript = lpFeeTo, m_FeeRateSwap = feeRateSwap, m_GasTick = gasTick,
      m_History = [NewBRC20ModuleHistory False HISTORY_INSCRIBE_MODULE data data NoData True],
      m_CommitInvalidMap = {}, m_CommitIdMap = {}, m_CommitIdChainMap = {},
      m_UsersTokenBalanceDataMap = Map.empty, m_TokenUsersBalanceDataMap = Map.empty,
      m_LPTokenUsersBalanceMap = Map.empty, m_LPTokenUsersBalanceUpdatedMap = Some {},
      m_UsersLPTokenBalanceMap = Map.empty, m_SwapPoolTotalBalanceDataMap = Map.empty,
      m_ConditionalApproveStateBalanceDataMap = Map.empty, m_ThisTxId = '''',
      m_TransferStatesForConditionalApprove = [], m_ApproveStatesForConditionalApprove = []\<rparr>"

text \<open>A script that the initial parameters must name by an address; \<open>None\<close> is the error.\<close>

definition init_script :: "ext \<Rightarrow> (string \<rightharpoonup> string) \<Rightarrow> string \<Rightarrow> string \<Rightarrow> string \<Rightarrow> string + string" where
  "init_script e i key invalid missing =
     (case i key of
        None \<Rightarrow> Inl missing
      | Some addr \<Rightarrow> (case GetPkScriptByAddress e addr of None \<Rightarrow> Inl invalid | Some pk \<Rightarrow> Inr pk))"

definition ProcessCreateModule :: "ext \<Rightarrow> BRC20ModuleIndexer \<Rightarrow> InscriptionBRC20Data \<Rightarrow> BRC20ModuleIndexer outcome" where
  "ProcessCreateModule e g data =
     (case Unmarshal_DeploySwapContent e (d_ContentBody data) of
        None \<Rightarrow> ret_err ''json'' g
      | Some body \<Rightarrow>
          if conf_MODULE_SWAP_SOURCE_INSCRIPTION_ID e \<noteq> md_Source body then ret_err ''source not match'' g
          else
            let inscriptionId = Data_GetInscriptionId data in
            if module_of g inscriptionId \<noteq> None then ret_err ''dup module deploy'' g
            else
              let feeRateSwap = (case md_Init body ''swap_fee_rate'' of None \<Rightarrow> ''0'' | Some s \<Rightarrow> s) in
              do {
                fee \<leftarrow> CheckAmountVerify feeRateSwap 3;
                if fee = None then ret_err ''swap fee invalid'' g
                else case md_Init body ''gas_tick'' of
                  None \<Rightarrow> ret_err ''gas_tick missing'' g
                | Some gasTick \<Rightarrow> do {
                    t \<leftarrow> CheckTickVerify e g gasTick '''';
                    if t = None then ret_err ''gas_tick invalid'' g
                    else case init_script e (md_Init body) ''sequencer'' ''sequencer invalid'' ''sequencer missing'' of
                      Inl err \<Rightarrow> ret_err err g
                    | Inr sequencer \<Rightarrow>
                    (case init_script e (md_Init body) ''gas_to'' ''gasTo invalid'' ''gas_to missing'' of
                      Inl err \<Rightarrow> ret_err err g
                    | Inr gasTo \<Rightarrow>
                    (case init_script e (md_Init body) ''fee_to'' ''lpFeeTo invalid'' ''fee_to missing'' of
                      Inl err \<Rightarrow> ret_err err g
                    | Inr lpFeeTo \<Rightarrow>
                        ret_nil (set_module g inscriptionId
                          (new_module data (md_Name body) sequencer gasTo lpFeeTo feeRateSwap gasTick)))) } })"

section \<open>Approve\<close>

definition GetApproveInfoByKey :: "BRC20ModuleIndexer \<Rightarrow> string \<Rightarrow> InscriptionBRC20SwapInfo option \<times> bool" where
  "GetApproveInfoByKey g createIdxKey =
     (case g_InscriptionsValidApproveMap g createIdxKey of
        Some a \<Rightarrow> (Some a, False)
      | None \<Rightarrow> (g_InscriptionsInvalidApproveMap g createIdxKey, True))"

definition append_module_history :: "BRC20ModuleHistory \<Rightarrow> BRC20ModuleSwapInfo \<Rightarrow> BRC20ModuleSwapInfo" where
  "append_module_history h m = m\<lparr>m_History := m_History m @ [h]\<rparr>"

definition append_balance_history :: "BRC20ModuleHistory \<Rightarrow> BRC20ModuleTokenBalance \<Rightarrow> BRC20ModuleTokenBalance" where
  "append_balance_history h b = b\<lparr>mb_History := mb_History b @ [h]\<rparr>"

text \<open>Sender debited, receiver credited; the two may be one balance.\<close>

definition approve_move ::
    "ext \<Rightarrow> u32 \<Rightarrow> InscriptionBRC20SwapInfo \<Rightarrow> InscriptionBRC20Data \<Rightarrow> string \<Rightarrow> BRC20ModuleSwapInfo \<Rightarrow> BRC20ModuleSwapInfo option" where
  "approve_move e bestHeight approveInfo data receiver m =
     (let lt = ToLower e (si_Tick approveInfo); sender = d_PkScript (si_Data approveInfo);
          m = Module_GetUserTokenBalance e m (si_Tick approveInfo) receiver;
          fb = the_balance e m (si_Tick approveInfo) sender in
      do {
        ap \<leftarrow> Decimal_Sub (mb_ApproveableBalance fb) (si_Amount approveInfo);
        let fb = append_balance_history (NewBRC20ModuleHistory True HISTORY_APPROVE_FROM (si_Data approveInfo) data NoData True)
          (fb\<lparr>mb_UpdateHeight := bestHeight, mb_ApproveableBalance := ap,
              mb_ValidApproveMap := (mb_ValidApproveMap fb)(d_CreateIdxKey data := None)\<rparr>);
        let m = set_user_balance m sender lt fb;
        let tb = the_balance e m (si_Tick approveInfo) receiver;
        safe \<leftarrow> (if d_BlockTime data > 0 then Decimal_Add (mb_SwapAccountBalanceSafe tb) (si_Amount approveInfo)
                 else Some (mb_SwapAccountBalanceSafe tb));
        sw \<leftarrow> Decimal_Add (mb_SwapAccountBalance tb) (si_Amount approveInfo);
        let tb = append_balance_history (NewBRC20ModuleHistory True HISTORY_APPROVE_TO (si_Data approveInfo) data NoData True)
          (tb\<lparr>mb_UpdateHeight := bestHeight, mb_SwapAccountBalanceSafe := safe, mb_SwapAccountBalance := sw\<rparr>);
        Some (set_user_balance m receiver lt tb) })"

definition ProcessApprove ::
    "ext \<Rightarrow> BRC20ModuleIndexer \<Rightarrow> InscriptionBRC20Data \<Rightarrow> InscriptionBRC20SwapInfo \<Rightarrow> bool \<Rightarrow> BRC20ModuleIndexer outcome" where
  "ProcessApprove e g data approveInfo isInvalid =
     (let lt = ToLower e (si_Tick approveInfo); sender = d_PkScript (si_Data approveInfo) in
      if g_InscriptionsTickerInfoMap g lt = None then ret_err ''approve, invalid ticker'' g
      else case module_of g (si_Module approveInfo) of
        None \<Rightarrow> ret_err ''approve, module invalid'' g
      | Some m \<Rightarrow>
     (case m_UsersTokenBalanceDataMap m sender of
        None \<Rightarrow> ret_err ''approve, send from user missing'' g
      | Some fromUserTokens \<Rightarrow>
     (case fromUserTokens lt of
        None \<Rightarrow> ret_err ''approve, send from ticker missing'' g
      | Some fb \<Rightarrow>
          if mb_ValidApproveMap fb (d_CreateIdxKey data) = None
          then ret_err ''approve, send from approve missing(dup)'' g
          else
            let receiver = (if d_Satoshi data = 0 then sender else d_PkScript data);
                data = data\<lparr>d_PkScript := receiver\<rparr> in
            do {
              amt \<leftarrow> Decimal_String (si_Amount approveInfo);
              let m = append_module_history (NewBRC20ModuleHistory True HISTORY_APPROVE (si_Data approveInfo) data
                        (ApproveData (si_Tick approveInfo) amt) (\<not> isInvalid)) m;
              if isInvalid then
                ret_nil (set_module g (si_Module approveInfo) (set_user_balance m sender lt
                  (append_balance_history (NewBRC20ModuleHistory True HISTORY_APPROVE_FROM (si_Data approveInfo) data NoData False) fb)))
              else do {
                m \<leftarrow> approve_move e (g_BestHeight g) approveInfo data receiver m;
                ret_nil (set_module g (si_Module approveInfo) m) } })))"

text \<open>
  The checks that inscribing an approval, a conditional approval and a withdrawal share once the
  module and the ticker are found: an amount in the token's precision between 1 unit and the maximum.
\<close>

definition check_positive_amount :: "InscriptionBRC20TickInfo \<Rightarrow> string \<Rightarrow> string \<Rightarrow> (string + Decimal) option" where
  "check_positive_amount tinfo amount invalid =
     do { r \<leftarrow> NewDecimalFromString amount (unat (ti_Decimal tinfo));
          case r of
            Inl _ \<Rightarrow> Some (Inl invalid)
          | Inr amt \<Rightarrow> do {
              bad \<leftarrow> (if Decimal_Sign (Some amt) \<le> 0 then Some True
                      else do { c \<leftarrow> Decimal_Cmp (Some amt) (ti_Max tinfo); Some (c > 0) });
              Some (if bad then Inl ''amount out of range'' else Inr amt) } }"

definition inscribe_approve_module ::
    "ext \<Rightarrow> u32 \<Rightarrow> InscriptionBRC20SwapInfo \<Rightarrow> InscriptionBRC20Data \<Rightarrow> BRC20ModuleSwapInfo \<Rightarrow> (bool \<times> BRC20ModuleSwapInfo) option" where
  "inscribe_approve_module e bestHeight info data m =
     do {
       amt \<leftarrow> Decimal_String (si_Amount info);
       let m = Module_GetUserTokenBalance e m (si_Tick info) (d_PkScript data);
       let b = the_balance e m (si_Tick info) (d_PkScript data);
       c \<leftarrow> Decimal_Cmp (mb_AvailableBalance b) (si_Amount info);
       let m = append_module_history (NewBRC20ModuleHistory False HISTORY_INSCRIBE_APPROVE data data
                 (ApproveData (si_Tick info) amt) (c \<ge> 0)) m;
       if c < 0 then Some (False, m)
       else do {
         safe \<leftarrow> Decimal_Sub (mb_AvailableBalanceSafe b) (si_Amount info);
         av \<leftarrow> Decimal_Sub (mb_AvailableBalance b) (si_Amount info);
         ap \<leftarrow> Decimal_Add (mb_ApproveableBalance b) (si_Amount info);
         Some (True, put_balance e m (si_Tick info) (d_PkScript data)
           (b\<lparr>mb_AvailableBalanceSafe := safe, mb_AvailableBalance := av, mb_ApproveableBalance := ap,
              mb_ValidApproveMap := (mb_ValidApproveMap b)(d_CreateIdxKey data \<mapsto> data), mb_UpdateHeight := bestHeight\<rparr>)) } }"

definition ProcessInscribeApprove :: "ext \<Rightarrow> BRC20ModuleIndexer \<Rightarrow> InscriptionBRC20Data \<Rightarrow> BRC20ModuleIndexer outcome" where
  "ProcessInscribeApprove e g data =
     (case Unmarshal_ApproveContent e (d_ContentBody data) of
        None \<Rightarrow> ret_err ''json'' g
      | Some body \<Rightarrow>
          if ac_Module body \<noteq> ToLower e (ac_Module body) then ret_err ''module id invalid'' g
          else case module_of g (ac_Module body) of
            None \<Rightarrow> ret_err ''module invalid'' g
          | Some m \<Rightarrow>
              if length (ac_Tick body) \<noteq> 4 then ret_err ''tick invalid'' g
              else (case g_InscriptionsTickerInfoMap g (ToLower e (ac_Tick body)) of
                  None \<Rightarrow> ret_err ''tick not exist'' g
                | Some tokenInfo \<Rightarrow> do {
                    r \<leftarrow> check_positive_amount (tk_Deploy tokenInfo) (ac_Amount body) ''approve amount invalid'';
                    case r of
                      Inl err \<Rightarrow> ret_err err g
                    | Inr amt \<Rightarrow> do {
                        let info = \<lparr>si_Module = ac_Module body, si_Tick = tk_Ticker tokenInfo,
                                    si_Amount = NewDecimalCopy (Some amt), si_Data = data\<rparr>;
                        (valid, m) \<leftarrow> inscribe_approve_module e (g_BestHeight g) info data m;
                        let g = set_module g (ac_Module body) m;
                        ret_nil (if valid
                          then g\<lparr>g_InscriptionsValidApproveMap := (g_InscriptionsValidApproveMap g)(d_CreateIdxKey data \<mapsto> info)\<rparr>
                          else g\<lparr>g_InscriptionsInvalidApproveMap := (g_InscriptionsInvalidApproveMap g)(d_CreateIdxKey data \<mapsto> info)\<rparr>) } }))"

section \<open>Conditional approve\<close>

definition inscribe_cond_approve_module ::
    "ext \<Rightarrow> u32 \<Rightarrow> InscriptionBRC20SwapConditionalApproveInfo \<Rightarrow> InscriptionBRC20Data \<Rightarrow> BRC20ModuleSwapInfo \<Rightarrow>
     (bool \<times> BRC20ModuleSwapInfo) option" where
  "inscribe_cond_approve_module e bestHeight info data m =
     do {
       amt \<leftarrow> Decimal_String (ca_Amount info);
       bal \<leftarrow> Decimal_String (ca_Balance info);
       let m = Module_GetUserTokenBalance e m (ca_Tick info) (d_PkScript data);
       let b = the_balance e m (ca_Tick info) (d_PkScript data);
       c \<leftarrow> Decimal_Cmp (mb_AvailableBalance b) (ca_Amount info);
       let m = append_module_history (NewBRC20ModuleHistory False HISTORY_INSCRIBE_CONDITIONAL_APPROVE data data
                 (CondApproveData (ca_Tick info) amt bal '''' '''') (c \<ge> 0)) m;
       if c < 0 then Some (False, m)
       else do {
         safe \<leftarrow> Decimal_Sub (mb_AvailableBalanceSafe b) (ca_Amount info);
         av \<leftarrow> Decimal_Sub (mb_AvailableBalance b) (ca_Amount info);
         ap \<leftarrow> Decimal_Add (mb_CondApproveableBalance b) (ca_Amount info);
         let m = put_balance e m (ca_Tick info) (d_PkScript data)
           (b\<lparr>mb_AvailableBalanceSafe := safe, mb_AvailableBalance := av, mb_CondApproveableBalance := ap,
              mb_ValidConditionalApproveMap := (mb_ValidConditionalApproveMap b)(d_CreateIdxKey data \<mapsto> data),
              mb_UpdateHeight := bestHeight\<rparr>);
         let m = GetTickConditionalApproveStateBalance e m (ca_Tick info);
         (case m_ConditionalApproveStateBalanceDataMap m (ToLower e (ca_Tick info)) of
            None \<Rightarrow> None
          | Some sb \<Rightarrow> do {
              d \<leftarrow> Decimal_Add (cs_BalanceNewApprove sb) (ca_Amount info);
              Some (True, upd_state_balance e (ca_Tick info) (\<lambda>s. s\<lparr>cs_BalanceNewApprove := d\<rparr>) m) }) } }"

definition ProcessInscribeConditionalApprove :: "ext \<Rightarrow> BRC20ModuleIndexer \<Rightarrow> InscriptionBRC20Data \<Rightarrow> BRC20ModuleIndexer outcome" where
  "ProcessInscribeConditionalApprove e g data =
     (if d_Height data \<ge> conf_ENABLE_SWAP_WITHDRAW_HEIGHT e then ret_err ''invalid operation'' g
      else case Unmarshal_ApproveContent e (d_ContentBody data) of
        None \<Rightarrow> ret_err ''json'' g
      | Some body \<Rightarrow>
          if ac_Module body \<noteq> ToLower e (ac_Module body) then ret_err ''module id invalid'' g
          else case module_of g (ac_Module body) of
            None \<Rightarrow> ret_err ''module invalid'' g
          | Some m \<Rightarrow>
              if length (ac_Tick body) \<noteq> 4 then ret_err ''tick invalid'' g
              else (case g_InscriptionsTickerInfoMap g (ToLower e (ac_Tick body)) of
                  None \<Rightarrow> ret_err ''tick not exist'' g
                | Some tokenInfo \<Rightarrow> do {
                    r \<leftarrow> check_positive_amount (tk_Deploy tokenInfo) (ac_Amount body) ''cond approve amount invalid'';
                    case r of
                      Inl err \<Rightarrow> ret_err err g
                    | Inr amt \<Rightarrow> do {
                        let info = \<lparr>ca_UpdateHeight = g_BestHeight g, ca_Module = ac_Module body, ca_Tick = tk_Ticker tokenInfo,
                              ca_Amount = NewDecimalCopy (Some amt), ca_Balance = NewDecimalCopy (Some amt), ca_HasMoved = False,
                              ca_OwnerPkScript = d_PkScript data, ca_DelegatorPkScript = '''', ca_Data = data\<rparr>;
                        (valid, m) \<leftarrow> inscribe_cond_approve_module e (g_BestHeight g) info data m;
                        let g = set_module g (ac_Module body) m;
                        ret_nil (if valid
                          then g\<lparr>g_InscriptionsValidConditionalApproveMap :=
                                  (g_InscriptionsValidConditionalApproveMap g)(d_CreateIdxKey data \<mapsto> info)\<rparr>
                          else g\<lparr>g_InscriptionsInvalidConditionalApproveMap :=
                                  (g_InscriptionsInvalidConditionalApproveMap g)(d_CreateIdxKey data \<mapsto> info)\<rparr>) } }))"

section \<open>Withdraw\<close>

definition GetWithdrawInfoByKey :: "BRC20ModuleIndexer \<Rightarrow> string \<Rightarrow> InscriptionBRC20SwapInfo option" where
  "GetWithdrawInfoByKey g createIdxKey =
     (case g_InscriptionsWithdrawMap g of None \<Rightarrow> None | Some m \<Rightarrow> m createIdxKey)"

text \<open>The credit of a withdrawal to the receiver's balance outside the module.\<close>

definition withdraw_receive ::
    "ext \<Rightarrow> BRC20ModuleIndexer \<Rightarrow> string \<Rightarrow> InscriptionBRC20SwapInfo \<Rightarrow> InscriptionBRC20Data \<Rightarrow> string \<Rightarrow> BRC20ModuleIndexer option" where
  "withdraw_receive e g lt withdrawInfo data receiver =
     do {
       (b, g) \<leftarrow> GetUserTokenBalance e g (si_Tick withdrawInfo) receiver;
       safe \<leftarrow> (if d_BlockTime data > 0 then Decimal_Add (tb_AvailableBalanceSafe b) (si_Amount withdrawInfo)
                else Some (tb_AvailableBalanceSafe b));
       av \<leftarrow> Decimal_Add (tb_AvailableBalance b) (si_Amount withdrawInfo);
       let g = set_balance g receiver (ToLower e (si_Tick withdrawInfo))
         (b\<lparr>tb_UpdateHeight := d_Height data, tb_AvailableBalanceSafe := safe, tb_AvailableBalance := av\<rparr>);
       if is_burn_script receiver then
         (case g_InscriptionsTickerInfoMap g lt of
            None \<Rightarrow> None
          | Some t \<Rightarrow> do { burned \<leftarrow> Decimal_Add (ti_Burned (tk_Deploy t)) (si_Amount withdrawInfo);
                          Some (upd_deploy lt (\<lambda>d. d\<lparr>ti_Burned := burned\<rparr>) g) })
       else Some g }"

definition ProcessWithdraw :: "ext \<Rightarrow> BRC20ModuleIndexer \<Rightarrow> InscriptionBRC20Data \<Rightarrow> InscriptionBRC20SwapInfo \<Rightarrow> BRC20ModuleIndexer outcome" where
  "ProcessWithdraw e g data withdrawInfo =
     (let lt = ToLower e (si_Tick withdrawInfo); sender = d_PkScript (si_Data withdrawInfo); mid = si_Module withdrawInfo in
      if g_InscriptionsTickerInfoMap g lt = None then ret_err ''transfer, invalid ticker'' g
      else case module_of g mid of
        None \<Rightarrow> ret_err ''withdraw, module invalid'' g
      | Some m \<Rightarrow>
     (case m_UsersTokenBalanceDataMap m sender of
        None \<Rightarrow> ret_err ''withdraw, send from user missing'' g
      | Some fromUserTokens \<Rightarrow>
     (case fromUserTokens lt of
        None \<Rightarrow> ret_err ''withdraw, send from ticker missing'' g
      | Some fb \<Rightarrow>
          if mb_ReadyToWithdrawMap fb (d_CreateIdxKey data) = None
          then ret_err ''withdraw, send from withdraw missing(dup)'' g
          else do {
            rw \<leftarrow> Decimal_Sub (mb_ReadyToWithdrawAmount fb) (si_Amount withdrawInfo);
            let fb = fb\<lparr>mb_ReadyToWithdrawAmount := rw,
                        mb_ReadyToWithdrawMap := (mb_ReadyToWithdrawMap fb)(d_CreateIdxKey data := None),
                        mb_UpdateHeight := d_Height data\<rparr>;
            c \<leftarrow> Decimal_Cmp (mb_AvailableBalance fb) (si_Amount withdrawInfo);
            let receiver = (if d_Satoshi data = 0 then sender else d_PkScript data);
            let data = data\<lparr>d_PkScript := receiver\<rparr>;
            amt \<leftarrow> Decimal_String (si_Amount withdrawInfo);
            let m = append_module_history (NewBRC20ModuleHistory True HISTORY_WITHDRAW (si_Data withdrawInfo) data
                      (WithdrawData (si_Tick withdrawInfo) amt) (c \<ge> 0)) m;
            if c < 0 then
              ret_err ''withdraw, insufficient available balance'' (set_module g mid (set_user_balance m sender lt
                (append_balance_history (NewBRC20ModuleHistory True HISTORY_WITHDRAW_FROM (si_Data withdrawInfo) data NoData False) fb)))
            else do {
              safe \<leftarrow> Decimal_Sub (mb_AvailableBalanceSafe fb) (si_Amount withdrawInfo);
              av \<leftarrow> Decimal_Sub (mb_AvailableBalance fb) (si_Amount withdrawInfo);
              let fb = append_balance_history (NewBRC20ModuleHistory True HISTORY_WITHDRAW_FROM (si_Data withdrawInfo) data NoData True)
                (fb\<lparr>mb_AvailableBalanceSafe := safe, mb_AvailableBalance := av\<rparr>);
              g \<leftarrow> withdraw_receive e (set_module g mid (set_user_balance m sender lt fb)) lt withdrawInfo data receiver;
              ret_nil g } })))"

definition ProcessInscribeWithdraw :: "ext \<Rightarrow> BRC20ModuleIndexer \<Rightarrow> InscriptionBRC20Data \<Rightarrow> BRC20ModuleIndexer outcome" where
  "ProcessInscribeWithdraw e g data =
     (case Unmarshal_ApproveContent e (d_ContentBody data) of
        None \<Rightarrow> ret_err ''json'' g
      | Some body \<Rightarrow>
          if ac_Module body \<noteq> ToLower e (ac_Module body) then ret_err ''module id invalid'' g
          else case module_of g (ac_Module body) of
            None \<Rightarrow> ret_err ''module invalid'' g
          | Some m \<Rightarrow>
              if d_Height data < conf_ENABLE_SWAP_WITHDRAW_HEIGHT e then ret_err ''module withdraw disable'' g
              else if length (ac_Tick body) \<noteq> 4 \<and> length (ac_Tick body) \<noteq> 5 then ret_err ''tick invalid'' g
              else (case g_InscriptionsTickerInfoMap g (ToLower e (ac_Tick body)) of
                  None \<Rightarrow> ret_err ''tick not exist'' g
                | Some tokenInfo \<Rightarrow> do {
                    r \<leftarrow> check_positive_amount (tk_Deploy tokenInfo) (ac_Amount body) ''withdraw amount invalid'';
                    case r of
                      Inl err \<Rightarrow> ret_err err g
                    | Inr amt \<Rightarrow> do {
                        let info = \<lparr>si_Module = ac_Module body, si_Tick = tk_Ticker tokenInfo,
                                    si_Amount = NewDecimalCopy (Some amt), si_Data = data\<rparr>;
                        s \<leftarrow> Decimal_String (si_Amount info);
                        let m = append_module_history (NewBRC20ModuleHistory False HISTORY_INSCRIBE_WITHDRAW data data
                                  (WithdrawData (si_Tick info) s) True) m;
                        let m = Module_GetUserTokenBalance e m (si_Tick info) (d_PkScript data);
                        let b = the_balance e m (si_Tick info) (d_PkScript data);
                        rw \<leftarrow> Decimal_Add (mb_ReadyToWithdrawAmount b) (si_Amount info);
                        let m = put_balance e m (si_Tick info) (d_PkScript data)
                          (b\<lparr>mb_ReadyToWithdrawAmount := rw,
                             mb_ReadyToWithdrawMap := (mb_ReadyToWithdrawMap b)(d_CreateIdxKey data \<mapsto> data),
                             mb_UpdateHeight := d_Height data\<rparr>);
                        wm \<leftarrow> g_InscriptionsWithdrawMap g;
                        ret_nil ((set_module g (ac_Module body) m)
                          \<lparr>g_InscriptionsWithdrawMap := Some (wm(d_CreateIdxKey data \<mapsto> info))\<rparr>) } }))"

end
