(* ===== verification/Commit.thy ===== *)
theory Commit
  imports Commit_Verify Module_Ops
begin

text \<open>
  Inscribing and moving a commit (\<open>indexer/module_commit_inscribe.go\<close>, \<open>indexer/module_commit.go\<close>) and
  the check of commits that are not on the chain yet (\<open>BRC20ModulePrepareSwapCommitContent\<close>,
  \<open>BRC20ModuleVerifySwapCommitContent\<close>).
\<close>

section \<open>Inscribing a commit\<close>

definition upd_module :: "string \<Rightarrow> (BRC20ModuleSwapInfo \<Rightarrow> BRC20ModuleSwapInfo) \<Rightarrow> BRC20ModuleIndexer \<Rightarrow> BRC20ModuleIndexer" where
  "upd_module moduleId f g = (case module_of g moduleId of None \<Rightarrow> g | Some m \<Rightarrow> set_module g moduleId (f m))"

definition ProcessInscribeCommit :: "ext \<Rightarrow> BRC20ModuleIndexer \<Rightarrow> InscriptionBRC20Data \<Rightarrow> BRC20ModuleIndexer outcome" where
  "ProcessInscribeCommit e g data =
     (let inscriptionId = Data_GetInscriptionId data in
      case Unmarshal_CommitContent e (d_ContentBody data) of
        None \<Rightarrow> ret_err ''json invalid'' g
      | Some None \<Rightarrow> None
      | Some (Some body) \<Rightarrow>
          if cc_Module body \<noteq> ToLower e (cc_Module body) then ret_err ''module id invalid'' g
          else case module_of g (cc_Module body) of
            None \<Rightarrow> ret_err ''module invalid'' g
          | Some m \<Rightarrow>
              let g = upd_module (cc_Module body) (\<lambda>m. m\<lparr>m_CommitInvalidMap := insert inscriptionId (m_CommitInvalidMap m)\<rparr>) g in
              if m_SequencerPkScript m \<noteq> d_PkScript data then ret_err ''module sequencer invalid'' g
              else do {
                r \<leftarrow> ProcessInscribeCommitPreVerify e g body;
                case r of
                  Some (idx, err) \<Rightarrow> ret_err err g
                | None \<Rightarrow>
                    let g = g\<lparr>g_InscriptionsValidCommitMap := (g_InscriptionsValidCommitMap g)(d_CreateIdxKey data \<mapsto> data),
                              g_InscriptionsValidCommitMapById := (g_InscriptionsValidCommitMapById g)(inscriptionId \<mapsto> data)\<rparr> in
                    ret_nil (upd_module (cc_Module body) (\<lambda>m. m\<lparr>m_CommitInvalidMap := m_CommitInvalidMap m - {inscriptionId}\<rparr>) g) })"

section \<open>Moving a commit\<close>

definition GetCommitInfoByKey :: "BRC20ModuleIndexer \<Rightarrow> string \<Rightarrow> InscriptionBRC20Data option \<times> bool" where
  "GetCommitInfoByKey g createIdxKey =
     (case g_InscriptionsValidCommitMap g createIdxKey of
        Some d \<Rightarrow> (Some d, False)
      | None \<Rightarrow> (g_InscriptionsInvalidCommitMap g createIdxKey, True))"

text \<open>The execution on the copy, then in reality.\<close>

definition commit_execute ::
    "ext \<Rightarrow> SwapFunctionResultCheckState option list option \<Rightarrow> BRC20ModuleIndexer \<Rightarrow> string \<Rightarrow>
     InscriptionBRC20ModuleSwapCommitContent \<Rightarrow> u64 list \<Rightarrow> BRC20ModuleIndexer outcome" where
  "commit_execute e ext_results g inscriptionId body eachFuntionSize =
     do {
       (_, pickUsersPkScript, pickTokensTick, pickPoolsPair) \<leftarrow> InitCherryPickFilter e g body ({}, {}, {});
       let swapState = CherryPick e g (cc_Module body) pickUsersPkScript pickTokensTick;
       (r, _) \<leftarrow> ProcessCommitVerify e ext_results swapState inscriptionId body eachFuntionSize [];
       case r of
         Some (idx, critical, err) \<Rightarrow> ret_err err g
       | None \<Rightarrow> do {
           (r, g) \<leftarrow> ProcessCommitVerify e ext_results g inscriptionId body eachFuntionSize [];
           case r of
             Some (idx, critical, err) \<Rightarrow> ret_err err g
           | None \<Rightarrow> ret_nil g } }"

text \<open>A commit that was executed is recorded, and its parent is used up.\<close>

definition settle_commit :: "string \<Rightarrow> string \<Rightarrow> BRC20ModuleSwapInfo \<Rightarrow> BRC20ModuleSwapInfo" where
  "settle_commit inscriptionId parent m =
     m\<lparr>m_CommitIdMap := insert inscriptionId (m_CommitIdMap m), m_CommitIdChainMap := insert parent (m_CommitIdChainMap m)\<rparr>"

definition ProcessCommit ::
    "ext \<Rightarrow> SwapFunctionResultCheckState option list option \<Rightarrow> BRC20ModuleIndexer \<Rightarrow> InscriptionBRC20Data \<Rightarrow>
     InscriptionBRC20Data \<Rightarrow> bool \<Rightarrow> BRC20ModuleIndexer outcome" where
  "ProcessCommit e ext_results g dataFrom dataTo isInvalid =
     (let inscriptionId = Data_GetInscriptionId dataFrom;
          g = g\<lparr>g_InscriptionsValidCommitMapById := (g_InscriptionsValidCommitMapById g)(inscriptionId := None)\<rparr> in
      case Unmarshal_CommitContent e (d_ContentBody dataFrom) of
        None \<Rightarrow> ret_err ''json'' g
      | Some bodyp \<Rightarrow>
          (case GetModuleFromScript (d_PkScript dataTo) of
             None \<Rightarrow> ret_err ''commit, not send to module'' g
           | Some moduleId \<Rightarrow> do {
               body \<leftarrow> bodyp;
               if moduleId \<noteq> cc_Module body then ret_err ''commit, not send to module'' g
               else case module_of g (cc_Module body) of
                 None \<Rightarrow> ret_err ''commit, module not exist'' g
               | Some m \<Rightarrow> do {
                   let g = upd_module (cc_Module body) (\<lambda>m. m\<lparr>m_CommitInvalidMap := insert inscriptionId (m_CommitInvalidMap m)\<rparr>) g;
                   if m_SequencerPkScript m \<noteq> d_PkScript dataFrom then ret_err ''module sequencer invalid'' g
                   else do {
                     s \<leftarrow> GetEachItemLengthOfCommitJsonData e (d_ContentBody dataFrom);
                     case s of
                       None \<Rightarrow> ret_err ''commit, get function size failed'' g
                     | Some eachFuntionSize \<Rightarrow>
                         if length (cc_Data body) \<noteq> length eachFuntionSize
                         then ret_err ''commit, get function size failed'' g
                         else do {
                           (err, g) \<leftarrow> commit_execute e ext_results g inscriptionId body eachFuntionSize;
                           case err of
                             Some x \<Rightarrow> ret_err x g
                           | None \<Rightarrow>
                               ret_nil (upd_module (cc_Module body)
                                 (\<lambda>m. append_module_history
                                    (NewBRC20ModuleHistory True HISTORY_COMMIT dataFrom dataTo NoData True)
                                    ((settle_commit inscriptionId (cc_Parent body) m)
                                       \<lparr>m_CommitInvalidMap := m_CommitInvalidMap m - {inscriptionId}\<rparr>)) g) } } } }))"

section \<open>Commits that are not on the chain yet\<close>

definition GetCommitParentFromData :: "ext \<Rightarrow> InscriptionBRC20Data \<Rightarrow> string option option" where
  "GetCommitParentFromData e data =
     (case Unmarshal_CommitContent e (d_ContentBody data) of
        None \<Rightarrow> Some None
      | Some None \<Rightarrow> None
      | Some (Some body) \<Rightarrow> Some (Some (cc_Parent body)))"

definition ProcessCommitCheck ::
    "ext \<Rightarrow> SwapFunctionResultCheckState option list option \<Rightarrow> InscriptionBRC20Data \<Rightarrow> BRC20ModuleIndexer \<Rightarrow>
     ((int \<times> string) option \<times> BRC20ModuleIndexer) option" where
  "ProcessCommitCheck e ext_results data g =
     (case Unmarshal_CommitContent e (d_ContentBody data) of
        None \<Rightarrow> Some (Some (-1, ''json''), g)
      | Some None \<Rightarrow> None
      | Some (Some body) \<Rightarrow>
          if module_of g (cc_Module body) = None then Some (Some (-1, ''commit, module not exist''), g)
          else do {
            s \<leftarrow> GetEachItemLengthOfCommitJsonData e (d_ContentBody data);
            case s of
              None \<Rightarrow> Some (Some (-1, ''commit, get function size failed''), g)
            | Some eachFuntionSize \<Rightarrow>
                if length (cc_Data body) \<noteq> length eachFuntionSize
                then Some (Some (-1, ''commit, get function size failed''), g)
                else do {
                  let inscriptionId = Data_GetInscriptionId data;
                  (r, g) \<leftarrow> ProcessCommitVerify e ext_results g inscriptionId body eachFuntionSize [];
                  case r of
                    Some (idx, critical, err) \<Rightarrow> Some (Some (idx, err), g)
                  | None \<Rightarrow>
                      let g = upd_module (cc_Module body) (settle_commit inscriptionId (cc_Parent body)) g in
                      Some (None, g\<lparr>g_InscriptionsValidCommitMapById :=
                        (g_InscriptionsValidCommitMapById g)(inscriptionId := None)\<rparr>) } })"

text \<open>
  The chain of parents of a commit up to one that is settled, oldest first. The loop follows the
  parents written in the bodies and does not return when they form a cycle, which is \<open>None\<close>.
\<close>

partial_function (option) commit_parents ::
    "ext \<Rightarrow> BRC20ModuleIndexer \<Rightarrow> BRC20ModuleSwapInfo \<Rightarrow> string \<Rightarrow> string list \<Rightarrow> ((int \<times> bool \<times> string) + string list) option" where
  "commit_parents e g m parentId ids =
     (if parentId = '''' \<or> parentId \<in> m_CommitIdMap m then Some (Inr ids)
      else case g_InscriptionsValidCommitMapById g parentId of
        None \<Rightarrow> Some (Inl (-1, False, ''commit, parent body missing''))
      | Some parentCommitData \<Rightarrow>
          (case GetCommitParentFromData e parentCommitData of
             None \<Rightarrow> None
           | Some None \<Rightarrow> Some (Inl (-1, True, ''commit, parent json invalid''))
           | Some (Some parent) \<Rightarrow> commit_parents e g m parent (parentId # ids)))"

declare commit_parents.simps [code]

fun check_parents ::
    "ext \<Rightarrow> SwapFunctionResultCheckState option list option \<Rightarrow> string list \<Rightarrow> BRC20ModuleIndexer \<Rightarrow> BRC20ModuleIndexer verdict" where
  "check_parents e ext_results [] g = Some (None, g)"
| "check_parents e ext_results (parentId # ids) g =
     (case g_InscriptionsValidCommitMapById g parentId of
        None \<Rightarrow> Some (Some (-1, False, ''commit, parent body not ready''), g)
      | Some parentCommitData \<Rightarrow> do {
          (r, g) \<leftarrow> ProcessCommitCheck e ext_results parentCommitData g;
          case r of
            Some (idx, err) \<Rightarrow> Some (Some (idx, True, err), g)
          | None \<Rightarrow> check_parents e ext_results ids g })"

definition BRC20ModuleVerifySwapCommitContent ::
    "ext \<Rightarrow> SwapFunctionResultCheckState option list option \<Rightarrow> BRC20ModuleIndexer \<Rightarrow> string \<Rightarrow>
     InscriptionBRC20ModuleSwapCommitContent \<Rightarrow> SwapFunctionResultCheckState option list \<Rightarrow> BRC20ModuleIndexer verdict" where
  "BRC20ModuleVerifySwapCommitContent e ext_results g commitStr commitObj results =
     (if length (cc_Data commitObj) \<noteq> length results
      then Some (Some (-1, False, ''commit verify, function results different size''), g)
      else do {
        r \<leftarrow> ProcessInscribeCommitPreVerify e g commitObj;
        case r of
          Some (idx, err) \<Rightarrow> Some (Some (idx, True, err), g)
        | None \<Rightarrow>
            (case module_of g (cc_Module commitObj) of
               None \<Rightarrow> Some (Some (-1, True, ''commit, module not exist''), g)
             | Some moduleInfo \<Rightarrow> do {
                 parents \<leftarrow> commit_parents e g moduleInfo (cc_Parent commitObj) [];
                 case parents of
                   Inl err \<Rightarrow> Some (Some err, g)
                 | Inr commitIdsToCheck \<Rightarrow> do {
                     (r, g) \<leftarrow> check_parents e ext_results commitIdsToCheck g;
                     case r of
                       Some err \<Rightarrow> Some (Some err, g)
                     | None \<Rightarrow> do {
                         s \<leftarrow> GetEachItemLengthOfCommitJsonData e commitStr;
                         case s of
                           None \<Rightarrow> Some (Some (-1, True, ''commit, get function size failed''), g)
                         | Some eachFuntionSize \<Rightarrow>
                             ProcessCommitVerify e ext_results g '''' commitObj eachFuntionSize results } } }) })"

definition off_chain_commit :: "string \<Rightarrow> string \<Rightarrow> InscriptionBRC20Data" where
  "off_chain_commit inscriptionId content =
     \<lparr>d_IsTransfer = False, d_TxId = '''', d_Idx = 0, d_Vout = 0, d_Offset = 0, d_Satoshi = 0, d_PkScript = '''', d_Fee = 0,
      d_InscriptionNumber = 0, d_Parent = '''', d_ContentBody = content, d_CreateIdxKey = '''', d_Height = 0, d_TxIdx = 0,
      d_BlockTime = 0, d_Sequence = 0, d_InscriptionId = inscriptionId\<rparr>"

fun prepare_commits ::
    "string list \<Rightarrow> InscriptionBRC20ModuleSwapCommitContent list \<Rightarrow> BRC20ModuleIndexer \<Rightarrow> BRC20ModuleIndexer option" where
  "prepare_commits [] objs g = Some g"
| "prepare_commits (commitStr # strs) [] g = None"
| "prepare_commits (commitStr # strs) (nextCommitObj # objs) g =
     (if g_InscriptionsValidCommitMapById g (cc_Parent nextCommitObj) \<noteq> None then prepare_commits strs objs g
      else prepare_commits strs objs
        (g\<lparr>g_InscriptionsValidCommitMapById := (g_InscriptionsValidCommitMapById g)
           (cc_Parent nextCommitObj \<mapsto> off_chain_commit (cc_Parent nextCommitObj) commitStr)\<rparr>))"

definition BRC20ModulePrepareSwapCommitContent ::
    "BRC20ModuleIndexer \<Rightarrow> string list \<Rightarrow> InscriptionBRC20ModuleSwapCommitContent list \<Rightarrow> BRC20ModuleIndexer option" where
  "BRC20ModulePrepareSwapCommitContent g commitsStr commitsObj =
     (if length commitsStr < 2 then Some g else prepare_commits (butlast commitsStr) (drop 1 commitsObj) g)"

end
