(* ===== verification/Indexer_Loop.thy ===== *)
theory Indexer_Loop
  imports Commit Brc20_Ops
begin

text \<open>
  The main loop (\<open>indexer/indexer.go\<close>): one inscription event is dispatched to its handler, and
  after the last event the holders without a balance are dropped.
\<close>

section \<open>Dispatch\<close>

definition isJson :: "string \<Rightarrow> bool" where
  "isJson contentBody =
     (if length contentBody < 40 then False
      else let content = go_trim_space contentBody in prefix ''{'' content \<and> suffix ''}'' content)"

text \<open>
  The handlers of moves log their error; only the conditional approval decides with it whether the
  state is marked as changed.
\<close>

definition drop_error :: "BRC20ModuleIndexer outcome \<Rightarrow> BRC20ModuleIndexer option" where
  "drop_error r = do { (err, g) \<leftarrow> r; Some g }"

definition mark_durty :: "BRC20ModuleIndexer outcome \<Rightarrow> BRC20ModuleIndexer option" where
  "mark_durty r = do { (err, g) \<leftarrow> r; Some (case err of Some _ \<Rightarrow> g | None \<Rightarrow> g\<lparr>g_Durty := True\<rparr>) }"

text \<open>A move of a withdraw writes two maps that \<open>initModule\<close> does not allocate.\<close>

definition move_withdraw ::
    "ext \<Rightarrow> BRC20ModuleIndexer \<Rightarrow> InscriptionBRC20Data \<Rightarrow> InscriptionBRC20SwapInfo \<Rightarrow> BRC20ModuleIndexer option" where
  "move_withdraw e g data withdrawInfo =
     do {
       rm \<leftarrow> g_InscriptionsWithdrawRemoveMap g;
       let g = g\<lparr>g_InscriptionsWithdrawRemoveMap := Some (rm(d_CreateIdxKey data \<mapsto> d_Height data)), g_Durty := True\<rparr>;
       (err, g) \<leftarrow> ProcessWithdraw e g data withdrawInfo;
       case err of
         Some _ \<Rightarrow> Some g
       | None \<Rightarrow> do {
           vm \<leftarrow> g_InscriptionsValidWithdrawMap g;
           Some (g\<lparr>g_InscriptionsValidWithdrawMap := Some (vm(Data_GetInscriptionId (si_Data withdrawInfo) \<mapsto> d_Height data))\<rparr>) } }"

definition move_event ::
    "ext \<Rightarrow> SwapFunctionResultCheckState option list option \<Rightarrow> BRC20ModuleIndexer \<Rightarrow> InscriptionBRC20Data \<Rightarrow> BRC20ModuleIndexer option" where
  "move_event e ext_results g data =
     (let key = d_CreateIdxKey data in
      case (if d_Height data < conf_ENABLE_SWAP_WITHDRAW_HEIGHT e then GetConditionalApproveInfoByKey g key else (None, False)) of
        (Some condApproveInfo, isInvalid) \<Rightarrow> mark_durty (ProcessConditionalApprove e g data condApproveInfo isInvalid)
      | (None, _) \<Rightarrow>
          if d_Sequence data \<noteq> 1 then Some g
          else if g_InscriptionsTransferRemoveMap g key \<noteq> None then Some g
          else (case GetTransferInfoByKey g key of
              (Some transferInfo, isInvalid) \<Rightarrow>
                drop_error (ProcessTransfer e
                  (g\<lparr>g_InscriptionsTransferRemoveMap := (g_InscriptionsTransferRemoveMap g)(key \<mapsto> d_Height data), g_Durty := True\<rparr>)
                  data transferInfo isInvalid)
            | (None, _) \<Rightarrow>
          (case GetApproveInfoByKey g key of
              (Some approveInfo, isInvalid) \<Rightarrow>
                drop_error (ProcessApprove e
                  (g\<lparr>g_InscriptionsApproveRemoveMap := (g_InscriptionsApproveRemoveMap g)(key \<mapsto> d_Height data), g_Durty := True\<rparr>)
                  data approveInfo isInvalid)
            | (None, _) \<Rightarrow>
          (case GetWithdrawInfoByKey g key of
              Some withdrawInfo \<Rightarrow> move_withdraw e g data withdrawInfo
            | None \<Rightarrow>
          (case GetCommitInfoByKey g key of
              (Some commitFrom, isInvalid) \<Rightarrow>
                drop_error (ProcessCommit e ext_results
                  (g\<lparr>g_InscriptionsCommitRemoveMap := (g_InscriptionsCommitRemoveMap g)(key \<mapsto> d_Height data), g_Durty := True\<rparr>)
                  commitFrom data isInvalid)
            | (None, _) \<Rightarrow> Some g)))))"

text \<open>The operations a protocol offers, by protocol and operation.\<close>

datatype handler = Deploy | Mint | InscribeTransfer | CreateModule | InscribeWithdraw | InscribeApprove |
  InscribeConditionalApprove | InscribeCommit

definition handler_of :: "InscriptionBRC20ProtocalContent \<Rightarrow> handler option" where
  "handler_of body =
     (if pc_Proto body = BRC20_P \<and> pc_Operation body = ''deploy'' then Some Deploy
      else if pc_Proto body = BRC20_P \<and> pc_Operation body = ''mint'' then Some Mint
      else if pc_Proto body = BRC20_P \<and> pc_Operation body = ''transfer'' then Some InscribeTransfer
      else if pc_Proto body = BRC20_P_MODULE \<and> pc_Operation body = ''deploy'' then Some CreateModule
      else if pc_Proto body = BRC20_P_MODULE \<and> pc_Operation body = ''withdraw'' then Some InscribeWithdraw
      else if pc_Proto body = BRC20_P_SWAP \<and> pc_Operation body = ''approve'' then Some InscribeApprove
      else if pc_Proto body = BRC20_P_SWAP \<and> pc_Operation body = ''conditional-approve'' then Some InscribeConditionalApprove
      else if pc_Proto body = BRC20_P_SWAP \<and> pc_Operation body = ''commit'' then Some InscribeCommit
      else None)"

fun run_handler :: "handler \<Rightarrow> ext \<Rightarrow> BRC20ModuleIndexer \<Rightarrow> InscriptionBRC20Data \<Rightarrow> BRC20ModuleIndexer outcome" where
  "run_handler Deploy = ProcessDeploy"
| "run_handler Mint = ProcessMint"
| "run_handler InscribeTransfer = ProcessInscribeTransfer"
| "run_handler CreateModule = ProcessCreateModule"
| "run_handler InscribeWithdraw = ProcessInscribeWithdraw"
| "run_handler InscribeApprove = ProcessInscribeApprove"
| "run_handler InscribeConditionalApprove = ProcessInscribeConditionalApprove"
| "run_handler InscribeCommit = ProcessInscribeCommit"

definition inscribe_event :: "ext \<Rightarrow> BRC20ModuleIndexer \<Rightarrow> InscriptionBRC20Data \<Rightarrow> BRC20ModuleIndexer option" where
  "inscribe_event e g data =
     (if d_Satoshi data = 0 then Some g
      else if \<not> isJson (d_ContentBody data) then Some g
      else (case ProtocalContent_Unmarshal e (d_ContentBody data) of
          None \<Rightarrow> Some g
        | Some body \<Rightarrow>
            (case handler_of body of
               None \<Rightarrow> Some g
             | Some h \<Rightarrow> mark_durty (run_handler h e g data))))"

definition process_event ::
    "ext \<Rightarrow> SwapFunctionResultCheckState option list option \<Rightarrow> BRC20ModuleIndexer \<Rightarrow> InscriptionBRC20Data \<Rightarrow> BRC20ModuleIndexer option" where
  "process_event e ext_results g data =
     (let g = g\<lparr>g_BestHeight := d_Height data\<rparr> in
      if d_IsTransfer data then move_event e ext_results g data else inscribe_event e g data)"

fun process_events ::
    "ext \<Rightarrow> SwapFunctionResultCheckState option list option \<Rightarrow> InscriptionBRC20Data list \<Rightarrow> BRC20ModuleIndexer \<Rightarrow> BRC20ModuleIndexer option" where
  "process_events e ext_results [] g = Some g"
| "process_events e ext_results (data # datas) g =
     do { g \<leftarrow> process_event e ext_results g data; process_events e ext_results datas g }"

text \<open>A holder is dropped from a token's holders when both of its balances are zero.\<close>

definition holder_is_empty :: "BRC20ModuleIndexer \<Rightarrow> string \<Rightarrow> string \<Rightarrow> bool" where
  "holder_is_empty g lt key =
     (case balance_of g key lt of
        None \<Rightarrow> False
      | Some b \<Rightarrow> Decimal_Sign (tb_AvailableBalance b) = 0 \<and> Decimal_Sign (tb_TransferableBalance b) = 0)"

definition clean_holders :: "BRC20ModuleIndexer \<Rightarrow> BRC20ModuleIndexer" where
  "clean_holders g =
     g\<lparr>g_TokenUsersBalanceData := (\<lambda>lt. map_option (\<lambda>users. {u \<in> users. \<not> holder_is_empty g lt u}) (g_TokenUsersBalanceData g lt))\<rparr>"

text \<open>
  The channel delivers a list of events; \<open>None\<close> is the \<open>nil\<close> channel. The copy of each event to
  the dump channel is left out.
\<close>

definition ProcessUpdateLatestBRC20Loop ::
    "ext \<Rightarrow> SwapFunctionResultCheckState option list option \<Rightarrow> BRC20ModuleIndexer \<Rightarrow> InscriptionBRC20Data list option \<Rightarrow>
     BRC20ModuleIndexer option" where
  "ProcessUpdateLatestBRC20Loop e ext_results g brc20Datas =
     (case brc20Datas of
        None \<Rightarrow> Some g
      | Some datas \<Rightarrow> do {
          g \<leftarrow> process_events e ext_results datas (g\<lparr>g_Durty := False\<rparr>);
          Some (clean_holders g) })"

text \<open>
  \<open>PurgeHistoricalData\<close> of \<open>indexer/store.go\<close>: what was only needed for the block just saved. The map of
  moved conditional approvals is never written by the indexer and not part of the state.
\<close>

definition PurgeHistoricalData :: "BRC20ModuleIndexer \<Rightarrow> BRC20ModuleIndexer" where
  "PurgeHistoricalData g = g
     \<lparr>g_AllHistory := [], g_InscriptionsTransferRemoveMap := Map.empty, g_InscriptionsApproveRemoveMap := Map.empty,
      g_InscriptionsCommitRemoveMap := Map.empty\<rparr>"

end
