(* ===== verification/Ledger.thy ===== *)
theory Ledger
  imports Indexer_Loop
begin

text \<open>
  The ledgers of the program, abstracted to functions from users to integers, and the sums that the
  conservation theorems are about. The locale \<open>account_book\<close> states what a store of balances
  promises (writing one account changes that account only); it is interpreted on the base balances
  of a token, on the module's balances of a token and on the LP balances of a pool.
\<close>

section \<open>Sums over all accounts\<close>

definition accounts :: "('u \<Rightarrow> int) \<Rightarrow> 'u set" where
  "accounts f = {u. f u \<noteq> 0}"

definition total_of :: "('u \<Rightarrow> int) \<Rightarrow> int" where
  "total_of f = sum f (accounts f)"

lemma accounts_upd: "accounts (f(u := x)) \<subseteq> insert u (accounts f)"
  by (auto simp: accounts_def)

lemma finite_accounts_upd [simp]: "finite (accounts f) \<Longrightarrow> finite (accounts (f(u := x)))"
  by (rule finite_subset [OF accounts_upd]) simp

lemma total_on: "finite S \<Longrightarrow> accounts f \<subseteq> S \<Longrightarrow> total_of f = sum f S"
  unfolding total_of_def by (rule sum.mono_neutral_left) (auto simp: accounts_def)

lemma total_upd: "finite (accounts f) \<Longrightarrow> total_of (f(u := x)) = total_of f - f u + x"
proof -
  assume fin: "finite (accounts f)"
  let ?S = "insert u (accounts f)"
  have "total_of (f(u := x)) = sum (f(u := x)) ?S"
    by (rule total_on) (simp_all add: fin accounts_upd)
  also have "\<dots> = x + sum f (?S - {u})"
    using fin by (simp add: sum.remove [of ?S u])
  also have "sum f (?S - {u}) = sum f ?S - f u"
    using fin by (subst sum_diff1) auto
  also have "sum f ?S = total_of f"
    by (rule total_on [symmetric]) (use fin in auto)
  finally show ?thesis by linarith
qed

lemma total_zero [simp]: "total_of (\<lambda>u. 0) = 0" "accounts (\<lambda>u. 0) = {}"
  by (simp_all add: total_of_def accounts_def)

lemma total_nonneg: "(\<And>u. 0 \<le> f u) \<Longrightarrow> 0 \<le> total_of f"
  unfolding total_of_def by (rule sum_nonneg)

lemma account_le_total: "finite (accounts f) \<Longrightarrow> (\<And>u. 0 \<le> f u) \<Longrightarrow> f u \<le> total_of f"
  unfolding total_of_def by (cases "u \<in> accounts f") (auto intro: member_le_sum sum_nonneg simp: accounts_def)

section \<open>Stores of balances\<close>

locale account_book =
  fixes bal :: "'s \<Rightarrow> 'u \<Rightarrow> int"
    and put :: "'s \<Rightarrow> 'u \<Rightarrow> 'x \<Rightarrow> 's"
    and val :: "'x \<Rightarrow> int"
  assumes bal_put: "bal (put s u x) = (bal s)(u := val x)"
begin

lemma put_total: "finite (accounts (bal s)) \<Longrightarrow> total_of (bal (put s u x)) = total_of (bal s) - bal s u + val x"
  by (simp add: bal_put total_upd)

lemma put_finite: "finite (accounts (bal s)) \<Longrightarrow> finite (accounts (bal (put s u x)))"
  by (simp add: bal_put)

text \<open>Two writes, of a debit and of a credit of the same amount, in the same or in two accounts.\<close>

lemma move_total:
  assumes "finite (accounts (bal s))" and "val x = bal s u - a" and "val y = bal (put s u x) v + a"
  shows "total_of (bal (put (put s u x) v y)) = total_of (bal s)"
  using assms by (simp add: bal_put total_upd)

lemma move_bal:
  assumes "val x = bal s u - a" and "val y = bal (put s u x) v + a"
  shows "bal (put (put s u x) v y) = (let b = (bal s)(u := bal s u - a) in b(v := b v + a))"
  using assms by (simp add: bal_put Let_def)

end

text \<open>The base balance of a user: what is available and what is bound in transfer inscriptions.\<close>

definition overall :: "BRC20TokenBalance \<Rightarrow> int" where
  "overall b = decval (tb_AvailableBalance b) + decval (tb_TransferableBalance b)"

definition holding :: "string \<Rightarrow> BRC20ModuleIndexer \<Rightarrow> string \<Rightarrow> int" where
  "holding lt g u = (case balance_of g u lt of None \<Rightarrow> 0 | Some b \<Rightarrow> overall b)"

lemma balance_of_set_balance [simp]:
  "balance_of (set_balance g u lt b) u' lt' = (if u = u' \<and> lt = lt' then Some b else balance_of g u' lt')"
  by (auto simp: balance_of_def set_balance_def split: option.splits)

interpretation base_book: account_book "holding lt" "\<lambda>g u b. set_balance g u lt b" overall for lt :: string
  by unfold_locales (auto simp: holding_def fun_eq_iff)

text \<open>The swap balance of a user in a module.\<close>

definition swap_holding :: "string \<Rightarrow> BRC20ModuleSwapInfo \<Rightarrow> string \<Rightarrow> int" where
  "swap_holding lt m u = (case user_balance m u lt of None \<Rightarrow> 0 | Some b \<Rightarrow> decval (mb_SwapAccountBalance b))"

lemma user_balance_set [simp]:
  "user_balance (set_user_balance m u lt b) u' lt' = (if u = u' \<and> lt = lt' then Some b else user_balance m u' lt')"
  by (auto simp: user_balance_def set_user_balance_def split: option.splits)

interpretation swap_book: account_book "swap_holding lt" "\<lambda>m u b. set_user_balance m u lt b"
    "\<lambda>b. decval (mb_SwapAccountBalance b)" for lt :: string
  by unfold_locales (auto simp: swap_holding_def fun_eq_iff)

text \<open>Everything a user has in a module, the balances waiting for an approval included.\<close>

definition module_overall :: "BRC20ModuleTokenBalance \<Rightarrow> int" where
  "module_overall b = decval (mb_SwapAccountBalance b) + decval (mb_AvailableBalance b) +
     decval (mb_ApproveableBalance b) + decval (mb_CondApproveableBalance b)"

definition module_holding :: "string \<Rightarrow> BRC20ModuleSwapInfo \<Rightarrow> string \<Rightarrow> int" where
  "module_holding lt m u = (case user_balance m u lt of None \<Rightarrow> 0 | Some b \<Rightarrow> module_overall b)"

interpretation module_book: account_book "module_holding lt" "\<lambda>m u b. set_user_balance m u lt b" module_overall for lt :: string
  by unfold_locales (auto simp: module_holding_def fun_eq_iff)

text \<open>The LP balances of a pool.\<close>

definition lp_holding :: "string \<Rightarrow> BRC20ModuleSwapInfo \<Rightarrow> string \<Rightarrow> int" where
  "lp_holding pair m u = decval (lp_of_pool m pair u)"

lemma lp_entry_put [simp]: "lp_entry (put_lp_entry a b d t) a' b' = (if a = a' \<and> b = b' then d else lp_entry t a' b')"
  by (auto simp: lp_entry_def put_lp_entry_def split: option.splits)

lemma lp_of_pool_set [simp]:
  "lp_of_pool (set_lp_of_pool pair u d m) pair' u' = (if pair = pair' \<and> u = u' then d else lp_of_pool m pair' u')"
  "lp_of_pool (set_lp_of_user u pair d m) pair' u' = lp_of_pool m pair' u'"
  "lp_of_user (set_lp_of_user u pair d m) u' pair' = (if pair = pair' \<and> u = u' then d else lp_of_user m u' pair')"
  "lp_of_user (set_lp_of_pool pair u d m) u' pair' = lp_of_user m u' pair'"
  by (auto simp: lp_of_pool_def lp_of_user_def set_lp_of_pool_def set_lp_of_user_def)

interpretation lp_book: account_book "lp_holding pair" "\<lambda>m u d. set_lp_of_pool pair u d m" decval for pair :: string
  by unfold_locales (auto simp: lp_holding_def fun_eq_iff)

end
