(* ===== verification/Token_Spec.thy ===== *)
theory Token_Spec
  imports Ledger
begin

text \<open>
  The abstract specification of a token: a state machine over integers, without precisions,
  pointers, histories or panics. A token has a cap, the amount minted, and for each user the
  available amount and the pending transfer inscriptions; the amount bound in them is kept
  separately, as the program does, and \<open>token_ok\<close> says that the two agree.
\<close>

record token =
  tok_cap :: int
  tok_minted :: int
  tok_avail :: "string \<Rightarrow> int"
  tok_bound :: "string \<Rightarrow> int"
  tok_pending :: "string \<Rightarrow> string \<rightharpoonup> int" \<comment> \<open>user, key of the inscription\<close>

datatype token_op =
    OpDeploy int \<comment> \<open>cap\<close>
  | OpMint string int \<comment> \<open>receiver, requested amount\<close>
  | OpBind string string int \<comment> \<open>owner, key, amount of a transfer inscription\<close>
  | OpMove string string string \<comment> \<open>owner, key, receiver\<close>

definition new_token :: "int \<Rightarrow> token" where
  "new_token cap = \<lparr>tok_cap = cap, tok_minted = 0, tok_avail = (\<lambda>u. 0), tok_bound = (\<lambda>u. 0), tok_pending = (\<lambda>u. Map.empty)\<rparr>"

fun token_step :: "token_op \<Rightarrow> token option \<Rightarrow> token option" where
  "token_step (OpDeploy cap) None = Some (new_token cap)"
| "token_step (OpMint u amt) (Some t) =
     (let d = min amt (tok_cap t - tok_minted t) in
      Some (t\<lparr>tok_minted := tok_minted t + d, tok_avail := (tok_avail t)(u := tok_avail t u + d)\<rparr>))"
| "token_step (OpBind u k amt) (Some t) =
     Some (t\<lparr>tok_avail := (tok_avail t)(u := tok_avail t u - amt), tok_bound := (tok_bound t)(u := tok_bound t u + amt),
             tok_pending := (tok_pending t)(u := (tok_pending t u)(k \<mapsto> amt))\<rparr>)"
| "token_step (OpMove u k v) (Some t) =
     (case tok_pending t u k of
        None \<Rightarrow> Some t
      | Some a \<Rightarrow> Some (t\<lparr>tok_bound := (tok_bound t)(u := tok_bound t u - a),
                           tok_pending := (tok_pending t)(u := (tok_pending t u)(k := None)),
                           tok_avail := (tok_avail t)(v := tok_avail t v + a)\<rparr>))"
| "token_step _ t = t"

text \<open>The guards: what the program checks before it takes the step.\<close>

fun token_guard :: "token_op \<Rightarrow> token option \<Rightarrow> bool" where
  "token_guard (OpDeploy cap) t = (0 \<le> cap)"
| "token_guard (OpMint u amt) t = (0 \<le> amt)"
| "token_guard (OpBind u k amt) (Some t) = (0 \<le> amt \<and> amt \<le> tok_avail t u \<and> tok_pending t u k = None)"
| "token_guard _ t = True"

definition pend_amt :: "(string \<rightharpoonup> int) \<Rightarrow> string \<Rightarrow> int" where
  "pend_amt p k = (case p k of None \<Rightarrow> 0 | Some a \<Rightarrow> a)"

definition token_ok :: "token \<Rightarrow> bool" where
  "token_ok t \<longleftrightarrow>
     0 \<le> tok_minted t \<and> tok_minted t \<le> tok_cap t \<and>
     finite (accounts (tok_avail t)) \<and> finite (accounts (tok_bound t)) \<and>
     total_of (tok_avail t) + total_of (tok_bound t) = tok_minted t \<and>
     (\<forall>u. 0 \<le> tok_avail t u \<and> finite (accounts (pend_amt (tok_pending t u))) \<and>
          (\<forall>k. 0 \<le> pend_amt (tok_pending t u) k) \<and> tok_bound t u = total_of (pend_amt (tok_pending t u)))"

lemma pend_amt_upd [simp]:
  "pend_amt (p(k \<mapsto> a)) = (pend_amt p)(k := a)" "pend_amt (p(k := None)) = (pend_amt p)(k := 0)"
  "pend_amt Map.empty = (\<lambda>k. 0)"
  by (auto simp: pend_amt_def fun_eq_iff)

lemma pend_amt_Some: "p k = Some a \<Longrightarrow> pend_amt p k = a"
  by (simp add: pend_amt_def)

lemma token_ok_new: "0 \<le> cap \<Longrightarrow> token_ok (new_token cap)"
  by (simp add: token_ok_def new_token_def)

lemma token_ok_mint:
  assumes "token_ok t" "0 \<le> amt"
  shows "token_ok (the (token_step (OpMint u amt) (Some t)))"
  using assms by (auto simp: token_ok_def Let_def total_upd)

lemma token_ok_bind:
  assumes "token_ok t" "0 \<le> amt" "amt \<le> tok_avail t u" "tok_pending t u k = None"
  shows "token_ok (the (token_step (OpBind u k amt) (Some t)))"
proof -
  have "pend_amt (tok_pending t u) k = 0" using assms(4) by (simp add: pend_amt_def)
  with assms show ?thesis by (auto simp: token_ok_def total_upd)
qed

lemma token_ok_move:
  assumes "token_ok t" "tok_pending t u k = Some a"
  shows "token_ok (the (token_step (OpMove u k v) (Some t)))"
proof -
  have k: "pend_amt (tok_pending t u) k = a" using assms(2) by (rule pend_amt_Some)
  then have "0 \<le> a" using assms(1) by (auto simp: token_ok_def)
  with assms k show ?thesis by (auto simp: token_ok_def total_upd)
qed

text \<open>Every step the guards allow keeps the token in order.\<close>

lemma token_ok_step:
  assumes "\<forall>t. s = Some t \<longrightarrow> token_ok t" "token_guard op s" "token_step op s = Some t'"
  shows "token_ok t'"
  using assms token_ok_new token_ok_mint token_ok_bind token_ok_move
  by (cases "(op, s)" rule: token_step.cases) (auto simp: Let_def split: option.splits)

text \<open>A token in order has no negative balance, and no user has more than was minted.\<close>

lemma token_okD:
  assumes "token_ok t"
  shows "0 \<le> tok_avail t u" "0 \<le> tok_bound t u" "total_of (tok_avail t) + total_of (tok_bound t) = tok_minted t"
    "0 \<le> tok_minted t" "tok_minted t \<le> tok_cap t" "tok_bound t u = total_of (pend_amt (tok_pending t u))"
  using assms by (auto simp: token_ok_def intro!: total_nonneg)

end
