(* ===== verification/Brc20_Props.thy ===== *)
theory Brc20_Props
  imports Token_Spec
begin

text \<open>
  Correctness of the base protocol: what deploy, mint, inscribe-transfer and transfer do to the
  ledger of each token, seen through \<open>view\<close>, which forgets histories and statistics and does
  not distinguish an empty balance from a missing one.
\<close>

section \<open>The view of the ledger\<close>

definition bal_core :: "BRC20TokenBalance \<Rightarrow> decp \<times> decp \<times> (string \<rightharpoonup> InscriptionBRC20TickInfo)" where
  "bal_core b = (tb_AvailableBalance b, tb_TransferableBalance b, tb_ValidTransferMap b)"

definition token_core :: "BRC20TokenInfo \<Rightarrow> string \<times> decp \<times> decp \<times> decp \<times> u8" where
  "token_core t = (tk_Ticker t, ti_TotalMinted (tk_Deploy t), ti_Max (tk_Deploy t), ti_Limit (tk_Deploy t), ti_Decimal (tk_Deploy t))"

definition bview :: "BRC20ModuleIndexer \<Rightarrow> string \<Rightarrow> string \<Rightarrow> decp \<times> decp \<times> (string \<rightharpoonup> InscriptionBRC20TickInfo)" where
  "bview g u lt = (case balance_of g u lt of None \<Rightarrow> (None, None, Map.empty) | Some b \<Rightarrow> bal_core b)"

definition tview :: "BRC20ModuleIndexer \<Rightarrow> string \<Rightarrow> (string \<times> decp \<times> decp \<times> decp \<times> u8) option" where
  "tview g lt = map_option token_core (g_InscriptionsTickerInfoMap g lt)"

definition view :: "BRC20ModuleIndexer \<Rightarrow> (string \<Rightarrow> string \<Rightarrow> decp \<times> decp \<times> (string \<rightharpoonup> InscriptionBRC20TickInfo)) \<times>
    (string \<Rightarrow> (string \<times> decp \<times> decp \<times> decp \<times> u8) option) \<times> (string \<rightharpoonup> u32) option \<times> (string \<rightharpoonup> InscriptionBRC20TickInfo)" where
  "view g = (bview g, tview g, g_InscriptionsWithdrawRemoveMap g, g_InscriptionsValidTransferMap g)"

lemma viewD:
  assumes "view g' = view g"
  shows "bview g' = bview g" "tview g' = tview g" "g_InscriptionsWithdrawRemoveMap g' = g_InscriptionsWithdrawRemoveMap g"
    "g_InscriptionsValidTransferMap g' = g_InscriptionsValidTransferMap g"
  using assms by (simp_all add: view_def)

lemma holding_bview: "holding lt g u = (case bview g u lt of (a, t, _) \<Rightarrow> decval a + decval t)"
  by (simp add: holding_def bview_def overall_def bal_core_def split: option.splits)

lemma holding_cong: "bview g' = bview g \<Longrightarrow> holding lt g' = holding lt g"
  by (simp add: holding_bview fun_eq_iff)

text \<open>What does not touch the ledger.\<close>

lemma bview_fields [simp]:
  "bview (g\<lparr>g_InscriptionsTickerInfoMap := a\<rparr>) = bview g" "bview (g\<lparr>g_TokenUsersBalanceData := b\<rparr>) = bview g"
  "bview (g\<lparr>g_InscriptionsValidTransferMap := c\<rparr>) = bview g" "bview (g\<lparr>g_InscriptionsInvalidTransferMap := c\<rparr>) = bview g"
  "bview (g\<lparr>g_InscriptionsValidBRC20DataMap := d\<rparr>) = bview g" "bview (g\<lparr>g_AllHistory := h\<rparr>) = bview g"
  "bview (g\<lparr>g_UserAllHistory := i\<rparr>) = bview g" "bview (g\<lparr>g_HistoryData := j\<rparr>) = bview g"
  "bview (g\<lparr>g_HistoryCount := k\<rparr>) = bview g" "bview (g\<lparr>g_FirstHistoryByHeight := l\<rparr>) = bview g"
  "bview (g\<lparr>g_LastHistoryHeight := m\<rparr>) = bview g"
  by (simp_all add: bview_def balance_of_def fun_eq_iff)

lemma tview_fields [simp]:
  "tview (g\<lparr>g_UserTokensBalanceData := a\<rparr>) = tview g" "tview (g\<lparr>g_TokenUsersBalanceData := b\<rparr>) = tview g"
  "tview (g\<lparr>g_InscriptionsValidTransferMap := c\<rparr>) = tview g" "tview (g\<lparr>g_InscriptionsInvalidTransferMap := c\<rparr>) = tview g"
  "tview (g\<lparr>g_InscriptionsValidBRC20DataMap := d\<rparr>) = tview g" "tview (g\<lparr>g_AllHistory := h\<rparr>) = tview g"
  "tview (g\<lparr>g_UserAllHistory := i\<rparr>) = tview g" "tview (g\<lparr>g_HistoryData := j\<rparr>) = tview g"
  "tview (g\<lparr>g_HistoryCount := k\<rparr>) = tview g" "tview (g\<lparr>g_FirstHistoryByHeight := l\<rparr>) = tview g"
  "tview (g\<lparr>g_LastHistoryHeight := m\<rparr>) = tview g"
  by (simp_all add: tview_def fun_eq_iff)

lemma view_append_user_history [simp]: "view (append_user_history pk h g) = view g"
  by (simp add: view_def append_user_history_def GetBRC20HistoryByUser_def Let_def split: option.splits)

lemma view_append_all_history [simp]: "view (append_all_history h g) = view g"
  by (simp add: view_def append_all_history_def)

lemma view_UpdateHistory: "UpdateHistoryHeightAndGetHistoryIndex g h = Some (i, g') \<Longrightarrow> view g' = view g"
  by (auto simp: UpdateHistoryHeightAndGetHistoryIndex_def Let_def bind_Some_iff view_def split: if_splits)

lemma view_upd_ticker: "(\<And>t. token_core (f t) = token_core t) \<Longrightarrow> view (upd_ticker lt f g) = view g"
  by (simp add: view_def upd_ticker_def tview_def fun_eq_iff option.map_comp comp_def)

lemma bview_set_balance [simp]: "bview (set_balance g u lt b) = (bview g)(u := (bview g u)(lt := bal_core b))"
  by (simp add: bview_def fun_eq_iff)

lemma tview_set_balance [simp]: "tview (set_balance g u lt b) = tview g"
  by (simp add: set_balance_def)

lemma set_balance_fields [simp]:
  "g_InscriptionsWithdrawRemoveMap (set_balance g u lt b) = g_InscriptionsWithdrawRemoveMap g"
  "g_InscriptionsValidTransferMap (set_balance g u lt b) = g_InscriptionsValidTransferMap g"
  "g_InscriptionsTickerInfoMap (set_balance g u lt b) = g_InscriptionsTickerInfoMap g"
  "g_EnableHistory (set_balance g u lt b) = g_EnableHistory g"
  by (simp_all add: set_balance_def)

lemma view_set_balance:
  "view (set_balance g u lt b) = ((bview g)(u := (bview g u)(lt := bal_core b)), tview g,
     g_InscriptionsWithdrawRemoveMap g, g_InscriptionsValidTransferMap g)"
  by (simp add: view_def)

lemma view_set_balance_same:
  "balance_of g u lt = Some b \<Longrightarrow> bal_core b' = bal_core b \<Longrightarrow> view (set_balance g u lt b') = view g"
proof -
  assume b: "balance_of g u lt = Some b" and c: "bal_core b' = bal_core b"
  then have "(bview g u)(lt := bal_core b') = bview g u"
    by (simp add: bview_def fun_eq_iff)
  then show ?thesis by (simp add: view_set_balance view_def)
qed

lemma view_upd_balance: "(\<And>b. bal_core (f b) = bal_core b) \<Longrightarrow> view (upd_balance u lt f g) = view g"
  by (auto simp: view_def upd_balance_def bview_def fun_eq_iff split: option.splits)

lemmas view_history = view_UpdateHistory view_upd_ticker view_upd_balance bal_core_def token_core_def

text \<open>The pieces of the handlers that only write history.\<close>

lemma view_mint_invalid: "mint_invalid g lt key mi b d = Some (err, g') \<Longrightarrow> view g' = view g"
  by (auto simp: mint_invalid_def bind_Some_iff Let_def view_history split: if_splits dest: view_UpdateHistory)

lemma view_transfer_global_history: "transfer_global_history g lt ti iv d = Some g' \<Longrightarrow> view g' = view g"
  by (auto simp: transfer_global_history_def bind_Some_iff Let_def view_history split: if_splits dest: view_UpdateHistory)

lemma view_transfer_send_history: "transfer_send_history g pk lt ti v d = Some g' \<Longrightarrow> view g' = view g"
  by (auto simp: transfer_send_history_def bind_Some_iff Let_def view_history split: if_splits dest: view_UpdateHistory)

lemma view_inscribe_transfer_history: "inscribe_transfer_history g lt ti b v d = Some g' \<Longrightarrow> view g' = view g"
  by (auto simp: inscribe_transfer_history_def bind_Some_iff Let_def view_history split: if_splits dest!: view_UpdateHistory)

lemma view_GetUserTokenBalance:
  "GetUserTokenBalance e g tick pk = Some (b, g') \<Longrightarrow>
     view g' = view g \<and> balance_of g' pk (ToLower e tick) = Some b \<and> bal_core b = bview g pk (ToLower e tick) \<and>
     g_InscriptionsTickerInfoMap g' = g_InscriptionsTickerInfoMap g"
proof -
  let ?lt = "ToLower e tick"
  assume "GetUserTokenBalance e g tick pk = Some (b, g')"
  then obtain users where b: "b = (case balance_of g pk ?lt of None \<Rightarrow> new_token_balance tick pk | Some b \<Rightarrow> b)"
    and g': "g' = (set_balance g pk ?lt b)\<lparr>g_TokenUsersBalanceData := (g_TokenUsersBalanceData g)(?lt \<mapsto> insert pk users)\<rparr>"
    by (auto simp: GetUserTokenBalance_def Let_def set_balance_def split: option.splits)
  have core: "bal_core b = bview g pk ?lt"
    by (simp add: b bview_def bal_core_def new_token_balance_def split: option.splits)
  have "balance_of g' pk ?lt = balance_of (set_balance g pk ?lt b) pk ?lt"
    by (simp add: g' balance_of_def)
  with core show ?thesis
    by (simp add: g' view_def)
qed

lemma view_GetUser: "GetUserTokenBalance e g tick pk = Some (b, g') \<Longrightarrow> view g' = view g"
  using view_GetUserTokenBalance by blast

section \<open>Mint\<close>

text \<open>The effect of a mint on the view: the receiver's available balance and the tot grow by \<open>minted\<close>.\<close>

definition minted_view :: "BRC20ModuleIndexer \<Rightarrow> BRC20ModuleIndexer \<Rightarrow> string \<Rightarrow> string \<Rightarrow> string \<Rightarrow> decp \<Rightarrow> bool" where
  "minted_view g g' lt key pk minted \<longleftrightarrow>
     (\<exists>a tr vm a' ticker tot mx lim dc tot'.
        bview g pk key = (a, tr, vm) \<and> Decimal_Add a minted = Some a' \<and>
        bview g' = (bview g)(pk := (bview g pk)(key := (a', tr, vm))) \<and>
        tview g lt = Some (ticker, tot, mx, lim, dc) \<and> Decimal_Add tot minted = Some tot' \<and>
        tview g' = (tview g)(lt := Some (ticker, tot', mx, lim, dc)) \<and>
        g_InscriptionsWithdrawRemoveMap g' = g_InscriptionsWithdrawRemoveMap g \<and>
        g_InscriptionsValidTransferMap g' = g_InscriptionsValidTransferMap g)"

lemma mint_confirmed_core:
  "mint_confirmed e tinfo minted d = Some tinfo' \<Longrightarrow>
     ti_TotalMinted tinfo' = ti_TotalMinted tinfo \<and> ti_Max tinfo' = ti_Max tinfo \<and>
     ti_Limit tinfo' = ti_Limit tinfo \<and> ti_Decimal tinfo' = ti_Decimal tinfo"
  by (cases "0 < d_BlockTime d") (auto simp: mint_confirmed_def bind_Some_iff)

lemma mint_tinfo_core:
  "mint_tinfo e tinfo minted d = Some tinfo' \<Longrightarrow>
     Decimal_Add (ti_TotalMinted tinfo) minted = Some (ti_TotalMinted tinfo') \<and> ti_Max tinfo' = ti_Max tinfo \<and>
     ti_Limit tinfo' = ti_Limit tinfo \<and> ti_Decimal tinfo' = ti_Decimal tinfo"
  unfolding mint_tinfo_def Let_def bind_Some_iff
  by (elim exE conjE) (drule mint_confirmed_core, auto split: if_splits)

text \<open>The amount that a mint of \<open>amt\<close> yields: what is left, if that is less.\<close>

lemma mint_amount:
  assumes "Decimal_Add tot amt = Some s" "Decimal_Cmp s mx = Some c"
    "(if c > 0 then Decimal_Sub mx tot else Some (NewDecimalCopy amt)) = Some minted"
  shows "decval minted = min (decval amt) (decval mx - decval tot)"
  using assms Decimal_Add_val [OF assms(1)] Decimal_Cmp_val [OF assms(2)]
  by (auto split: if_splits dest: Decimal_Sub_val)

lemma mint_precision:
  assumes "Decimal_Add tot amt = Some s" "Decimal_Cmp s mx = Some c"
    "(if c > 0 then Decimal_Sub mx tot else Some (NewDecimalCopy amt)) = Some minted"
    and "mx \<noteq> None" "dec_ok p mx" "dec_ok p tot"
  shows "dec_ok p minted"
  using assms
  by (cases tot; cases amt; cases mx)
     (auto simp: Decimal_Add_def Decimal_Cmp_def Decimal_Sub_def NewDecimalCopy_def split: if_splits)

lemma upd_ticker_core_view:
  assumes "tview g lt = Some (ticker, tot, mx, lim, dc)"
    and "\<And>t. token_core (f t) = (tk_Ticker t, tot', mx, lim, dc)"
  shows "tview (upd_ticker lt f g) = (tview g)(lt := Some (ticker, tot', mx, lim, dc))"
  using assms by (auto simp: tview_def upd_ticker_def fun_eq_iff token_core_def)

lemma bview_upd_ticker [simp]: "bview (upd_ticker lt f g) = bview g"
  by (simp add: upd_ticker_def)

lemma upd_ticker_fields [simp]:
  "g_InscriptionsWithdrawRemoveMap (upd_ticker lt f g) = g_InscriptionsWithdrawRemoveMap g"
  "g_InscriptionsValidTransferMap (upd_ticker lt f g) = g_InscriptionsValidTransferMap g"
  "balance_of (upd_ticker lt f g) u l = balance_of g u l"
  by (simp_all add: upd_ticker_def balance_of_def)

lemma mint_history_view:
  "mint_history g lt key mi b d = Some (err, g') \<Longrightarrow> view g' = view g"
  by (auto simp: mint_history_def bind_Some_iff Let_def view_history split: if_splits dest: view_UpdateHistory)

lemma mint_valid_view:
  assumes r: "mint_valid e g lt key tinfo mi amt d = Some (err, g')"
    and t: "g_InscriptionsTickerInfoMap g lt = Some t" "tinfo = tk_Deploy t"
  shows "\<exists>minted. decval minted = min (decval amt) (decval (ti_Max tinfo) - decval (ti_TotalMinted tinfo)) \<and>
    (\<forall>p. ti_Max tinfo \<noteq> None \<longrightarrow> dec_ok p (ti_Max tinfo) \<longrightarrow> dec_ok p (ti_TotalMinted tinfo) \<longrightarrow> dec_ok p minted) \<and>
    minted_view g g' lt key (d_PkScript d) minted"
proof -
  from r obtain s c minted tinfo' ms bal safe av where
    st: "Decimal_Add (ti_TotalMinted tinfo) amt = Some s" "Decimal_Cmp s (ti_Max tinfo) = Some c"
      "(if c > 0 then Decimal_Sub (ti_Max tinfo) (ti_TotalMinted tinfo) else Some (NewDecimalCopy amt)) = Some minted"
    and ti: "mint_tinfo e tinfo minted d = Some tinfo'"
    and b: "balance_of g (d_PkScript d) key = Some bal" and av: "Decimal_Add (tb_AvailableBalance bal) minted = Some av"
    and h: "view g' = view (set_balance (upd_ticker lt (\<lambda>t. t\<lparr>tk_UpdateHeight := d_Height d, tk_Deploy := tinfo'\<rparr>) g)
        (d_PkScript d) key (bal\<lparr>tb_AvailableBalanceSafe := safe, tb_AvailableBalance := av\<rparr>))"
    unfolding mint_valid_def Let_def bind_Some_iff upd_ticker_fields
    by (elim exE conjE) (drule mint_history_view, assumption | blast)+
  have tv: "tview g lt = Some (tk_Ticker t, ti_TotalMinted tinfo, ti_Max tinfo, ti_Limit tinfo, ti_Decimal tinfo)"
    using t by (simp add: tview_def token_core_def)
  have "minted_view g g' lt key (d_PkScript d) minted"
    unfolding minted_view_def
    using viewD [OF h] tv b av mint_tinfo_core [OF ti]
    by (simp add: bview_def bal_core_def upd_ticker_core_view [OF tv] token_core_def)
  with mint_amount [OF st] mint_precision [OF st] show ?thesis by blast
qed

lemma ProcessMint_view:
  assumes "ProcessMint e g d = Some (err, g')"
  shows "view g' = view g \<or>
    (\<exists>lt t amt minted. g_InscriptionsTickerInfoMap g lt = Some t \<and> 0 < decval amt \<and>
       decval minted = min (decval amt) (decval (ti_Max (tk_Deploy t)) - decval (ti_TotalMinted (tk_Deploy t))) \<and>
       (\<forall>p. ti_Max (tk_Deploy t) \<noteq> None \<longrightarrow> dec_ok p (ti_Max (tk_Deploy t)) \<longrightarrow> dec_ok p (ti_TotalMinted (tk_Deploy t)) \<longrightarrow> dec_ok p minted) \<and>
       minted_view g g' lt (ToLower e (tk_Ticker t)) (d_PkScript d) minted)"
proof (cases "view g' = view g")
  case False
  obtain lt t amt b g1 mi where
    t: "g_InscriptionsTickerInfoMap g lt = Some t" and pos: "0 < decval (Some amt)"
    and g1: "GetUserTokenBalance e g (tk_Ticker t) (d_PkScript d) = Some (b, g1)"
    and r: "mint_valid e (upd_balance (d_PkScript d) (ToLower e (tk_Ticker t)) (\<lambda>b. b\<lparr>tb_UpdateHeight := d_Height d\<rparr>) g1)
              lt (ToLower e (tk_Ticker t)) (tk_Deploy t) mi (Some amt) d = Some (err, g')"
  proof -
    note assms [unfolded ProcessMint_def Let_def]
    with False that show thesis
      by (auto simp: view_upd_balance bal_core_def not_le elim!: bind_SomeE
          split: option.splits sum.splits if_splits dest!: view_mint_invalid) (use view_GetUser in blast)+
  qed
  let ?g2 = "upd_balance (d_PkScript d) (ToLower e (tk_Ticker t)) (\<lambda>b. b\<lparr>tb_UpdateHeight := d_Height d\<rparr>) g1"
  have v: "view ?g2 = view g"
    using view_GetUserTokenBalance [OF g1] by (simp add: view_upd_balance bal_core_def)
  have t2: "g_InscriptionsTickerInfoMap ?g2 lt = Some t"
    using view_GetUserTokenBalance [OF g1] t by (simp add: upd_balance_def split: option.splits)
  from mint_valid_view [OF r t2 refl] obtain minted where
    m: "decval minted = min (decval (Some amt)) (decval (ti_Max (tk_Deploy t)) - decval (ti_TotalMinted (tk_Deploy t)))"
    and p: "\<forall>p. ti_Max (tk_Deploy t) \<noteq> None \<longrightarrow> dec_ok p (ti_Max (tk_Deploy t)) \<longrightarrow> dec_ok p (ti_TotalMinted (tk_Deploy t)) \<longrightarrow> dec_ok p minted"
    and mv: "minted_view ?g2 g' lt (ToLower e (tk_Ticker t)) (d_PkScript d) minted" by blast
  from mv have "minted_view g g' lt (ToLower e (tk_Ticker t)) (d_PkScript d) minted"
    using viewD [OF v] by (simp add: minted_view_def)
  with t pos m p show ?thesis by blast
qed simp

section \<open>Modules leave the ledger alone\<close>

lemma view_set_module [simp]: "view (set_module g k m) = view g"
  by (simp add: view_def set_module_def bview_def tview_def balance_of_def fun_eq_iff)

lemma view_module_fields [simp]:
  "view (g\<lparr>g_TransferHeap := a\<rparr>) = view g" "view (g\<lparr>g_TxStaticTransferStatesForConditionalApprove := b\<rparr>) = view g"
  "view (g\<lparr>g_ThisTxId := c\<rparr>) = view g" "view (g\<lparr>g_InscriptionsValidConditionalApproveMap := d\<rparr>) = view g"
  "view (g\<lparr>g_InscriptionsInvalidConditionalApproveMap := d\<rparr>) = view g" "view (g\<lparr>g_InscriptionsValidApproveMap := f\<rparr>) = view g"
  "view (g\<lparr>g_InscriptionsInvalidApproveMap := f\<rparr>) = view g" "view (g\<lparr>g_InscriptionsApproveRemoveMap := h\<rparr>) = view g"
  "view (g\<lparr>g_InscriptionsCommitRemoveMap := h\<rparr>) = view g" "view (g\<lparr>g_InscriptionsValidCommitMap := i\<rparr>) = view g"
  "view (g\<lparr>g_InscriptionsValidCommitMapById := i\<rparr>) = view g" "view (g\<lparr>g_Durty := j\<rparr>) = view g"
  "view (g\<lparr>g_BestHeight := k\<rparr>) = view g" "view (g\<lparr>g_InscriptionsTransferRemoveMap := h\<rparr>) = view g"
  "view (g\<lparr>g_InscriptionsWithdrawMap := l\<rparr>) = view g" "view (g\<lparr>g_TokenUsersBalanceData := m\<rparr>) = view g"
  by (simp_all add: view_def bview_def tview_def balance_of_def fun_eq_iff)

text \<open>What the handlers of modules leave as it is.\<close>

definition base_state where
  "base_state g = (g_UserTokensBalanceData g, g_TokenUsersBalanceData g, g_InscriptionsTickerInfoMap g,
     g_InscriptionsWithdrawRemoveMap g, g_InscriptionsValidTransferMap g, g_Durty g)"

lemma base_view: "base_state g' = base_state g \<Longrightarrow> view g' = view g"
  by (simp add: base_state_def view_def bview_def tview_def balance_of_def fun_eq_iff)

lemma base_set_module [simp]: "base_state (set_module g k m) = base_state g"
  by (simp add: base_state_def set_module_def)

lemma base_module_fields [simp]:
  "base_state (g\<lparr>g_TransferHeap := a\<rparr>) = base_state g" "base_state (g\<lparr>g_TxStaticTransferStatesForConditionalApprove := b\<rparr>) = base_state g"
  "base_state (g\<lparr>g_ThisTxId := c\<rparr>) = base_state g" "base_state (g\<lparr>g_InscriptionsValidConditionalApproveMap := d\<rparr>) = base_state g"
  "base_state (g\<lparr>g_InscriptionsInvalidConditionalApproveMap := d\<rparr>) = base_state g" "base_state (g\<lparr>g_InscriptionsValidApproveMap := f\<rparr>) = base_state g"
  "base_state (g\<lparr>g_InscriptionsInvalidApproveMap := f\<rparr>) = base_state g" "base_state (g\<lparr>g_InscriptionsApproveRemoveMap := h\<rparr>) = base_state g"
  "base_state (g\<lparr>g_InscriptionsCommitRemoveMap := h\<rparr>) = base_state g" "base_state (g\<lparr>g_InscriptionsValidCommitMap := i\<rparr>) = base_state g"
  "base_state (g\<lparr>g_InscriptionsValidCommitMapById := i\<rparr>) = base_state g"
  "base_state (g\<lparr>g_BestHeight := k\<rparr>) = base_state g" "base_state (g\<lparr>g_InscriptionsTransferRemoveMap := h\<rparr>) = base_state g"
  "base_state (g\<lparr>g_InscriptionsWithdrawMap := l\<rparr>) = base_state g"
  "base_state (g\<lparr>g_InscriptionsInvalidCommitMap := i\<rparr>) = base_state g"
  by (simp_all add: base_state_def)

lemma base_transfer_modules_loop: "transfer_modules_loop ks t g = Some (g', es) \<Longrightarrow> base_state g' = base_state g"
proof (induction ks arbitrary: g g' es)
  case (Cons k ks)
  then show ?case by (auto simp: Let_def elim!: bind_SomeE split: option.splits if_splits)
qed simp

lemma base_GenerateApproveEventsByTransfer: "GenerateApproveEventsByTransfer e g i t f d a = Some (g', es) \<Longrightarrow> base_state g' = base_state g"
  by (auto simp: GenerateApproveEventsByTransfer_def Let_def elim!: bind_SomeE dest!: base_transfer_modules_loop)

lemma base_GenerateApproveEventsByApprove: "GenerateApproveEventsByApprove g ow b d ai = Some (g', es) \<Longrightarrow> base_state g' = base_state g"
  by (auto simp: GenerateApproveEventsByApprove_def Let_def elim!: bind_SomeE split: option.splits)

lemma base_upd_cond_approve [simp]: "base_state (upd_cond_approve k f g) = base_state g"
  by (simp add: upd_cond_approve_def)

lemma base_process_cond_event: "process_cond_event e g ev = Some (err, g') \<Longrightarrow> base_state g' = base_state g"
  by (auto simp: process_cond_event_def Let_def elim!: bind_SomeE split: option.splits if_splits)

lemma base_process_cond_events_loop: "process_cond_events_loop e evs g = Some (err, g') \<Longrightarrow> base_state g' = base_state g"
proof (induction evs arbitrary: g)
  case (Cons ev evs)
  then show ?case by (auto split: option.splits dest!: base_process_cond_event)
qed simp

lemma base_settle: "base_state (fold settle_cond_event evs g) = base_state g"
  by (induction evs arbitrary: g) (simp_all add: settle_cond_event_def)

lemma base_ProcessConditionalApproveEvents: "ProcessConditionalApproveEvents e g evs = Some (err, g') \<Longrightarrow> base_state g' = base_state g"
  by (auto simp: ProcessConditionalApproveEvents_def base_settle split: option.splits dest!: base_process_cond_events_loop)

lemma base_transfer_module_part: "transfer_module_part e g lt s r ti d = Some (err, g') \<Longrightarrow> base_state g' = base_state g"
  by (auto simp: transfer_module_part_def Let_def elim!: bind_SomeE split: option.splits if_splits
      dest!: base_GenerateApproveEventsByTransfer base_ProcessConditionalApproveEvents)

lemmas view_transfer_module_part = base_transfer_module_part [THEN base_view]

section \<open>Transfer\<close>

text \<open>The effect of a move on the view: the sender's bound amount goes to the receiver's available amount.\<close>

definition moved_view :: "BRC20ModuleIndexer \<Rightarrow> BRC20ModuleIndexer \<Rightarrow> string \<Rightarrow> string \<Rightarrow> string \<Rightarrow> string \<Rightarrow> decp \<Rightarrow> bool" where
  "moved_view g g' lt s k r amt \<longleftrightarrow>
     (\<exists>a tr vm tr' B1 a2 t2 v2 a2'.
        bview g s lt = (a, tr, vm) \<and> vm k \<noteq> None \<and> Decimal_Sub tr amt = Some tr' \<and>
        B1 = (bview g)(s := (bview g s)(lt := (a, tr', vm(k := None)))) \<and>
        B1 r lt = (a2, t2, v2) \<and> Decimal_Add a2 amt = Some a2' \<and>
        bview g' = B1(r := (B1 r)(lt := (a2', t2, v2))) \<and> tview g' = tview g \<and>
        g_InscriptionsWithdrawRemoveMap g' = g_InscriptionsWithdrawRemoveMap g \<and>
        g_InscriptionsValidTransferMap g' = g_InscriptionsValidTransferMap g)"

lemma transfer_receive_view:
  assumes "transfer_receive e g (ToLower e (ti_Tick ti)) pk ti d = Some g'"
  shows "\<exists>a tr vm a'. bview g pk (ToLower e (ti_Tick ti)) = (a, tr, vm) \<and> Decimal_Add a (ti_Amount ti) = Some a' \<and>
    bview g' = (bview g)(pk := (bview g pk)(ToLower e (ti_Tick ti) := (a', tr, vm))) \<and> tview g' = tview g \<and>
    g_InscriptionsWithdrawRemoveMap g' = g_InscriptionsWithdrawRemoveMap g \<and>
    g_InscriptionsValidTransferMap g' = g_InscriptionsValidTransferMap g"
proof -
  let ?lt = "ToLower e (ti_Tick ti)"
  obtain b g1 av where
    g1: "GetUserTokenBalance e g (ti_Tick ti) pk = Some (b, g1)" and av: "Decimal_Add (tb_AvailableBalance b) (ti_Amount ti) = Some av"
    and v: "view g' = ((bview g1)(pk := (bview g1 pk)(?lt := (av, tb_TransferableBalance b, tb_ValidTransferMap b))), tview g1,
      g_InscriptionsWithdrawRemoveMap g1, g_InscriptionsValidTransferMap g1)"
    using assms unfolding transfer_receive_def Let_def
    by (auto simp: upd_deploy_def view_upd_ticker token_core_def view_upd_balance view_set_balance bal_core_def
        elim!: bind_SomeE split: option.splits if_splits dest!: view_UpdateHistory)
  note g1v = view_GetUserTokenBalance [OF g1]
  have core: "bview g pk ?lt = (tb_AvailableBalance b, tb_TransferableBalance b, tb_ValidTransferMap b)"
    using g1v by (simp add: bal_core_def)
  show ?thesis
    using v viewD [OF conjunct1 [OF g1v]] av by (simp add: core view_def)
qed

text \<open>The part of a transfer after the sender's balance is found.\<close>

lemma transfer_valid_view:
  assumes fb: "balance_of g1 s lt = Some fb" and k: "tb_ValidTransferMap fb k \<noteq> None" and lt: "lt = ToLower e (ti_Tick ti)"
    and tr: "Decimal_Sub (tb_TransferableBalance fb) (ti_Amount ti) = Some tr"
    and g2: "view g2 = view (set_balance g1 s lt (fb\<lparr>tb_UpdateHeight := h, tb_TransferableBalance := tr,
        tb_ValidTransferMap := (tb_ValidTransferMap fb)(k := None)\<rparr>))"
    and g3: "transfer_receive e g2 lt r ti d = Some g3" and g': "view g' = view g3"
  shows "moved_view g1 g' lt s k r (ti_Amount ti)"
proof -
  let ?B = "(bview g1)(s := (bview g1 s)(lt := (tb_AvailableBalance fb, tr, (tb_ValidTransferMap fb)(k := None))))"
  have v2: "bview g2 = ?B" "tview g2 = tview g1" "g_InscriptionsWithdrawRemoveMap g2 = g_InscriptionsWithdrawRemoveMap g1"
    "g_InscriptionsValidTransferMap g2 = g_InscriptionsValidTransferMap g1"
    using g2 by (simp_all add: view_def bal_core_def)
  have c: "bview g1 s lt = (tb_AvailableBalance fb, tb_TransferableBalance fb, tb_ValidTransferMap fb)"
    using fb by (simp add: bview_def bal_core_def)
  from transfer_receive_view [OF g3 [unfolded lt]] obtain a t v a' where
    r: "?B r lt = (a, t, v)" "Decimal_Add a (ti_Amount ti) = Some a'" "bview g3 = ?B(r := (?B r)(lt := (a', t, v)))"
      "tview g3 = tview g1" "g_InscriptionsWithdrawRemoveMap g3 = g_InscriptionsWithdrawRemoveMap g1"
      "g_InscriptionsValidTransferMap g3 = g_InscriptionsValidTransferMap g1"
    unfolding v2 lt [symmetric] by metis
  show ?thesis
    unfolding moved_view_def
    by (rule exI [of _ "tb_AvailableBalance fb"], rule exI [of _ "tb_TransferableBalance fb"], rule exI [of _ "tb_ValidTransferMap fb"],
        rule exI [of _ tr], rule exI [of _ ?B], rule exI [of _ a], rule exI [of _ t], rule exI [of _ v], rule exI [of _ a'])
      (use c k tr r viewD [OF g'] in simp)
qed

lemma transfer_apply_view:
  assumes r: "transfer_apply e g d lt s rc fb ti iv = Some (err, g')" and fb: "balance_of g s lt = Some fb"
    and lt: "lt = ToLower e (ti_Tick ti)"
  shows "view g' = view g \<or> \<not> iv \<and> moved_view g g' lt s (d_CreateIdxKey d) rc (ti_Amount ti)"
proof -
  have same: "view (set_balance g s lt (fb\<lparr>tb_UpdateHeight := h\<rparr>)) = view g" for h
    using fb by (rule view_set_balance_same) (simp add: bal_core_def)
  show ?thesis
  proof (cases "iv \<or> tb_ValidTransferMap fb (d_CreateIdxKey d) = None")
    case True
    with r same show ?thesis
      by (auto simp: transfer_apply_def Let_def elim!: bind_SomeE split: if_splits dest!: view_transfer_send_history)
  next
    case False
    then obtain tr g2 g3 where tr: "Decimal_Sub (tb_TransferableBalance fb) (ti_Amount ti) = Some tr"
      and g2: "transfer_send_history (set_balance (set_balance g s lt (fb\<lparr>tb_UpdateHeight := d_Height d\<rparr>)) s lt
          (fb\<lparr>tb_UpdateHeight := d_Height d, tb_TransferableBalance := tr,
              tb_ValidTransferMap := (tb_ValidTransferMap fb)(d_CreateIdxKey d := None)\<rparr>)) s lt ti True d = Some g2"
      and g3: "transfer_receive e g2 lt rc ti d = Some g3" "transfer_module_part e g3 lt s rc ti d = Some (err, g')"
      using r by (auto simp: transfer_apply_def Let_def elim!: bind_SomeE)
    have "view g2 = view (set_balance g s lt (fb\<lparr>tb_UpdateHeight := d_Height d, tb_TransferableBalance := tr,
              tb_ValidTransferMap := (tb_ValidTransferMap fb)(d_CreateIdxKey d := None)\<rparr>))"
      using view_transfer_send_history [OF g2] by (simp add: view_set_balance)
    from transfer_valid_view [OF fb _ lt tr this g3(1) view_transfer_module_part [OF g3(2)]] False
    show ?thesis by simp
  qed
qed

lemma moved_view_cong: "view g1 = view g \<Longrightarrow> moved_view g1 g' lt s k r a = moved_view g g' lt s k r a"
  using viewD [of g1 g] by (simp add: moved_view_def)

lemma ProcessTransfer_view:
  assumes "ProcessTransfer e g d ti iv = Some (err, g')"
  shows "view g' = view g \<or> \<not> iv \<and> (\<exists>r. moved_view g g' (ToLower e (ti_Tick ti)) (ti_PkScript ti) (d_CreateIdxKey d) r (ti_Amount ti))"
proof (cases "g_InscriptionsTickerInfoMap g (ToLower e (ti_Tick ti)) = None")
  case True
  with assms show ?thesis by (simp add: ProcessTransfer_def Let_def)
next
  case False
  let ?lt = "ToLower e (ti_Tick ti)" and ?s = "ti_PkScript ti"
  let ?r = "if d_Satoshi d = 0 then ?s else d_PkScript d"
  let ?d = "d\<lparr>d_PkScript := ?r\<rparr>"
  obtain g1 where h: "transfer_global_history g ?lt ti iv ?d = Some g1"
    and c: "g' = g1 \<or> (\<exists>fb. balance_of g1 ?s ?lt = Some fb \<and> transfer_apply e g1 ?d ?lt ?s ?r fb ti iv = Some (err, g'))"
    using False assms by (auto simp: ProcessTransfer_def Let_def balance_of_def elim!: bind_SomeE split: option.splits)
  note v = view_transfer_global_history [OF h]
  from c show ?thesis
  proof (elim disjE exE conjE)
    fix fb assume "balance_of g1 ?s ?lt = Some fb" "transfer_apply e g1 ?d ?lt ?s ?r fb ti iv = Some (err, g')"
    from transfer_apply_view [OF this(2,1) refl] show ?thesis
      using v moved_view_cong [OF v] by auto
  qed (simp add: v)
qed

section \<open>Inscribing a transfer\<close>

lemma balance_of_append_user_history [simp]: "balance_of (append_user_history pk h g) u lt = balance_of g u lt"
  by (simp add: append_user_history_def GetBRC20HistoryByUser_def Let_def balance_of_def split: option.splits)

lemma balance_of_append_all_history [simp]: "balance_of (append_all_history h g) u lt = balance_of g u lt"
  by (simp add: append_all_history_def balance_of_def)

lemma balance_of_UpdateHistory: "UpdateHistoryHeightAndGetHistoryIndex g h = Some (i, g') \<Longrightarrow> balance_of g' u lt = balance_of g u lt"
  by (auto simp: UpdateHistoryHeightAndGetHistoryIndex_def Let_def balance_of_def elim!: bind_SomeE split: if_splits)

lemma inscribe_transfer_history_balance:
  "inscribe_transfer_history g lt ti b v d = Some g' \<Longrightarrow> balance_of g u l \<noteq> None \<Longrightarrow> balance_of g' u l \<noteq> None"
  by (auto simp: inscribe_transfer_history_def upd_balance_def balance_of_UpdateHistory Let_def elim!: bind_SomeE
      split: if_splits option.splits)

text \<open>The effect on the view: the amount goes from the available to the bound balance of the owner.\<close>

definition bound_view :: "BRC20ModuleIndexer \<Rightarrow> BRC20ModuleIndexer \<Rightarrow> string \<Rightarrow> string \<Rightarrow> string \<Rightarrow> InscriptionBRC20TickInfo \<Rightarrow> bool" where
  "bound_view g g' lt pk k info \<longleftrightarrow>
     (\<exists>a tr vm a' tr'. bview g pk lt = (a, tr, vm) \<and> 0 < decval (ti_Amount info) \<and> decval (ti_Amount info) \<le> decval a \<and>
        Decimal_Sub a (ti_Amount info) = Some a' \<and> Decimal_Add tr (ti_Amount info) = Some tr' \<and>
        bview g' = (bview g)(pk := (bview g pk)(lt := (a', tr', vm(k \<mapsto> info)))) \<and> tview g' = tview g \<and>
        map_option fst (tview g lt) = Some (ti_Tick info) \<and>
        g_InscriptionsWithdrawRemoveMap g' = g_InscriptionsWithdrawRemoveMap g \<and>
        g_InscriptionsValidTransferMap g' = (g_InscriptionsValidTransferMap g)(k \<mapsto> info))"

text \<open>The part after the balance is found or created; \<open>g1\<close> has the balance \<open>b\<close>.\<close>

lemma inscribe_bind_view:
  assumes b: "bal_core b = bview g pk lt" and g1: "view g1 = view (set_balance g pk lt b)"
    and s: "Decimal_Sub (tb_AvailableBalance b) amt = Some av" "Decimal_Add (tb_TransferableBalance b) amt = Some tr"
    and c: "Decimal_Cmp (tb_AvailableBalance b) amt = Some c" "\<not> c < 0"
    and i: "ti_Amount info = amt" "0 < decval amt" and t: "map_option fst (tview g lt) = Some (ti_Tick info)"
    and f: "\<And>b. bal_core (f b) = (av, tr, (tb_ValidTransferMap b)(k \<mapsto> info))"
    and b1: "balance_of g1 pk lt \<noteq> None"
  shows "bound_view g ((upd_balance pk lt f g1)\<lparr>g_InscriptionsValidTransferMap := (g_InscriptionsValidTransferMap (upd_balance pk lt f g1))(k \<mapsto> info),
      g_InscriptionsValidBRC20DataMap := D\<rparr>) lt pk k info"
proof -
  have c': "decval amt \<le> decval (tb_AvailableBalance b)"
    using c Decimal_Cmp_val [OF c(1)] by simp
  have v: "bview g pk lt = (tb_AvailableBalance b, tb_TransferableBalance b, tb_ValidTransferMap b)"
    using b by (simp add: bal_core_def)
  have w: "view g1 = view g"
    using g1 b by (simp add: view_set_balance view_def)
  obtain b' where b': "balance_of g1 pk lt = Some b'" using b1 by blast
  then have "bal_core b' = bview g1 pk lt" by (simp add: bview_def)
  then have vm: "tb_ValidTransferMap b' = tb_ValidTransferMap b"
    using viewD [OF w] v by (simp add: bal_core_def)
  show ?thesis
    unfolding bound_view_def using v c' s i viewD [OF w] f [of b'] vm b' t
    by (simp add: upd_balance_def)
qed

lemma inscribe_transfer_apply_view:
  assumes r: "inscribe_transfer_apply g1 lt b info d = Some (err, g')"
    and b: "bal_core b = bview g (d_PkScript d) lt" and g1: "view g1 = view (set_balance g (d_PkScript d) lt b)"
    and i: "0 < decval (ti_Amount info)" and t: "map_option fst (tview g lt) = Some (ti_Tick info)" and b1: "balance_of g1 (d_PkScript d) lt \<noteq> None"
  shows "view g' = view g \<or> bound_view g g' lt (d_PkScript d) (d_CreateIdxKey d) info"
proof -
  from r obtain c g2 where c: "Decimal_Cmp (tb_AvailableBalance b) (ti_Amount info) = Some c"
    and h: "inscribe_transfer_history g1 lt info b (c \<ge> 0) d = Some g2"
    by (auto simp: inscribe_transfer_apply_def Let_def elim!: bind_SomeE)
  note v = view_inscribe_transfer_history [OF h]
  have b2: "balance_of g2 (d_PkScript d) lt \<noteq> None"
    using h b1 by (rule inscribe_transfer_history_balance)
  have same: "view g1 = view g"
    using g1 b by (simp add: view_set_balance view_def)
  show ?thesis
  proof (cases "c < 0")
    case True
    with r c h have "g' = g2\<lparr>g_InscriptionsInvalidTransferMap := (g_InscriptionsInvalidTransferMap g2)(d_CreateIdxKey d \<mapsto> info)\<rparr>"
      by (simp add: inscribe_transfer_apply_def Let_def)
    then have "view g' = view g2" by (simp add: view_def)
    with v same show ?thesis by simp
  next
    case False
    with r c h obtain safe av tr where s: "Decimal_Sub (tb_AvailableBalance b) (ti_Amount info) = Some av"
        "Decimal_Add (tb_TransferableBalance b) (ti_Amount info) = Some tr"
      and g': "g' = (let g = upd_balance (d_PkScript d) lt (\<lambda>b. b\<lparr>tb_AvailableBalanceSafe := safe, tb_AvailableBalance := av,
            tb_TransferableBalance := tr, tb_ValidTransferMap := (tb_ValidTransferMap b)(d_CreateIdxKey d \<mapsto> info)\<rparr>) g2 in
          g\<lparr>g_InscriptionsValidTransferMap := (g_InscriptionsValidTransferMap g)(d_CreateIdxKey d \<mapsto> info),
            g_InscriptionsValidBRC20DataMap := (g_InscriptionsValidBRC20DataMap g)(d_CreateIdxKey d \<mapsto> InfoData (ti_Data info))\<rparr>)"
      by (auto simp: inscribe_transfer_apply_def Let_def elim!: bind_SomeE)
    show ?thesis
      unfolding g' Let_def
      by (rule disjI2, rule inscribe_bind_view [OF b _ s c False refl i t _ b2]) (simp_all add: v g1 bal_core_def)
  qed
qed

lemma ProcessInscribeTransfer_view:
  assumes "ProcessInscribeTransfer e g d = Some (err, g')"
  shows "view g' = view g \<or> (\<exists>lt info. bound_view g g' lt (d_PkScript d) (d_CreateIdxKey d) info)"
proof (cases "g' = g")
  case False
  let ?b = "\<lambda>lt t. (case balance_of g (d_PkScript d) lt of None \<Rightarrow> new_token_balance (tk_Ticker t) (d_PkScript d) | Some b \<Rightarrow> b)
    \<lparr>tb_UpdateHeight := d_Height d\<rparr>"
  from False assms obtain lt t body amt users where t: "g_InscriptionsTickerInfoMap g lt = Some t" and pos: "0 < decval (Some amt)"
    and r: "inscribe_transfer_apply ((set_balance g (d_PkScript d) lt (?b lt t))\<lparr>g_TokenUsersBalanceData := users\<rparr>) lt (?b lt t)
      (transfer_info t body (Some amt) d) d = Some (err, g')"
    by (auto simp: ProcessInscribeTransfer_def Let_def not_le elim!: bind_SomeE split: option.splits sum.splits if_splits)
  have "view g' = view g \<or> bound_view g g' lt (d_PkScript d) (d_CreateIdxKey d) (transfer_info t body (Some amt) d)"
    by (rule inscribe_transfer_apply_view [OF r])
      (use t pos in \<open>auto simp: bview_def bal_core_def new_token_balance_def transfer_info_def Let_def tview_def token_core_def
        view_def balance_of_def set_balance_def split: option.splits\<close>)
  then show ?thesis by blast
qed simp

section \<open>Deploy\<close>

text \<open>The bound of an amount: the greatest unsigned 64-bit integer, in units of the last decimal.\<close>

definition in_range :: "nat \<Rightarrow> decp \<Rightarrow> bool" where
  "in_range p d \<longleftrightarrow> p \<le> 18 \<and> decval d \<le> MaxUint64 * 10 ^ p"

definition deployed_view :: "ext \<Rightarrow> BRC20ModuleIndexer \<Rightarrow> BRC20ModuleIndexer \<Rightarrow> string \<Rightarrow> string \<Rightarrow> bool" where
  "deployed_view e g g' lt pk \<longleftrightarrow>
     (\<exists>ticker mx lim dc. tview g lt = None \<and> ToLower e ticker = lt \<and> 0 \<le> decval mx \<and> mx \<noteq> None \<and> dec_ok (unat dc) mx \<and>
        in_range (unat dc) mx \<and>
        bview g' = (bview g)(pk := (bview g pk)(lt := (None, None, Map.empty))) \<and>
        tview g' = (tview g)(lt := Some (ticker, None, mx, lim, dc)) \<and>
        g_InscriptionsWithdrawRemoveMap g' = g_InscriptionsWithdrawRemoveMap g \<and>
        g_InscriptionsValidTransferMap g' = g_InscriptionsValidTransferMap g)"

lemma deploy_token_view:
  assumes "deploy_token g lt body tinfo d = Some (err, g')" "tview g lt = None" "ToLower e (dc_BRC20Tick body) = lt"
    "0 \<le> decval (ti_Max tinfo)" "ti_TotalMinted tinfo = None" "ti_Max tinfo \<noteq> None" "dec_ok (unat (ti_Decimal tinfo)) (ti_Max tinfo)"
    "in_range (unat (ti_Decimal tinfo)) (ti_Max tinfo)"
  shows "deployed_view e g g' lt (d_PkScript d)"
proof -
  let ?tk = "\<lparr>tk_UpdateHeight = 0, tk_Ticker = dc_BRC20Tick body, tk_Deploy = tinfo, tk_History = [],
            tk_HistoryMint = [], tk_HistoryInscribeTransfer = [], tk_HistoryTransfer = [], tk_HistoryWithdraw = []\<rparr>"
  let ?tb = "(new_token_balance (dc_BRC20Tick body) (d_PkScript d))\<lparr>tb_UpdateHeight := d_Height d\<rparr>"
  obtain tk tb g1 where h: "deploy_history g tinfo d ?tk ?tb = Some (tk, tb, g1)"
    and g': "view g' = view (set_balance (g1\<lparr>g_InscriptionsTickerInfoMap :=
        (g_InscriptionsTickerInfoMap g1)(lt \<mapsto> tk\<lparr>tk_UpdateHeight := d_Height d\<rparr>)\<rparr>) (d_PkScript d) lt tb)"
    using assms(1) by (auto simp: deploy_token_def Let_def view_def elim!: bind_SomeE)
  have g1: "view g1 = view g" and tk: "token_core tk = (dc_BRC20Tick body, None, ti_Max tinfo, ti_Limit tinfo, ti_Decimal tinfo)"
    and tb: "bal_core tb = (None, None, Map.empty)"
    using h assms(5) by (auto simp: deploy_history_def token_core_def bal_core_def new_token_balance_def elim!: bind_SomeE
        split: if_splits dest!: view_UpdateHistory)
  show ?thesis
    unfolding deployed_view_def
    using g' viewD [OF g1] assms(2-4,6-8) tb tk
    by (intro exI [of _ "dc_BRC20Tick body"] exI [of _ "ti_Max tinfo"] exI [of _ "ti_Limit tinfo"] exI [of _ "ti_Decimal tinfo"])
      (simp add: view_def tview_def fun_eq_iff token_core_def)
qed

lemma parse_precision: "NewDecimalFromString s p = Some (Inr d) \<Longrightarrow> Precition d = p"
  by (auto simp: NewDecimalFromString_def Let_def elim!: bind_SomeE split: if_splits option.splits sum.splits)

lemma GetMaxUint64_precision: "Decimal_GetMaxUint64 (Some d) = Some l \<Longrightarrow> l \<noteq> None \<and> dec_ok (Precition d) l"
  by (auto simp: Decimal_GetMaxUint64_def elim!: bind_SomeE)

lemma GetMaxUint64_nonneg: "Decimal_GetMaxUint64 d = Some l \<Longrightarrow> 0 \<le> decval l"
  by (auto simp: Decimal_GetMaxUint64_def MaxUint64_def precisionFactor_def elim!: bind_SomeE split: option.splits if_splits)

lemma deploy_limit_view:
  assumes "deploy_limit g lt body tinfo d = Some (err, g')" "tview g lt = None" "ToLower e (dc_BRC20Tick body) = lt"
    "0 \<le> decval (ti_Max tinfo)" "ti_TotalMinted tinfo = None" "ti_Max tinfo \<noteq> None" "dec_ok (unat (ti_Decimal tinfo)) (ti_Max tinfo)"
    "in_range (unat (ti_Decimal tinfo)) (ti_Max tinfo)"
  shows "g' = g \<or> deployed_view e g g' lt (d_PkScript d)"
proof (cases "g' = g")
  case False
  with assms(1) obtain l where "deploy_token g lt body (tinfo\<lparr>ti_Limit := l\<rparr>) d = Some (err, g')"
    by (auto simp: deploy_limit_def elim!: bind_SomeE split: sum.splits if_splits)
  from deploy_token_view [OF this assms(2,3)] assms(4-8) show ?thesis by simp
qed simp

lemma overflow_range: "Decimal_IsOverflowUint64 (Some d) = Some False \<Longrightarrow> in_range (Precition d) (Some d)"
  by (auto simp: Decimal_IsOverflowUint64_def in_range_def precisionFactor_def decval_def elim!: bind_SomeE split: if_splits)

lemma max_range: "Decimal_GetMaxUint64 (Some d) = Some l \<Longrightarrow> in_range (Precition d) l"
  by (auto simp: Decimal_GetMaxUint64_def in_range_def precisionFactor_def decval_def elim!: bind_SomeE split: if_splits)

lemma deploy_max_view:
  assumes "deploy_max g lt body tinfo d = Some (err, g')" "tview g lt = None" "ToLower e (dc_BRC20Tick body) = lt"
    "ti_TotalMinted tinfo = None"
  shows "g' = g \<or> deployed_view e g g' lt (d_PkScript d)"
proof (cases "g' = g")
  case False
  with assms(1) obtain mx l where mx: "NewDecimalFromString (dc_BRC20Max body) (unat (ti_Decimal tinfo)) = Some (Inr mx)"
    "\<not> Decimal_Sign (Some mx) < 0" "Decimal_IsOverflowUint64 (Some mx) = Some False"
    and l: "deploy_limit g lt body (tinfo\<lparr>ti_Max := l\<rparr>) d = Some (err, g')" "l = Some mx \<or> Decimal_GetMaxUint64 (Some mx) = Some l"
    by (auto simp: deploy_max_def elim!: bind_SomeE split: sum.splits if_splits)
  note p = parse_precision [OF mx(1)]
  have "0 \<le> decval l \<and> l \<noteq> None \<and> dec_ok (unat (ti_Decimal tinfo)) l \<and> in_range (unat (ti_Decimal tinfo)) l"
    using l(2)
  proof
    assume "l = Some mx"
    with mx(2) overflow_range [OF mx(3)] p show ?thesis by (simp add: Decimal_Sign_def decval_def dec_ok_def not_less)
  next
    assume m: "Decimal_GetMaxUint64 (Some mx) = Some l"
    from GetMaxUint64_nonneg [OF m] GetMaxUint64_precision [OF m] max_range [OF m] p show ?thesis by simp
  qed
  with deploy_limit_view [OF l(1) assms(2,3)] assms(4) show ?thesis by simp
qed simp

lemma ProcessDeploy_view:
  assumes "ProcessDeploy e g d = Some (err, g')"
  shows "g' = g \<or> (\<exists>lt. deployed_view e g g' lt (d_PkScript d))"
proof (cases "g' = g")
  case False
  with assms obtain lt body dec where t: "g_InscriptionsTickerInfoMap g lt = None" and lt: "ToLower e (dc_BRC20Tick body) = lt"
    and r: "deploy_max g lt body ((deploy_info body d)\<lparr>ti_Decimal := dec\<rparr>) d = Some (err, g')"
    by (auto simp: ProcessDeploy_def GetValidUniqueLowerTickerTicker_def Let_def split: option.splits if_splits)
  have n: "ti_TotalMinted ((deploy_info body d)\<lparr>ti_Decimal := dec\<rparr>) = None"
    by (simp add: deploy_info_def NewInscriptionBRC20TickInfo_def Let_def)
  from t have "tview g lt = None" by (simp add: tview_def)
  from deploy_max_view [OF r this lt n] show ?thesis by blast
qed simp

section \<open>Module handlers\<close>

lemma base_ProcessConditionalApprove: "ProcessConditionalApprove e g d ai iv = Some (err, g') \<Longrightarrow> base_state g' = base_state g"
  by (auto simp: ProcessConditionalApprove_def cond_approve_return_def Let_def elim!: bind_SomeE split: option.splits if_splits
      dest!: base_GenerateApproveEventsByApprove base_ProcessConditionalApproveEvents)

lemma base_ProcessApprove: "ProcessApprove e g d ai iv = Some (err, g') \<Longrightarrow> base_state g' = base_state g"
  by (auto simp: ProcessApprove_def Let_def elim!: bind_SomeE split: option.splits if_splits)

lemma base_ProcessCreateModule: "ProcessCreateModule e g d = Some (err, g') \<Longrightarrow> base_state g' = base_state g"
  by (auto simp: ProcessCreateModule_def Let_def elim!: bind_SomeE split: option.splits sum.splits if_splits)

lemma base_ProcessInscribeApprove: "ProcessInscribeApprove e g d = Some (err, g') \<Longrightarrow> base_state g' = base_state g"
  by (auto simp: ProcessInscribeApprove_def Let_def elim!: bind_SomeE split: option.splits sum.splits if_splits)

lemma base_ProcessInscribeConditionalApprove: "ProcessInscribeConditionalApprove e g d = Some (err, g') \<Longrightarrow> base_state g' = base_state g"
  by (auto simp: ProcessInscribeConditionalApprove_def Let_def elim!: bind_SomeE split: option.splits sum.splits if_splits)

lemma base_ProcessInscribeWithdraw: "ProcessInscribeWithdraw e g d = Some (err, g') \<Longrightarrow> base_state g' = base_state g"
  by (auto simp: ProcessInscribeWithdraw_def Let_def elim!: bind_SomeE split: option.splits sum.splits if_splits)

lemma base_upd_module [simp]: "base_state (upd_module k f g) = base_state g"
  by (simp add: upd_module_def split: option.splits)

lemma base_ProcessInscribeCommit: "ProcessInscribeCommit e g d = Some (err, g') \<Longrightarrow> base_state g' = base_state g"
  by (auto simp: ProcessInscribeCommit_def Let_def elim!: bind_SomeE split: option.splits if_splits)

lemma base_ProcessCommitVerify: "ProcessCommitVerify e xr g cid body sz rs = Some (err, g') \<Longrightarrow> base_state g' = base_state g"
  by (auto simp: ProcessCommitVerify_def elim!: bind_SomeE split: option.splits if_splits)

lemma base_commit_execute: "commit_execute e xr g i body sz = Some (err, g') \<Longrightarrow> base_state g' = base_state g"
  by (auto simp: commit_execute_def Let_def elim!: bind_SomeE split: option.splits dest!: base_ProcessCommitVerify)

lemma base_ProcessCommit: "ProcessCommit e xr g df dt iv = Some (err, g') \<Longrightarrow> base_state g' = base_state g"
  by (auto simp: ProcessCommit_def Let_def elim!: bind_SomeE split: option.splits if_splits dest!: base_commit_execute)

lemmas base_handlers =
  base_ProcessConditionalApprove base_ProcessApprove base_ProcessCreateModule base_ProcessInscribeApprove
  base_ProcessInscribeConditionalApprove base_ProcessInscribeWithdraw base_ProcessInscribeCommit base_ProcessCommit

lemmas view_handlers = base_handlers [THEN base_view]

end
