(* ===== verification/Ledger_Inv.thy ===== *)
theory Ledger_Inv
  imports Brc20_Props
begin

text \<open>
  The program implements the abstract tokens of \<open>Token_Spec\<close>: \<open>ledger_of\<close> is the abstraction, every
  event is at most one abstract step, and every state reached from the initial one by events with
  fresh inscription keys has all its tokens in order.
\<close>

section \<open>Abstraction\<close>

definition token_of ::
    "(string \<times> decp \<times> decp \<times> decp \<times> u8) option \<Rightarrow> (string \<Rightarrow> decp \<times> decp \<times> (string \<rightharpoonup> InscriptionBRC20TickInfo)) \<Rightarrow> token option" where
  "token_of tv bv = map_option (\<lambda>(ticker, tot, mx, lim, dc).
     \<lparr>tok_cap = decval mx, tok_minted = decval tot, tok_avail = (\<lambda>u. decval (fst (bv u))),
      tok_bound = (\<lambda>u. decval (fst (snd (bv u)))),
      tok_pending = (\<lambda>u k. map_option (\<lambda>i. decval (ti_Amount i)) (snd (snd (bv u)) k))\<rparr>) tv"

definition ledger_of :: "BRC20ModuleIndexer \<Rightarrow> string \<Rightarrow> token option" where
  "ledger_of g lt = token_of (tview g lt) (\<lambda>u. bview g u lt)"

lemma ledger_of_upd:
  assumes "\<And>x u. x \<noteq> lt \<Longrightarrow> tview g' x = tview g x" "\<And>x u. x \<noteq> lt \<Longrightarrow> bview g' u x = bview g u x"
    and "token_of (tview g' lt) (\<lambda>u. bview g' u lt) = T"
  shows "ledger_of g' = (ledger_of g)(lt := T)"
  using assms by (simp add: ledger_of_def fun_eq_iff)

lemma ledger_of_cong: "view g' = view g \<Longrightarrow> ledger_of g' = ledger_of g"
  using viewD [of g' g] by (simp add: ledger_of_def fun_eq_iff)

text \<open>The state of the program in which the abstraction is meaningful.\<close>

definition ledger_wf :: "ext \<Rightarrow> BRC20ModuleIndexer \<Rightarrow> bool" where
  "ledger_wf e g \<longleftrightarrow>
     (\<forall>lt. tview g lt = None \<longrightarrow> (\<forall>u. bview g u lt = (None, None, Map.empty))) \<and>
     (\<forall>lt ticker r. tview g lt = Some (ticker, r) \<longrightarrow> ToLower e ticker = lt) \<and>
     (\<forall>u lt k i. snd (snd (bview g u lt)) k = Some i \<longrightarrow> g_InscriptionsValidTransferMap g k = Some i) \<and>
     g_InscriptionsWithdrawRemoveMap g = None"

lemma ledger_wfD:
  assumes "ledger_wf e g"
  shows "tview g lt = None \<Longrightarrow> bview g u lt = (None, None, Map.empty)" "tview g lt = Some (ticker, r) \<Longrightarrow> ToLower e ticker = lt"
    "bview g u lt = (a, t, vm) \<Longrightarrow> vm k = Some i \<Longrightarrow> g_InscriptionsValidTransferMap g k = Some i"
    "g_InscriptionsWithdrawRemoveMap g = None"
proof -
  note w = assms [unfolded ledger_wf_def]
  show "tview g lt = None \<Longrightarrow> bview g u lt = (None, None, Map.empty)" "tview g lt = Some (ticker, r) \<Longrightarrow> ToLower e ticker = lt"
    using w by blast+
  show "bview g u lt = (a, t, vm) \<Longrightarrow> vm k = Some i \<Longrightarrow> g_InscriptionsValidTransferMap g k = Some i"
    using w by (metis snd_conv)
  show "g_InscriptionsWithdrawRemoveMap g = None" using w by blast
qed

text \<open>Keeping the state well-formed when one token changes.\<close>

lemma ledger_wf_upd:
  assumes wf: "ledger_wf e g"
    and o: "\<And>x. x \<noteq> lt \<Longrightarrow> tview g' x = tview g x" "\<And>x u. x \<noteq> lt \<Longrightarrow> bview g' u x = bview g u x"
    and t: "tview g' lt = Some (ticker, r)" "ToLower e ticker = lt"
    and p: "\<And>u a t vm k i. bview g' u lt = (a, t, vm) \<Longrightarrow> vm k = Some i \<Longrightarrow> g_InscriptionsValidTransferMap g' k = Some i"
    and v: "\<And>k i. g_InscriptionsValidTransferMap g k = Some i \<Longrightarrow> g_InscriptionsValidTransferMap g' k = Some i"
    and w: "g_InscriptionsWithdrawRemoveMap g' = g_InscriptionsWithdrawRemoveMap g"
  shows "ledger_wf e g'"
proof -
  have 1: "bview g' u l = (None, None, Map.empty)" if "tview g' l = None" for l u
    using that t o ledger_wfD(1) [OF wf] by (cases "l = lt") auto
  have 2: "ToLower e tk = l" if "tview g' l = Some (tk, r')" for l tk r'
    using that t o ledger_wfD(2) [OF wf] by (cases "l = lt") auto
  have 3: "g_InscriptionsValidTransferMap g' k = Some i" if "snd (snd (bview g' u l)) k = Some i" for u l k i
  proof (cases "l = lt")
    case True
    with that show ?thesis by (metis p prod.collapse)
  next
    case False
    with that o have "snd (snd (bview g u l)) k = Some i" by simp
    then show ?thesis by (metis ledger_wfD(3) [OF wf] v prod.collapse)
  qed
  show ?thesis
    unfolding ledger_wf_def by (intro conjI allI impI) (use 1 2 3 w ledger_wfD(4) [OF wf] in simp_all)
qed

definition tokens_ok :: "BRC20ModuleIndexer \<Rightarrow> bool" where
  "tokens_ok g \<longleftrightarrow> (\<forall>lt t. ledger_of g lt = Some t \<longrightarrow> token_ok t)"

lemma ledger_wf_cong: "view g' = view g \<Longrightarrow> ledger_wf e g' = ledger_wf e g"
  using viewD [of g' g] by (simp add: ledger_wf_def)

text \<open>One event changes at most one token, by a step whose guard holds.\<close>

definition ledger_step :: "BRC20ModuleIndexer \<Rightarrow> BRC20ModuleIndexer \<Rightarrow> bool" where
  "ledger_step g g' \<longleftrightarrow> ledger_of g' = ledger_of g \<or>
     (\<exists>lt op. token_guard op (ledger_of g lt) \<and> ledger_of g' = (ledger_of g)(lt := token_step op (ledger_of g lt)))"

lemma tokens_ok_step: "ledger_step g g' \<Longrightarrow> tokens_ok g \<Longrightarrow> tokens_ok g'"
  unfolding ledger_step_def tokens_ok_def
proof (elim disjE exE conjE)
  fix lt op
  assume a: "\<forall>lt t. ledger_of g lt = Some t \<longrightarrow> token_ok t" "token_guard op (ledger_of g lt)"
    "ledger_of g' = (ledger_of g)(lt := token_step op (ledger_of g lt))"
  show "\<forall>lt t. ledger_of g' lt = Some t \<longrightarrow> token_ok t"
  proof (intro allI impI)
    fix l t assume l: "ledger_of g' l = Some t"
    show "token_ok t"
    proof (cases "l = lt")
      case True
      with l a(3) have "token_step op (ledger_of g lt) = Some t" by simp
      with a(1,2) show ?thesis by (metis token_ok_step)
    next
      case False
      with l a(1,3) show ?thesis by simp
    qed
  qed
qed simp

section \<open>The four operations\<close>

lemma minted_step:
  assumes mv: "minted_view g g' lt lt pk minted" and wf: "ledger_wf e g" and amt: "0 \<le> amt"
    and m: "\<And>t. ledger_of g lt = Some t \<Longrightarrow> decval minted = min amt (tok_cap t - tok_minted t)"
  shows "ledger_wf e g' \<and> ledger_of g' = (ledger_of g)(lt := token_step (OpMint pk amt) (ledger_of g lt))"
proof -
  from mv obtain a tr vm a' ticker tot mx lim dc tot' where
    b: "bview g pk lt = (a, tr, vm)" "Decimal_Add a minted = Some a'" and
    b': "bview g' = (bview g)(pk := (bview g pk)(lt := (a', tr, vm)))" and
    t: "tview g lt = Some (ticker, tot, mx, lim, dc)" "Decimal_Add tot minted = Some tot'" and
    t': "tview g' = (tview g)(lt := Some (ticker, tot', mx, lim, dc))" and
    f: "g_InscriptionsWithdrawRemoveMap g' = g_InscriptionsWithdrawRemoveMap g"
      "g_InscriptionsValidTransferMap g' = g_InscriptionsValidTransferMap g"
    unfolding minted_view_def by blast
  have "decval minted = min amt (decval mx - decval tot)"
    using m t by (simp add: ledger_of_def token_of_def)
  then have "ledger_of g' = (ledger_of g)(lt := token_step (OpMint pk amt) (ledger_of g lt))"
    using b t Decimal_Add_val [OF b(2)] Decimal_Add_val [OF t(2)]
    by (intro ledger_of_upd) (simp_all add: ledger_of_def token_of_def b' t' Let_def fun_eq_iff)
  moreover have "ledger_wf e g'"
    by (rule ledger_wf_upd [OF wf, where lt = lt])
      (use b t ledger_wfD(2) [OF wf t(1)] ledger_wfD(3) [OF wf] in \<open>auto simp: b' t' f split: if_splits\<close>)
  ultimately show ?thesis by blast
qed

lemma moved_step:
  assumes mv: "moved_view g g' lt s k r (ti_Amount i)" and wf: "ledger_wf e g"
    and i: "g_InscriptionsValidTransferMap g k = Some i" and t: "tview g lt = Some (ticker, rest)"
  shows "ledger_wf e g' \<and> ledger_of g' = (ledger_of g)(lt := token_step (OpMove s k r) (ledger_of g lt))"
proof -
  from mv obtain a tr vm tr' B1 a2 t2 v2 a2' where
    b: "bview g s lt = (a, tr, vm)" "vm k \<noteq> None" "Decimal_Sub tr (ti_Amount i) = Some tr'" and
    B: "B1 = (bview g)(s := (bview g s)(lt := (a, tr', vm(k := None))))" and
    r: "B1 r lt = (a2, t2, v2)" "Decimal_Add a2 (ti_Amount i) = Some a2'" and
    b': "bview g' = B1(r := (B1 r)(lt := (a2', t2, v2)))" and t': "tview g' = tview g" and
    f: "g_InscriptionsWithdrawRemoveMap g' = g_InscriptionsWithdrawRemoveMap g"
      "g_InscriptionsValidTransferMap g' = g_InscriptionsValidTransferMap g"
    unfolding moved_view_def by blast
  have vm: "vm k = Some i"
    using ledger_wfD(3) [OF wf b(1)] b(2) i by auto
  obtain tot mx lim dc where rest: "rest = (tot, mx, lim, dc)" by (cases rest) auto
  have "token_of (tview g' lt) (\<lambda>u. bview g' u lt) = token_step (OpMove s k r) (ledger_of g lt)"
  proof (cases "r = s")
    case True
    with r(1) have "a2 = a" "t2 = tr'" "v2 = vm(k := None)" by (simp_all add: B)
    with True b(1) vm t Decimal_Sub_val [OF b(3)] Decimal_Add_val [OF r(2)] show ?thesis
      by (auto simp: ledger_of_def token_of_def b' t' B rest fun_eq_iff)
  next
    case False
    with r(1) have "bview g r lt = (a2, t2, v2)" by (simp add: B)
    with False b(1) vm t Decimal_Sub_val [OF b(3)] Decimal_Add_val [OF r(2)] show ?thesis
      by (auto simp: ledger_of_def token_of_def b' t' B rest fun_eq_iff)
  qed
  then have "ledger_of g' = (ledger_of g)(lt := token_step (OpMove s k r) (ledger_of g lt))"
    by (intro ledger_of_upd) (simp_all add: b' t' B)
  moreover have "ledger_wf e g'"
  proof (rule ledger_wf_upd [OF wf, where lt = lt])
    show "tview g' lt = Some (ticker, rest)" "ToLower e ticker = lt"
      using t ledger_wfD(2) [OF wf t] by (simp_all add: t')
    fix u a' t vm' k' i' assume "bview g' u lt = (a', t, vm')" "vm' k' = Some i'"
    then show "g_InscriptionsValidTransferMap g' k' = Some i'"
      using ledger_wfD(3) [OF wf] b r by (auto simp: b' f B split: if_splits)
  qed (simp_all add: b' t' f B)
  ultimately show ?thesis by blast
qed

lemma bound_step:
  assumes bv: "bound_view g g' lt pk k i" and wf: "ledger_wf e g" and fresh: "g_InscriptionsValidTransferMap g k = None"
  shows "ledger_wf e g' \<and> token_guard (OpBind pk k (decval (ti_Amount i))) (ledger_of g lt) \<and>
    ledger_of g' = (ledger_of g)(lt := token_step (OpBind pk k (decval (ti_Amount i))) (ledger_of g lt))"
proof -
  from bv obtain a tr vm a' tr' ticker tot mx lim dc where
    b: "bview g pk lt = (a, tr, vm)" "0 < decval (ti_Amount i)" "decval (ti_Amount i) \<le> decval a" and
    s: "Decimal_Sub a (ti_Amount i) = Some a'" "Decimal_Add tr (ti_Amount i) = Some tr'" and
    b': "bview g' = (bview g)(pk := (bview g pk)(lt := (a', tr', vm(k \<mapsto> i))))" and
    t: "tview g lt = Some (ticker, tot, mx, lim, dc)" and t': "tview g' = tview g" and
    f: "g_InscriptionsWithdrawRemoveMap g' = g_InscriptionsWithdrawRemoveMap g"
      "g_InscriptionsValidTransferMap g' = (g_InscriptionsValidTransferMap g)(k \<mapsto> i)"
    unfolding bound_view_def by auto
  have none: "vm k = None"
    using ledger_wfD(3) [OF wf b(1), of k] fresh by (cases "vm k") auto
  have "token_of (tview g' lt) (\<lambda>u. bview g' u lt) = token_step (OpBind pk k (decval (ti_Amount i))) (ledger_of g lt)"
    using b(1) t Decimal_Sub_val [OF s(1)] Decimal_Add_val [OF s(2)]
    by (auto simp: ledger_of_def token_of_def b' t' fun_eq_iff)
  then have "ledger_of g' = (ledger_of g)(lt := token_step (OpBind pk k (decval (ti_Amount i))) (ledger_of g lt))"
    by (intro ledger_of_upd) (simp_all add: b' t')
  moreover have "ledger_wf e g'"
  proof (rule ledger_wf_upd [OF wf, where lt = lt])
    show "tview g' lt = Some (ticker, tot, mx, lim, dc)" "ToLower e ticker = lt"
      using t ledger_wfD(2) [OF wf t] by (simp_all add: t')
    fix u x y vm' k' i' assume "bview g' u lt = (x, y, vm')" "vm' k' = Some i'"
    then show "g_InscriptionsValidTransferMap g' k' = Some i'"
      using ledger_wfD(3) [OF wf] b(1) fresh by (fastforce simp: b' f split: if_splits)
  next
    show "g_InscriptionsValidTransferMap g' k' = Some i'" if "g_InscriptionsValidTransferMap g k' = Some i'" for k' i'
      using that fresh by (auto simp: f)
  qed (simp_all add: b' t' f)
  moreover have "token_guard (OpBind pk k (decval (ti_Amount i))) (ledger_of g lt)"
    using b t none by (simp add: ledger_of_def token_of_def)
  ultimately show ?thesis by blast
qed

lemma deployed_step:
  assumes dv: "deployed_view e g g' lt pk" and wf: "ledger_wf e g"
  shows "\<exists>cap. ledger_wf e g' \<and> 0 \<le> cap \<and> ledger_of g' = (ledger_of g)(lt := token_step (OpDeploy cap) (ledger_of g lt))"
proof -
  from dv obtain ticker mx lim dc where
    t: "tview g lt = None" "ToLower e ticker = lt" "0 \<le> decval mx" and
    b': "bview g' = (bview g)(pk := (bview g pk)(lt := (None, None, Map.empty)))" and
    t': "tview g' = (tview g)(lt := Some (ticker, None, mx, lim, dc))" and
    f: "g_InscriptionsWithdrawRemoveMap g' = g_InscriptionsWithdrawRemoveMap g"
      "g_InscriptionsValidTransferMap g' = g_InscriptionsValidTransferMap g"
    unfolding deployed_view_def by blast
  have z: "bview g u lt = (None, None, Map.empty)" for u
    using ledger_wfD(1) [OF wf t(1)] .
  have "token_of (tview g' lt) (\<lambda>u. bview g' u lt) = token_step (OpDeploy (decval mx)) (ledger_of g lt)"
    using t z by (auto simp: ledger_of_def token_of_def b' t' fun_eq_iff new_token_def)
  then have "ledger_of g' = (ledger_of g)(lt := token_step (OpDeploy (decval mx)) (ledger_of g lt))"
    by (intro ledger_of_upd) (simp_all add: b' t')
  moreover have "ledger_wf e g'"
    by (rule ledger_wf_upd [OF wf, where lt = lt]) (use z t in \<open>auto simp: b' t' f split: if_splits\<close>)
  ultimately show ?thesis using t(3) by blast
qed

section \<open>Every event is at most one change of the view\<close>

inductive view_step :: "ext \<Rightarrow> BRC20ModuleIndexer \<Rightarrow> BRC20ModuleIndexer \<Rightarrow> bool" for e :: ext where
  same: "view g' = view g \<Longrightarrow> view_step e g g'"
| minted: "tview g lt = Some (ticker, tot, mx, lim, dc) \<Longrightarrow> 0 < decval amt \<Longrightarrow> decval minted = min (decval amt) (decval mx - decval tot) \<Longrightarrow>
    (\<And>p. mx \<noteq> None \<Longrightarrow> dec_ok p mx \<Longrightarrow> dec_ok p tot \<Longrightarrow> dec_ok p minted) \<Longrightarrow>
    minted_view g g' lt (ToLower e ticker) pk minted \<Longrightarrow> view_step e g g'"
| moved: "g_InscriptionsValidTransferMap g k = Some i \<Longrightarrow> moved_view g g' lt s k r (ti_Amount i) \<Longrightarrow> view_step e g g'"
| bound: "g_InscriptionsValidTransferMap g k = None \<Longrightarrow> bound_view g g' lt pk k i \<Longrightarrow> view_step e g g'"
| deployed: "deployed_view e g g' lt pk \<Longrightarrow> view_step e g g'"

lemma view_step_cong:
  assumes "view_step e g g'" and "view h = view g" and "view h' = view g'"
  shows "view_step e h h'"
  using assms(1)
proof cases
  case same
  with assms(2,3) show ?thesis by (simp add: view_step.same)
next
  case (minted lt ticker tot mx lim dc amt minted pk)
  from minted(1,5) have "tview h lt = Some (ticker, tot, mx, lim, dc)" "minted_view h h' lt (ToLower e ticker) pk minted"
    using viewD [OF assms(2)] viewD [OF assms(3)] by (simp_all add: minted_view_def)
  with minted(2-4) show ?thesis by (blast intro: view_step.minted)
next
  case (moved k i lt s r)
  then have "g_InscriptionsValidTransferMap h k = Some i" "moved_view h h' lt s k r (ti_Amount i)"
    using viewD [OF assms(2)] viewD [OF assms(3)] by (simp_all add: moved_view_def)
  then show ?thesis by (rule view_step.moved)
next
  case (bound k lt pk i)
  then have "g_InscriptionsValidTransferMap h k = None" "bound_view h h' lt pk k i"
    using viewD [OF assms(2)] viewD [OF assms(3)] by (simp_all add: bound_view_def)
  then show ?thesis by (rule view_step.bound)
next
  case (deployed lt pk)
  then have "deployed_view e h h' lt pk"
    using viewD [OF assms(2)] viewD [OF assms(3)] by (simp_all add: deployed_view_def)
  then show ?thesis by (rule view_step.deployed)
qed

lemma ProcessMint_step: "ProcessMint e g d = Some (err, g') \<Longrightarrow> view_step e g g'"
proof -
  assume "ProcessMint e g d = Some (err, g')"
  from ProcessMint_view [OF this] show ?thesis
  proof (elim disjE exE conjE)
    fix lt t amt minted
    assume t: "g_InscriptionsTickerInfoMap g lt = Some t" and pos: "0 < decval amt"
      and m: "decval minted = min (decval amt) (decval (ti_Max (tk_Deploy t)) - decval (ti_TotalMinted (tk_Deploy t)))"
      and p: "\<forall>p. ti_Max (tk_Deploy t) \<noteq> None \<longrightarrow> dec_ok p (ti_Max (tk_Deploy t)) \<longrightarrow> dec_ok p (ti_TotalMinted (tk_Deploy t)) \<longrightarrow> dec_ok p minted"
      and mv: "minted_view g g' lt (ToLower e (tk_Ticker t)) (d_PkScript d) minted"
    have "tview g lt = Some (tk_Ticker t, ti_TotalMinted (tk_Deploy t), ti_Max (tk_Deploy t), ti_Limit (tk_Deploy t), ti_Decimal (tk_Deploy t))"
      using t by (simp add: tview_def token_core_def)
    from view_step.minted [OF this pos m _ mv] p show ?thesis by blast
  qed (rule view_step.same)
qed

lemma ProcessTransfer_step:
  assumes "ProcessTransfer e g d ti iv = Some (err, g')" and "\<not> iv \<Longrightarrow> g_InscriptionsValidTransferMap g (d_CreateIdxKey d) = Some ti"
  shows "view_step e g g'"
  using ProcessTransfer_view [OF assms(1)] assms(2) by (blast intro: view_step.same view_step.moved)

lemma ProcessInscribeTransfer_step:
  assumes "ProcessInscribeTransfer e g d = Some (err, g')" and "g_InscriptionsValidTransferMap g (d_CreateIdxKey d) = None"
  shows "view_step e g g'"
  using ProcessInscribeTransfer_view [OF assms(1)] assms(2) by (blast intro: view_step.same view_step.bound)

lemma ProcessDeploy_step: "ProcessDeploy e g d = Some (err, g') \<Longrightarrow> view_step e g g'"
  using ProcessDeploy_view [of e g d err g'] by (auto intro: view_step.same view_step.deployed)

lemma run_handler_step:
  assumes "run_handler h e g d = Some (err, g')" and "g_InscriptionsValidTransferMap g (d_CreateIdxKey d) = None"
  shows "view_step e g g'"
  using assms
  by (cases h) (auto intro: ProcessDeploy_step ProcessMint_step ProcessInscribeTransfer_step view_step.same
      dest: view_handlers)

definition fresh_key :: "BRC20ModuleIndexer \<Rightarrow> InscriptionBRC20Data \<Rightarrow> bool" where
  "fresh_key g d \<longleftrightarrow> d_IsTransfer d \<or> g_InscriptionsValidTransferMap g (d_CreateIdxKey d) = None"

lemma mark_durty_view: "mark_durty r = Some g' \<Longrightarrow> \<exists>err g1. r = Some (err, g1) \<and> view g' = view g1"
  by (auto simp: mark_durty_def elim!: bind_SomeE split: option.splits)

lemma drop_errorD: "drop_error r = Some g' \<Longrightarrow> \<exists>err. r = Some (err, g')"
  by (auto simp: drop_error_def elim!: bind_SomeE)

lemma inscribe_event_step:
  assumes "inscribe_event e g d = Some g'" and "g_InscriptionsValidTransferMap g (d_CreateIdxKey d) = None"
  shows "view_step e g g'"
proof -
  have "g' = g \<or> (\<exists>h. mark_durty (run_handler h e g d) = Some g')"
    using assms(1) by (auto simp: inscribe_event_def split: if_splits option.splits)
  then show ?thesis
    using run_handler_step [OF _ assms(2)] view_step_cong view_step.same by (metis mark_durty_view)
qed

lemma GetTransferInfoByKey_valid:
  "GetTransferInfoByKey g k = (Some ti, iv) \<Longrightarrow> \<not> iv \<Longrightarrow> g_InscriptionsValidTransferMap g k = Some ti"
  by (auto simp: GetTransferInfoByKey_def split: option.splits)

lemma move_event_cases:
  assumes r: "move_event e xr g d = Some g'" and w: "g_InscriptionsWithdrawRemoveMap g = None"
  obtains (none) "g' = g"
    | (cond) ai iv where "mark_durty (ProcessConditionalApprove e g d ai iv) = Some g'"
    | (trans) ti iv m where "GetTransferInfoByKey g (d_CreateIdxKey d) = (Some ti, iv)"
        "g_InscriptionsTransferRemoveMap g (d_CreateIdxKey d) = None"
        "drop_error (ProcessTransfer e (g\<lparr>g_InscriptionsTransferRemoveMap := m, g_Durty := True\<rparr>) d ti iv) = Some g'"
    | (appr) ai iv m where "drop_error (ProcessApprove e (g\<lparr>g_InscriptionsApproveRemoveMap := m, g_Durty := True\<rparr>) d ai iv) = Some g'"
    | (commit) cf iv m where "drop_error (ProcessCommit e xr (g\<lparr>g_InscriptionsCommitRemoveMap := m, g_Durty := True\<rparr>) cf d iv) = Some g'"
proof -
  let ?k = "d_CreateIdxKey d"
  obtain c ci where c: "(if d_Height d < conf_ENABLE_SWAP_WITHDRAW_HEIGHT e then GetConditionalApproveInfoByKey g ?k else (None, False)) = (c, ci)"
    by (metis surj_pair)
  obtain t ti where t: "GetTransferInfoByKey g ?k = (t, ti)" by fastforce
  obtain a ai where a: "GetApproveInfoByKey g ?k = (a, ai)" by fastforce
  obtain m mi where m: "GetCommitInfoByKey g ?k = (m, mi)" by fastforce
  note r' = r [unfolded move_event_def Let_def c t a m prod.case]
  show thesis
  proof (cases c)
    case (Some x)
    with r' show thesis by (intro cond) simp
  next
    case c: None
    show thesis
    proof (cases "d_Sequence d \<noteq> 1 \<or> g_InscriptionsTransferRemoveMap g ?k \<noteq> None")
      case True
      with r' c show thesis by (intro none) (auto split: if_splits)
    next
      case f: False
      show thesis
      proof (cases t)
        case (Some x)
        with r' c f t show thesis by (intro trans [of x ti]) simp_all
      next
        case t: None
        show thesis
        proof (cases a)
          case (Some x)
          with r' c f t show thesis by (intro appr) simp
        next
          case a: None
          show thesis
          proof (cases m)
            case (Some x)
            with r' c f t a w show thesis by (intro commit) (simp split: option.splits add: move_withdraw_def)
          next
            case None
            with r' c f t a w show thesis by (intro none) (simp split: option.splits add: move_withdraw_def)
          qed
        qed
      qed
    qed
  qed
qed

lemma move_event_step:
  assumes r: "move_event e xr g d = Some g'" and w: "g_InscriptionsWithdrawRemoveMap g = None"
  shows "view_step e g g'"
  using r w
proof (cases rule: move_event_cases)
  case none
  then show ?thesis by (simp add: view_step.same)
next
  case (cond ai iv)
  from mark_durty_view [OF this] show ?thesis using view_handlers(1) view_step.same by metis
next
  case (trans ti iv m)
  let ?g = "g\<lparr>g_InscriptionsTransferRemoveMap := m, g_Durty := True\<rparr>"
  from drop_errorD [OF trans(3)] obtain err where "ProcessTransfer e ?g d ti iv = Some (err, g')" by blast
  then have "view_step e ?g g'" using GetTransferInfoByKey_valid [OF trans(1)] by (intro ProcessTransfer_step) auto
  then show ?thesis by (rule view_step_cong) simp_all
next
  case (appr ai iv m)
  from drop_errorD [OF this] show ?thesis using view_handlers(2) by (fastforce intro: view_step.same)
next
  case (commit cf iv m)
  from drop_errorD [OF this] show ?thesis using view_handlers(8) by (fastforce intro: view_step.same)
qed

lemma process_event_view:
  assumes "process_event e xr g d = Some g'" and "g_InscriptionsWithdrawRemoveMap g = None" and "fresh_key g d"
  shows "view_step e g g'"
proof -
  let ?g = "g\<lparr>g_BestHeight := d_Height d\<rparr>"
  have "view_step e ?g g'"
    using assms move_event_step [of e xr ?g d g'] inscribe_event_step [of e ?g d g']
    by (auto simp: process_event_def Let_def fresh_key_def split: if_splits)
  then show ?thesis by (rule view_step_cong) simp_all
qed

section \<open>Every change is a step of the abstract token\<close>

definition ledger_refines :: "ext \<Rightarrow> BRC20ModuleIndexer \<Rightarrow> BRC20ModuleIndexer \<Rightarrow> bool" where
  "ledger_refines e g g' \<longleftrightarrow> ledger_wf e g' \<and> ledger_step g g'"

lemma refinesI:
  "ledger_wf e g' \<Longrightarrow> token_guard op (ledger_of g lt) \<Longrightarrow> ledger_of g' = (ledger_of g)(lt := token_step op (ledger_of g lt)) \<Longrightarrow>
   ledger_refines e g g'"
  unfolding ledger_refines_def ledger_step_def by blast

lemma view_step_refines:
  assumes "view_step e g g'" and wf: "ledger_wf e g"
  shows "ledger_refines e g g'"
  using assms(1)
proof cases
  case same
  with ledger_wf_cong [of g' g e] ledger_of_cong [of g' g] wf show ?thesis by (simp add: ledger_refines_def ledger_step_def)
next
  case (minted lt ticker tot mx lim dc amt minted pk)
  have "ledger_wf e g' \<and> ledger_of g' = (ledger_of g)(lt := token_step (OpMint pk (decval amt)) (ledger_of g lt))"
    by (rule minted_step [OF minted(5) [unfolded ledger_wfD(2) [OF wf minted(1)]] wf])
      (use minted(1-3) in \<open>auto simp: ledger_of_def token_of_def\<close>)
  with minted(2) show ?thesis by (intro refinesI [of e g' "OpMint pk (decval amt)"]) auto
next
  case (moved k i lt s r)
  have "tview g lt \<noteq> None" using moved(2) ledger_wfD(1) [OF wf] by (fastforce simp: moved_view_def)
  then obtain ticker rest where "tview g lt = Some (ticker, rest)" by auto
  from moved_step [OF moved(2) wf moved(1) this] show ?thesis by (intro refinesI [of e g' "OpMove s k r"]) auto
next
  case (bound k lt pk i)
  from bound_step [OF bound(2) wf bound(1)] show ?thesis by (blast intro: refinesI)
next
  case (deployed lt pk)
  from deployed_step [OF this wf] obtain cap where "ledger_wf e g'" "0 \<le> cap"
    "ledger_of g' = (ledger_of g)(lt := token_step (OpDeploy cap) (ledger_of g lt))" by blast
  then show ?thesis by (intro refinesI [of e g' "OpDeploy cap"]) auto
qed

lemma process_event_step:
  assumes "process_event e xr g d = Some g'" "ledger_wf e g" "fresh_key g d"
  shows "ledger_refines e g g'"
  using view_step_refines [OF process_event_view [OF assms(1) ledger_wfD(4) [OF assms(2)] assms(3)] assms(2)] .

section \<open>Reachable states\<close>

text \<open>
  The states between two events of the loop: the initial state, in which the caller may have
  switched the history off (\<open>EnableHistory\<close> is exported), the state after an event with a fresh
  key, the states at the start and after the end of a batch, and the state after what is only
  needed for one block is dropped.
\<close>

inductive reach :: "ext \<Rightarrow> SwapFunctionResultCheckState option list option \<Rightarrow> BRC20ModuleIndexer \<Rightarrow> bool"
  for e :: ext and xr :: "SwapFunctionResultCheckState option list option" where
  start: "reach e xr ((Init zero_indexer)\<lparr>g_EnableHistory := h\<rparr>)"
| event: "reach e xr g \<Longrightarrow> fresh_key g d \<Longrightarrow> process_event e xr g d = Some g' \<Longrightarrow> reach e xr g'"
| batch_start: "reach e xr g \<Longrightarrow> reach e xr (g\<lparr>g_Durty := False\<rparr>)"
| batch_end: "reach e xr g \<Longrightarrow> reach e xr (clean_holders g)"
| purge: "reach e xr g \<Longrightarrow> reach e xr (PurgeHistoricalData g)"

lemma view_clean_holders [simp]: "view (clean_holders g) = view g"
  by (simp add: clean_holders_def)

lemma view_purge [simp]: "view (PurgeHistoricalData g) = view g"
  by (simp add: PurgeHistoricalData_def) (simp add: view_def)

lemma init_ledger: "view ((Init zero_indexer)\<lparr>g_EnableHistory := h\<rparr>) = (\<lambda>u lt. (None, None, Map.empty), \<lambda>lt. None, None, Map.empty)"
  by (simp add: view_def bview_def tview_def balance_of_def Init_def initBRC20_def initModule_def zero_indexer_def fun_eq_iff)

lemma ledger_ok_cong:
  assumes "view g' = view g" and "ledger_wf e g \<and> tokens_ok g"
  shows "ledger_wf e g' \<and> tokens_ok g'"
  using assms ledger_wf_cong [OF assms(1), of e] ledger_of_cong [OF assms(1)] by (simp add: tokens_ok_def)

lemma reach_ledger: "reach e xr g \<Longrightarrow> ledger_wf e g \<and> tokens_ok g"
proof (induction rule: reach.induct)
  case (start h)
  then show ?case
    using init_ledger [of h] by (auto simp: view_def ledger_wf_def tokens_ok_def ledger_of_def token_of_def)
next
  case (event g d g')
  from process_event_step [OF event(3) _ event(2)] event.IH have "ledger_refines e g g'" by blast
  then show ?case using event.IH tokens_ok_step by (auto simp: ledger_refines_def)
qed (rule ledger_ok_cong; simp)+

lemma total_add:
  assumes "finite (accounts f)" "finite (accounts h)"
  shows "total_of (\<lambda>u. f u + h u) = total_of f + total_of h"
proof -
  let ?S = "accounts f \<union> accounts h"
  have "total_of (\<lambda>u. f u + h u) = (\<Sum>u\<in>?S. f u + h u)"
    by (rule total_on) (use assms in \<open>auto simp: accounts_def\<close>)
  also have "\<dots> = sum f ?S + sum h ?S" by (rule sum.distrib)
  also have "sum f ?S = total_of f" by (rule total_on [symmetric]) (use assms in auto)
  also have "sum h ?S = total_of h" by (rule total_on [symmetric]) (use assms in auto)
  finally show ?thesis .
qed

lemma token_total: "token_ok t \<Longrightarrow> total_of (\<lambda>u. tok_avail t u + tok_bound t u) = tok_minted t"
  using total_add [of "tok_avail t" "tok_bound t"] unfolding token_ok_def by auto

lemma holding_token:
  "ledger_of g lt = Some t \<Longrightarrow> holding lt g = (\<lambda>u. tok_avail t u + tok_bound t u)"
  by (auto simp: ledger_of_def token_of_def holding_bview fun_eq_iff split: prod.splits)

lemma token_of_ticker:
  "g_InscriptionsTickerInfoMap g lt = Some t \<Longrightarrow> ledger_of g lt =
    Some \<lparr>tok_cap = decval (ti_Max (tk_Deploy t)), tok_minted = decval (ti_TotalMinted (tk_Deploy t)),
      tok_avail = (\<lambda>u. decval (fst (bview g u lt))), tok_bound = (\<lambda>u. decval (fst (snd (bview g u lt)))),
      tok_pending = (\<lambda>u k. map_option (\<lambda>i. decval (ti_Amount i)) (snd (snd (bview g u lt)) k))\<rparr>"
  by (simp add: ledger_of_def token_of_def tview_def token_core_def)

text \<open>What a reachable state promises about a deployed token.\<close>

lemma reach_token:
  assumes "reach e xr g" "g_InscriptionsTickerInfoMap g lt = Some t"
  shows "total_of (holding lt g) = decval (ti_TotalMinted (tk_Deploy t))"
    "0 \<le> decval (ti_TotalMinted (tk_Deploy t))" "decval (ti_TotalMinted (tk_Deploy t)) \<le> decval (ti_Max (tk_Deploy t))"
    "balance_of g u lt = Some b \<Longrightarrow> 0 \<le> decval (tb_AvailableBalance b) \<and> 0 \<le> decval (tb_TransferableBalance b) \<and>
       decval (tb_TransferableBalance b) = total_of (pend_amt (\<lambda>k. map_option (\<lambda>i. decval (ti_Amount i)) (tb_ValidTransferMap b k)))"
proof -
  note l = token_of_ticker [OF assms(2)]
  from reach_ledger [OF assms(1)] l have ok: "token_ok (the (ledger_of g lt))" by (simp add: tokens_ok_def)
  show "total_of (holding lt g) = decval (ti_TotalMinted (tk_Deploy t))"
    using token_total [OF ok] holding_token [OF l] l by simp
  show "0 \<le> decval (ti_TotalMinted (tk_Deploy t))" "decval (ti_TotalMinted (tk_Deploy t)) \<le> decval (ti_Max (tk_Deploy t))"
    using ok l by (simp_all add: token_ok_def)
  assume "balance_of g u lt = Some b"
  then have b: "bview g u lt = (tb_AvailableBalance b, tb_TransferableBalance b, tb_ValidTransferMap b)"
    by (simp add: bview_def bal_core_def)
  show "0 \<le> decval (tb_AvailableBalance b) \<and> 0 \<le> decval (tb_TransferableBalance b) \<and>
       decval (tb_TransferableBalance b) = total_of (pend_amt (\<lambda>k. map_option (\<lambda>i. decval (ti_Amount i)) (tb_ValidTransferMap b k)))"
    using token_okD(1,2,6) [OF ok, of u] l b by simp
qed

text \<open>A run over a list of events with fresh keys.\<close>

fun run_fresh :: "ext \<Rightarrow> SwapFunctionResultCheckState option list option \<Rightarrow> InscriptionBRC20Data list \<Rightarrow> BRC20ModuleIndexer \<Rightarrow> BRC20ModuleIndexer option" where
  "run_fresh e xr [] g = Some g"
| "run_fresh e xr (d # ds) g = (if fresh_key g d then do { g \<leftarrow> process_event e xr g d; run_fresh e xr ds g } else None)"

lemma reach_run: "run_fresh e xr ds g = Some g' \<Longrightarrow> reach e xr g \<Longrightarrow> reach e xr g'"
  by (induction ds arbitrary: g) (auto elim!: bind_SomeE split: if_splits intro: reach.event)

end
