(* ===== verification/Evaluation.thy ===== *)
theory Evaluation
  imports Decimal_Arith
begin

text \<open>
  Code equations with which amounts are evaluated on binary integers instead of unary natural
  numbers: the value of a digit sequence, printing, and the square root.
\<close>

definition int_digits :: "string \<Rightarrow> int" where
  "int_digits s = foldl (\<lambda>n c. 10 * n + int (digit_val c)) 0 s"

lemma int_digits: "int (digits_val s) = int_digits s"
  by (induction s rule: rev_induct) (simp_all add: int_digits_def)

lemma big_SetString_code [code]:
  "big_SetString s =
     (let (neg, ds) = (case s of [] \<Rightarrow> (False, [])
                       | c # cs \<Rightarrow> if c = CHR ''-'' then (True, cs) else if c = CHR ''+'' then (False, cs)
                                   else (False, s))
      in if ds = [] \<or> \<not> list_all is_digit ds then None
         else Some (if neg then - int_digits ds else int_digits ds))"
  unfolding big_SetString_def int_digits by (rule refl)

function int_string :: "int \<Rightarrow> string" where
  "int_string z = (if z < 10 then [digit_char (nat z)] else int_string (z div 10) @ [digit_char (nat (z mod 10))])"
  by pat_completeness auto
termination by (relation "measure nat") auto

declare int_string.simps [simp del]

lemma int_string: "nat_string n = int_string (int n)"
proof (induction n rule: nat_string.induct)
  case (1 n)
  have "nat (int n mod 10) = n mod 10" by (simp add: nat_mod_distrib)
  with 1 show ?case
    by (subst nat_string.simps, subst int_string.simps) (simp add: zdiv_int)
qed

lemma Decimal_String_code [code]:
  "Decimal_String dp =
     (case dp of None \<Rightarrow> Some ''0''
      | Some d \<Rightarrow> do {
          let value = \<bar>Val d\<bar>;
          f \<leftarrow> precisionFactor (Precition d);
          let quotient = value div f;
          let remainder = value mod f;
          let sign = (if Val d < 0 then ''-'' else '''');
          (if remainder = 0 then Some (sign @ int_string quotient)
           else
             let digits = int_string remainder;
                 decimalPart = go_trim_right CHR ''0'' (replicate (Precition d - length digits) CHR ''0'' @ digits)
             in Some (sign @ int_string quotient @ ''.'' @ decimalPart)) })"
proof (cases dp)
  case (Some d)
  have f: "f = 10 ^ Precition d" if "precisionFactor (Precition d) = Some f" for f
    using that by (simp add: precisionFactor_def split: if_splits)
  have q: "int (nat \<bar>Val d\<bar> div nat f) = \<bar>Val d\<bar> div f" "int (nat \<bar>Val d\<bar> mod nat f) = \<bar>Val d\<bar> mod f"
    if "precisionFactor (Precition d) = Some f" for f
    using f [OF that] by (simp_all add: zdiv_int zmod_int)
  show ?thesis
  proof (cases "precisionFactor (Precition d)")
    case None
    with Some show ?thesis by (simp add: Decimal_String_def)
  next
    case f: (Some f)
    have z: "nat \<bar>Val d\<bar> mod nat f = 0 \<longleftrightarrow> \<bar>Val d\<bar> mod f = 0"
      using q(2) [OF f] by linarith
    show ?thesis
      using Some f z by (simp add: Decimal_String_def zero_padded_def int_string q [OF f] Let_def)
  qed
qed (simp add: Decimal_String_def)

function int_sqrt :: "int \<Rightarrow> int" where
  "int_sqrt z = (if z \<le> 0 then 0 else let r = 2 * int_sqrt (z div 4) in if (r + 1) * (r + 1) \<le> z then r + 1 else r)"
  by pat_completeness auto
termination by (relation "measure nat") auto

declare int_sqrt.simps [simp del]

lemma int_sqrt: "int (isqrt n) = int_sqrt (int n)"
proof (induction n rule: isqrt.induct)
  case (1 n)
  show ?case
  proof (cases "n = 0")
    case True
    then show ?thesis by (simp add: isqrt.simps int_sqrt.simps)
  next
    case False
    let ?r = "2 * isqrt (n div 4)"
    have r: "int ?r = 2 * int_sqrt (int n div 4)" using 1 [OF False] by (simp add: zdiv_int)
    have c: "(?r + 1) * (?r + 1) \<le> n \<longleftrightarrow> (int ?r + 1) * (int ?r + 1) \<le> int n"
      using of_nat_le_iff [of "(?r + 1) * (?r + 1)" n, where 'a = int] by (simp add: algebra_simps)
    have "isqrt n = (if (?r + 1) * (?r + 1) \<le> n then ?r + 1 else ?r)"
      using False by (subst isqrt.simps) (simp add: Let_def)
    then have "int (isqrt n) = (if (int ?r + 1) * (int ?r + 1) \<le> int n then int ?r + 1 else int ?r)"
      unfolding c by simp
    also have "\<dots> = int_sqrt (int n)"
      unfolding r using False by (subst (3) int_sqrt.simps) (simp add: Let_def)
    finally show ?thesis .
  qed
qed

lemma big_Sqrt_code [code]: "big_Sqrt x = (if x < 0 then None else Some (int_sqrt x))"
  by (simp add: big_Sqrt_def int_sqrt)

text \<open>Characters are written out, so that no character is computed from its code.\<close>

lemma go_spaces_code [code]:
  "go_spaces =
     [[CHR 0x09], [CHR 0x0a], [CHR 0x0b], [CHR 0x0c], [CHR 0x0d], [CHR 0x20],
      [CHR 0xc2, CHR 0x85], [CHR 0xc2, CHR 0xa0], [CHR 0xe1, CHR 0x9a, CHR 0x80],
      [CHR 0xe2, CHR 0x80, CHR 0x80], [CHR 0xe2, CHR 0x80, CHR 0x81], [CHR 0xe2, CHR 0x80, CHR 0x82],
      [CHR 0xe2, CHR 0x80, CHR 0x83], [CHR 0xe2, CHR 0x80, CHR 0x84], [CHR 0xe2, CHR 0x80, CHR 0x85],
      [CHR 0xe2, CHR 0x80, CHR 0x86], [CHR 0xe2, CHR 0x80, CHR 0x87], [CHR 0xe2, CHR 0x80, CHR 0x88],
      [CHR 0xe2, CHR 0x80, CHR 0x89], [CHR 0xe2, CHR 0x80, CHR 0x8a],
      [CHR 0xe2, CHR 0x80, CHR 0xa8], [CHR 0xe2, CHR 0x80, CHR 0xa9], [CHR 0xe2, CHR 0x80, CHR 0xaf],
      [CHR 0xe2, CHR 0x81, CHR 0x9f], [CHR 0xe3, CHR 0x80, CHR 0x80]]"
  by code_simp

lemma hex_digit_code [code]: "hex_digit d = (if d < 16 then ''0123456789abcdef'' ! d else char_of (87 + d))"
proof (cases "d < 16")
  case True
  have "\<forall>d\<in>set [0..<16]. hex_digit d = ''0123456789abcdef'' ! d" by code_simp
  then have "\<forall>d<16. hex_digit d = ''0123456789abcdef'' ! d" by (simp only: set_upt atLeastLessThan_iff Ball_def) simp
  with True show ?thesis by simp
qed (simp add: hex_digit_def)

lemma digit_char_code [code]: "digit_char d = (if d < 10 then ''0123456789'' ! d else char_of (48 + d))"
proof (cases "d < 10")
  case True
  have "\<forall>d\<in>set [0..<10]. digit_char d = ''0123456789'' ! d" by code_simp
  then have "\<forall>d<10. digit_char d = ''0123456789'' ! d" by (simp only: set_upt atLeastLessThan_iff Ball_def) simp
  with True show ?thesis by simp
qed (simp add: digit_char_def)

text \<open>An updated map stays a chain of updates and is evaluated when it is applied.\<close>

lemma fun_upd_code [code]: "fun_upd f a b c = (if c = a then b else f c)"
  by (rule fun_upd_apply)

text \<open>Tests and conversions of characters on their bits.\<close>

lemma all_chars: "(\<And>b0 b1 b2 b3 b4 b5 b6 b7. P (Char b0 b1 b2 b3 b4 b5 b6 b7)) \<Longrightarrow> P c"
  by (cases c) simp

definition nibble :: "bool \<Rightarrow> bool \<Rightarrow> bool \<Rightarrow> bool \<Rightarrow> nat" where
  "nibble a b c d = (if a then 1 else 0) + (if b then 2 else 0) + (if c then 4 else 0) + (if d then 8 else 0)"

lemma of_char_bits: "(of_char (Char b0 b1 b2 b3 b4 b5 b6 b7) :: nat) = nibble b0 b1 b2 b3 + 16 * nibble b4 b5 b6 b7"
  by (simp add: nibble_def)

lemma nibble_less: "nibble a b c d < 16"
  by (simp add: nibble_def)

lemma is_digit_code [code]:
  "is_digit (Char b0 b1 b2 b3 b4 b5 b6 b7) \<longleftrightarrow> \<not> b7 \<and> \<not> b6 \<and> b5 \<and> b4 \<and> \<not> (b3 \<and> (b2 \<or> b1))"
  unfolding is_digit_def of_char_bits
  by (cases b1; cases b2; cases b3; cases b4; cases b5; cases b6; cases b7) (simp_all add: nibble_def)

lemma hex_encode_code [code]:
  "hex_encode s = concat (map (\<lambda>c. case c of Char b0 b1 b2 b3 b4 b5 b6 b7 \<Rightarrow>
     [hex_digit (nibble b4 b5 b6 b7), hex_digit (nibble b0 b1 b2 b3)]) s)"
proof -
  have "[hex_digit (of_char c div 16), hex_digit (of_char c mod 16)] = (case c of Char b0 b1 b2 b3 b4 b5 b6 b7 \<Rightarrow>
     [hex_digit (nibble b4 b5 b6 b7), hex_digit (nibble b0 b1 b2 b3)])" for c
  proof (rule all_chars)
    fix b0 b1 b2 b3 b4 b5 b6 b7
    show "[hex_digit (of_char (Char b0 b1 b2 b3 b4 b5 b6 b7) div 16), hex_digit (of_char (Char b0 b1 b2 b3 b4 b5 b6 b7) mod 16)] =
      (case Char b0 b1 b2 b3 b4 b5 b6 b7 of Char b0 b1 b2 b3 b4 b5 b6 b7 \<Rightarrow>
         [hex_digit (nibble b4 b5 b6 b7), hex_digit (nibble b0 b1 b2 b3)])"
      unfolding of_char_bits using nibble_less [of b0 b1 b2 b3] by simp
  qed
  then show ?thesis by (simp add: hex_encode_def)
qed

lemma is_ascii_code [code]: "is_ascii (Char b0 b1 b2 b3 b4 b5 b6 b7) \<longleftrightarrow> \<not> b7"
  unfolding is_ascii_def of_char_bits using nibble_less [of b0 b1 b2 b3]
  by (cases b4; cases b5; cases b6; cases b7) (simp_all add: nibble_def)

lemma digit_val_code [code]:
  "digit_val (Char b0 b1 b2 b3 b4 b5 b6 b7) =
     (if is_digit (Char b0 b1 b2 b3 b4 b5 b6 b7) then nibble b0 b1 b2 b3
      else nibble b0 b1 b2 b3 + 16 * nibble b4 b5 b6 b7 - 48)"
  unfolding digit_val_def of_char_bits is_digit_code by (simp add: nibble_def [of b4 b5 b6 b7])

lemma ascii_lower_code [code]:
  "ascii_lower (Char b0 b1 b2 b3 b4 b5 b6 b7) =
     (if \<not> b7 \<and> b6 \<and> \<not> b5 \<and> (b4 \<or> b3 \<or> b2 \<or> b1 \<or> b0) \<and> \<not> (b4 \<and> b3 \<and> (b2 \<or> b1 \<and> b0))
      then Char b0 b1 b2 b3 b4 True b6 b7 else Char b0 b1 b2 b3 b4 b5 b6 b7)"
proof -
  let ?c = "Char b0 b1 b2 b3 b4 b5 b6 b7" and ?d = "Char b0 b1 b2 b3 b4 True b6 b7"
  have u: "(65::nat) \<le> of_char ?c \<and> (of_char ?c :: nat) \<le> 90 \<longleftrightarrow>
      \<not> b7 \<and> b6 \<and> \<not> b5 \<and> (b4 \<or> b3 \<or> b2 \<or> b1 \<or> b0) \<and> \<not> (b4 \<and> b3 \<and> (b2 \<or> b1 \<and> b0))"
    unfolding of_char_bits
    by (cases b0; cases b1; cases b2; cases b3; cases b4; cases b5; cases b6; cases b7) (simp_all add: nibble_def)
  have l: "char_of ((of_char ?c :: nat) + 32) = ?d" if "\<not> b5"
  proof -
    have "(of_char ?c :: nat) + 32 = of_char ?d" unfolding of_char_bits using that by (simp add: nibble_def)
    then show ?thesis by (simp only: char_of_char)
  qed
  show ?thesis unfolding ascii_lower_def u by (rule if_cong [OF refl l refl]) blast
qed

end
