(* ===== verification/Scenario.thy ===== *)
theory Scenario
  imports Ledger_Inv Evaluation
begin

text \<open>
  A concrete run of the indexer, evaluated in the kernel: a token is deployed and minted, and a
  transfer inscription is created and moved. The theorems about reachable states are applied to it.
\<close>

definition deploy_text :: string where "deploy_text = ''{deploy ordi .............................}''"
definition mint_text :: string where "mint_text = ''{mint ordi ...............................}''"
definition transfer_text :: string where "transfer_text = ''{transfer ordi ...........................}''"

definition demo_json :: "string \<Rightarrow> json option" where
  "demo_json s =
     (if s = deploy_text then Some (JObj [(''p'', JStr ''brc-20''), (''op'', JStr ''deploy''), (''tick'', JStr ''ORDI''),
        (''max'', JStr ''21''), (''lim'', JStr ''10''), (''dec'', JStr ''0'')])
      else if s = mint_text then Some (JObj [(''p'', JStr ''brc-20''), (''op'', JStr ''mint''), (''tick'', JStr ''ordi''), (''amt'', JStr ''5'')])
      else if s = transfer_text then Some (JObj [(''p'', JStr ''brc-20''), (''op'', JStr ''transfer''), (''tick'', JStr ''ordi''), (''amt'', JStr ''2'')])
      else None)"

definition run_env :: ext where
  "run_env = (demo_env JNull)\<lparr>ext_json_parse := demo_json\<rparr>"

definition demo_event :: "bool \<Rightarrow> string \<Rightarrow> string \<Rightarrow> string \<Rightarrow> InscriptionBRC20Data" where
  "demo_event isTransfer content key pk =
     \<lparr>d_IsTransfer = isTransfer, d_TxId = replicate 32 CHR 0x01, d_Idx = 0, d_Vout = 0, d_Offset = 0, d_Satoshi = 546, d_PkScript = pk,
      d_Fee = 0, d_InscriptionNumber = 0, d_Parent = '''', d_ContentBody = content, d_CreateIdxKey = key, d_Height = 1, d_TxIdx = 0,
      d_BlockTime = 1, d_Sequence = 1, d_InscriptionId = ''''\<rparr>"

definition demo_events :: "InscriptionBRC20Data list" where
  "demo_events = [demo_event False deploy_text ''k1'' ''alice'', demo_event False mint_text ''k2'' ''alice'',
     demo_event False transfer_text ''k3'' ''alice'', demo_event True transfer_text ''k3'' ''bob'']"

definition demo_state :: BRC20ModuleIndexer where
  "demo_state = (case run_fresh run_env None demo_events ((Init zero_indexer)\<lparr>g_EnableHistory := False\<rparr>) of
     None \<Rightarrow> zero_indexer | Some g \<Rightarrow> g)"

text \<open>The run does not panic; 5 are minted, and 2 of them were moved to the second user.\<close>

definition demo_summary :: "BRC20ModuleIndexer \<Rightarrow> int option \<times> (int \<times> int) option \<times> (int \<times> int) option" where
  "demo_summary g =
     (map_option (\<lambda>t. decval (ti_TotalMinted (tk_Deploy t))) (g_InscriptionsTickerInfoMap g ''ordi''),
      map_option (\<lambda>b. (decval (tb_AvailableBalance b), decval (tb_TransferableBalance b))) (balance_of g ''alice'' ''ordi''),
      map_option (\<lambda>b. (decval (tb_AvailableBalance b), decval (tb_TransferableBalance b))) (balance_of g ''bob'' ''ordi''))"

lemma demo_run:
  "map_option demo_summary (run_fresh run_env None demo_events ((Init zero_indexer)\<lparr>g_EnableHistory := False\<rparr>)) =
   Some (Some 5, Some (3, 0), Some (2, 0))"
  by code_simp

lemma demo_run_state:
  "run_fresh run_env None demo_events ((Init zero_indexer)\<lparr>g_EnableHistory := False\<rparr>) = Some demo_state"
  "demo_summary demo_state = (Some 5, Some (3, 0), Some (2, 0))"
  using demo_run by (auto simp: demo_state_def)

lemma demo_reach: "reach run_env None demo_state" "demo_summary demo_state = (Some 5, Some (3, 0), Some (2, 0))"
  using reach_run [OF demo_run_state(1) reach.start] demo_run_state(2) by simp_all

lemma run_fresh_last:
  "run_fresh e xr (ds @ [d]) g = Some g' \<Longrightarrow> reach e xr g \<Longrightarrow>
   \<exists>g1. reach e xr g1 \<and> fresh_key g1 d \<and> process_event e xr g1 d = Some g'"
  by (induction ds arbitrary: g) (auto elim!: bind_SomeE split: if_splits intro: reach.event)

lemma demo_last:
  obtains g where "reach run_env None g" "fresh_key g (last demo_events)"
    "process_event run_env None g (last demo_events) = Some demo_state"
proof -
  have "demo_events = butlast demo_events @ [last demo_events]" by (simp add: demo_events_def)
  from run_fresh_last [of run_env None "butlast demo_events" "last demo_events"] demo_run_state(1)
    this reach.start show thesis by (metis that)
qed

end
