(* ===== verification/Module_Ledger.thy ===== *)
theory Module_Ledger
  imports Ledger
begin

text \<open>
  The ledger of a swap module. The tokens of a module are in the balances of its users and in the
  reserves of its pools; \<open>custody\<close> is their sum. The LP tokens of a pool are recorded twice, by pool
  and by user. The lemmas give the effect of each commit function on both, and the effect of a swap
  on the product of the reserves.
\<close>

section \<open>Arithmetic of amounts\<close>

lemma decval_Mul: "a \<noteq> None \<Longrightarrow> b \<noteq> None \<Longrightarrow> decval (Decimal_Mul a b) = decval a * decval b"
  by (auto simp: Decimal_Mul_def)

lemma decval_Mul_le: "decval (Decimal_Mul a b) = decval a * decval b"
  by (auto simp: Decimal_Mul_def split: option.splits)

lemma Decimal_Div_pos:
  assumes "Decimal_Div a b = Some c" and "0 < decval b"
  shows "decval c = decval a div decval b"
  using assms by (auto simp: Decimal_Div_def big_Div_def decval_def elim!: bind_SomeE split: option.splits if_splits)

lemma Decimal_Div_zero: "Decimal_Div a b = Some c \<Longrightarrow> decval b = 0 \<Longrightarrow> decval c = 0"
  by (auto simp: Decimal_Div_def big_Div_def decval_def elim!: bind_SomeE split: option.splits if_splits)

lemma CheckTickVerify_nonneg: "CheckTickVerify e g tick s = Some r \<Longrightarrow> 0 \<le> decval (amt_of r)"
  by (auto simp: CheckTickVerify_def amt_of_def elim!: bind_SomeE split: option.splits sum.splits if_splits)

lemma CheckAmountVerify_nonneg: "CheckAmountVerify s p = Some r \<Longrightarrow> 0 \<le> decval (amt_of r)"
  by (auto simp: CheckAmountVerify_def amt_of_def elim!: bind_SomeE split: option.splits sum.splits if_splits)

section \<open>The product of the reserves\<close>

text \<open>A quotient rounded down leaves at least the product in the pool.\<close>

lemma product_kept_out:
  fixes i w a k b :: int
  assumes "0 \<le> i" "0 \<le> w" "0 \<le> a" "0 \<le> k" "k \<le> n" "0 < i * n + a * k" and b: "b = w * (a * k) div (i * n + a * k)"
  shows "0 \<le> b \<and> b \<le> w \<and> i * w \<le> (i + a) * (w - b)"
proof -
  let ?d = "i * n + a * k"
  have n: "0 \<le> n" using assms by simp
  have nn: "0 \<le> w * (a * k)" using assms by simp
  have b0: "0 \<le> b" unfolding b using nn assms(6) by (simp add: pos_imp_zdiv_nonneg_iff)
  have bd: "b * ?d \<le> w * (a * k)" unfolding b by (metis div_mult_mod_eq le_add_same_cancel1 assms(6) pos_mod_sign)
  have "w * (a * k) \<le> w * ?d" using assms n by (intro mult_left_mono) simp_all
  with bd have "b * ?d \<le> w * ?d" by linarith
  then have bo: "b \<le> w" using assms(6) by simp
  have "b * (i * n) \<le> (w - b) * (a * k)" using bd by (simp add: algebra_simps)
  also have "\<dots> \<le> (w - b) * (a * n)" using bo assms by (intro mult_left_mono) simp_all
  finally have m: "n * (b * i) \<le> n * ((w - b) * a)" by (simp add: algebra_simps)
  have "b * i \<le> (w - b) * a"
  proof (cases "n = 0")
    case True
    with assms have "k = 0" by simp
    with True assms(6) show ?thesis by simp
  next
    case False
    with n m show ?thesis by simp
  qed
  then have "i * w \<le> (i + a) * (w - b)" by (simp add: algebra_simps)
  with b0 bo show ?thesis by simp
qed

lemma swap_amount_out_product:
  assumes r: "swap_amount_out rin rout amt fee = Some b"
    and nn: "0 \<le> decval rin" "0 \<le> decval rout" "0 \<le> decval amt" and fee: "0 \<le> decval fee" "decval fee \<le> 1000"
  shows "decval rin * decval rout \<le> (decval rin + decval amt) * (decval rout - decval b) \<and> 0 \<le> decval b \<and> decval b \<le> decval rout"
proof -
  define k where "k = (if 0 < decval fee then 1000 - decval fee else 1)"
  define n where "n = (if 0 < decval fee then 1000 else 1 :: int)"
  obtain den where den: "decval den = decval rin * n + decval amt * k"
    and dv: "\<exists>x. decval x = decval rout * (decval amt * k) \<and> Decimal_Div x den = Some b"
  proof (cases "0 < decval fee")
    case True
    from r True obtain k' den where k': "Decimal_Sub (NewDecimal 1000 3) fee = Some k'"
      and d: "Decimal_Add (Decimal_Mul rin (NewDecimal 1000 3)) (Decimal_Mul amt k') = Some den"
      and q: "Decimal_Div (Decimal_Mul rout (Decimal_Mul amt k')) den = Some b"
      by (auto simp: swap_amount_out_def Let_def elim!: bind_SomeE)
    from k' have "decval k' = k" using True by (simp add: Decimal_Sub_val k_def)
    with d q True show thesis
      by (intro that [of den] exI [of _ "Decimal_Mul rout (Decimal_Mul amt k')"]) (auto simp: decval_Mul_le n_def dest!: Decimal_Add_val)
  next
    case False
    from r False obtain den where d: "Decimal_Add rin amt = Some den" and q: "Decimal_Div (Decimal_Mul rout amt) den = Some b"
      by (auto simp: swap_amount_out_def elim!: bind_SomeE)
    with False show thesis
      by (intro that [of den] exI [of _ "Decimal_Mul rout amt"]) (auto simp: decval_Mul_le n_def k_def dest!: Decimal_Add_val)
  qed
  have kn: "0 \<le> k" "k \<le> n" using fee by (auto simp: k_def n_def)
  have d0: "0 \<le> decval den" using den nn kn by simp
  show ?thesis
  proof (cases "decval den = 0")
    case True
    with dv have "decval b = 0" using Decimal_Div_zero by blast
    with nn show ?thesis by (simp add: algebra_simps)
  next
    case False
    with d0 have p: "0 < decval rin * n + decval amt * k" by (simp add: den)
    have "decval b = decval rout * (decval amt * k) div (decval rin * n + decval amt * k)"
      using dv den p Decimal_Div_pos by metis
    from product_kept_out [OF nn(1,2,3) kn p this] show ?thesis by blast
  qed
qed

lemma product_kept_in:
  fixes i w t k a :: int
  assumes "0 \<le> i" "0 \<le> t" "t < w" "0 < k" "k \<le> n" and a: "a = i * (t * n) div ((w - t) * k) + 1"
  shows "0 < a \<and> i * w \<le> (i + a) * (w - t)"
proof -
  let ?d = "(w - t) * k"
  have d: "0 < ?d" using assms by simp
  have n: "0 < n" using assms by simp
  have q: "0 \<le> i * (t * n) div ?d" using d assms n by (simp add: pos_imp_zdiv_nonneg_iff)
  have "i * (t * n) = ?d * (i * (t * n) div ?d) + i * (t * n) mod ?d" by simp
  moreover have "i * (t * n) mod ?d < ?d" using d by simp
  ultimately have "i * (t * n) \<le> ?d * a" unfolding a by (simp add: algebra_simps)
  moreover have "i * (t * k) \<le> i * (t * n)" using assms by (intro mult_left_mono) simp_all
  ultimately have "k * (i * t) \<le> k * ((w - t) * a)" by (simp add: algebra_simps)
  then have "i * t \<le> (w - t) * a" using assms(4) by simp
  then show ?thesis using q a by (simp add: algebra_simps)
qed

lemma Decimal_Div_neq:
  "Decimal_Div a b = Some c \<Longrightarrow> decval b = 0 \<Longrightarrow> a = None \<or> b = None"
  by (auto simp: Decimal_Div_def big_Div_def decval_def elim!: bind_SomeE split: option.splits)

lemma swap_amount_in_product:
  assumes r: "swap_amount_in rin rout tin tout fee = Some a"
    and nn: "0 \<le> decval rin" "0 \<le> decval tout" "decval tout \<le> decval rout" and fee: "0 \<le> decval fee" "decval fee \<le> 1000"
  shows "0 < decval a \<and> decval rin * decval rout \<le> (decval rin + decval a) * (decval rout - decval tout)"
proof -
  define k where "k = (if 0 < decval fee then 1000 - decval fee else 1)"
  define n where "n = (if 0 < decval fee then 1000 else 1 :: int)"
  obtain rest num den q where rest: "Decimal_Sub rout tout = Some rest"
    and num: "decval num = decval rin * (decval tout * n)" "num = None \<Longrightarrow> decval rin = 0 \<or> decval tout = 0"
    and den: "decval den = (decval rout - decval tout) * k" "den = None \<Longrightarrow> rest = None"
    and q: "Decimal_Div num den = Some q" "decval a = decval q + 1"
  proof -
    from r obtain rest q' where 1: "Decimal_Sub rout tout = Some rest"
      and 2: "(if Decimal_Sign fee > 0 then do { r \<leftarrow> Decimal_Sub (NewDecimal 1000 3) fee;
               Decimal_Div (Decimal_Mul rin (Decimal_Mul tout (NewDecimal 1000 3))) (Decimal_Mul rest r) }
             else Decimal_Div (Decimal_Mul rin tout) rest) = Some q'"
      and 3: "decval a = decval q' + 1"
      by (auto simp: swap_amount_in_def dest!: Decimal_Add_val elim!: bind_SomeE)
    have rv: "decval rest = decval rout - decval tout" using 1 by (rule Decimal_Sub_val)
    show thesis
    proof (cases "0 < decval fee")
      case True
      with 2 obtain r where r: "Decimal_Sub (NewDecimal 1000 3) fee = Some r"
        "Decimal_Div (Decimal_Mul rin (Decimal_Mul tout (NewDecimal 1000 3))) (Decimal_Mul rest r) = Some q'"
        by (auto elim!: bind_SomeE)
      have "decval r = k" using r(1) True by (simp add: Decimal_Sub_val k_def)
      moreover have "r \<noteq> None" using r(1) by (auto simp: Decimal_Sub_def NewDecimal_def split: option.splits if_splits)
      ultimately show thesis using 1 3 r(2) rv True
        by (intro that [of rest "Decimal_Mul rin (Decimal_Mul tout (NewDecimal 1000 3))" "Decimal_Mul rest r" q'])
          (auto simp: decval_Mul_le n_def, auto simp: Decimal_Mul_def NewDecimal_def split: option.splits)
    next
      case False
      with 1 2 3 rv show thesis
        by (intro that [of rest "Decimal_Mul rin tout" rest q'])
          (auto simp: decval_Mul_le n_def k_def, auto simp: Decimal_Mul_def split: option.splits)
    qed
  qed
  have kn: "0 \<le> k" "k \<le> n" using fee by (auto simp: k_def n_def)
  show ?thesis
  proof (cases "decval den = 0")
    case True
    from Decimal_Div_neq [OF q(1) True] have z: "decval rin = 0 \<or> decval tout = 0 \<or> rest = None"
      using num(2) den(2) by blast
    have "decval q = 0" using Decimal_Div_zero [OF q(1) True] .
    moreover have "rest = None \<Longrightarrow> decval rout = decval tout" using Decimal_Sub_val [OF rest] by simp
    ultimately show ?thesis
      using z q(2) nn rest by (auto simp: algebra_simps Decimal_Sub_def split: option.splits if_splits)
  next
    case False
    then have "k \<noteq> 0" "decval rout - decval tout \<noteq> 0" using den(1) by auto
    with kn nn have kt: "0 < k" "decval tout < decval rout" by simp_all
    have "decval a = decval rin * (decval tout * n) div ((decval rout - decval tout) * k) + 1"
      using q(2) Decimal_Div_pos [OF q(1)] num(1) den(1) kt by simp
    from product_kept_in [OF nn(1,2) kt(2,1) kn(2) this] show ?thesis .
  qed
qed

section \<open>Frames\<close>

text \<open>The operations on a user's balance leave the rest of the module alone.\<close>

definition module_frame :: "BRC20ModuleSwapInfo \<Rightarrow> BRC20ModuleSwapInfo" where
  "module_frame m = m\<lparr>m_UsersTokenBalanceDataMap := Map.empty, m_TokenUsersBalanceDataMap := Map.empty\<rparr>"

lemma module_frame_fields:
  assumes "module_frame m' = module_frame m"
  shows "m_SwapPoolTotalBalanceDataMap m' = m_SwapPoolTotalBalanceDataMap m" "m_LPTokenUsersBalanceMap m' = m_LPTokenUsersBalanceMap m"
    "m_UsersLPTokenBalanceMap m' = m_UsersLPTokenBalanceMap m" "m_CommitIdMap m' = m_CommitIdMap m"
    "m_CommitIdChainMap m' = m_CommitIdChainMap m" "m_GasTick m' = m_GasTick m" "m_FeeRateSwap m' = m_FeeRateSwap m"
    "m_LpFeePkScript m' = m_LpFeePkScript m" "m_GasToPkScript m' = m_GasToPkScript m"
  using assms by (cases m; cases m'; simp add: module_frame_def)+

lemma frame_set_user_balance [simp]: "module_frame (set_user_balance m u lt b) = module_frame m"
  by (simp add: module_frame_def set_user_balance_def)

lemma frame_GetUser [simp]: "module_frame (Module_GetUserTokenBalance e m t u) = module_frame m"
  by (cases "user_balance m u (ToLower e t)")
    (simp_all add: Module_GetUserTokenBalance_def Let_def module_frame_def set_user_balance_def)

lemma frame_upd_user [simp]: "module_frame (upd_user e t u f m) = module_frame m"
  by (simp add: upd_user_def put_balance_def)

lemma frame_touch_user [simp]: "module_frame (touch_user e g t u m) = module_frame m"
  by (simp add: touch_user_def)

lemma frame_swap_debit: "swap_debit e t u a m = Some m' \<Longrightarrow> module_frame m' = module_frame m"
  by (auto simp: swap_debit_def elim!: bind_SomeE)

lemma frame_swap_credit: "swap_credit e t u a m = Some m' \<Longrightarrow> module_frame m' = module_frame m"
  by (auto simp: swap_credit_def elim!: bind_SomeE)

lemma frame_set_pool:
  "module_frame m' = module_frame m \<Longrightarrow> module_frame (set_pool m' pair pool) = module_frame (set_pool m pair pool)"
  by (cases m; cases m'; simp add: module_frame_def set_pool_def)

lemma pool_balance_set [simp]:
  "i \<noteq> j \<Longrightarrow> i < 2 \<Longrightarrow> j < 2 \<Longrightarrow> pool_balance (set_pool_balance p i d) j = pool_balance p j"
  "pool_balance (set_pool_balance p i d) i = d"
  "pl_LpBalance (set_pool_balance p i d) = pl_LpBalance p"
  "pl_Tick0 (set_pool_balance p i d) = pl_Tick0 p" "pl_Tick1 (set_pool_balance p i d) = pl_Tick1 p"
  by (auto simp: pool_balance_def set_pool_balance_def)

section \<open>The pool after a swap\<close>

lemma swap_amounts_product:
  assumes r: "swap_amounts dir rin rout tin tout slip fee = Some (Some (a, b))" and le: "decval b \<le> decval rout"
    and nn: "0 \<le> decval rin" "0 \<le> decval rout" "0 \<le> decval tin" "0 \<le> decval tout" and fee: "0 \<le> decval fee" "decval fee \<le> 1000"
  shows "0 \<le> decval a \<and> 0 \<le> decval b \<and> decval rin * decval rout \<le> (decval rin + decval a) * (decval rout - decval b)"
proof -
  consider "dir = ''exactIn''" | "dir = ''exactOut''" | "a = None" "b = None"
    using r by (auto simp: swap_amounts_def split: if_splits)
  then show ?thesis
  proof cases
    case 1
    with r have "a = tin" "swap_amount_out rin rout tin fee = Some b"
      by (auto simp: swap_amounts_def elim!: bind_SomeE split: if_splits)
    with swap_amount_out_product [OF _ nn(1-3) fee] nn show ?thesis by blast
  next
    case 2
    with r have "b = tout" "swap_amount_in rin rout tin tout fee = Some a"
      by (auto simp: swap_amounts_def Let_def elim!: bind_SomeE split: if_splits)
    with swap_amount_in_product [OF _ nn(1,4) _ fee] nn le show ?thesis by force
  qed simp
qed

lemma pool_balance_height [simp]:
  "pool_balance (p\<lparr>pl_UpdateHeight := h\<rparr>) x = pool_balance p x" "pool_balance (p\<lparr>pl_LpBalance := l\<rparr>) x = pool_balance p x"
  "pool_balance (p\<lparr>pl_LastRootK := l\<rparr>) x = pool_balance p x"
  by (simp_all add: pool_balance_def)

lemma swap_applyE:
  assumes "swap_apply e g m f pair pool tin tout i j tamt a b = Some (None, m')"
  obtains m1 m2 m3 r0 r1 where "decval b \<le> decval (pool_balance pool j)"
    "m1 = touch_user e g tout (sf_PkScript f) (touch_user e g tin (sf_PkScript f)
       (Module_GetUserTokenBalance e (Module_GetUserTokenBalance e m tin (sf_PkScript f)) tout (sf_PkScript f)))"
    "swap_debit e tin (sf_PkScript f) a m1 = Some m2" "swap_credit e tout (sf_PkScript f) b m2 = Some m3"
    "decval r0 = decval (pool_balance pool j) - decval b"
    "decval r1 = decval (pool_balance (set_pool_balance pool j r0) i) + decval a"
    "m' = set_pool m3 pair ((set_pool_balance (set_pool_balance pool j r0) i r1)\<lparr>pl_UpdateHeight := g_BestHeight g\<rparr>)"
  using assms
  by (auto simp: swap_apply_def Let_def elim!: bind_SomeE split: if_splits dest!: Decimal_Cmp_val Decimal_Add_val Decimal_Sub_val)

lemma swap_apply_pool:
  assumes r: "swap_apply e g m f pair pool tin tout i j tamt a b = Some (None, m')" and ij: "i < 2" "j < 2" "i \<noteq> j"
  obtains pool' where "module_frame m' = module_frame (set_pool m pair pool')"
    "decval (pool_balance pool' i) = decval (pool_balance pool i) + decval a"
    "decval (pool_balance pool' j) = decval (pool_balance pool j) - decval b"
    "decval b \<le> decval (pool_balance pool j)"
    "pl_LpBalance pool' = pl_LpBalance pool" "pl_Tick0 pool' = pl_Tick0 pool" "pl_Tick1 pool' = pl_Tick1 pool"
  using r
proof (rule swap_applyE)
  fix m1 m2 m3 r0 r1
  assume le: "decval b \<le> decval (pool_balance pool j)"
    and m1: "m1 = touch_user e g tout (sf_PkScript f) (touch_user e g tin (sf_PkScript f)
       (Module_GetUserTokenBalance e (Module_GetUserTokenBalance e m tin (sf_PkScript f)) tout (sf_PkScript f)))"
    and m2: "swap_debit e tin (sf_PkScript f) a m1 = Some m2" and m3: "swap_credit e tout (sf_PkScript f) b m2 = Some m3"
    and r0: "decval r0 = decval (pool_balance pool j) - decval b"
    and r1: "decval r1 = decval (pool_balance (set_pool_balance pool j r0) i) + decval a"
    and m': "m' = set_pool m3 pair ((set_pool_balance (set_pool_balance pool j r0) i r1)\<lparr>pl_UpdateHeight := g_BestHeight g\<rparr>)"
  let ?p = "(set_pool_balance (set_pool_balance pool j r0) i r1)\<lparr>pl_UpdateHeight := g_BestHeight g\<rparr>"
  have "module_frame m' = module_frame (set_pool m pair ?p)"
    unfolding m' using frame_swap_debit [OF m2] frame_swap_credit [OF m3] m1 by (intro frame_set_pool) simp
  then show thesis by (rule that) (use ij r0 r1 le in simp_all)
qed

lemma swap_functionE:
  assumes "ProcessCommitFunctionSwap e g m f = Some (None, m')"
  obtains token0 token1 pool dir tin tinAmt tout toutAmt i out slip fee a b where
    "pool_tokens e g f = Some (Some (token0, token1))"
    "m_SwapPoolTotalBalanceDataMap m (GetLowerInnerPairNameByToken e token0 token1) = Some pool"
    "token0 = pl_Tick0 pool \<or> token0 = pl_Tick1 pool" "token1 = pl_Tick0 pool \<or> token1 = pl_Tick1 pool"
    "swap_direction f (param_offset e g) token0 token1 = Some (dir, tin, tinAmt, tout, toutAmt)"
    "CheckTickVerify e g tin tinAmt = Some i" "CheckTickVerify e g tout toutAmt = Some out"
    "CheckAmountVerify (m_FeeRateSwap m) 3 = Some fee"
    "swap_amounts dir (pool_balance pool (fst (token_indexes tin pool))) (pool_balance pool (snd (token_indexes tin pool)))
       (amt_of i) (amt_of out) slip (amt_of fee) = Some (Some (a, b))"
    "swap_apply e g m f (GetLowerInnerPairNameByToken e token0 token1) pool tin tout (fst (token_indexes tin pool))
       (snd (token_indexes tin pool)) (amt_of i) a b = Some (None, m')"
  using assms
  by (auto simp: ProcessCommitFunctionSwap_def Let_def split_beta elim!: bind_SomeE split: option.splits if_splits)

lemma token_indexes_ok: "fst (token_indexes t p) < 2" "snd (token_indexes t p) < 2" "fst (token_indexes t p) \<noteq> snd (token_indexes t p)"
  by (auto simp: token_indexes_def)

text \<open>The two reserves of a pool, whatever their order.\<close>

definition reserve_product :: "BRC20ModulePoolTotalBalance \<Rightarrow> int" where
  "reserve_product p = decval (pl_TickBalance0 p) * decval (pl_TickBalance1 p)"

lemma reserve_product_indexes: "reserve_product p = decval (pool_balance p (fst (token_indexes t q))) * decval (pool_balance p (snd (token_indexes t q)))"
  by (simp add: reserve_product_def token_indexes_def pool_balance_def)

definition pool_nonneg :: "BRC20ModulePoolTotalBalance \<Rightarrow> bool" where
  "pool_nonneg p \<longleftrightarrow> 0 \<le> decval (pl_TickBalance0 p) \<and> 0 \<le> decval (pl_TickBalance1 p)"

lemma pool_nonneg_balance: "pool_nonneg p \<Longrightarrow> 0 \<le> decval (pool_balance p i)"
  by (simp add: pool_nonneg_def pool_balance_def)

lemma pool_nonneg_indexes:
  "0 \<le> decval (pool_balance p (fst (token_indexes t q))) \<Longrightarrow> 0 \<le> decval (pool_balance p (snd (token_indexes t q))) \<Longrightarrow> pool_nonneg p"
  by (auto simp: pool_nonneg_def token_indexes_def pool_balance_def split: if_splits)

lemma swap_product_step:
  assumes r: "ProcessCommitFunctionSwap e g m f = Some (None, m')"
    and fee: "CheckAmountVerify (m_FeeRateSwap m) 3 = Some fee" "decval (amt_of fee) \<le> 1000"
  obtains pair pool pool' where "m_SwapPoolTotalBalanceDataMap m pair = Some pool"
    "m_SwapPoolTotalBalanceDataMap m' = (m_SwapPoolTotalBalanceDataMap m)(pair \<mapsto> pool')"
    "pool_nonneg pool \<Longrightarrow> pool_nonneg pool' \<and> reserve_product pool \<le> reserve_product pool'"
  using r
proof (rule swap_functionE)
  fix token0 token1 pool dir tin tinAmt tout toutAmt i out slip fee' a b
  let ?pair = "GetLowerInnerPairNameByToken e token0 token1" and ?i = "fst (token_indexes tin pool)" and ?j = "snd (token_indexes tin pool)"
  assume pool: "m_SwapPoolTotalBalanceDataMap m ?pair = Some pool"
    and i: "CheckTickVerify e g tin tinAmt = Some i" and out: "CheckTickVerify e g tout toutAmt = Some out"
    and fee': "CheckAmountVerify (m_FeeRateSwap m) 3 = Some fee'"
    and am: "swap_amounts dir (pool_balance pool ?i) (pool_balance pool ?j) (amt_of i) (amt_of out) slip (amt_of fee') = Some (Some (a, b))"
    and ap: "swap_apply e g m f ?pair pool tin tout ?i ?j (amt_of i) a b = Some (None, m')"
  obtain pool' where p': "module_frame m' = module_frame (set_pool m ?pair pool')"
    "decval (pool_balance pool' ?i) = decval (pool_balance pool ?i) + decval a"
    "decval (pool_balance pool' ?j) = decval (pool_balance pool ?j) - decval b" "decval b \<le> decval (pool_balance pool ?j)"
    using swap_apply_pool [OF ap token_indexes_ok] by metis
  have "pool_nonneg pool' \<and> reserve_product pool \<le> reserve_product pool'" if nn: "pool_nonneg pool"
  proof -
    have f: "0 \<le> decval (amt_of fee')" "decval (amt_of fee') \<le> 1000" using CheckAmountVerify_nonneg [OF fee'] fee fee' by auto
    from swap_amounts_product [OF am p'(4) _ _ CheckTickVerify_nonneg [OF i] CheckTickVerify_nonneg [OF out] f] pool_nonneg_balance [OF nn]
    have "0 \<le> decval a" "decval (pool_balance pool ?i) * decval (pool_balance pool ?j) \<le>
      (decval (pool_balance pool ?i) + decval a) * (decval (pool_balance pool ?j) - decval b)" by blast+
    with p' pool_nonneg_balance [OF nn, of ?i] show ?thesis
      by (auto simp: reserve_product_indexes [of _ tin pool] intro!: pool_nonneg_indexes [of pool' tin pool])
  qed
  with pool module_frame_fields(1) [OF p'(1)] show thesis by (intro that [of ?pair pool pool']) (auto simp: set_pool_def)
qed

section \<open>Custody\<close>

text \<open>What the pools of a module hold of a token, by the name of the pool.\<close>

definition pool_reserve :: "ext \<Rightarrow> string \<Rightarrow> BRC20ModulePoolTotalBalance \<Rightarrow> int" where
  "pool_reserve e lt p =
     (if ToLower e (pl_Tick0 p) = lt then decval (pl_TickBalance0 p) else 0) +
     (if ToLower e (pl_Tick1 p) = lt then decval (pl_TickBalance1 p) else 0)"

definition reserves :: "ext \<Rightarrow> string \<Rightarrow> BRC20ModuleSwapInfo \<Rightarrow> string \<Rightarrow> int" where
  "reserves e lt m pair = (case m_SwapPoolTotalBalanceDataMap m pair of None \<Rightarrow> 0 | Some p \<Rightarrow> pool_reserve e lt p)"

interpretation pool_book: account_book "reserves e lt" set_pool "pool_reserve e lt" for e :: ext and lt :: string
  by unfold_locales (auto simp: reserves_def set_pool_def fun_eq_iff)

text \<open>The tokens \<open>lt\<close> in the custody of a module, and that only finitely many entries hold any.\<close>

definition custody :: "ext \<Rightarrow> string \<Rightarrow> BRC20ModuleSwapInfo \<Rightarrow> int" where
  "custody e lt m = total_of (module_holding lt m) + total_of (reserves e lt m)"

definition custody_fin :: "ext \<Rightarrow> string \<Rightarrow> BRC20ModuleSwapInfo \<Rightarrow> bool" where
  "custody_fin e lt m \<longleftrightarrow> finite (accounts (module_holding lt m)) \<and> finite (accounts (reserves e lt m))"

lemma reserves_frame: "module_frame m' = module_frame m \<Longrightarrow> reserves e lt m' = reserves e lt m"
  by (simp add: reserves_def fun_eq_iff module_frame_fields(1) [of m' m])

lemma overall_new [simp]: "module_overall (new_module_balance t u) = 0"
  by (simp add: module_overall_def new_module_balance_def)

lemma holding_GetUser [simp]: "module_holding lt (Module_GetUserTokenBalance e m t u) = module_holding lt m"
proof (cases "user_balance m u (ToLower e t)")
  case None
  have "module_holding lt (m'\<lparr>m_TokenUsersBalanceDataMap := x\<rparr>) = module_holding lt m'" for m' x
    by (simp add: module_holding_def fun_eq_iff user_balance_def)
  with None show ?thesis
    by (auto simp: Module_GetUserTokenBalance_def Let_def module_holding_def fun_eq_iff)
qed (simp add: Module_GetUserTokenBalance_def)

lemma holding_the_balance: "module_holding (ToLower e t) m u = module_overall (the_balance e m t u)"
  by (simp add: module_holding_def the_balance_def split: option.splits)

lemma holding_upd_user:
  "module_holding lt (upd_user e t u f m) =
     (if lt = ToLower e t then (module_holding lt m)(u := module_overall (f (the_balance e m t u))) else module_holding lt m)"
  by (auto simp: upd_user_def put_balance_def module_holding_def fun_eq_iff)

lemma holding_touch_user [simp]: "module_holding lt (touch_user e g t u m) = module_holding lt m"
  by (simp add: touch_user_def holding_upd_user holding_the_balance [symmetric] module_overall_def fun_eq_iff)
    (simp add: module_overall_def holding_the_balance)

lemma holding_swap_debit:
  "swap_debit e t u a m = Some m' \<Longrightarrow>
   module_holding lt m' = (if lt = ToLower e t then (module_holding lt m)(u := module_holding lt m u - decval a) else module_holding lt m)"
  by (auto simp: swap_debit_def holding_upd_user holding_the_balance module_overall_def elim!: bind_SomeE dest!: Decimal_Sub_val)

lemma holding_swap_credit:
  "swap_credit e t u a m = Some m' \<Longrightarrow>
   module_holding lt m' = (if lt = ToLower e t then (module_holding lt m)(u := module_holding lt m u + decval a) else module_holding lt m)"
  by (auto simp: swap_credit_def holding_upd_user holding_the_balance module_overall_def elim!: bind_SomeE dest!: Decimal_Add_val)

text \<open>
  The effect of an operation on the custody of every token: it changes by \<open>d lt\<close>. Such effects
  compose, so that the effect of a commit function is the sum of the effects of its parts.
\<close>

definition shifts :: "ext \<Rightarrow> (string \<Rightarrow> int) \<Rightarrow> BRC20ModuleSwapInfo \<Rightarrow> BRC20ModuleSwapInfo \<Rightarrow> bool" where
  "shifts e d m m' \<longleftrightarrow> (\<forall>lt. custody_fin e lt m \<longrightarrow> custody_fin e lt m' \<and> custody e lt m' = custody e lt m + d lt)"

definition only :: "string \<Rightarrow> int \<Rightarrow> string \<Rightarrow> int" where
  "only lt a x = (if x = lt then a else 0)"

lemma shifts_trans: "shifts e d m m' \<Longrightarrow> shifts e d' m' m'' \<Longrightarrow> (\<And>lt. d'' lt = d lt + d' lt) \<Longrightarrow> shifts e d'' m m''"
  unfolding shifts_def by auto

lemma shifts_cong:
  "(\<And>lt. module_holding lt m' = module_holding lt m) \<Longrightarrow> (\<And>lt. reserves e lt m' = reserves e lt m) \<Longrightarrow> shifts e (\<lambda>_. 0) m m'"
  by (simp add: shifts_def custody_def custody_fin_def)

lemma shifts_refl: "shifts e (\<lambda>_. 0) m m"
  by (rule shifts_cong) simp_all

lemma shifts_GetUser: "shifts e (\<lambda>_. 0) m (Module_GetUserTokenBalance e m t u)"
  by (rule shifts_cong) (simp, rule reserves_frame, simp)

lemma shifts_touch_user: "shifts e (\<lambda>_. 0) m (touch_user e g t u m)"
  by (rule shifts_cong) (simp, rule reserves_frame, simp)

lemma shifts_debit: "swap_debit e t u a m = Some m' \<Longrightarrow> shifts e (only (ToLower e t) (- decval a)) m m'"
  using reserves_frame [OF frame_swap_debit]
  by (simp add: shifts_def custody_def custody_fin_def only_def holding_swap_debit total_upd)

lemma shifts_credit: "swap_credit e t u a m = Some m' \<Longrightarrow> shifts e (only (ToLower e t) (decval a)) m m'"
  using reserves_frame [OF frame_swap_credit]
  by (simp add: shifts_def custody_def custody_fin_def only_def holding_swap_credit total_upd)

lemma holding_set_pool [simp]: "module_holding lt (set_pool m pair p) = module_holding lt m"
  by (simp add: module_holding_def set_pool_def user_balance_def fun_eq_iff)

lemma shifts_set_pool:
  "shifts e (\<lambda>lt. pool_reserve e lt p - reserves e lt m pair) m (set_pool m pair p)"
  using pool_book.put_total [of e _ m pair p] pool_book.put_finite [of e _ m pair p]
  by (auto simp: shifts_def custody_def custody_fin_def)

lemma shifts_lp:
  "m_UsersTokenBalanceDataMap m' = m_UsersTokenBalanceDataMap m \<Longrightarrow>
   m_SwapPoolTotalBalanceDataMap m' = m_SwapPoolTotalBalanceDataMap m \<Longrightarrow> shifts e (\<lambda>_. 0) m m'"
  by (rule shifts_cong) (simp_all add: module_holding_def reserves_def user_balance_def fun_eq_iff)

lemma set_lp_fields [simp]:
  "m_UsersTokenBalanceDataMap (set_lp_of_pool pair u d m) = m_UsersTokenBalanceDataMap m"
  "m_UsersTokenBalanceDataMap (set_lp_of_user u pair d m) = m_UsersTokenBalanceDataMap m"
  "m_SwapPoolTotalBalanceDataMap (set_lp_of_pool pair u d m) = m_SwapPoolTotalBalanceDataMap m"
  "m_SwapPoolTotalBalanceDataMap (set_lp_of_user u pair d m) = m_SwapPoolTotalBalanceDataMap m"
  by (simp_all add: set_lp_of_pool_def set_lp_of_user_def)

lemma credit_lp_fields:
  assumes "credit_lp m pair u a = Some m'"
  shows "m_UsersTokenBalanceDataMap m' = m_UsersTokenBalanceDataMap m" "m_SwapPoolTotalBalanceDataMap m' = m_SwapPoolTotalBalanceDataMap m"
  using assms by (auto simp: credit_lp_def elim!: bind_SomeE)

lemma shifts_credit_lp: "credit_lp m pair u a = Some m' \<Longrightarrow> shifts e (\<lambda>_. 0) m m'"
  by (rule shifts_lp) (simp_all add: credit_lp_fields)

lemmas shifts_intros = shifts_GetUser shifts_touch_user shifts_debit shifts_credit shifts_credit_lp shifts_refl

section \<open>send, gas and decreaseApproval\<close>

lemma move_swap_balance_shifts:
  assumes "move_swap_balance e g t u v a m err = Some (r, m')"
  shows "shifts e (\<lambda>_. 0) m m'"
proof -
  let ?m1 = "Module_GetUserTokenBalance e m t u"
  let ?m2 = "Module_GetUserTokenBalance e ?m1 t v"
  from assms consider "m' = ?m1" | m3 m4 where "swap_debit e t u a ?m2 = Some m3" "swap_credit e t v a m3 = Some m4"
      "m' = touch_user e g t v (touch_user e g t u m4)"
    by (auto simp: move_swap_balance_def Let_def elim!: bind_SomeE split: if_splits)
  then show ?thesis
  proof cases
    case 1
    then show ?thesis by (simp add: shifts_GetUser)
  next
    case (2 m3 m4)
    have "shifts e (\<lambda>_. 0) m ?m2" by (rule shifts_trans [OF shifts_GetUser shifts_GetUser]) simp
    then have "shifts e (only (ToLower e t) (- decval a)) m m3" by (rule shifts_trans) (use shifts_debit [OF 2(1)] in simp_all)
    then have "shifts e (\<lambda>_. 0) m m4" by (rule shifts_trans [OF _ shifts_credit [OF 2(2)]]) (simp add: only_def)
    then have "shifts e (\<lambda>_. 0) m (touch_user e g t u m4)" by (rule shifts_trans [OF _ shifts_touch_user]) simp
    then show ?thesis unfolding 2(3) by (rule shifts_trans [OF _ shifts_touch_user]) simp
  qed
qed

lemma shifts_upd_user:
  assumes "module_overall (f (the_balance e m t u)) = module_overall (the_balance e m t u)"
  shows "shifts e (\<lambda>_. 0) m (upd_user e t u f m)"
proof (rule shifts_cong)
  show "module_holding lt (upd_user e t u f m) = module_holding lt m" for lt
    using assms by (simp add: holding_upd_user holding_the_balance fun_eq_iff)
  show "reserves e lt (upd_user e t u f m) = reserves e lt m" for lt
    by (rule reserves_frame) simp
qed

lemma decrease_approval_shifts:
  assumes "ProcessCommitFunctionDecreaseApproval e g m f = Some (r, m')"
  shows "shifts e (\<lambda>_. 0) m m'"
proof -
  let ?m1 = "\<lambda>t. Module_GetUserTokenBalance e m t (sf_PkScript f)"
  from assms consider t where "m' = ?m1 t"
    | t a sw av where "Decimal_Sub (mb_SwapAccountBalance (the_balance e (?m1 t) t (sf_PkScript f))) a = Some sw"
      "Decimal_Add (mb_AvailableBalance (the_balance e (?m1 t) t (sf_PkScript f))) a = Some av"
      "m' = upd_user e t (sf_PkScript f) (\<lambda>b. b\<lparr>mb_SwapAccountBalance := sw, mb_AvailableBalance := av, mb_UpdateHeight := g_BestHeight g\<rparr>) (?m1 t)"
    by (auto simp: ProcessCommitFunctionDecreaseApproval_def Let_def elim!: bind_SomeE split: if_splits)
  then show ?thesis
  proof cases
    case 1
    then show ?thesis by (simp add: shifts_GetUser)
  next
    case (2 t a sw av)
    have "shifts e (\<lambda>_. 0) (?m1 t) m'"
      unfolding 2(3) by (rule shifts_upd_user) (use 2(1,2) in \<open>simp add: module_overall_def Decimal_Sub_val Decimal_Add_val\<close>)
    then show ?thesis by (rule shifts_trans [OF shifts_GetUser]) simp
  qed
qed

section \<open>swap\<close>

definition pool_tick :: "BRC20ModulePoolTotalBalance \<Rightarrow> nat \<Rightarrow> string" where
  "pool_tick p i = (if i = 0 then pl_Tick0 p else pl_Tick1 p)"

text \<open>A function names the tokens of the pool the way the pool does, in either order.\<close>

definition same_tokens :: "BRC20ModulePoolTotalBalance \<Rightarrow> string \<Rightarrow> string \<Rightarrow> bool" where
  "same_tokens p t0 t1 \<longleftrightarrow> (t0 = pl_Tick0 p \<and> t1 = pl_Tick1 p) \<or> (t0 = pl_Tick1 p \<and> t1 = pl_Tick0 p)"

lemma same_tokens_ticks:
  "same_tokens p t0 t1 \<Longrightarrow> pool_tick p (fst (token_indexes t0 p)) = t0 \<and> pool_tick p (snd (token_indexes t0 p)) = t1"
  by (auto simp: same_tokens_def token_indexes_def pool_tick_def)

lemma pool_reserve_fields [simp]:
  "pool_reserve e lt (p\<lparr>pl_UpdateHeight := h\<rparr>) = pool_reserve e lt p" "pool_reserve e lt (p\<lparr>pl_LpBalance := l\<rparr>) = pool_reserve e lt p"
  "pool_reserve e lt (p\<lparr>pl_LastRootK := l\<rparr>) = pool_reserve e lt p"
  by (simp_all add: pool_reserve_def)

lemma pool_reserve_set:
  "pool_reserve e lt (set_pool_balance p i d) =
     pool_reserve e lt p + only (ToLower e (pool_tick p i)) (decval d - decval (pool_balance p i)) lt"
  by (auto simp: pool_reserve_def set_pool_balance_def pool_tick_def pool_balance_def only_def)

lemma pool_tick_set [simp]: "pool_tick (set_pool_balance p i d) j = pool_tick p j"
  by (simp add: pool_tick_def set_pool_balance_def)

lemma shifts_set_known_pool:
  assumes "m_SwapPoolTotalBalanceDataMap m pair = Some p"
  shows "shifts e (\<lambda>lt. pool_reserve e lt p' - pool_reserve e lt p) m (set_pool m pair p')"
  using shifts_set_pool [of e p' m pair] assms by (simp add: reserves_def)

lemma swap_apply_shifts:
  assumes r: "swap_apply e g m f pair pool tin tout i j tamt a b = Some (None, m')"
    and pool: "m_SwapPoolTotalBalanceDataMap m pair = Some pool"
    and tick: "pool_tick pool i = tin \<and> pool_tick pool j = tout \<or> decval a = 0 \<and> decval b = 0"
  shows "shifts e (\<lambda>_. 0) m m'"
  using r
proof (rule swap_applyE)
  fix m1 m2 m3 r0 r1
  assume m1: "m1 = touch_user e g tout (sf_PkScript f) (touch_user e g tin (sf_PkScript f)
       (Module_GetUserTokenBalance e (Module_GetUserTokenBalance e m tin (sf_PkScript f)) tout (sf_PkScript f)))"
    and m2: "swap_debit e tin (sf_PkScript f) a m1 = Some m2" and m3: "swap_credit e tout (sf_PkScript f) b m2 = Some m3"
    and r0: "decval r0 = decval (pool_balance pool j) - decval b"
    and r1: "decval r1 = decval (pool_balance (set_pool_balance pool j r0) i) + decval a"
    and m': "m' = set_pool m3 pair ((set_pool_balance (set_pool_balance pool j r0) i r1)\<lparr>pl_UpdateHeight := g_BestHeight g\<rparr>)"
  have fr: "module_frame m3 = module_frame m" using frame_swap_credit [OF m3] frame_swap_debit [OF m2] m1 by simp
  have "shifts e (\<lambda>_. 0) m m1" unfolding m1
    by (rule shifts_trans [OF shifts_trans [OF shifts_trans [OF shifts_GetUser shifts_GetUser] shifts_touch_user] shifts_touch_user]) simp_all
  then have "shifts e (\<lambda>lt. only (ToLower e tin) (- decval a) lt + only (ToLower e tout) (decval b) lt) m m3"
    by (rule shifts_trans [OF _ shifts_trans [OF shifts_debit [OF m2] shifts_credit [OF m3]]]) simp_all
  moreover have "m_SwapPoolTotalBalanceDataMap m3 pair = Some pool" using module_frame_fields(1) [OF fr] pool by simp
  ultimately show ?thesis
    unfolding m' by (rule shifts_trans [OF _ shifts_set_known_pool])
      (use r0 r1 tick in \<open>auto simp: pool_reserve_set only_def\<close>)
qed

text \<open>The token a swap names is one of the pool's; \<open>ProcessInscribeCommitPreVerify\<close> checks it.\<close>

lemma swap_direction_tokens:
  assumes "swap_direction f off t0 t1 = Some (dir, tin, ain, tout, aout)" and "param f (1 + off) = Some t" and "t = t0 \<or> t = t1"
  shows "(tin = t0 \<and> tout = t1) \<or> (tin = t1 \<and> tout = t0) \<or> (dir \<noteq> ''exactIn'' \<and> dir \<noteq> ''exactOut'')"
  using assms by (auto simp: swap_direction_def elim!: bind_SomeE split: if_splits)

lemma same_tokens_swap: "same_tokens p t0 t1 \<longleftrightarrow> same_tokens p t1 t0"
  by (auto simp: same_tokens_def)

lemma swap_shifts:
  assumes r: "ProcessCommitFunctionSwap e g m f = Some (None, m')"
    and tok: "pool_tokens e g f = Some (Some (t0, t1))" and t: "param f (1 + param_offset e g) = Some t" "t = t0 \<or> t = t1"
    and pool: "\<And>pool. m_SwapPoolTotalBalanceDataMap m (GetLowerInnerPairNameByToken e t0 t1) = Some pool \<Longrightarrow> same_tokens pool t0 t1"
  shows "shifts e (\<lambda>_. 0) m m'"
  using r
proof (rule swap_functionE)
  fix token0 token1 pool dir tin tinAmt tout toutAmt i out slip fee a b
  assume tk: "pool_tokens e g f = Some (Some (token0, token1))"
    and p: "m_SwapPoolTotalBalanceDataMap m (GetLowerInnerPairNameByToken e token0 token1) = Some pool"
    and d: "swap_direction f (param_offset e g) token0 token1 = Some (dir, tin, tinAmt, tout, toutAmt)"
    and am: "swap_amounts dir (pool_balance pool (fst (token_indexes tin pool))) (pool_balance pool (snd (token_indexes tin pool)))
       (amt_of i) (amt_of out) slip (amt_of fee) = Some (Some (a, b))"
    and ap: "swap_apply e g m f (GetLowerInnerPairNameByToken e token0 token1) pool tin tout (fst (token_indexes tin pool))
       (snd (token_indexes tin pool)) (amt_of i) a b = Some (None, m')"
  from tk tok have eq: "token0 = t0" "token1 = t1" by auto
  have "pool_tick pool (fst (token_indexes tin pool)) = tin \<and> pool_tick pool (snd (token_indexes tin pool)) = tout \<or> decval a = 0 \<and> decval b = 0"
    using swap_direction_tokens [OF d t(1)] t(2) pool [of pool] p am same_tokens_ticks [of pool tin tout] same_tokens_swap [of pool]
    by (auto simp: eq swap_amounts_def split: if_splits)
  with swap_apply_shifts [OF ap p] show ?thesis by blast
qed

section \<open>Elimination rules of the liquidity functions\<close>

lemma issue_lp_feeE:
  assumes "issue_lp_fee m pair pool i j = Some (pool', m')"
  obtains "pool' = pool" "m' = m"
    | fee lp where "decval lp = decval (pl_LpBalance pool) + decval fee" "pool' = pool\<lparr>pl_LpBalance := lp\<rparr>"
      "credit_lp (set_pool m pair pool') pair (m_LpFeePkScript m) fee = Some m'"
proof -
  from assms obtain fee where "lp_fee pool i j = Some fee" and r: "(if Decimal_Sign fee > 0 then do {
            lp \<leftarrow> Decimal_Add (pl_LpBalance pool) fee;
            m1 \<leftarrow> credit_lp (set_pool m pair (pool\<lparr>pl_LpBalance := lp\<rparr>)) pair (m_LpFeePkScript m) fee;
            Some (pool\<lparr>pl_LpBalance := lp\<rparr>, m1) } else Some (pool, m)) = Some (pool', m')"
    unfolding issue_lp_fee_def Let_def by (erule bind_SomeE)
  show thesis
  proof (cases "Decimal_Sign fee > 0")
    case True
    with r obtain lp where "Decimal_Add (pl_LpBalance pool) fee = Some lp" "pool' = pool\<lparr>pl_LpBalance := lp\<rparr>"
      "credit_lp (set_pool m pair (pool\<lparr>pl_LpBalance := lp\<rparr>)) pair (m_LpFeePkScript m) fee = Some m'"
      by (auto elim!: bind_SomeE)
    with that(2) [of lp fee] show thesis by (simp add: Decimal_Add_val)
  next
    case False
    with r that(1) show thesis by simp
  qed
qed

lemma add_liq_applyE:
  assumes "add_liq_apply e g m f pair pool first t0 t1 i j a0 a1 lpP lpU = Some (r, m')"
  obtains (error) "r \<noteq> None" "m' = Module_GetUserTokenBalance e (Module_GetUserTokenBalance e m t0 (sf_PkScript f)) t1 (sf_PkScript f)"
    | (ok) m1 m2 m3 m4 r0 r1 lp k where "r = None"
      "swap_debit e t0 (sf_PkScript f) a0 (Module_GetUserTokenBalance e (Module_GetUserTokenBalance e m t0 (sf_PkScript f)) t1 (sf_PkScript f)) = Some m1"
      "swap_debit e t1 (sf_PkScript f) a1 m1 = Some m2"
      "credit_lp (touch_user e g t1 (sf_PkScript f) (touch_user e g t0 (sf_PkScript f) m2)) pair (sf_PkScript f) lpU = Some m3"
      "(if first then credit_lp m3 pair ZERO_ADDRESS_PKSCRIPT (NewDecimal 1000 18) else Some m3) = Some m4"
      "decval r0 = decval (pool_balance pool i) + decval a0"
      "decval r1 = decval (pool_balance (set_pool_balance pool i r0) j) + decval a1"
      "decval lp = decval (pl_LpBalance pool) + decval lpP"
      "m' = set_pool m4 pair ((set_pool_balance (set_pool_balance pool i r0) j r1)\<lparr>pl_LpBalance := lp, pl_UpdateHeight := g_BestHeight g, pl_LastRootK := k\<rparr>)"
  using assms
  by (auto simp: add_liq_apply_def Let_def elim!: bind_SomeE split: if_splits dest!: Decimal_Add_val)

lemma add_liq_finishE:
  assumes "add_liq_finish e g m f pair pool first t0 t1 i j a0 a1 lpP lpU tlp sl = Some (r, m')"
  obtains "r \<noteq> None" "m' = m" | "add_liq_apply e g m f pair pool first t0 t1 i j a0 a1 lpP lpU = Some (r, m')"
  using assms by (auto simp: add_liq_finish_def elim!: bind_SomeE split: if_splits)

lemma add_liq_functionE:
  assumes "ProcessCommitFunctionAddLiquidity e g m f = Some (r, m')"
  obtains (error) "r \<noteq> None" "m' = m"
    | (fin) t0 t1 pool0 pool m1 first a0 a1 lpP lpU tlp sl where "pool_tokens e g f = Some (Some (t0, t1))"
      "m_SwapPoolTotalBalanceDataMap m (GetLowerInnerPairNameByToken e t0 t1) = Some pool0"
      "m1 = m \<and> pool = pool0 \<or>
        issue_lp_fee m (GetLowerInnerPairNameByToken e t0 t1) pool0 (fst (token_indexes t0 pool0)) (snd (token_indexes t0 pool0)) = Some (pool, m1)"
      "decval lpP = decval lpU + (if first then 1000 else 0)"
      "add_liq_finish e g m1 f (GetLowerInnerPairNameByToken e t0 t1) pool first t0 t1 (fst (token_indexes t0 pool0))
         (snd (token_indexes t0 pool0)) a0 a1 lpP lpU tlp sl = Some (r, m')"
proof -
  note r = assms [unfolded ProcessCommitFunctionAddLiquidity_def]
  from r obtain tokens where tk: "pool_tokens e g f = Some tokens" by (auto elim!: bind_SomeE)
  show thesis
  proof (cases tokens)
    case None
    with r tk show thesis by (intro error) auto
  next
    case (Some ts)
    obtain t0 t1 where ts: "ts = (t0, t1)" by fastforce
    let ?pair = "GetLowerInnerPairNameByToken e t0 t1"
    show thesis
    proof (cases "m_SwapPoolTotalBalanceDataMap m ?pair = None \<or> m_LPTokenUsersBalanceMap m ?pair = None")
      case True
      with r tk Some ts show thesis by (intro error) (auto simp: Let_def split: option.splits)
    next
      case False
      then obtain pool um where pool: "m_SwapPoolTotalBalanceDataMap m ?pair = Some pool" and um: "m_LPTokenUsersBalanceMap m ?pair = Some um"
        by auto
      note r = r [simplified tk Some ts, simplified, unfolded Let_def, simplified pool um, simplified]
      show thesis
      proof (cases "Decimal_Sign (pl_TickBalance0 pool) = 0 \<and> Decimal_Sign (pl_TickBalance1 pool) = 0")
        case True
        with r consider "r \<noteq> None" "m' = m"
          | a0 a1 lpP lpU tlp sl where "Decimal_Sub lpP (NewDecimal 1000 18) = Some lpU"
              "add_liq_finish e g m f ?pair pool True t0 t1 (fst (token_indexes t0 pool)) (snd (token_indexes t0 pool)) a0 a1 lpP lpU tlp sl = Some (r, m')"
          by (auto simp: split_beta elim!: bind_SomeE split: if_splits)
        then show thesis
        proof cases
          case 1
          then show thesis by (rule error)
        next
          case (2 a0 a1 lpP lpU tlp sl)
          show thesis by (rule fin [OF _ pool _ _ 2(2)]) (simp_all add: tk Some ts Decimal_Sub_val [OF 2(1)])
        qed
      next
        case nf: False
        with r consider "r \<noteq> None" "m' = m"
          | a0 a1 lpP tlp sl where "add_liq_finish e g m f ?pair pool False t0 t1 (fst (token_indexes t0 pool))
              (snd (token_indexes t0 pool)) a0 a1 lpP lpP tlp sl = Some (r, m')"
          | pool' m1 a0 a1 lpP tlp sl where
              "issue_lp_fee m ?pair pool (fst (token_indexes t0 pool)) (snd (token_indexes t0 pool)) = Some (pool', m1)"
              "add_liq_finish e g m1 f ?pair pool' False t0 t1 (fst (token_indexes t0 pool)) (snd (token_indexes t0 pool)) a0 a1 lpP lpP tlp sl = Some (r, m')"
          by (auto simp: split_beta elim!: bind_SomeE split: if_splits option.splits)
        then show thesis
        proof cases
          case 1
          then show thesis by (rule error)
        next
          case (2 a0 a1 lpP tlp sl)
          show thesis by (rule fin [OF _ pool _ _ 2]) (simp_all add: tk Some ts)
        next
          case (3 pool' m1 a0 a1 lpP tlp sl)
          show thesis by (rule fin [OF _ pool disjI2 [OF 3(1)] _ 3(2)]) (simp_all add: tk Some ts)
        qed
      qed
    qed
  qed
qed

lemma remove_liq_applyE:
  assumes "remove_liq_apply e g m f pair pool t0 t1 i j a0 a1 lp = Some (r, m')"
  obtains (error) "r \<noteq> None" "m' = m"
    | (ok) ub lb m1 m2 lp' r0 r1 k where "r = None"
      "decval (lp_of_pool m pair (sf_PkScript f)) = decval (lp_of_user m (sf_PkScript f) pair)"
      "decval lp \<le> decval (lp_of_pool m pair (sf_PkScript f))"
      "decval a0 \<le> decval (pool_balance pool i)" "decval a1 \<le> decval (pool_balance pool j)"
      "decval ub = decval (lp_of_pool m pair (sf_PkScript f)) - decval lp"
      "decval lb = decval (lp_of_user m (sf_PkScript f) pair) - decval lp"
      "swap_credit e t0 (sf_PkScript f) a0 (Module_GetUserTokenBalance e (Module_GetUserTokenBalance e
          (set_lp_of_user (sf_PkScript f) pair lb (set_lp_of_pool pair (sf_PkScript f) ub m)) t0 (sf_PkScript f)) t1 (sf_PkScript f)) = Some m1"
      "swap_credit e t1 (sf_PkScript f) a1 m1 = Some m2"
      "decval lp' = decval (pl_LpBalance pool) - decval lp"
      "decval r0 = decval (pool_balance pool i) - decval a0"
      "decval r1 = decval (pool_balance (set_pool_balance pool i r0) j) - decval a1"
      "m' = set_pool (touch_user e g t1 (sf_PkScript f) (touch_user e g t0 (sf_PkScript f) m2)) pair
         ((set_pool_balance (set_pool_balance pool i r0) j r1)\<lparr>pl_UpdateHeight := g_BestHeight g, pl_LpBalance := lp', pl_LastRootK := k\<rparr>)"
  using assms
  by (auto simp: remove_liq_apply_def Let_def elim!: bind_SomeE split: if_splits dest!: Decimal_Cmp_val Decimal_Sub_val)

lemma remove_liq_functionE:
  assumes "ProcessCommitFunctionRemoveLiquidity e g m f = Some (r, m')"
  obtains (error) t0 t1 pool0 pool m1 where "r \<noteq> None" "pool_tokens e g f = Some (Some (t0, t1))" "m' = m1"
      "m_SwapPoolTotalBalanceDataMap m (GetLowerInnerPairNameByToken e t0 t1) = Some pool0"
      "m1 = m \<and> pool = pool0 \<or>
        issue_lp_fee m (GetLowerInnerPairNameByToken e t0 t1) pool0 (fst (token_indexes t0 pool0)) (snd (token_indexes t0 pool0)) = Some (pool, m1)"
    | (early) "r \<noteq> None" "m' = m"
    | (fin) t0 t1 pool0 pool m1 a0 a1 lp where "pool_tokens e g f = Some (Some (t0, t1))"
      "m_SwapPoolTotalBalanceDataMap m (GetLowerInnerPairNameByToken e t0 t1) = Some pool0"
      "m1 = m \<and> pool = pool0 \<or>
        issue_lp_fee m (GetLowerInnerPairNameByToken e t0 t1) pool0 (fst (token_indexes t0 pool0)) (snd (token_indexes t0 pool0)) = Some (pool, m1)"
      "lp_share pool (fst (token_indexes t0 pool0)) lp = Some a0" "lp_share pool (snd (token_indexes t0 pool0)) lp = Some a1"
      "remove_liq_apply e g m1 f (GetLowerInnerPairNameByToken e t0 t1) pool t0 t1 (fst (token_indexes t0 pool0))
         (snd (token_indexes t0 pool0)) a0 a1 lp = Some (r, m')"
proof -
  note r = assms [unfolded ProcessCommitFunctionRemoveLiquidity_def]
  from r obtain tokens where tk: "pool_tokens e g f = Some tokens" by (auto elim!: bind_SomeE)
  show thesis
  proof (cases tokens)
    case None
    with r tk show thesis by (intro early) auto
  next
    case (Some ts)
    obtain t0 t1 where ts: "ts = (t0, t1)" by fastforce
    let ?pair = "GetLowerInnerPairNameByToken e t0 t1"
    show thesis
    proof (cases "m_SwapPoolTotalBalanceDataMap m ?pair = None \<or> m_LPTokenUsersBalanceMap m ?pair = None \<or> m_UsersLPTokenBalanceMap m (sf_PkScript f) = None")
      case True
      with r tk Some ts show thesis by (intro early) (auto simp: Let_def split: option.splits if_splits)
    next
      case False
      then obtain pool um lm where pool: "m_SwapPoolTotalBalanceDataMap m ?pair = Some pool" and um: "m_LPTokenUsersBalanceMap m ?pair = Some um"
        and lm: "m_UsersLPTokenBalanceMap m (sf_PkScript f) = Some lm" by auto
      let ?i = "fst (token_indexes t0 pool)" and ?j = "snd (token_indexes t0 pool)"
      note r = r [simplified tk Some ts, simplified, unfolded Let_def, simplified pool um lm, simplified]
      from r consider "r \<noteq> None" "m' = m"
        | pool' where "issue_lp_fee m ?pair pool ?i ?j = Some (pool', m')" "r \<noteq> None"
        | lp a0 a1 where "lp_share pool ?i lp = Some a0" "lp_share pool ?j lp = Some a1"
            "remove_liq_apply e g m f ?pair pool t0 t1 ?i ?j a0 a1 lp = Some (r, m')"
        | lp a0 a1 pool' m1 where "issue_lp_fee m ?pair pool ?i ?j = Some (pool', m1)"
            "lp_share pool' ?i lp = Some a0" "lp_share pool' ?j lp = Some a1"
            "remove_liq_apply e g m1 f ?pair pool' t0 t1 ?i ?j a0 a1 lp = Some (r, m')"
        by (auto simp: split_beta elim!: bind_SomeE split: if_splits)
      then show thesis
      proof cases
        case 1
        then show thesis by (rule early)
      next
        case 2
        then show thesis by (intro error [OF _ _ _ pool disjI2 [OF 2(1)]]) (simp_all add: tk Some ts)
      next
        case 3
        then show thesis by (intro fin [OF _ pool disjI1 3]) (simp_all add: tk Some ts)
      next
        case 4
        then show thesis by (intro fin [OF _ pool disjI2 4(2-4)]) (simp_all add: tk Some ts)
      qed
    qed
  qed
qed

lemma sendlp_functionE:
  assumes r: "ProcessCommitFunctionSendLp e g m f = Some (r, m')"
  obtains (error) "r \<noteq> None" "m' = m"
    | (ok) pair p v lp ub lb where "r = None" "m_SwapPoolTotalBalanceDataMap m pair = Some p"
      "decval (lp_of_pool m pair (sf_PkScript f)) = decval (lp_of_user m (sf_PkScript f) pair)"
      "Decimal_Sub (lp_of_pool m pair (sf_PkScript f)) lp = Some ub" "Decimal_Sub (lp_of_user m (sf_PkScript f) pair) lp = Some lb"
      "credit_lp (set_lp_of_user (sf_PkScript f) pair lb (set_lp_of_pool pair (sf_PkScript f) ub m)) pair v lp = Some m'"
  using r by (auto simp: ProcessCommitFunctionSendLp_def Let_def elim!: bind_SomeE split: if_splits dest!: Decimal_Cmp_val)

lemma parse_zero: "NewDecimalFromString ''0'' p = Some (Inr d) \<Longrightarrow> Val d = 0"
  by (auto simp: NewDecimalFromString_def Let_def big_SetString_def is_digit_def digits_val_def digit_val_def elim!: bind_SomeE split: if_splits)

lemma CheckTickVerify_zero: "CheckTickVerify e g t ''0'' = Some r \<Longrightarrow> decval (amt_of r) = 0"
  by (auto simp: CheckTickVerify_def amt_of_def elim!: bind_SomeE split: option.splits sum.splits if_splits dest!: parse_zero)

lemma deploy_pool_functionE:
  assumes "ProcessCommitFunctionDeployPool e g m f = Some (r, m')"
  obtains (error) "r \<noteq> None" "m' = m"
    | (ok) pair p where "r = None" "m_SwapPoolTotalBalanceDataMap m pair = None" "decval (pl_LpBalance p) = 0"
      "decval (pl_TickBalance0 p) = 0" "decval (pl_TickBalance1 p) = 0"
      "m' = set_pool (m\<lparr>m_LPTokenUsersBalanceMap := (m_LPTokenUsersBalanceMap m)(pair \<mapsto> Map.empty)\<rparr>) pair p"
proof -
  from assms obtain t0 t1 where t: "param f 0 = Some t0" "param f 1 = Some t1"
    by (auto simp: ProcessCommitFunctionDeployPool_def elim!: bind_SomeE)
  let ?pair = "GetLowerInnerPairNameByToken e t0 t1"
  show thesis
  proof (cases "m_SwapPoolTotalBalanceDataMap m ?pair")
    case (Some p)
    with assms t show thesis by (intro error) (auto simp: ProcessCommitFunctionDeployPool_def Let_def)
  next
    case None
    with assms t obtain a0 a1 where a: "CheckTickVerify e g t0 ''0'' = Some a0" "CheckTickVerify e g t1 ''0'' = Some a1"
      by (auto simp: ProcessCommitFunctionDeployPool_def Let_def elim!: bind_SomeE)
    show thesis
    proof (rule ok [OF _ None])
      let ?p = "\<lparr>pl_UpdateHeight = 0, pl_Tick0 = t0, pl_Tick1 = t1, pl_TickBalance0 = amt_of a0,
            pl_TickBalance1 = amt_of a1, pl_LpBalance = None, pl_LastRootK = None, pl_History = []\<rparr>"
      show "m' = set_pool (m\<lparr>m_LPTokenUsersBalanceMap := (m_LPTokenUsersBalanceMap m)(?pair \<mapsto> Map.empty)\<rparr>) ?pair ?p" "r = None"
        using assms t None a by (auto simp: ProcessCommitFunctionDeployPool_def Let_def)
    qed (simp_all add: a [THEN CheckTickVerify_zero])
  qed
qed

end
