(* ===== verification/Module_Inv.thy ===== *)
theory Module_Inv
  imports Module_Ledger
begin

text \<open>
  Invariants of a swap module under the functions of a commit: no function creates or destroys
  tokens in the custody of the module, and the LP tokens of every pool, in both of their records,
  add up to the LP supply of the pool.
\<close>

section \<open>LP balances\<close>

definition lp_copies :: "BRC20ModuleSwapInfo \<Rightarrow> bool" where
  "lp_copies m \<longleftrightarrow> (\<forall>pair u. decval (lp_of_user m u pair) = decval (lp_of_pool m pair u))"

text \<open>The effect of an operation on the LP balances: those of \<open>pair\<close> change by \<open>d\<close> in total.\<close>

definition lp_shifts :: "string \<Rightarrow> int \<Rightarrow> BRC20ModuleSwapInfo \<Rightarrow> BRC20ModuleSwapInfo \<Rightarrow> bool" where
  "lp_shifts pair d m m' \<longleftrightarrow>
     (lp_copies m \<longrightarrow> lp_copies m') \<and> (\<forall>q. q \<noteq> pair \<longrightarrow> lp_holding q m' = lp_holding q m) \<and>
     (finite (accounts (lp_holding pair m)) \<longrightarrow>
        finite (accounts (lp_holding pair m')) \<and> total_of (lp_holding pair m') = total_of (lp_holding pair m) + d)"

lemma lp_shifts_trans: "lp_shifts pair d m m' \<Longrightarrow> lp_shifts pair d' m' m'' \<Longrightarrow> d'' = d + d' \<Longrightarrow> lp_shifts pair d'' m m''"
  unfolding lp_shifts_def by auto

lemma lp_tables_cong:
  assumes "m_LPTokenUsersBalanceMap m' = m_LPTokenUsersBalanceMap m" "m_UsersLPTokenBalanceMap m' = m_UsersLPTokenBalanceMap m"
  shows "lp_holding q m' = lp_holding q m" "lp_copies m' = lp_copies m"
proof -
  have "lp_of_pool m' = lp_of_pool m" "lp_of_user m' = lp_of_user m"
    using assms by (intro ext; simp add: lp_of_pool_def lp_of_user_def)+
  then show "lp_holding q m' = lp_holding q m" "lp_copies m' = lp_copies m" by (simp_all add: lp_holding_def lp_copies_def fun_eq_iff)
qed

lemma lp_shifts_cong:
  "m_LPTokenUsersBalanceMap m' = m_LPTokenUsersBalanceMap m \<Longrightarrow> m_UsersLPTokenBalanceMap m' = m_UsersLPTokenBalanceMap m \<Longrightarrow>
   lp_shifts pair 0 m m'"
  using lp_tables_cong [of m' m] by (simp add: lp_shifts_def)

lemma lp_shifts_frame: "module_frame m' = module_frame m \<Longrightarrow> lp_shifts pair 0 m m'"
  by (rule lp_shifts_cong) (simp_all add: module_frame_fields [of m' m])

lemma lp_shifts_set_pool: "lp_shifts pair 0 m (set_pool m q p)"
  by (rule lp_shifts_cong) (simp_all add: set_pool_def)

lemma lp_shifts_set:
  assumes "decval x = lp_holding pair m u + d" and "decval y = decval (lp_of_user m u pair) + d"
  shows "lp_shifts pair d m (set_lp_of_user u pair y (set_lp_of_pool pair u x m))"
proof -
  let ?m = "set_lp_of_user u pair y (set_lp_of_pool pair u x m)"
  have h: "lp_holding q ?m = (if q = pair then (lp_holding pair m)(u := decval x) else lp_holding q m)" for q
    by (auto simp: lp_holding_def fun_eq_iff)
  have c: "lp_copies ?m" if "lp_copies m"
    using that assms by (auto simp: lp_copies_def lp_holding_def)
  show ?thesis using h c assms(1) by (simp add: lp_shifts_def total_upd)
qed

lemma lp_shifts_credit:
  assumes "credit_lp m pair u a = Some m'"
  shows "lp_shifts pair (decval a) m m'"
proof -
  from assms obtain d where d: "Decimal_Add (lp_of_pool m pair u) a = Some d"
    and m': "m' = set_lp_of_user u pair d (set_lp_of_pool pair u d m)"
    by (auto simp: credit_lp_def elim!: bind_SomeE)
  have h: "lp_holding q m' = (if q = pair then (lp_holding pair m)(u := decval d) else lp_holding q m)" for q
    unfolding m' by (auto simp: lp_holding_def fun_eq_iff)
  have "lp_copies m'" if "lp_copies m" using that unfolding m' by (auto simp: lp_copies_def)
  with h Decimal_Add_val [OF d] show ?thesis by (simp add: lp_shifts_def total_upd lp_holding_def)
qed

definition lp_ok :: "BRC20ModuleSwapInfo \<Rightarrow> bool" where
  "lp_ok m \<longleftrightarrow> lp_copies m \<and>
     (\<forall>pair. finite (accounts (lp_holding pair m)) \<and>
        (case m_SwapPoolTotalBalanceDataMap m pair of
           None \<Rightarrow> lp_holding pair m = (\<lambda>u. 0)
         | Some p \<Rightarrow> total_of (lp_holding pair m) = decval (pl_LpBalance p)))"

lemma lp_ok_step:
  assumes ok: "lp_ok m" and s: "lp_shifts pair d m m'" and p: "m_SwapPoolTotalBalanceDataMap m pair = Some p"
    and p': "m_SwapPoolTotalBalanceDataMap m' = (m_SwapPoolTotalBalanceDataMap m)(pair \<mapsto> p')"
    and d: "decval (pl_LpBalance p') = decval (pl_LpBalance p) + d"
  shows "lp_ok m'"
proof -
  have fin: "finite (accounts (lp_holding pair m))" and tot: "total_of (lp_holding pair m) = decval (pl_LpBalance p)"
    using ok p by (auto simp: lp_ok_def split: option.splits)
  have "lp_copies m'" using ok s by (simp add: lp_ok_def lp_shifts_def)
  moreover have "finite (accounts (lp_holding q m')) \<and>
     (case m_SwapPoolTotalBalanceDataMap m' q of None \<Rightarrow> lp_holding q m' = (\<lambda>u. 0)
      | Some p \<Rightarrow> total_of (lp_holding q m') = decval (pl_LpBalance p))" for q
  proof (cases "q = pair")
    case True
    with s fin tot d p' show ?thesis by (simp add: lp_shifts_def)
  next
    case False
    with s have "lp_holding q m' = lp_holding q m" by (simp add: lp_shifts_def)
    with ok False p' show ?thesis by (simp add: lp_ok_def cong: option.case_cong)
  qed
  ultimately show ?thesis by (simp add: lp_ok_def)
qed

lemma lp_ok_cong:
  assumes "m_LPTokenUsersBalanceMap m' = m_LPTokenUsersBalanceMap m" "m_UsersLPTokenBalanceMap m' = m_UsersLPTokenBalanceMap m"
    "m_SwapPoolTotalBalanceDataMap m' = m_SwapPoolTotalBalanceDataMap m"
  shows "lp_ok m' \<longleftrightarrow> lp_ok m"
  using lp_tables_cong [OF assms(1,2)] assms(3) by (simp add: lp_ok_def cong: option.case_cong)

lemma lp_ok_frame: "module_frame m' = module_frame m \<Longrightarrow> lp_ok m' \<longleftrightarrow> lp_ok m"
  by (rule lp_ok_cong) (simp_all add: module_frame_fields [of m' m])

section \<open>The functions of a commit\<close>

text \<open>The LP fee: the pool after it, and what does not change.\<close>

lemma lp_fee_step:
  assumes f: "m1 = m \<and> pool = pool0 \<or> issue_lp_fee m pair pool0 i j = Some (pool, m1)"
    and p: "m_SwapPoolTotalBalanceDataMap m pair = Some pool0"
  shows "m_SwapPoolTotalBalanceDataMap m1 pair = Some pool" "shifts e (\<lambda>_. 0) m m1" "lp_ok m \<Longrightarrow> lp_ok m1"
    "\<exists>lp. pool = pool0\<lparr>pl_LpBalance := lp\<rparr>"
proof -
  let ?P = "m_SwapPoolTotalBalanceDataMap m1 pair = Some pool \<and> shifts e (\<lambda>_. 0) m m1 \<and> (lp_ok m \<longrightarrow> lp_ok m1) \<and> (\<exists>lp. pool = pool0\<lparr>pl_LpBalance := lp\<rparr>)"
  have same: ?P if "m1 = m" "pool = pool0"
    using that p shifts_refl by (auto intro!: exI [of _ "pl_LpBalance pool0"])
  have fee: ?P if "decval lp = decval (pl_LpBalance pool0) + decval fee" "pool = pool0\<lparr>pl_LpBalance := lp\<rparr>"
    "credit_lp (set_pool m pair pool) pair (m_LpFeePkScript m) fee = Some m1" for fee lp
  proof -
    have pools: "m_SwapPoolTotalBalanceDataMap m1 = (m_SwapPoolTotalBalanceDataMap m)(pair \<mapsto> pool)"
      using credit_lp_fields(2) [OF that(3)] by (simp add: set_pool_def)
    have "shifts e (\<lambda>_. 0) m (set_pool m pair pool)"
      using shifts_set_known_pool [OF p, of e pool] that(2) by simp
    then have "shifts e (\<lambda>_. 0) m m1" by (rule shifts_trans [OF _ shifts_credit_lp [OF that(3)]]) simp
    moreover have l: "lp_shifts pair (decval fee) m m1"
      by (rule lp_shifts_trans [OF lp_shifts_set_pool lp_shifts_credit [OF that(3)]]) simp
    have "lp_ok m \<Longrightarrow> lp_ok m1" using lp_ok_step [OF _ l p pools] that(1,2) by simp
    ultimately show ?thesis using pools that(2) by auto
  qed
  from f have ?P by (elim disjE conjE issue_lp_feeE) (use same fee in blast)+
  then show "m_SwapPoolTotalBalanceDataMap m1 pair = Some pool" "shifts e (\<lambda>_. 0) m m1" "lp_ok m \<Longrightarrow> lp_ok m1"
    "\<exists>lp. pool = pool0\<lparr>pl_LpBalance := lp\<rparr>" by blast+
qed

lemma shifts_GetUser2: "shifts e (\<lambda>_. 0) m (Module_GetUserTokenBalance e (Module_GetUserTokenBalance e m t0 u) t1 v)"
  by (rule shifts_trans [OF shifts_GetUser shifts_GetUser]) simp

lemma shifts_touch2: "shifts e (\<lambda>_. 0) m (touch_user e g t0 u (touch_user e g t1 v m))"
  by (rule shifts_trans [OF shifts_touch_user shifts_touch_user]) simp

lemma add_liq_apply_step:
  assumes r: "add_liq_apply e g m f pair pool first t0 t1 i j a0 a1 lpP lpU = Some (r, m')"
    and p: "m_SwapPoolTotalBalanceDataMap m pair = Some pool" and lp: "decval lpP = decval lpU + (if first then 1000 else 0)"
  shows "lp_ok m \<Longrightarrow> lp_ok m'"
    "pool_tick pool i = t0 \<Longrightarrow> pool_tick pool j = t1 \<Longrightarrow> shifts e (\<lambda>_. 0) m m'"
proof -
  let ?m0 = "Module_GetUserTokenBalance e (Module_GetUserTokenBalance e m t0 (sf_PkScript f)) t1 (sf_PkScript f)"
  have "(lp_ok m \<longrightarrow> lp_ok m') \<and> (pool_tick pool i = t0 \<and> pool_tick pool j = t1 \<longrightarrow> shifts e (\<lambda>_. 0) m m')"
    using r
  proof (cases rule: add_liq_applyE)
    case error
    then show ?thesis using lp_ok_frame [of m' m] shifts_GetUser2 by simp
  next
    case (ok m1 m2 m3 m4 r0 r1 l k)
    let ?p = "(set_pool_balance (set_pool_balance pool i r0) j r1)\<lparr>pl_LpBalance := l, pl_UpdateHeight := g_BestHeight g, pl_LastRootK := k\<rparr>"
    let ?t = "touch_user e g t1 (sf_PkScript f) (touch_user e g t0 (sf_PkScript f) m2)"
    have fr: "module_frame ?t = module_frame m" using frame_swap_debit [OF ok(2)] frame_swap_debit [OF ok(3)] by simp
    have c4: "shifts e (\<lambda>_. 0) m3 m4 \<and> lp_shifts pair (decval lpP - decval lpU) m3 m4 \<and>
        m_SwapPoolTotalBalanceDataMap m4 = m_SwapPoolTotalBalanceDataMap m3"
      using ok(5) lp lp_shifts_frame [of m3 m3] shifts_refl [of e m3] shifts_credit_lp lp_shifts_credit credit_lp_fields(2)
      by (cases first) fastforce+
    have pools: "m_SwapPoolTotalBalanceDataMap m4 = m_SwapPoolTotalBalanceDataMap m"
      using c4 credit_lp_fields(2) [OF ok(4)] module_frame_fields(1) [OF fr] by simp
    have l: "lp_shifts pair (decval lpP) m m'"
    proof -
      have "lp_shifts pair (decval lpU) m m3" by (rule lp_shifts_trans [OF lp_shifts_frame [OF fr] lp_shifts_credit [OF ok(4)]]) simp
      then have "lp_shifts pair (decval lpP) m m4" by (rule lp_shifts_trans) (use c4 in auto)
      then show ?thesis unfolding ok(9) by (rule lp_shifts_trans [OF _ lp_shifts_set_pool]) simp
    qed
    have lpok: "lp_ok m'" if "lp_ok m"
    proof (rule lp_ok_step [OF that l p])
      show "m_SwapPoolTotalBalanceDataMap m' = (m_SwapPoolTotalBalanceDataMap m)(pair \<mapsto> ?p)"
        unfolding ok(9) using pools by (simp add: set_pool_def)
    qed (use ok(8) in simp)
    have "shifts e (\<lambda>_. 0) m m'" if tick: "pool_tick pool i = t0" "pool_tick pool j = t1"
    proof -
      let ?d = "\<lambda>lt. only (ToLower e t0) (- decval a0) lt + only (ToLower e t1) (- decval a1) lt"
      have "shifts e ?d m m2"
        by (rule shifts_trans [OF shifts_GetUser2 shifts_trans [OF shifts_debit [OF ok(2)] shifts_debit [OF ok(3)]]]) simp_all
      then have "shifts e ?d m ?t" by (rule shifts_trans [OF _ shifts_touch2]) simp
      then have "shifts e ?d m m3" by (rule shifts_trans [OF _ shifts_credit_lp [OF ok(4)]]) simp
      then have "shifts e ?d m m4" by (rule shifts_trans [OF _ conjunct1 [OF c4]]) simp
      moreover have "m_SwapPoolTotalBalanceDataMap m4 pair = Some pool" using pools p by simp
      ultimately show ?thesis
        unfolding ok(9) by (rule shifts_trans [OF _ shifts_set_known_pool])
          (use ok(6,7) tick in \<open>auto simp: pool_reserve_set only_def\<close>)
    qed
    with lpok show ?thesis by blast
  qed
  then show "lp_ok m \<Longrightarrow> lp_ok m'" "pool_tick pool i = t0 \<Longrightarrow> pool_tick pool j = t1 \<Longrightarrow> shifts e (\<lambda>_. 0) m m'" by blast+
qed

lemma remove_liq_apply_step:
  assumes r: "remove_liq_apply e g m f pair pool t0 t1 i j a0 a1 lp = Some (r, m')"
    and p: "m_SwapPoolTotalBalanceDataMap m pair = Some pool"
  shows "lp_ok m \<Longrightarrow> lp_ok m'"
    "pool_tick pool i = t0 \<Longrightarrow> pool_tick pool j = t1 \<Longrightarrow> shifts e (\<lambda>_. 0) m m'"
proof -
  have "(lp_ok m \<longrightarrow> lp_ok m') \<and> (pool_tick pool i = t0 \<and> pool_tick pool j = t1 \<longrightarrow> shifts e (\<lambda>_. 0) m m')"
    using r
  proof (cases rule: remove_liq_applyE)
    case error
    then show ?thesis by (simp add: shifts_refl)
  next
    case (ok ub lb m1 m2 l r0 r1 k)
    let ?p = "(set_pool_balance (set_pool_balance pool i r0) j r1)\<lparr>pl_UpdateHeight := g_BestHeight g, pl_LpBalance := l, pl_LastRootK := k\<rparr>"
    let ?s = "set_lp_of_user (sf_PkScript f) pair lb (set_lp_of_pool pair (sf_PkScript f) ub m)"
    let ?t = "touch_user e g t1 (sf_PkScript f) (touch_user e g t0 (sf_PkScript f) m2)"
    have fr: "module_frame ?t = module_frame ?s" using frame_swap_credit [OF ok(8)] frame_swap_credit [OF ok(9)] by simp
    have pools: "m_SwapPoolTotalBalanceDataMap ?t = m_SwapPoolTotalBalanceDataMap m"
      using module_frame_fields(1) [OF fr] by simp
    have "lp_shifts pair (- decval lp) m ?s" by (rule lp_shifts_set) (use ok(2,6,7) in \<open>auto simp: lp_holding_def\<close>)
    then have "lp_shifts pair (- decval lp) m ?t" by (rule lp_shifts_trans [OF _ lp_shifts_frame [OF fr]]) simp
    then have l: "lp_shifts pair (- decval lp) m m'" unfolding ok(13) by (rule lp_shifts_trans [OF _ lp_shifts_set_pool]) simp
    have lpok: "lp_ok m'" if "lp_ok m"
    proof (rule lp_ok_step [OF that l p])
      show "m_SwapPoolTotalBalanceDataMap m' = (m_SwapPoolTotalBalanceDataMap m)(pair \<mapsto> ?p)"
        unfolding ok(13) using pools by (simp add: set_pool_def)
    qed (use ok(10) in simp)
    have "shifts e (\<lambda>_. 0) m m'" if tick: "pool_tick pool i = t0" "pool_tick pool j = t1"
    proof -
      let ?d = "\<lambda>lt. only (ToLower e t0) (decval a0) lt + only (ToLower e t1) (decval a1) lt"
      have "shifts e (\<lambda>_. 0) m ?s" by (rule shifts_lp) simp_all
      then have "shifts e ?d m m2"
        by (rule shifts_trans [OF _ shifts_trans [OF shifts_GetUser2 shifts_trans [OF shifts_credit [OF ok(8)] shifts_credit [OF ok(9)]]]]) simp_all
      then have "shifts e ?d m ?t" by (rule shifts_trans [OF _ shifts_touch2]) simp
      moreover have "m_SwapPoolTotalBalanceDataMap ?t pair = Some pool" using pools p by simp
      ultimately show ?thesis
        unfolding ok(13) by (rule shifts_trans [OF _ shifts_set_known_pool])
          (use ok(11,12) tick in \<open>auto simp: pool_reserve_set only_def\<close>)
    qed
    with lpok show ?thesis by blast
  qed
  then show "lp_ok m \<Longrightarrow> lp_ok m'" "pool_tick pool i = t0 \<Longrightarrow> pool_tick pool j = t1 \<Longrightarrow> shifts e (\<lambda>_. 0) m m'" by blast+
qed

text \<open>
  The tokens a function names are those of the pool it names. For addLiq and removeLiq the program
  does not check it; for swap it checks the two tokens, and \<open>check_swap\<close> the third name.
\<close>

definition names_pool :: "ext \<Rightarrow> BRC20ModuleIndexer \<Rightarrow> BRC20ModuleSwapInfo \<Rightarrow> SwapFunctionData \<Rightarrow> bool" where
  "names_pool e g m f =
     (case pool_tokens e g f of
        Some (Some (t0, t1)) \<Rightarrow>
          (case m_SwapPoolTotalBalanceDataMap m (GetLowerInnerPairNameByToken e t0 t1) of
             None \<Rightarrow> True
           | Some pool \<Rightarrow> same_tokens pool t0 t1) \<and>
          (sf_Function f = FUNCTION_SWAP \<longrightarrow>
             (case param f (1 + param_offset e g) of None \<Rightarrow> True | Some t \<Rightarrow> t = t0 \<or> t = t1))
      | _ \<Rightarrow> True)"

definition well_named :: "ext \<Rightarrow> BRC20ModuleIndexer \<Rightarrow> BRC20ModuleSwapInfo \<Rightarrow> SwapFunctionData \<Rightarrow> bool" where
  "well_named e g m f \<longleftrightarrow>
     sf_Function f \<in> {FUNCTION_ADD_LIQ, FUNCTION_REMOVE_LIQ, FUNCTION_SWAP} \<longrightarrow> names_pool e g m f"

lemma names_poolD:
  "names_pool e g m f \<Longrightarrow> pool_tokens e g f = Some (Some (t0, t1)) \<Longrightarrow>
   m_SwapPoolTotalBalanceDataMap m (GetLowerInnerPairNameByToken e t0 t1) = Some pool \<Longrightarrow> same_tokens pool t0 t1"
  by (simp add: names_pool_def)

lemma pool_tick_lp [simp]: "pool_tick (p\<lparr>pl_LpBalance := l\<rparr>) i = pool_tick p i"
  by (simp add: pool_tick_def)

lemma add_liq_step:
  assumes r: "ProcessCommitFunctionAddLiquidity e g m f = Some (r, m')"
  shows "lp_ok m \<Longrightarrow> lp_ok m'" "names_pool e g m f \<Longrightarrow> shifts e (\<lambda>_. 0) m m'"
proof -
  have "(lp_ok m \<longrightarrow> lp_ok m') \<and> (names_pool e g m f \<longrightarrow> shifts e (\<lambda>_. 0) m m')"
    using r
  proof (cases rule: add_liq_functionE)
    case error
    then show ?thesis by (simp add: shifts_refl)
  next
    case (fin t0 t1 pool0 pool m1 first a0 a1 lpP lpU tlp sl)
    note fee = lp_fee_step [OF fin(3,2)]
    from fin(5) show ?thesis
    proof (cases rule: add_liq_finishE)
      case 1
      with fee show ?thesis by simp
    next
      case 2
      note ap = add_liq_apply_step [OF this fee(1) fin(4)]
      have "shifts e (\<lambda>_. 0) m m'" if n: "names_pool e g m f"
      proof -
        from same_tokens_ticks [OF names_poolD [OF n fin(1,2)]] fee(4) have "shifts e (\<lambda>_. 0) m1 m'"
          by (intro ap(2)) auto
        then show ?thesis by (rule shifts_trans [OF fee(2)]) simp
      qed
      with ap(1) fee(3) show ?thesis by blast
    qed
  qed
  then show "lp_ok m \<Longrightarrow> lp_ok m'" "names_pool e g m f \<Longrightarrow> shifts e (\<lambda>_. 0) m m'" by blast+
qed

lemma remove_liq_step:
  assumes r: "ProcessCommitFunctionRemoveLiquidity e g m f = Some (r, m')"
  shows "lp_ok m \<Longrightarrow> lp_ok m'" "names_pool e g m f \<Longrightarrow> shifts e (\<lambda>_. 0) m m'"
proof -
  have "(lp_ok m \<longrightarrow> lp_ok m') \<and> (names_pool e g m f \<longrightarrow> shifts e (\<lambda>_. 0) m m')"
    using r
  proof (cases rule: remove_liq_functionE)
    case (error t0 t1 pool0 pool m1)
    with lp_fee_step [OF error(5,4)] show ?thesis by simp
  next
    case early
    then show ?thesis by (simp add: shifts_refl)
  next
    case (fin t0 t1 pool0 pool m1 a0 a1 lp)
    note fee = lp_fee_step [OF fin(3,2)]
    note ap = remove_liq_apply_step [OF fin(6) fee(1)]
    have "shifts e (\<lambda>_. 0) m m'" if n: "names_pool e g m f"
    proof -
      from same_tokens_ticks [OF names_poolD [OF n fin(1,2)]] fee(4) have "shifts e (\<lambda>_. 0) m1 m'"
        by (intro ap(2)) auto
      then show ?thesis by (rule shifts_trans [OF fee(2)]) simp
    qed
    with ap(1) fee(3) show ?thesis by blast
  qed
  then show "lp_ok m \<Longrightarrow> lp_ok m'" "names_pool e g m f \<Longrightarrow> shifts e (\<lambda>_. 0) m m'" by blast+
qed

lemma frame_move_swap_balance: "move_swap_balance e g t u v a m err = Some (r, m') \<Longrightarrow> module_frame m' = module_frame m"
  by (auto simp: move_swap_balance_def Let_def elim!: bind_SomeE split: if_splits dest!: frame_swap_debit frame_swap_credit)

lemma frame_decrease_approval: "ProcessCommitFunctionDecreaseApproval e g m f = Some (r, m') \<Longrightarrow> module_frame m' = module_frame m"
  by (auto simp: ProcessCommitFunctionDecreaseApproval_def Let_def elim!: bind_SomeE split: if_splits)

lemma swap_error:
  assumes "ProcessCommitFunctionSwap e g m f = Some (Some x, m')"
  shows "module_frame m' = module_frame m" "shifts e (\<lambda>_. 0) m m'"
proof -
  from assms consider "m' = m" | t0 t1 where "m' = touch_user e g t1 (sf_PkScript f) (touch_user e g t0 (sf_PkScript f)
      (Module_GetUserTokenBalance e (Module_GetUserTokenBalance e m t0 (sf_PkScript f)) t1 (sf_PkScript f)))"
    by (auto simp: ProcessCommitFunctionSwap_def swap_apply_def Let_def split_beta elim!: bind_SomeE split: option.splits if_splits)
  then have "module_frame m' = module_frame m \<and> shifts e (\<lambda>_. 0) m m'"
    by cases (auto intro: shifts_refl shifts_trans [OF shifts_GetUser2 shifts_touch2])
  then show "module_frame m' = module_frame m" "shifts e (\<lambda>_. 0) m m'" by blast+
qed

lemma swap_step:
  assumes r: "ProcessCommitFunctionSwap e g m f = Some (r, m')"
  shows "lp_ok m \<Longrightarrow> lp_ok m'" "names_pool e g m f \<Longrightarrow> sf_Function f = FUNCTION_SWAP \<Longrightarrow> shifts e (\<lambda>_. 0) m m'"
proof -
  show "lp_ok m'" if ok: "lp_ok m"
  proof (cases r)
    case (Some x)
    with r swap_error(1) [of e g m f x m'] lp_ok_frame [of m' m] ok show ?thesis by simp
  next
    case None
    with r have s: "ProcessCommitFunctionSwap e g m f = Some (None, m')" by simp
    then obtain pair pool tin tout tamt a b where p: "m_SwapPoolTotalBalanceDataMap m pair = Some pool"
      and ap: "swap_apply e g m f pair pool tin tout (fst (token_indexes tin pool)) (snd (token_indexes tin pool)) tamt a b = Some (None, m')"
      by (elim swap_functionE) blast
    from swap_apply_pool [OF ap token_indexes_ok] obtain pool' where
      fr: "module_frame m' = module_frame (set_pool m pair pool')" and l: "pl_LpBalance pool' = pl_LpBalance pool" by metis
    show ?thesis
    proof (rule lp_ok_step [OF ok _ p])
      show "lp_shifts pair 0 m m'" by (rule lp_shifts_trans [OF lp_shifts_set_pool lp_shifts_frame [OF fr]]) simp
      show "m_SwapPoolTotalBalanceDataMap m' = (m_SwapPoolTotalBalanceDataMap m)(pair \<mapsto> pool')"
        using module_frame_fields(1) [OF fr] by (simp add: set_pool_def)
    qed (simp add: l)
  qed
  show "shifts e (\<lambda>_. 0) m m'" if n: "names_pool e g m f" "sf_Function f = FUNCTION_SWAP"
  proof (cases r)
    case (Some x)
    with r swap_error(2) [of e g m f x m'] show ?thesis by simp
  next
    case None
    with r have s: "ProcessCommitFunctionSwap e g m f = Some (None, m')" by simp
    then obtain t0 t1 dir tin ain tout aout where tok: "pool_tokens e g f = Some (Some (t0, t1))"
      and d: "swap_direction f (param_offset e g) t0 t1 = Some (dir, tin, ain, tout, aout)"
      by (elim swap_functionE) blast
    show ?thesis
    proof (cases "param f (1 + param_offset e g)")
      case (Some t)
      with n tok have "t = t0 \<or> t = t1" by (simp add: names_pool_def)
      then show ?thesis by (rule swap_shifts [OF s tok Some]) (use names_poolD [OF n(1) tok] in blast)
    next
      case None
      with d s show ?thesis
        by (elim swap_functionE) (auto simp: swap_direction_def tok swap_amounts_def split: if_splits elim!: bind_SomeE intro: swap_apply_shifts)
    qed
  qed
qed

lemma sendlp_step:
  assumes r: "ProcessCommitFunctionSendLp e g m f = Some (r, m')"
  shows "lp_ok m \<Longrightarrow> lp_ok m'" "shifts e (\<lambda>_. 0) m m'"
proof -
  have "(lp_ok m \<longrightarrow> lp_ok m') \<and> shifts e (\<lambda>_. 0) m m'"
    using r
  proof (cases rule: sendlp_functionE)
    case error
    then show ?thesis by (simp add: shifts_refl)
  next
    case (ok pair p v lp ub lb)
    let ?s = "set_lp_of_user (sf_PkScript f) pair lb (set_lp_of_pool pair (sf_PkScript f) ub m)"
    have "lp_shifts pair (- decval lp) m ?s"
      by (rule lp_shifts_set) (use ok(3) Decimal_Sub_val [OF ok(4)] Decimal_Sub_val [OF ok(5)] in \<open>auto simp: lp_holding_def\<close>)
    then have l: "lp_shifts pair 0 m m'" by (rule lp_shifts_trans [OF _ lp_shifts_credit [OF ok(6)]]) simp
    have pools: "m_SwapPoolTotalBalanceDataMap m' = (m_SwapPoolTotalBalanceDataMap m)(pair \<mapsto> p)"
      using credit_lp_fields(2) [OF ok(6)] ok(2) by auto
    have "shifts e (\<lambda>_. 0) m m'" by (rule shifts_lp) (use credit_lp_fields [OF ok(6)] in simp_all)
    then show ?thesis using lp_ok_step [OF _ l ok(2) pools] by simp
  qed
  then show "lp_ok m \<Longrightarrow> lp_ok m'" "shifts e (\<lambda>_. 0) m m'" by blast+
qed

lemma deploy_pool_step:
  assumes r: "ProcessCommitFunctionDeployPool e g m f = Some (r, m')"
  shows "lp_ok m \<Longrightarrow> lp_ok m'" "shifts e (\<lambda>_. 0) m m'"
proof -
  have "(lp_ok m \<longrightarrow> lp_ok m') \<and> shifts e (\<lambda>_. 0) m m'"
    using r
  proof (cases rule: deploy_pool_functionE)
    case error
    then show ?thesis by (simp add: shifts_refl)
  next
    case (ok pair p)
    let ?n = "m\<lparr>m_LPTokenUsersBalanceMap := (m_LPTokenUsersBalanceMap m)(pair \<mapsto> Map.empty)\<rparr>"
    have "shifts e (\<lambda>_. 0) m ?n" by (rule shifts_lp) simp_all
    then have s: "shifts e (\<lambda>_. 0) m m'" unfolding ok(6)
      by (rule shifts_trans [OF _ shifts_set_pool]) (use ok(2,4,5) in \<open>simp add: reserves_def pool_reserve_def\<close>)
    have e: "lp_of_pool m' q u = (if q = pair then None else lp_of_pool m q u)" "lp_of_user m' u q = lp_of_user m u q" for q u
      unfolding ok(6) by (simp_all add: lp_of_pool_def lp_of_user_def lp_entry_def set_pool_def)
    have h: "lp_holding q m' = (if q = pair then (\<lambda>u. 0) else lp_holding q m)" for q
      by (simp add: lp_holding_def fun_eq_iff e)
    have "lp_ok m'" if o: "lp_ok m"
    proof -
      have z: "lp_holding pair m = (\<lambda>u. 0)" using o [unfolded lp_ok_def, THEN conjunct2, THEN spec [of _ pair]] ok(2) by simp
      then have "decval (lp_of_pool m pair u) = 0" for u by (auto simp: lp_holding_def fun_eq_iff)
      then have "lp_copies m'" using o by (auto simp: lp_ok_def lp_copies_def e)
      then show ?thesis using o h ok(3) unfolding ok(6) by (simp add: lp_ok_def set_pool_def cong: option.case_cong)
    qed
    with s show ?thesis by blast
  qed
  then show "lp_ok m \<Longrightarrow> lp_ok m'" "shifts e (\<lambda>_. 0) m m'" by blast+
qed

lemma commit_function_step:
  assumes r: "commit_function e g m f = Some (r, m')"
  shows "lp_ok m \<Longrightarrow> lp_ok m'" "well_named e g m f \<Longrightarrow> shifts e (\<lambda>_. 0) m m'"
proof -
  have fr: "lp_ok m'" if "module_frame m' = module_frame m" "lp_ok m" using that lp_ok_frame by blast
  have send: "module_frame m' = module_frame m \<and> shifts e (\<lambda>_. 0) m m'" if "ProcessCommitFunctionSend e g m f = Some (r, m')"
    using that by (auto simp: ProcessCommitFunctionSend_def elim!: bind_SomeE dest: frame_move_swap_balance move_swap_balance_shifts)
  note s = deploy_pool_step [of e g m f r m'] add_liq_step [of e g m f r m'] remove_liq_step [of e g m f r m'] swap_step [of e g m f r m']
    sendlp_step [of e g m f r m'] frame_decrease_approval [of e g m f r m'] decrease_approval_shifts [of e g m f r m']
  show "lp_ok m \<Longrightarrow> lp_ok m'"
    using r s fr send by (auto simp: commit_function_def split: if_splits)
  show "well_named e g m f \<Longrightarrow> shifts e (\<lambda>_. 0) m m'"
    using r s send shifts_refl [of e m] by (auto simp: commit_function_def well_named_def split: if_splits)
qed

lemma commit_gas_step:
  assumes "commit_gas e g p sz f m = Some (r, m')"
  shows "module_frame m' = module_frame m" "shifts e (\<lambda>_. 0) m m'"
  using assms shifts_refl
  by (auto simp: commit_gas_def Let_def ProcessCommitFunctionGasFee_def split: if_splits dest: frame_move_swap_balance move_swap_balance_shifts)

lemma names_pool_frame: "module_frame m' = module_frame m \<Longrightarrow> names_pool e g m' f = names_pool e g m f"
  using module_frame_fields(1) [of m' m] by (simp add: names_pool_def split: option.splits)

lemma commit_step_step:
  assumes r: "commit_step e g p sz f m = Some (r, m')"
  shows "lp_ok m \<Longrightarrow> lp_ok m'" "well_named e g m f \<Longrightarrow> shifts e (\<lambda>_. 0) m m'"
proof -
  from r obtain err m1 where g: "commit_gas e g p sz f m = Some (err, m1)"
    and c: "(case err of Some x \<Rightarrow> ret_err x m1 | None \<Rightarrow> commit_function e g m1 f) = Some (r, m')"
    by (auto simp: commit_step_def elim!: bind_SomeE)
  note gas = commit_gas_step [OF g] lp_ok_frame [OF commit_gas_step(1) [OF g]] names_pool_frame [OF commit_gas_step(1) [OF g]]
  show "lp_ok m \<Longrightarrow> lp_ok m'"
    using c gas(3) commit_function_step(1) [of e g m1 f r m'] by (auto split: option.splits)
  show "shifts e (\<lambda>_. 0) m m'" if w: "well_named e g m f"
  proof -
    have "shifts e (\<lambda>_. 0) m1 m'"
      using c w gas(4) commit_function_step(2) [of e g m1 f r m'] shifts_refl [of e m1] by (auto simp: well_named_def split: option.splits)
    then show ?thesis by (rule shifts_trans [OF gas(2)]) simp
  qed
qed

end
