(* ===== verification/Module_Reach.thy ===== *)
theory Module_Reach
  imports Ledger_Inv Module_Inv
begin

text \<open>
  The swap modules of a reachable state. A module has a core, which only its commits change: the
  pools, the LP balances and the chain of commits. The frame lemmas show that every other handler
  keeps the cores of all modules, so that an invariant of the core is proved once for the functions
  of a commit and holds in every state the indexer reaches.
\<close>

section \<open>The core of a module\<close>

definition module_core :: "BRC20ModuleSwapInfo \<Rightarrow> BRC20ModuleSwapInfo" where
  "module_core m = m
     \<lparr>m_UpdateHeight := 0, m_History := [], m_CommitInvalidMap := {}, m_UsersTokenBalanceDataMap := Map.empty,
      m_TokenUsersBalanceDataMap := Map.empty, m_LPTokenUsersBalanceUpdatedMap := None,
      m_ConditionalApproveStateBalanceDataMap := Map.empty, m_ThisTxId := '''',
      m_TransferStatesForConditionalApprove := [], m_ApproveStatesForConditionalApprove := []\<rparr>"

definition core_of :: "BRC20ModuleIndexer \<Rightarrow> string \<Rightarrow> BRC20ModuleSwapInfo option" where
  "core_of g k = map_option module_core (module_of g k)"

lemma core_fields:
  assumes "module_core m' = module_core m"
  shows "m_SwapPoolTotalBalanceDataMap m' = m_SwapPoolTotalBalanceDataMap m" "m_LPTokenUsersBalanceMap m' = m_LPTokenUsersBalanceMap m"
    "m_UsersLPTokenBalanceMap m' = m_UsersLPTokenBalanceMap m" "m_CommitIdMap m' = m_CommitIdMap m"
    "m_CommitIdChainMap m' = m_CommitIdChainMap m" "m_FeeRateSwap m' = m_FeeRateSwap m"
  using assms by (cases m; cases m'; simp add: module_core_def)+

lemma core_upd [simp]:
  "module_core (m\<lparr>m_UpdateHeight := h\<rparr>) = module_core m" "module_core (m\<lparr>m_History := hs\<rparr>) = module_core m"
  "module_core (m\<lparr>m_CommitInvalidMap := c\<rparr>) = module_core m" "module_core (m\<lparr>m_UsersTokenBalanceDataMap := b\<rparr>) = module_core m"
  "module_core (m\<lparr>m_TokenUsersBalanceDataMap := t\<rparr>) = module_core m"
  "module_core (m\<lparr>m_ConditionalApproveStateBalanceDataMap := s\<rparr>) = module_core m"
  "module_core (m\<lparr>m_ThisTxId := x\<rparr>) = module_core m" "module_core (m\<lparr>m_TransferStatesForConditionalApprove := l\<rparr>) = module_core m"
  "module_core (m\<lparr>m_ApproveStatesForConditionalApprove := a\<rparr>) = module_core m"
  by (simp_all add: module_core_def)

lemma core_helpers [simp]:
  "module_core (set_user_balance m u lt b) = module_core m"
  "module_core (Module_GetUserTokenBalance e m t u) = module_core m"
  "module_core (put_balance e m t u b) = module_core m"
  "module_core (GetTickConditionalApproveStateBalance e m t) = module_core m"
  "module_core (upd_state_balance e t f m) = module_core m"
  "module_core (append_module_history h m) = module_core m"
  "module_core (module_enter_tx x m) = module_core m"
  by (simp_all add: set_user_balance_def Module_GetUserTokenBalance_def put_balance_def GetTickConditionalApproveStateBalance_def
      upd_state_balance_def append_module_history_def module_enter_tx_def Let_def split: option.splits)

lemma core_modules: "g_ModulesInfoMap g' = g_ModulesInfoMap g \<Longrightarrow> core_of g' = core_of g"
  by (simp add: core_of_def module_of_def fun_eq_iff)

lemma module_of_set_module [simp]: "module_of (set_module g k m) = (module_of g)(k \<mapsto> m)"
  by (simp add: module_of_def set_module_def fun_eq_iff)

lemma core_set_module: "core_of (set_module g k m) = (core_of g)(k \<mapsto> module_core m)"
  by (simp add: core_of_def fun_eq_iff)

lemma core_set_same:
  "module_of g k = Some m \<Longrightarrow> module_core m' = module_core m \<Longrightarrow> core_of (set_module g k m') = core_of g"
  by (simp add: core_set_module core_of_def fun_eq_iff)

lemma core_of_fields [simp]:
  "core_of (g\<lparr>g_TransferHeap := a\<rparr>) = core_of g" "core_of (g\<lparr>g_TxStaticTransferStatesForConditionalApprove := b\<rparr>) = core_of g"
  "core_of (g\<lparr>g_ThisTxId := c\<rparr>) = core_of g" "core_of (g\<lparr>g_InscriptionsValidConditionalApproveMap := d\<rparr>) = core_of g"
  "core_of (g\<lparr>g_InscriptionsInvalidConditionalApproveMap := d\<rparr>) = core_of g" "core_of (g\<lparr>g_InscriptionsValidApproveMap := f\<rparr>) = core_of g"
  "core_of (g\<lparr>g_InscriptionsInvalidApproveMap := f\<rparr>) = core_of g" "core_of (g\<lparr>g_InscriptionsApproveRemoveMap := h\<rparr>) = core_of g"
  "core_of (g\<lparr>g_InscriptionsCommitRemoveMap := h\<rparr>) = core_of g" "core_of (g\<lparr>g_InscriptionsValidCommitMap := i\<rparr>) = core_of g"
  "core_of (g\<lparr>g_InscriptionsValidCommitMapById := i\<rparr>) = core_of g" "core_of (g\<lparr>g_Durty := j\<rparr>) = core_of g"
  "core_of (g\<lparr>g_BestHeight := k\<rparr>) = core_of g" "core_of (g\<lparr>g_InscriptionsTransferRemoveMap := h\<rparr>) = core_of g"
  "core_of (g\<lparr>g_InscriptionsWithdrawMap := l\<rparr>) = core_of g" "core_of (g\<lparr>g_TokenUsersBalanceData := m\<rparr>) = core_of g"
  "core_of (g\<lparr>g_InscriptionsWithdrawRemoveMap := l'\<rparr>) = core_of g" "core_of (g\<lparr>g_InscriptionsValidWithdrawMap := l''\<rparr>) = core_of g"
  "core_of (g\<lparr>g_InscriptionsTickerInfoMap := n\<rparr>) = core_of g" "core_of (g\<lparr>g_UserTokensBalanceData := q\<rparr>) = core_of g"
  "core_of (g\<lparr>g_InscriptionsValidTransferMap := r\<rparr>) = core_of g" "core_of (g\<lparr>g_InscriptionsInvalidTransferMap := r\<rparr>) = core_of g"
  "core_of (g\<lparr>g_InscriptionsValidBRC20DataMap := s\<rparr>) = core_of g" "core_of (g\<lparr>g_AllHistory := t\<rparr>) = core_of g"
  "core_of (g\<lparr>g_UserAllHistory := u\<rparr>) = core_of g" "core_of (g\<lparr>g_HistoryData := v, g_HistoryCount := w\<rparr>) = core_of g"
  "core_of (g\<lparr>g_FirstHistoryByHeight := x, g_LastHistoryHeight := y\<rparr>) = core_of g"
  by (rule core_modules; simp)+

section \<open>Handlers that keep the cores\<close>

lemma core_base [simp]:
  "core_of (set_balance g u lt b) = core_of g" "core_of (upd_balance u lt fb g) = core_of g" "core_of (upd_ticker lt ft g) = core_of g"
  "core_of (upd_deploy lt fd g) = core_of g" "core_of (append_all_history h g) = core_of g" "core_of (append_user_history pk h g) = core_of g"
  "core_of (upd_cond_approve k fc g) = core_of g"
  by (simp_all add: set_balance_def upd_balance_def upd_ticker_def upd_deploy_def append_all_history_def append_user_history_def
      GetBRC20HistoryByUser_def upd_cond_approve_def Let_def split: option.splits)

lemma core_UpdateHistory: "UpdateHistoryHeightAndGetHistoryIndex g h = Some (i, g') \<Longrightarrow> core_of g' = core_of g"
  by (auto simp: UpdateHistoryHeightAndGetHistoryIndex_def Let_def elim!: bind_SomeE split: if_splits)

lemma core_GetUser: "GetUserTokenBalance e g tick pk = Some (b, g') \<Longrightarrow> core_of g' = core_of g"
  by (auto simp: GetUserTokenBalance_def Let_def split: option.splits)

lemmas core_history = core_UpdateHistory core_GetUser

lemma core_ProcessMint: "ProcessMint e g d = Some (err, g') \<Longrightarrow> core_of g' = core_of g"
  by (auto simp: ProcessMint_def mint_invalid_def mint_valid_def mint_history_def Let_def elim!: bind_SomeE
      split: option.splits sum.splits if_splits dest!: core_history)

lemma core_deploy_token: "deploy_token g lt body ti d = Some (err, g') \<Longrightarrow> core_of g' = core_of g"
  by (auto simp: deploy_token_def deploy_history_def Let_def elim!: bind_SomeE split: if_splits dest!: core_history)

lemma core_ProcessDeploy: "ProcessDeploy e g d = Some (err, g') \<Longrightarrow> core_of g' = core_of g"
  by (auto simp: ProcessDeploy_def deploy_max_def deploy_limit_def Let_def elim!: bind_SomeE
      split: option.splits sum.splits if_splits dest!: core_deploy_token)

lemma core_inscribe_transfer_history: "inscribe_transfer_history g lt ti b v d = Some g' \<Longrightarrow> core_of g' = core_of g"
  by (auto simp: inscribe_transfer_history_def Let_def elim!: bind_SomeE split: if_splits dest!: core_history)

lemma core_ProcessInscribeTransfer: "ProcessInscribeTransfer e g d = Some (err, g') \<Longrightarrow> core_of g' = core_of g"
  by (auto simp: ProcessInscribeTransfer_def inscribe_transfer_apply_def Let_def elim!: bind_SomeE
      split: option.splits sum.splits if_splits dest!: core_inscribe_transfer_history)

text \<open>The moves of a transfer inscription and the approvals.\<close>

lemma core_Module_Generate: "Module_GenerateApproveEventsByTransfer t m h = Some (m', h', es) \<Longrightarrow> module_core m' = module_core m"
  by (auto simp: Module_GenerateApproveEventsByTransfer_def Let_def elim!: bind_SomeE split: if_splits)

lemma core_Module_GenerateByApprove:
  "Module_GenerateApproveEventsByApprove ow b d ai m h = Some (m', h', es) \<Longrightarrow> module_core m' = module_core m"
  by (auto simp: Module_GenerateApproveEventsByApprove_def Let_def elim!: bind_SomeE split: if_splits)

lemma core_transfer_modules_loop: "transfer_modules_loop ks t g = Some (g', es) \<Longrightarrow> core_of g' = core_of g"
proof (induction ks arbitrary: g g' es)
  case (Cons k ks)
  show ?case
  proof (cases "module_of g k")
    case None
    with Cons show ?thesis by simp
  next
    case (Some m)
    let ?m = "module_enter_tx (g_ThisTxId g) m"
    from Cons.prems Some consider
      "transfer_modules_loop ks t (set_module g k ?m) = Some (g', es)"
    | m' h' es1 es2 where "Module_GenerateApproveEventsByTransfer t ?m (g_TransferHeap g) = Some (m', h', es1)"
        "transfer_modules_loop ks t ((set_module g k m')\<lparr>g_TransferHeap := h'\<rparr>) = Some (g', es2)"
      by (auto simp: Let_def elim!: bind_SomeE split: if_splits)
    then show ?thesis
    proof cases
      case 1
      from Cons.IH [OF this] core_set_same [OF Some, of ?m] show ?thesis by simp
    next
      case 2
      from Cons.IH [OF 2(2)] core_set_same [OF Some, of m'] core_Module_Generate [OF 2(1)] show ?thesis by simp
    qed
  qed
qed simp

lemma core_GenerateByTransfer: "GenerateApproveEventsByTransfer e g i t f d a = Some (g', es) \<Longrightarrow> core_of g' = core_of g"
  by (auto simp: GenerateApproveEventsByTransfer_def Let_def elim!: bind_SomeE dest!: core_transfer_modules_loop)

lemma core_GenerateByApprove: "GenerateApproveEventsByApprove g ow b d ai = Some (g', es) \<Longrightarrow> core_of g' = core_of g"
  by (auto simp: GenerateApproveEventsByApprove_def Let_def elim!: bind_SomeE split: option.splits if_splits
      dest!: core_Module_GenerateByApprove intro!: core_set_same)

lemma core_cond_approve_move: "cond_approve_move e h ev m = Some m' \<Longrightarrow> module_core m' = module_core m"
  by (auto simp: cond_approve_move_def Let_def elim!: bind_SomeE split: option.splits if_splits)

lemma core_process_cond_event: "process_cond_event e g ev = Some (err, g') \<Longrightarrow> core_of g' = core_of g"
  by (auto simp: process_cond_event_def Let_def elim!: bind_SomeE split: option.splits if_splits
      dest!: core_cond_approve_move intro!: core_set_same) (simp_all add: core_set_module core_of_def fun_eq_iff)

lemma core_process_cond_events_loop: "process_cond_events_loop e evs g = Some (err, g') \<Longrightarrow> core_of g' = core_of g"
proof (induction evs arbitrary: g)
  case (Cons ev evs)
  then show ?case by (auto split: option.splits dest!: core_process_cond_event)
qed simp

lemma core_settle: "core_of (fold settle_cond_event evs g) = core_of g"
  by (induction evs arbitrary: g) (simp_all add: settle_cond_event_def)

lemma core_ProcessConditionalApproveEvents: "ProcessConditionalApproveEvents e g evs = Some (err, g') \<Longrightarrow> core_of g' = core_of g"
  by (auto simp: ProcessConditionalApproveEvents_def core_settle split: option.splits dest!: core_process_cond_events_loop)

lemma core_module_deposit: "module_deposit e ti meta d s m = Some m' \<Longrightarrow> module_core m' = module_core m"
  by (auto simp: module_deposit_def Let_def elim!: bind_SomeE split: option.splits)

lemma core_transfer_module_part: "transfer_module_part e g lt s r ti d = Some (err, g') \<Longrightarrow> core_of g' = core_of g"
  by (auto simp: transfer_module_part_def core_set_same Let_def elim!: bind_SomeE split: option.splits if_splits
      dest!: core_GenerateByTransfer core_ProcessConditionalApproveEvents core_module_deposit)

lemma core_transfer_receive: "transfer_receive e g lt pk ti d = Some g' \<Longrightarrow> core_of g' = core_of g"
  by (auto simp: transfer_receive_def Let_def elim!: bind_SomeE split: option.splits if_splits dest!: core_history)

lemma core_transfer_send_history: "transfer_send_history g pk lt ti v d = Some g' \<Longrightarrow> core_of g' = core_of g"
  by (auto simp: transfer_send_history_def Let_def elim!: bind_SomeE split: if_splits dest!: core_history)

lemma core_transfer_global_history: "transfer_global_history g lt ti iv d = Some g' \<Longrightarrow> core_of g' = core_of g"
  by (auto simp: transfer_global_history_def Let_def elim!: bind_SomeE split: if_splits dest!: core_history)

lemma core_transfer_apply: "transfer_apply e g d lt s r fb ti iv = Some (err, g') \<Longrightarrow> core_of g' = core_of g"
  by (auto simp: transfer_apply_def Let_def elim!: bind_SomeE split: if_splits
      dest!: core_transfer_send_history core_transfer_receive core_transfer_module_part)

lemma core_ProcessTransfer: "ProcessTransfer e g d ti iv = Some (err, g') \<Longrightarrow> core_of g' = core_of g"
  by (auto simp: ProcessTransfer_def Let_def elim!: bind_SomeE split: if_splits option.splits
      dest!: core_transfer_global_history core_transfer_apply)

lemma core_ProcessConditionalApprove: "ProcessConditionalApprove e g d ai iv = Some (err, g') \<Longrightarrow> core_of g' = core_of g"
  by (auto simp: ProcessConditionalApprove_def cond_approve_return_def Let_def elim!: bind_SomeE split: option.splits if_splits
      dest!: core_GenerateByApprove core_ProcessConditionalApproveEvents intro!: core_set_same)

lemma core_approve_move: "approve_move e h ai d r m = Some m' \<Longrightarrow> module_core m' = module_core m"
  by (auto simp: approve_move_def Let_def elim!: bind_SomeE split: if_splits)

lemma core_ProcessApprove: "ProcessApprove e g d ai iv = Some (err, g') \<Longrightarrow> core_of g' = core_of g"
  by (auto simp: ProcessApprove_def Let_def elim!: bind_SomeE split: option.splits if_splits
      dest!: core_approve_move intro!: core_set_same)

lemma core_inscribe_approve_module: "inscribe_approve_module e h i d m = Some (v, m') \<Longrightarrow> module_core m' = module_core m"
  by (auto simp: inscribe_approve_module_def Let_def elim!: bind_SomeE split: if_splits)

lemma core_ProcessInscribeApprove: "ProcessInscribeApprove e g d = Some (err, g') \<Longrightarrow> core_of g' = core_of g"
  by (auto simp: ProcessInscribeApprove_def Let_def elim!: bind_SomeE split: option.splits sum.splits if_splits
      dest!: core_inscribe_approve_module intro!: core_set_same)

lemma core_inscribe_cond_approve_module: "inscribe_cond_approve_module e h i d m = Some (v, m') \<Longrightarrow> module_core m' = module_core m"
  by (auto simp: inscribe_cond_approve_module_def Let_def elim!: bind_SomeE split: if_splits option.splits)

lemma core_ProcessInscribeConditionalApprove: "ProcessInscribeConditionalApprove e g d = Some (err, g') \<Longrightarrow> core_of g' = core_of g"
  by (auto simp: ProcessInscribeConditionalApprove_def Let_def elim!: bind_SomeE split: option.splits sum.splits if_splits
      dest!: core_inscribe_cond_approve_module intro!: core_set_same)

lemma core_ProcessInscribeWithdraw: "ProcessInscribeWithdraw e g d = Some (err, g') \<Longrightarrow> core_of g' = core_of g"
  by (auto simp: ProcessInscribeWithdraw_def core_set_same Let_def elim!: bind_SomeE split: option.splits sum.splits if_splits)

lemma core_upd_module: "(\<And>m. module_core (f m) = module_core m) \<Longrightarrow> core_of (upd_module k f g) = core_of g"
  by (auto simp: upd_module_def intro!: core_set_same split: option.splits)

lemma core_ProcessInscribeCommit: "ProcessInscribeCommit e g d = Some (err, g') \<Longrightarrow> core_of g' = core_of g"
  by (auto simp: ProcessInscribeCommit_def core_upd_module Let_def elim!: bind_SomeE split: option.splits if_splits)

section \<open>Commits\<close>

text \<open>The comparison with expected results only creates empty balances.\<close>

lemma frame_result_user: "result_user_check e g u m = Some (r, m') \<Longrightarrow> module_frame m' = module_frame m"
  by (auto simp: result_user_check_def Let_def elim!: bind_SomeE split: option.splits if_splits)

lemma frame_result_pool: "result_pool_check e g u m = Some (r, m') \<Longrightarrow> m' = m"
  by (auto simp: result_pool_check_def Let_def elim!: bind_SomeE split: option.splits if_splits prod.splits)

lemma frame_check_each:
  assumes "\<And>x m r m'. f x m = Some (r, m') \<Longrightarrow> module_frame m' = module_frame m" and "check_each f xs m = Some (r, m')"
  shows "module_frame m' = module_frame m"
  using assms(2)
proof (induction xs arbitrary: m)
  case (Cons x xs)
  then show ?case by (auto elim!: bind_SomeE split: option.splits dest!: assms(1))
qed simp

lemma frame_results: "BRC20ResultsPreVerify e g x m = Some (r, m') \<Longrightarrow> module_frame m' = module_frame m"
proof -
  have u: "check_each (result_user_check e g) xs m = Some (r, m') \<Longrightarrow> module_frame m' = module_frame m" for xs m r m'
    by (erule frame_check_each [rotated]) (rule frame_result_user)
  have p: "check_each (result_pool_check e g) xs m = Some (r, m') \<Longrightarrow> module_frame m' = module_frame m" for xs m r m'
    by (erule frame_check_each [rotated]) (drule frame_result_pool, simp)
  show "BRC20ResultsPreVerify e g x m = Some (r, m') \<Longrightarrow> module_frame m' = module_frame m"
    by (auto simp: BRC20ResultsPreVerify_def elim!: bind_SomeE split: option.splits dest!: u p)
qed

lemma frame_each_result: "check_each (BRC20ResultsPreVerify e g) xs m = Some (r, m') \<Longrightarrow> module_frame m' = module_frame m"
  by (erule frame_check_each [rotated]) (rule frame_results)

text \<open>
  A commit is a sequence of functions. What each of them keeps, and what does not depend on the
  users' balances, the commit keeps, whether it ends with an error or not.
\<close>

lemma commit_loop_keeps:
  assumes step: "\<And>p sz f m r m'. commit_step e g p sz f m = Some (r, m') \<Longrightarrow> P m \<Longrightarrow> P m'"
    and fr: "\<And>m m'. module_frame m' = module_frame m \<Longrightarrow> P m \<Longrightarrow> P m'"
    and r: "commit_verify_loop e g cid rs xr p szs n i fs m = Some (r, m')" and m: "P m"
  shows "P m'"
  using r m
proof (induction fs arbitrary: i m)
  case (Cons fp fs)
  from Cons.prems(1) obtain f where f: "fp = Some f" by (auto elim!: bind_SomeE)
  show ?case
  proof (cases "GetPkScriptByAddress e (sf_Address f)")
    case None
    with Cons.prems f show ?thesis by simp
  next
    case (Some pk)
    with Cons.prems(1) f obtain err m1 where s: "commit_step e g p (szs ! i) (f\<lparr>sf_PkScript := pk\<rparr>) m = Some (err, m1)"
      and c: "m' = m1 \<or> (\<exists>err2 m2. check_each (BRC20ResultsPreVerify e g) (results_of cid n i rs xr) m1 = Some (err2, m2) \<and>
         (m' = m2 \<or> commit_verify_loop e g cid rs xr p szs n (i + 1) fs m2 = Some (r, m')))"
      by (auto elim!: bind_SomeE split: option.splits)
    have P1: "P m1" using step [OF s Cons.prems(2)] .
    from c show ?thesis
    proof (elim disjE exE conjE)
      fix err2 m2 assume "check_each (BRC20ResultsPreVerify e g) (results_of cid n i rs xr) m1 = Some (err2, m2)"
      then have P2: "P m2" using fr [OF frame_each_result P1] by blast
      then show "m' = m2 \<Longrightarrow> P m'" by simp
      show "P m'" if "commit_verify_loop e g cid rs xr p szs n (i + 1) fs m2 = Some (r, m')"
        using Cons.IH [OF that P2] .
    qed (simp add: P1)
  qed
qed simp

lemma commit_verify_keeps:
  assumes step: "\<And>p sz f m r m'. commit_step e g p sz f m = Some (r, m') \<Longrightarrow> P m \<Longrightarrow> P m'"
    and fr: "\<And>m m'. module_frame m' = module_frame m \<Longrightarrow> P m \<Longrightarrow> P m'"
    and r: "ProcessCommitVerify e xr g cid body szs rs = Some (r, g')"
    and m: "\<And>m. module_of g (cc_Module body) = Some m \<Longrightarrow> P m" and m': "module_of g' (cc_Module body) = Some m'"
  shows "P m'"
proof (cases "g' = g")
  case True
  with m m' show ?thesis by simp
next
  case False
  with r obtain m0 p m1 where "module_of g (cc_Module body) = Some m0"
    "commit_verify_loop e g cid rs xr p szs (length (cc_Data body)) 0 (cc_Data body) m0 = Some (r, m1)"
    "g' = set_module g (cc_Module body) m1"
    by (auto simp: ProcessCommitVerify_def elim!: bind_SomeE split: option.splits if_splits)
  then show ?thesis using m m' commit_loop_keeps [of e g P, OF step fr] by auto
qed

lemma commit_verify_others:
  "ProcessCommitVerify e xr g cid body szs rs = Some (r, g') \<Longrightarrow> k \<noteq> cc_Module body \<Longrightarrow> module_of g' k = module_of g k"
  by (auto simp: ProcessCommitVerify_def elim!: bind_SomeE split: option.splits if_splits)

lemma commit_verify_exists:
  "ProcessCommitVerify e xr g cid body szs rs = Some (r, g') \<Longrightarrow> module_of g' (cc_Module body) = None \<longleftrightarrow> module_of g (cc_Module body) = None"
  by (auto simp: ProcessCommitVerify_def elim!: bind_SomeE split: option.splits if_splits)

text \<open>What no function of a commit changes: the settings of the module and its chain of commits.\<close>

definition module_settings :: "BRC20ModuleSwapInfo \<Rightarrow> string list" where
  "module_settings m = [m_ID m, m_Name m, m_DeployerPkScript m, m_SequencerPkScript m, m_GasToPkScript m, m_LpFeePkScript m,
     m_FeeRateSwap m, m_GasTick m]"

definition commit_chain :: "BRC20ModuleSwapInfo \<Rightarrow> string set \<times> string set \<times> string list" where
  "commit_chain m = (m_CommitIdMap m, m_CommitIdChainMap m, module_settings m)"

lemma core_frame: "module_frame m' = module_frame m \<Longrightarrow> module_core m' = module_core m"
proof -
  assume a: "module_frame m' = module_frame m"
  have "module_core (module_frame x) = module_core x" for x by (simp add: module_frame_def)
  with a show ?thesis by metis
qed

lemma chain_frame: "module_frame m' = module_frame m \<Longrightarrow> commit_chain m' = commit_chain m"
proof -
  assume a: "module_frame m' = module_frame m"
  have "commit_chain (module_frame x) = commit_chain x" for x by (simp add: module_frame_def commit_chain_def module_settings_def)
  with a show ?thesis by metis
qed

lemma chain_lp [simp]:
  "commit_chain (set_pool m pair p) = commit_chain m" "commit_chain (set_lp_of_pool pair u d m) = commit_chain m"
  "commit_chain (set_lp_of_user u pair d m) = commit_chain m" "commit_chain (m\<lparr>m_LPTokenUsersBalanceMap := t\<rparr>) = commit_chain m"
  by (simp_all add: commit_chain_def module_settings_def set_pool_def set_lp_of_pool_def set_lp_of_user_def)

lemma chain_users [simp]:
  "commit_chain (Module_GetUserTokenBalance e m t u) = commit_chain m" "commit_chain (touch_user e g t u m) = commit_chain m"
  by (rule chain_frame; simp)+

lemma chain_credit_lp: "credit_lp m pair u a = Some m' \<Longrightarrow> commit_chain m' = commit_chain m"
  by (auto simp: credit_lp_def elim!: bind_SomeE)

lemma chain_debit: "swap_debit e t u a m = Some m' \<Longrightarrow> commit_chain m' = commit_chain m"
  by (rule chain_frame) (rule frame_swap_debit)

lemma chain_credit: "swap_credit e t u a m = Some m' \<Longrightarrow> commit_chain m' = commit_chain m"
  by (rule chain_frame) (rule frame_swap_credit)

lemma chain_fee: "issue_lp_fee m pair pool i j = Some (pool', m') \<Longrightarrow> commit_chain m' = commit_chain m"
  by (erule issue_lp_feeE) (auto dest: chain_credit_lp)

lemmas chain_parts = chain_credit_lp chain_debit chain_credit chain_fee

lemma chain_swap: "ProcessCommitFunctionSwap e g m f = Some (r, m') \<Longrightarrow> commit_chain m' = commit_chain m"
  by (auto simp: ProcessCommitFunctionSwap_def swap_apply_def Let_def elim!: bind_SomeE split: option.splits if_splits prod.splits
      dest!: chain_parts)

lemma chain_add_liq: "ProcessCommitFunctionAddLiquidity e g m f = Some (r, m') \<Longrightarrow> commit_chain m' = commit_chain m"
  by (erule add_liq_functionE, simp, erule add_liq_finishE) (auto elim!: add_liq_applyE split: if_splits dest!: chain_parts)

lemma chain_remove_liq: "ProcessCommitFunctionRemoveLiquidity e g m f = Some (r, m') \<Longrightarrow> commit_chain m' = commit_chain m"
  by (erule remove_liq_functionE) (auto elim!: remove_liq_applyE dest!: chain_parts)

lemma chain_sendlp: "ProcessCommitFunctionSendLp e g m f = Some (r, m') \<Longrightarrow> commit_chain m' = commit_chain m"
  by (erule sendlp_functionE) (auto dest!: chain_parts)

lemma chain_deploy_pool: "ProcessCommitFunctionDeployPool e g m f = Some (r, m') \<Longrightarrow> commit_chain m' = commit_chain m"
  by (erule deploy_pool_functionE) simp_all

lemma commit_function_chain: "commit_function e g m f = Some (r, m') \<Longrightarrow> commit_chain m' = commit_chain m"
  by (auto simp: commit_function_def ProcessCommitFunctionSend_def split: if_splits elim!: bind_SomeE
      dest: chain_deploy_pool chain_sendlp chain_swap chain_add_liq chain_remove_liq chain_frame [OF frame_move_swap_balance] chain_frame [OF frame_decrease_approval])

lemma commit_step_chain:
  assumes "commit_step e g p sz f m = Some (r, m')"
  shows "commit_chain m' = commit_chain m"
proof -
  from assms obtain err m1 where "commit_gas e g p sz f m = Some (err, m1)"
    and c: "(case err of Some x \<Rightarrow> ret_err x m1 | None \<Rightarrow> commit_function e g m1 f) = Some (r, m')"
    by (auto simp: commit_step_def elim!: bind_SomeE)
  from chain_frame [OF commit_gas_step(1) [OF this(1)]] c show ?thesis
    by (auto split: option.splits dest: commit_function_chain)
qed

lemma commit_verify_chain:
  assumes r: "ProcessCommitVerify e xr g cid body szs rs = Some (r, g')" and m: "module_of g (cc_Module body) = Some m"
  obtains m' where "module_of g' (cc_Module body) = Some m'" "commit_chain m' = commit_chain m"
proof -
  from commit_verify_exists [OF r] m obtain m' where m': "module_of g' (cc_Module body) = Some m'" by auto
  have "commit_chain m' = commit_chain m"
  proof (rule commit_verify_keeps [where P = "\<lambda>x. commit_chain x = commit_chain m", OF _ _ r _ m'])
    show "commit_chain x = commit_chain m" if "module_of g (cc_Module body) = Some x" for x using that m by simp
    show "commit_chain y = commit_chain m" if "commit_step e g p sz f x = Some (res, y)" "commit_chain x = commit_chain m" for p sz f x res y
      using commit_step_chain [OF that(1)] that(2) by simp
    show "commit_chain y = commit_chain m" if "module_frame y = module_frame x" "commit_chain x = commit_chain m" for x y
      using chain_frame [OF that(1)] that(2) by simp
  qed
  with m' show thesis by (rule that)
qed

lemma commit_verify_parent:
  "ProcessCommitVerify e xr g cid body szs rs = Some (None, g') \<Longrightarrow>
   \<exists>m. module_of g (cc_Module body) = Some m \<and> commit_parent_check m (cc_Parent body) = None"
  by (auto simp: ProcessCommitVerify_def split: option.splits)

lemma parent_check_chain: "commit_chain m' = commit_chain m \<Longrightarrow> commit_parent_check m' p = commit_parent_check m p"
  by (simp add: commit_parent_check_def commit_chain_def)

lemma commit_executeE:
  assumes "commit_execute e xr g i body szs = Some (r, g')"
  obtains (copy) "r \<noteq> None" "g' = g"
    | (error) x where "r \<noteq> None" "ProcessCommitVerify e xr g i body szs [] = Some (Some x, g')"
    | (ok) "r = None" "ProcessCommitVerify e xr g i body szs [] = Some (None, g')"
  using assms by (auto simp: commit_execute_def Let_def elim!: bind_SomeE split: option.splits prod.splits)

text \<open>The outcomes of moving a commit.\<close>

definition settle_module :: "InscriptionBRC20Data \<Rightarrow> InscriptionBRC20Data \<Rightarrow> string \<Rightarrow> BRC20ModuleSwapInfo \<Rightarrow> BRC20ModuleSwapInfo" where
  "settle_module dfrom dto parent m =
     append_module_history (NewBRC20ModuleHistory True HISTORY_COMMIT dfrom dto NoData True)
       ((settle_commit (Data_GetInscriptionId dfrom) parent m)
          \<lparr>m_CommitInvalidMap := m_CommitInvalidMap m - {Data_GetInscriptionId dfrom}\<rparr>)"

lemma ProcessCommitE:
  assumes r: "ProcessCommit e xr g df dt iv = Some (r, g')"
  obtains (refused) "r \<noteq> None" "core_of g' = core_of g"
    | (executed) body szs g1 r1 g2 where "core_of g1 = core_of g" "commit_execute e xr g1 (Data_GetInscriptionId df) body szs = Some (r1, g2)"
        "r1 \<noteq> None \<and> r \<noteq> None \<and> g' = g2 \<or>
         r1 = None \<and> r = None \<and> g' = upd_module (cc_Module body) (settle_module df dt (cc_Parent body)) g2"
proof -
  let ?i = "Data_GetInscriptionId df"
  let ?g = "g\<lparr>g_InscriptionsValidCommitMapById := (g_InscriptionsValidCommitMapById g)(?i := None)\<rparr>"
  let ?g1 = "\<lambda>body. upd_module (cc_Module body) (\<lambda>m. m\<lparr>m_CommitInvalidMap := insert ?i (m_CommitInvalidMap m)\<rparr>) ?g"
  have c: "core_of ?g = core_of g" "core_of (?g1 body) = core_of g" for body by (simp_all add: core_upd_module)
  define fin where "fin body g2 = upd_module (cc_Module body) (settle_module df dt (cc_Parent body)) g2" for body :: InscriptionBRC20ModuleSwapCommitContent and g2
  define G1 where "G1 body = ?g1 body" for body :: InscriptionBRC20ModuleSwapCommitContent
  note r' = r [unfolded ProcessCommit_def Let_def, folded settle_module_def, folded fin_def G1_def]
  have "r \<noteq> None \<and> (g' = ?g \<or> (\<exists>body. g' = G1 body)) \<or> (\<exists>body szs r1 g2. commit_execute e xr (G1 body) ?i body szs = Some (r1, g2) \<and>
      (r1 \<noteq> None \<and> r \<noteq> None \<and> g' = g2 \<or> r1 = None \<and> r = None \<and> g' = fin body g2))"
    using r' by (fastforce elim!: bind_SomeE split: option.splits if_splits)
  then consider "r \<noteq> None" "g' = ?g \<or> (\<exists>body. g' = G1 body)"
    | body szs r1 g2 where "commit_execute e xr (G1 body) ?i body szs = Some (r1, g2)"
        "r1 \<noteq> None \<and> r \<noteq> None \<and> g' = g2 \<or> r1 = None \<and> r = None \<and> g' = fin body g2"
    by blast
  then show thesis
  proof cases
    case 1
    with c show thesis by (intro refused) (auto simp: G1_def)
  next
    case 2
    with c(2) show thesis unfolding G1_def fin_def by (intro executed)
  qed
qed

text \<open>
  A property of modules that every function of a commit keeps and that a module has when it is
  created holds for all modules of every reachable state. It may depend on the core only, but for
  the record of the settled commits, which the end of a commit changes.
\<close>

definition all_modules :: "(BRC20ModuleSwapInfo \<Rightarrow> bool) \<Rightarrow> BRC20ModuleIndexer \<Rightarrow> bool" where
  "all_modules P g \<longleftrightarrow> (\<forall>k m. module_of g k = Some m \<longrightarrow> P m)"

locale module_invariant =
  fixes P :: "BRC20ModuleSwapInfo \<Rightarrow> bool" and e :: ext
  assumes created: "P (new_module d nm sq gt lf fr gas)"
    and core: "module_core m' = module_core m \<Longrightarrow> P m \<Longrightarrow> P m'"
    and settled: "P m \<Longrightarrow> commit_parent_check m parent = None \<Longrightarrow> P (settle_commit i parent m)"
    and step_keeps: "commit_step e g p sz f m = Some (r, m') \<Longrightarrow> P m \<Longrightarrow> P m'"
begin

lemma all_core:
  assumes "core_of g' = core_of g" and "all_modules P g"
  shows "all_modules P g'"
  unfolding all_modules_def
proof (intro allI impI)
  fix k m assume "module_of g' k = Some m"
  then obtain m0 where "module_of g k = Some m0" "module_core m = module_core m0"
    using fun_cong [OF assms(1), of k] unfolding core_of_def by (cases "module_of g k") auto
  with assms(2) show "P m" using core by (auto simp: all_modules_def)
qed

lemma frame: "module_frame m' = module_frame m \<Longrightarrow> P m \<Longrightarrow> P m'"
  using core core_frame by blast

lemma verify:
  assumes r: "ProcessCommitVerify e xr g cid body szs rs = Some (r, g')" and g: "all_modules P g"
  shows "all_modules P g'"
  unfolding all_modules_def
proof (intro allI impI)
  fix k m assume m: "module_of g' k = Some m"
  show "P m"
  proof (cases "k = cc_Module body")
    case True
    with m g commit_verify_keeps [of e g P, OF step_keeps frame r] show ?thesis by (auto simp: all_modules_def)
  next
    case False
    with m g commit_verify_others [OF r] show ?thesis by (auto simp: all_modules_def)
  qed
qed

end

context module_invariant
begin

lemma commit_keeps:
  assumes r: "ProcessCommit e xr g df dt iv = Some (r, g')" and g: "all_modules P g"
  shows "all_modules P g'"
  using r
proof (cases rule: ProcessCommitE)
  case refused
  with g all_core show ?thesis by blast
next
  case (executed body szs g1 r1 g2)
  have g1: "all_modules P g1" using all_core [OF executed(1) g] .
  from executed(2) have g2: "all_modules P g2"
    by (cases rule: commit_executeE) (use g1 verify in blast)+
  show ?thesis
  proof (cases "g' = g2")
    case False
    with executed(3) have n: "r1 = None" and g': "g' = upd_module (cc_Module body) (settle_module df dt (cc_Parent body)) g2" by blast+
    from executed(2) n have v: "ProcessCommitVerify e xr g1 (Data_GetInscriptionId df) body szs [] = Some (None, g2)"
      by (cases rule: commit_executeE) simp_all
    from commit_verify_parent [OF v] obtain m1 where m1: "module_of g1 (cc_Module body) = Some m1" "commit_parent_check m1 (cc_Parent body) = None"
      by blast
    from commit_verify_chain [OF v m1(1)] obtain m2 where m2: "module_of g2 (cc_Module body) = Some m2" "commit_chain m2 = commit_chain m1" .
    have "P (settle_commit (Data_GetInscriptionId df) (cc_Parent body) m2)"
      by (rule settled) (use g2 m2 m1(2) parent_check_chain [OF m2(2)] in \<open>auto simp: all_modules_def\<close>)
    then have "P (settle_module df dt (cc_Parent body) m2)"
      by (rule core [rotated]) (simp add: settle_module_def)
    with g2 m2(1) show ?thesis by (auto simp: g' upd_module_def all_modules_def)
  qed (simp add: g2)
qed

lemma create:
  assumes "ProcessCreateModule e g d = Some (r, g')" and "all_modules P g"
  shows "all_modules P g'"
proof -
  have n: "all_modules P (set_module g k (new_module d nm sq gt lf fr gas))" for k nm sq gt lf fr gas
    using assms(2) created by (auto simp: all_modules_def)
  from assms show ?thesis
    by (auto simp: ProcessCreateModule_def n Let_def elim!: bind_SomeE split: option.splits sum.splits if_splits)
qed

lemma handler:
  assumes "run_handler h e g d = Some (r, g')" and "all_modules P g"
  shows "all_modules P g'"
  using assms create
  by (cases h) (auto dest!: core_ProcessDeploy core_ProcessMint core_ProcessInscribeTransfer core_ProcessInscribeWithdraw
      core_ProcessInscribeApprove core_ProcessInscribeConditionalApprove core_ProcessInscribeCommit dest: all_core)

lemma upd_fields:
  "all_modules P (g\<lparr>g_Durty := b\<rparr>) = all_modules P g" "all_modules P (g\<lparr>g_BestHeight := h\<rparr>) = all_modules P g"
  "all_modules P (g\<lparr>g_InscriptionsCommitRemoveMap := cm\<rparr>) = all_modules P g"
  by (simp_all add: all_modules_def module_of_def)

lemma inscribe:
  assumes "inscribe_event e g d = Some g'" and "all_modules P g"
  shows "all_modules P g'"
proof -
  have "g' = g \<or> (\<exists>h. mark_durty (run_handler h e g d) = Some g')"
    using assms(1) by (auto simp: inscribe_event_def split: if_splits option.splits)
  then consider "g' = g" | h where "mark_durty (run_handler h e g d) = Some g'" by blast
  then show ?thesis
  proof cases
    case 2
    then obtain r g1 where "run_handler h e g d = Some (r, g1)" "g' = g1 \<or> g' = g1\<lparr>g_Durty := True\<rparr>"
      by (auto simp: mark_durty_def elim!: bind_SomeE split: option.splits)
    with handler [OF this(1) assms(2)] show ?thesis by (auto simp: upd_fields)
  qed (simp add: assms(2))
qed

lemma move:
  assumes r: "move_event e xr g d = Some g'" and w: "g_InscriptionsWithdrawRemoveMap g = None" and g: "all_modules P g"
  shows "all_modules P g'"
  using r w
proof (cases rule: move_event_cases)
  case (cond ai iv)
  then obtain r g1 where "ProcessConditionalApprove e g d ai iv = Some (r, g1)" "g' = g1 \<or> g' = g1\<lparr>g_Durty := True\<rparr>"
    by (auto simp: mark_durty_def elim!: bind_SomeE split: option.splits)
  then show ?thesis using all_core [OF core_ProcessConditionalApprove g] by (auto simp: upd_fields)
next
  case (trans ti iv m)
  from drop_errorD [OF trans(3)] core_ProcessTransfer have "core_of g' = core_of g" by fastforce
  then show ?thesis using all_core g by blast
next
  case (appr ai iv m)
  from drop_errorD [OF this] core_ProcessApprove have "core_of g' = core_of g" by fastforce
  then show ?thesis using all_core g by blast
next
  case (commit cf iv m)
  from drop_errorD [OF this] obtain r where "ProcessCommit e xr (g\<lparr>g_InscriptionsCommitRemoveMap := m, g_Durty := True\<rparr>) cf d iv = Some (r, g')"
    by blast
  from commit_keeps [OF this] g show ?thesis by (simp add: upd_fields)
qed (simp add: g)

lemma step:
  assumes "process_event e xr g d = Some g'" and "g_InscriptionsWithdrawRemoveMap g = None" and "all_modules P g"
  shows "all_modules P g'"
  using assms move [of xr "g\<lparr>g_BestHeight := d_Height d\<rparr>" d g'] inscribe [of "g\<lparr>g_BestHeight := d_Height d\<rparr>" d g']
  by (simp add: process_event_def upd_fields Let_def split: if_splits)

lemma reached: "reach e xr g \<Longrightarrow> all_modules P g"
proof (induction rule: reach.induct)
  case (start h)
  show ?case by (simp add: all_modules_def module_of_def Init_def initBRC20_def initModule_def zero_indexer_def)
next
  case (event g d g')
  from reach_ledger [OF event(1)] have "g_InscriptionsWithdrawRemoveMap g = None" by (simp add: ledger_wf_def)
  with event step show ?case by blast
qed (simp_all add: all_modules_def module_of_def clean_holders_def PurgeHistoricalData_def)

end

section \<open>LP tokens and the chain of commits\<close>

interpretation lp_inv: module_invariant lp_ok e for e :: ext
proof
  show "lp_ok (new_module d nm sq gt lf fr gas)" for d nm sq gt lf fr gas
  proof -
    let ?m = "new_module d nm sq gt lf fr gas"
    have "lp_holding pair ?m = (\<lambda>u. 0)" for pair
      by (simp add: lp_holding_def lp_of_pool_def lp_entry_def new_module_def fun_eq_iff)
    then show ?thesis
      by (simp add: lp_ok_def lp_copies_def lp_of_pool_def lp_of_user_def lp_entry_def) (simp add: new_module_def)
  qed
  show "lp_ok m'" if "module_core m' = module_core m" "lp_ok m" for m m'
    using lp_ok_cong [OF core_fields(2,3,1) [OF that(1)]] that(2) by simp
  show "lp_ok (settle_commit i parent m)" if "lp_ok m" for i parent m
    using lp_ok_cong [of "settle_commit i parent m" m] that by (simp add: settle_commit_def)
  show "lp_ok m'" if "commit_step e g p sz f m = Some (r, m')" "lp_ok m" for g p sz f m r m'
    using commit_step_step(1) [OF that] .
qed

text \<open>
  The settled commits and the parents used up. A commit that is settled uses up one parent that
  was not used before, so that at most one settled commit is left that can be a parent.
\<close>

definition chain_ok :: "BRC20ModuleSwapInfo \<Rightarrow> bool" where
  "chain_ok m \<longleftrightarrow> finite (m_CommitIdMap m) \<and> m_CommitIdChainMap m \<subseteq> insert '''' (m_CommitIdMap m) \<and>
     card (m_CommitIdMap m) \<le> card (m_CommitIdChainMap m) \<and> (m_CommitIdMap m = {} \<longrightarrow> m_CommitIdChainMap m = {}) \<and>
     (m_CommitIdMap m \<noteq> {} \<longrightarrow> '''' \<in> m_CommitIdChainMap m)"

lemma chain_ok_settle:
  assumes ok: "chain_ok m" and p: "commit_parent_check m parent = None"
  shows "chain_ok (settle_commit i parent m)"
proof -
  have fin: "finite (m_CommitIdChainMap m)" "finite (m_CommitIdMap m)"
    using ok finite_subset [of "m_CommitIdChainMap m" "insert '''' (m_CommitIdMap m)"] by (auto simp: chain_ok_def)
  have new: "parent \<notin> m_CommitIdChainMap m" and old: "parent \<noteq> '''' \<Longrightarrow> parent \<in> m_CommitIdMap m"
    and first: "parent = '''' \<Longrightarrow> m_CommitIdMap m = {}"
    using p ok by (auto simp: commit_parent_check_def chain_ok_def split: if_splits)
  have "card (insert i (m_CommitIdMap m)) \<le> Suc (card (m_CommitIdMap m))" using fin by (simp add: card_insert_if)
  also have "\<dots> \<le> card (insert parent (m_CommitIdChainMap m))" using ok new fin by (simp add: chain_ok_def)
  finally show ?thesis using ok old first fin by (auto simp: chain_ok_def settle_commit_def)
qed

interpretation chain_inv: module_invariant chain_ok e for e :: ext
proof
  show "chain_ok (new_module d nm sq gt lf fr gas)" for d nm sq gt lf fr gas by (simp add: chain_ok_def new_module_def)
  show "chain_ok m'" if "module_core m' = module_core m" "chain_ok m" for m m'
    using core_fields(4,5) [OF that(1)] that(2) by (simp add: chain_ok_def)
  show "chain_ok m'" if "commit_step e g p sz f m = Some (r, m')" "chain_ok m" for g p sz f m r m'
    using commit_step_chain [OF that(1)] that(2) by (simp add: chain_ok_def commit_chain_def)
qed (rule chain_ok_settle)

lemma chain_ok_tip:
  assumes "chain_ok m" "a \<in> m_CommitIdMap m" "a \<notin> m_CommitIdChainMap m" "b \<in> m_CommitIdMap m" "b \<notin> m_CommitIdChainMap m"
  shows "a = b"
proof (rule ccontr)
  assume ab: "a \<noteq> b"
  let ?I = "m_CommitIdMap m" and ?C = "m_CommitIdChainMap m"
  have fin: "finite ?I" and sub: "?C \<subseteq> insert '''' ?I" and le: "card ?I \<le> card ?C" using assms(1) by (auto simp: chain_ok_def)
  have "?C \<subseteq> insert '''' (?I - {a, b})" using sub assms by auto
  then have "card ?C \<le> card (insert '''' (?I - {a, b}))" using fin by (intro card_mono) auto
  also have "\<dots> \<le> Suc (card (?I - {a, b}))" using fin by (simp add: card_insert_if)
  also have "card (?I - {a, b}) = card ?I - 2" using assms(2,4) fin ab by (subst card_Diff_subset) auto
  finally have c: "card ?C \<le> Suc (card ?I - 2)" .
  have "card {a, b} \<le> card ?I" using assms(2,4) fin by (intro card_mono) auto
  with ab have "2 \<le> card ?I" by simp
  with c le show False by simp
qed

end
