(* ===== verification/Swap_Scenario.thy ===== *)
theory Swap_Scenario
  imports Scenario Module_Reach
begin

text \<open>
  A concrete run with a swap module, evaluated in the kernel: two tokens are deployed and minted, a
  module is deployed, both tokens are deposited in it, and a commit creates a pool, adds liquidity
  and swaps. The theorems about modules of
  reachable states are applied to it.
\<close>

definition content_text :: "char \<Rightarrow> string" where
  "content_text c = CHR ''{'' # c # replicate 40 CHR ''.'' @ ''}''"

definition swap_module :: string where "swap_module = ''0505050505050505050505050505050505050505050505050505050505050505i0''"
definition swap_script :: string where "swap_script = CHR 0x6a # CHR 0x20 # replicate 32 CHR 0x05"
definition commit_id :: string where "commit_id = ''0a0a0a0a0a0a0a0a0a0a0a0a0a0a0a0a0a0a0a0a0a0a0a0a0a0a0a0a0a0a0a0ai0''"

definition function_json :: "string \<Rightarrow> string list \<Rightarrow> json" where
  "function_json func params =
     JObj [(''addr'', JStr ''alice''), (''func'', JStr func), (''params'', JArr (map JStr params)), (''ts'', JNum ''1''),
       (''sig'', JStr (replicate 88 CHR ''A''))]"

definition commit_json :: "string \<Rightarrow> json list \<Rightarrow> json" where
  "commit_json parent fs =
     JObj [(''p'', JStr ''brc20-swap''), (''op'', JStr ''commit''), (''module'', JStr swap_module), (''parent'', JStr parent),
       (''gas_price'', JStr ''''), (''data'', JArr fs)]"

definition token_json :: "string \<Rightarrow> string \<Rightarrow> (string \<times> json) list \<Rightarrow> json" where
  "token_json op tick ms = JObj ([(''p'', JStr ''brc-20''), (''op'', JStr op), (''tick'', JStr tick)] @ ms)"

definition swap_json :: "string \<Rightarrow> json option" where
  "swap_json s =
     (if s = content_text CHR ''1'' then Some (token_json ''deploy'' ''ordi'' [(''max'', JStr ''9000''), (''dec'', JStr ''0'')])
      else if s = content_text CHR ''2'' then Some (token_json ''deploy'' ''sats'' [(''max'', JStr ''9000''), (''dec'', JStr ''0'')])
      else if s = content_text CHR ''3'' then Some (token_json ''mint'' ''ordi'' [(''amt'', JStr ''9000'')])
      else if s = content_text CHR ''4'' then Some (token_json ''mint'' ''sats'' [(''amt'', JStr ''9000'')])
      else if s = content_text CHR ''5'' then
        Some (JObj [(''p'', JStr ''brc20-module''), (''op'', JStr ''deploy''), (''name'', JStr ''swap''), (''source'', JStr ''''),
          (''init'', JObj [(''swap_fee_rate'', JStr ''0.003''), (''gas_tick'', JStr ''sats''), (''gas_to'', JStr ''gas''),
            (''fee_to'', JStr ''fee''), (''sequencer'', JStr ''alice'')])])
      else if s = content_text CHR ''6'' then Some (token_json ''transfer'' ''ordi'' [(''amt'', JStr ''6000'')])
      else if s = content_text CHR ''7'' then Some (token_json ''transfer'' ''sats'' [(''amt'', JStr ''6000'')])
      else if s = content_text CHR ''8'' then
        Some (commit_json '''' [function_json ''deployPool'' [''ordi'', ''sats''],
          function_json ''addLiq'' [''ordi/sats'', ''2000'', ''4000'', ''0'', ''0''],
          function_json ''swap'' [''ordi/sats'', ''ordi'', ''100'', ''exactIn'', ''180'', ''0.005'']])
      else None)"

definition swap_tokens :: "string \<Rightarrow> (jtoken \<times> u64) list \<times> bool" where
  "swap_tokens s = ([(TDelim CHR 0x7b, 1), (TString ''data'', 8), (TDelim CHR 0x5b, 9)] @
     concat (replicate 3 [(TDelim CHR 0x7b, 10), (TDelim CHR 0x7d, 50)]) @ [(TDelim CHR 0x5d, 51), (TDelim CHR 0x7d, 52)], True)"

definition swap_env :: ext where
  "swap_env = (demo_env JNull)\<lparr>ext_json_parse := swap_json, conf_ENABLE_SWAP_WITHDRAW_HEIGHT := 100, ext_json_tokens := swap_tokens\<rparr>"

definition swap_event :: "bool \<Rightarrow> char \<Rightarrow> string \<Rightarrow> char \<Rightarrow> string \<Rightarrow> InscriptionBRC20Data" where
  "swap_event isTransfer c key tx pk = (demo_event isTransfer (content_text c) key pk)\<lparr>d_TxId := replicate 32 tx\<rparr>"

definition swap_events :: "InscriptionBRC20Data list" where
  "swap_events =
     [swap_event False CHR ''1'' ''k1'' CHR 0x01 ''alice'', swap_event False CHR ''2'' ''k2'' CHR 0x02 ''alice'',
      swap_event False CHR ''3'' ''k3'' CHR 0x03 ''alice'', swap_event False CHR ''4'' ''k4'' CHR 0x04 ''alice'',
      swap_event False CHR ''5'' ''k5'' CHR 0x05 ''alice'', swap_event False CHR ''6'' ''k6'' CHR 0x06 ''alice'',
      swap_event False CHR ''7'' ''k7'' CHR 0x07 ''alice'', swap_event True CHR ''6'' ''k6'' CHR 0x08 swap_script,
      swap_event True CHR ''7'' ''k7'' CHR 0x09 swap_script, swap_event False CHR ''8'' ''k8'' CHR 0x0a ''alice'',
      swap_event True CHR ''8'' ''k8'' CHR 0x0b swap_script]"

definition pool_name :: string where "pool_name = GetLowerInnerPairNameByToken swap_env ''ordi'' ''sats''"

definition swap_summary :: "BRC20ModuleIndexer \<Rightarrow> ((int \<times> int \<times> int) option \<times> int) option" where
  "swap_summary g = map_option (\<lambda>m.
     (map_option (\<lambda>p. (decval (pl_TickBalance0 p), decval (pl_TickBalance1 p), decval (pl_LpBalance p)))
        (m_SwapPoolTotalBalanceDataMap m pool_name),
      decval (lp_of_pool m pool_name ''alice''))) (module_of g swap_module)"

definition swap_start :: BRC20ModuleIndexer where "swap_start = (Init zero_indexer)\<lparr>g_EnableHistory := False\<rparr>"


lemma swap_run:
  "map_option (\<lambda>g. (swap_summary g, map_option (\<lambda>m. (m_CommitIdMap m, m_CommitIdChainMap m)) (module_of g swap_module)))
     (run_fresh swap_env None swap_events swap_start) =
   Some (Some (Some (2100, 3811, 2828), 1828), Some ({commit_id}, {''''}))"
  by code_simp

definition swap_state :: BRC20ModuleIndexer where
  "swap_state = (case run_fresh swap_env None swap_events swap_start of None \<Rightarrow> zero_indexer | Some g \<Rightarrow> g)"

lemma swap_state_run: "run_fresh swap_env None swap_events swap_start = Some swap_state"
proof (cases "run_fresh swap_env None swap_events swap_start")
  case None
  with swap_run show ?thesis by simp
qed (simp add: swap_state_def)

lemma swap_reach: "reach swap_env None swap_state"
  by (rule reach_run [OF swap_state_run]) (simp add: swap_start_def reach.start)

lemma swap_state_module:
  obtains m p where "module_of swap_state swap_module = Some m" "m_SwapPoolTotalBalanceDataMap m pool_name = Some p"
    "decval (pl_LpBalance p) = 2828" "decval (lp_of_pool m pool_name ''alice'') = 1828"
    "m_CommitIdMap m = {commit_id}" "m_CommitIdChainMap m = {''''}"
proof -
  note r = swap_run [unfolded swap_state_run swap_summary_def]
  then obtain m where m: "module_of swap_state swap_module = Some m" by auto
  with r obtain p where "m_SwapPoolTotalBalanceDataMap m pool_name = Some p" by auto
  with r m that show thesis by auto
qed

section \<open>One swap\<close>

text \<open>A module with one pool and one user, and a swap in it.\<close>

definition two_tokens :: BRC20ModuleIndexer where
  "two_tokens = (case run_fresh swap_env None (take 2 swap_events) swap_start of None \<Rightarrow> zero_indexer | Some g \<Rightarrow> g)"

definition units :: "int \<Rightarrow> decp" where "units n = Some \<lparr>Precition = 0, Val = n\<rparr>"

definition one_pool :: BRC20ModulePoolTotalBalance where
  "one_pool = \<lparr>pl_UpdateHeight = 0, pl_Tick0 = ''ordi'', pl_Tick1 = ''sats'', pl_TickBalance0 = units 2000, pl_TickBalance1 = units 4000,
     pl_LpBalance = NewDecimal 2828 18, pl_LastRootK = None, pl_History = []\<rparr>"

definition one_user :: BRC20ModuleSwapInfo where
  "one_user = put_balance swap_env (new_module (hd swap_events) ''swap'' ''alice'' ''gas'' ''fee'' ''0.003'' ''sats'') ''ordi'' ''alice''
     ((new_module_balance ''ordi'' ''alice'')\<lparr>mb_SwapAccountBalance := units 500\<rparr>)"

definition pool_module :: BRC20ModuleSwapInfo where "pool_module = set_pool one_user pool_name one_pool"

definition one_swap :: SwapFunctionData where
  "one_swap = \<lparr>sf_Address = ''alice'', sf_Function = ''swap'',
     sf_Params = [''ordi/sats'', ''ordi'', ''100'', ''exactIn'', ''180'', ''0.005''], sf_Timestamp = 1, sf_Signature = '''',
     sf_ID = '''', sf_PkScript = ''alice''\<rparr>"

definition swapped :: BRC20ModuleSwapInfo where
  "swapped = (case ProcessCommitFunctionSwap swap_env two_tokens pool_module one_swap of Some (_, m) \<Rightarrow> m | None \<Rightarrow> pool_module)"

lemma one_swap_result:
  "map_option (\<lambda>(r, m). (r, map_option (\<lambda>p. (decval (pl_TickBalance0 p), decval (pl_TickBalance1 p))) (m_SwapPoolTotalBalanceDataMap m pool_name)))
     (ProcessCommitFunctionSwap swap_env two_tokens pool_module one_swap) = Some (None, Some (2100, 3811))"
  by code_simp

lemma one_swap_run: "ProcessCommitFunctionSwap swap_env two_tokens pool_module one_swap = Some (None, swapped)"
  using one_swap_result by (auto simp: swapped_def)

lemma pool_module_pools: "m_SwapPoolTotalBalanceDataMap pool_module = [pool_name \<mapsto> one_pool]"
  by (simp add: pool_module_def set_pool_def one_user_def put_balance_def set_user_balance_def new_module_def)

lemma pool_module_fee: "CheckAmountVerify (m_FeeRateSwap pool_module) 3 = Some (Some (Some \<lparr>Precition = 3, Val = 3\<rparr>))"
  by code_simp

lemma one_step: "commit_step swap_env two_tokens None 50 one_swap pool_module = Some (None, swapped)"
  using one_swap_run
  by (simp add: commit_step_def commit_gas_def Decimal_Sign_def commit_function_def function_names one_swap_def)

lemma one_swap_named: "well_named swap_env two_tokens pool_module one_swap"
  by code_simp

lemma pool_module_custody: "custody_fin swap_env lt pool_module"
proof -
  have "accounts (module_holding lt pool_module) \<subseteq> {''alice''}"
    by (auto simp: accounts_def module_holding_def user_balance_def pool_module_def set_pool_def one_user_def put_balance_def
        set_user_balance_def new_module_def split: if_splits option.splits)
  moreover have "accounts (reserves swap_env lt pool_module) \<subseteq> {pool_name}"
    by (auto simp: accounts_def reserves_def pool_module_pools split: if_splits)
  ultimately show ?thesis by (auto simp: custody_fin_def intro: finite_subset)
qed

end
