(* ===== verification/Commit_Behaviour.thy ===== *)
theory Commit_Behaviour
  imports Swap_Scenario
begin

text \<open>
  How commits behave at the edges: the loop over the parents of a commit that is not on the chain
  yet, the functions that are always refused, and the cases in which a function of a commit changes
  more than it should.
\<close>

section \<open>The loop over the parents\<close>

text \<open>One turn of the loop: the parent the body of an unsettled commit names.\<close>

definition next_parent :: "ext \<Rightarrow> BRC20ModuleIndexer \<Rightarrow> BRC20ModuleSwapInfo \<Rightarrow> string \<Rightarrow> string option" where
  "next_parent e g m p =
     (if p = '''' \<or> p \<in> m_CommitIdMap m then None
      else case g_InscriptionsValidCommitMapById g p of
        None \<Rightarrow> None
      | Some d \<Rightarrow> (case GetCommitParentFromData e d of Some (Some q) \<Rightarrow> Some q | _ \<Rightarrow> None))"

text \<open>No body in the way is the text \<open>null\<close>, whose use is a panic.\<close>

definition bodies_decode :: "ext \<Rightarrow> BRC20ModuleIndexer \<Rightarrow> bool" where
  "bodies_decode e g \<longleftrightarrow> (\<forall>p d. g_InscriptionsValidCommitMapById g p = Some d \<longrightarrow> GetCommitParentFromData e d \<noteq> None)"

lemma commit_parents_next:
  assumes "next_parent e g m p = Some q"
  shows "commit_parents e g m p ids = commit_parents e g m q (p # ids)"
  using assms by (subst commit_parents.simps) (auto simp: next_parent_def split: if_splits option.splits)

lemma commit_parents_last:
  assumes "next_parent e g m p = None" and "bodies_decode e g"
  shows "\<exists>r. commit_parents e g m p ids = Some r \<and> (\<forall>l. r = Inr l \<longrightarrow> l = ids \<and> (p = '''' \<or> p \<in> m_CommitIdMap m))"
  using assms by (subst commit_parents.simps) (fastforce simp: next_parent_def bodies_decode_def split: if_splits option.splits)

text \<open>The commits between \<open>p\<close> and the settled ancestor, the oldest first.\<close>

inductive ancestry :: "ext \<Rightarrow> BRC20ModuleIndexer \<Rightarrow> BRC20ModuleSwapInfo \<Rightarrow> string \<Rightarrow> string list \<Rightarrow> bool"
  for e :: ext and g :: BRC20ModuleIndexer and m :: BRC20ModuleSwapInfo where
  settled: "p = '''' \<or> p \<in> m_CommitIdMap m \<Longrightarrow> ancestry e g m p []"
| parent: "next_parent e g m p = Some q \<Longrightarrow> ancestry e g m q ps \<Longrightarrow> ancestry e g m p (ps @ [p])"

text \<open>
  C13. The loop over the parents ends when the parents of the known commits decrease in some rank,
  that is when they form no cycle: it then returns, and a list it returns is the ancestry of the
  commit back to a settled one, the oldest first.
\<close>

theorem commit_parents_terminates:
  fixes rank :: "string \<Rightarrow> nat"
  assumes "\<forall>p q. next_parent e g m p = Some q \<longrightarrow> rank q < rank p" and "bodies_decode e g"
  shows "\<exists>r. commit_parents e g m p [] = Some r \<and> (\<forall>l. r = Inr l \<longrightarrow> ancestry e g m p l)"
proof -
  have "\<exists>r. commit_parents e g m p ids = Some r \<and> (\<forall>l. r = Inr l \<longrightarrow> (\<exists>ps. l = ps @ ids \<and> ancestry e g m p ps))" for p ids
  proof (induction "rank p" arbitrary: p ids rule: less_induct)
    case less
    show ?case
    proof (cases "next_parent e g m p")
      case None
      from commit_parents_last [OF this assms(2)] show ?thesis by (fastforce intro: ancestry.settled)
    next
      case (Some q)
      from less [of q "p # ids"] Some assms(1) obtain r where r: "commit_parents e g m q (p # ids) = Some r"
        "\<forall>l. r = Inr l \<longrightarrow> (\<exists>ps. l = ps @ p # ids \<and> ancestry e g m q ps)" by blast
      have "\<exists>ps. l = ps @ ids \<and> ancestry e g m p ps" if "r = Inr l" for l
        using r(2) that ancestry.parent [OF Some] by (metis append.assoc append_Cons append_Nil)
      with r(1) commit_parents_next [OF Some] show ?thesis by auto
    qed
  qed
  from this [of p "[]"] show ?thesis by auto
qed

definition pending_commit :: BRC20ModuleIndexer where
  "pending_commit = zero_indexer\<lparr>g_InscriptionsValidCommitMapById := [commit_id \<mapsto> swap_event False CHR ''8'' ''k8'' CHR 0x0a ''alice'']\<rparr>"

lemma pending_parent: "GetCommitParentFromData swap_env (swap_event False CHR ''8'' ''k8'' CHR 0x0a ''alice'') = Some (Some '''')"
  by code_simp

lemma pending_next: "next_parent swap_env pending_commit m p = Some q \<Longrightarrow> p = commit_id \<and> q = ''''"
  by (auto simp: next_parent_def pending_commit_def pending_parent split: if_splits)

theorem commit_parents_terminates_witness:
  "\<exists>r. commit_parents swap_env pending_commit pool_module commit_id [] = Some r \<and>
     (\<forall>l. r = Inr l \<longrightarrow> ancestry swap_env pending_commit pool_module commit_id l)"
proof (rule commit_parents_terminates [where rank = length])
  show "\<forall>p q. next_parent swap_env pending_commit pool_module p = Some q \<longrightarrow> length q < length p"
    by (auto dest!: pending_next simp: commit_id_def)
  show "bodies_decode swap_env pending_commit"
    by (auto simp: bodies_decode_def pending_commit_def pending_parent split: if_splits)
qed

lemma commit_parents_no_cycle:
  assumes "commit_parents e g m p ids = Some r"
  shows "(p, p) \<notin> {(x, y). next_parent e g m x = Some y}\<^sup>+"
proof (rule commit_parents.raw_induct [where P = "\<lambda>e g m p ids r. (p, p) \<notin> {(x, y). next_parent e g m x = Some y}\<^sup>+", OF _ assms])
  fix self e g m p ids r
  assume IH: "\<And>e g m p ids r. self e g m p ids = Some r \<Longrightarrow> (p, p) \<notin> {(x, y). next_parent e g m x = Some y}\<^sup>+"
    and s: "(if p = '''' \<or> p \<in> m_CommitIdMap m then Some (Inr ids)
      else case g_InscriptionsValidCommitMapById g p of
          None \<Rightarrow> Some (Inl (-1, False, ''commit, parent body missing''))
        | Some d \<Rightarrow> (case GetCommitParentFromData e d of
             None \<Rightarrow> None
           | Some None \<Rightarrow> Some (Inl (-1, True, ''commit, parent json invalid''))
           | Some (Some q) \<Rightarrow> self e g m q (p # ids))) = Some r"
  let ?R = "{(x, y). next_parent e g m x = Some y}"
  show "(p, p) \<notin> ?R\<^sup>+"
  proof
    assume "(p, p) \<in> ?R\<^sup>+"
    from tranclD [OF this] obtain q where q: "next_parent e g m p = Some q" "(q, p) \<in> ?R\<^sup>*" by auto
    then have "(q, q) \<in> ?R\<^sup>+" by (auto intro: rtrancl_into_trancl1)
    moreover from q(1) s have "self e g m q (p # ids) = Some r"
      by (auto simp: next_parent_def split: if_splits option.splits)
    ultimately show False using IH by blast
  qed
qed

text \<open>
  C18. On a cycle of parents the loop does not return: when the parent a body names leads back to the
  commit itself, the check of the commit runs forever.
\<close>

theorem commit_parents_cycle:
  assumes "(p, p) \<in> {(x, y). next_parent e g m x = Some y}\<^sup>+"
  shows "commit_parents e g m p ids = None"
  using commit_parents_no_cycle [of e g m p ids] assms by (cases "commit_parents e g m p ids") auto

definition self_parent_env :: ext where
  "self_parent_env = swap_env\<lparr>ext_json_parse := \<lambda>_. Some (commit_json commit_id [])\<rparr>"

lemma self_parent: "GetCommitParentFromData self_parent_env (swap_event False CHR ''8'' ''k8'' CHR 0x0a ''alice'') = Some (Some commit_id)"
  by code_simp

theorem commit_parents_cycle_witness: "commit_parents self_parent_env pending_commit one_user commit_id [] = None"
proof (rule commit_parents_cycle, rule r_into_trancl)
  show "(commit_id, commit_id) \<in> {(x, y). next_parent self_parent_env pending_commit one_user x = Some y}"
    by (simp add: next_parent_def pending_commit_def self_parent one_user_def put_balance_def set_user_balance_def new_module_def
        commit_id_def)
qed

section \<open>Functions that are always refused\<close>

lemma pre_verify_loop_checks:
  assumes "pre_verify_loop e g content prev idx fs = Some None" and "Some f \<in> set fs"
  shows "\<exists>pk. check_function e g (f\<lparr>sf_PkScript := pk\<rparr>) = Some None"
  using assms
proof (induction fs arbitrary: prev idx)
  case (Cons fp fs)
  from Cons.prems(1) obtain h pk prev' where h: "fp = Some h" "check_function e g (h\<lparr>sf_PkScript := pk\<rparr>) = Some None"
      "pre_verify_loop e g content prev' (idx + 1) fs = Some None"
    by (auto simp: Let_def elim!: bind_SomeE split: option.splits prod.splits if_splits)
  with Cons.IH [OF h(3)] Cons.prems(2) show ?case by (cases "Some f \<in> set fs") auto
qed simp

lemma pair_name_no_separator:
  assumes "CHR ''/'' \<notin> set (ToLower e a)" and "CHR ''/'' \<notin> set (ToLower e b)"
  shows "DecodeTokensFromSwapPair (GetLowerInnerPairNameByToken e a b) = None"
proof -
  have "(c # x @ y) ! 4 \<in> set x \<union> set y" if "length (c # x @ y) = 9" for c :: char and x y
    using nth_mem [of 3 "x @ y"] that by simp
  with assms show ?thesis
    by (fastforce simp: DecodeTokensFromSwapPair_def GetLowerInnerPairNameByToken_def Let_def)
qed

text \<open>
  C15. No commit can send LP tokens. The check at the inscription of a commit reads the inner name of
  the pair as if it had a separator: a commit with a \<open>sendLp\<close> of two tickers without a slash is
  always refused.
\<close>

theorem sendlp_refused:
  assumes "Some f \<in> set (cc_Data body)" and "sf_Function f = FUNCTION_SENDLP"
    and "\<forall>t \<in> set (sf_Params f). CHR ''/'' \<notin> set (ToLower e t)"
  shows "ProcessInscribeCommitPreVerify e g body \<noteq> Some None"
proof
  assume "ProcessInscribeCommitPreVerify e g body = Some None"
  then obtain content where "pre_verify_loop e g content (\<lambda>_. []) 0 (cc_Data body) = Some None"
    by (auto simp: ProcessInscribeCommitPreVerify_def Let_def elim!: bind_SomeE split: if_splits option.splits)
  from pre_verify_loop_checks [OF this assms(1)] obtain pk where "check_sendlp e g (f\<lparr>sf_PkScript := pk\<rparr>) = Some None"
    using assms(2) by (auto simp: check_function_def function_names)
  then show False
    using assms(3) pair_name_no_separator [of e "sf_Params f ! 1" "sf_Params f ! 2"]
    by (auto simp: check_sendlp_def param_def split: if_splits)
qed

definition sendlp_body :: "string \<Rightarrow> InscriptionBRC20ModuleSwapCommitContent" where
  "sendlp_body mid = \<lparr>cc_Proto = ''brc20-swap'', cc_Operation = ''commit'', cc_Module = mid, cc_Parent = '''', cc_GasPrice = '''',
     cc_Data = [Some (one_swap\<lparr>sf_Function := FUNCTION_SENDLP, sf_Params := [''bob'', ''ordi'', ''sats'', ''1'']\<rparr>)]\<rparr>"

theorem sendlp_refused_witness: "ProcessInscribeCommitPreVerify swap_env swap_state (sendlp_body swap_module) \<noteq> Some None"
proof (rule sendlp_refused)
  show "Some (one_swap\<lparr>sf_Function := FUNCTION_SENDLP, sf_Params := [''bob'', ''ordi'', ''sats'', ''1'']\<rparr>) \<in> set (cc_Data (sendlp_body swap_module))"
    by (simp add: sendlp_body_def)
qed code_simp+

text \<open>
  C16. Withdraw inscriptions. The table of withdraw inscriptions is not allocated by the
  initialisation, and while it is not, an inscribed withdraw either fails without changing anything
  or panics: none is ever recorded.
\<close>

theorem withdraw_never_recorded:
  assumes "g_InscriptionsWithdrawMap g = g_InscriptionsWithdrawMap (Init zero_indexer)"
  shows "ProcessInscribeWithdraw e g d = None \<or> (\<exists>err. ProcessInscribeWithdraw e g d = Some (Some err, g))"
  using assms
  by (auto simp: ProcessInscribeWithdraw_def Init_def initBRC20_def initModule_def zero_indexer_def Let_def
      split: option.splits sum.splits bind_splits)

text \<open>A withdraw of the deployed token after the withdraw height: it is well formed, and the indexer panics.\<close>

definition withdraw_env :: ext where
  "withdraw_env = swap_env\<lparr>conf_ENABLE_SWAP_WITHDRAW_HEIGHT := 0, ext_json_parse := \<lambda>_.
     Some (JObj [(''p'', JStr ''brc20-swap''), (''op'', JStr ''withdraw''), (''module'', JStr swap_module), (''tick'', JStr ''ordi''), (''amt'', JStr ''1'')])\<rparr>"

definition withdraw_state :: BRC20ModuleIndexer where
  "withdraw_state = set_module two_tokens swap_module pool_module"

lemma withdraw_when_allocated:
  "map_option fst (ProcessInscribeWithdraw withdraw_env (withdraw_state\<lparr>g_InscriptionsWithdrawMap := Some Map.empty\<rparr>) (hd swap_events)) = Some None"
  by code_simp

lemma withdraw_panics: "ProcessInscribeWithdraw withdraw_env withdraw_state (hd swap_events) = None"
  by code_simp

theorem withdraw_never_recorded_witness:
  "ProcessInscribeWithdraw withdraw_env withdraw_state (hd swap_events) = None \<or>
   (\<exists>err. ProcessInscribeWithdraw withdraw_env withdraw_state (hd swap_events) = Some (Some err, withdraw_state))"
proof (rule withdraw_never_recorded)
  have "map_option (\<lambda>_. ()) (g_InscriptionsWithdrawMap withdraw_state) = None" by code_simp
  then show "g_InscriptionsWithdrawMap withdraw_state = g_InscriptionsWithdrawMap (Init zero_indexer)"
    by (simp add: Init_def initBRC20_def initModule_def zero_indexer_def)
qed

section \<open>Pools after the withdraw height\<close>

lemma commit_verify_loop_runs:
  assumes "commit_verify_loop e g cid rs xs gp sizes n idx fs m = Some (None, m')" and "Some f \<in> set fs"
  shows "\<exists>pk m1 m2. commit_function e g m1 (f\<lparr>sf_PkScript := pk\<rparr>) = Some (None, m2)"
  using assms
proof (induction fs arbitrary: idx m)
  case (Cons fp fs)
  from Cons.prems(1) obtain h pk m1 m2 where h: "fp = Some h" "commit_step e g gp (sizes ! idx) (h\<lparr>sf_PkScript := pk\<rparr>) m = Some (None, m1)"
      "commit_verify_loop e g cid rs xs gp sizes n (idx + 1) fs m2 = Some (None, m')"
    by (auto simp: Let_def elim!: bind_SomeE split: option.splits prod.splits)
  show ?case
  proof (cases "Some f \<in> set fs")
    case True
    from Cons.IH [OF h(3) this] show ?thesis .
  next
    case False
    with Cons.prems(2) h(1) have "f = h" by simp
    with h(2) show ?thesis by (fastforce simp: commit_step_def elim!: bind_SomeE split: option.splits)
  qed
qed simp

lemma pool_function_needs_pair:
  assumes "commit_function e g m f = Some (None, m')" and "sf_Function f \<in> {FUNCTION_ADD_LIQ, FUNCTION_REMOVE_LIQ, FUNCTION_SWAP}"
    and "g_BestHeight g < conf_ENABLE_SWAP_WITHDRAW_HEIGHT e"
  shows "length (hd (sf_Params f)) = 9"
proof -
  obtain ts where "pool_tokens e g f = Some (Some ts)"
    using assms(1,2)
    by (auto simp: commit_function_def function_names ProcessCommitFunctionAddLiquidity_def ProcessCommitFunctionRemoveLiquidity_def
        ProcessCommitFunctionSwap_def elim!: bind_SomeE split: option.splits)
  with assms(3) show ?thesis
    by (cases "sf_Params f") (auto simp: pool_tokens_def param_def DecodeTokensFromSwapPair_def split: if_splits)
qed

text \<open>
  C14. After the withdraw height the functions of pools name the two tickers in two parameters, but the
  copy a commit is verified on has the height 0 and still reads the pair from the first one. So a
  commit with an \<open>addLiq\<close>, \<open>removeLiq\<close> or \<open>swap\<close> whose first parameter is not a pair of nine
  characters is never executed, at any height.
\<close>

theorem pool_functions_refused:
  assumes "Some f \<in> set (cc_Data body)" and "sf_Function f \<in> {FUNCTION_ADD_LIQ, FUNCTION_REMOVE_LIQ, FUNCTION_SWAP}"
    and "length (hd (sf_Params f)) \<noteq> 9" and "0 < conf_ENABLE_SWAP_WITHDRAW_HEIGHT e"
  shows "commit_execute e xr g cid body sizes \<noteq> Some (None, g')"
proof
  assume "commit_execute e xr g cid body sizes = Some (None, g')"
  then obtain us ts h where "ProcessCommitVerify e xr (CherryPick e g (cc_Module body) us ts) cid body sizes [] = Some (None, h)"
    by (auto simp: commit_execute_def elim!: bind_SomeE split: option.splits)
  then obtain gp n m m' where "commit_verify_loop e (CherryPick e g (cc_Module body) us ts) cid [] xr gp sizes n 0 (cc_Data body) m = Some (None, m')"
    by (auto simp: ProcessCommitVerify_def elim!: bind_SomeE split: option.splits if_splits)
  from commit_verify_loop_runs [OF this assms(1)] obtain pk m1 m2 where
      "commit_function e (CherryPick e g (cc_Module body) us ts) m1 (f\<lparr>sf_PkScript := pk\<rparr>) = Some (None, m2)" by blast
  from pool_function_needs_pair [OF this] assms(2-4) show False by simp
qed

definition late_swap_body :: InscriptionBRC20ModuleSwapCommitContent where
  "late_swap_body = (sendlp_body swap_module)\<lparr>cc_Parent := commit_id,
     cc_Data := [Some (one_swap\<lparr>sf_Params := [''ordi'', ''sats'', ''ordi'', ''100'', ''exactIn'', ''180'', ''0.005'']\<rparr>)]\<rparr>"

theorem pool_functions_refused_witness:
  "\<forall>g'. commit_execute swap_env None (swap_state\<lparr>g_BestHeight := 200\<rparr>) ''c2'' late_swap_body [50] \<noteq> Some (None, g')"
proof
  fix g'
  show "commit_execute swap_env None (swap_state\<lparr>g_BestHeight := 200\<rparr>) ''c2'' late_swap_body [50] \<noteq> Some (None, g')"
  proof (rule pool_functions_refused)
    show "Some (one_swap\<lparr>sf_Params := [''ordi'', ''sats'', ''ordi'', ''100'', ''exactIn'', ''180'', ''0.005'']\<rparr>) \<in> set (cc_Data late_swap_body)"
      by (simp add: late_swap_body_def)
  qed code_simp+
qed

section \<open>Amounts that are not checked\<close>

text \<open>The balance of a user that swaps can pay with, and a module in which it is another amount.\<close>

definition swap_account :: "ext \<Rightarrow> BRC20ModuleSwapInfo \<Rightarrow> string \<Rightarrow> string \<Rightarrow> decp" where
  "swap_account e m tick pk = mb_SwapAccountBalance (the_balance e m tick pk)"

definition with_swap_account :: "ext \<Rightarrow> BRC20ModuleSwapInfo \<Rightarrow> string \<Rightarrow> string \<Rightarrow> int \<Rightarrow> BRC20ModuleSwapInfo" where
  "with_swap_account e m tick pk v =
     upd_user e tick pk (\<lambda>b. b\<lparr>mb_SwapAccountBalance := map_option (\<lambda>d. d\<lparr>Val := v\<rparr>) (mb_SwapAccountBalance b)\<rparr>) m"

lemma swap_account_upd_user:
  "swap_account e (upd_user e t' u' f m) t u =
     (if ToLower e t = ToLower e t' \<and> u = u' then mb_SwapAccountBalance (f (the_balance e m t' u')) else swap_account e m t u)"
  by (auto simp: swap_account_def upd_user_def put_balance_def the_balance_def)

lemma swap_account_same_key: "ToLower e t = ToLower e t' \<Longrightarrow> swap_account e m t u = swap_account e m t' u"
  by (auto simp: swap_account_def the_balance_def new_module_balance_def split: option.splits)

lemma swap_account_frame [simp]:
  "swap_account e (Module_GetUserTokenBalance e m t' u') t u = swap_account e m t u"
  "swap_account e (set_pool m pair p) t u = swap_account e m t u"
  "swap_account e (touch_user e g t' u' m) t u = swap_account e m t u"
  subgoal
    by (auto simp: swap_account_def the_balance_def Module_GetUserTokenBalance_def new_module_balance_def Let_def user_balance_def
        set_user_balance_def split: option.splits)
  subgoal by (simp add: swap_account_def the_balance_def set_pool_def user_balance_def)
  subgoal using swap_account_same_key [of e t t' m u']
    by (simp add: touch_user_def swap_account_upd_user) (simp add: swap_account_def)
  done

lemma Decimal_Sub_Some:
  "Decimal_Sub (Some d) a = Some x \<longleftrightarrow> (a = None \<or> map_option Precition a = Some (Precition d)) \<and> x = Some (d\<lparr>Val := Val d - decval a\<rparr>)"
  by (cases d; cases a) (auto simp: Decimal_Sub_def)

lemma Decimal_Add_Some:
  "Decimal_Add (Some d) a = Some x \<longleftrightarrow> (a = None \<or> map_option Precition a = Some (Precition d)) \<and> x = Some (d\<lparr>Val := Val d + decval a\<rparr>)"
  by (cases d; cases a) (auto simp: Decimal_Add_def)

lemma Decimal_Cmp_Some:
  "(\<exists>c. Decimal_Cmp (Some d) a = Some c \<and> 0 \<le> c) \<longleftrightarrow> (a = None \<or> map_option Precition a = Some (Precition d)) \<and> decval a \<le> Val d"
  by (cases a) (auto simp: Decimal_Cmp_def int_cmp_def sgn_if)

text \<open>What a swap with known amounts checks and does, as conditions on the balances before it.\<close>

lemma swap_apply_succeeds:
  "swap_apply e g m f pair pool tin tout i j tamt a b = Some (None, m') \<Longrightarrow>
    \<exists>r0 r1 x y. (\<exists>c. Decimal_Cmp (pool_balance pool j) b = Some c \<and> 0 \<le> c) \<and>
       (\<exists>c. Decimal_Cmp (swap_account e m tin (sf_PkScript f)) tamt = Some c \<and> 0 \<le> c) \<and>
       Decimal_Sub (pool_balance pool j) b = Some r0 \<and> Decimal_Add (pool_balance (set_pool_balance pool j r0) i) a = Some r1 \<and>
       Decimal_Sub (swap_account e m tin (sf_PkScript f)) a = Some x \<and>
       Decimal_Add (if ToLower e tout = ToLower e tin then x else swap_account e m tout (sf_PkScript f)) b = Some y \<and>
       swap_account e m' tin (sf_PkScript f) = (if ToLower e tout = ToLower e tin then y else x)"
  by (auto simp: swap_apply_def swap_debit_def swap_credit_def Let_def swap_account_def [symmetric] swap_account_upd_user
      elim!: bind_SomeE split: if_splits)

lemma swap_apply_intro:
  assumes "Decimal_Cmp (pool_balance pool j) b = Some c" "0 \<le> c" "Decimal_Cmp (swap_account e m tin (sf_PkScript f)) tamt = Some c'" "0 \<le> c'"
    and "Decimal_Sub (pool_balance pool j) b = Some r0" "Decimal_Add (pool_balance (set_pool_balance pool j r0) i) a = Some r1"
    and "Decimal_Sub (swap_account e m tin (sf_PkScript f)) a = Some x"
    and "Decimal_Add (if ToLower e tout = ToLower e tin then x else swap_account e m tout (sf_PkScript f)) b = Some y"
  shows "\<exists>m'. swap_apply e g m f pair pool tin tout i j tamt a b = Some (None, m') \<and>
    swap_account e m' tin (sf_PkScript f) = (if ToLower e tout = ToLower e tin then y else x)"
  using assms
  by (cases "ToLower e tout = ToLower e tin")
    (simp_all add: swap_apply_def swap_debit_def swap_credit_def Let_def swap_account_def [symmetric] swap_account_upd_user not_less)

lemma with_swap_account:
  assumes "swap_account e m tick pk = Some d"
  shows "swap_account e (with_swap_account e m tick pk v) t u =
    (if ToLower e t = ToLower e tick \<and> u = pk then Some (d\<lparr>Val := v\<rparr>) else swap_account e m t u)"
  using assms unfolding with_swap_account_def swap_account_upd_user by (simp add: swap_account_def)

lemma with_swap_account_frame [simp]:
  "m_SwapPoolTotalBalanceDataMap (with_swap_account e m tick pk v) = m_SwapPoolTotalBalanceDataMap m"
  "m_FeeRateSwap (with_swap_account e m tick pk v) = m_FeeRateSwap m"
  by (simp_all add: with_swap_account_def upd_user_def put_balance_def set_user_balance_def)

text \<open>The price of a swap does not depend on the balance of its user, and the balance is checked against the named amount alone.\<close>

lemma swap_apply_other_balance:
  assumes ap: "swap_apply e g m f pair pool tin tout i j tamt a b = Some (None, m')"
    and d: "swap_account e m tin (sf_PkScript f) = Some d" and v: "decval tamt \<le> v"
  shows "\<exists>m''. swap_apply e g (with_swap_account e m tin (sf_PkScript f) v) f pair pool tin tout i j tamt a b = Some (None, m'') \<and>
    decval (swap_account e m'' tin (sf_PkScript f)) = v - (Val d - decval (swap_account e m' tin (sf_PkScript f)))"
proof -
  let ?w = "with_swap_account e m tin (sf_PkScript f) v" and ?s = "ToLower e tout = ToLower e tin"
  from swap_apply_succeeds [OF ap] obtain r0 r1 x y c where
    pool: "Decimal_Cmp (pool_balance pool j) b = Some c" "0 \<le> c" "Decimal_Sub (pool_balance pool j) b = Some r0"
      "Decimal_Add (pool_balance (set_pool_balance pool j r0) i) a = Some r1"
    and cmp: "\<exists>c. Decimal_Cmp (Some d) tamt = Some c \<and> 0 \<le> c"
    and x: "Decimal_Sub (Some d) a = Some x"
    and y: "Decimal_Add (if ?s then x else swap_account e m tout (sf_PkScript f)) b = Some y"
    and m': "swap_account e m' tin (sf_PkScript f) = (if ?s then y else x)"
    unfolding d by blast
  let ?d = "d\<lparr>Val := v\<rparr>"
  let ?x = "Some (?d\<lparr>Val := v - decval a\<rparr>)"
  obtain c' where c': "Decimal_Cmp (Some ?d) tamt = Some c'" "0 \<le> c'"
    using cmp v Decimal_Cmp_Some [of ?d tamt] Decimal_Cmp_Some [of d tamt] by auto
  have x': "Decimal_Sub (Some ?d) a = Some ?x" using x by (simp add: Decimal_Sub_Some)
  obtain y' where y': "Decimal_Add (if ?s then ?x else swap_account e m tout (sf_PkScript f)) b = Some y'"
    "decval (if ?s then y' else ?x) = v - (Val d - decval (if ?s then y else x))"
    using x y by (cases ?s) (auto simp: Decimal_Sub_Some Decimal_Add_Some)
  have w: "swap_account e ?w tin (sf_PkScript f) = Some ?d"
    "\<not> ?s \<Longrightarrow> swap_account e ?w tout (sf_PkScript f) = swap_account e m tout (sf_PkScript f)"
    using with_swap_account [OF d] by simp_all
  have "Decimal_Add (if ?s then ?x else swap_account e ?w tout (sf_PkScript f)) b = Some y'" using y'(1) w(2) by auto
  from swap_apply_intro [OF pool(1,2) _ c'(2) pool(3,4) _ this, of tamt] c'(1) x' y'(2) m' show ?thesis unfolding w(1) by fastforce
qed

text \<open>
  C17. An exact output is not paid for with what its user has. The balance is compared with the amount the
  user named as the price, and the computed price is debited. So take any \<open>exactOut\<close> swap that succeeds; its
  price is what the balance of the user loses. With any balance \<open>v\<close> that covers the named amount but not the
  price, the same swap in the same module succeeds too and leaves the user with the negative balance
  \<open>v\<close> minus the price.
\<close>

theorem exact_out_overdraws:
  assumes "ProcessCommitFunctionSwap e g m f = Some (None, m')"
    and "pool_tokens e g f = Some (Some (token0, token1))"
    and "swap_direction f (param_offset e g) token0 token1 = Some (''exactOut'', tokenIn, named, tokenOut, wanted)"
    and "CheckTickVerify e g tokenIn named = Some i"
    and "swap_account e m tokenIn (sf_PkScript f) = Some d"
    and "price = Val d - decval (swap_account e m' tokenIn (sf_PkScript f))"
    and "decval (amt_of i) \<le> v" and "v < price"
  shows "\<exists>m''. ProcessCommitFunctionSwap e g (with_swap_account e m tokenIn (sf_PkScript f) v) f = Some (None, m'') \<and>
    decval (swap_account e m'' tokenIn (sf_PkScript f)) = v - price \<and> v - price < 0"
proof -
  obtain pool a b where
    s: "ProcessCommitFunctionSwap e g n f = swap_apply e g n f (GetLowerInnerPairNameByToken e token0 token1) pool tokenIn tokenOut
       (fst (token_indexes tokenIn pool)) (snd (token_indexes tokenIn pool)) (amt_of i) a b"
      if "m_SwapPoolTotalBalanceDataMap n = m_SwapPoolTotalBalanceDataMap m" "m_FeeRateSwap n = m_FeeRateSwap m" for n
    using assms(1-4) unfolding ProcessCommitFunctionSwap_def
    by (auto simp: Let_def split_beta elim!: bind_SomeE split: option.splits if_splits)
  from swap_apply_other_balance [OF assms(1) [unfolded s [OF refl refl]] assms(5,7)] assms(6,8) show ?thesis by (simp add: s)
qed

definition exact_out :: SwapFunctionData where
  "exact_out = one_swap\<lparr>sf_Params := [''ordi/sats'', ''sats'', ''1000'', ''exactOut'', ''1'', ''0'']\<rparr>"

theorem exact_out_overdraws_witness:
  "\<exists>m''. ProcessCommitFunctionSwap swap_env two_tokens (with_swap_account swap_env pool_module ''ordi'' ''alice'' 1) exact_out = Some (None, m'') \<and>
    decval (swap_account swap_env m'' ''ordi'' ''alice'') = - 668"
proof -
  have "map_option (\<lambda>(r, m). (r, decval (swap_account swap_env m ''ordi'' ''alice'')))
      (ProcessCommitFunctionSwap swap_env two_tokens pool_module exact_out) = Some (None, - 169)" by code_simp
  then obtain m' where m': "ProcessCommitFunctionSwap swap_env two_tokens pool_module exact_out = Some (None, m')"
    "decval (swap_account swap_env m' ''ordi'' ''alice'') = - 169" by auto
  have tok: "pool_tokens swap_env two_tokens exact_out = Some (Some (''ordi'', ''sats''))" by code_simp
  have dir: "swap_direction exact_out (param_offset swap_env two_tokens) ''ordi'' ''sats'' = Some (''exactOut'', ''ordi'', ''1'', ''sats'', ''1000'')"
    by code_simp
  have i: "CheckTickVerify swap_env two_tokens ''ordi'' ''1'' = Some (Some (units 1))" by code_simp
  have acc: "swap_account swap_env pool_module ''ordi'' ''alice'' = Some \<lparr>Precition = 0, Val = 500\<rparr>" by code_simp
  have pk: "sf_PkScript exact_out = ''alice''" by (simp add: exact_out_def one_swap_def)
  from exact_out_overdraws [OF m'(1) tok dir i acc [folded pk], of 669 1] m'(2) show ?thesis by (auto simp: pk amt_of_def units_def)
qed

definition swap_balance :: "string \<Rightarrow> string \<Rightarrow> BRC20ModuleSwapInfo \<Rightarrow> int" where
  "swap_balance tick pk m = decval (swap_account swap_env m tick pk)"

text \<open>
  A fee rate above 1 is accepted by the creation of a module, and the price of an exact output is then
  negative: the buyer is paid by the pool.
\<close>

lemma fee_above_one_pays:
  "map_option (\<lambda>(r, m). (r, swap_balance ''ordi'' ''alice'' m, swap_balance ''sats'' ''alice'' m))
     (ProcessCommitFunctionSwap swap_env two_tokens (pool_module\<lparr>m_FeeRateSwap := ''1.5''\<rparr>) exact_out) = Some (None, 1832, 1000)"
  by code_simp

text \<open>
  A ticker in another letter case finds the pool but not its side: the amounts are added to the
  reserves of the other token.
\<close>

definition wrong_case :: SwapFunctionData where
  "wrong_case = one_swap\<lparr>sf_Function := FUNCTION_ADD_LIQ, sf_Params := [''ORDI/sats'', ''10'', ''10'', ''0'', ''0'']\<rparr>"

definition rich_module :: BRC20ModuleSwapInfo where
  "rich_module = put_balance swap_env (pool_module\<lparr>m_LPTokenUsersBalanceMap := [pool_name \<mapsto> Map.empty]\<rparr>) ''sats'' ''alice''
     ((new_module_balance ''sats'' ''alice'')\<lparr>mb_SwapAccountBalance := units 500\<rparr>)"

lemma wrong_case_mixes:
  "map_option (\<lambda>(r, m). (r, swap_balance ''ordi'' ''alice'' m, swap_balance ''sats'' ''alice'' m,
       map_option (\<lambda>p. (decval (pl_TickBalance0 p), decval (pl_TickBalance1 p))) (m_SwapPoolTotalBalanceDataMap m pool_name)))
     (ProcessCommitFunctionAddLiquidity swap_env two_tokens rich_module wrong_case) = Some (None, 490, 495, Some (2005, 4010))"
  by code_simp

end
