(* ===== verification/Loader.thy ===== *)
theory Loader
  imports Indexer_Loop
begin

text \<open>
  The sources of inscription events (\<open>loader/\<close>): the dump of events and its two readers
  (\<open>dump.go\<close>, \<open>load_from_data.go\<close>, \<open>load_from_json.go\<close>), the log of the ord indexer
  (\<open>load_from_log.go\<close>) and the rows of its database (\<open>load_input_from_db.go\<close>).

  A file is its content, \<open>None\<close> when it cannot be opened; the events a loader has put into its channel
  are a list. An error is a text that names the failing step. The database is a function that answers
  the query, and a row that cannot be scanned is \<open>None\<close>.
\<close>

section \<open>Packages strconv, strings and bufio\<close>

definition go_newline :: char where "go_newline = CHR 0x0a"

text \<open>\<open>strconv.ParseUint(s, 10, bits)\<close>.\<close>

definition parse_uint :: "nat \<Rightarrow> string \<Rightarrow> nat option" where
  "parse_uint bits s =
     (if s = [] \<or> \<not> list_all is_digit s then None
      else if int (digits_val s) < 2 ^ bits then Some (digits_val s) else None)"

text \<open>
  \<open>strconv.ParseInt(s, 10, 64)\<close> and \<open>strconv.Atoi\<close>: the value, which is 0 after a syntax error and the
  nearest bound after a range error, and whether there is no error.
\<close>

definition atoi :: "string \<Rightarrow> int \<times> bool" where
  "atoi s =
     (case big_SetString s of
        None \<Rightarrow> (0, False)
      | Some v \<Rightarrow> if v < - (2 ^ 63) then (- (2 ^ 63), False) else if 2 ^ 63 \<le> v then (2 ^ 63 - 1, False) else (v, True))"

definition parse_int :: "string \<Rightarrow> int option" where
  "parse_int s = (case atoi s of (v, ok) \<Rightarrow> if ok then Some v else None)"

definition parse_bool :: "string \<Rightarrow> bool option" where
  "parse_bool s =
     (if s \<in> {''1'', ''t'', ''T'', ''TRUE'', ''true'', ''True''} then Some True
      else if s \<in> {''0'', ''f'', ''F'', ''FALSE'', ''false'', ''False''} then Some False else None)"

text \<open>The verb \<open>%d\<close> on an integer.\<close>

definition go_itoa :: "int \<Rightarrow> string" where
  "go_itoa v = (if v < 0 then CHR ''-'' # nat_string (nat (- v)) else nat_string (nat v))"

text \<open>\<open>strings.Contains\<close>, and \<open>strings.SplitN\<close> for a separator of one byte and \<open>n > 0\<close>.\<close>

definition go_contains :: "string \<Rightarrow> string \<Rightarrow> bool" where
  "go_contains s sub = list_ex (prefix sub) (suffixes s)"

fun go_splitN :: "char \<Rightarrow> nat \<Rightarrow> string \<Rightarrow> string list" where
  "go_splitN sep n [] = [[]]"
| "go_splitN sep n (c # cs) =
     (if n \<le> 1 then [c # cs]
      else if c = sep then [] # go_splitN sep (n - 1) cs
      else case go_splitN sep n cs of [] \<Rightarrow> [[c]] | p # ps \<Rightarrow> (c # p) # ps)"

text \<open>
  \<open>bufio.Scanner\<close> with \<open>ScanLines\<close> and a buffer of \<open>limit\<close> bytes: the lines without their line end,
  and whether a line that does not fit stops the scan with an error.
\<close>

definition drop_cr :: "string \<Rightarrow> string" where
  "drop_cr s = (if s \<noteq> [] \<and> last s = CHR 0x0d then butlast s else s)"

definition raw_lines :: "string \<Rightarrow> string list" where
  "raw_lines s = (let ls = go_split go_newline s in if last ls = [] then butlast ls else ls)"

definition scan_lines :: "int \<Rightarrow> string \<Rightarrow> string list \<times> bool" where
  "scan_lines limit s =
     (let fits = (\<lambda>l. int (length l) < limit) in
      (map drop_cr (takeWhile fits (raw_lines s)), \<not> list_all fits (raw_lines s)))"

definition zero_event :: InscriptionBRC20Data where
  "zero_event = \<lparr>d_IsTransfer = False, d_TxId = '''', d_Idx = 0, d_Vout = 0, d_Offset = 0, d_Satoshi = 0, d_PkScript = '''',
     d_Fee = 0, d_InscriptionNumber = 0, d_Parent = '''', d_ContentBody = '''', d_CreateIdxKey = '''', d_Height = 0, d_TxIdx = 0,
     d_BlockTime = 0, d_Sequence = 0, d_InscriptionId = ''''\<rparr>"

section \<open>The dump of events\<close>

definition dump_event :: "(string \<Rightarrow> string option) \<Rightarrow> bool \<Rightarrow> InscriptionBRC20Data \<Rightarrow> string" where
  "dump_event address_of hexBody data =
     (let body = (if hexBody then hex_encode (d_ContentBody data)
                  else map (\<lambda>c. if c = go_newline then CHR '' '' else c) (d_ContentBody data));
          address = (if hexBody then hex_encode (d_PkScript data)
                     else case address_of (d_PkScript data) of Some a \<Rightarrow> a | None \<Rightarrow> hex_encode (d_PkScript data))
      in go_join
           [nat_string (unat (d_Sequence data)), HashString (d_TxId data), nat_string (unat (d_Idx data)),
            nat_string (unat (d_Vout data)), nat_string (unat (d_Offset data)), nat_string (unat (d_Satoshi data)), address,
            go_itoa (sint (d_InscriptionNumber data)), body, d_CreateIdxKey data, nat_string (unat (d_Height data)),
            nat_string (unat (d_TxIdx data)), nat_string (unat (d_BlockTime data))] '' '')"

definition DumpBRC20InputData :: "(string \<Rightarrow> string option) \<Rightarrow> bool \<Rightarrow> InscriptionBRC20Data list \<Rightarrow> string" where
  "DumpBRC20InputData address_of hexBody brc20Datas =
     concat (map (\<lambda>data. dump_event address_of hexBody data @ [go_newline]) brc20Datas)"

section \<open>The readers of the dump\<close>

text \<open>\<open>x, err := parse; if err != nil { return err }\<close>.\<close>

definition or_fail :: "'a option \<Rightarrow> string \<Rightarrow> ('a \<Rightarrow> string + 'b) \<Rightarrow> string + 'b" where
  "or_fail r err k = (case r of None \<Rightarrow> Inl err | Some x \<Rightarrow> k x)"

text \<open>The fields 1 to 7 and 9 to 12, which the two readers parse in the same way.\<close>

definition parse_front ::
    "string list \<Rightarrow> InscriptionBRC20Data \<Rightarrow> (InscriptionBRC20Data \<Rightarrow> string + InscriptionBRC20Data) \<Rightarrow> string + InscriptionBRC20Data" where
  "parse_front flds data k =
     or_fail (hex_decode (flds ! 1)) ''txid'' (\<lambda>txid.
     or_fail (parse_uint 32 (flds ! 2)) ''idx'' (\<lambda>idx.
     or_fail (parse_uint 32 (flds ! 3)) ''vout'' (\<lambda>vout.
     or_fail (parse_uint 64 (flds ! 4)) ''offset'' (\<lambda>offset.
     or_fail (parse_uint 64 (flds ! 5)) ''satoshi'' (\<lambda>satoshi.
     or_fail (hex_decode (flds ! 6)) ''pkScript'' (\<lambda>pkScript.
     or_fail (parse_int (flds ! 7)) ''inscriptionNumber'' (\<lambda>inscriptionNumber.
     k (data\<lparr>d_TxId := ReverseBytes txid, d_Idx := of_nat idx, d_Vout := of_nat vout, d_Offset := of_nat offset,
         d_Satoshi := of_nat satoshi, d_PkScript := pkScript, d_InscriptionNumber := of_int inscriptionNumber\<rparr>))))))))"

definition parse_back :: "string list \<Rightarrow> InscriptionBRC20Data \<Rightarrow> string + InscriptionBRC20Data" where
  "parse_back flds data =
     or_fail (hex_decode (flds ! 9)) ''createIdxKey'' (\<lambda>createIdxKey.
     or_fail (parse_uint 32 (flds ! 10)) ''height'' (\<lambda>height.
     or_fail (parse_uint 32 (flds ! 11)) ''txIdx'' (\<lambda>txIdx.
     or_fail (parse_uint 32 (flds ! 12)) ''blockTime'' (\<lambda>blockTime.
     Inr (data\<lparr>d_CreateIdxKey := createIdxKey, d_Height := of_nat height, d_TxIdx := of_nat txIdx,
            d_BlockTime := of_nat blockTime\<rparr>)))))"

definition parse_data_line :: "string \<Rightarrow> string + InscriptionBRC20Data" where
  "parse_data_line line =
     (let flds = go_split CHR '' '' line in
      if length flds \<noteq> 13 then Inl ''invalid data format''
      else
        or_fail (parse_uint 16 (flds ! 0)) ''sequence'' (\<lambda>sequence.
        let data = zero_event\<lparr>d_Sequence := of_nat sequence, d_IsTransfer := 0 < (of_nat sequence :: u16)\<rparr> in
        parse_front flds data (\<lambda>data.
        or_fail (hex_decode (flds ! 8)) ''content'' (\<lambda>content.
        parse_back flds (data\<lparr>d_ContentBody := content\<rparr>)))))"

fun load_data_lines :: "string list \<Rightarrow> bool \<Rightarrow> InscriptionBRC20Data list \<times> string option" where
  "load_data_lines [] too_long = ([], if too_long then Some ''token too long'' else None)"
| "load_data_lines (line # lines) too_long =
     (case parse_data_line line of
        Inl err \<Rightarrow> ([], Some err)
      | Inr data \<Rightarrow> (case load_data_lines lines too_long of (ds, err) \<Rightarrow> (data # ds, err)))"

definition LoadBRC20InputData :: "string option \<Rightarrow> InscriptionBRC20Data list \<times> string option" where
  "LoadBRC20InputData file =
     (case file of
        None \<Rightarrow> ([], Some ''open'')
      | Some content \<Rightarrow> (case scan_lines (128 * 1024 * 1024) content of (lines, too_long) \<Rightarrow> load_data_lines lines too_long))"

text \<open>The reader of test data: comments, a boolean in the first field and a plain body.\<close>

definition parse_json_line :: "string \<Rightarrow> string + InscriptionBRC20Data" where
  "parse_json_line line =
     (let flds = go_split CHR '' '' line in
      if length flds \<noteq> 13 then Inl ''invalid data format''
      else
        or_fail (parse_bool (flds ! 0)) ''isTransfer'' (\<lambda>isTransfer.
        parse_front flds (zero_event\<lparr>d_IsTransfer := isTransfer\<rparr>) (\<lambda>data.
        parse_back flds (data\<lparr>d_ContentBody := flds ! 8\<rparr>))))"

fun load_json_lines :: "string list \<Rightarrow> bool \<Rightarrow> InscriptionBRC20Data list \<Rightarrow> string + InscriptionBRC20Data list" where
  "load_json_lines [] too_long brc20Datas = (if too_long then Inl ''token too long'' else Inr brc20Datas)"
| "load_json_lines (line # lines) too_long brc20Datas =
     (if line = '''' \<or> prefix ''#'' line then load_json_lines lines too_long brc20Datas
      else case parse_json_line line of
        Inl err \<Rightarrow> Inl err
      | Inr data \<Rightarrow> load_json_lines lines too_long (brc20Datas @ [data]))"

definition LoadBRC20InputJsonData :: "string option \<Rightarrow> string + InscriptionBRC20Data list" where
  "LoadBRC20InputJsonData file =
     (case file of
        None \<Rightarrow> Inl ''open''
      | Some content \<Rightarrow> (case scan_lines (64 * 1024) content of (lines, too_long) \<Rightarrow> load_json_lines lines too_long []))"

section \<open>The log of the ord indexer\<close>

definition isTextContentType :: "string \<Rightarrow> bool" where
  "isTextContentType contenttype \<longleftrightarrow>
     prefix ''text/plain;'' contenttype \<or> contenttype = ''text/plain'' \<or> contenttype = ''application/json''"

text \<open>The index of an inscription in its transaction, in as many little-endian bytes as it needs.\<close>

definition GetNFTIdForScript :: "string \<Rightarrow> string" where
  "GetNFTIdForScript inscriptionId =
     (let idParts = go_split CHR ''i'' inscriptionId in
      if length idParts \<noteq> 2 then ''''
      else case hex_decode (idParts ! 0) of
        None \<Rightarrow> ''''
      | Some txidBin \<Rightarrow>
          let txid = ReverseBytes txidBin in
          (case atoi (idParts ! 1) of
             (idx, ok) \<Rightarrow>
               if \<not> ok then ''''
               else if idx = 0 then txid
               else
                 let n = le_bytes 4 (unat (of_int idx :: u32)) in
                 if idx < 256 then txid @ take 1 n
                 else if idx < 65536 then txid @ take 2 n
                 else if idx < 16777216 then txid @ take 3 n
                 else txid @ n))"

record log_state =
  l_id2number :: "string \<rightharpoonup> int"
  l_id2content :: "string \<rightharpoonup> string"
  l_id2parent :: "string \<rightharpoonup> string"
  l_blocktime :: int

definition log_start :: log_state where
  "log_start = \<lparr>l_id2number = Map.empty, l_id2content = Map.empty, l_id2parent = Map.empty, l_blocktime = 0\<rparr>"

text \<open>How the body of the loop ends: with the next line, with \<open>break\<close> or with \<open>return err\<close>.\<close>

datatype flow = Continue | Break | Return string

type_synonym log_turn = "log_state \<times> InscriptionBRC20Data option \<times> flow"

definition at :: "'a list \<Rightarrow> nat \<Rightarrow> 'a option" where
  "at xs i = (if i < length xs then Some (xs ! i) else None)"

definition log_skip :: "log_state \<Rightarrow> log_turn option" where "log_skip s = Some (s, None, Continue)"

definition log_block_start :: "log_state \<Rightarrow> string \<Rightarrow> log_turn option" where
  "log_block_start s line =
     (let flds = go_split CHR '';'' line;
          s = s\<lparr>l_id2number := Map.empty, l_id2content := Map.empty, l_id2parent := Map.empty\<rparr>
      in if length flds \<noteq> 4 then log_skip s else log_skip (s\<lparr>l_blocktime := fst (atoi (flds ! 3))\<rparr>))"

definition log_number :: "log_state \<Rightarrow> string \<Rightarrow> log_turn option" where
  "log_number s line =
     (let flds = go_split CHR '';'' line in
      if length flds \<noteq> 8 then log_skip s
      else if flds ! 6 = ''1'' then log_skip s
      else case parse_int (flds ! 4) of
        None \<Rightarrow> log_skip s
      | Some number \<Rightarrow>
          log_skip (s\<lparr>l_id2number := (l_id2number s)(flds ! 5 \<mapsto> number), l_id2parent := (l_id2parent s)(flds ! 5 \<mapsto> flds ! 7)\<rparr>))"

definition log_content :: "log_state \<Rightarrow> string \<Rightarrow> log_turn option" where
  "log_content s line =
     (let flds = go_splitN CHR '';'' 9 line in
      if length flds \<noteq> 9 then log_skip s
      else
        let contentBody = flds ! 8 in
        if length contentBody < 10 then log_skip s
        else if int (length contentBody) > 400 * 1024 * 1024 then log_skip s
        else if flds ! 5 \<noteq> ''true'' then log_skip s
        else case hex_decode (flds ! 6) of
          None \<Rightarrow> log_skip s
        | Some contentType \<Rightarrow>
            if \<not> isTextContentType contentType then log_skip s
            else log_skip (s\<lparr>l_id2content := (l_id2content s)(flds ! 4 \<mapsto> contentBody)\<rparr>))"

text \<open>The height of a line: a line before the range is skipped, one after it ends the loop.\<close>

definition with_height :: "int \<Rightarrow> int \<Rightarrow> log_state \<Rightarrow> string \<Rightarrow> (int \<Rightarrow> log_turn option) \<Rightarrow> log_turn option" where
  "with_height startHeight endHeight s text k =
     (case parse_int text of
        None \<Rightarrow> log_skip s
      | Some height \<Rightarrow>
          if height \<ge> endHeight then Some (s, None, Break)
          else if height < startHeight then log_skip s
          else k height)"

text \<open>The index of an inscription id; an id without the letter \<open>i\<close> is an index out of range.\<close>

definition id_index :: "string \<Rightarrow> int option option" where
  "id_index idStr = do { part \<leftarrow> at (go_split CHR ''i'' idStr) 1; Some (parse_int part) }"

definition log_fee :: "int \<Rightarrow> int \<Rightarrow> log_state \<Rightarrow> string \<Rightarrow> log_turn option" where
  "log_fee startHeight endHeight s line =
     (let flds = go_split CHR '';'' line in
      if length flds \<noteq> 6 then log_skip s
      else with_height startHeight endHeight s (flds ! 1) (\<lambda>height. do {
        r \<leftarrow> id_index (flds ! 4);
        case r of
          None \<Rightarrow> log_skip s
        | Some idx \<Rightarrow>
            (case hex_decode (flds ! 5) of
               None \<Rightarrow> Some (s, None, Return ''txid'')
             | Some txid \<Rightarrow>
                 Some (s, Some (zero_event\<lparr>d_IsTransfer := True, d_TxId := ReverseBytes txid, d_Idx := of_int idx,
                   d_CreateIdxKey := flds ! 4, d_Height := of_int height, d_BlockTime := of_int (l_blocktime s), d_TxIdx := 1,
                   d_Sequence := 1\<rparr>), Continue)) }))"

text \<open>The event of a transfer line once its fields are parsed.\<close>

definition log_event ::
    "log_state \<Rightarrow> string \<Rightarrow> int \<Rightarrow> int \<Rightarrow> int \<Rightarrow> string \<Rightarrow> string \<Rightarrow> int \<Rightarrow> int \<Rightarrow> int \<Rightarrow> log_turn option" where
  "log_event s idStr height sequence satoshi pkScript txid vout offset idx =
     (let number = (case l_id2number s idStr of Some n \<Rightarrow> n | None \<Rightarrow> 0);
          contentBody = (case l_id2content s idStr of Some b \<Rightarrow> b | None \<Rightarrow> '''');
          parent = (if sequence = 0 then (case l_id2parent s idStr of Some p \<Rightarrow> p | None \<Rightarrow> '''') else '''')
      in if sequence = 0 \<and> (contentBody = '''' \<or> number = 0) then log_skip s
         else Some (s, Some \<lparr>d_IsTransfer = sequence > 0, d_TxId = ReverseBytes txid, d_Idx = of_int idx, d_Vout = of_int vout,
           d_Offset = of_int offset, d_Satoshi = of_int satoshi, d_PkScript = pkScript, d_Fee = 0,
           d_InscriptionNumber = of_int number, d_Parent = GetNFTIdForScript parent, d_ContentBody = contentBody,
           d_CreateIdxKey = idStr, d_Height = of_int height, d_TxIdx = 1, d_BlockTime = of_int (l_blocktime s),
           d_Sequence = of_int sequence, d_InscriptionId = ''''\<rparr>, Continue))"

definition log_transfer :: "int \<Rightarrow> int \<Rightarrow> log_state \<Rightarrow> string \<Rightarrow> log_turn option" where
  "log_transfer startHeight endHeight s line =
     (let flds = go_split CHR '';'' line in
      if length flds \<noteq> 11 then log_skip s
      else with_height startHeight endHeight s (flds ! 1) (\<lambda>height.
        case (parse_int (flds ! 10), parse_int (flds ! 9)) of
          (Some txcnt, Some satoshi) \<Rightarrow>
            (case hex_decode (flds ! 8) of
               None \<Rightarrow> Some (s, None, Return ''pkScript'')
             | Some pkScript \<Rightarrow>
                 if flds ! 7 = ''true'' then log_skip s
                 else
                   let newPointParts = go_split CHR '':'' (flds ! 6) in do {
                     hash \<leftarrow> at newPointParts 0;
                     case hex_decode hash of
                       None \<Rightarrow> Some (s, None, Return ''txid'')
                     | Some txid \<Rightarrow> do {
                         part1 \<leftarrow> at newPointParts 1;
                         case parse_int part1 of
                           None \<Rightarrow> log_skip s
                         | Some vout \<Rightarrow> do {
                             part2 \<leftarrow> at newPointParts 2;
                             case parse_int part2 of
                               None \<Rightarrow> log_skip s
                             | Some offset \<Rightarrow> do {
                                 r \<leftarrow> id_index (flds ! 4);
                                 case r of
                                   None \<Rightarrow> log_skip s
                                 | Some idx \<Rightarrow>
                                     log_event s (flds ! 4) height (sint (of_int txcnt - 1 :: i64)) satoshi pkScript txid vout offset idx } } } })
        | _ \<Rightarrow> log_skip s))"

definition log_line :: "int \<Rightarrow> int \<Rightarrow> log_state \<Rightarrow> string \<Rightarrow> log_turn option" where
  "log_line startHeight endHeight s line =
     (let number2IdLen = length ''cmd;825399;insert;number_to_id;'';
          contentLen = length ''cmd;825399;insert;content;'';
          transferLen = length ''cmd;825399;insert;transfer;'';
          sentAsFeeLen = length ''cmd;825399;insert;early_transfer_sent_as_fee;'';
          lineLen = length line in
      if go_contains line '';block_start;'' then log_block_start s line
      else if lineLen > number2IdLen \<and> go_contains (take number2IdLen line) ''number_to_id'' then log_number s line
      else if lineLen > contentLen \<and> go_contains (take contentLen line) ''content'' then log_content s line
      else if lineLen > sentAsFeeLen \<and> go_contains (take sentAsFeeLen line) ''early_transfer_sent_as_fee''
      then log_fee startHeight endHeight s line
      else if lineLen < transferLen \<or> \<not> go_contains (take transferLen line) ''transfer'' then log_skip s
      else log_transfer startHeight endHeight s line)"

fun log_lines :: "int \<Rightarrow> int \<Rightarrow> log_state \<Rightarrow> string list \<Rightarrow> bool \<Rightarrow> (InscriptionBRC20Data list \<times> string option) option" where
  "log_lines startHeight endHeight s [] too_long = Some ([], if too_long then Some ''token too long'' else None)"
| "log_lines startHeight endHeight s (line # lines) too_long =
     do {
       (s, ev, fl) \<leftarrow> log_line startHeight endHeight s line;
       case fl of
         Return err \<Rightarrow> Some ([], Some err)
       | Break \<Rightarrow> Some ([], None)
       | Continue \<Rightarrow> do {
           (evs, err) \<leftarrow> log_lines startHeight endHeight s lines too_long;
           Some ((case ev of None \<Rightarrow> evs | Some d \<Rightarrow> d # evs), err) } }"

definition LoadBRC20InputDataFromOrdLog :: "string option \<Rightarrow> int \<Rightarrow> int \<Rightarrow> (InscriptionBRC20Data list \<times> string option) option" where
  "LoadBRC20InputDataFromOrdLog file startHeight endHeight =
     (case file of
        None \<Rightarrow> Some ([], Some ''open'')
      | Some content \<Rightarrow>
          (case scan_lines (128 * 1024 * 1024) content of
             (lines, too_long) \<Rightarrow> log_lines startHeight endHeight log_start lines too_long))"

section \<open>The database of the ord indexer\<close>

text \<open>One row of the query, with \<open>txcnt\<close> already lowered by 1.\<close>

record ord_row =
  o_block_height :: u32
  o_inscription_id :: string
  o_txcnt :: u32
  o_new_satpoint :: string
  o_sent_as_fee :: bool
  o_sent_as_fee_txid :: "string option"
  o_new_output_value :: i64
  o_new_pkscript :: string
  o_inscription_number :: i64
  o_content :: string
  o_content_type :: string
  o_block_time :: u32

text \<open>The transaction, output, offset and value a row names; the inner \<open>None\<close> is the error.\<close>

definition row_point :: "ord_row \<Rightarrow> (string \<times> nat \<times> nat \<times> i64) option option" where
  "row_point row =
     (if o_sent_as_fee row then do { txid \<leftarrow> o_sent_as_fee_txid row; Some (Some (txid, 0, 0, 0)) }
      else
        let parts = go_split CHR '':'' (o_new_satpoint row) in do {
          txid \<leftarrow> at parts 0; part1 \<leftarrow> at parts 1;
          case parse_uint 64 part1 of
            None \<Rightarrow> Some None
          | Some vout \<Rightarrow> do {
              part2 \<leftarrow> at parts 2;
              Some (case parse_uint 64 part2 of
                  None \<Rightarrow> None
                | Some offset \<Rightarrow> Some (txid, vout, offset, o_new_output_value row)) } })"

text \<open>A row becomes an event, is skipped or ends the batch with an error.\<close>

definition load_row :: "ord_row \<Rightarrow> (string + InscriptionBRC20Data option) option" where
  "load_row row =
     (case hex_decode (o_content_type row) of
        None \<Rightarrow> Some (Inr None)
      | Some contentType \<Rightarrow>
          if \<not> isTextContentType contentType then Some (Inr None)
          else if \<not> isJson (o_content row) then Some (Inr None)
          else do {
            point \<leftarrow> row_point row;
            case point of
              None \<Rightarrow> Some (Inl ''new_satpoint'')
            | Some (txid, vout, offset, new_output_value) \<Rightarrow>
                (case hex_decode (o_new_pkscript row) of
                   None \<Rightarrow> Some (Inl ''new_pkscript'')
                 | Some pkscript \<Rightarrow>
                     (case hex_decode txid of
                        None \<Rightarrow> Some (Inl ''txid'')
                      | Some txidBytes \<Rightarrow> do {
                          r \<leftarrow> id_index (o_inscription_id row);
                          Some (case r of
                              None \<Rightarrow> Inl ''inscription_id''
                            | Some idx \<Rightarrow>
                                Inr (Some \<lparr>d_IsTransfer = 0 < o_txcnt row, d_TxId = ReverseBytes txidBytes, d_Idx = of_int idx,
                                  d_Vout = of_nat vout, d_Offset = of_nat offset, d_Satoshi = new_output_value, d_PkScript = pkscript,
                                  d_Fee = 0, d_InscriptionNumber = o_inscription_number row, d_Parent = '''',
                                  d_ContentBody = o_content row, d_CreateIdxKey = o_inscription_id row,
                                  d_Height = o_block_height row, d_TxIdx = 0, d_BlockTime = o_block_time row,
                                  d_Sequence = ucast (o_txcnt row), d_InscriptionId = o_inscription_id row\<rparr>)) })) })"

fun load_rows :: "ord_row option list \<Rightarrow> (InscriptionBRC20Data list \<times> string option) option" where
  "load_rows [] = Some ([], None)"
| "load_rows (None # rows) = Some ([], Some ''scan'')"
| "load_rows (Some row # rows) =
     do {
       r \<leftarrow> load_row row;
       case r of
         Inl err \<Rightarrow> Some ([], Some err)
       | Inr ev \<Rightarrow> do {
           (datas, err) \<leftarrow> load_rows rows;
           Some ((case ev of None \<Rightarrow> datas | Some d \<Rightarrow> d # datas), err) } }"

type_synonym ord_db = "int \<Rightarrow> nat \<Rightarrow> nat \<Rightarrow> ord_row option list option"

definition loadBRC20InputDataFromDBOnBatch :: "ord_db \<Rightarrow> int \<Rightarrow> nat \<Rightarrow> nat \<Rightarrow> (InscriptionBRC20Data list \<times> string option) option" where
  "loadBRC20InputDataFromDBOnBatch db height queryLimit queryOffset =
     (case db height queryLimit queryOffset of
        None \<Rightarrow> Some ([], Some ''query'')
      | Some rows \<Rightarrow> load_rows rows)"

text \<open>The batches of one height; a panic and a loop that does not end are \<open>None\<close>.\<close>

partial_function (option) db_batches ::
    "ord_db \<Rightarrow> int \<Rightarrow> nat \<Rightarrow> nat \<Rightarrow> InscriptionBRC20Data list \<Rightarrow> (string + InscriptionBRC20Data list) option" where
  "db_batches db height batchLimit offset blkDatas =
     (case loadBRC20InputDataFromDBOnBatch db height batchLimit offset of
        None \<Rightarrow> None
      | Some (datas, Some err) \<Rightarrow> Some (Inl err)
      | Some (datas, None) \<Rightarrow>
          if datas = [] then Some (Inr blkDatas)
          else if length datas < batchLimit then Some (Inr (blkDatas @ datas))
          else db_batches db height batchLimit (offset + batchLimit) (blkDatas @ datas))"

declare db_batches.simps [code]

text \<open>The heights from \<open>height\<close> on, \<open>n\<close> of them; \<open>cancelled\<close> says after which the context is done.\<close>

fun db_heights :: "ord_db \<Rightarrow> (int \<Rightarrow> bool) \<Rightarrow> nat \<Rightarrow> int \<Rightarrow> (InscriptionBRC20Data list \<times> string option) option" where
  "db_heights db cancelled 0 height = Some ([], None)"
| "db_heights db cancelled (Suc n) height =
     do {
       r \<leftarrow> db_batches db height 10240 0 [];
       case r of
         Inl err \<Rightarrow> Some ([], Some err)
       | Inr blkDatas \<Rightarrow>
           if cancelled height then Some (blkDatas, None)
           else do { (datas, err) \<leftarrow> db_heights db cancelled n (height + 1); Some (blkDatas @ datas, err) } }"

definition LoadBRC20InputDataFromDB ::
    "int option \<Rightarrow> ord_db \<Rightarrow> (int \<Rightarrow> bool) \<Rightarrow> int \<Rightarrow> int \<Rightarrow> (InscriptionBRC20Data list \<times> string option) option" where
  "LoadBRC20InputDataFromDB max_height db cancelled startHeight endHeight =
     (case max_height of
        None \<Rightarrow> Some ([], Some ''block_height'')
      | Some metaMaxHeight \<Rightarrow>
          let endHeight = (if endHeight \<le> 0 \<or> metaMaxHeight < endHeight then metaMaxHeight else endHeight)
          in db_heights db cancelled (nat (endHeight - startHeight)) startHeight)"

end
