(* ===== verification/Loader_Props.thy ===== *)
theory Loader_Props
  imports Loader Evaluation
begin

text \<open>
  What the loaders guarantee: the reader of the dump inverts the writer when the keys are written in
  hexadecimal and fails on inscription ids, the parent of a log line is written so that the indexer
  reads it back, events of the log are in the range of heights asked for, and the loop over the
  batches of a block reads the block when no row is filtered.
\<close>

section \<open>Fields of a line\<close>

lemma go_split_append: "go_split sep (s @ sep # t) = go_split sep s @ go_split sep t"
  by (induction s) (auto split: list.splits)

lemma parse_uint_nat_string [simp]: "int n < 2 ^ bits \<Longrightarrow> parse_uint bits (nat_string n) = Some n"
  by (simp add: parse_uint_def)

lemma parse_uint_unat [simp]: "parse_uint LENGTH('a) (nat_string (unat (w :: 'a :: len word))) = Some (unat w)"
proof (rule parse_uint_nat_string)
  have "unat w < 2 ^ LENGTH('a)" by (rule unsigned_less)
  then show "int (unat w) < 2 ^ LENGTH('a)" by (metis of_nat_less_iff of_nat_numeral of_nat_power)
qed

lemmas parse_widths [simp] = parse_uint_unat [where 'a = 16, simplified] parse_uint_unat [where 'a = 32, simplified]
  parse_uint_unat [where 'a = 64, simplified]

lemma big_SetString_go_itoa [simp]: "big_SetString (go_itoa v) = Some v"
  by (simp add: go_itoa_def big_SetString_digits big_SetString_neg)

lemma parse_int_sint [simp]: "parse_int (go_itoa (sint (w :: i64))) = Some (sint w)"
  using sint_ge [of w] sint_lt [of w] by (simp add: parse_int_def atoi_def)

lemma not_digit_in_nat_string: "\<not> is_digit c \<Longrightarrow> c \<notin> set (nat_string n)"
  using nat_string_digits [of n] by (auto simp: list_all_iff)

lemma not_in_go_itoa: "\<not> is_digit c \<Longrightarrow> c \<noteq> CHR ''-'' \<Longrightarrow> c \<notin> set (go_itoa v)"
  by (simp add: go_itoa_def not_digit_in_nat_string)

lemma hex_val_in_hex_encode: "c \<in> set (hex_encode s) \<Longrightarrow> hex_val c \<noteq> None"
  by (auto simp: hex_encode_def)

lemma hex_val_in_HashString: "c \<in> set (HashString s) \<Longrightarrow> hex_val c \<noteq> None"
  by (auto simp: HashString_def dest: hex_val_in_hex_encode split: if_splits) (simp add: hex_val_def)

lemma hex_decode_bad: "c \<in> set s \<Longrightarrow> hex_val c = None \<Longrightarrow> hex_decode s = None"
  by (induction s rule: hex_decode.induct) (auto split: option.splits)

lemma separators [simp]: "\<not> is_digit CHR '' ''" "hex_val CHR '' '' = None" "\<not> is_digit go_newline" "hex_val go_newline = None"
  "go_newline \<noteq> CHR ''-''" "go_newline \<noteq> CHR '' ''" "hex_val CHR ''i'' = None" "\<not> is_digit CHR ''i''"
  by (simp_all add: is_digit_def hex_val_def go_newline_def)

lemma hex_encode_clean: "hex_val c = None \<Longrightarrow> c \<notin> set (hex_encode s)" "hex_val c = None \<Longrightarrow> c \<notin> set (HashString s)"
  using hex_val_in_hex_encode hex_val_in_HashString by blast+

lemmas field_clean [simp] = not_digit_in_nat_string not_in_go_itoa hex_encode_clean

section \<open>The dump\<close>

lemma dump_fields:
  "go_split CHR '' '' (dump_event a True d) =
     [nat_string (unat (d_Sequence d)), HashString (d_TxId d), nat_string (unat (d_Idx d)), nat_string (unat (d_Vout d)),
      nat_string (unat (d_Offset d)), nat_string (unat (d_Satoshi d)), hex_encode (d_PkScript d),
      go_itoa (sint (d_InscriptionNumber d)), hex_encode (d_ContentBody d)] @
     go_split CHR '' '' (d_CreateIdxKey d) @
     [nat_string (unat (d_Height d)), nat_string (unat (d_TxIdx d)), nat_string (unat (d_BlockTime d))]"
  by (simp add: dump_event_def go_split_once go_split_append go_split_no_sep)

text \<open>
  The event that a line of the dump is read as. A line has no field for the fee, the parent and the inscription
  id, it says that an event is a transfer by a sequence above 0, it writes an id that has not 32 bytes as
  zeros, and the reader takes the key, which is written as it is, for hexadecimal.
\<close>

definition reread :: "InscriptionBRC20Data \<Rightarrow> InscriptionBRC20Data" where
  "reread d = d\<lparr>d_IsTransfer := 0 < d_Sequence d,
     d_TxId := if length (d_TxId d) = 32 then d_TxId d else replicate 32 CHR 0x00,
     d_CreateIdxKey := (case hex_decode (d_CreateIdxKey d) of Some k \<Rightarrow> k | None \<Rightarrow> d_CreateIdxKey d),
     d_Fee := 0, d_Parent := '''', d_InscriptionId := ''''\<rparr>"

lemma hex_key_clean: "hex_decode s \<noteq> None \<Longrightarrow> hex_val c = None \<Longrightarrow> c \<notin> set s"
  using hex_decode_bad [of c s] by auto

lemma hex_decode_HashString:
  "hex_decode (HashString t) = Some (rev (if length t = 32 then t else replicate 32 CHR 0x00))"
proof -
  have "hex_decode (replicate 64 CHR ''0'') = Some (replicate 32 CHR 0x00)" by code_simp
  then show ?thesis by (simp add: HashString_def)
qed

lemma parse_dump:
  assumes "hex_decode (d_CreateIdxKey d) \<noteq> None"
  shows "parse_data_line (dump_event a True d) = Inr (reread d)"
  using assms hex_key_clean [OF assms, of "CHR '' ''"]
  by (cases d) (auto simp: parse_data_line_def dump_fields go_split_no_sep Let_def parse_front_def parse_back_def
      or_fail_def hex_decode_HashString ReverseBytes_rev zero_event_def reread_def)

lemma parse_dump_id: "CHR ''i'' \<in> set (d_CreateIdxKey d) \<Longrightarrow> \<exists>err. parse_data_line (dump_event a True d) = Inl err"
proof -
  assume i: "CHR ''i'' \<in> set (d_CreateIdxKey d)"
  have tail: "\<exists>err. parse_back fs d' = Inl err" if "fs ! 9 = d_CreateIdxKey d" for fs d'
    using that hex_decode_bad [OF i] by (simp add: parse_back_def or_fail_def)
  show ?thesis
  proof (cases "length (go_split CHR '' '' (d_CreateIdxKey d)) = 1")
    case True
    then obtain k where "go_split CHR '' '' (d_CreateIdxKey d) = [k]" by (auto simp: length_Suc_conv)
    then show ?thesis using go_split_one [of "CHR '' ''" "d_CreateIdxKey d" k]
      by (auto simp: parse_data_line_def dump_fields Let_def parse_front_def or_fail_def intro!: tail split: option.splits)
  next
    case False
    then show ?thesis by (auto simp: parse_data_line_def dump_fields Let_def)
  qed
qed

lemma raw_lines_dump:
  assumes "\<forall>l \<in> set ls. go_newline \<notin> set l"
  shows "raw_lines (concat (map (\<lambda>l. l @ [go_newline]) ls)) = ls"
proof -
  have "go_split go_newline (concat (map (\<lambda>l. l @ [go_newline]) ls)) = ls @ [[]]"
    using assms by (induction ls) (auto simp: go_split_once)
  then show ?thesis by (simp add: raw_lines_def Let_def)
qed

lemma dump_no_newline: "go_newline \<notin> set (d_CreateIdxKey d) \<Longrightarrow> go_newline \<notin> set (dump_event a True d)"
  by (simp add: dump_event_def Let_def)

lemma drop_cr_dump: "drop_cr (dump_event a True d) = dump_event a True d"
proof -
  have "last (dump_event a True d) = last (nat_string (unat (d_BlockTime d)))"
    by (simp add: dump_event_def Let_def last_append)
  moreover have "last (nat_string (unat (d_BlockTime d))) \<in> set (nat_string (unat (d_BlockTime d)))" by simp
  then have "is_digit (last (nat_string (unat (d_BlockTime d))))" using not_digit_in_nat_string by blast
  then have "last (nat_string (unat (d_BlockTime d))) \<noteq> CHR 0x0d" by (auto simp: is_digit_def)
  ultimately show ?thesis by (simp add: drop_cr_def)
qed

text \<open>
  C28. What comes back from the dump. When every key is a text in hexadecimal and every line fits into the
  buffer of the scanner, the reader returns one event for each event of the dump, in order and without an
  error. An event comes back with every field that a line holds (\<^const>\<open>reread\<close>): its key is read as the bytes
  that the key spells in hexadecimal, the mark of a transfer follows from the sequence, and the fee, the
  parent and the inscription id, which a line does not hold, are empty.
\<close>

theorem dump_load_roundtrip:
  assumes "\<forall>d \<in> set ds. hex_decode (d_CreateIdxKey d) \<noteq> None" and "\<forall>d \<in> set ds. int (length (dump_event a True d)) < 128 * 1024 * 1024"
  shows "LoadBRC20InputData (Some (DumpBRC20InputData a True ds)) = (map reread ds, None)"
proof -
  let ?ls = "map (dump_event a True) ds"
  have "DumpBRC20InputData a True ds = concat (map (\<lambda>l. l @ [go_newline]) ?ls)"
    by (simp add: DumpBRC20InputData_def comp_def)
  moreover have "raw_lines (concat (map (\<lambda>l. l @ [go_newline]) ?ls)) = ?ls"
    using assms(1) hex_key_clean by (intro raw_lines_dump) (auto intro!: dump_no_newline)
  moreover have "load_data_lines ?ls False = (map reread ds, None)"
    using assms(1) by (induction ds) (auto simp: parse_dump)
  ultimately show ?thesis
    using assms(2) by (simp add: LoadBRC20InputData_def scan_lines_def Let_def list_all_iff takeWhile_eq_all_conv [THEN iffD2] comp_def drop_cr_dump)
qed

definition dumped :: InscriptionBRC20Data where
  "dumped = zero_event\<lparr>d_TxId := replicate 32 CHR 0x07, d_Vout := 3, d_Satoshi := 54, d_PkScript := [CHR 0x51], d_InscriptionNumber := -5,
     d_ContentBody := ''{ }'', d_CreateIdxKey := ''6b6579'', d_Height := 84, d_Fee := 9\<rparr>"

theorem dump_load_roundtrip_witness:
  "LoadBRC20InputData (Some (DumpBRC20InputData (\<lambda>_. None) True [dumped])) = ([dumped\<lparr>d_CreateIdxKey := ''key'', d_Fee := 0\<rparr>], None)"
proof -
  have k: "hex_decode (d_CreateIdxKey dumped) = Some ''key''" by code_simp
  have "length (dump_event (\<lambda>_. None) True dumped) < 1000" by code_simp
  then have "LoadBRC20InputData (Some (DumpBRC20InputData (\<lambda>_. None) True [dumped])) = (map reread [dumped], None)"
    using k by (intro dump_load_roundtrip) simp_all
  moreover have "reread dumped = dumped\<lparr>d_CreateIdxKey := ''key'', d_Fee := 0\<rparr>"
    unfolding reread_def k by (simp add: dumped_def zero_event_def)
  ultimately show ?thesis by simp
qed

text \<open>
  C33. The loaders of the log and of the database use the inscription id as the key of an event, which
  the dump writes as it is: the reader of the dump fails on the first such event.
\<close>

theorem dump_of_ids_unreadable:
  assumes "CHR ''i'' \<in> set (d_CreateIdxKey d)" and "go_newline \<notin> set (d_CreateIdxKey d)"
  shows "\<exists>err. LoadBRC20InputData (Some (DumpBRC20InputData a True (d # ds))) = ([], Some err)"
proof -
  let ?l = "dump_event a True d" and ?n = "128 * 1024 * 1024 :: int"
  let ?g = "go_split go_newline (DumpBRC20InputData a True ds)"
  obtain rest where raw: "raw_lines (DumpBRC20InputData a True (d # ds)) = ?l # rest"
  proof
    show "raw_lines (DumpBRC20InputData a True (d # ds)) = ?l # (if last ?g = [] then butlast ?g else ?g)"
      using dump_no_newline [OF assms(2), of a] by (simp add: raw_lines_def DumpBRC20InputData_def go_split_once Let_def)
  qed
  obtain err where err: "parse_data_line ?l = Inl err" using parse_dump_id [OF assms(1)] by blast
  show ?thesis
  proof (cases "int (length ?l) < ?n")
    case True
    with raw err show ?thesis by (auto simp: LoadBRC20InputData_def scan_lines_def Let_def drop_cr_dump)
  next
    case False
    with raw show ?thesis by (auto simp: LoadBRC20InputData_def scan_lines_def Let_def)
  qed
qed

theorem dump_of_ids_unreadable_witness:
  "\<exists>err. LoadBRC20InputData (Some (DumpBRC20InputData (\<lambda>_. None) True
     [dumped\<lparr>d_CreateIdxKey := inscription_id (replicate 32 CHR 0x07) 0\<rparr>])) = ([], Some err)"
proof (rule dump_of_ids_unreadable)
  show "CHR ''i'' \<in> set (d_CreateIdxKey (dumped\<lparr>d_CreateIdxKey := inscription_id (replicate 32 CHR 0x07) 0\<rparr>))"
    by (simp add: inscription_id_def)
  show "go_newline \<notin> set (d_CreateIdxKey (dumped\<lparr>d_CreateIdxKey := inscription_id (replicate 32 CHR 0x07) 0\<rparr>))"
    by (simp add: inscription_id_def) (simp add: go_newline_def)
qed

section \<open>The log\<close>

lemma le_bytes_4: "le_bytes 4 n = [char_of n, char_of (n div 256), char_of (n div 65536), char_of (n div 16777216)]"
  by (simp add: le_bytes_def upt_conv_Cons)

lemma byte_split: "n mod 256 + 256 * (n div 256) = (n :: nat)"
  by simp

text \<open>
  C34. The parent of an inscription, written in as few bytes as its index needs, is read back by the
  decoder the indexer uses.
\<close>

theorem GetNFTIdForScript_roundtrip:
  assumes "length t = 32" and "n < 2 ^ 32"
  shows "DecodeInscriptionFromBin (GetNFTIdForScript (HashString t @ ''i'' @ nat_string n)) = HashString t @ ''i'' @ nat_string n"
proof -
  have "go_split CHR ''i'' (HashString t @ ''i'' @ nat_string n) = [HashString t, nat_string n]"
    by (simp add: go_split_once go_split_no_sep)
  moreover have "hex_decode (HashString t) = Some (rev t)" using assms(1) by (simp add: HashString_def)
  moreover have "atoi (nat_string n) = (int n, True)" using assms(2) by (simp add: atoi_def big_SetString_digits)
  moreover have "unat (of_int (int n) :: u32) = n" using assms(2) by (simp add: unat_of_nat take_bit_nat_eq_self)
  moreover have b: "n div 256 mod 256 + 256 * (n div 65536) = n div 256" "n div 65536 mod 256 + 256 * (n div 16777216) = n div 65536"
    using byte_split [of "n div 256"] byte_split [of "n div 65536"] by (simp_all add: div_mult2_eq [symmetric])
  moreover have "n mod 256 + 256 * (n div 256 mod 256) + 65536 * (n div 65536) = n"
      "n mod 256 + (256 * (n div 256 mod 256) + (65536 * (n div 65536 mod 256) + 16777216 * (n div 16777216))) = n"
    using byte_split [of n] b by linarith+
  ultimately show ?thesis using assms
    by (auto simp: GetNFTIdForScript_def DecodeInscriptionFromBin_def Let_def ReverseBytes_rev le_bytes_4 slice_def byte_at_def nth_append
        of_char_of)
qed

theorem GetNFTIdForScript_roundtrip_witness:
  "DecodeInscriptionFromBin (GetNFTIdForScript (HashString (replicate 32 CHR 0x07) @ ''i'' @ nat_string 70000)) =
   HashString (replicate 32 CHR 0x07) @ ''i'' @ nat_string 70000"
  by (rule GetNFTIdForScript_roundtrip) simp_all

lemma with_height_event:
  assumes "with_height a b s t k = Some (s', Some d, fl)" and "\<And>h. k h = Some (s', Some d, fl) \<Longrightarrow> d_Height d = of_int h"
  shows "\<exists>h. a \<le> h \<and> h < b \<and> d_Height d = of_int h"
  using assms by (auto simp: with_height_def log_skip_def split: option.splits if_splits intro!: exI [of _ "the (parse_int t)"])

lemma log_event_height: "log_event s i h q sat pk tx v off idx = Some (s', Some d, fl) \<Longrightarrow> d_Height d = of_int h"
  by (auto simp: log_event_def log_skip_def Let_def split: if_splits)

lemma log_fee_height: "log_fee a b s line = Some (s', Some d, fl) \<Longrightarrow> \<exists>h. a \<le> h \<and> h < b \<and> d_Height d = of_int h"
  unfolding log_fee_def Let_def
  by (split if_splits) (auto simp: log_skip_def elim!: with_height_event bind_SomeE split: option.splits if_splits)

lemma log_transfer_height: "log_transfer a b s line = Some (s', Some d, fl) \<Longrightarrow> \<exists>h. a \<le> h \<and> h < b \<and> d_Height d = of_int h"
  unfolding log_transfer_def Let_def
  by (split if_splits) (auto simp: log_skip_def elim!: with_height_event bind_SomeE dest!: log_event_height split: option.splits if_splits)

lemma log_line_height:
  assumes "log_line a b s line = Some (s', Some d, fl)"
  shows "\<exists>h. a \<le> h \<and> h < b \<and> d_Height d = of_int h"
proof -
  from assms have "log_fee a b s line = Some (s', Some d, fl) \<or> log_transfer a b s line = Some (s', Some d, fl)"
    by (simp add: log_line_def log_block_start_def log_number_def log_content_def log_skip_def Let_def del: length_Cons
        split: if_splits option.splits)
  then show ?thesis using log_fee_height log_transfer_height by blast
qed

lemma log_lines_height:
  assumes "log_lines a b s lines t = Some (evs, err)" and "d \<in> set evs"
  shows "\<exists>h. a \<le> h \<and> h < b \<and> d_Height d = of_int h"
  using assms
proof (induction lines arbitrary: s evs err)
  case (Cons line lines)
  from Cons.prems consider s' where "log_line a b s line = Some (s', Some d, Continue)"
    | s' evs' where "log_lines a b s' lines t = Some (evs', err)" "d \<in> set evs'"
    by (auto elim!: bind_SomeE split: flow.splits option.splits)
  then show ?case by cases (use log_line_height Cons.IH in blast)+
qed simp

text \<open>
  C31. Every event the log loader returns has a height in the range asked for, the first included and
  the last not.
\<close>

theorem log_events_in_range:
  assumes "LoadBRC20InputDataFromOrdLog file startHeight endHeight = Some (evs, err)" and "d \<in> set evs"
    and "0 \<le> startHeight" and "endHeight \<le> 2 ^ 32"
  shows "startHeight \<le> uint (d_Height d) \<and> uint (d_Height d) < endHeight"
proof -
  obtain lines t where "log_lines startHeight endHeight log_start lines t = Some (evs, err)"
    using assms(1,2) by (auto simp: LoadBRC20InputDataFromOrdLog_def split: option.splits prod.splits)
  from log_lines_height [OF this assms(2)] obtain h where h: "startHeight \<le> h" "h < endHeight" "d_Height d = of_int h" by blast
  with assms(3,4) have "uint (d_Height d) = h" by (simp add: uint_word_of_int_eq take_bit_int_eq_self)
  with h show ?thesis by simp
qed

text \<open>A log with one block and one inscription in it.\<close>

definition log_id :: string where "log_id = ''07i0''"

definition log_text :: string where
  "log_text = concat (map (\<lambda>l. l @ [go_newline])
     [''cmd;840000;block_start;99'', ''cmd;840000;insert;number_to_id;7;'' @ log_id @ '';0;'',
      ''cmd;840000;insert;content;'' @ log_id @ '';true;'' @ ''746578742f706c61696e'' @ '';;{content}..'',
      ''cmd;840000;insert;transfer;'' @ log_id @ '';;'' @ ''07:0:0;false;51;546;1''])"

lemma log_text_loads:
  "map_option (\<lambda>(evs, err). (map (\<lambda>d. (d_IsTransfer d, d_ContentBody d, d_CreateIdxKey d, d_Height d, d_BlockTime d)) evs, err))
     (LoadBRC20InputDataFromOrdLog (Some log_text) 840000 840001) = Some ([(False, ''{content}..'', log_id, 840000, 99)], None)"
  by code_simp

theorem log_events_in_range_witness:
  "\<exists>d err. LoadBRC20InputDataFromOrdLog (Some log_text) 840000 840001 = Some ([d], err) \<and>
     840000 \<le> uint (d_Height d) \<and> uint (d_Height d) < 840001"
proof -
  obtain d err where d: "LoadBRC20InputDataFromOrdLog (Some log_text) 840000 840001 = Some ([d], err)"
    using log_text_loads by auto
  from log_events_in_range [OF d, of d] d show ?thesis by auto
qed

lemma go_contains_sublist: "go_contains s sub \<longleftrightarrow> sublist sub s"
  by (auto simp: go_contains_def list_ex_iff sublist_altdef')

lemma go_contains_append: "go_contains body sub \<Longrightarrow> go_contains (pre @ body @ post) sub"
  unfolding go_contains_sublist by (metis sublist_appendI sublist_order.order_trans)

text \<open>
  C32. Any line of the log that contains the text \<open>;block_start;\<close> is taken as the start of a block, the
  content of an inscription too: its author makes the loader forget the numbers and contents of all
  inscriptions of the block read so far, and these are then not indexed.
\<close>

theorem log_content_resets_block:
  assumes "go_contains body '';block_start;''"
  shows "\<exists>s'. log_line startHeight endHeight s (pre @ body @ post) = Some (s', None, Continue) \<and>
    l_id2number s' = Map.empty \<and> l_id2content s' = Map.empty \<and> l_id2parent s' = Map.empty"
proof -
  from go_contains_append [OF assms] show ?thesis by (simp add: log_line_def log_block_start_def log_skip_def Let_def)
qed

theorem log_content_resets_block_witness:
  "\<exists>s'. log_line 0 900000 (log_start\<lparr>l_id2number := [log_id \<mapsto> 7]\<rparr>)
       (''cmd;840000;insert;content;x;true;746578742f706c61696e;;'' @ ''{;block_start;}'' @ '''') = Some (s', None, Continue) \<and>
     l_id2number s' = Map.empty \<and> l_id2content s' = Map.empty \<and> l_id2parent s' = Map.empty"
  by (rule log_content_resets_block) code_simp

section \<open>The database\<close>

text \<open>The event of a row that is neither filtered nor an error, and the rows that are no error.\<close>

definition row_event :: "ord_row option \<Rightarrow> InscriptionBRC20Data option" where
  "row_event r = (case r of None \<Rightarrow> None | Some row \<Rightarrow> (case load_row row of Some (Inr ev) \<Rightarrow> ev | _ \<Rightarrow> None))"

definition row_ok :: "ord_row option \<Rightarrow> bool" where
  "row_ok r = (case r of None \<Rightarrow> False | Some row \<Rightarrow> (case load_row row of Some (Inr ev) \<Rightarrow> True | _ \<Rightarrow> False))"

definition events_of :: "ord_row option list \<Rightarrow> InscriptionBRC20Data list" where
  "events_of rows = List.map_filter row_event rows"

lemma events_of_simps [simp]:
  "events_of [] = []" "events_of (r # rows) = (case row_event r of None \<Rightarrow> events_of rows | Some d \<Rightarrow> d # events_of rows)"
  by (auto simp: events_of_def List.map_filter_def split: option.splits)

lemma load_rows_events: "list_all row_ok rows \<Longrightarrow> load_rows rows = Some (events_of rows, None)"
  by (induction rows rule: load_rows.induct) (auto simp: row_ok_def row_event_def split: option.splits sum.splits)

lemma row_event_ok: "row_event r \<noteq> None \<Longrightarrow> row_ok r"
  by (auto simp: row_event_def row_ok_def split: option.splits sum.splits)

lemma length_events_of_le: "length (events_of rows) \<le> length rows"
  by (induction rows) (auto split: option.splits)

lemma length_events_of_less: "r \<in> set rows \<Longrightarrow> row_event r = None \<Longrightarrow> length (events_of rows) < length rows"
proof (induction rows)
  case (Cons q rows)
  then show ?case using length_events_of_le [of rows] by (auto split: option.splits)
qed simp

text \<open>The answer of the database: the rows of a height, in the order of the query, cut to the batch.\<close>

definition answers :: "ord_db \<Rightarrow> int \<Rightarrow> ord_row option list \<Rightarrow> bool" where
  "answers db height rows \<longleftrightarrow> (\<forall>l off. db height l off = Some (take l (drop off rows)))"

lemma batch_events:
  "answers db height rows \<Longrightarrow> list_all row_ok rows \<Longrightarrow>
   loadBRC20InputDataFromDBOnBatch db height l off = Some (events_of (take l (drop off rows)), None)"
  by (auto simp: answers_def loadBRC20InputDataFromDBOnBatch_def list_all_iff intro!: load_rows_events dest!: in_set_takeD in_set_dropD)

lemma length_events_of_all: "\<forall>r \<in> set rows. row_event r \<noteq> None \<Longrightarrow> length (events_of rows) = length rows"
  by (induction rows) auto

lemma events_of_append: "events_of (xs @ ys) = events_of xs @ events_of ys"
  by (induction xs) (auto split: option.splits)

text \<open>
  C29. When the query answers with rows of which none is filtered, the loop over the batches of a block ends and
  returns the events of all rows in order, whatever the size of a batch.
\<close>

theorem db_batches_complete:
  assumes "answers db height rows" and "\<forall>r \<in> set rows. row_event r \<noteq> None" and "0 < batchLimit"
  shows "db_batches db height batchLimit 0 [] = Some (Inr (events_of rows))"
proof -
  have ok: "list_all row_ok rows" using assms(2) row_event_ok by (auto simp: list_all_iff)
  have "db_batches db height batchLimit off acc = Some (Inr (acc @ events_of (drop off rows)))" for off acc
  proof (induction "length rows - off" arbitrary: off acc rule: less_induct)
    case less
    let ?b = "take batchLimit (drop off rows)"
    have len: "length (events_of ?b) = length ?b"
      by (rule length_events_of_all) (use assms(2) in \<open>auto dest!: in_set_takeD in_set_dropD\<close>)
    have split: "events_of (drop off rows) = events_of ?b @ events_of (drop (off + batchLimit) rows)"
      by (metis append_take_drop_id drop_drop add.commute events_of_append)
    have step: "db_batches db height batchLimit off acc =
        (if events_of ?b = [] then Some (Inr acc)
         else if length ?b < batchLimit then Some (Inr (acc @ events_of ?b))
         else db_batches db height batchLimit (off + batchLimit) (acc @ events_of ?b))"
      by (subst db_batches.simps) (simp only: batch_events [OF assms(1) ok] len prod.case option.case)
    show ?case
    proof (cases "length ?b < batchLimit")
      case True
      then have "events_of (drop (off + batchLimit) rows) = []" by simp
      with True show ?thesis unfolding step split by simp
    next
      case False
      with assms(3) have "off + batchLimit \<le> length rows" by (simp add: not_less min_le_iff_disj)
      with less [of "off + batchLimit"] assms(3) have
          "db_batches db height batchLimit (off + batchLimit) (acc @ events_of ?b) = Some (Inr ((acc @ events_of ?b) @ events_of (drop (off + batchLimit) rows)))" by simp
      moreover have "events_of ?b \<noteq> []" using False len assms(3) by (metis length_greater_0_conv less_le_trans not_less)
      ultimately show ?thesis using False unfolding step split by simp
    qed
  qed
  from this [of 0 "[]"] show ?thesis by simp
qed

text \<open>
  C30. A first batch with a filtered row is taken for the last one: when some row among the first
  \<open>batchLimit\<close> rows of a block is no text inscription, the rows of the block after these are never read.
\<close>

theorem db_batches_stop_early:
  assumes "answers db height rows" and "list_all row_ok rows" and "r \<in> set (take batchLimit rows)" and "row_event r = None"
  shows "db_batches db height batchLimit 0 [] = Some (Inr (events_of (take batchLimit rows)))"
proof -
  have "length (events_of (take batchLimit rows)) < batchLimit"
    using length_events_of_less [OF assms(3,4)] by simp
  then show ?thesis by (subst db_batches.simps) (auto simp: batch_events [OF assms(1,2)])
qed

definition demo_row :: "string \<Rightarrow> ord_row" where
  "demo_row ctype = \<lparr>o_block_height = 7, o_inscription_id = ''07i0'', o_txcnt = 0, o_new_satpoint = ''07:0:0'', o_sent_as_fee = False,
     o_sent_as_fee_txid = None, o_new_output_value = 5, o_new_pkscript = ''51'', o_inscription_number = 1,
     o_content = CHR ''{'' # replicate 40 CHR ''.'' @ ''}'', o_content_type = hex_encode ctype, o_block_time = 1\<rparr>"

definition demo_db :: "ord_row option list \<Rightarrow> ord_db" where
  "demo_db rows = (\<lambda>height l off. Some (take l (drop off rows)))"

lemma demo_row_events:
  "row_event (Some (demo_row ''text/plain'')) \<noteq> None" "row_event (Some (demo_row ''image/png'')) = None" "row_ok (Some (demo_row ''image/png''))"
  by code_simp+

theorem db_batches_complete_witness:
  "db_batches (demo_db (replicate 3 (Some (demo_row ''text/plain'')))) 7 2 0 [] = Some (Inr (events_of (replicate 3 (Some (demo_row ''text/plain'')))))"
proof (rule db_batches_complete)
  show "answers (demo_db (replicate 3 (Some (demo_row ''text/plain'')))) 7 (replicate 3 (Some (demo_row ''text/plain'')))"
    by (simp add: answers_def demo_db_def)
  show "\<forall>r \<in> set (replicate 3 (Some (demo_row ''text/plain''))). row_event r \<noteq> None" using demo_row_events(1) by simp
qed simp

theorem db_batches_stop_early_witness:
  "let rows = [Some (demo_row ''image/png''), Some (demo_row ''text/plain''), Some (demo_row ''text/plain'')] in
   db_batches (demo_db rows) 7 2 0 [] = Some (Inr (events_of (take 2 rows))) \<and> events_of (take 2 rows) \<noteq> events_of rows"
proof -
  let ?rows = "[Some (demo_row ''image/png''), Some (demo_row ''text/plain''), Some (demo_row ''text/plain'')]"
  have "db_batches (demo_db ?rows) 7 2 0 [] = Some (Inr (events_of (take 2 ?rows)))"
    using demo_row_events row_event_ok
    by (intro db_batches_stop_early [where r = "Some (demo_row ''image/png'')"]) (auto simp: answers_def demo_db_def)
  with demo_row_events show ?thesis by (auto simp: Let_def)
qed

end
