(* ===== verification/Snapshot.thy ===== *)
theory Snapshot
  imports Indexer_State
begin

text \<open>
  The state of the indexer as a whole: what is saved and restored (\<open>GetStore\<close> and \<open>LoadStore\<close> of
  \<open>indexer/store_into_data.go\<close> with the records of \<open>model/store.go\<close>), and the full copy
  (\<open>DeepCopy\<close> in \<open>indexer/init.go\<close> and \<open>model/swap.go\<close>).

  The file and its encoding (package \<open>gob\<close>) are left out: a store is loaded as it was saved. The maps
  of the model are functions, and a loop over a map visits its keys in an order that is a
  parameter. The modules are an association list, visited from its end, so that of two entries for a
  key the first is the one that counts.
\<close>

section \<open>The store\<close>

record BRC20ModuleSwapInfoStore =
  ms_ID :: string
  ms_Name :: string
  ms_DeployerPkScript :: string
  ms_SequencerPkScript :: string
  ms_GasToPkScript :: string
  ms_LpFeePkScript :: string
  ms_FeeRateSwap :: string
  ms_GasTick :: string
  ms_History :: "BRC20ModuleHistory list"
  ms_CommitInvalidMap :: "string set"
  ms_CommitIdMap :: "string set"
  ms_CommitIdChainMap :: "string set"
  ms_UsersTokenBalanceDataMap :: "string \<rightharpoonup> string \<rightharpoonup> BRC20ModuleTokenBalance"
  ms_LPTokenUsersBalanceMap :: "string \<rightharpoonup> string \<rightharpoonup> decp"
  ms_SwapPoolTotalBalanceDataMap :: "string \<rightharpoonup> BRC20ModulePoolTotalBalance"
  ms_ConditionalApproveStateBalanceDataMap :: "string \<rightharpoonup> BRC20ModuleConditionalApproveStateBalance"

record BRC20ModuleIndexerStore =
  st_BestHeight :: u32
  st_EnableHistory :: bool
  st_HistoryCount :: u32
  st_FirstHistoryByHeight :: "u32 \<rightharpoonup> u32"
  st_LastHistoryHeight :: u32
  st_AllHistory :: "u32 list"
  st_UserAllHistory :: "string \<rightharpoonup> BRC20UserHistory"
  st_InscriptionsTickerInfoMap :: "string \<rightharpoonup> BRC20TokenInfo"
  st_UserTokensBalanceData :: "string \<rightharpoonup> string \<rightharpoonup> BRC20TokenBalance"
  st_InscriptionsValidBRC20DataMap :: "string \<rightharpoonup> brc20_data_ref"
  st_InscriptionsValidTransferMap :: "string \<rightharpoonup> InscriptionBRC20TickInfo"
  st_InscriptionsInvalidTransferMap :: "string \<rightharpoonup> InscriptionBRC20TickInfo"
  st_ModulesInfoMap :: "(string \<times> BRC20ModuleSwapInfoStore) list"
  st_InscriptionsValidApproveMap :: "string \<rightharpoonup> InscriptionBRC20SwapInfo"
  st_InscriptionsInvalidApproveMap :: "string \<rightharpoonup> InscriptionBRC20SwapInfo"
  st_InscriptionsValidConditionalApproveMap :: "string \<rightharpoonup> InscriptionBRC20SwapConditionalApproveInfo"
  st_InscriptionsInvalidConditionalApproveMap :: "string \<rightharpoonup> InscriptionBRC20SwapConditionalApproveInfo"
  st_InscriptionsValidCommitMap :: "string \<rightharpoonup> InscriptionBRC20Data"
  st_InscriptionsInvalidCommitMap :: "string \<rightharpoonup> InscriptionBRC20Data"

definition module_store :: "BRC20ModuleSwapInfo \<Rightarrow> BRC20ModuleSwapInfoStore" where
  "module_store info =
     \<lparr>ms_ID = m_ID info, ms_Name = m_Name info, ms_DeployerPkScript = m_DeployerPkScript info,
      ms_SequencerPkScript = m_SequencerPkScript info, ms_GasToPkScript = m_GasToPkScript info,
      ms_LpFeePkScript = m_LpFeePkScript info, ms_FeeRateSwap = m_FeeRateSwap info, ms_GasTick = m_GasTick info,
      ms_History = m_History info, ms_CommitInvalidMap = m_CommitInvalidMap info, ms_CommitIdMap = m_CommitIdMap info,
      ms_CommitIdChainMap = m_CommitIdChainMap info, ms_UsersTokenBalanceDataMap = m_UsersTokenBalanceDataMap info,
      ms_LPTokenUsersBalanceMap = m_LPTokenUsersBalanceMap info,
      ms_SwapPoolTotalBalanceDataMap = m_SwapPoolTotalBalanceDataMap info,
      ms_ConditionalApproveStateBalanceDataMap = m_ConditionalApproveStateBalanceDataMap info\<rparr>"

definition GetStore :: "BRC20ModuleIndexer \<Rightarrow> BRC20ModuleIndexerStore" where
  "GetStore g =
     \<lparr>st_BestHeight = g_BestHeight g, st_EnableHistory = g_EnableHistory g, st_HistoryCount = g_HistoryCount g,
      st_FirstHistoryByHeight = g_FirstHistoryByHeight g, st_LastHistoryHeight = g_LastHistoryHeight g,
      st_AllHistory = g_AllHistory g, st_UserAllHistory = g_UserAllHistory g,
      st_InscriptionsTickerInfoMap = g_InscriptionsTickerInfoMap g, st_UserTokensBalanceData = g_UserTokensBalanceData g,
      st_InscriptionsValidBRC20DataMap = g_InscriptionsValidBRC20DataMap g,
      st_InscriptionsValidTransferMap = g_InscriptionsValidTransferMap g,
      st_InscriptionsInvalidTransferMap = g_InscriptionsInvalidTransferMap g,
      st_ModulesInfoMap = map (\<lambda>(module, info). (module, module_store info)) (g_ModulesInfoMap g),
      st_InscriptionsValidApproveMap = g_InscriptionsValidApproveMap g,
      st_InscriptionsInvalidApproveMap = g_InscriptionsInvalidApproveMap g,
      st_InscriptionsValidConditionalApproveMap = g_InscriptionsValidConditionalApproveMap g,
      st_InscriptionsInvalidConditionalApproveMap = g_InscriptionsInvalidConditionalApproveMap g,
      st_InscriptionsValidCommitMap = g_InscriptionsValidCommitMap g,
      st_InscriptionsInvalidCommitMap = g_InscriptionsInvalidCommitMap g\<rparr>"

section \<open>Loading a store\<close>

text \<open>
  The orders in which the loops visit the entries: the balances by user and ticker, the keys of the
  valid commits, and in each module the balances by user and ticker and the LP balances by pool and
  user.
\<close>

record ranges =
  rg_balances :: "(string \<times> string) list"
  rg_commits :: "string list"
  rg_module_balances :: "string \<Rightarrow> (string \<times> string) list"
  rg_module_lp :: "string \<Rightarrow> (string \<times> string) list"

text \<open>\<open>tokenUsers[u] = balance\<close>, after the table of the ticker was made when it was missing.\<close>

definition add_holder :: "string \<Rightarrow> string \<Rightarrow> (string \<rightharpoonup> string set) \<Rightarrow> (string \<rightharpoonup> string set)" where
  "add_holder lt u t = t(lt \<mapsto> insert u (case t lt of None \<Rightarrow> {} | Some us \<Rightarrow> us))"

definition make_holders :: "string \<Rightarrow> (string \<rightharpoonup> string set) \<Rightarrow> (string \<rightharpoonup> string set)" where
  "make_holders lt t = (case t lt of None \<Rightarrow> t(lt \<mapsto> {}) | Some us \<Rightarrow> t)"

text \<open>The holders of a token are the users with a positive balance. A key that is not in the map does not occur.\<close>

fun load_holders ::
    "(string \<rightharpoonup> string \<rightharpoonup> BRC20TokenBalance) \<Rightarrow> (string \<times> string) list \<Rightarrow> (string \<rightharpoonup> string set) \<Rightarrow> (string \<rightharpoonup> string set) option" where
  "load_holders data [] holders = Some holders"
| "load_holders data ((u, lt) # keys) holders =
     (case data u \<bind> (\<lambda>userTokens. userTokens lt) of
        None \<Rightarrow> load_holders data keys holders
      | Some balance \<Rightarrow> do {
          overall \<leftarrow> OverallBalance balance;
          let holders = make_holders lt holders;
          load_holders data keys (if Decimal_Sign overall > 0 then add_holder lt u holders else holders) })"

fun load_commits :: "(string \<rightharpoonup> InscriptionBRC20Data) \<Rightarrow> string list \<Rightarrow> (string \<rightharpoonup> InscriptionBRC20Data) \<Rightarrow> (string \<rightharpoonup> InscriptionBRC20Data)" where
  "load_commits commits [] byId = byId"
| "load_commits commits (k # keys) byId =
     (case commits k of
        None \<Rightarrow> load_commits commits keys byId
      | Some v \<Rightarrow> load_commits commits keys (byId(Data_GetInscriptionId v \<mapsto> v)))"

fun load_module_holders ::
    "(string \<rightharpoonup> string \<rightharpoonup> BRC20ModuleTokenBalance) \<Rightarrow> (string \<times> string) list \<Rightarrow> (string \<rightharpoonup> string set) \<Rightarrow> (string \<rightharpoonup> string set)" where
  "load_module_holders data [] holders = holders"
| "load_module_holders data ((address, lt) # keys) holders =
     (case data address \<bind> (\<lambda>dataMap. dataMap lt) of
        None \<Rightarrow> load_module_holders data keys holders
      | Some tokenBalance \<Rightarrow> load_module_holders data keys (add_holder lt address holders))"

fun load_user_lp ::
    "(string \<rightharpoonup> string \<rightharpoonup> decp) \<Rightarrow> (string \<times> string) list \<Rightarrow> (string \<rightharpoonup> string \<rightharpoonup> decp) \<Rightarrow> (string \<rightharpoonup> string \<rightharpoonup> decp)" where
  "load_user_lp data [] users = users"
| "load_user_lp data ((pair, address) # keys) users =
     (case data pair \<bind> (\<lambda>dataMap. dataMap address) of
        None \<Rightarrow> load_user_lp data keys users
      | Some lpBalance \<Rightarrow> load_user_lp data keys
          (users(address \<mapsto> (case users address of None \<Rightarrow> Map.empty | Some t \<Rightarrow> t)(pair \<mapsto> lpBalance))))"

text \<open>The fields that are not in the literal are zero values: the map of marks is \<open>nil\<close>.\<close>

definition load_module :: "(string \<times> string) list \<Rightarrow> (string \<times> string) list \<Rightarrow> BRC20ModuleSwapInfoStore \<Rightarrow> BRC20ModuleSwapInfo" where
  "load_module balances lps s =
     \<lparr>m_UpdateHeight = 0, m_ID = ms_ID s, m_Name = ms_Name s, m_DeployerPkScript = ms_DeployerPkScript s,
      m_SequencerPkScript = ms_SequencerPkScript s, m_GasToPkScript = ms_GasToPkScript s, m_LpFeePkScript = ms_LpFeePkScript s,
      m_FeeRateSwap = ms_FeeRateSwap s, m_GasTick = ms_GasTick s, m_History = ms_History s,
      m_CommitInvalidMap = ms_CommitInvalidMap s, m_CommitIdMap = ms_CommitIdMap s, m_CommitIdChainMap = ms_CommitIdChainMap s,
      m_UsersTokenBalanceDataMap = ms_UsersTokenBalanceDataMap s,
      m_TokenUsersBalanceDataMap = load_module_holders (ms_UsersTokenBalanceDataMap s) balances Map.empty,
      m_LPTokenUsersBalanceMap = ms_LPTokenUsersBalanceMap s, m_LPTokenUsersBalanceUpdatedMap = None,
      m_UsersLPTokenBalanceMap = load_user_lp (ms_LPTokenUsersBalanceMap s) lps Map.empty,
      m_SwapPoolTotalBalanceDataMap = ms_SwapPoolTotalBalanceDataMap s,
      m_ConditionalApproveStateBalanceDataMap = ms_ConditionalApproveStateBalanceDataMap s, m_ThisTxId = '''',
      m_TransferStatesForConditionalApprove = [], m_ApproveStatesForConditionalApprove = []\<rparr>"

definition LoadStore :: "ranges \<Rightarrow> BRC20ModuleIndexerStore \<Rightarrow> BRC20ModuleIndexer \<Rightarrow> BRC20ModuleIndexer option" where
  "LoadStore rg store g =
     do {
       holders \<leftarrow> load_holders (st_UserTokensBalanceData store) (rg_balances rg) (g_TokenUsersBalanceData g);
       let g = g
         \<lparr>g_BestHeight := st_BestHeight store, g_EnableHistory := st_EnableHistory store, g_HistoryCount := st_HistoryCount store,
          g_FirstHistoryByHeight := st_FirstHistoryByHeight store, g_LastHistoryHeight := st_LastHistoryHeight store,
          g_AllHistory := st_AllHistory store, g_UserAllHistory := st_UserAllHistory store,
          g_InscriptionsTickerInfoMap := st_InscriptionsTickerInfoMap store,
          g_UserTokensBalanceData := st_UserTokensBalanceData store, g_TokenUsersBalanceData := holders,
          g_InscriptionsValidBRC20DataMap := st_InscriptionsValidBRC20DataMap store,
          g_InscriptionsValidTransferMap := st_InscriptionsValidTransferMap store,
          g_InscriptionsInvalidTransferMap := st_InscriptionsInvalidTransferMap store,
          g_InscriptionsValidApproveMap := st_InscriptionsValidApproveMap store,
          g_InscriptionsInvalidApproveMap := st_InscriptionsInvalidApproveMap store,
          g_InscriptionsValidConditionalApproveMap := st_InscriptionsValidConditionalApproveMap store,
          g_InscriptionsInvalidConditionalApproveMap := st_InscriptionsInvalidConditionalApproveMap store,
          g_InscriptionsValidCommitMap := st_InscriptionsValidCommitMap store,
          g_InscriptionsInvalidCommitMap := st_InscriptionsInvalidCommitMap store,
          g_InscriptionsValidCommitMapById :=
            load_commits (st_InscriptionsValidCommitMap store) (rg_commits rg) (g_InscriptionsValidCommitMapById g)\<rparr>;
       Some (fold (\<lambda>(module, s) g. set_module g module (load_module (rg_module_balances rg module) (rg_module_lp rg module) s))
         (rev (st_ModulesInfoMap store)) g) }"

section \<open>The full copy\<close>

definition ModuleTokenBalance_DeepCopy :: "BRC20ModuleTokenBalance \<Rightarrow> BRC20ModuleTokenBalance" where
  "ModuleTokenBalance_DeepCopy i =
     (ModuleTokenBalance_CherryPick i)
     \<lparr>mb_ValidConditionalApproveMap := mb_ValidConditionalApproveMap i, mb_ValidApproveMap := mb_ValidApproveMap i,
      mb_ReadyToWithdrawMap := mb_ReadyToWithdrawMap i, mb_History := mb_History i\<rparr>"

definition PoolTotalBalance_DeepCopy :: "BRC20ModulePoolTotalBalance \<Rightarrow> BRC20ModulePoolTotalBalance" where
  "PoolTotalBalance_DeepCopy i = (PoolTotalBalance_CherryPick i)\<lparr>pl_History := pl_History i\<rparr>"

definition StateBalance_DeepCopy :: "BRC20ModuleConditionalApproveStateBalance \<Rightarrow> BRC20ModuleConditionalApproveStateBalance" where
  "StateBalance_DeepCopy i =
     \<lparr>cs_Tick = cs_Tick i, cs_BalanceDeposite = NewDecimalCopy (cs_BalanceDeposite i),
      cs_BalanceApprove = NewDecimalCopy (cs_BalanceApprove i), cs_BalanceNewApprove = NewDecimalCopy (cs_BalanceNewApprove i),
      cs_BalanceCancelApprove = NewDecimalCopy (cs_BalanceCancelApprove i),
      cs_BalanceWaitApprove = NewDecimalCopy (cs_BalanceWaitApprove i)\<rparr>"

text \<open>The copy of a conditional approval has the height 0.\<close>

definition CondApproveInfo_DeepCopy :: "InscriptionBRC20SwapConditionalApproveInfo \<Rightarrow> InscriptionBRC20SwapConditionalApproveInfo" where
  "CondApproveInfo_DeepCopy d = d
     \<lparr>ca_UpdateHeight := 0, ca_Amount := NewDecimalCopy (ca_Amount d), ca_Balance := NewDecimalCopy (ca_Balance d)\<rparr>"

definition TransferState_DeepCopy :: "TransferStateForConditionalApprove \<Rightarrow> TransferStateForConditionalApprove" where
  "TransferState_DeepCopy d = d\<lparr>ts_Balance := NewDecimalCopy (ts_Balance d)\<rparr>"

definition ApproveState_DeepCopy :: "ApproveStateForConditionalApprove \<Rightarrow> ApproveStateForConditionalApprove" where
  "ApproveState_DeepCopy d = d
     \<lparr>as_Balance := NewDecimalCopy (as_Balance d), as_ApproveInfo := CondApproveInfo_DeepCopy (as_ApproveInfo d)\<rparr>"

text \<open>
  The transfer states are objects on the heap of the indexer, shared between lists. A list is copied
  with new objects at the end of the heap of the copy.
\<close>

definition copy_states ::
    "TransferStateForConditionalApprove list \<Rightarrow> nat list \<Rightarrow> TransferStateForConditionalApprove list \<Rightarrow>
     nat list \<times> TransferStateForConditionalApprove list" where
  "copy_states base addrs heap =
     ([length heap ..< length heap + length addrs], heap @ map (\<lambda>a. TransferState_DeepCopy (base ! a)) addrs)"

definition ModuleSwapInfo_DeepCopy ::
    "TransferStateForConditionalApprove list \<Rightarrow> BRC20ModuleSwapInfo \<Rightarrow> TransferStateForConditionalApprove list \<Rightarrow>
     BRC20ModuleSwapInfo \<times> TransferStateForConditionalApprove list" where
  "ModuleSwapInfo_DeepCopy base m heap =
     (case copy_states base (m_TransferStatesForConditionalApprove m) heap of
        (addrs, heap) \<Rightarrow>
          (m\<lparr>m_UpdateHeight := 0,
             m_UsersTokenBalanceDataMap :=
               (\<lambda>address. map_option (\<lambda>dataMap tick. map_option ModuleTokenBalance_DeepCopy (dataMap tick))
                            (m_UsersTokenBalanceDataMap m address)),
             m_LPTokenUsersBalanceUpdatedMap := Some {},
             m_UsersLPTokenBalanceMap :=
               (\<lambda>address. map_option (\<lambda>dataMap pair. map_option NewDecimalCopy (dataMap pair)) (m_UsersLPTokenBalanceMap m address)),
             m_LPTokenUsersBalanceMap :=
               (\<lambda>pair. map_option (\<lambda>dataMap address. map_option
                   (\<lambda>_. case m_UsersLPTokenBalanceMap m address of None \<Rightarrow> None
                        | Some b \<Rightarrow> (case b pair of None \<Rightarrow> None | Some d \<Rightarrow> NewDecimalCopy d))
                   (dataMap address)) (m_LPTokenUsersBalanceMap m pair)),
             m_SwapPoolTotalBalanceDataMap := (\<lambda>pair. map_option PoolTotalBalance_DeepCopy (m_SwapPoolTotalBalanceDataMap m pair)),
             m_ConditionalApproveStateBalanceDataMap :=
               (\<lambda>tick. map_option StateBalance_DeepCopy (m_ConditionalApproveStateBalanceDataMap m tick)),
             m_TransferStatesForConditionalApprove := addrs,
             m_ApproveStatesForConditionalApprove := map ApproveState_DeepCopy (m_ApproveStatesForConditionalApprove m)\<rparr>, heap))"

text \<open>
  \<open>deepCopyBRC20Data\<close>: the copy of a token loses its height and the history of its withdraws, and every
  user with an entry becomes a holder.
\<close>

definition TokenInfo_DeepCopy :: "BRC20TokenInfo \<Rightarrow> BRC20TokenInfo" where
  "TokenInfo_DeepCopy v =
     \<lparr>tk_UpdateHeight = 0, tk_Ticker = tk_Ticker v, tk_Deploy = TickInfo_DeepCopy (tk_Deploy v), tk_History = tk_History v,
      tk_HistoryMint = tk_HistoryMint v, tk_HistoryInscribeTransfer = tk_HistoryInscribeTransfer v,
      tk_HistoryTransfer = tk_HistoryTransfer v, tk_HistoryWithdraw = []\<rparr>"

fun copy_holders ::
    "(string \<rightharpoonup> string \<rightharpoonup> BRC20TokenBalance) \<Rightarrow> (string \<times> string) list \<Rightarrow> (string \<rightharpoonup> string set) \<Rightarrow> (string \<rightharpoonup> string set)" where
  "copy_holders data [] holders = holders"
| "copy_holders data ((u, lt) # keys) holders =
     (case data u \<bind> (\<lambda>userTokens. userTokens lt) of
        None \<Rightarrow> copy_holders data keys holders
      | Some balance \<Rightarrow> copy_holders data keys (add_holder lt u holders))"

definition deepCopyBRC20Data :: "ranges \<Rightarrow> BRC20ModuleIndexer \<Rightarrow> BRC20ModuleIndexer \<Rightarrow> BRC20ModuleIndexer" where
  "deepCopyBRC20Data rg copyDup base = copyDup
     \<lparr>g_BestHeight := g_BestHeight base, g_EnableHistory := g_EnableHistory base, g_HistoryCount := g_HistoryCount base,
      g_FirstHistoryByHeight := g_FirstHistoryByHeight copyDup ++ g_FirstHistoryByHeight base,
      g_LastHistoryHeight := g_LastHistoryHeight base, g_HistoryData := g_HistoryData copyDup @ g_HistoryData base,
      g_AllHistory := g_AllHistory base, g_UserAllHistory := g_UserAllHistory copyDup ++ g_UserAllHistory base,
      g_InscriptionsTickerInfoMap :=
        g_InscriptionsTickerInfoMap copyDup ++ (\<lambda>k. map_option TokenInfo_DeepCopy (g_InscriptionsTickerInfoMap base k)),
      g_UserTokensBalanceData :=
        g_UserTokensBalanceData copyDup ++
        (\<lambda>u. map_option (\<lambda>userTokens lt. map_option TokenBalance_DeepCopy (userTokens lt)) (g_UserTokensBalanceData base u)),
      g_TokenUsersBalanceData := copy_holders (g_UserTokensBalanceData base) (rg_balances rg) (g_TokenUsersBalanceData copyDup),
      g_InscriptionsValidBRC20DataMap := g_InscriptionsValidBRC20DataMap copyDup ++ g_InscriptionsValidBRC20DataMap base,
      g_InscriptionsValidTransferMap := g_InscriptionsValidTransferMap copyDup ++ g_InscriptionsValidTransferMap base,
      g_InscriptionsInvalidTransferMap := g_InscriptionsInvalidTransferMap copyDup ++ g_InscriptionsInvalidTransferMap base\<rparr>"

definition copy_module :: "TransferStateForConditionalApprove list \<Rightarrow> string \<times> BRC20ModuleSwapInfo \<Rightarrow> BRC20ModuleIndexer \<Rightarrow> BRC20ModuleIndexer" where
  "copy_module base kv g =
     (case kv of (k, m) \<Rightarrow>
        case ModuleSwapInfo_DeepCopy base m (g_TransferHeap g) of
          (m', heap) \<Rightarrow> (set_module g k m')\<lparr>g_TransferHeap := heap\<rparr>)"

definition deepCopyModuleData :: "BRC20ModuleIndexer \<Rightarrow> BRC20ModuleIndexer \<Rightarrow> BRC20ModuleIndexer" where
  "deepCopyModuleData copyDup base =
     (let copyDup = fold (copy_module (g_TransferHeap base)) (rev (g_ModulesInfoMap base)) copyDup in
      case copy_states (g_TransferHeap base) (g_TxStaticTransferStatesForConditionalApprove base) (g_TransferHeap copyDup) of
        (addrs, heap) \<Rightarrow> copyDup
          \<lparr>g_InscriptionsValidApproveMap := g_InscriptionsValidApproveMap copyDup ++ g_InscriptionsValidApproveMap base,
           g_InscriptionsInvalidApproveMap := g_InscriptionsInvalidApproveMap copyDup ++ g_InscriptionsInvalidApproveMap base,
           g_InscriptionsValidConditionalApproveMap := g_InscriptionsValidConditionalApproveMap copyDup ++
             (\<lambda>k. map_option CondApproveInfo_DeepCopy (g_InscriptionsValidConditionalApproveMap base k)),
           g_InscriptionsInvalidConditionalApproveMap := g_InscriptionsInvalidConditionalApproveMap copyDup ++
             (\<lambda>k. map_option CondApproveInfo_DeepCopy (g_InscriptionsInvalidConditionalApproveMap base k)),
           g_InscriptionsValidCommitMap := g_InscriptionsValidCommitMap copyDup ++ g_InscriptionsValidCommitMap base,
           g_InscriptionsInvalidCommitMap := g_InscriptionsInvalidCommitMap copyDup ++ g_InscriptionsInvalidCommitMap base,
           g_InscriptionsValidCommitMapById := g_InscriptionsValidCommitMapById copyDup ++ g_InscriptionsValidCommitMapById base,
           g_ThisTxId := g_ThisTxId base,
           g_TxStaticTransferStatesForConditionalApprove := g_TxStaticTransferStatesForConditionalApprove copyDup @ addrs,
           g_TransferHeap := heap\<rparr>)"

definition DeepCopy :: "ranges \<Rightarrow> BRC20ModuleIndexer \<Rightarrow> BRC20ModuleIndexer" where
  "DeepCopy rg base = deepCopyModuleData (deepCopyBRC20Data rg (Init zero_indexer) base) base"

end
