(* ===== verification/Precision.thy ===== *)
theory Precision
  imports Ledger_Inv
begin

text \<open>
  The type invariant of the ledger: every amount of a token (its maximum, what is minted, the balances
  of all users and the amounts of their pending transfers) has the number of decimals the token was
  deployed with. The arithmetic of \<open>Decimal\<close> panics on two precisions, so this is what keeps the
  operations on balances from panicking.
\<close>

definition amounts_ok :: "nat \<Rightarrow> decp \<times> decp \<times> (string \<rightharpoonup> InscriptionBRC20TickInfo) \<Rightarrow> bool" where
  "amounts_ok p b \<longleftrightarrow> (case b of (a, t, vm) \<Rightarrow> dec_ok p a \<and> dec_ok p t \<and> (\<forall>k i. vm k = Some i \<longrightarrow> dec_ok p (ti_Amount i)))"

definition precise :: "BRC20ModuleIndexer \<Rightarrow> bool" where
  "precise g \<longleftrightarrow> (\<forall>lt ticker tot mx lim dc. tview g lt = Some (ticker, tot, mx, lim, dc) \<longrightarrow>
     mx \<noteq> None \<and> dec_ok (unat dc) mx \<and> dec_ok (unat dc) tot \<and> (\<forall>u. amounts_ok (unat dc) (bview g u lt)))"

lemma preciseD:
  assumes "precise g" and "tview g lt = Some (ticker, tot, mx, lim, dc)"
  shows "mx \<noteq> None" "dec_ok (unat dc) mx" "dec_ok (unat dc) tot" "amounts_ok (unat dc) (bview g u lt)"
  using assms by (simp_all add: precise_def)

lemma precise_upd:
  assumes "precise g" and "\<And>x. x \<noteq> lt \<Longrightarrow> tview g' x = tview g x" and "\<And>x u. x \<noteq> lt \<Longrightarrow> bview g' u x = bview g u x"
    and "\<And>ticker tot mx lim dc. tview g' lt = Some (ticker, tot, mx, lim, dc) \<Longrightarrow>
      mx \<noteq> None \<and> dec_ok (unat dc) mx \<and> dec_ok (unat dc) tot \<and> (\<forall>u. amounts_ok (unat dc) (bview g' u lt))"
  shows "precise g'"
  unfolding precise_def
proof (intro allI impI)
  fix l ticker tot mx lim dc
  assume "tview g' l = Some (ticker, tot, mx, lim, dc)"
  then show "mx \<noteq> None \<and> dec_ok (unat dc) mx \<and> dec_ok (unat dc) tot \<and> (\<forall>u. amounts_ok (unat dc) (bview g' u l))"
    using assms preciseD [OF assms(1)] by (cases "l = lt") auto
qed

lemma Add_precise: "Decimal_Add a b = Some c \<Longrightarrow> dec_ok p a \<Longrightarrow> dec_ok p b \<Longrightarrow> dec_ok p c"
  using Decimal_Add_ok [of p a b] by auto

lemma Sub_precise: "Decimal_Sub a b = Some c \<Longrightarrow> dec_ok p a \<Longrightarrow> dec_ok p b \<Longrightarrow> dec_ok p c"
  using Decimal_Sub_ok [of p a b] by auto

text \<open>A subtraction from an amount that is there fixes the precision of the other.\<close>

lemma Sub_same: "Decimal_Sub a b = Some c \<Longrightarrow> a \<noteq> None \<Longrightarrow> dec_ok p a \<Longrightarrow> dec_ok p b"
  by (cases a; cases b) (auto simp: Decimal_Sub_def split: if_splits)

lemma precise_step:
  assumes "view_step e g g'" and wf: "ledger_wf e g" and pr: "precise g"
  shows "precise g'"
  using assms(1)
proof cases
  case same
  then show ?thesis using pr viewD [OF same] by (simp add: precise_def)
next
  case (minted lt ticker tot mx lim dc amt minted pk)
  note p = preciseD [OF pr minted(1)]
  have m: "dec_ok (unat dc) minted" using minted(4) p(1-3) by blast
  from minted(5) [unfolded ledger_wfD(2) [OF wf minted(1)] minted_view_def minted(1)] obtain a tr vm a' tot' where
    b: "bview g pk lt = (a, tr, vm)" "Decimal_Add a minted = Some a'" "bview g' = (bview g)(pk := (bview g pk)(lt := (a', tr, vm)))"
      "Decimal_Add tot minted = Some tot'" "tview g' = (tview g)(lt := Some (ticker, tot', mx, lim, dc))" by auto
  show ?thesis
    by (rule precise_upd [OF pr, where lt = lt])
      (use b m p Add_precise [OF b(2)] Add_precise [OF b(4)] p(4) [of pk] in \<open>auto simp: amounts_ok_def\<close>)
next
  case (moved k i lt s r)
  from moved(2) obtain a tr vm tr' B1 a2 t2 v2 a2' where
    b: "bview g s lt = (a, tr, vm)" "vm k \<noteq> None" "Decimal_Sub tr (ti_Amount i) = Some tr'"
      "B1 = (bview g)(s := (bview g s)(lt := (a, tr', vm(k := None))))" "B1 r lt = (a2, t2, v2)" "Decimal_Add a2 (ti_Amount i) = Some a2'"
      "bview g' = B1(r := (B1 r)(lt := (a2', t2, v2)))" "tview g' = tview g" unfolding moved_view_def by blast
  have vm: "vm k = Some i" using ledger_wfD(3) [OF wf b(1)] b(2) moved(1) by auto
  show ?thesis
  proof (rule precise_upd [OF pr, where lt = lt])
    fix ticker tot mx lim dc assume t: "tview g' lt = Some (ticker, tot, mx, lim, dc)"
    note p = preciseD [OF pr t [unfolded b(8)]]
    have i: "dec_ok (unat dc) (ti_Amount i)" using p(4) [of s] b(1) vm by (auto simp: amounts_ok_def)
    have s: "amounts_ok (unat dc) (a, tr', vm(k := None))"
      using p(4) [of s] b(1) i Sub_precise [OF b(3)] by (auto simp: amounts_ok_def)
    have r: "amounts_ok (unat dc) (B1 u lt)" for u using p(4) [of u] s by (auto simp: b(4))
    have "amounts_ok (unat dc) (a2', t2, v2)" using r [of r] b(5) i Add_precise [OF b(6)] by (auto simp: amounts_ok_def)
    with p(1-3) r show "mx \<noteq> None \<and> dec_ok (unat dc) mx \<and> dec_ok (unat dc) tot \<and> (\<forall>u. amounts_ok (unat dc) (bview g' u lt))"
      by (simp add: b(7))
  qed (simp_all add: b(4,7,8))
next
  case (bound k lt pk i)
  from bound(2) obtain a tr vm a' tr' where
    b: "bview g pk lt = (a, tr, vm)" "0 < decval (ti_Amount i)" "decval (ti_Amount i) \<le> decval a" "Decimal_Sub a (ti_Amount i) = Some a'"
      "Decimal_Add tr (ti_Amount i) = Some tr'" "bview g' = (bview g)(pk := (bview g pk)(lt := (a', tr', vm(k \<mapsto> i))))" "tview g' = tview g"
    unfolding bound_view_def by auto
  have "a \<noteq> None" using b(2,3) by (cases a) auto
  note same = Sub_same [OF b(4) this]
  show ?thesis
  proof (rule precise_upd [OF pr, where lt = lt])
    fix ticker tot mx lim dc assume t: "tview g' lt = Some (ticker, tot, mx, lim, dc)"
    note p = preciseD [OF pr t [unfolded b(7)]]
    from p(4) [of pk] b(1) same [of "unat dc"] have "amounts_ok (unat dc) (a', tr', vm(k \<mapsto> i))"
      using Sub_precise [OF b(4)] Add_precise [OF b(5)] by (auto simp: amounts_ok_def)
    with p show "mx \<noteq> None \<and> dec_ok (unat dc) mx \<and> dec_ok (unat dc) tot \<and> (\<forall>u. amounts_ok (unat dc) (bview g' u lt))"
      by (simp add: b(6))
  qed (simp_all add: b(6,7))
next
  case (deployed lt pk)
  then obtain ticker mx lim dc where
    d: "tview g lt = None" "mx \<noteq> None" "dec_ok (unat dc) mx" "bview g' = (bview g)(pk := (bview g pk)(lt := (None, None, Map.empty)))"
      "tview g' = (tview g)(lt := Some (ticker, None, mx, lim, dc))" unfolding deployed_view_def by blast
  show ?thesis
    by (rule precise_upd [OF pr, where lt = lt])
      (use d ledger_wfD(1) [OF wf d(1)] in \<open>auto simp: amounts_ok_def\<close>)
qed

lemma precise_cong: "view g' = view g \<Longrightarrow> precise g \<Longrightarrow> precise g'"
  using viewD [of g' g] by (simp add: precise_def)

lemma reach_precise: "reach e xr g \<Longrightarrow> precise g"
proof (induction rule: reach.induct)
  case (start h)
  then show ?case using init_ledger [of h] by (auto simp: view_def precise_def)
next
  case (event g d g')
  have wf: "ledger_wf e g" using reach_ledger [OF event(1)] by blast
  from precise_step [OF process_event_view [OF event(3) ledger_wfD(4) [OF wf] event(2)] wf event.IH] show ?case .
qed (rule precise_cong; simp)+

text \<open>The bound of the maximum, and with it of every amount.\<close>

definition ranged :: "BRC20ModuleIndexer \<Rightarrow> bool" where
  "ranged g \<longleftrightarrow> (\<forall>lt ticker tot mx lim dc. tview g lt = Some (ticker, tot, mx, lim, dc) \<longrightarrow> in_range (unat dc) mx)"

lemma ranged_cong: "view g' = view g \<Longrightarrow> ranged g \<Longrightarrow> ranged g'"
  using viewD [of g' g] by (simp add: ranged_def)

lemma ranged_step: "view_step e g g' \<Longrightarrow> ranged g \<Longrightarrow> ranged g'"
proof (induction rule: view_step.induct)
  case (same g' g)
  then show ?case by (rule ranged_cong)
next
  case (minted g lt ticker tot mx lim dc amt minted g' pk)
  from minted(5) [unfolded minted_view_def minted(1)] obtain tot' where
    "tview g' = (tview g)(lt := Some (ticker, tot', mx, lim, dc))" by auto
  with minted(1,6) show ?case by (auto simp: ranged_def split: if_splits)
next
  case (deployed g g' lt pk)
  then show ?case by (auto simp: ranged_def deployed_view_def split: if_splits)
qed (auto simp: ranged_def moved_view_def bound_view_def)

lemma reach_ranged: "reach e xr g \<Longrightarrow> ranged g"
proof (induction rule: reach.induct)
  case (start h)
  then show ?case using init_ledger [of h] by (simp add: view_def ranged_def)
next
  case (event g d g')
  have wf: "ledger_wf e g" using reach_ledger [OF event(1)] by blast
  from ranged_step [OF process_event_view [OF event(3) ledger_wfD(4) [OF wf] event(2)] event.IH] show ?case .
qed (rule ranged_cong; simp)+

definition token_precision :: "BRC20TokenInfo \<Rightarrow> nat" where
  "token_precision t = unat (ti_Decimal (tk_Deploy t))"

lemma reach_amounts:
  assumes "reach e xr g" and "g_InscriptionsTickerInfoMap g lt = Some t" and "p = unat (ti_Decimal (tk_Deploy t))"
  shows "dec_ok p (ti_Max (tk_Deploy t))" "dec_ok p (ti_TotalMinted (tk_Deploy t))"
    "balance_of g u lt = Some b \<Longrightarrow> dec_ok p (tb_AvailableBalance b) \<and> dec_ok p (tb_TransferableBalance b) \<and>
       (\<forall>k i. tb_ValidTransferMap b k = Some i \<longrightarrow> dec_ok p (ti_Amount i))"
proof -
  have "tview g lt = Some (tk_Ticker t, ti_TotalMinted (tk_Deploy t), ti_Max (tk_Deploy t), ti_Limit (tk_Deploy t), ti_Decimal (tk_Deploy t))"
    using assms(2) by (simp add: tview_def token_core_def)
  note p = preciseD [OF reach_precise [OF assms(1)] this]
  show "dec_ok p (ti_Max (tk_Deploy t))" "dec_ok p (ti_TotalMinted (tk_Deploy t))" using p by (simp_all add: assms(3))
  show "balance_of g u lt = Some b \<Longrightarrow> dec_ok p (tb_AvailableBalance b) \<and> dec_ok p (tb_TransferableBalance b) \<and>
       (\<forall>k i. tb_ValidTransferMap b k = Some i \<longrightarrow> dec_ok p (ti_Amount i))"
    using p(4) [of u] by (auto simp: assms(3) bview_def bal_core_def amounts_ok_def)
qed

text \<open>A balance of a token that is not deployed is empty.\<close>

lemma OverallBalance_reach:
  assumes "reach e xr g" and "balance_of g u lt = Some b"
  shows "\<exists>d. OverallBalance b = Some d \<and> decval d = overall b"
proof -
  have "\<exists>p. dec_ok p (tb_AvailableBalance b) \<and> dec_ok p (tb_TransferableBalance b)"
  proof (cases "g_InscriptionsTickerInfoMap g lt")
    case None
    then have "bview g u lt = (None, None, Map.empty)"
      using ledger_wfD(1) [of e g lt u] reach_ledger [OF assms(1)] by (simp add: tview_def)
    with assms(2) show ?thesis by (simp add: bview_def bal_core_def)
  next
    case (Some t)
    from reach_amounts(3) [OF assms(1) Some refl assms(2)] show ?thesis by blast
  qed
  then obtain p where "dec_ok p (tb_AvailableBalance b)" "dec_ok p (tb_TransferableBalance b)" by blast
  from Decimal_Add_ok [OF this] obtain d where "OverallBalance b = Some d" by (auto simp: OverallBalance_def)
  then show ?thesis by (auto simp: OverallBalance_def overall_def dest: Decimal_Add_val)
qed

lemma member_le_total:
  assumes "finite (accounts f)" and "\<And>u. 0 \<le> f u"
  shows "f u \<le> total_of f"
proof (cases "u \<in> accounts f")
  case True
  with assms show ?thesis unfolding total_of_def by (intro member_le_sum) auto
next
  case False
  then have "f u = 0" by (simp add: accounts_def)
  moreover have "0 \<le> total_of f" unfolding total_of_def by (rule sum_nonneg) (rule assms(2))
  ultimately show ?thesis by simp
qed

lemma reach_bounds:
  assumes "reach e xr g" and "g_InscriptionsTickerInfoMap g lt = Some t"
  shows "token_precision t \<le> 18" "holding lt g u \<le> MaxUint64 * 10 ^ token_precision t"
proof -
  have "tview g lt = Some (tk_Ticker t, ti_TotalMinted (tk_Deploy t), ti_Max (tk_Deploy t), ti_Limit (tk_Deploy t), ti_Decimal (tk_Deploy t))"
    using assms(2) by (simp add: tview_def token_core_def)
  then have m: "in_range (token_precision t) (ti_Max (tk_Deploy t))"
    using reach_ranged [OF assms(1)] by (auto simp: ranged_def token_precision_def)
  then show "token_precision t \<le> 18" by (simp add: in_range_def)
  note l = token_of_ticker [OF assms(2)]
  from reach_ledger [OF assms(1)] l have ok: "token_ok (the (ledger_of g lt))" by (simp add: tokens_ok_def)
  let ?t = "the (ledger_of g lt)"
  have h: "holding lt g = (\<lambda>u. tok_avail ?t u + tok_bound ?t u)" by (rule holding_token) (simp add: l)
  have fin: "finite (accounts (tok_avail ?t))" "finite (accounts (tok_bound ?t))" using ok unfolding token_ok_def by blast+
  have "accounts (holding lt g) \<subseteq> accounts (tok_avail ?t) \<union> accounts (tok_bound ?t)" unfolding h by (auto simp: accounts_def)
  then have "finite (accounts (holding lt g))" by (rule finite_subset) (use fin in simp)
  then have "holding lt g u \<le> total_of (holding lt g)"
    by (rule member_le_total) (use token_okD(1,2) [OF ok] in \<open>simp add: h add_nonneg_nonneg\<close>)
  with reach_token(1,3) [OF assms] m show "holding lt g u \<le> MaxUint64 * 10 ^ token_precision t" by (simp add: in_range_def)
qed

end
