(* ===== verification/Snapshot_Props.thy ===== *)
theory Snapshot_Props
  imports Snapshot Swap_Scenario Precision
begin

text \<open>
  What a saved and reloaded state and a full copy keep: the ledger of every token and the state of
  every module. A reloaded module has lost the map of marks, and its pools can no longer be used.
\<close>

section \<open>The state of a module\<close>

text \<open>What the functions of a commit read and write.\<close>

definition balance_amounts :: "BRC20ModuleTokenBalance \<Rightarrow> decp list" where
  "balance_amounts b = [mb_SwapAccountBalanceSafe b, mb_ModuleAccountBalanceSafe b, mb_SwapAccountBalance b, mb_AvailableBalanceSafe b,
     mb_AvailableBalance b, mb_ApproveableBalance b, mb_CondApproveableBalance b, mb_ReadyToWithdrawAmount b]"

definition pool_amounts :: "BRC20ModulePoolTotalBalance \<Rightarrow> (string \<times> string) \<times> decp list" where
  "pool_amounts p = ((pl_Tick0 p, pl_Tick1 p), [pl_TickBalance0 p, pl_TickBalance1 p, pl_LpBalance p, pl_LastRootK p])"

definition module_state ::
    "BRC20ModuleSwapInfo \<Rightarrow> (string set \<times> string set \<times> string list) \<times> (string \<Rightarrow> string \<Rightarrow> decp list option) \<times>
     (string \<Rightarrow> ((string \<times> string) \<times> decp list) option) \<times> (string \<Rightarrow> string \<Rightarrow> int) \<times> (string \<Rightarrow> string \<Rightarrow> int)" where
  "module_state m =
     (commit_chain m, \<lambda>u lt. map_option balance_amounts (user_balance m u lt), \<lambda>pair. map_option pool_amounts (m_SwapPoolTotalBalanceDataMap m pair),
      \<lambda>pair u. decval (lp_of_pool m pair u), \<lambda>pair u. decval (lp_of_user m u pair))"

section \<open>The full copy\<close>

lemma module_stateI:
  assumes "commit_chain m' = commit_chain m"
    and "\<And>u lt. map_option balance_amounts (user_balance m' u lt) = map_option balance_amounts (user_balance m u lt)"
    and "\<And>pair. map_option pool_amounts (m_SwapPoolTotalBalanceDataMap m' pair) = map_option pool_amounts (m_SwapPoolTotalBalanceDataMap m pair)"
    and "\<And>pair u. decval (lp_of_pool m' pair u) = decval (lp_of_pool m pair u)"
    and "\<And>pair u. decval (lp_of_user m' u pair) = decval (lp_of_user m u pair)"
  shows "module_state m' = module_state m"
  using assms by (simp add: module_state_def)

lemma copied_amounts [simp]:
  "balance_amounts (ModuleTokenBalance_DeepCopy b) = balance_amounts b" "pool_amounts (PoolTotalBalance_DeepCopy p) = pool_amounts p"
  by (simp_all add: balance_amounts_def pool_amounts_def ModuleTokenBalance_DeepCopy_def ModuleTokenBalance_CherryPick_def
      PoolTotalBalance_DeepCopy_def PoolTotalBalance_CherryPick_def new_module_balance_def)

lemma copied_module:
  assumes "lp_copies m"
  shows "module_state (fst (ModuleSwapInfo_DeepCopy base m heap)) = module_state m"
proof -
  note d = ModuleSwapInfo_DeepCopy_def copy_states_def
  let ?m = "fst (ModuleSwapInfo_DeepCopy base m heap)"
  have user: "lp_of_user ?m u pair = lp_of_user m u pair" for u pair
    by (simp add: d lp_of_user_def lp_entry_def split: option.splits)
  have "lp_of_pool ?m pair u = (if lp_of_pool m pair u = None \<and> decval (lp_of_pool ?m pair u) = 0 then lp_of_pool ?m pair u else lp_of_user m u pair)" for pair u
    by (auto simp: d lp_of_user_def lp_of_pool_def lp_entry_def split: option.splits)
  then have pool: "decval (lp_of_pool ?m pair u) = decval (lp_of_pool m pair u)" for pair u
    using assms unfolding lp_copies_def by (metis decval_simps(1))
  show ?thesis
    by (rule module_stateI)
      (simp_all add: user pool, auto simp: d commit_chain_def module_settings_def user_balance_def option.map_comp comp_def split: option.splits)
qed

lemma module_of_heap [simp]: "module_of (g\<lparr>g_TransferHeap := h\<rparr>) = module_of g"
  by (simp add: module_of_def fun_eq_iff)

lemma module_of_copy_module:
  "module_of (copy_module base (k, m) g) = (module_of g)(k \<mapsto> fst (ModuleSwapInfo_DeepCopy base m (g_TransferHeap g)))"
  by (simp add: copy_module_def split: prod.splits)

lemma view_copy_module [simp]: "bview (copy_module base kv g) = bview g" "tview (copy_module base kv g) = tview g"
  by (simp_all add: copy_module_def bview_def tview_def balance_of_def set_module_def fun_eq_iff split: prod.splits)

lemma view_copy_modules [simp]:
  "bview (fold (copy_module base) ms g) = bview g" "tview (fold (copy_module base) ms g) = tview g"
  by (induction ms arbitrary: g) simp_all

lemma copied_modules:
  assumes "\<And>m. map_of ms k = Some m \<Longrightarrow> lp_copies m"
  shows "map_option module_state (module_of (fold (copy_module base) (rev ms) g) k) =
    (case map_of ms k of None \<Rightarrow> map_option module_state (module_of g k) | Some m \<Rightarrow> Some (module_state m))"
  using assms
proof (induction ms)
  case (Cons a ms)
  obtain k' m where a: "a = (k', m)" by fastforce
  show ?case using Cons by (cases "k' = k") (auto simp: a module_of_copy_module copied_module)
qed simp

lemma copied_tick [simp]:
  "ti_Amount (TickInfo_DeepCopy i) = ti_Amount i" "token_core (TokenInfo_DeepCopy t) = token_core t"
  by (simp_all add: TickInfo_DeepCopy_def TokenInfo_DeepCopy_def token_core_def)

lemma copied_ledger: "ledger_of (deepCopyBRC20Data rg (Init zero_indexer) g) = ledger_of g"
proof -
  let ?c = "deepCopyBRC20Data rg (Init zero_indexer) g"
  have t: "tview ?c = tview g"
    by (simp add: tview_def deepCopyBRC20Data_def Init_def initBRC20_def initModule_def zero_indexer_def fun_eq_iff option.map_comp comp_def)
  have "balance_of ?c u lt = map_option TokenBalance_DeepCopy (balance_of g u lt)" for u lt
    by (simp add: balance_of_def deepCopyBRC20Data_def Init_def initBRC20_def initModule_def zero_indexer_def split: option.splits)
  then have "bview ?c u lt = (case bview g u lt of (a, t, vm) \<Rightarrow> (a, t, \<lambda>k. map_option TickInfo_DeepCopy (vm k)))" for u lt
    by (simp add: bview_def bal_core_def TokenBalance_DeepCopy_def split: option.splits)
  with t show ?thesis
    by (auto simp: ledger_of_def token_of_def fun_eq_iff option.map_comp comp_def split: prod.splits intro!: option.map_cong)
qed

lemma DeepCopy_views:
  "ledger_of (DeepCopy rg g) = ledger_of (deepCopyBRC20Data rg (Init zero_indexer) g)"
  "module_of (DeepCopy rg g) = module_of (fold (copy_module (g_TransferHeap g)) (rev (g_ModulesInfoMap g)) (deepCopyBRC20Data rg (Init zero_indexer) g))"
proof -
  let ?c = "fold (copy_module (g_TransferHeap g)) (rev (g_ModulesInfoMap g)) (deepCopyBRC20Data rg (Init zero_indexer) g)"
  have "bview (DeepCopy rg g) = bview ?c" "tview (DeepCopy rg g) = tview ?c" "module_of (DeepCopy rg g) = module_of ?c"
    by (simp_all add: DeepCopy_def deepCopyModuleData_def Let_def copy_states_def bview_def tview_def balance_of_def module_of_def fun_eq_iff
      del: view_copy_modules)
  then show "ledger_of (DeepCopy rg g) = ledger_of (deepCopyBRC20Data rg (Init zero_indexer) g)" "module_of (DeepCopy rg g) = module_of ?c"
    by (simp_all add: ledger_of_def fun_eq_iff)
qed

section \<open>The reloaded store\<close>

definition holders_of :: "(string \<rightharpoonup> string set) \<Rightarrow> string \<Rightarrow> string set" where
  "holders_of h lt = (case h lt of None \<Rightarrow> {} | Some us \<Rightarrow> us)"

lemma holders_of_upd [simp]:
  "holders_of (make_holders lt h) = holders_of h"
  "holders_of (add_holder lt u h) = (holders_of h)(lt := insert u (holders_of h lt))"
  by (auto simp: holders_of_def make_holders_def add_holder_def fun_eq_iff split: option.splits)

lemma loaded_holders:
  assumes "\<And>u lt b. data u \<bind> (\<lambda>t. t lt) = Some b \<Longrightarrow> \<exists>d. OverallBalance b = Some d \<and> decval d = overall b"
  shows "\<exists>h'. load_holders data keys h = Some h' \<and> (\<forall>lt. holders_of h' lt = holders_of h lt \<union>
    {u. (u, lt) \<in> set keys \<and> (\<exists>b. data u \<bind> (\<lambda>t. t lt) = Some b \<and> 0 < overall b)})"
proof (induction keys arbitrary: h)
  case (Cons a keys)
  obtain u lt where a: "a = (u, lt)" by fastforce
  show ?case
  proof (cases "data u \<bind> (\<lambda>t. t lt)")
    case None
    with Cons.IH [of h] show ?thesis by (auto simp: a)
  next
    case (Some b)
    from assms [OF this] obtain d where d: "OverallBalance b = Some d" "decval d = overall b" by blast
    from Cons.IH [of "if 0 < overall b then add_holder lt u (make_holders lt h) else make_holders lt h"] obtain h' where
      h': "load_holders data keys (if 0 < overall b then add_holder lt u (make_holders lt h) else make_holders lt h) = Some h'"
        "\<forall>x. holders_of h' x = holders_of (if 0 < overall b then add_holder lt u (make_holders lt h) else make_holders lt h) x \<union>
           {v. (v, x) \<in> set keys \<and> (\<exists>b. data v \<bind> (\<lambda>t. t x) = Some b \<and> 0 < overall b)}" by blast
    have "load_holders data (a # keys) h = Some h'" using h'(1) by (simp add: a Some d)
    moreover have "holders_of h' x = holders_of h x \<union> {v. (v, x) \<in> set (a # keys) \<and> (\<exists>b. data v \<bind> (\<lambda>t. t x) = Some b \<and> 0 < overall b)}" for x
      using h'(2) Some by (cases "x = lt") (auto simp: a)
    ultimately show ?thesis by blast
  qed
qed simp

lemma loaded_user_lp:
  "lp_entry (load_user_lp data keys users) u pair =
    (if (pair, u) \<in> set keys \<and> data pair \<bind> (\<lambda>t. t u) \<noteq> None then lp_entry data pair u else lp_entry users u pair)"
proof (induction keys arbitrary: users)
  case (Cons a keys)
  obtain p v where a: "a = (p, v)" by fastforce
  have "lp_entry (users(v \<mapsto> (case users v of None \<Rightarrow> Map.empty | Some t \<Rightarrow> t)(p \<mapsto> d))) u pair =
    (if v = u \<and> p = pair then d else lp_entry users u pair)" for d
    by (auto simp: lp_entry_def split: option.splits)
  moreover have "lp_entry data p v = d" if "data p \<bind> (\<lambda>t. t v) = Some d" for d
    using that by (auto simp: lp_entry_def split: option.splits)
  ultimately show ?case using Cons.IH by (auto simp: a split: option.splits)
qed simp

lemma loaded_module:
  assumes c: "lp_copies m" and all: "\<And>pair u. m_LPTokenUsersBalanceMap m pair \<bind> (\<lambda>t. t u) \<noteq> None \<Longrightarrow> (pair, u) \<in> set lps"
  shows "module_state (load_module bs lps (module_store m)) = module_state m"
proof -
  let ?m = "load_module bs lps (module_store m)"
  note d = load_module_def module_store_def
  have "lp_of_user ?m u pair = (if m_LPTokenUsersBalanceMap m pair \<bind> (\<lambda>t. t u) = None then None else lp_of_pool m pair u)" for u pair
    using all [of pair u] by (auto simp: d lp_of_user_def lp_of_pool_def loaded_user_lp) (simp add: lp_entry_def)
  then have "lp_of_user ?m u pair = lp_of_pool m pair u" for u pair
    by (auto simp: lp_of_pool_def lp_entry_def split: option.splits)
  with c show ?thesis
    by (intro module_stateI) (simp_all add: d commit_chain_def module_settings_def user_balance_def lp_of_pool_def lp_copies_def)
qed

lemma loaded_modules:
  "module_of (fold (\<lambda>(k, s) g. set_module g k (L k s)) (rev ss) g) k =
    (case map_of ss k of None \<Rightarrow> module_of g k | Some s \<Rightarrow> Some (L k s))"
  by (induction ss) (auto split: prod.splits)

lemma loaded_views:
  "bview (fold (\<lambda>(k, s) g. set_module g k (L k s)) ss g) = bview g" "tview (fold (\<lambda>(k, s) g. set_module g k (L k s)) ss g) = tview g"
  "g_TokenUsersBalanceData (fold (\<lambda>(k, s) g. set_module g k (L k s)) ss g) = g_TokenUsersBalanceData g"
  by (induction ss arbitrary: g) (auto simp: bview_def tview_def balance_of_def set_module_def fun_eq_iff)

lemma GetStore_modules: "map_of (st_ModulesInfoMap (GetStore g)) k = map_option module_store (module_of g k)"
  by (simp add: GetStore_def module_of_def map_of_map)

lemma LoadStore_fold:
  assumes "LoadStore rg s (Init zero_indexer) = Some g'"
  obtains G where "load_holders (st_UserTokensBalanceData s) (rg_balances rg) Map.empty = Some (g_TokenUsersBalanceData G)"
    "g' = fold (\<lambda>(k, ms) g. set_module g k (load_module (rg_module_balances rg k) (rg_module_lp rg k) ms)) (rev (st_ModulesInfoMap s)) G"
    "g_UserTokensBalanceData G = st_UserTokensBalanceData s" "g_InscriptionsTickerInfoMap G = st_InscriptionsTickerInfoMap s"
    "module_of G = Map.empty"
proof -
  have z: "g_TokenUsersBalanceData (Init zero_indexer) = Map.empty" "g_ModulesInfoMap (Init zero_indexer) = []"
    by (simp_all add: Init_def initBRC20_def initModule_def zero_indexer_def)
  show thesis
    using assms unfolding LoadStore_def z Let_def
    by (elim bind_SomeE, intro that) (auto simp: module_of_def z)
qed

lemma loaded_store:
  assumes "LoadStore rg (GetStore g) (Init zero_indexer) = Some g'"
  shows "module_of g' k = map_option (\<lambda>m. load_module (rg_module_balances rg k) (rg_module_lp rg k) (module_store m)) (module_of g k)"
    "ledger_of g' = ledger_of g"
    "load_holders (g_UserTokensBalanceData g) (rg_balances rg) Map.empty = Some (g_TokenUsersBalanceData g')"
proof -
  from LoadStore_fold [OF assms] obtain G where G:
    "load_holders (st_UserTokensBalanceData (GetStore g)) (rg_balances rg) Map.empty = Some (g_TokenUsersBalanceData G)"
    "g' = fold (\<lambda>(k, ms) g. set_module g k (load_module (rg_module_balances rg k) (rg_module_lp rg k) ms)) (rev (st_ModulesInfoMap (GetStore g))) G"
    "g_UserTokensBalanceData G = st_UserTokensBalanceData (GetStore g)" "g_InscriptionsTickerInfoMap G = st_InscriptionsTickerInfoMap (GetStore g)"
    "module_of G = Map.empty" .
  show "module_of g' k = map_option (\<lambda>m. load_module (rg_module_balances rg k) (rg_module_lp rg k) (module_store m)) (module_of g k)"
    unfolding G(2) loaded_modules GetStore_modules by (simp add: G(5) split: option.splits)
  have "bview G = bview g" "tview G = tview g" by (simp_all add: bview_def tview_def balance_of_def G(3,4) GetStore_def fun_eq_iff)
  then show "ledger_of g' = ledger_of g" by (simp add: G(2) ledger_of_def loaded_views fun_eq_iff)
  show "load_holders (g_UserTokensBalanceData g) (rg_balances rg) Map.empty = Some (g_TokenUsersBalanceData g')"
    using G(1) by (simp add: G(2) loaded_views GetStore_def)
qed

section \<open>Properties\<close>

lemma reach_lp_copies: "reach e xr g \<Longrightarrow> module_of g k = Some m \<Longrightarrow> lp_copies m"
  using lp_inv.reached [of e xr g] by (auto simp: all_modules_def lp_ok_def)

definition swap_ranges :: ranges where
  "swap_ranges = \<lparr>rg_balances = [(''alice'', ''ordi''), (''alice'', ''sats''), (swap_script, ''ordi''), (swap_script, ''sats'')], rg_commits = [''k8''],
     rg_module_balances = (\<lambda>_. [(''alice'', ''ordi''), (''alice'', ''sats'')]), rg_module_lp = (\<lambda>_. [(pool_name, ''alice'')])\<rparr>"

text \<open>
  C19. The full copy is equivalent to the original: the ledger of every token is the same, and every
  module has the same settings, commits, user balances, pools and LP balances.
\<close>

theorem deep_copy_equivalent:
  assumes "reach e xr g"
  shows "ledger_of (DeepCopy rg g) = ledger_of g \<and>
    (\<forall>k. map_option module_state (module_of (DeepCopy rg g) k) = map_option module_state (module_of g k))"
proof -
  have "map_option module_state (module_of (DeepCopy rg g) k) = map_option module_state (module_of g k)" for k
  proof -
    have "map_of (g_ModulesInfoMap g) k = Some m \<Longrightarrow> lp_copies m" for m
      using reach_lp_copies [OF assms, of k m] by (simp add: module_of_def)
    from copied_modules [OF this, where base = "g_TransferHeap g" and g = "deepCopyBRC20Data rg (Init zero_indexer) g"] show ?thesis
      unfolding DeepCopy_views(2) module_of_def [of g k]
      by (auto split: option.splits simp: module_of_def deepCopyBRC20Data_def Init_def initBRC20_def initModule_def zero_indexer_def)
  qed
  then show ?thesis using copied_ledger by (simp add: DeepCopy_views(1))
qed

theorem deep_copy_equivalent_witness:
  "\<exists>m. module_of (DeepCopy swap_ranges swap_state) swap_module = Some m \<and> decval (lp_of_pool m pool_name ''alice'') = 1828"
proof -
  obtain m where m: "module_of swap_state swap_module = Some m" "decval (lp_of_pool m pool_name ''alice'') = 1828"
    by (rule swap_state_module)
  with deep_copy_equivalent [OF swap_reach, of swap_ranges] obtain m' where
    "module_of (DeepCopy swap_ranges swap_state) swap_module = Some m'" "module_state m' = module_state m" by (auto dest!: spec [of _ swap_module])
  with m(2) show ?thesis by (auto simp: module_state_def fun_eq_iff)
qed

lemma LoadStore_total:
  assumes "reach e xr g"
  shows "\<exists>g'. LoadStore rg (GetStore g) (Init zero_indexer) = Some g' \<and> (\<forall>lt. holders_of (g_TokenUsersBalanceData g') lt =
    {u. (u, lt) \<in> set (rg_balances rg) \<and> (\<exists>b. balance_of g u lt = Some b \<and> 0 < overall b)})"
proof -
  have b: "g_UserTokensBalanceData g u \<bind> (\<lambda>t. t lt) = balance_of g u lt" for u lt
    by (simp add: balance_of_def split: option.splits)
  have "\<exists>h. load_holders (g_UserTokensBalanceData g) (rg_balances rg) Map.empty = Some h \<and> (\<forall>lt. holders_of h lt = holders_of Map.empty lt \<union>
    {u. (u, lt) \<in> set (rg_balances rg) \<and> (\<exists>b. g_UserTokensBalanceData g u \<bind> (\<lambda>t. t lt) = Some b \<and> 0 < overall b)})"
    by (rule loaded_holders) (use OverallBalance_reach [OF assms] b in auto)
  then obtain h where h: "load_holders (g_UserTokensBalanceData g) (rg_balances rg) Map.empty = Some h"
    "\<And>lt. holders_of h lt = {u. (u, lt) \<in> set (rg_balances rg) \<and> (\<exists>b. balance_of g u lt = Some b \<and> 0 < overall b)}"
    unfolding b by (auto simp: holders_of_def)
  have "g_TokenUsersBalanceData (Init zero_indexer) = Map.empty" by (simp add: Init_def initBRC20_def initModule_def zero_indexer_def)
  then obtain g' where "LoadStore rg (GetStore g) (Init zero_indexer) = Some g'"
    using h(1) by (simp add: LoadStore_def GetStore_def)
  with h loaded_store(3) [OF this] show ?thesis by auto
qed

text \<open>A loop over the store visits every entry.\<close>

definition ranges_complete :: "ranges \<Rightarrow> BRC20ModuleIndexer \<Rightarrow> bool" where
  "ranges_complete rg g \<longleftrightarrow> (\<forall>u lt. balance_of g u lt \<noteq> None \<longrightarrow> (u, lt) \<in> set (rg_balances rg)) \<and>
     (\<forall>k m pair u. module_of g k = Some m \<longrightarrow> m_LPTokenUsersBalanceMap m pair \<bind> (\<lambda>t. t u) \<noteq> None \<longrightarrow> (pair, u) \<in> set (rg_module_lp rg k))"

text \<open>
  C20. A state that is saved and loaded into a fresh indexer has the ledger and the modules it had, and the
  holders of a token are the users with a positive balance. Loading does not panic.
\<close>

theorem store_roundtrip:
  assumes r: "reach e xr g" and c: "ranges_complete rg g"
  shows "\<exists>g'. LoadStore rg (GetStore g) (Init zero_indexer) = Some g' \<and> ledger_of g' = ledger_of g \<and>
    (\<forall>lt. holders_of (g_TokenUsersBalanceData g') lt = {u. 0 < holding lt g u}) \<and>
    (\<forall>k. map_option module_state (module_of g' k) = map_option module_state (module_of g k))"
proof -
  obtain g' where g': "LoadStore rg (GetStore g) (Init zero_indexer) = Some g'"
    "\<And>lt. holders_of (g_TokenUsersBalanceData g') lt = {u. (u, lt) \<in> set (rg_balances rg) \<and> (\<exists>b. balance_of g u lt = Some b \<and> 0 < overall b)}"
    using LoadStore_total [OF r, of rg] by blast
  have "holders_of (g_TokenUsersBalanceData g') lt = {u. 0 < holding lt g u}" for lt
    using g'(2) c by (auto simp: holding_def ranges_complete_def split: option.splits)
  moreover have "map_option module_state (module_of g' k) = map_option module_state (module_of g k)" for k
    unfolding loaded_store(1) [OF g'(1)] using loaded_module [OF reach_lp_copies [OF r]] c
    by (cases "module_of g k") (auto simp: ranges_complete_def)
  ultimately show ?thesis using g'(1) loaded_store(2) [OF g'(1)] by blast
qed

text \<open>The balances and the modules of the small run.\<close>

lemma demo_entries:
  "case run_fresh run_env None demo_events ((Init zero_indexer)\<lparr>g_EnableHistory := False\<rparr>) of None \<Rightarrow> True
   | Some g \<Rightarrow> g_ModulesInfoMap g = [] \<and> (balance_of g u lt \<noteq> None \<longrightarrow> (u, lt) \<in> set [(''alice'', ''ordi''), (''bob'', ''ordi'')])"
  apply code_simp
  by (auto split: if_splits)

definition demo_ranges :: ranges where
  "demo_ranges = \<lparr>rg_balances = [(''alice'', ''ordi''), (''bob'', ''ordi'')], rg_commits = [], rg_module_balances = (\<lambda>_. []), rg_module_lp = (\<lambda>_. [])\<rparr>"

lemma demo_ranges_complete: "ranges_complete demo_ranges demo_state"
  using demo_entries [unfolded demo_run_state(1)] by (auto simp: ranges_complete_def demo_ranges_def module_of_def)

theorem store_roundtrip_witness:
  "\<exists>g'. LoadStore demo_ranges (GetStore demo_state) (Init zero_indexer) = Some g' \<and> ledger_of g' = ledger_of demo_state \<and>
     {''alice'', ''bob''} \<subseteq> holders_of (g_TokenUsersBalanceData g') ''ordi''"
proof -
  have "0 < holding ''ordi'' demo_state ''alice''" "0 < holding ''ordi'' demo_state ''bob''"
    using demo_reach(2) by (auto simp: demo_summary_def holding_def overall_def)
  with store_roundtrip [OF demo_reach(1) demo_ranges_complete] show ?thesis by auto
qed

section \<open>The pools of a reloaded module\<close>

lemma credit_lp_nil: "m_LPTokenUsersBalanceUpdatedMap m = None \<Longrightarrow> credit_lp m pair pk amt = None"
  by (simp add: credit_lp_def)

lemma issue_lp_fee_nil:
  "issue_lp_fee m pair pool i j = Some (p, m') \<Longrightarrow> m_LPTokenUsersBalanceUpdatedMap m = None \<Longrightarrow> m' = m"
  by (auto simp: issue_lp_fee_def credit_lp_nil set_pool_def elim!: bind_SomeE split: if_splits)

lemma user_balances_keep_marks:
  "m_LPTokenUsersBalanceUpdatedMap (Module_GetUserTokenBalance e m tick pk) = m_LPTokenUsersBalanceUpdatedMap m"
  "m_LPTokenUsersBalanceUpdatedMap (touch_user e g tick pk m) = m_LPTokenUsersBalanceUpdatedMap m"
  "swap_debit e tick pk amt m = Some m' \<Longrightarrow> m_LPTokenUsersBalanceUpdatedMap m' = m_LPTokenUsersBalanceUpdatedMap m"
  by (auto simp: Module_GetUserTokenBalance_def touch_user_def upd_user_def put_balance_def set_user_balance_def swap_debit_def Let_def
      elim!: bind_SomeE split: option.splits)

lemma pool_functions_nil:
  assumes "m_LPTokenUsersBalanceUpdatedMap m = None"
  shows "ProcessCommitFunctionAddLiquidity e g m f \<noteq> Some (None, m')" "ProcessCommitFunctionRemoveLiquidity e g m f \<noteq> Some (None, m')"
    "ProcessCommitFunctionSendLp e g m f \<noteq> Some (None, m')"
proof -
  have a: "add_liq_finish e g m f pp pool fr t0 t1 i j a0 a1 lp lu la sl \<noteq> Some (None, m')" for pp pool fr t0 t1 i j a0 a1 lp lu la sl
    using assms
    by (auto simp: add_liq_finish_def add_liq_apply_def Let_def credit_lp_nil user_balances_keep_marks elim!: bind_SomeE split: if_splits)
  show "ProcessCommitFunctionAddLiquidity e g m f \<noteq> Some (None, m')"
    using assms a
    by (auto simp: ProcessCommitFunctionAddLiquidity_def Let_def elim!: bind_SomeE split: if_splits option.splits prod.splits
        dest!: issue_lp_fee_nil)
  have r: "remove_liq_apply e g m f pp pool t0 t1 i j a0 a1 la \<noteq> Some (None, m')" for pp pool t0 t1 i j a0 a1 la
    using assms by (auto simp: remove_liq_apply_def Let_def elim!: bind_SomeE split: if_splits)
  show "ProcessCommitFunctionRemoveLiquidity e g m f \<noteq> Some (None, m')"
    using assms r
    by (auto simp: ProcessCommitFunctionRemoveLiquidity_def Let_def elim!: bind_SomeE split: if_splits option.splits prod.splits
        dest!: issue_lp_fee_nil)
  show "ProcessCommitFunctionSendLp e g m f \<noteq> Some (None, m')"
    using assms by (auto simp: ProcessCommitFunctionSendLp_def Let_def elim!: bind_SomeE split: if_splits)
qed

text \<open>
  C21. After the store was loaded, no module can have liquidity added to or removed from its pools, nor LP
  tokens sent: the map of marks is \<open>nil\<close>, and each of the three functions ends in an error or in the
  panic of a write to it.
\<close>

theorem reloaded_pools_unusable:
  assumes "LoadStore rg (GetStore g) (Init zero_indexer) = Some g'" and "module_of g' k = Some m"
    and "sf_Function f \<in> {FUNCTION_ADD_LIQ, FUNCTION_REMOVE_LIQ, FUNCTION_SENDLP}"
  shows "commit_function e g'' m f \<noteq> Some (None, m')"
proof -
  have "m_LPTokenUsersBalanceUpdatedMap m = None" using assms(2) unfolding loaded_store(1) [OF assms(1)] by (auto simp: load_module_def)
  from pool_functions_nil [OF this] assms(3) show ?thesis
    by (auto simp: commit_function_def FUNCTION_ADD_LIQ_def FUNCTION_REMOVE_LIQ_def FUNCTION_SENDLP_def FUNCTION_DEPLOY_POOL_def
        FUNCTION_SWAP_def FUNCTION_DECREASE_APPROVAL_def FUNCTION_SEND_def)
qed

definition one_add :: SwapFunctionData where
  "one_add = \<lparr>sf_Address = ''alice'', sf_Function = ''addLiq'',
     sf_Params = [''ordi/sats'', ''100'', ''200'', ''1'', ''0.005''], sf_Timestamp = 1, sf_Signature = '''', sf_ID = '''', sf_PkScript = ''alice''\<rparr>"

theorem reloaded_pools_unusable_witness:
  "\<exists>g' m. LoadStore swap_ranges (GetStore swap_state) (Init zero_indexer) = Some g' \<and> module_of g' swap_module = Some m \<and>
     (\<forall>m'. commit_function swap_env g' m one_add \<noteq> Some (None, m'))"
proof -
  obtain g' where g': "LoadStore swap_ranges (GetStore swap_state) (Init zero_indexer) = Some g'"
    using LoadStore_total [OF swap_reach, of swap_ranges] by blast
  obtain m0 where "module_of swap_state swap_module = Some m0" by (rule swap_state_module)
  with loaded_store(1) [OF g'] obtain m where m: "module_of g' swap_module = Some m" by auto
  have "sf_Function one_add \<in> {FUNCTION_ADD_LIQ, FUNCTION_REMOVE_LIQ, FUNCTION_SENDLP}" by (simp add: one_add_def FUNCTION_ADD_LIQ_def)
  from reloaded_pools_unusable [OF g' m this] g' m show ?thesis by blast
qed

end
