(* ===== verification/Database.thy ===== *)
theory Database
  imports Indexer_Loop
begin

text \<open>
  The state in the database: \<open>loader/save_to_db.go\<close>, \<open>loader/load_from_db.go\<close> and
  \<open>indexer/store.go\<close>.

  A row of a table is a record with the columns the code writes; a column of amounts is text. Saving
  is the list of rows given to the prepared statements, and \<open>None\<close> is a panic. A statement that the
  database refuses is a panic too and is left out. Loading reads the rows a query returned, as
  they are scanned: \<open>None\<close> is a panic, \<open>Inl\<close> the error that ends the program. The queries are in the
  second section, as functions of the rows of a table: those of the greatest height for a key.
  The order in which rows are returned is not fixed, and what the database does to the text of an
  amount (a column \<open>numeric(40,18)\<close>) is a parameter, \<open>num\<close>.

  A loop over a map visits the keys in an order that is a parameter.
\<close>

section \<open>Rows\<close>

record ticker_info_row =
  tir_block_height :: u32
  tir_tick :: string
  tir_max_supply :: string
  tir_decimals :: string
  tir_limit_per_mint :: string
  tir_minted :: string
  tir_pkscript_deployer :: string
  tir_self_mint :: bool

record user_balance_row =
  ubr_block_height :: u32
  ubr_tick :: string
  ubr_pkscript :: string
  ubr_available_balance :: string
  ubr_transferable_balance :: string

text \<open>The five tables of moved inscriptions have the same columns.\<close>

record state_row =
  mvr_block_height :: u32
  mvr_create_key :: string
  mvr_moved :: bool

record valid_transfer_row =
  vtr_block_height :: u32
  vtr_create_key :: string
  vtr_tick :: string
  vtr_pkscript :: string
  vtr_amount :: string
  vtr_inscription_number :: i64
  vtr_inscription_id :: string
  vtr_txid :: string
  vtr_vout :: u32
  vtr_output_value :: u64
  vtr_output_offset :: u64

text \<open>An approval, a conditional approval or a withdraw: a transfer in a module.\<close>

record valid_module_row = valid_transfer_row +
  vmr_module_id :: string

record valid_commit_row =
  vcr_block_height :: u32
  vcr_module_id :: string
  vcr_create_key :: string
  vcr_pkscript :: string
  vcr_inscription_number :: i64
  vcr_inscription_id :: string
  vcr_txid :: string
  vcr_vout :: u32
  vcr_output_value :: u64
  vcr_output_offset :: u64
  vcr_inscription_content :: string

record swap_info_row =
  sir_block_height :: u32
  sir_module_id :: string
  sir_name :: string
  sir_pkscript_deployer :: string
  sir_pkscript_sequencer :: string
  sir_pkscript_gas_to :: string
  sir_pkscript_lp_fee :: string
  sir_gas_tick :: string
  sir_fee_rate_swap :: string

text \<open>A history record: the key column (the ticker or the module), the common columns and, for a token, the amounts.\<close>

record history_row =
  hr_block_height :: u32
  hr_key :: string
  hr_history_type :: u8
  hr_valid :: bool
  hr_txid :: string
  hr_idx :: u32
  hr_vout :: u32
  hr_output_value :: u64
  hr_output_offset :: u64
  hr_pkscript_from :: string
  hr_pkscript_to :: string
  hr_fee :: i64
  hr_txidx :: u32
  hr_block_time :: u32
  hr_inscription_number :: i64
  hr_inscription_id :: string
  hr_inscription_content :: string

record token_history_row = history_row +
  hr_amount :: string
  hr_available_balance :: string
  hr_transferable_balance :: string

record commit_chain_row =
  ccr_block_height :: u32
  ccr_module_id :: string
  ccr_commit_id :: string
  ccr_valid :: bool
  ccr_connected :: bool

record module_balance_row =
  mbr_block_height :: u32
  mbr_module_id :: string
  mbr_tick :: string
  mbr_pkscript :: string
  mbr_swap_balance :: string
  mbr_available_balance :: string
  mbr_approveable_balance :: string
  mbr_cond_approveable_balance :: string
  mbr_ready_to_withdraw_amount :: string

text \<open>The reserves are written as values of the type \<open>Decimal\<close>; \<open>None\<close> is \<open>NULL\<close>.\<close>

record pool_balance_row =
  pbr_block_height :: u32
  pbr_module_id :: string
  pbr_pool :: string
  pbr_tick0 :: string
  pbr_tick0_balance :: "string option"
  pbr_tick1 :: string
  pbr_tick1_balance :: "string option"
  pbr_lp_balance :: string

record user_lp_row =
  ulr_block_height :: u32
  ulr_module_id :: string
  ulr_pool :: string
  ulr_pkscript :: string
  ulr_lp_balance :: string

section \<open>Saving\<close>

text \<open>\<open>for k, v := range m { if v.Height != height { continue }; stmt.Exec(...) }\<close>\<close>

fun save_rows :: "('v \<Rightarrow> bool) \<Rightarrow> ('k \<Rightarrow> 'v \<Rightarrow> 'r option) \<Rightarrow> ('k \<Rightarrow> 'v option) \<Rightarrow> 'k list \<Rightarrow> 'r list option" where
  "save_rows due row m [] = Some []"
| "save_rows due row m (k # keys) =
     (case m k of
        None \<Rightarrow> save_rows due row m keys
      | Some v \<Rightarrow>
          if \<not> due v then save_rows due row m keys
          else do { r \<leftarrow> row k v; rs \<leftarrow> save_rows due row m keys; Some (r # rs) })"

definition row_of_ticker :: "u32 \<Rightarrow> BRC20TokenInfo \<Rightarrow> ticker_info_row option" where
  "row_of_ticker height info =
     do { minted \<leftarrow> Decimal_String (ti_TotalMinted (tk_Deploy info));
          Some \<lparr>tir_block_height = height, tir_tick = tk_Ticker info, tir_max_supply = r_BRC20Max (ti_Data (tk_Deploy info)),
            tir_decimals = r_BRC20Decimal (ti_Data (tk_Deploy info)), tir_limit_per_mint = r_BRC20Limit (ti_Data (tk_Deploy info)),
            tir_minted = minted, tir_pkscript_deployer = ti_PkScript (tk_Deploy info), tir_self_mint = ti_SelfMint (tk_Deploy info)\<rparr> }"

definition SaveDataToDBTickerInfoMap :: "u32 \<Rightarrow> string list \<Rightarrow> (string \<rightharpoonup> BRC20TokenInfo) \<Rightarrow> ticker_info_row list option" where
  "SaveDataToDBTickerInfoMap height keys inscriptionsTickerInfoMap =
     save_rows (\<lambda>info. tk_UpdateHeight info = height) (\<lambda>_. row_of_ticker height) inscriptionsTickerInfoMap keys"

text \<open>A pair of keys of two nested maps.\<close>

definition at2 :: "('a \<Rightarrow> ('b \<Rightarrow> 'v option) option) \<Rightarrow> 'a \<times> 'b \<Rightarrow> 'v option" where
  "at2 m k = (case m (fst k) of None \<Rightarrow> None | Some t \<Rightarrow> t (snd k))"

definition row_of_user_balance :: "u32 \<Rightarrow> BRC20TokenBalance \<Rightarrow> user_balance_row option" where
  "row_of_user_balance height balanceData =
     do { available \<leftarrow> Decimal_String (tb_AvailableBalance balanceData);
          transferable \<leftarrow> Decimal_String (tb_TransferableBalance balanceData);
          Some \<lparr>ubr_block_height = height, ubr_tick = tb_Ticker balanceData, ubr_pkscript = tb_PkScript balanceData,
            ubr_available_balance = available, ubr_transferable_balance = transferable\<rparr> }"

definition SaveDataToDBTickerBalanceMap ::
    "u32 \<Rightarrow> (string \<times> string) list \<Rightarrow> (string \<rightharpoonup> string \<rightharpoonup> BRC20TokenBalance) \<Rightarrow> user_balance_row list option" where
  "SaveDataToDBTickerBalanceMap height keys userTokensBalanceData =
     save_rows (\<lambda>balanceData. tb_UpdateHeight balanceData = height) (\<lambda>_. row_of_user_balance height) (at2 userTokensBalanceData) keys"

text \<open>The records are filtered by height and validity. A record whose inscription has no data is a \<open>nil\<close> dereference.\<close>

definition row_of_token_history :: "u32 \<Rightarrow> BRC20History \<Rightarrow> token_history_row option" where
  "row_of_token_history height h =
     do { data \<leftarrow> ir_Data (h_Inscription h);
          Some \<lparr>hr_block_height = height, hr_key = r_BRC20Tick data, hr_history_type = h_Type h, hr_valid = h_Valid h,
            hr_txid = h_TxId h, hr_idx = h_Idx h, hr_vout = h_Vout h, hr_output_value = h_Satoshi h, hr_output_offset = h_Offset h,
            hr_pkscript_from = h_PkScriptFrom h, hr_pkscript_to = h_PkScriptTo h, hr_fee = h_Fee h, hr_txidx = h_TxIdx h,
            hr_block_time = h_BlockTime h, hr_inscription_number = ir_InscriptionNumber (h_Inscription h),
            hr_inscription_id = ir_InscriptionId (h_Inscription h), hr_inscription_content = ''{}'', hr_amount = h_Amount h,
            hr_available_balance = h_AvailableBalance h, hr_transferable_balance = h_TransferableBalance h\<rparr> }"

definition SaveDataToDBTickerHistoryMap :: "u32 \<Rightarrow> BRC20History list \<Rightarrow> token_history_row list option" where
  "SaveDataToDBTickerHistoryMap height allHistory =
     save_rows (\<lambda>h. h_Height h = height \<and> h_Valid h) (\<lambda>_. row_of_token_history height) Some allHistory"

definition save_states :: "u32 \<Rightarrow> string list \<Rightarrow> (string \<rightharpoonup> u32) \<Rightarrow> state_row list option" where
  "save_states height keys removed =
     save_rows (\<lambda>removeHeight. removeHeight = height)
       (\<lambda>createKey _. Some \<lparr>mvr_block_height = height, mvr_create_key = createKey, mvr_moved = True\<rparr>) removed keys"

definition SaveDataToDBTransferStateMap :: "u32 \<Rightarrow> string list \<Rightarrow> (string \<rightharpoonup> u32) \<Rightarrow> state_row list option" where
  "SaveDataToDBTransferStateMap = save_states"

definition SaveDataToDBSwapApproveStateMap :: "u32 \<Rightarrow> string list \<Rightarrow> (string \<rightharpoonup> u32) \<Rightarrow> state_row list option" where
  "SaveDataToDBSwapApproveStateMap = save_states"

definition SaveDataToDBSwapCommitStateMap :: "u32 \<Rightarrow> string list \<Rightarrow> (string \<rightharpoonup> u32) \<Rightarrow> state_row list option" where
  "SaveDataToDBSwapCommitStateMap = save_states"

definition SaveDataToDBSwapCondApproveStateMap :: "u32 \<Rightarrow> string list \<Rightarrow> (string \<rightharpoonup> u32) \<Rightarrow> state_row list option" where
  "SaveDataToDBSwapCondApproveStateMap = save_states"

text \<open>Ranging over a \<open>nil\<close> map visits nothing.\<close>

definition SaveDataToDBSwapWithdrawStateMap :: "u32 \<Rightarrow> string list \<Rightarrow> (string \<rightharpoonup> u32) option \<Rightarrow> state_row list option" where
  "SaveDataToDBSwapWithdrawStateMap height keys removed = save_states height keys (case removed of None \<Rightarrow> Map.empty | Some m \<Rightarrow> m)"

text \<open>\<open>transferInfo.Meta.GetInscriptionId()\<close> dereferences \<open>Meta\<close>.\<close>

definition row_of_transfer :: "u32 \<Rightarrow> string \<Rightarrow> InscriptionBRC20TickInfo \<Rightarrow> valid_transfer_row option" where
  "row_of_transfer height create_key transferInfo =
     do { amount \<leftarrow> Decimal_String (ti_Amount transferInfo);
          meta \<leftarrow> ti_Meta transferInfo;
          Some \<lparr>vtr_block_height = height, vtr_create_key = create_key, vtr_tick = ti_Tick transferInfo, vtr_pkscript = ti_PkScript transferInfo,
            vtr_amount = amount, vtr_inscription_number = ti_InscriptionNumber transferInfo, vtr_inscription_id = Data_GetInscriptionId meta,
            vtr_txid = ti_TxId transferInfo, vtr_vout = ti_Vout transferInfo, vtr_output_value = ti_Satoshi transferInfo,
            vtr_output_offset = ti_Offset transferInfo\<rparr> }"

definition SaveDataToDBValidTransferMap :: "u32 \<Rightarrow> string list \<Rightarrow> (string \<rightharpoonup> InscriptionBRC20TickInfo) \<Rightarrow> valid_transfer_row list option" where
  "SaveDataToDBValidTransferMap height keys inscriptionsValidTransferMap =
     save_rows (\<lambda>t. ti_Height t = height) (row_of_transfer height) inscriptionsValidTransferMap keys"

definition row_of_module_transfer :: "u32 \<Rightarrow> string \<Rightarrow> string \<Rightarrow> string \<Rightarrow> decp \<Rightarrow> InscriptionBRC20Data \<Rightarrow> valid_module_row option" where
  "row_of_module_transfer height createKey moduleId tick amt data =
     do { amount \<leftarrow> Decimal_String amt;
          Some \<lparr>vtr_block_height = height, vtr_create_key = createKey, vtr_tick = tick, vtr_pkscript = d_PkScript data, vtr_amount = amount,
            vtr_inscription_number = d_InscriptionNumber data, vtr_inscription_id = Data_GetInscriptionId data, vtr_txid = d_TxId data,
            vtr_vout = d_Vout data, vtr_output_value = d_Satoshi data, vtr_output_offset = d_Offset data, vmr_module_id = moduleId\<rparr> }"

definition SaveDataToDBSwapApproveMap :: "u32 \<Rightarrow> string list \<Rightarrow> (string \<rightharpoonup> InscriptionBRC20SwapInfo) \<Rightarrow> valid_module_row list option" where
  "SaveDataToDBSwapApproveMap height keys inscriptionsValidApproveMap =
     save_rows (\<lambda>a. d_Height (si_Data a) = height)
       (\<lambda>createKey a. row_of_module_transfer height createKey (si_Module a) (si_Tick a) (si_Amount a) (si_Data a)) inscriptionsValidApproveMap keys"

definition SaveDataToDBSwapCondApproveMap ::
    "u32 \<Rightarrow> string list \<Rightarrow> (string \<rightharpoonup> InscriptionBRC20SwapConditionalApproveInfo) \<Rightarrow> valid_module_row list option" where
  "SaveDataToDBSwapCondApproveMap height keys inscriptionsValidConditionalApproveMap =
     save_rows (\<lambda>a. ca_UpdateHeight a = height)
       (\<lambda>createKey a. row_of_module_transfer height createKey (ca_Module a) (ca_Tick a) (ca_Amount a) (ca_Data a))
       inscriptionsValidConditionalApproveMap keys"

definition SaveDataToDBSwapWithdrawMap :: "u32 \<Rightarrow> string list \<Rightarrow> (string \<rightharpoonup> InscriptionBRC20SwapInfo) option \<Rightarrow> valid_module_row list option" where
  "SaveDataToDBSwapWithdrawMap height keys inscriptionsValidWithdrawMap =
     save_rows (\<lambda>w. d_Height (si_Data w) = height)
       (\<lambda>createKey w. row_of_module_transfer height createKey (si_Module w) (si_Tick w) (si_Amount w) (si_Data w))
       (case inscriptionsValidWithdrawMap of None \<Rightarrow> Map.empty | Some m \<Rightarrow> m) keys"

text \<open>The module of a commit is written as the constant text \<open>"commitInfo.Module"\<close>.\<close>

definition SaveDataToDBSwapCommitMap :: "u32 \<Rightarrow> string list \<Rightarrow> (string \<rightharpoonup> InscriptionBRC20Data) \<Rightarrow> valid_commit_row list option" where
  "SaveDataToDBSwapCommitMap height keys inscriptionsValidCommitMap =
     save_rows (\<lambda>c. d_Height c = height)
       (\<lambda>createKey c. Some \<lparr>vcr_block_height = height, vcr_module_id = ''commitInfo.Module'', vcr_create_key = createKey,
          vcr_pkscript = d_PkScript c, vcr_inscription_number = d_InscriptionNumber c, vcr_inscription_id = Data_GetInscriptionId c,
          vcr_txid = d_TxId c, vcr_vout = d_Vout c, vcr_output_value = d_Satoshi c, vcr_output_offset = d_Offset c,
          vcr_inscription_content = d_ContentBody c\<rparr>) inscriptionsValidCommitMap keys"

definition SaveDataToDBModuleInfoMap :: "u32 \<Rightarrow> string list \<Rightarrow> (string \<rightharpoonup> BRC20ModuleSwapInfo) \<Rightarrow> swap_info_row list option" where
  "SaveDataToDBModuleInfoMap height keys modulesInfoMap =
     save_rows (\<lambda>info. m_UpdateHeight info = height)
       (\<lambda>moduleId info. Some \<lparr>sir_block_height = height, sir_module_id = moduleId, sir_name = m_Name info,
          sir_pkscript_deployer = m_DeployerPkScript info, sir_pkscript_sequencer = m_SequencerPkScript info,
          sir_pkscript_gas_to = m_GasToPkScript info, sir_pkscript_lp_fee = m_LpFeePkScript info, sir_gas_tick = m_GasTick info,
          sir_fee_rate_swap = m_FeeRateSwap info\<rparr>) modulesInfoMap keys"

text \<open>A loop in the loop over the modules.\<close>

fun save_modules :: "(string \<Rightarrow> BRC20ModuleSwapInfo \<Rightarrow> 'r list option) \<Rightarrow> (string \<rightharpoonup> BRC20ModuleSwapInfo) \<Rightarrow> string list \<Rightarrow> 'r list option" where
  "save_modules f m [] = Some []"
| "save_modules f m (k # keys) =
     (case m k of
        None \<Rightarrow> save_modules f m keys
      | Some info \<Rightarrow> do { rs \<leftarrow> f k info; rest \<leftarrow> save_modules f m keys; Some (rs @ rest) })"

definition row_of_module_history :: "u32 \<Rightarrow> string \<Rightarrow> BRC20ModuleHistory \<Rightarrow> history_row" where
  "row_of_module_history height moduleId h =
     \<lparr>hr_block_height = height, hr_key = moduleId, hr_history_type = h_Type h, hr_valid = h_Valid h,
      hr_txid = h_TxId h, hr_idx = h_Idx h, hr_vout = h_Vout h, hr_output_value = h_Satoshi h, hr_output_offset = h_Offset h,
      hr_pkscript_from = h_PkScriptFrom h, hr_pkscript_to = h_PkScriptTo h, hr_fee = h_Fee h, hr_txidx = h_TxIdx h,
      hr_block_time = h_BlockTime h, hr_inscription_number = sr_InscriptionNumber (mh_Inscription h),
      hr_inscription_id = sr_InscriptionId (mh_Inscription h), hr_inscription_content = ''{}''\<rparr>"

definition SaveDataToDBModuleHistoryMap :: "u32 \<Rightarrow> string list \<Rightarrow> (string \<rightharpoonup> BRC20ModuleSwapInfo) \<Rightarrow> history_row list option" where
  "SaveDataToDBModuleHistoryMap height keys modulesInfoMap =
     save_modules (\<lambda>moduleId info. Some (map (row_of_module_history height moduleId)
       (filter (\<lambda>h. h_Height h = height \<and> h_Valid h) (m_History info)))) modulesInfoMap keys"

text \<open>
  The state of a commit: whether it is valid and whether it is connected. The three loops build a map;
  \<open>ids\<close> is the order in which it is visited.
\<close>

definition commit_state :: "BRC20ModuleSwapInfo \<Rightarrow> string \<Rightarrow> (bool \<times> bool) option" where
  "commit_state info commitId =
     (let s = (if commitId \<in> m_CommitInvalidMap info then Some (False, False) else None);
          s = (if commitId \<in> m_CommitIdMap info then (case s of None \<Rightarrow> Some (True, False) | Some (v, c) \<Rightarrow> Some (True, c)) else s)
      in if commitId \<in> m_CommitIdChainMap info then (case s of None \<Rightarrow> Some (True, True) | Some (v, c) \<Rightarrow> Some (v, True)) else s)"

definition SaveDataToDBModuleCommitChainMap ::
    "u32 \<Rightarrow> string list \<Rightarrow> (string \<Rightarrow> string list) \<Rightarrow> (string \<rightharpoonup> BRC20ModuleSwapInfo) \<Rightarrow> commit_chain_row list option" where
  "SaveDataToDBModuleCommitChainMap height keys ids modulesInfoMap =
     save_modules (\<lambda>moduleId info. save_rows (\<lambda>_. True)
       (\<lambda>commitId s. Some \<lparr>ccr_block_height = height, ccr_module_id = moduleId, ccr_commit_id = commitId, ccr_valid = fst s, ccr_connected = snd s\<rparr>)
       (commit_state info) (ids moduleId)) modulesInfoMap keys"

definition row_of_module_balance :: "u32 \<Rightarrow> string \<Rightarrow> BRC20ModuleTokenBalance \<Rightarrow> module_balance_row option" where
  "row_of_module_balance height moduleId b =
     do { swap \<leftarrow> Decimal_String (mb_SwapAccountBalance b);
          available \<leftarrow> Decimal_String (mb_AvailableBalance b);
          approveable \<leftarrow> Decimal_String (mb_ApproveableBalance b);
          condApproveable \<leftarrow> Decimal_String (mb_CondApproveableBalance b);
          ready \<leftarrow> Decimal_String (mb_ReadyToWithdrawAmount b);
          Some \<lparr>mbr_block_height = height, mbr_module_id = moduleId, mbr_tick = mb_Tick b, mbr_pkscript = mb_PkScript b, mbr_swap_balance = swap,
            mbr_available_balance = available, mbr_approveable_balance = approveable, mbr_cond_approveable_balance = condApproveable,
            mbr_ready_to_withdraw_amount = ready\<rparr> }"

definition SaveDataToDBModuleUserBalanceMap ::
    "u32 \<Rightarrow> string list \<Rightarrow> (string \<Rightarrow> (string \<times> string) list) \<Rightarrow> (string \<rightharpoonup> BRC20ModuleSwapInfo) \<Rightarrow> module_balance_row list option" where
  "SaveDataToDBModuleUserBalanceMap height keys users modulesInfoMap =
     save_modules (\<lambda>moduleId info. save_rows (\<lambda>b. mb_UpdateHeight b = height) (\<lambda>_. row_of_module_balance height moduleId)
       (at2 (m_UsersTokenBalanceDataMap info)) (users moduleId)) modulesInfoMap keys"

definition row_of_pool :: "u32 \<Rightarrow> string \<Rightarrow> string \<Rightarrow> BRC20ModulePoolTotalBalance \<Rightarrow> pool_balance_row option" where
  "row_of_pool height moduleId pool s =
     do { v0 \<leftarrow> Decimal_Value (pl_TickBalance0 s);
          v1 \<leftarrow> Decimal_Value (pl_TickBalance1 s);
          lp \<leftarrow> Decimal_String (pl_LpBalance s);
          Some \<lparr>pbr_block_height = height, pbr_module_id = moduleId, pbr_pool = pool, pbr_tick0 = pl_Tick0 s, pbr_tick0_balance = v0,
            pbr_tick1 = pl_Tick1 s, pbr_tick1_balance = v1, pbr_lp_balance = lp\<rparr> }"

definition SaveDataToDBModulePoolLpBalanceMap ::
    "u32 \<Rightarrow> string list \<Rightarrow> (string \<Rightarrow> string list) \<Rightarrow> (string \<rightharpoonup> BRC20ModuleSwapInfo) \<Rightarrow> pool_balance_row list option" where
  "SaveDataToDBModulePoolLpBalanceMap height keys pools modulesInfoMap =
     save_modules (\<lambda>moduleId info. save_rows (\<lambda>s. pl_UpdateHeight s = height) (row_of_pool height moduleId)
       (m_SwapPoolTotalBalanceDataMap info) (pools moduleId)) modulesInfoMap keys"

text \<open>Only the entries with a mark are written; a read of a \<open>nil\<close> map finds no mark.\<close>

definition SaveDataToDBModuleUserLpBalanceMap ::
    "u32 \<Rightarrow> string list \<Rightarrow> (string \<Rightarrow> (string \<times> string) list) \<Rightarrow> (string \<rightharpoonup> BRC20ModuleSwapInfo) \<Rightarrow> user_lp_row list option" where
  "SaveDataToDBModuleUserLpBalanceMap height keys users modulesInfoMap =
     save_modules (\<lambda>moduleId info. save_rows (\<lambda>_. True)
       (\<lambda>(pkscript, pool) balanceData. do { s \<leftarrow> Decimal_String balanceData;
          Some \<lparr>ulr_block_height = height, ulr_module_id = moduleId, ulr_pool = pool, ulr_pkscript = pkscript, ulr_lp_balance = s\<rparr> })
       (at2 (m_UsersLPTokenBalanceMap info))
       (filter (\<lambda>(pkscript, pool). pool @ pkscript \<in> (case m_LPTokenUsersBalanceUpdatedMap info of None \<Rightarrow> {} | Some s \<Rightarrow> s)) (users moduleId)))
       modulesInfoMap keys"

definition SaveDataToBRC20DBSwapWithdrawMap :: "u32 \<Rightarrow> string list \<Rightarrow> (string \<rightharpoonup> u32) option \<Rightarrow> (u32 \<times> string) list option" where
  "SaveDataToBRC20DBSwapWithdrawMap height keys inscriptionsValidWithdrawMap =
     save_rows (\<lambda>withdrawHeight. withdrawHeight = height) (\<lambda>inscriptionId _. Some (height, inscriptionId))
       (case inscriptionsValidWithdrawMap of None \<Rightarrow> Map.empty | Some m \<Rightarrow> m) keys"

section \<open>The tables and the queries\<close>

record swap_tables =
  t_ticker_info :: "ticker_info_row list"
  t_user_balance :: "user_balance_row list"
  t_transfer_state :: "state_row list"
  t_valid_transfer :: "valid_transfer_row list"
  t_swap_info :: "swap_info_row list"
  t_swap_history :: "history_row list"
  t_commit_chain :: "commit_chain_row list"
  t_module_balance :: "module_balance_row list"
  t_pool_balance :: "pool_balance_row list"
  t_user_lp :: "user_lp_row list"
  t_approve_state :: "state_row list"
  t_valid_approve :: "valid_module_row list"
  t_cond_approve_state :: "state_row list"
  t_valid_cond_approve :: "valid_module_row list"
  t_commit_state :: "state_row list"
  t_valid_commit :: "valid_commit_row list"
  t_withdraw_state :: "state_row list"
  t_valid_withdraw :: "valid_module_row list"
  t_module_withdrawals :: "(u32 \<times> string) list"

text \<open>
  The join of a table with \<open>SELECT MAX(block_height), key ... GROUP BY key\<close> on the height and the key:
  the rows with the greatest height of their key.
\<close>

definition latest :: "('r \<Rightarrow> 'k) \<Rightarrow> ('r \<Rightarrow> u32) \<Rightarrow> 'r list \<Rightarrow> 'r list" where
  "latest key height rows = filter (\<lambda>r. list_all (\<lambda>r'. key r' = key r \<longrightarrow> height r' \<le> height r) rows) rows"

text \<open>\<open>LEFT JOIN state ON key WHERE state.moved IS NULL\<close>, where \<open>moved\<close> is always written.\<close>

definition not_moved :: "state_row list \<Rightarrow> string \<Rightarrow> bool" where
  "not_moved states create_key \<longleftrightarrow> list_all (\<lambda>s. mvr_create_key s \<noteq> create_key) states"

definition GetBrc20LatestHeightFromDB :: "swap_tables \<Rightarrow> u32" where
  "GetBrc20LatestHeightFromDB t = fold max (map ubr_block_height (t_user_balance t)) 0"

definition query_ticker_info :: "swap_tables \<Rightarrow> ticker_info_row list" where
  "query_ticker_info t = latest tir_tick tir_block_height (t_ticker_info t)"

definition query_user_balance :: "swap_tables \<Rightarrow> user_balance_row list" where
  "query_user_balance t = latest (\<lambda>r. (ubr_tick r, ubr_pkscript r)) ubr_block_height (t_user_balance t)"

definition query_valid_transfer :: "swap_tables \<Rightarrow> valid_transfer_row list" where
  "query_valid_transfer t =
     filter (\<lambda>r. not_moved (t_transfer_state t) (vtr_create_key r)) (latest vtr_create_key vtr_block_height (t_valid_transfer t))"

definition query_valid_approve :: "swap_tables \<Rightarrow> valid_module_row list" where
  "query_valid_approve t =
     filter (\<lambda>r. not_moved (t_approve_state t) (vtr_create_key r)) (latest vtr_create_key vtr_block_height (t_valid_approve t))"

definition query_valid_cond_approve :: "swap_tables \<Rightarrow> valid_module_row list" where
  "query_valid_cond_approve t =
     filter (\<lambda>r. not_moved (t_cond_approve_state t) (vtr_create_key r)) (latest vtr_create_key vtr_block_height (t_valid_cond_approve t))"

definition query_valid_withdraw :: "swap_tables \<Rightarrow> valid_module_row list" where
  "query_valid_withdraw t =
     filter (\<lambda>r. not_moved (t_withdraw_state t) (vtr_create_key r)) (latest vtr_create_key vtr_block_height (t_valid_withdraw t))"

definition query_valid_commit :: "swap_tables \<Rightarrow> valid_commit_row list" where
  "query_valid_commit t =
     filter (\<lambda>r. not_moved (t_commit_state t) (vcr_create_key r)) (latest vcr_create_key vcr_block_height (t_valid_commit t))"

definition query_commit_chain :: "string \<Rightarrow> swap_tables \<Rightarrow> commit_chain_row list" where
  "query_commit_chain moduleId t = filter (\<lambda>r. ccr_module_id r = moduleId) (t_commit_chain t)"

definition query_swap_history :: "string \<Rightarrow> swap_tables \<Rightarrow> history_row list" where
  "query_swap_history moduleId t = filter (\<lambda>r. hr_key r = moduleId) (t_swap_history t)"

text \<open>The join of the module balances is on the height, the ticker and the user, and not on the module.\<close>

definition query_module_balance :: "string \<Rightarrow> swap_tables \<Rightarrow> module_balance_row list" where
  "query_module_balance moduleId t =
     (let mine = latest (\<lambda>r. (mbr_tick r, mbr_pkscript r)) mbr_block_height (filter (\<lambda>r. mbr_module_id r = moduleId) (t_module_balance t)) in
      filter (\<lambda>r. list_ex (\<lambda>m. mbr_block_height m = mbr_block_height r \<and> mbr_tick m = mbr_tick r \<and> mbr_pkscript m = mbr_pkscript r) mine)
        (t_module_balance t))"

definition query_pool_balance :: "string \<Rightarrow> swap_tables \<Rightarrow> pool_balance_row list" where
  "query_pool_balance moduleId t =
     latest (\<lambda>r. (pbr_module_id r, pbr_tick0 r, pbr_tick1 r)) pbr_block_height (filter (\<lambda>r. pbr_module_id r = moduleId) (t_pool_balance t))"

definition query_user_lp :: "string \<Rightarrow> swap_tables \<Rightarrow> user_lp_row list" where
  "query_user_lp moduleId t =
     latest (\<lambda>r. (ulr_module_id r, ulr_pool r, ulr_pkscript r)) ulr_block_height (filter (\<lambda>r. ulr_module_id r = moduleId) (t_user_lp t))"

section \<open>Saving the state\<close>

record save_ranges =
  sv_tickers :: "string list"
  sv_balances :: "(string \<times> string) list"
  sv_transfer_states :: "string list"
  sv_transfers :: "string list"
  sv_modules :: "string list"
  sv_commit_ids :: "string \<Rightarrow> string list"
  sv_module_users :: "string \<Rightarrow> (string \<times> string) list"
  sv_pools :: "string \<Rightarrow> string list"
  sv_lp_users :: "string \<Rightarrow> (string \<times> string) list"
  sv_approve_states :: "string list"
  sv_approves :: "string list"
  sv_cond_approve_states :: "string list"
  sv_cond_approves :: "string list"
  sv_commit_states :: "string list"
  sv_commits :: "string list"
  sv_withdraw_states :: "string list"
  sv_withdraws :: "string list"
  sv_valid_withdraws :: "string list"

text \<open>
  One transaction: the rows of every table, or none when a step panics. The map of moved
  conditional approvals is never written by the indexer, and empty.
\<close>

definition SaveDataToDB :: "save_ranges \<Rightarrow> u32 \<Rightarrow> BRC20ModuleIndexer \<Rightarrow> swap_tables \<Rightarrow> swap_tables option" where
  "SaveDataToDB rg height g t =
     do {
       tickers \<leftarrow> SaveDataToDBTickerInfoMap height (sv_tickers rg) (g_InscriptionsTickerInfoMap g);
       balances \<leftarrow> SaveDataToDBTickerBalanceMap height (sv_balances rg) (g_UserTokensBalanceData g);
       transferStates \<leftarrow> SaveDataToDBTransferStateMap height (sv_transfer_states rg) (g_InscriptionsTransferRemoveMap g);
       transfers \<leftarrow> SaveDataToDBValidTransferMap height (sv_transfers rg) (g_InscriptionsValidTransferMap g);
       modules \<leftarrow> SaveDataToDBModuleInfoMap height (sv_modules rg) (module_of g);
       histories \<leftarrow> SaveDataToDBModuleHistoryMap height (sv_modules rg) (module_of g);
       chain \<leftarrow> SaveDataToDBModuleCommitChainMap height (sv_modules rg) (sv_commit_ids rg) (module_of g);
       users \<leftarrow> SaveDataToDBModuleUserBalanceMap height (sv_modules rg) (sv_module_users rg) (module_of g);
       pools \<leftarrow> SaveDataToDBModulePoolLpBalanceMap height (sv_modules rg) (sv_pools rg) (module_of g);
       lps \<leftarrow> SaveDataToDBModuleUserLpBalanceMap height (sv_modules rg) (sv_lp_users rg) (module_of g);
       approveStates \<leftarrow> SaveDataToDBSwapApproveStateMap height (sv_approve_states rg) (g_InscriptionsApproveRemoveMap g);
       approves \<leftarrow> SaveDataToDBSwapApproveMap height (sv_approves rg) (g_InscriptionsValidApproveMap g);
       condStates \<leftarrow> SaveDataToDBSwapCondApproveStateMap height (sv_cond_approve_states rg) Map.empty;
       conds \<leftarrow> SaveDataToDBSwapCondApproveMap height (sv_cond_approves rg) (g_InscriptionsValidConditionalApproveMap g);
       commitStates \<leftarrow> SaveDataToDBSwapCommitStateMap height (sv_commit_states rg) (g_InscriptionsCommitRemoveMap g);
       commits \<leftarrow> SaveDataToDBSwapCommitMap height (sv_commits rg) (g_InscriptionsValidCommitMap g);
       withdrawStates \<leftarrow> SaveDataToDBSwapWithdrawStateMap height (sv_withdraw_states rg) (g_InscriptionsWithdrawRemoveMap g);
       withdraws \<leftarrow> SaveDataToDBSwapWithdrawMap height (sv_withdraws rg) (g_InscriptionsWithdrawMap g);
       withdrawals \<leftarrow> SaveDataToBRC20DBSwapWithdrawMap height (sv_valid_withdraws rg) (g_InscriptionsValidWithdrawMap g);
       Some \<lparr>t_ticker_info = t_ticker_info t @ tickers, t_user_balance = t_user_balance t @ balances,
         t_transfer_state = t_transfer_state t @ transferStates, t_valid_transfer = t_valid_transfer t @ transfers,
         t_swap_info = t_swap_info t @ modules, t_swap_history = t_swap_history t @ histories, t_commit_chain = t_commit_chain t @ chain,
         t_module_balance = t_module_balance t @ users, t_pool_balance = t_pool_balance t @ pools, t_user_lp = t_user_lp t @ lps,
         t_approve_state = t_approve_state t @ approveStates, t_valid_approve = t_valid_approve t @ approves,
         t_cond_approve_state = t_cond_approve_state t @ condStates, t_valid_cond_approve = t_valid_cond_approve t @ conds,
         t_commit_state = t_commit_state t @ commitStates, t_valid_commit = t_valid_commit t @ commits,
         t_withdraw_state = t_withdraw_state t @ withdrawStates, t_valid_withdraw = t_valid_withdraw t @ withdraws,
         t_module_withdrawals = t_module_withdrawals t @ withdrawals\<rparr> }"

end
