(* ===== verification/Database_Load.thy ===== *)
theory Database_Load
  imports Database
begin

text \<open>
  Loading the state from the rows the queries returned: \<open>loader/load_from_db.go\<close>, and
  \<open>LoadDataFromDB\<close> of \<open>indexer/store.go\<close>. Log lines are left out; \<open>log.Fatal\<close> is the error \<open>Inl\<close>.
  The field \<open>Data\<close> of a loaded transfer is \<open>nil\<close> in the code; the record has empty texts there.
\<close>

section \<open>The condition of a query\<close>

text \<open>
  Each list is the values of a column followed by its name; a list with no value is skipped. The values get
  the placeholders \<open>$1\<close>, \<open>$2\<close> and so on, or start at the given index.
\<close>

fun where_in :: "string list list \<Rightarrow> nat \<Rightarrow> string list \<times> string list" where
  "where_in [] argIndex = ([], [])"
| "where_in (pair # pairs) argIndex =
     (if length pair < 2 then where_in pairs argIndex
      else
        let vals = butlast pair;
            phs = map (\<lambda>i. CHR ''$'' # nat_string i) [argIndex ..< argIndex + length vals];
            (conds, args) = where_in pairs (argIndex + length vals)
        in ((last pair @ '' IN ('' @ go_join phs '','' @ '')'') # conds, vals @ args))"

definition buildSQLWhereInStr :: "string list list \<Rightarrow> int option \<Rightarrow> (string list \<times> string list) option" where
  "buildSQLWhereInStr colValsPair startIndex =
     (let argIndex = (case startIndex of None \<Rightarrow> 1 | Some i \<Rightarrow> i) in
      if argIndex < 1 then None else Some (where_in colValsPair (nat argIndex)))"

text \<open>There is an argument for every value and a condition for every column that has values.\<close>

lemma buildSQLWhereInStr_args:
  assumes "buildSQLWhereInStr pairs start = Some (conds, args)"
  shows "args = concat (map butlast (filter (\<lambda>p. 2 \<le> length p) pairs))" "length conds = length (filter (\<lambda>p. 2 \<le> length p) pairs)"
proof -
  have "snd (where_in pairs i) = concat (map butlast (filter (\<lambda>p. 2 \<le> length p) pairs)) \<and>
      length (fst (where_in pairs i)) = length (filter (\<lambda>p. 2 \<le> length p) pairs)" for i
    by (induction pairs arbitrary: i) (simp_all add: Let_def split_beta not_less)
  with assms show "args = concat (map butlast (filter (\<lambda>p. 2 \<le> length p) pairs))" "length conds = length (filter (\<lambda>p. 2 \<le> length p) pairs)"
    by (auto simp: buildSQLWhereInStr_def Let_def split: if_splits) (metis fst_conv snd_conv)+
qed

section \<open>Scanning rows\<close>

definition and_then :: "(string + 'a) option \<Rightarrow> ('a \<Rightarrow> (string + 'b) option) \<Rightarrow> (string + 'b) option" where
  "and_then r f = do { x \<leftarrow> r; (case x of Inl err \<Rightarrow> Some (Inl err) | Inr a \<Rightarrow> f a) }"

text \<open>\<open>for rows.Next() { if err := rows.Scan(...); err != nil { return nil, err } ... }\<close>\<close>

fun scan_rows :: "('r \<Rightarrow> 's \<Rightarrow> (string + 's) option) \<Rightarrow> 'r list \<Rightarrow> 's \<Rightarrow> (string + 's) option" where
  "scan_rows f [] s = Some (Inr s)"
| "scan_rows f (r # rows) s = and_then (f r s) (scan_rows f rows)"

text \<open>An integer column in a variable of type \<open>uint8\<close>.\<close>

definition scan_uint8 :: "string \<Rightarrow> u8 option" where
  "scan_uint8 s = (case parse_uint64 s of None \<Rightarrow> None | Some n \<Rightarrow> if n < 256 then Some (of_nat n) else None)"

text \<open>An amount in a variable of type \<open>*Decimal\<close>: a new decimal is scanned; \<open>NULL\<close> leaves the pointer \<open>nil\<close>.\<close>

definition scan_amount :: "string \<Rightarrow> (string + decp) option" where
  "scan_amount v =
     do { (err, d) \<leftarrow> Decimal_Scan \<lparr>Precition = 0, Val = 0\<rparr> (Some v);
          Some (case err of None \<Rightarrow> Inr (Some d) | Some m \<Rightarrow> Inl m) }"

definition scan_null_amount :: "string option \<Rightarrow> (string + decp) option" where
  "scan_null_amount v = (case v of None \<Rightarrow> Some (Inr None) | Some t \<Rightarrow> scan_amount t)"

definition zero_data :: InscriptionBRC20Data where
  "zero_data = \<lparr>d_IsTransfer = False, d_TxId = '''', d_Idx = 0, d_Vout = 0, d_Offset = 0, d_Satoshi = 0, d_PkScript = '''', d_Fee = 0,
     d_InscriptionNumber = 0, d_Parent = '''', d_ContentBody = '''', d_CreateIdxKey = '''', d_Height = 0, d_TxIdx = 0, d_BlockTime = 0,
     d_Sequence = 0, d_InscriptionId = ''''\<rparr>"

section \<open>Tokens and balances\<close>

definition loaded_tick_info :: "ticker_info_row \<Rightarrow> u8 \<Rightarrow> decp \<Rightarrow> decp \<Rightarrow> decp \<Rightarrow> InscriptionBRC20TickInfo" where
  "loaded_tick_info r decimals nmax nlimit nminted =
     (NewInscriptionBRC20TickInfo '''' '''' zero_data)
     \<lparr>ti_SelfMint := tir_self_mint r, ti_Max := nmax, ti_Decimal := decimals, ti_Limit := nlimit, ti_TotalMinted := nminted,
      ti_Data := \<lparr>r_Operation = ''deploy'', r_BRC20Tick = tir_tick r, r_BRC20Max = tir_max_supply r, r_BRC20Limit = tir_limit_per_mint r,
        r_BRC20Amount = '''', r_BRC20Decimal = nat_string (unat decimals), r_BRC20Minted = tir_minted r,
        r_BRC20SelfMint = (if tir_self_mint r then ''true'' else '''')\<rparr>\<rparr>"

definition loaded_token :: "ticker_info_row \<Rightarrow> (string + BRC20TokenInfo) option" where
  "loaded_token r =
     (case scan_uint8 (tir_decimals r) of
        None \<Rightarrow> Some (Inl ''scan'')
      | Some decimals \<Rightarrow> do {
          nminted \<leftarrow> MustNewDecimalFromString (tir_minted r) (unat decimals);
          nmax \<leftarrow> MustNewDecimalFromString (tir_max_supply r) (unat decimals);
          nlimit \<leftarrow> MustNewDecimalFromString (tir_limit_per_mint r) (unat decimals);
          Some (Inr \<lparr>tk_UpdateHeight = 0, tk_Ticker = tir_tick r,
            tk_Deploy = loaded_tick_info r decimals (Some nmax) (Some nlimit) (Some nminted), tk_History = [], tk_HistoryMint = [],
            tk_HistoryInscribeTransfer = [], tk_HistoryTransfer = [], tk_HistoryWithdraw = []\<rparr>) })"

definition LoadFromDbTickerInfoMap :: "ext \<Rightarrow> ticker_info_row list \<Rightarrow> (string + (string \<rightharpoonup> BRC20TokenInfo)) option" where
  "LoadFromDbTickerInfoMap e rows =
     scan_rows (\<lambda>r m. and_then (loaded_token r) (\<lambda>t. Some (Inr (m(ToLower e (tir_tick r) \<mapsto> t))))) rows Map.empty"

definition token_decimals :: "ext \<Rightarrow> (string \<rightharpoonup> BRC20TokenInfo) \<Rightarrow> string \<Rightarrow> string + nat" where
  "token_decimals e tokenInfos tick =
     (case tokenInfos (ToLower e tick) of
        None \<Rightarrow> Inl ''token info not found for ticker''
      | Some info \<Rightarrow> Inr (unat (ti_Decimal (tk_Deploy info))))"

definition put2 :: "'a \<Rightarrow> 'b \<Rightarrow> 'v \<Rightarrow> ('a \<rightharpoonup> 'b \<rightharpoonup> 'v) \<Rightarrow> ('a \<rightharpoonup> 'b \<rightharpoonup> 'v)" where
  "put2 a b v m = m(a \<mapsto> (case m a of None \<Rightarrow> Map.empty | Some t \<Rightarrow> t)(b \<mapsto> v))"

definition loaded_balance :: "nat \<Rightarrow> user_balance_row \<Rightarrow> BRC20TokenBalance option" where
  "loaded_balance decimals r =
     do { ab \<leftarrow> MustNewDecimalFromString (ubr_available_balance r) decimals;
          tb \<leftarrow> MustNewDecimalFromString (ubr_transferable_balance r) decimals;
          Some ((new_token_balance (ubr_tick r) (ubr_pkscript r))\<lparr>tb_AvailableBalance := Some ab, tb_TransferableBalance := Some tb\<rparr>) }"

definition LoadFromDbUserTokensBalanceData ::
    "ext \<Rightarrow> (string \<rightharpoonup> BRC20TokenInfo) \<Rightarrow> user_balance_row list \<Rightarrow> (string + (string \<rightharpoonup> string \<rightharpoonup> BRC20TokenBalance)) option" where
  "LoadFromDbUserTokensBalanceData e tokenInfos rows =
     scan_rows (\<lambda>r m.
       (case token_decimals e tokenInfos (ubr_tick r) of
          Inl err \<Rightarrow> Some (Inl err)
        | Inr decimals \<Rightarrow> do {
            balance \<leftarrow> loaded_balance decimals r;
            Some (Inr (put2 (ubr_pkscript r) (ToLower e (ubr_tick r)) balance m)) })) rows Map.empty"

text \<open>A write to the table of a ticker that has no token is a write to a \<open>nil\<close> map.\<close>

fun token_users_loop ::
    "(string \<rightharpoonup> string \<rightharpoonup> BRC20TokenBalance) \<Rightarrow> (string \<times> string) list \<Rightarrow> (string \<rightharpoonup> string set) \<Rightarrow> (string \<rightharpoonup> string set) option" where
  "token_users_loop userTokensMap [] users = Some users"
| "token_users_loop userTokensMap ((pkscript, tick) # keys) users =
     (case at2 userTokensMap (pkscript, tick) of
        None \<Rightarrow> token_users_loop userTokensMap keys users
      | Some balance \<Rightarrow>
          if Decimal_Sign (tb_AvailableBalance balance) = 0 \<and> Decimal_Sign (tb_TransferableBalance balance) = 0
          then token_users_loop userTokensMap keys users
          else do { us \<leftarrow> users tick; token_users_loop userTokensMap keys (users(tick \<mapsto> insert pkscript us)) })"

definition UserTokensBalanceMap2TokenUsersBalanceMap ::
    "(string \<rightharpoonup> BRC20TokenInfo) \<Rightarrow> (string \<rightharpoonup> string \<rightharpoonup> BRC20TokenBalance) \<Rightarrow> (string \<times> string) list \<Rightarrow> (string \<rightharpoonup> string set) option" where
  "UserTokensBalanceMap2TokenUsersBalanceMap tokenInfos userTokensMap keys =
     token_users_loop userTokensMap keys (\<lambda>tick. map_option (\<lambda>_. {}) (tokenInfos tick))"

text \<open>The result map is never allocated: the first row is a write to a \<open>nil\<close> map.\<close>

definition LoadFromDBTransferStateMap :: "state_row list \<Rightarrow> (string + (string \<rightharpoonup> u32)) option" where
  "LoadFromDBTransferStateMap rows = (if rows = [] then Some (Inr Map.empty) else None)"

definition loaded_transfer :: "nat \<Rightarrow> valid_transfer_row \<Rightarrow> InscriptionBRC20TickInfo option" where
  "loaded_transfer decimals r =
     do { amount \<leftarrow> MustNewDecimalFromString (vtr_amount r) decimals;
          Some ((NewInscriptionBRC20TickInfo '''' '''' zero_data)
            \<lparr>ti_Decimal := 0, ti_Height := vtr_block_height r, ti_CreateIdxKey := vtr_create_key r, ti_Tick := vtr_tick r, ti_PkScript := vtr_pkscript r,
             ti_InscriptionNumber := vtr_inscription_number r, ti_TxId := vtr_txid r, ti_Vout := vtr_vout r,
             ti_Satoshi := vtr_output_value r, ti_Offset := vtr_output_offset r, ti_Amount := Some amount,
             ti_Meta := Some (zero_data\<lparr>d_TxId := vtr_txid r, d_Vout := vtr_vout r, d_Offset := vtr_output_offset r,
               d_Satoshi := vtr_output_value r, d_PkScript := vtr_pkscript r, d_InscriptionNumber := vtr_inscription_number r,
               d_CreateIdxKey := vtr_create_key r, d_Height := vtr_block_height r, d_InscriptionId := vtr_inscription_id r\<rparr>)\<rparr>) }"

definition LoadFromDBValidTransferMap ::
    "ext \<Rightarrow> (string \<rightharpoonup> BRC20TokenInfo) \<Rightarrow> valid_transfer_row list \<Rightarrow> (string + (string \<rightharpoonup> InscriptionBRC20TickInfo)) option" where
  "LoadFromDBValidTransferMap e tokenInfos rows =
     scan_rows (\<lambda>r m.
       (case token_decimals e tokenInfos (vtr_tick r) of
          Inl err \<Rightarrow> Some (Inl err)
        | Inr decimals \<Rightarrow> do { t \<leftarrow> loaded_transfer decimals r; Some (Inr (m(vtr_create_key r \<mapsto> t))) })) rows Map.empty"

section \<open>Modules\<close>

definition empty_module :: BRC20ModuleSwapInfo where
  "empty_module =
     \<lparr>m_UpdateHeight = 0, m_ID = '''', m_Name = '''', m_DeployerPkScript = '''', m_SequencerPkScript = '''', m_GasToPkScript = '''',
      m_LpFeePkScript = '''', m_FeeRateSwap = '''', m_GasTick = '''', m_History = [], m_CommitInvalidMap = {}, m_CommitIdMap = {},
      m_CommitIdChainMap = {}, m_UsersTokenBalanceDataMap = Map.empty, m_TokenUsersBalanceDataMap = Map.empty,
      m_LPTokenUsersBalanceMap = Map.empty, m_LPTokenUsersBalanceUpdatedMap = Some {}, m_UsersLPTokenBalanceMap = Map.empty,
      m_SwapPoolTotalBalanceDataMap = Map.empty, m_ConditionalApproveStateBalanceDataMap = Map.empty, m_ThisTxId = '''',
      m_TransferStatesForConditionalApprove = [], m_ApproveStatesForConditionalApprove = []\<rparr>"

fun LoadFromDBModuleInfoMap :: "swap_info_row list \<Rightarrow> (string \<times> BRC20ModuleSwapInfo) list \<Rightarrow> (string \<times> BRC20ModuleSwapInfo) list" where
  "LoadFromDBModuleInfoMap [] modulesInfoMap = modulesInfoMap"
| "LoadFromDBModuleInfoMap (r # rows) modulesInfoMap =
     LoadFromDBModuleInfoMap rows (alist_put (sir_module_id r)
       (empty_module\<lparr>m_ID := sir_module_id r, m_Name := sir_name r, m_DeployerPkScript := sir_pkscript_deployer r,
          m_SequencerPkScript := sir_pkscript_sequencer r, m_GasToPkScript := sir_pkscript_gas_to r, m_LpFeePkScript := sir_pkscript_lp_fee r,
          m_GasTick := sir_gas_tick r, m_FeeRateSwap := sir_fee_rate_swap r\<rparr>) modulesInfoMap)"

text \<open>The height of a loaded record is not read.\<close>

definition loaded_module_history :: "history_row \<Rightarrow> BRC20ModuleHistory" where
  "loaded_module_history r =
     \<lparr>h_Type = hr_history_type r, h_Valid = hr_valid r, h_TxId = hr_txid r, h_Idx = hr_idx r, h_Vout = hr_vout r,
      h_Offset = hr_output_offset r, h_PkScriptFrom = hr_pkscript_from r, h_PkScriptTo = hr_pkscript_to r, h_Satoshi = hr_output_value r,
      h_Fee = hr_fee r, h_Height = 0, h_TxIdx = hr_txidx r, h_BlockTime = hr_block_time r,
      mh_Inscription = \<lparr>sr_ContentBody = hr_inscription_content r, sr_InscriptionNumber = hr_inscription_number r,
        sr_InscriptionId = hr_inscription_id r, sr_Height = 0, sr_Confirmations = 0\<rparr>,
      mh_Data = NoData\<rparr>"

definition LoadFromDBModuleHistoryMap :: "history_row list \<Rightarrow> (string \<rightharpoonup> BRC20ModuleHistory list)" where
  "LoadFromDBModuleHistoryMap rows moduleId =
     (case filter (\<lambda>r. hr_key r = moduleId) rows of [] \<Rightarrow> None | mine \<Rightarrow> Some (map loaded_module_history mine))"

record DBModelSwapCommitChain =
  db_ModuleID :: string
  db_CommitID :: string
  db_Valid :: bool
  db_Connected :: bool

definition LoadModuleCommitChain :: "commit_chain_row list \<Rightarrow> DBModelSwapCommitChain list" where
  "LoadModuleCommitChain rows =
     map (\<lambda>r. \<lparr>db_ModuleID = ccr_module_id r, db_CommitID = ccr_commit_id r, db_Valid = ccr_valid r, db_Connected = ccr_connected r\<rparr>) rows"

definition loaded_module_balance :: "module_balance_row \<Rightarrow> (string + BRC20ModuleTokenBalance) option" where
  "loaded_module_balance r =
     and_then (scan_amount (mbr_swap_balance r)) (\<lambda>swap.
     and_then (scan_amount (mbr_available_balance r)) (\<lambda>available.
     and_then (scan_amount (mbr_approveable_balance r)) (\<lambda>approveable.
     and_then (scan_amount (mbr_cond_approveable_balance r)) (\<lambda>condApproveable.
     and_then (scan_amount (mbr_ready_to_withdraw_amount r)) (\<lambda>ready.
       Some (Inr ((new_module_balance (mbr_tick r) (mbr_pkscript r))
         \<lparr>mb_SwapAccountBalance := swap, mb_AvailableBalance := available, mb_ApproveableBalance := approveable,
          mb_CondApproveableBalance := condApproveable, mb_ReadyToWithdrawAmount := ready\<rparr>)))))))"

definition LoadFromDBModuleUserBalanceMap ::
    "ext \<Rightarrow> module_balance_row list \<Rightarrow> (string + (string \<rightharpoonup> string \<rightharpoonup> BRC20ModuleTokenBalance)) option" where
  "LoadFromDBModuleUserBalanceMap e rows =
     scan_rows (\<lambda>r m. and_then (loaded_module_balance r) (\<lambda>b. Some (Inr (put2 (mbr_pkscript r) (ToLower e (mbr_tick r)) b m)))) rows Map.empty"

text \<open>\<open>LastRootK\<close> is not in the database.\<close>

definition loaded_pool :: "pool_balance_row \<Rightarrow> (string + BRC20ModulePoolTotalBalance) option" where
  "loaded_pool r =
     and_then (scan_null_amount (pbr_tick0_balance r)) (\<lambda>b0.
     and_then (scan_null_amount (pbr_tick1_balance r)) (\<lambda>b1.
     and_then (scan_amount (pbr_lp_balance r)) (\<lambda>lp.
       Some (Inr \<lparr>pl_UpdateHeight = 0, pl_Tick0 = pbr_tick0 r, pl_Tick1 = pbr_tick1 r, pl_TickBalance0 = b0, pl_TickBalance1 = b1,
         pl_LpBalance = lp, pl_LastRootK = None, pl_History = []\<rparr>))))"

definition LoadFromDBModulePoolLpBalanceMap :: "pool_balance_row list \<Rightarrow> (string + (string \<rightharpoonup> BRC20ModulePoolTotalBalance)) option" where
  "LoadFromDBModulePoolLpBalanceMap rows =
     scan_rows (\<lambda>r m. and_then (loaded_pool r) (\<lambda>p. Some (Inr (m(pbr_pool r \<mapsto> p))))) rows Map.empty"

definition LoadFromDBModuleUserLpBalanceMap :: "user_lp_row list \<Rightarrow> (string + (string \<rightharpoonup> string \<rightharpoonup> decp)) option" where
  "LoadFromDBModuleUserLpBalanceMap rows =
     scan_rows (\<lambda>r m. and_then (scan_amount (ulr_lp_balance r)) (\<lambda>d. Some (Inr (put2 (ulr_pkscript r) (ulr_pool r) d m)))) rows Map.empty"

section \<open>Approvals, commits and withdraws\<close>

definition LoadFromDBSwapApproveStateMap :: "state_row list \<Rightarrow> (string \<rightharpoonup> u32)" where
  "LoadFromDBSwapApproveStateMap rows = fold (\<lambda>r m. m(mvr_create_key r \<mapsto> mvr_block_height r)) rows Map.empty"

text \<open>The other three queries do not return the height, and every entry is 0.\<close>

definition LoadFromDBSwapCondApproveStateMap :: "state_row list \<Rightarrow> (string \<rightharpoonup> u32)" where
  "LoadFromDBSwapCondApproveStateMap rows = fold (\<lambda>r m. m(mvr_create_key r \<mapsto> 0)) rows Map.empty"

definition LoadFromDBSwapCommitStateMap :: "state_row list \<Rightarrow> (string \<rightharpoonup> u32)" where
  "LoadFromDBSwapCommitStateMap rows = fold (\<lambda>r m. m(mvr_create_key r \<mapsto> 0)) rows Map.empty"

definition LoadFromDBSwapWithdrawStateMap :: "state_row list \<Rightarrow> (string \<rightharpoonup> u32)" where
  "LoadFromDBSwapWithdrawStateMap rows = fold (\<lambda>r m. m(mvr_create_key r \<mapsto> 0)) rows Map.empty"

definition loaded_module_data :: "valid_module_row \<Rightarrow> InscriptionBRC20Data" where
  "loaded_module_data r = zero_data
     \<lparr>d_PkScript := vtr_pkscript r, d_InscriptionNumber := vtr_inscription_number r, d_InscriptionId := vtr_inscription_id r,
      d_TxId := vtr_txid r, d_Vout := vtr_vout r, d_Satoshi := vtr_output_value r, d_Offset := vtr_output_offset r\<rparr>"

definition LoadFromDBSwapApproveMap :: "valid_module_row list \<Rightarrow> (string + (string \<rightharpoonup> InscriptionBRC20SwapInfo)) option" where
  "LoadFromDBSwapApproveMap rows =
     scan_rows (\<lambda>r m. and_then (scan_amount (vtr_amount r)) (\<lambda>amount.
       Some (Inr (m(vtr_create_key r \<mapsto> \<lparr>si_Module = vmr_module_id r, si_Tick = vtr_tick r, si_Amount = amount, si_Data = loaded_module_data r\<rparr>)))))
       rows Map.empty"

definition LoadFromDBSwapCondApproveMap ::
    "valid_module_row list \<Rightarrow> (string + (string \<rightharpoonup> InscriptionBRC20SwapConditionalApproveInfo)) option" where
  "LoadFromDBSwapCondApproveMap rows =
     scan_rows (\<lambda>r m. and_then (scan_amount (vtr_amount r)) (\<lambda>amount.
       Some (Inr (m(vtr_create_key r \<mapsto> \<lparr>ca_UpdateHeight = 0, ca_Module = vmr_module_id r, ca_Tick = vtr_tick r, ca_Amount = amount, ca_Balance = None,
         ca_HasMoved = False, ca_OwnerPkScript = '''', ca_DelegatorPkScript = '''', ca_Data = loaded_module_data r\<rparr>))))) rows Map.empty"

definition loaded_commit :: "valid_commit_row \<Rightarrow> InscriptionBRC20Data" where
  "loaded_commit r = zero_data
     \<lparr>d_PkScript := vcr_pkscript r, d_InscriptionNumber := vcr_inscription_number r, d_InscriptionId := vcr_inscription_id r,
      d_TxId := vcr_txid r, d_Vout := vcr_vout r, d_Satoshi := vcr_output_value r, d_Offset := vcr_output_offset r,
      d_ContentBody := vcr_inscription_content r\<rparr>"

definition LoadFromDBSwapCommitMap :: "valid_commit_row list \<Rightarrow> (string \<rightharpoonup> InscriptionBRC20Data)" where
  "LoadFromDBSwapCommitMap rows = fold (\<lambda>r m. m(vcr_create_key r \<mapsto> loaded_commit r)) rows Map.empty"

text \<open>The struct of a row has no \<open>Data\<close>, so that scanning the first row dereferences \<open>nil\<close>.\<close>

definition LoadFromDBSwapWithdrawMap :: "valid_module_row list \<Rightarrow> (string + (string \<rightharpoonup> InscriptionBRC20SwapInfo)) option" where
  "LoadFromDBSwapWithdrawMap rows = (if rows = [] then Some (Inr Map.empty) else None)"

section \<open>Loading the state\<close>

text \<open>
  The rows of every query, and the orders of the loops over the loaded maps. The maps by ticker and by pool
  hold the objects of the maps by user: of the first only the keys are kept.
\<close>

record db_rows =
  q_ticker_info :: "ticker_info_row list"
  q_user_balance :: "user_balance_row list"
  q_valid_transfer :: "valid_transfer_row list"
  q_swap_info :: "swap_info_row list"
  q_valid_approve :: "valid_module_row list"
  q_valid_cond_approve :: "valid_module_row list"
  q_valid_commit :: "valid_commit_row list"
  q_valid_withdraw :: "valid_module_row list"
  q_swap_history :: "string \<Rightarrow> history_row list"
  q_commit_chain :: "string \<Rightarrow> commit_chain_row list"
  q_module_balance :: "string \<Rightarrow> module_balance_row list"
  q_pool_balance :: "string \<Rightarrow> pool_balance_row list"
  q_user_lp :: "string \<Rightarrow> user_lp_row list"

record load_ranges =
  ld_balances :: "(string \<times> string) list"
  ld_transfers :: "string list"
  ld_module_users :: "string \<Rightarrow> (string \<times> string) list"
  ld_lp_users :: "string \<Rightarrow> (string \<times> string) list"

definition load_commit_state :: "DBModelSwapCommitChain \<Rightarrow> BRC20ModuleSwapInfo \<Rightarrow> BRC20ModuleSwapInfo" where
  "load_commit_state cc info =
     (if db_Valid cc \<and> db_Connected cc then info\<lparr>m_CommitIdChainMap := insert (db_CommitID cc) (m_CommitIdChainMap info)\<rparr>
      else if db_Valid cc then info\<lparr>m_CommitIdMap := insert (db_CommitID cc) (m_CommitIdMap info)\<rparr>
      else info\<lparr>m_CommitInvalidMap := insert (db_CommitID cc) (m_CommitInvalidMap info)\<rparr>)"

definition load_module_user :: "(string \<rightharpoonup> string \<rightharpoonup> BRC20ModuleTokenBalance) \<Rightarrow> string \<times> string \<Rightarrow> (string \<rightharpoonup> string set) \<Rightarrow> (string \<rightharpoonup> string set)" where
  "load_module_user atbm k users =
     (case at2 atbm k of None \<Rightarrow> users
      | Some balance \<Rightarrow> users(snd k \<mapsto> insert (fst k) (case users (snd k) of None \<Rightarrow> {} | Some us \<Rightarrow> us)))"

definition load_pool_user :: "(string \<rightharpoonup> string \<rightharpoonup> decp) \<Rightarrow> string \<times> string \<Rightarrow> (string \<rightharpoonup> string \<rightharpoonup> decp) \<Rightarrow> (string \<rightharpoonup> string \<rightharpoonup> decp)" where
  "load_pool_user userLp k pools = (case at2 userLp k of None \<Rightarrow> pools | Some balance \<Rightarrow> put2 (snd k) (fst k) balance pools)"

definition loadFromDBSwapModuleInfo ::
    "ext \<Rightarrow> db_rows \<Rightarrow> load_ranges \<Rightarrow> string \<Rightarrow> BRC20ModuleSwapInfo \<Rightarrow> (string + BRC20ModuleSwapInfo) option" where
  "loadFromDBSwapModuleInfo e q rg mid info =
     (let info = (case LoadFromDBModuleHistoryMap (q_swap_history q mid) mid of None \<Rightarrow> info | Some history \<Rightarrow> info\<lparr>m_History := history\<rparr>);
          info = fold load_commit_state (LoadModuleCommitChain (q_commit_chain q mid)) info in
      and_then (LoadFromDBModuleUserBalanceMap e (q_module_balance q mid)) (\<lambda>atbm.
      and_then (LoadFromDBModulePoolLpBalanceMap (q_pool_balance q mid)) (\<lambda>poolBalanceMap.
      and_then (LoadFromDBModuleUserLpBalanceMap (q_user_lp q mid)) (\<lambda>userLpBalanceMap.
        Some (Inr (info
          \<lparr>m_UsersTokenBalanceDataMap := atbm,
           m_TokenUsersBalanceDataMap := fold (load_module_user atbm) (ld_module_users rg mid) Map.empty,
           m_SwapPoolTotalBalanceDataMap := poolBalanceMap, m_UsersLPTokenBalanceMap := userLpBalanceMap,
           m_LPTokenUsersBalanceMap := fold (load_pool_user userLpBalanceMap) (ld_lp_users rg mid) (m_LPTokenUsersBalanceMap info)\<rparr>))))))"

fun load_modules ::
    "(string \<Rightarrow> BRC20ModuleSwapInfo \<Rightarrow> (string + BRC20ModuleSwapInfo) option) \<Rightarrow> (string \<times> BRC20ModuleSwapInfo) list \<Rightarrow>
     (string + (string \<times> BRC20ModuleSwapInfo) list) option" where
  "load_modules f [] = Some (Inr [])"
| "load_modules f ((mid, info) # ms) =
     and_then (f mid info) (\<lambda>info. and_then (load_modules f ms) (\<lambda>rest. Some (Inr ((mid, info) # rest))))"

text \<open>\<open>g.UserTokensBalanceData[v.PkScript][ticker].ValidTransferMap[k] = v\<close> dereferences a missing balance.\<close>

fun attach_transfers ::
    "ext \<Rightarrow> (string \<rightharpoonup> InscriptionBRC20TickInfo) \<Rightarrow> string list \<Rightarrow> (string \<rightharpoonup> string \<rightharpoonup> BRC20TokenBalance) \<Rightarrow>
     (string \<rightharpoonup> string \<rightharpoonup> BRC20TokenBalance) option" where
  "attach_transfers e transfers [] balances = Some balances"
| "attach_transfers e transfers (k # keys) balances =
     (case transfers k of
        None \<Rightarrow> attach_transfers e transfers keys balances
      | Some v \<Rightarrow> do {
          let ticker = ToLower e (ti_Tick v);
          b \<leftarrow> at2 balances (ti_PkScript v, ticker);
          attach_transfers e transfers keys
            (put2 (ti_PkScript v) ticker (b\<lparr>tb_ValidTransferMap := (tb_ValidTransferMap b)(k \<mapsto> v)\<rparr>) balances) })"

definition LoadDataFromDB :: "ext \<Rightarrow> db_rows \<Rightarrow> load_ranges \<Rightarrow> BRC20ModuleIndexer \<Rightarrow> (string + BRC20ModuleIndexer) option" where
  "LoadDataFromDB e q rg g =
     and_then (LoadFromDbTickerInfoMap e (q_ticker_info q)) (\<lambda>tokens.
     and_then (LoadFromDbUserTokensBalanceData e tokens (q_user_balance q)) (\<lambda>balances.
     and_then (map_option Inr (UserTokensBalanceMap2TokenUsersBalanceMap tokens balances (ld_balances rg))) (\<lambda>users.
     and_then (LoadFromDBValidTransferMap e tokens (q_valid_transfer q)) (\<lambda>transfers.
     and_then (map_option Inr (attach_transfers e transfers (ld_transfers rg) balances)) (\<lambda>balances.
     and_then (LoadFromDBSwapApproveMap (q_valid_approve q)) (\<lambda>approves.
     and_then (LoadFromDBSwapCondApproveMap (q_valid_cond_approve q)) (\<lambda>conds.
     and_then (LoadFromDBSwapWithdrawMap (q_valid_withdraw q)) (\<lambda>withdraws.
     and_then (load_modules (loadFromDBSwapModuleInfo e q rg) (LoadFromDBModuleInfoMap (q_swap_info q) [])) (\<lambda>modules.
       Some (Inr (g
         \<lparr>g_InscriptionsTickerInfoMap := tokens, g_UserTokensBalanceData := balances, g_TokenUsersBalanceData := users,
          g_InscriptionsValidTransferMap := transfers, g_ModulesInfoMap := modules, g_InscriptionsValidApproveMap := approves,
          g_InscriptionsValidConditionalApproveMap := conds, g_InscriptionsValidCommitMap := LoadFromDBSwapCommitMap (q_valid_commit q),
          g_InscriptionsWithdrawMap := Some withdraws\<rparr>)))))))))))"

end
