(* ===== verification/Service_Loop.thy ===== *)
theory Service_Loop
  imports Database_Load
begin

text \<open>
  The loop of the service over the blocks (\<open>ProcessUpdateLatestBRC20SwapInit\<close> in
  \<open>service/brc20/brc20_swap.go\<close>), with \<open>UpdateBRC20BlockEventsHash\<close> of \<open>indexer/store.go\<close>.

  The channel of events is a list. The events of one height are collected and processed together when
  an event of another height arrives; after the last event the loader sends an empty one, of height 0, so
  that the last block is processed too. A state that is marked as changed is saved. The
  goroutines only forward events, and the cancellation of the context is left out. The orders in which
  the maps are visited when a block is saved are an argument, by height.
\<close>

section \<open>The events of a block\<close>

definition semicolons :: "string list \<Rightarrow> string" where
  "semicolons xs = concat (map (\<lambda>x. CHR '';'' # x) xs)"

text \<open>The verb \<open>%b\<close> is not defined for a boolean value, and \<open>Sprintf\<close> prints a note about it.\<close>

definition go_bool_as_binary :: "bool \<Rightarrow> string" where
  "go_bool_as_binary b = ''%!b(bool='' @ (if b then ''true'' else ''false'') @ '')''"

text \<open>The text of a record; a ticker that is not deployed is a \<open>nil\<close> dereference in the kinds that print it.\<close>

definition event_text :: "ext \<Rightarrow> (string \<rightharpoonup> BRC20TokenInfo) \<Rightarrow> BRC20History \<Rightarrow> string option" where
  "event_text e infos h =
     do {
       let pkScriptFrom = hex_encode (h_PkScriptFrom h);
       let pkScriptTo = hex_encode (h_PkScriptTo h);
       let inscription_id = ir_InscriptionId (h_Inscription h);
       data \<leftarrow> ir_Data (h_Inscription h);
       let ticker = ToLower e (r_BRC20Tick data);
       (if h_Type h = HISTORY_INSCRIBE_DEPLOY then do {
          info \<leftarrow> infos ticker;
          mx \<leftarrow> Decimal_String (ti_Max (tk_Deploy info));
          lim \<leftarrow> Decimal_String (ti_Limit (tk_Deploy info));
          Some (''deploy-inscribe'' @ semicolons [inscription_id, pkScriptTo, ticker, tk_Ticker info, mx,
            nat_string (unat (ti_Decimal (tk_Deploy info))), lim, go_bool_as_binary (ti_SelfMint (tk_Deploy info))]) }
        else if h_Type h = HISTORY_INSCRIBE_MINT then do {
          info \<leftarrow> infos ticker;
          Some (''mint-inscribe'' @ semicolons [inscription_id, pkScriptTo, ticker, tk_Ticker info, h_Amount h]) }
        else if h_Type h = HISTORY_INSCRIBE_TRANSFER then do {
          info \<leftarrow> infos ticker;
          Some (''transfer-inscribe'' @ semicolons [inscription_id, pkScriptTo, ticker, tk_Ticker info, h_Amount h]) }
        else if h_Type h = HISTORY_TRANSFER then do {
          info \<leftarrow> infos ticker;
          Some (''transfer-transfer'' @ semicolons [inscription_id, pkScriptFrom, pkScriptTo, ticker, tk_Ticker info, h_Amount h]) }
        else if h_Type h = HISTORY_WITHDRAW then do {
          info \<leftarrow> infos ticker;
          Some (''withdraw-transfer'' @ semicolons [inscription_id, pkScriptFrom, pkScriptTo, ticker, tk_Ticker info, h_Amount h]) }
        else Some '''') }"

fun block_events :: "ext \<Rightarrow> BRC20ModuleIndexer \<Rightarrow> u32 list \<Rightarrow> string list option" where
  "block_events e g [] = Some []"
| "block_events e g (hIdx # idxs) =
     (if unat hIdx \<ge> length (g_HistoryData g) then None
      else do {
        h \<leftarrow> Unmarshal empty_history (g_HistoryData g ! unat hIdx);
        if \<not> h_Valid h then block_events e g idxs
        else do {
          res \<leftarrow> event_text e (g_InscriptionsTickerInfoMap g) h;
          rest \<leftarrow> block_events e g idxs;
          Some (res # rest) } })"

text \<open>The texts are collected and dropped: no hash is computed and the state is not changed.\<close>

definition UpdateBRC20BlockEventsHash :: "ext \<Rightarrow> BRC20ModuleIndexer \<Rightarrow> BRC20ModuleIndexer option" where
  "UpdateBRC20BlockEventsHash e g = do { eventsPerBlock \<leftarrow> block_events e g (g_AllHistory g); Some g }"

section \<open>Blocks\<close>

text \<open>The height at which the service starts: \<open>dbHeight\<close> is the greatest height of a saved balance.\<close>

definition start_height :: "int \<Rightarrow> int \<Rightarrow> int" where
  "start_height dbHeight startHeight = (if dbHeight > startHeight then dbHeight + 1 else startHeight)"

type_synonym service_state = "BRC20ModuleIndexer \<times> swap_tables"

definition process_block ::
    "ext \<Rightarrow> SwapFunctionResultCheckState option list option \<Rightarrow> save_ranges \<Rightarrow> u32 \<Rightarrow> InscriptionBRC20Data list \<Rightarrow> service_state \<Rightarrow>
     service_state option" where
  "process_block e xr rg lastHeight datas s =
     (case s of (g, t) \<Rightarrow> do {
        g \<leftarrow> ProcessUpdateLatestBRC20Loop e xr g (Some datas);
        if g_Durty g then do {
          g \<leftarrow> UpdateBRC20BlockEventsHash e g;
          t \<leftarrow> SaveDataToDB rg lastHeight g t;
          Some (PurgeHistoricalData g, t) }
        else Some (g, t) })"

fun blocks_loop ::
    "ext \<Rightarrow> SwapFunctionResultCheckState option list option \<Rightarrow> (u32 \<Rightarrow> save_ranges) \<Rightarrow> InscriptionBRC20Data list \<Rightarrow> u32 \<Rightarrow>
     InscriptionBRC20Data list \<Rightarrow> service_state \<Rightarrow> service_state option" where
  "blocks_loop e xr rg [] lastHeight perHeight s = Some s"
| "blocks_loop e xr rg (data # datas) lastHeight perHeight s =
     (if perHeight \<noteq> [] \<and> lastHeight \<noteq> d_Height data
      then do { s \<leftarrow> process_block e xr (rg lastHeight) lastHeight perHeight s;
                blocks_loop e xr rg datas (d_Height data) [data] s }
      else blocks_loop e xr rg datas (d_Height data) (perHeight @ [data]) s)"

text \<open>\<open>g\<close> is the state after it was loaded; the result is the state the service publishes, and the tables.\<close>

definition ProcessUpdateLatestBRC20SwapInit ::
    "ext \<Rightarrow> SwapFunctionResultCheckState option list option \<Rightarrow> (u32 \<Rightarrow> save_ranges) \<Rightarrow> u32 \<Rightarrow> InscriptionBRC20Data list \<Rightarrow> service_state \<Rightarrow>
     service_state option" where
  "ProcessUpdateLatestBRC20SwapInit e xr rg startHeight datas s =
     do { (g, t) \<leftarrow> blocks_loop e xr rg (datas @ [zero_data]) startHeight [] s;
          Some (clean_holders g, t) }"

end
