(* ===== verification/Api.thy ===== *)
theory Api
  imports Service_Loop Loader
begin

text \<open>
  The queries of the service (\<open>service/brc20/brc20_api.go\<close>, \<open>brc20_swap_api.go\<close>) over the published state
  \<open>model.GSwap\<close>, which is \<open>None\<close> until a run of the service has ended.

  A query returns the total and a page: \<open>None\<close> is a panic, \<open>Inl\<close> a returned error. The handlers in front
  of the queries check that \<open>start\<close> is not negative. The orders in which maps are visited are
  arguments; since they are arbitrary, \<open>sort.Slice\<close>, which is not stable, is a stable sort here. Log lines are left
  out. The address codec is a parameter, and so is the comparison of two ratios in floating point.
\<close>

section \<open>Helpers\<close>

record api_env =
  ae_extract :: "string \<Rightarrow> (bool \<times> string list) option"
    \<comment> \<open>\<open>txscript.ExtractPkScriptAddrs\<close>: whether the script is non-standard, and its addresses encoded\<close>
  ae_blocks_hash :: "string list" \<comment> \<open>\<open>GlobalBlocksHash\<close>\<close>
  ae_rate_greater :: "BRC20TokenInfo \<Rightarrow> BRC20TokenInfo \<Rightarrow> bool" \<comment> \<open>\<open>ratei > ratej\<close>\<close>

type_synonym 'a reply = "(string + nat \<times> 'a list) option"

definition not_ready :: "(string + 'a) option" where
  "not_ready = Some (Inl ''brc20 not ready'')"

definition GetAddressFromScript :: "api_env \<Rightarrow> string \<Rightarrow> string option" where
  "GetAddressFromScript x script =
     (case ae_extract x script of
        None \<Rightarrow> None
      | Some (nonStandard, addresses) \<Rightarrow>
          (case addresses of [] \<Rightarrow> None | address # _ \<Rightarrow> if nonStandard then None else Some address))"

definition shown_address :: "api_env \<Rightarrow> string \<Rightarrow> string" where
  "shown_address x pkScript = (case GetAddressFromScript x pkScript of None \<Rightarrow> hex_encode pkScript | Some address \<Rightarrow> address)"

definition GetReversedStringHex :: "string \<Rightarrow> string" where
  "GetReversedStringHex data = hex_encode (rev data)"

definition block_hash :: "api_env \<Rightarrow> u32 \<Rightarrow> string" where
  "block_hash x height =
     (if unat height < length (ae_blocks_hash x) then GetReversedStringHex (ae_blocks_hash x ! unat height) else '''')"

definition BRC20_HISTORY_TYPE_NAMES :: "string list" where
  "BRC20_HISTORY_TYPE_NAMES =
     [''inscribe-deploy'', ''inscribe-mint'', ''inscribe-transfer'', ''transfer'', ''send'', ''receive'',
      ''inscribe-module'', ''inscribe-withdraw'', ''withdraw'', ''withdraw-from'', ''withdraw-to'',
      ''inscribe-approve'', ''approve'', ''inscribe-conditional-approve'', ''conditional-approve'',
      ''approve-from'', ''approve-to'', ''inscribe-commit'', ''commit'']"

definition history_name :: "u8 \<Rightarrow> string option" where
  "history_name t = (if unat t < length BRC20_HISTORY_TYPE_NAMES then Some (BRC20_HISTORY_TYPE_NAMES ! unat t) else None)"

text \<open>A stable sort; the comparison may panic.\<close>

fun insert_by :: "('a \<Rightarrow> 'a \<Rightarrow> bool option) \<Rightarrow> 'a \<Rightarrow> 'a list \<Rightarrow> 'a list option" where
  "insert_by before x [] = Some [x]"
| "insert_by before x (y # ys) =
     do { b \<leftarrow> before y x; if b then do { zs \<leftarrow> insert_by before x ys; Some (y # zs) } else Some (x # y # ys) }"

fun sort_by :: "('a \<Rightarrow> 'a \<Rightarrow> bool option) \<Rightarrow> 'a list \<Rightarrow> 'a list option" where
  "sort_by before [] = Some []"
| "sort_by before (x # xs) = do { ys \<leftarrow> sort_by before xs; insert_by before x ys }"

text \<open>\<open>if start >= total { return total, empty }\<close>, and the rows of one page otherwise.\<close>

definition page :: "nat \<Rightarrow> nat \<Rightarrow> 'a list \<Rightarrow> 'a list" where
  "page start limit xs = take limit (drop start xs)"

definition reply_page :: "('a \<Rightarrow> 'b option) \<Rightarrow> nat \<Rightarrow> nat \<Rightarrow> 'a list \<Rightarrow> 'b reply" where
  "reply_page row start limit xs =
     (if start \<ge> length xs then Some (Inr (length xs, []))
      else do { rows \<leftarrow> those (map row (page start limit xs)); Some (Inr (length xs, rows)) })"

text \<open>The values of a map in the order of its keys.\<close>

definition values_of :: "('k \<Rightarrow> 'v option) \<Rightarrow> 'k list \<Rightarrow> 'v list" where
  "values_of m keys = List.map_filter m keys"

text \<open>\<open>uint64(Height)*4294967296 + uint64(TxIdx)\<close>\<close>

definition creation_index :: "InscriptionBRC20TickInfo \<Rightarrow> u64" where
  "creation_index t = ucast (ti_Height t) * 4294967296 + ucast (ti_TxIdx t)"

section \<open>Holders\<close>

record BRC20TickerHoldersInfo =
  hi_Address :: string
  hi_OverallBalance :: string
  hi_TransferableBalance :: string
  hi_AvailableBalance :: string
  hi_AvailableBalanceSafe :: string
  hi_AvailableBalanceUnSafe :: string

text \<open>The five amounts of a balance that are shown.\<close>

definition shown_amounts :: "BRC20TokenBalance \<Rightarrow> (string \<times> string \<times> string \<times> string \<times> string) option" where
  "shown_amounts balance =
     do { overall \<leftarrow> OverallBalance balance;
          o' \<leftarrow> Decimal_String overall;
          t \<leftarrow> Decimal_String (tb_TransferableBalance balance);
          a \<leftarrow> Decimal_String (tb_AvailableBalance balance);
          s \<leftarrow> Decimal_String (tb_AvailableBalanceSafe balance);
          unsafe \<leftarrow> Decimal_Sub (tb_AvailableBalance balance) (tb_AvailableBalanceSafe balance);
          u \<leftarrow> Decimal_String unsafe;
          Some (o', t, a, s, u) }"

definition holder_row :: "api_env \<Rightarrow> BRC20TokenBalance \<Rightarrow> BRC20TickerHoldersInfo option" where
  "holder_row x balance =
     do { (o', t, a, s, u) \<leftarrow> shown_amounts balance;
          Some \<lparr>hi_Address = shown_address x (tb_PkScript balance), hi_OverallBalance = o', hi_TransferableBalance = t,
            hi_AvailableBalance = a, hi_AvailableBalanceSafe = s, hi_AvailableBalanceUnSafe = u\<rparr> }"

definition balance_greater :: "BRC20TokenBalance \<Rightarrow> BRC20TokenBalance \<Rightarrow> bool option" where
  "balance_greater a b =
     do { oa \<leftarrow> OverallBalance a; ob \<leftarrow> OverallBalance b; c \<leftarrow> Decimal_Cmp oa ob; Some (c > 0) }"

definition GetBRC20TickerHolders ::
    "api_env \<Rightarrow> BRC20ModuleIndexer option \<Rightarrow> string list \<Rightarrow> string \<Rightarrow> nat \<Rightarrow> nat \<Rightarrow> BRC20TickerHoldersInfo reply" where
  "GetBRC20TickerHolders x gswap keys ticker start limit =
     (case gswap of
        None \<Rightarrow> not_ready
      | Some g \<Rightarrow>
          (case g_TokenUsersBalanceData g ticker of
             None \<Rightarrow> Some (Inr (0, []))
           | Some tokenUsers \<Rightarrow>
               let holdersBalance = values_of (\<lambda>u. if u \<in> tokenUsers then balance_of g u ticker else None) keys in
               if start \<ge> length holdersBalance then Some (Inr (length holdersBalance, []))
               else do {
                 hs \<leftarrow> sort_by (\<lambda>a b. Some (go_less (tb_PkScript b) (tb_PkScript a))) holdersBalance;
                 hs \<leftarrow> sort_by balance_greater hs;
                 reply_page (holder_row x) start limit hs }))"

section \<open>Tokens\<close>

record BRC20TickerStatusInfo =
  st_Ticker :: string
  st_SelfMint :: bool
  st_HoldersCount :: nat
  st_HistoryCount :: nat
  st_InscriptionNumber :: i64
  st_InscriptionId :: string
  st_Max :: string
  st_Limit :: string
  st_Minted :: string
  st_TotalMinted :: string
  st_ConfirmedMinted :: string
  st_ConfirmedMinted1h :: string
  st_ConfirmedMinted24h :: string
  st_MintTimes :: u32
  st_Decimal :: u8
  st_CreatorAddress :: string
  st_TxIdHex :: string
  st_DeployHeight :: u32
  st_DeployBlockTime :: u32
  st_CompleteHeight :: u32
  st_CompleteBlockTime :: u32
  st_InscriptionNumberStart :: i64
  st_InscriptionNumberEnd :: i64

text \<open>\<open>len(g.TokenUsersBalanceData[ticker])\<close>; the set is finite.\<close>

definition holders_count :: "BRC20ModuleIndexer \<Rightarrow> string \<Rightarrow> nat" where
  "holders_count g lt = (case g_TokenUsersBalanceData g lt of None \<Rightarrow> 0 | Some us \<Rightarrow> card us)"

definition status_row :: "ext \<Rightarrow> BRC20ModuleIndexer \<Rightarrow> BRC20TokenInfo \<Rightarrow> BRC20TickerStatusInfo option" where
  "status_row e g info =
     (let d = tk_Deploy info; tick = r_BRC20Tick (ti_Data d) in
      do { mx \<leftarrow> Decimal_String (ti_Max d);
           lim \<leftarrow> Decimal_String (ti_Limit d);
           minted \<leftarrow> Decimal_String (ti_TotalMinted d);
           c \<leftarrow> Decimal_String (ti_ConfirmedMinted d);
           c1 \<leftarrow> Decimal_String (ti_ConfirmedMinted1h d);
           c24 \<leftarrow> Decimal_String (ti_ConfirmedMinted24h d);
           Some \<lparr>st_Ticker = tick, st_SelfMint = ti_SelfMint d, st_HoldersCount = holders_count g (ToLower e tick),
             st_HistoryCount = length (tk_History info), st_InscriptionNumber = ti_InscriptionNumber d,
             st_InscriptionId = TickInfo_GetInscriptionId d, st_Max = mx, st_Limit = lim, st_Minted = minted, st_TotalMinted = minted,
             st_ConfirmedMinted = c, st_ConfirmedMinted1h = c1, st_ConfirmedMinted24h = c24, st_MintTimes = ti_MintTimes d,
             st_Decimal = ti_Decimal d, st_CreatorAddress = '''', st_TxIdHex = '''', st_DeployHeight = ti_Height d,
             st_DeployBlockTime = ti_BlockTime d, st_CompleteHeight = ti_CompleteHeight d, st_CompleteBlockTime = ti_CompleteBlockTime d,
             st_InscriptionNumberStart = ti_InscriptionNumberStart d, st_InscriptionNumberEnd = ti_InscriptionNumberEnd d\<rparr> })"

text \<open>Whether a token is listed: its name contains the text that is searched, and it is complete or not as asked.\<close>

definition status_selected :: "ext \<Rightarrow> string \<Rightarrow> string \<Rightarrow> BRC20TokenInfo \<Rightarrow> bool option" where
  "status_selected e ticker completeType info =
     (let d = tk_Deploy info in
      if ticker \<noteq> '''' \<and> \<not> go_contains (ToLower e (r_BRC20Tick (ti_Data d))) ticker then Some False
      else if completeType = ''yes'' then do { c \<leftarrow> Decimal_Cmp (ti_TotalMinted d) (ti_Max d); Some (c = 0) }
      else if completeType = ''no'' then do { c \<leftarrow> Decimal_Cmp (ti_TotalMinted d) (ti_Max d); Some (c < 0) }
      else Some (completeType = ''''))"

fun filter_by :: "('a \<Rightarrow> bool option) \<Rightarrow> 'a list \<Rightarrow> 'a list option" where
  "filter_by p [] = Some []"
| "filter_by p (x # xs) = do { b \<leftarrow> p x; ys \<leftarrow> filter_by p xs; Some (if b then x # ys else ys) }"

definition deployed_before :: "BRC20TokenInfo \<Rightarrow> BRC20TokenInfo \<Rightarrow> bool option" where
  "deployed_before a b = Some (creation_index (tk_Deploy a) < creation_index (tk_Deploy b))"

definition status_order :: "ext \<Rightarrow> api_env \<Rightarrow> BRC20ModuleIndexer \<Rightarrow> string \<Rightarrow> BRC20TokenInfo list \<Rightarrow> BRC20TokenInfo list option" where
  "status_order e x g sortBy infos =
     (if sortBy = ''holders'' then
        sort_by (\<lambda>a b. Some (holders_count g (ToLower e (tk_Ticker a)) > holders_count g (ToLower e (tk_Ticker b)))) infos
      else if sortBy = ''transactions'' then sort_by (\<lambda>a b. Some (length (tk_History a) > length (tk_History b))) infos
      else if sortBy = ''minted'' then sort_by (\<lambda>a b. Some (ae_rate_greater x a b)) infos
      else Some infos)"

definition GetBRC20Status ::
    "ext \<Rightarrow> api_env \<Rightarrow> BRC20ModuleIndexer option \<Rightarrow> string list \<Rightarrow> string \<Rightarrow> string \<Rightarrow> string \<Rightarrow> nat \<Rightarrow> nat \<Rightarrow>
     BRC20TickerStatusInfo reply" where
  "GetBRC20Status e x gswap keys ticker completeType sortBy start limit =
     (case gswap of
        None \<Rightarrow> not_ready
      | Some g \<Rightarrow> do {
          infos \<leftarrow> filter_by (status_selected e ticker completeType) (values_of (g_InscriptionsTickerInfoMap g) keys);
          if start \<ge> length infos then Some (Inr (length infos, []))
          else do {
            infos \<leftarrow> sort_by deployed_before infos;
            infos \<leftarrow> status_order e x g sortBy infos;
            reply_page (status_row e g) start (if limit > 0 then limit else length infos) infos } })"

definition GetBRC20List :: "BRC20ModuleIndexer option \<Rightarrow> string list \<Rightarrow> nat \<Rightarrow> nat \<Rightarrow> string reply" where
  "GetBRC20List gswap keys start limit =
     (case gswap of
        None \<Rightarrow> not_ready
      | Some g \<Rightarrow>
          let infos = values_of (g_InscriptionsTickerInfoMap g) keys in
          if start \<ge> length infos then Some (Inr (length infos, []))
          else do {
            infos \<leftarrow> sort_by deployed_before infos;
            reply_page (\<lambda>info. Some (r_BRC20Tick (ti_Data (tk_Deploy info)))) start (if limit > 0 then limit else length infos) infos })"

definition GetBRC20TickerInfo ::
    "ext \<Rightarrow> api_env \<Rightarrow> BRC20ModuleIndexer option \<Rightarrow> string \<Rightarrow> (string + BRC20TickerStatusInfo) option" where
  "GetBRC20TickerInfo e x gswap ticker =
     (case gswap of
        None \<Rightarrow> not_ready
      | Some g \<Rightarrow>
          (case g_InscriptionsTickerInfoMap g ticker of
             None \<Rightarrow> Some (Inl ''ticker invalid'')
           | Some tokenInfo \<Rightarrow> do {
               r \<leftarrow> status_row e g tokenInfo;
               Some (Inr (r\<lparr>st_CreatorAddress := shown_address x (ti_PkScript (tk_Deploy tokenInfo)),
                            st_TxIdHex := GetReversedStringHex (ti_TxId (tk_Deploy tokenInfo))\<rparr>)) }))"

section \<open>Histories\<close>

record BRC20TickerHistoryInfo =
  th_Ticker :: string
  th_Type :: string
  th_Valid :: bool
  th_TxIdHex :: string
  th_Idx :: u32
  th_Vout :: u32
  th_Offset :: u64
  th_InscriptionNumber :: i64
  th_InscriptionId :: string
  th_AddressFrom :: string
  th_AddressTo :: string
  th_Satoshi :: u64
  th_Fee :: i64
  th_Amount :: string
  th_OverallBalance :: string
  th_TransferableBalance :: string
  th_AvailableBalance :: string
  th_Height :: u32
  th_TxIdx :: u32
  th_BlockHashHex :: string
  th_BlockTime :: u32

definition history_at :: "BRC20ModuleIndexer \<Rightarrow> u32 \<Rightarrow> BRC20History option" where
  "history_at g historyIdx =
     (if unat historyIdx < length (g_HistoryData g) then Unmarshal empty_history (g_HistoryData g ! unat historyIdx) else None)"

definition history_info :: "api_env \<Rightarrow> string \<Rightarrow> BRC20History \<Rightarrow> BRC20TickerHistoryInfo option" where
  "history_info x ticker h =
     do { name \<leftarrow> history_name (h_Type h);
          Some \<lparr>th_Ticker = ticker, th_Type = name, th_Valid = h_Valid h, th_TxIdHex = GetReversedStringHex (h_TxId h), th_Idx = h_Idx h,
            th_Vout = h_Vout h, th_Offset = h_Offset h, th_InscriptionNumber = ir_InscriptionNumber (h_Inscription h),
            th_InscriptionId = ir_InscriptionId (h_Inscription h), th_AddressFrom = shown_address x (h_PkScriptFrom h),
            th_AddressTo = shown_address x (h_PkScriptTo h), th_Satoshi = h_Satoshi h, th_Fee = h_Fee h, th_Amount = h_Amount h,
            th_OverallBalance = h_OverallBalance h, th_TransferableBalance = h_TransferableBalance h,
            th_AvailableBalance = h_AvailableBalance h, th_Height = h_Height h, th_TxIdx = h_TxIdx h,
            th_BlockHashHex = block_hash x (h_Height h), th_BlockTime = h_BlockTime h\<rparr> }"

text \<open>The ticker of a record; one without data is a \<open>nil\<close> dereference.\<close>

definition own_history_info :: "api_env \<Rightarrow> BRC20History \<Rightarrow> BRC20TickerHistoryInfo option" where
  "own_history_info x h = do { data \<leftarrow> ir_Data (h_Inscription h); history_info x (r_BRC20Tick data) h }"

text \<open>
  The loop over the numbers of records from the last one: it stops at the first record before the height and
  leaves out those after it. The records are then brought into their order again.
\<close>

fun height_loop :: "u32 \<Rightarrow> u32 \<Rightarrow> u32 list \<Rightarrow> u32 list" where
  "height_loop firstHistory lastHistory [] = []"
| "height_loop firstHistory lastHistory (history # hs) =
     (if history < firstHistory then []
      else if lastHistory > 0 \<and> history \<ge> lastHistory then height_loop firstHistory lastHistory hs
      else history # height_loop firstHistory lastHistory hs)"

definition histories_of_height :: "BRC20ModuleIndexer \<Rightarrow> int \<Rightarrow> u32 list \<Rightarrow> u32 list" where
  "histories_of_height g height hs =
     (let first = (\<lambda>h. case g_FirstHistoryByHeight g (of_int h) of None \<Rightarrow> 0 | Some i \<Rightarrow> i) in
      rev (height_loop (first height) (first (height + 1)) (rev hs)))"

text \<open>The rows of the records that are not skipped.\<close>

fun history_rows :: "BRC20ModuleIndexer \<Rightarrow> (BRC20History \<Rightarrow> bool) \<Rightarrow> (BRC20History \<Rightarrow> 'r option) \<Rightarrow> u32 list \<Rightarrow> 'r list option" where
  "history_rows g keep row [] = Some []"
| "history_rows g keep row (i # is) =
     do { h \<leftarrow> history_at g i;
          if \<not> keep h then history_rows g keep row is
          else do { r \<leftarrow> row h; rs \<leftarrow> history_rows g keep row is; Some (r # rs) } }"

definition GetBRC20AllHistoryByHeight ::
    "api_env \<Rightarrow> BRC20ModuleIndexer option \<Rightarrow> int \<Rightarrow> nat \<Rightarrow> nat \<Rightarrow> BRC20TickerHistoryInfo reply" where
  "GetBRC20AllHistoryByHeight x gswap height start limit =
     (case gswap of
        None \<Rightarrow> not_ready
      | Some g \<Rightarrow>
          let tokenInfoHistory = histories_of_height g height (g_AllHistory g); total = length tokenInfoHistory in
          if start \<ge> total then Some (Inr (total, []))
          else do {
            rows \<leftarrow> history_rows g (\<lambda>h. height = int (unat (h_Height h))) (own_history_info x) (page start limit tokenInfoHistory);
            Some (Inr (total, rows)) })"

definition GetBRC20AllHistoryByAddress ::
    "api_env \<Rightarrow> BRC20ModuleIndexer option \<Rightarrow> string \<Rightarrow> nat \<Rightarrow> nat \<Rightarrow> BRC20TickerHistoryInfo reply" where
  "GetBRC20AllHistoryByAddress x gswap pkScript start limit =
     (case gswap of
        None \<Rightarrow> not_ready
      | Some g \<Rightarrow>
          let tokenInfoHistory = uh_History (GetBRC20HistoryByUserForAPI g pkScript); total = length tokenInfoHistory in
          if start \<ge> total then Some (Inr (total, []))
          else do {
            rows \<leftarrow> history_rows g (\<lambda>_. True) (own_history_info x) (page start limit (rev tokenInfoHistory));
            Some (Inr (total, rows)) })"

text \<open>The loop that skips records of other heights and ends after \<open>limit\<close> rows; the next record is read before it ends.\<close>

fun limited_rows ::
    "BRC20ModuleIndexer \<Rightarrow> (BRC20History \<Rightarrow> bool) \<Rightarrow> (BRC20History \<Rightarrow> 'r option) \<Rightarrow> nat \<Rightarrow> u32 list \<Rightarrow> 'r list option" where
  "limited_rows g keep row limit [] = Some []"
| "limited_rows g keep row limit (i # is) =
     do { h \<leftarrow> history_at g i;
          if \<not> keep h then limited_rows g keep row limit is
          else if limit = 0 then Some []
          else do { r \<leftarrow> row h; rs \<leftarrow> limited_rows g keep row (limit - 1) is; Some (r # rs) } }"

definition GetBRC20TickerHistory ::
    "api_env \<Rightarrow> BRC20ModuleIndexer option \<Rightarrow> string \<Rightarrow> string \<Rightarrow> int \<Rightarrow> nat \<Rightarrow> nat \<Rightarrow> BRC20TickerHistoryInfo reply" where
  "GetBRC20TickerHistory x gswap historyType ticker height start limit =
     (case gswap of
        None \<Rightarrow> not_ready
      | Some g \<Rightarrow>
          (case g_InscriptionsTickerInfoMap g ticker of
             None \<Rightarrow> Some (Inr (0, []))
           | Some tokenInfo \<Rightarrow>
               let hs = (if historyType = ''inscribe-mint'' then tk_HistoryMint tokenInfo
                         else if historyType = ''inscribe-transfer'' then tk_HistoryInscribeTransfer tokenInfo
                         else if historyType = ''transfer'' then tk_HistoryTransfer tokenInfo
                         else tk_History tokenInfo);
                   hs = (if height > 0 then histories_of_height g height hs else hs);
                   total = length hs in
               if start \<ge> total then Some (Inr (total, []))
               else do {
                 rows \<leftarrow> limited_rows g (\<lambda>h. height > 0 \<longrightarrow> height = int (unat (h_Height h)))
                   (history_info x (r_BRC20Tick (ti_Data (tk_Deploy tokenInfo)))) limit (drop start (rev hs));
                 Some (Inr (total, rows)) }))"

definition GetBRC20TickerHistoryByAddress ::
    "api_env \<Rightarrow> BRC20ModuleIndexer option \<Rightarrow> string \<Rightarrow> string \<Rightarrow> string \<Rightarrow> nat \<Rightarrow> nat \<Rightarrow> BRC20TickerHistoryInfo reply" where
  "GetBRC20TickerHistoryByAddress x gswap pkScript historyType ticker start limit =
     (case gswap of
        None \<Rightarrow> not_ready
      | Some g \<Rightarrow>
          (case balance_of g pkScript ticker of
             None \<Rightarrow> Some (Inr (0, []))
           | Some tokenInfo \<Rightarrow>
               let hs = (if historyType = ''inscribe-mint'' then tb_HistoryMint tokenInfo
                         else if historyType = ''inscribe-transfer'' then tb_HistoryInscribeTransfer tokenInfo
                         else if historyType = ''send'' then tb_HistorySend tokenInfo
                         else if historyType = ''receive'' then tb_HistoryReceive tokenInfo
                         else tb_History tokenInfo);
                   total = length hs in
               if start \<ge> total then Some (Inr (total, []))
               else do {
                 rows \<leftarrow> history_rows g (\<lambda>_. True) (history_info x (tb_Ticker tokenInfo)) (page start limit (rev hs));
                 Some (Inr (total, rows)) }))"

section \<open>Balances of an address\<close>

record BRC20TokenSummaryInfo =
  su_Ticker :: string
  su_OverallBalance :: string
  su_TransferableBalance :: string
  su_AvailableBalance :: string
  su_AvailableBalanceSafe :: string
  su_AvailableBalanceUnSafe :: string
  su_Decimal :: nat

definition ticker_greater :: "BRC20TokenBalance \<Rightarrow> BRC20TokenBalance \<Rightarrow> bool option" where
  "ticker_greater a b = Some (go_less (tb_Ticker b) (tb_Ticker a))"

definition aligned_greater :: "BRC20TokenBalance \<Rightarrow> BRC20TokenBalance \<Rightarrow> bool option" where
  "aligned_greater a b = do { oa \<leftarrow> OverallBalance a; ob \<leftarrow> OverallBalance b; Some (Decimal_CmpAlign oa ob > 0) }"

text \<open>A balance whose token is missing is left out of the page.\<close>

fun summary_rows ::
    "ext \<Rightarrow> BRC20ModuleIndexer \<Rightarrow> (BRC20TokenInfo \<Rightarrow> BRC20TokenBalance \<Rightarrow> 'r option) \<Rightarrow> BRC20TokenBalance list \<Rightarrow> 'r list option" where
  "summary_rows e g row [] = Some []"
| "summary_rows e g row (balance # bs) =
     (case g_InscriptionsTickerInfoMap g (ToLower e (tb_Ticker balance)) of
        None \<Rightarrow> summary_rows e g row bs
      | Some tokenInfo \<Rightarrow> do { r \<leftarrow> row tokenInfo balance; rs \<leftarrow> summary_rows e g row bs; Some (r # rs) })"

definition summary_row :: "BRC20TokenInfo \<Rightarrow> BRC20TokenBalance \<Rightarrow> BRC20TokenSummaryInfo option" where
  "summary_row tokenInfo balance =
     do { (o', t, a, s, u) \<leftarrow> shown_amounts balance;
          Some \<lparr>su_Ticker = tb_Ticker balance, su_OverallBalance = o', su_TransferableBalance = t, su_AvailableBalance = a,
            su_AvailableBalanceSafe = s, su_AvailableBalanceUnSafe = u, su_Decimal = unat (ti_Decimal (tk_Deploy tokenInfo))\<rparr> }"

definition GetBRC20SummaryByAddress ::
    "ext \<Rightarrow> BRC20ModuleIndexer option \<Rightarrow> string list \<Rightarrow> string \<Rightarrow> nat \<Rightarrow> nat \<Rightarrow> BRC20TokenSummaryInfo reply" where
  "GetBRC20SummaryByAddress e gswap keys pkScript start limit =
     (case gswap of
        None \<Rightarrow> not_ready
      | Some g \<Rightarrow>
          (case g_UserTokensBalanceData g pkScript of
             None \<Rightarrow> Some (Inr (0, []))
           | Some userTokens \<Rightarrow>
               let bs = values_of userTokens keys; total = length bs in
               if start \<ge> total then Some (Inr (total, []))
               else do {
                 bs \<leftarrow> sort_by ticker_greater bs;
                 bs \<leftarrow> sort_by aligned_greater bs;
                 rows \<leftarrow> summary_rows e g summary_row (page start limit bs);
                 Some (Inr (total, rows)) }))"

text \<open>The last record that is not after the height; the loop ends at the first one that is.\<close>

fun last_history :: "BRC20ModuleIndexer \<Rightarrow> int \<Rightarrow> BRC20History option \<Rightarrow> u32 list \<Rightarrow> BRC20History option option" where
  "last_history g height acc [] = Some acc"
| "last_history g height acc (i # is) =
     do { h \<leftarrow> history_at g i; if height < int (unat (h_Height h)) then Some acc else last_history g height (Some h) is }"

definition summary_row_at :: "BRC20ModuleIndexer \<Rightarrow> int \<Rightarrow> BRC20TokenInfo \<Rightarrow> BRC20TokenBalance \<Rightarrow> BRC20TokenSummaryInfo option" where
  "summary_row_at g height tokenInfo balance =
     do { lastHistory \<leftarrow> last_history g height None (tb_History balance);
          let info = \<lparr>su_Ticker = tb_Ticker balance, su_OverallBalance = ''0'', su_TransferableBalance = ''0'', su_AvailableBalance = ''0'',
                su_AvailableBalanceSafe = '''', su_AvailableBalanceUnSafe = '''', su_Decimal = unat (ti_Decimal (tk_Deploy tokenInfo))\<rparr>;
          Some (case lastHistory of
                  None \<Rightarrow> info
                | Some h \<Rightarrow> info\<lparr>su_TransferableBalance := h_TransferableBalance h, su_AvailableBalance := h_AvailableBalance h,
                              su_OverallBalance := h_OverallBalance h\<rparr>) }"

definition GetBRC20SummaryByAddressAndHeight ::
    "ext \<Rightarrow> BRC20ModuleIndexer option \<Rightarrow> string list \<Rightarrow> string \<Rightarrow> int \<Rightarrow> nat \<Rightarrow> nat \<Rightarrow> BRC20TokenSummaryInfo reply" where
  "GetBRC20SummaryByAddressAndHeight e gswap keys pkScript height start limit =
     (case gswap of
        None \<Rightarrow> not_ready
      | Some g \<Rightarrow>
          (case g_UserTokensBalanceData g pkScript of
             None \<Rightarrow> Some (Inr (0, []))
           | Some userTokens \<Rightarrow>
               let bs = values_of userTokens keys; total = length bs in
               if start \<ge> total then Some (Inr (total, []))
               else do {
                 bs \<leftarrow> sort_by ticker_greater bs;
                 rows \<leftarrow> summary_rows e g (summary_row_at g height) (page start limit bs);
                 Some (Inr (total, rows)) }))"

record BRC20TickerStatusInfoOfAddressResp =
  sa_Ticker :: string
  sa_OverallBalance :: string
  sa_TransferableBalance :: string
  sa_AvailableBalance :: string
  sa_AvailableBalanceSafe :: string
  sa_AvailableBalanceUnSafe :: string
  sa_TransferableCount :: nat
  sa_TransferableInscriptions :: "InscriptionBRC20TickInfoResp list"
  sa_HistoryCount :: nat
  sa_HistoryInscriptions :: "InscriptionBRC20TickInfoResp list"

definition created_after :: "InscriptionBRC20TickInfo \<Rightarrow> InscriptionBRC20TickInfo \<Rightarrow> bool option" where
  "created_after a b = Some (creation_index a > creation_index b)"

definition transfer_resp :: "string \<Rightarrow> InscriptionBRC20TickInfo \<Rightarrow> InscriptionBRC20TickInfoResp" where
  "transfer_resp inscriptionId tr =
     \<lparr>ir_Height = ti_Height tr, ir_Data = Some (ti_Data tr), ir_InscriptionNumber = ti_InscriptionNumber tr,
      ir_InscriptionId = inscriptionId, ir_Satoshi = ti_Satoshi tr, ir_Confirmations = 0\<rparr>"

text \<open>Up to eight transfers and seven records: neither invalid nor an inscribed transfer nor a send.\<close>

definition GetBRC20TickerInfoByAddress ::
    "BRC20ModuleIndexer option \<Rightarrow> string list \<Rightarrow> string \<Rightarrow> string \<Rightarrow> (string + BRC20TickerStatusInfoOfAddressResp) option" where
  "GetBRC20TickerInfoByAddress gswap keys pkScript ticker =
     (case gswap of
        None \<Rightarrow> not_ready
      | Some g \<Rightarrow>
          (case balance_of g pkScript ticker of
             None \<Rightarrow>
               Some (Inr \<lparr>sa_Ticker = ticker, sa_OverallBalance = ''0'', sa_TransferableBalance = ''0'', sa_AvailableBalance = ''0'',
                 sa_AvailableBalanceSafe = ''0'', sa_AvailableBalanceUnSafe = ''0'', sa_TransferableCount = 0, sa_TransferableInscriptions = [],
                 sa_HistoryCount = 0, sa_HistoryInscriptions = []\<rparr>)
           | Some tokenInfo \<Rightarrow> do {
               let validTransfer = values_of (tb_ValidTransferMap tokenInfo) keys;
               transfers \<leftarrow> sort_by created_after validTransfer;
               histories \<leftarrow> limited_rows g (\<lambda>h. h_Valid h \<and> h_Type h \<noteq> HISTORY_INSCRIBE_TRANSFER \<and> h_Type h \<noteq> HISTORY_SEND)
                 (\<lambda>h. Some (h_Inscription h)) 7 (rev (tb_History tokenInfo));
               (o', t, a, s, u) \<leftarrow> shown_amounts tokenInfo;
               Some (Inr \<lparr>sa_Ticker = tb_Ticker tokenInfo, sa_OverallBalance = o', sa_TransferableBalance = t, sa_AvailableBalance = a,
                 sa_AvailableBalanceSafe = s, sa_AvailableBalanceUnSafe = u, sa_TransferableCount = length validTransfer,
                 sa_TransferableInscriptions = map (\<lambda>tr. transfer_resp (TickInfo_GetInscriptionId tr) tr) (take 8 transfers),
                 sa_HistoryCount = length (tb_History tokenInfo), sa_HistoryInscriptions = histories\<rparr>) }))"

definition GetBRC20TickerTransferableInscriptionsByAddress ::
    "BRC20ModuleIndexer option \<Rightarrow> string list \<Rightarrow> string \<Rightarrow> string \<Rightarrow> nat \<Rightarrow> nat \<Rightarrow> bool \<Rightarrow> InscriptionBRC20TickInfoResp reply" where
  "GetBRC20TickerTransferableInscriptionsByAddress gswap keys pkScript ticker start limit isInvalid =
     (case gswap of
        None \<Rightarrow> not_ready
      | Some g \<Rightarrow>
          (case balance_of g pkScript ticker of
             None \<Rightarrow> Some (Inr (0, []))
           | Some tokenInfo \<Rightarrow> do {
               transfers \<leftarrow> sort_by created_after (if isInvalid then [] else values_of (tb_ValidTransferMap tokenInfo) keys);
               reply_page (\<lambda>tr. Some (transfer_resp (GetReversedStringHex (ti_TxId tr) @ ''i'' @ nat_string (unat (ti_Idx tr))) tr))
                 start limit transfers }))"

section \<open>Modules\<close>

record BRC20ModuleHistoryInfo =
  mi_Type :: string
  mi_Valid :: bool
  mi_TxIdHex :: string
  mi_Idx :: u32
  mi_Vout :: u32
  mi_Offset :: u64
  mi_InscriptionNumber :: i64
  mi_InscriptionId :: string
  mi_ContentType :: string
  mi_ContentBody :: string
  mi_AddressFrom :: string
  mi_AddressTo :: string
  mi_Satoshi :: u64
  mi_Data :: module_history_data
  mi_Height :: u32
  mi_TxIdx :: u32
  mi_BlockHashHex :: string
  mi_BlockTime :: u32

definition module_history_info :: "api_env \<Rightarrow> BRC20ModuleHistory \<Rightarrow> BRC20ModuleHistoryInfo option" where
  "module_history_info x h =
     do { name \<leftarrow> history_name (h_Type h);
          Some \<lparr>mi_Type = name, mi_Valid = h_Valid h, mi_TxIdHex = GetReversedStringHex (h_TxId h), mi_Idx = h_Idx h, mi_Vout = h_Vout h,
            mi_Offset = h_Offset h, mi_InscriptionNumber = sr_InscriptionNumber (mh_Inscription h),
            mi_InscriptionId = sr_InscriptionId (mh_Inscription h), mi_ContentType = '''', mi_ContentBody = sr_ContentBody (mh_Inscription h),
            mi_AddressFrom = shown_address x (h_PkScriptFrom h), mi_AddressTo = shown_address x (h_PkScriptTo h), mi_Satoshi = h_Satoshi h,
            mi_Data = mh_Data h, mi_Height = h_Height h, mi_TxIdx = h_TxIdx h, mi_BlockHashHex = block_hash x (h_Height h),
            mi_BlockTime = h_BlockTime h\<rparr> }"

fun module_height_loop :: "int \<Rightarrow> int \<Rightarrow> BRC20ModuleHistory list \<Rightarrow> BRC20ModuleHistory list" where
  "module_height_loop startHeight endHeight [] = []"
| "module_height_loop startHeight endHeight (history # hs) =
     (if endHeight > 0 \<and> endHeight \<le> int (unat (h_Height history)) then module_height_loop startHeight endHeight hs
      else if startHeight > int (unat (h_Height history)) then []
      else history # module_height_loop startHeight endHeight hs)"

text \<open>All three kinds of history that are told apart are the same list.\<close>

definition GetBRC20ModuleHistory ::
    "api_env \<Rightarrow> BRC20ModuleIndexer option \<Rightarrow> string \<Rightarrow> string \<Rightarrow> int \<Rightarrow> int \<Rightarrow> nat \<Rightarrow> nat \<Rightarrow> BRC20ModuleHistoryInfo reply" where
  "GetBRC20ModuleHistory x gswap historyType module startHeight endHeight start limit =
     (case gswap of
        None \<Rightarrow> not_ready
      | Some g \<Rightarrow>
          (case module_of g module of
             None \<Rightarrow> Some (Inr (0, []))
           | Some moduleInfo \<Rightarrow>
               let hs = m_History moduleInfo;
                   hs = (if startHeight > 0 then rev (module_height_loop startHeight endHeight (rev hs)) else hs) in
               reply_page (module_history_info x) start limit hs))"

record BRC20ModuleVerifySwapCommitResp =
  vr_Valid :: bool
  vr_Critical :: bool
  vr_FunctionIndex :: int
  vr_FunctionId :: string
  vr_Message :: string

text \<open>What the results name: the users, and the tokens of the users and the pools. A missing result is a \<open>nil\<close> dereference.\<close>

fun pick_users ::
    "ext \<Rightarrow> SwapFunctionResultCheckStateForUser list \<Rightarrow> string set \<times> string set \<Rightarrow> string + string set \<times> string set" where
  "pick_users e [] picks = Inr picks"
| "pick_users e (user # us) picks =
     (case GetPkScriptByAddress e (ru_Address user) of
        None \<Rightarrow> Inl ''result, addr invalid''
      | Some pkScript \<Rightarrow>
          pick_users e us (insert pkScript (fst picks),
            if length (ru_Tick user) = 4 then insert (ToLower e (ru_Tick user)) (snd picks) else snd picks))"

fun pick_pools ::
    "ext \<Rightarrow> SwapFunctionResultCheckStateForPool list \<Rightarrow> string set \<times> string set \<Rightarrow> string + string set \<times> string set" where
  "pick_pools e [] picks = Inr picks"
| "pick_pools e (pool # ps) picks =
     (case DecodeTokensFromSwapPair (rp_Pair pool) of
        None \<Rightarrow> Inl ''result, pool pair invalid''
      | Some (token0, token1) \<Rightarrow> pick_pools e ps (fst picks, insert (ToLower e token0) (insert (ToLower e token1) (snd picks))))"

fun pick_results ::
    "ext \<Rightarrow> SwapFunctionResultCheckState option list \<Rightarrow> string set \<times> string set \<Rightarrow> (string + string set \<times> string set) option" where
  "pick_results e [] picks = Some (Inr picks)"
| "pick_results e (None # rs) picks = None"
| "pick_results e (Some r # rs) picks =
     (case pick_users e (rs_Users r) picks of
        Inl err \<Rightarrow> Some (Inl err)
      | Inr picks \<Rightarrow> (case pick_pools e (rs_Pools r) picks of Inl err \<Rightarrow> Some (Inl err) | Inr picks \<Rightarrow> pick_results e rs picks))"

text \<open>The name of the function that failed, where the index is one; a missing function is a \<open>nil\<close> dereference.\<close>

definition function_id :: "InscriptionBRC20ModuleSwapCommitContent \<Rightarrow> int \<Rightarrow> string option" where
  "function_id commitObj idx =
     (if 0 \<le> idx \<and> idx < int (length (cc_Data commitObj)) then map_option sf_ID (cc_Data commitObj ! nat idx) else Some '''')"

definition verify_response ::
    "InscriptionBRC20ModuleSwapCommitContent \<Rightarrow> (int \<times> bool \<times> string) option \<Rightarrow> BRC20ModuleVerifySwapCommitResp option" where
  "verify_response commitObj v =
     (case v of
        None \<Rightarrow> Some \<lparr>vr_Valid = True, vr_Critical = False, vr_FunctionIndex = 0, vr_FunctionId = '''', vr_Message = ''ok''\<rparr>
      | Some (idx, critical, err) \<Rightarrow> do {
          name \<leftarrow> function_id commitObj idx;
          Some \<lparr>vr_Valid = False, vr_Critical = critical, vr_FunctionIndex = idx, vr_FunctionId = name, vr_Message = err\<rparr> })"

text \<open>\<open>commitsStr[total-1]\<close> is out of range for an empty request.\<close>

definition service_VerifySwapCommitContent ::
    "ext \<Rightarrow> SwapFunctionResultCheckState option list option \<Rightarrow> BRC20ModuleIndexer option \<Rightarrow> string \<Rightarrow> string list \<Rightarrow>
     InscriptionBRC20ModuleSwapCommitContent list \<Rightarrow> SwapFunctionResultCheckState option list \<Rightarrow>
     (string + BRC20ModuleVerifySwapCommitResp) option" where
  "service_VerifySwapCommitContent e xr gswap module commitsStr commitsObj results =
     (case gswap of
        None \<Rightarrow> Some (Inl ''swap not ready'')
      | Some g \<Rightarrow> do {
          picks \<leftarrow> pick_results e results ({}, {});
          (case picks of
             Inl err \<Rightarrow> Some (Inl err)
           | Inr (users, ticks) \<Rightarrow>
               let swapState = CherryPick e g module users ticks in
               do {
                 swapState \<leftarrow> (if length commitsStr \<ge> 2 then BRC20ModulePrepareSwapCommitContent swapState commitsStr commitsObj else Some swapState);
                 if commitsStr = [] \<or> length commitsObj < length commitsStr then None
                 else do {
                   let commitObj = commitsObj ! (length commitsStr - 1);
                   (v, swapState) \<leftarrow> BRC20ModuleVerifySwapCommitContent e xr swapState (last commitsStr) commitObj results;
                   resp \<leftarrow> verify_response commitObj v;
                   Some (Inr resp) } }) })"

record BRC20ModuleTickerStatusInfoOfAddressResp =
  ma_Ticker :: string
  ma_ModuleAccountBalance :: string
  ma_SwapAccountBalance :: string
  ma_AvailableBalance :: string
  ma_ApproveableBalance :: string
  ma_CondApproveableBalance :: string
  ma_ReadyToWithdrawAmount :: string
  ma_HistoryCount :: nat

text \<open>\<open>TokenUsersBalanceDataMap[ticker][pkScript]\<close>: the set of users, and the balance in the table of the user.\<close>

definition module_holder :: "BRC20ModuleSwapInfo \<Rightarrow> string \<Rightarrow> string \<Rightarrow> BRC20ModuleTokenBalance option" where
  "module_holder m ticker pkScript =
     (case m_TokenUsersBalanceDataMap m ticker of
        None \<Rightarrow> None
      | Some us \<Rightarrow> if pkScript \<in> us then user_balance m pkScript ticker else None)"

definition GetBRC20ModuleTickerInfoByAddress ::
    "BRC20ModuleIndexer option \<Rightarrow> string \<Rightarrow> string \<Rightarrow> string \<Rightarrow> (string + BRC20ModuleTickerStatusInfoOfAddressResp) option" where
  "GetBRC20ModuleTickerInfoByAddress gswap pkScript module ticker =
     (case gswap of
        None \<Rightarrow> not_ready
      | Some g \<Rightarrow>
          (case (case module_of g module of None \<Rightarrow> None | Some m \<Rightarrow> module_holder m ticker pkScript) of
             None \<Rightarrow>
               Some (Inr \<lparr>ma_Ticker = ticker, ma_ModuleAccountBalance = ''0'', ma_SwapAccountBalance = ''0'', ma_AvailableBalance = ''0'',
                 ma_ApproveableBalance = ''0'', ma_CondApproveableBalance = ''0'', ma_ReadyToWithdrawAmount = ''0'', ma_HistoryCount = 0\<rparr>)
           | Some tokenInfo \<Rightarrow> do {
               overall \<leftarrow> ModuleBalance tokenInfo;
               o' \<leftarrow> Decimal_String overall;
               sw \<leftarrow> Decimal_String (mb_SwapAccountBalance tokenInfo);
               av \<leftarrow> Decimal_String (mb_AvailableBalance tokenInfo);
               ca \<leftarrow> Decimal_String (mb_CondApproveableBalance tokenInfo);
               ap \<leftarrow> Decimal_String (mb_ApproveableBalance tokenInfo);
               rw \<leftarrow> Decimal_String (mb_ReadyToWithdrawAmount tokenInfo);
               Some (Inr \<lparr>ma_Ticker = mb_Tick tokenInfo, ma_ModuleAccountBalance = o', ma_SwapAccountBalance = sw, ma_AvailableBalance = av,
                 ma_ApproveableBalance = ap, ma_CondApproveableBalance = ca, ma_ReadyToWithdrawAmount = rw, ma_HistoryCount = 0\<rparr>) }))"

end
