(* ===== verification/Controller.thy ===== *)
theory Controller
  imports Api
begin

text \<open>
  The handlers of the HTTP service (\<open>controller/brc20.go\<close>, \<open>controller/brc20_module.go\<close>): the checks of
  the parameters, the call of the query and the body of the answer.

  A handler returns the answer it writes, \<open>None\<close> where it panics. The router and the decoder of request
  bodies are a library: a request is the values of its parameters, a body is \<open>None\<close> where it cannot be
  decoded. Log lines and HTTP status codes are left out.
\<close>

section \<open>Requests and answers\<close>

record request =
  rq_query :: "string \<Rightarrow> string option" \<comment> \<open>the parameters after the question mark\<close>
  rq_param :: "string \<Rightarrow> string" \<comment> \<open>the parameters in the path\<close>

text \<open>The published variables (\<open>model/brc20.go\<close>); the hashes of the blocks are in the environment of the queries.\<close>

record site =
  gl_GSwap :: "BRC20ModuleIndexer option"
  gl_api :: api_env
  gl_BlocksTime :: "u32 list"
  gl_BestHeight :: int

record 'd Response =
  an_Code :: int
  an_Msg :: string
  an_Data :: "'d option"

text \<open>The answers with a list are five structs with the same fields.\<close>

record 'row BRC20TickerResp =
  pr_Height :: int
  pr_Total :: nat
  pr_Start :: nat
  pr_Detail :: "'row list"

definition failed :: "string \<Rightarrow> 'd Response" where
  "failed msg = \<lparr>an_Code = -1, an_Msg = msg, an_Data = None\<rparr>"

definition answer :: "'d \<Rightarrow> 'd Response" where
  "answer d = \<lparr>an_Code = 0, an_Msg = ''ok'', an_Data = Some d\<rparr>"

text \<open>A check that fails is answered at once.\<close>

definition checked :: "string + 'a \<Rightarrow> ('a \<Rightarrow> 'd Response option) \<Rightarrow> 'd Response option" where
  "checked c k = (case c of Inl msg \<Rightarrow> Some (failed msg) | Inr a \<Rightarrow> k a)"

definition synced_height :: "site \<Rightarrow> int" where
  "synced_height x = int (length (ae_blocks_hash (gl_api x))) - 1"

definition answer_page :: "site \<Rightarrow> nat \<Rightarrow> string \<Rightarrow> 'row reply \<Rightarrow> 'row BRC20TickerResp Response option" where
  "answer_page x start msg reply =
     map_option (\<lambda>r. case r of
         Inl err \<Rightarrow> failed msg
       | Inr (n, rows) \<Rightarrow> answer \<lparr>pr_Height = synced_height x, pr_Total = n, pr_Start = start, pr_Detail = rows\<rparr>) reply"

definition answer_one :: "string \<Rightarrow> (string + 'd) option \<Rightarrow> 'd Response option" where
  "answer_one msg reply = map_option (\<lambda>r. case r of Inl err \<Rightarrow> failed msg | Inr d \<Rightarrow> answer d) reply"

section \<open>Parameters\<close>

definition DefaultQuery :: "request \<Rightarrow> string \<Rightarrow> string \<Rightarrow> string" where
  "DefaultQuery r key d = (case rq_query r key of None \<Rightarrow> d | Some v \<Rightarrow> v)"

definition int_check :: "string \<Rightarrow> (int \<Rightarrow> bool) \<Rightarrow> string \<Rightarrow> string + int" where
  "int_check msg ok s = (case parse_int s of None \<Rightarrow> Inl msg | Some v \<Rightarrow> if ok v then Inr v else Inl msg)"

definition start_param :: "request \<Rightarrow> string + nat" where
  "start_param r = map_sum id nat (int_check ''start invalid'' (\<lambda>v. 0 \<le> v) (DefaultQuery r ''start'' ''0''))"

definition limit_param :: "int \<Rightarrow> request \<Rightarrow> string + nat" where
  "limit_param most r = map_sum id nat (int_check ''limit invalid'' (\<lambda>v. 1 \<le> v \<and> v \<le> most) (DefaultQuery r ''limit'' ''10''))"

definition height_check :: "string \<Rightarrow> string + int" where
  "height_check s = int_check ''height invalid'' (\<lambda>v. 0 \<le> v) s"

definition address_param :: "ext \<Rightarrow> request \<Rightarrow> string + string" where
  "address_param e r =
     (case GetPkScriptByAddress e (rq_param r ''address'') of None \<Rightarrow> Inl ''address invalid'' | Some pk \<Rightarrow> Inr pk)"

text \<open>A ticker, or its four bytes in hexadecimal.\<close>

definition ticker_check :: "string \<Rightarrow> string + string" where
  "ticker_check ticker =
     (case (if length ticker = 8 then hex_decode ticker else Some ticker) of
        None \<Rightarrow> Inl ''ticker invalid''
      | Some t \<Rightarrow> if length t \<noteq> 4 then Inl ''ticker invalid'' else Inr t)"

definition ticker_param :: "request \<Rightarrow> string + string" where
  "ticker_param r = ticker_check (rq_param r ''ticker'')"

definition VerifyInscriptionId :: "string \<Rightarrow> string option" where
  "VerifyInscriptionId inscriptionId =
     (let parts = go_split CHR ''i'' inscriptionId in
      if length inscriptionId > 64 + 1 + 12 then Some ''inscriptionId too long''
      else if length parts \<noteq> 2 \<or> length (parts ! 0) \<noteq> 64 then Some (''inscriptionId invalid, without '' @ [CHR 0x27, CHR ''i'', CHR 0x27])
      else if hex_decode (parts ! 0) = None then Some ''inscriptionId invalid, not hex''
      else case parse_int (parts ! 1) of
        None \<Rightarrow> Some ''inscriptionId invalid, idx''
      | Some idx \<Rightarrow> if idx < 0 then Some ''inscriptionId invalid, idx'' else None)"

definition id_check :: "string \<Rightarrow> string + string" where
  "id_check i = (case VerifyInscriptionId i of Some err \<Rightarrow> Inl err | None \<Rightarrow> Inr i)"

definition ready_check :: "site \<Rightarrow> string + BRC20ModuleIndexer" where
  "ready_check x = (case gl_GSwap x of None \<Rightarrow> Inl ''brc20 not ready'' | Some g \<Rightarrow> Inr g)"

section \<open>Tokens\<close>

definition handle_TickerHolders :: "ext \<Rightarrow> site \<Rightarrow> string list \<Rightarrow> request \<Rightarrow> BRC20TickerHoldersInfo BRC20TickerResp Response option" where
  "handle_TickerHolders e x keys r =
     checked (start_param r) (\<lambda>start.
     checked (limit_param 512 r) (\<lambda>limit.
     checked (ticker_param r) (\<lambda>ticker.
     answer_page x start ''get brc20 holders failed''
       (GetBRC20TickerHolders (gl_api x) (gl_GSwap x) keys (ToLower e ticker) start limit))))"

definition search_param :: "ext \<Rightarrow> request \<Rightarrow> string + string" where
  "search_param e r =
     (let tickerHex = ToLower e (DefaultQuery r ''ticker_hex'' '''') in
      if length tickerHex > 0
      then (case hex_decode tickerHex of None \<Rightarrow> Inl ''ticker invalid'' | Some t \<Rightarrow> Inr t)
      else Inr (DefaultQuery r ''ticker'' ''''))"

definition sort_param :: "request \<Rightarrow> string + string" where
  "sort_param r =
     (let sortby = DefaultQuery r ''sort'' ''holders'' in
      if sortby \<notin> {''holders'', ''deploy'', ''minted'', ''transactions''} then Inl ''sortby invalid'' else Inr sortby)"

definition handle_Status :: "ext \<Rightarrow> site \<Rightarrow> string list \<Rightarrow> request \<Rightarrow> BRC20TickerStatusInfo BRC20TickerResp Response option" where
  "handle_Status e x keys r =
     checked (start_param r) (\<lambda>start.
     checked (limit_param 512 r) (\<lambda>limit.
     checked (search_param e r) (\<lambda>ticker.
     checked (sort_param r) (\<lambda>sortby.
     answer_page x start ''get brc20 status failed''
       (GetBRC20Status e (gl_api x) (gl_GSwap x) keys (ToLower e ticker) (DefaultQuery r ''complete'' '''') sortby start limit)))))"

definition handle_List :: "site \<Rightarrow> string list \<Rightarrow> request \<Rightarrow> string BRC20TickerResp Response option" where
  "handle_List x keys r =
     checked (start_param r) (\<lambda>start.
     checked (limit_param 512 r) (\<lambda>limit.
     answer_page x start ''get brc20 status failed'' (GetBRC20List (gl_GSwap x) keys start limit)))"

record BRC20TickerBestHeightResp =
  bh_Height :: int
  bh_BlockIdHex :: string
  bh_BlockTime :: int
  bh_Total :: nat

text \<open>The two lists of blocks are read at the same index.\<close>

definition handle_BestHeight :: "site \<Rightarrow> string list \<Rightarrow> BRC20TickerBestHeightResp Response option" where
  "handle_BestHeight x keys =
     checked (ready_check x) (\<lambda>g.
       let hashes = ae_blocks_hash (gl_api x); n = length hashes in
       do { (blockid, blocktime) \<leftarrow>
              (if n = 0 then Some ('''', 0)
               else if n \<le> length (gl_BlocksTime x)
               then Some (GetReversedStringHex (hashes ! (n - 1)), int (unat (gl_BlocksTime x ! (n - 1))))
               else None);
            Some (answer \<lparr>bh_Height = synced_height x, bh_BlockIdHex = blockid, bh_BlockTime = blocktime,
              bh_Total = length (values_of (g_InscriptionsTickerInfoMap g) keys)\<rparr>) })"

definition handle_TickerInfo :: "ext \<Rightarrow> site \<Rightarrow> request \<Rightarrow> BRC20TickerStatusInfo Response option" where
  "handle_TickerInfo e x r =
     checked (ready_check x) (\<lambda>g.
     checked (ticker_param r) (\<lambda>ticker.
     answer_one ''get brc20 status failed'' (GetBRC20TickerInfo e (gl_api x) (gl_GSwap x) (ToLower e ticker))))"

fun ticker_checks :: "ext \<Rightarrow> string list \<Rightarrow> string + string list" where
  "ticker_checks e [] = Inr []"
| "ticker_checks e (ticker # req) =
     (case ticker_check ticker of
        Inl msg \<Rightarrow> Inl msg
      | Inr t \<Rightarrow> (case ticker_checks e req of Inl msg \<Rightarrow> Inl msg | Inr ts \<Rightarrow> Inr (ToLower e t # ts)))"

fun ticker_infos :: "ext \<Rightarrow> site \<Rightarrow> string list \<Rightarrow> (string + BRC20TickerStatusInfo list) option" where
  "ticker_infos e x [] = Some (Inr [])"
| "ticker_infos e x (ticker # tickers) =
     do { r \<leftarrow> GetBRC20TickerInfo e (gl_api x) (gl_GSwap x) (ToLower e ticker);
          (case r of
             Inl err \<Rightarrow> Some (Inl (''get brc20 status failed: '' @ ticker))
           | Inr info \<Rightarrow> do {
               rs \<leftarrow> ticker_infos e x tickers;
               Some (case rs of Inl msg \<Rightarrow> Inl msg | Inr infos \<Rightarrow> Inr (info # infos)) }) }"

text \<open>All answers that are written: after the one for an empty list the handler goes on.\<close>

definition handle_TickersInfo :: "ext \<Rightarrow> site \<Rightarrow> string list option \<Rightarrow> BRC20TickerStatusInfo list Response list option" where
  "handle_TickersInfo e x body =
     (if gl_GSwap x = None then Some [failed ''brc20 not ready'']
      else case body of
        None \<Rightarrow> Some [failed ''json error'']
      | Some req \<Rightarrow>
          (case ticker_checks e req of
             Inl msg \<Rightarrow> Some [failed msg]
           | Inr tickers \<Rightarrow> do {
               infos \<leftarrow> ticker_infos e x tickers;
               Some ((if length tickers = 0 then [answer []] else []) @
                     [case infos of Inl msg \<Rightarrow> failed msg | Inr nftRsps \<Rightarrow> answer nftRsps]) }))"

section \<open>Histories and balances\<close>

definition handle_AllHistoryByHeight :: "site \<Rightarrow> request \<Rightarrow> BRC20TickerHistoryInfo BRC20TickerResp Response option" where
  "handle_AllHistoryByHeight x r =
     checked (height_check (rq_param r ''height'')) (\<lambda>height.
     checked (start_param r) (\<lambda>start.
     checked (limit_param 10240 r) (\<lambda>limit.
     answer_page x start ''get brc20 history by height failed''
       (GetBRC20AllHistoryByHeight (gl_api x) (gl_GSwap x) height start limit))))"

definition handle_AllHistoryByAddress :: "ext \<Rightarrow> site \<Rightarrow> request \<Rightarrow> BRC20TickerHistoryInfo BRC20TickerResp Response option" where
  "handle_AllHistoryByAddress e x r =
     checked (start_param r) (\<lambda>start.
     checked (limit_param 10240 r) (\<lambda>limit.
     checked (address_param e r) (\<lambda>pk.
     answer_page x start ''get brc20 history failed'' (GetBRC20AllHistoryByAddress (gl_api x) (gl_GSwap x) pk start limit))))"

definition handle_TickerHistory :: "ext \<Rightarrow> site \<Rightarrow> request \<Rightarrow> BRC20TickerHistoryInfo BRC20TickerResp Response option" where
  "handle_TickerHistory e x r =
     checked (height_check (DefaultQuery r ''height'' ''0'')) (\<lambda>height.
     checked (start_param r) (\<lambda>start.
     checked (limit_param 10240 r) (\<lambda>limit.
     checked (ticker_param r) (\<lambda>ticker.
     answer_page x start ''get brc20 history failed''
       (GetBRC20TickerHistory (gl_api x) (gl_GSwap x) (DefaultQuery r ''type'' '''') (ToLower e ticker) height start limit)))))"

definition handle_SummaryByAddress ::
    "ext \<Rightarrow> site \<Rightarrow> string list \<Rightarrow> request \<Rightarrow> BRC20TokenSummaryInfo BRC20TickerResp Response option" where
  "handle_SummaryByAddress e x keys r =
     checked (start_param r) (\<lambda>start.
     checked (limit_param 10240 r) (\<lambda>limit.
     checked (address_param e r) (\<lambda>pk.
     answer_page x start ''get brc20 summary failed'' (GetBRC20SummaryByAddress e (gl_GSwap x) keys pk start limit))))"

definition handle_SummaryByAddressAndHeight ::
    "ext \<Rightarrow> site \<Rightarrow> string list \<Rightarrow> request \<Rightarrow> BRC20TokenSummaryInfo BRC20TickerResp Response option" where
  "handle_SummaryByAddressAndHeight e x keys r =
     checked (height_check (rq_param r ''height'')) (\<lambda>height.
     checked (start_param r) (\<lambda>start.
     checked (limit_param 10240 r) (\<lambda>limit.
     checked (address_param e r) (\<lambda>pk.
     answer_page x start ''get brc20 summary by height failed''
       (GetBRC20SummaryByAddressAndHeight e (gl_GSwap x) keys pk height start limit)))))"

definition handle_TickerHistoryByAddress :: "ext \<Rightarrow> site \<Rightarrow> request \<Rightarrow> BRC20TickerHistoryInfo BRC20TickerResp Response option" where
  "handle_TickerHistoryByAddress e x r =
     checked (start_param r) (\<lambda>start.
     checked (limit_param 10240 r) (\<lambda>limit.
     checked (address_param e r) (\<lambda>pk.
     checked (ticker_param r) (\<lambda>ticker.
     answer_page x start ''get brc20 summary failed''
       (GetBRC20TickerHistoryByAddress (gl_api x) (gl_GSwap x) pk (DefaultQuery r ''type'' '''') (ToLower e ticker) start limit)))))"

definition with_confirmations :: "site \<Rightarrow> InscriptionBRC20TickInfoResp \<Rightarrow> InscriptionBRC20TickInfoResp" where
  "with_confirmations x resp =
     (if gl_BestHeight x > 0
      then resp\<lparr>ir_Confirmations := if ir_Height resp = 0x3fffff then 0 else gl_BestHeight x - int (unat (ir_Height resp)) + 1\<rparr>
      else resp)"

definition handle_TickerInfoByAddress ::
    "ext \<Rightarrow> site \<Rightarrow> string list \<Rightarrow> request \<Rightarrow> BRC20TickerStatusInfoOfAddressResp Response option" where
  "handle_TickerInfoByAddress e x keys r =
     checked (address_param e r) (\<lambda>pk.
     checked (ticker_param r) (\<lambda>ticker.
     answer_one ''get brc20 info failed''
       (map_option (map_sum id (\<lambda>nftRsp.
            nftRsp\<lparr>sa_TransferableInscriptions := map (with_confirmations x) (sa_TransferableInscriptions nftRsp)\<rparr>))
          (GetBRC20TickerInfoByAddress (gl_GSwap x) keys pk (ToLower e ticker)))))"

definition handle_TransferableInscriptions ::
    "ext \<Rightarrow> site \<Rightarrow> string list \<Rightarrow> request \<Rightarrow> InscriptionBRC20TickInfoResp BRC20TickerResp Response option" where
  "handle_TransferableInscriptions e x keys r =
     checked (start_param r) (\<lambda>start.
     checked (limit_param 512 r) (\<lambda>limit.
     checked (address_param e r) (\<lambda>pk.
     checked (ticker_param r) (\<lambda>ticker.
     answer_page x start ''get brc20 summary failed''
       (map_option (map_sum id (map_prod id (map (with_confirmations x))))
          (GetBRC20TickerTransferableInscriptionsByAddress (gl_GSwap x) keys pk (ToLower e ticker) start limit
             (DefaultQuery r ''invalid'' ''false'' = ''true'')))))))"

section \<open>Modules\<close>

definition MAX_INSCRIPTION_LIMIT :: int where "MAX_INSCRIPTION_LIMIT = 40960"

text \<open>The sum of two integers of 64 bits.\<close>

definition int_sum :: "int \<Rightarrow> int \<Rightarrow> int" where
  "int_sum a b = sint (word_of_int (a + b) :: i64)"

definition module_param :: "ext \<Rightarrow> request \<Rightarrow> string + string" where
  "module_param e r = id_check (ToLower e (rq_param r ''module''))"

definition handle_ModuleHistory :: "ext \<Rightarrow> site \<Rightarrow> request \<Rightarrow> BRC20ModuleHistoryInfo BRC20TickerResp Response option" where
  "handle_ModuleHistory e x r =
     checked (int_check ''blk start height invalid'' (\<lambda>v. 0 \<le> v) (DefaultQuery r ''start'' ''0'')) (\<lambda>blkStartHeight.
     checked (int_check ''blk end height invalid'' (\<lambda>v. 0 \<le> v \<and> \<not> (v \<noteq> 0 \<and> v \<le> blkStartHeight)) (DefaultQuery r ''end'' ''0''))
       (\<lambda>blkEndHeight.
     checked (int_check ''cursor invalid'' (\<lambda>v. 0 \<le> v) (DefaultQuery r ''cursor'' ''0'')) (\<lambda>cursor.
     checked (int_check ''size invalid'' (\<lambda>v. 0 < v \<and> int_sum cursor v \<le> MAX_INSCRIPTION_LIMIT) (DefaultQuery r ''size'' ''16''))
       (\<lambda>limit.
     checked (module_param e r) (\<lambda>module.
     answer_page x (nat cursor) ''get brc20 history failed''
       (GetBRC20ModuleHistory (gl_api x) (gl_GSwap x) (DefaultQuery r ''type'' '''') module blkStartHeight blkEndHeight
          (nat cursor) (nat limit)))))))"

text \<open>Of the answer only the data is set; \<open>None\<close> is a \<open>nil\<close> map.\<close>

definition inscription_data :: "BRC20ModuleIndexer \<Rightarrow> string \<Rightarrow> (string \<times> string) list option option" where
  "inscription_data g inscriptionId =
     (case g_InscriptionsValidApproveMap g inscriptionId of
        Some validInfo \<Rightarrow> do {
          amt \<leftarrow> Decimal_String (si_Amount validInfo);
          Some (Some [(''module'', si_Module validInfo), (''op'', ''approve''), (''tick'', si_Tick validInfo), (''amt'', amt)]) }
      | None \<Rightarrow>
          (case g_InscriptionsValidConditionalApproveMap g inscriptionId of
             Some validInfo \<Rightarrow> do {
               amt \<leftarrow> Decimal_String (ca_Amount validInfo);
               bal \<leftarrow> Decimal_String (ca_Balance validInfo);
               Some (Some [(''module'', ca_Module validInfo), (''op'', ''conditional-approve''), (''tick'', ca_Tick validInfo),
                           (''amt'', amt), (''balance'', bal)]) }
           | None \<Rightarrow> Some None))"

definition handle_ModuleInscriptionInfo :: "site \<Rightarrow> request \<Rightarrow> (string \<times> string) list option Response option" where
  "handle_ModuleInscriptionInfo x r =
     checked (ready_check x) (\<lambda>g.
     checked (id_check (rq_param r ''inscriptionId'')) (\<lambda>inscriptionId.
     map_option answer (inscription_data g inscriptionId)))"

record BRC20ModuleVerifySwapCommitReq =
  vq_CommitsStr :: "string list"
  vq_LastResults :: "SwapFunctionResultCheckState option list"

text \<open>The module of the last commit, and the commits; a commit with the text \<open>null\<close> is a \<open>nil\<close> dereference.\<close>

fun decode_commits ::
    "ext \<Rightarrow> string list \<Rightarrow> string \<times> InscriptionBRC20ModuleSwapCommitContent list \<Rightarrow>
     (string + string \<times> InscriptionBRC20ModuleSwapCommitContent list) option" where
  "decode_commits e [] acc = Some (Inr acc)"
| "decode_commits e (commitStr # cs) acc =
     (case Unmarshal_CommitContent e commitStr of
        None \<Rightarrow> Some (Inl ''commit json error'')
      | Some None \<Rightarrow> None
      | Some (Some commit) \<Rightarrow> decode_commits e cs (cc_Module commit, snd acc @ [commit]))"

definition handle_VerifySwapCommitContent ::
    "ext \<Rightarrow> SwapFunctionResultCheckState option list option \<Rightarrow> site \<Rightarrow> BRC20ModuleVerifySwapCommitReq option \<Rightarrow>
     BRC20ModuleVerifySwapCommitResp Response option" where
  "handle_VerifySwapCommitContent e xr x body =
     (case body of
        None \<Rightarrow> Some (failed ''json error'')
      | Some req \<Rightarrow> do {
          c \<leftarrow> decode_commits e (vq_CommitsStr req) ('''', []);
          checked c (\<lambda>(module, commitsObj).
            answer_one ''verify swap commit results failed''
              (service_VerifySwapCommitContent e xr (gl_GSwap x) module (vq_CommitsStr req) commitsObj (vq_LastResults req))) })"

definition handle_ModuleTickerInfoByAddress ::
    "ext \<Rightarrow> site \<Rightarrow> request \<Rightarrow> BRC20ModuleTickerStatusInfoOfAddressResp Response option" where
  "handle_ModuleTickerInfoByAddress e x r =
     checked (address_param e r) (\<lambda>pk.
     checked (ticker_param r) (\<lambda>ticker.
     checked (module_param e r) (\<lambda>module.
     answer_one ''get brc20 module info failed''
       (GetBRC20ModuleTickerInfoByAddress (gl_GSwap x) pk module (ToLower e ticker)))))"

end
