(* ===== verification/Marks.thy ===== *)
theory Marks
  imports Ledger_Inv
begin

text \<open>
  What an event leaves on the balances. Every balance it changes is marked with the height of the
  event, and every user with a balance is among the holders of the token. The first is what saving the
  changed balances of a block relies on, the second what the lists of holders rely on.
\<close>

section \<open>The relation\<close>

definition both_amounts :: "BRC20TokenBalance option \<Rightarrow> int \<times> int" where
  "both_amounts ob = (case ob of None \<Rightarrow> (0, 0) | Some b \<Rightarrow> (decval (tb_AvailableBalance b), decval (tb_TransferableBalance b)))"

definition keyed :: "(string \<rightharpoonup> string) \<Rightarrow> string \<Rightarrow> string \<Rightarrow> BRC20TokenBalance \<Rightarrow> bool" where
  "keyed T u lt b \<longleftrightarrow> tb_PkScript b = u \<and> T lt = Some (tb_Ticker b)"

definition listed :: "BRC20ModuleIndexer \<Rightarrow> string \<Rightarrow> string \<Rightarrow> bool" where
  "listed g u lt \<longleftrightarrow> (\<exists>us. g_TokenUsersBalanceData g lt = Some us \<and> u \<in> us)"

text \<open>
  The part of the available balance that is confirmed keeps to the precision of the available balance: both
  change by the same amounts.
\<close>

definition safe_of :: "BRC20TokenBalance option \<Rightarrow> decp" where
  "safe_of ob = (case ob of None \<Rightarrow> None | Some b \<Rightarrow> tb_AvailableBalanceSafe b)"

definition available_of :: "BRC20TokenBalance option \<Rightarrow> decp" where
  "available_of ob = (case ob of None \<Rightarrow> None | Some b \<Rightarrow> tb_AvailableBalance b)"

definition safe_follows :: "BRC20TokenBalance option \<Rightarrow> BRC20TokenBalance option \<Rightarrow> bool" where
  "safe_follows x y \<longleftrightarrow> (\<forall>p. dec_ok p (available_of y) \<longrightarrow> dec_ok p (available_of x) \<and> (dec_ok p (safe_of x) \<longrightarrow> dec_ok p (safe_of y)))"

lemma safe_of_simps [simp]:
  "safe_of None = None" "safe_of (Some b) = tb_AvailableBalanceSafe b" "available_of None = None" "available_of (Some b) = tb_AvailableBalance b"
  by (simp_all add: safe_of_def available_of_def)

lemma safe_follows_refl [simp]: "safe_follows x x"
  by (simp add: safe_follows_def)

lemma safe_follows_trans: "safe_follows x y \<Longrightarrow> safe_follows y z \<Longrightarrow> safe_follows x z"
  by (simp add: safe_follows_def)

lemma safe_follows_same [simp]:
  "tb_AvailableBalance b' = tb_AvailableBalance b \<Longrightarrow> tb_AvailableBalanceSafe b' = tb_AvailableBalanceSafe b \<Longrightarrow>
   safe_follows (Some b) (Some b')"
  "tb_AvailableBalance b' = None \<Longrightarrow> tb_AvailableBalanceSafe b' = None \<Longrightarrow> safe_follows None (Some b')"
  by (simp_all add: safe_follows_def)

lemma Add_precision: "Decimal_Add a x = Some c \<Longrightarrow> dec_ok p c \<longleftrightarrow> dec_ok p a \<and> dec_ok p x"
  by (cases a; cases x) (auto simp: Decimal_Add_def split: if_splits)

lemma Sub_precision: "Decimal_Sub a x = Some c \<Longrightarrow> dec_ok p c \<longleftrightarrow> dec_ok p a \<and> dec_ok p x"
  by (cases a; cases x) (auto simp: Decimal_Sub_def split: if_splits)

lemma safe_follows_Add:
  assumes "Decimal_Add (tb_AvailableBalance b) x = Some (tb_AvailableBalance b')"
    and "(if c then Decimal_Add (tb_AvailableBalanceSafe b) x else Some (tb_AvailableBalanceSafe b)) = Some (tb_AvailableBalanceSafe b')"
  shows "safe_follows (Some b) (Some b')"
  using Add_precision [OF assms(1)] assms(2) by (cases c) (auto simp: safe_follows_def Add_precision)

lemma safe_follows_Sub:
  assumes "Decimal_Sub (tb_AvailableBalance b) x = Some (tb_AvailableBalance b')"
    and "Decimal_Sub (tb_AvailableBalanceSafe b) x = Some (tb_AvailableBalanceSafe b')"
  shows "safe_follows (Some b) (Some b')"
  using Sub_precision [OF assms(1)] Sub_precision [OF assms(2)] by (simp add: safe_follows_def)

definition entry_kept :: "BRC20TokenBalance option \<times> bool \<Rightarrow> BRC20TokenBalance option \<times> bool \<Rightarrow> bool" where
  "entry_kept x y \<longleftrightarrow> safe_follows (fst x) (fst y) \<and> ((snd x \<longrightarrow> fst x \<noteq> None) \<longrightarrow> snd y \<longrightarrow> fst y \<noteq> None)"

lemma entry_kept_trans: "entry_kept x y \<Longrightarrow> entry_kept y z \<Longrightarrow> entry_kept x z"
  unfolding entry_kept_def using safe_follows_trans by blast

lemma entry_kept_simps [simp]:
  "entry_kept x x" "entry_kept (ob, s) (Some b, s') \<longleftrightarrow> safe_follows ob (Some b)" "entry_kept (ob, s) (ob, s)" "entry_kept (ob, s) (ob, False)"
  by (auto simp: entry_kept_def)

text \<open>One balance and its place among the holders, before and after.\<close>

definition entry_touched ::
    "(string \<rightharpoonup> string) \<Rightarrow> u32 \<Rightarrow> string \<Rightarrow> string \<Rightarrow> BRC20TokenBalance option \<times> bool \<Rightarrow> BRC20TokenBalance option \<times> bool \<Rightarrow> bool" where
  "entry_touched T h u lt x y \<longleftrightarrow>
     (fst y = None \<longrightarrow> fst x = None) \<and>
     (\<forall>b'. fst y = Some b' \<longrightarrow> (case fst x of None \<Rightarrow> keyed T u lt b' | Some b \<Rightarrow> keyed T u lt b \<longrightarrow> keyed T u lt b') \<and>
        (tb_UpdateHeight b' = h \<or>
          both_amounts (fst y) = both_amounts (fst x) \<and> tb_UpdateHeight b' = (case fst x of None \<Rightarrow> 0 | Some b \<Rightarrow> tb_UpdateHeight b))) \<and>
     (both_amounts (fst x) = (0, 0) \<or> snd x \<longrightarrow> both_amounts (fst y) = (0, 0) \<or> snd y) \<and>
     entry_kept x y"

definition entry :: "BRC20ModuleIndexer \<Rightarrow> string \<Rightarrow> string \<Rightarrow> BRC20TokenBalance option \<times> bool" where
  "entry g u lt = (balance_of g u lt, listed g u lt)"

definition touched :: "(string \<rightharpoonup> string) \<Rightarrow> u32 \<Rightarrow> BRC20ModuleIndexer \<Rightarrow> BRC20ModuleIndexer \<Rightarrow> bool" where
  "touched T h g g' \<longleftrightarrow> g_Durty g' = g_Durty g \<and> (\<forall>u lt. entry_touched T h u lt (entry g u lt) (entry g' u lt))"

lemma entry_touched_refl: "entry_touched T h u lt x x"
  by (auto simp: entry_touched_def split: option.splits)

lemma entry_touched_trans: "entry_touched T h u lt x y \<Longrightarrow> entry_touched T h u lt y z \<Longrightarrow> entry_touched T h u lt x z"
  using entry_kept_trans [of x y z] by (cases "fst x"; cases "fst y"; cases "fst z") (auto simp: entry_touched_def)

lemma touched_refl [simp]: "touched T h g g"
  by (simp add: touched_def entry_touched_refl)

lemma touched_trans [trans]: "touched T h g g1 \<Longrightarrow> touched T h g1 g' \<Longrightarrow> touched T h g g'"
  unfolding touched_def using entry_touched_trans by metis

text \<open>What the other parts of the state are is irrelevant.\<close>

definition books :: "BRC20ModuleIndexer \<Rightarrow> (string \<rightharpoonup> string \<rightharpoonup> BRC20TokenBalance) \<times> (string \<rightharpoonup> string set) \<times> bool" where
  "books g = (g_UserTokensBalanceData g, g_TokenUsersBalanceData g, g_Durty g)"

lemma base_books: "base_state g' = base_state g \<Longrightarrow> books g' = books g"
  by (simp add: base_state_def books_def)

lemma books_durty: "books g' = books g \<Longrightarrow> g_Durty g' = g_Durty g"
  by (simp add: books_def)

lemma entry_cong: "books g' = books g \<Longrightarrow> entry g' = entry g"
  by (simp add: books_def entry_def balance_of_def listed_def fun_eq_iff)

lemma touched_same:
  assumes "books g' = books g"
  shows "touched T h g g'"
  unfolding touched_def entry_cong [OF assms] by (simp add: entry_touched_refl books_durty [OF assms])

lemma touched_cong:
  assumes "touched T h g g'" and "books g1 = books g" and "books g1' = books g'"
  shows "touched T h g1 g1'"
  using assms(1) unfolding touched_def entry_cong [OF assms(2)] entry_cong [OF assms(3)]
  by (simp add: books_durty [OF assms(2)] books_durty [OF assms(3)])

section \<open>Setting a balance\<close>

lemma entry_set_balance:
  "entry (set_balance g u lt b) v l = (if v = u \<and> l = lt then (Some b, listed g u lt) else entry g v l)"
  by (simp add: entry_def listed_def) (simp add: set_balance_def)

lemma touched_set_balance:
  assumes "entry_touched T h u lt (entry g u lt) (Some b, listed g u lt)"
  shows "touched T h g (set_balance g u lt b)"
  using assms by (simp add: touched_def entry_set_balance entry_touched_refl) (simp add: set_balance_def)

lemma touched_marked:
  assumes "balance_of g u lt = Some b" and "tb_PkScript b' = tb_PkScript b" "tb_Ticker b' = tb_Ticker b" "tb_UpdateHeight b' = h"
    and "listed g u lt \<or> both_amounts (Some b') = (0, 0) \<or> both_amounts (Some b) \<noteq> (0, 0)" and "safe_follows (Some b) (Some b')"
  shows "touched T h g (set_balance g u lt b')"
  by (rule touched_set_balance) (use assms in \<open>auto simp: entry_touched_def entry_def keyed_def\<close>)

lemma touched_unchanged:
  assumes "balance_of g u lt = Some b" and "tb_PkScript b' = tb_PkScript b" "tb_Ticker b' = tb_Ticker b"
    "tb_UpdateHeight b' = tb_UpdateHeight b" "both_amounts (Some b') = both_amounts (Some b)" "safe_follows (Some b) (Some b')"
  shows "touched T h g (set_balance g u lt b')"
  by (rule touched_set_balance) (use assms in \<open>auto simp: entry_touched_def entry_def keyed_def\<close>)

lemma touched_upd_balance:
  assumes "\<And>b. tb_PkScript (f b) = tb_PkScript b" "\<And>b. tb_Ticker (f b) = tb_Ticker b" "\<And>b. tb_UpdateHeight (f b) = tb_UpdateHeight b"
    "\<And>b. both_amounts (Some (f b)) = both_amounts (Some b)" "\<And>b. safe_follows (Some b) (Some (f b))"
  shows "touched T h g (upd_balance u lt f g)"
  using assms by (auto simp: upd_balance_def split: option.splits intro: touched_unchanged)

section \<open>The handlers of the base protocol\<close>

lemma books_fields [simp]:
  "books (g\<lparr>g_InscriptionsTickerInfoMap := a\<rparr>) = books g" "books (g\<lparr>g_InscriptionsValidBRC20DataMap := a1\<rparr>) = books g"
  "books (g\<lparr>g_InscriptionsInvalidTransferMap := a2\<rparr>) = books g" "books (g\<lparr>g_InscriptionsValidTransferMap := a2\<rparr>) = books g"
  "books (g\<lparr>g_TransferHeap := b\<rparr>) = books g" "books (g\<lparr>g_TxStaticTransferStatesForConditionalApprove := b1\<rparr>) = books g"
  "books (g\<lparr>g_ThisTxId := c\<rparr>) = books g" "books (g\<lparr>g_InscriptionsValidConditionalApproveMap := d\<rparr>) = books g"
  "books (g\<lparr>g_InscriptionsInvalidConditionalApproveMap := d\<rparr>) = books g" "books (g\<lparr>g_InscriptionsValidApproveMap := f\<rparr>) = books g"
  "books (g\<lparr>g_InscriptionsInvalidApproveMap := f\<rparr>) = books g" "books (g\<lparr>g_InscriptionsApproveRemoveMap := h\<rparr>) = books g"
  "books (g\<lparr>g_InscriptionsCommitRemoveMap := h\<rparr>) = books g" "books (g\<lparr>g_InscriptionsValidCommitMap := i\<rparr>) = books g"
  "books (g\<lparr>g_InscriptionsValidCommitMapById := i\<rparr>) = books g" "books (g\<lparr>g_InscriptionsInvalidCommitMap := i\<rparr>) = books g"
  "books (g\<lparr>g_BestHeight := k\<rparr>) = books g" "books (g\<lparr>g_InscriptionsTransferRemoveMap := h\<rparr>) = books g"
  "books (g\<lparr>g_InscriptionsWithdrawMap := l\<rparr>) = books g" "books (g\<lparr>g_AllHistory := m\<rparr>) = books g"
  "books (g\<lparr>g_UserAllHistory := n\<rparr>) = books g"
  by (simp_all add: books_def)

lemma books_ops [simp]:
  "books (append_user_history pk x g) = books g" "books (append_all_history x g) = books g"
  "books (upd_ticker lt f g) = books g" "books (upd_deploy lt f' g) = books g" "books (set_module g k m) = books g"
  by (simp_all add: books_def append_user_history_def GetBRC20HistoryByUser_def Let_def append_all_history_def upd_ticker_def upd_deploy_def
      set_module_def split: option.splits)

lemma books_UpdateHistory: "UpdateHistoryHeightAndGetHistoryIndex g x = Some (i, g') \<Longrightarrow> books g' = books g"
  by (auto simp: UpdateHistoryHeightAndGetHistoryIndex_def books_def Let_def elim!: bind_SomeE split: if_splits)

lemma touched_history:
  assumes "UpdateHistoryHeightAndGetHistoryIndex g x = Some (i, g1)" and "books g' = books (upd_balance u lt f g1)"
    and "\<And>b. tb_PkScript (f b) = tb_PkScript b" "\<And>b. tb_Ticker (f b) = tb_Ticker b" "\<And>b. tb_UpdateHeight (f b) = tb_UpdateHeight b"
      "\<And>b. both_amounts (Some (f b)) = both_amounts (Some b)" "\<And>b. safe_follows (Some b) (Some (f b))"
  shows "touched T h g g'"
  using touched_cong [OF touched_upd_balance [OF assms(3-7)] books_UpdateHistory [OF assms(1), symmetric] assms(2)] .

lemma touched_insert:
  assumes us: "g_TokenUsersBalanceData g lt = Some us" and t: "entry_touched T h pk lt (entry g pk lt) (Some b, True)"
  shows "touched T h g ((set_balance g pk lt b)\<lparr>g_TokenUsersBalanceData := (g_TokenUsersBalanceData g)(lt \<mapsto> insert pk us)\<rparr>)"
    (is "touched T h g ?g")
proof -
  have bal: "balance_of ?g u l = balance_of (set_balance g pk lt b) u l" for u l by (simp add: balance_of_def)
  have "entry ?g u l = (if u = pk \<and> l = lt then (Some b, True) else entry g u l)" for u l
    unfolding entry_def bal using us by (auto simp: listed_def)
  with t show ?thesis by (simp add: touched_def entry_touched_refl) (simp add: set_balance_def)
qed

lemma touched_GetUser:
  assumes "GetUserTokenBalance e g tick pk = Some (b, g')"
  shows "T (ToLower e tick) = Some tick \<Longrightarrow> touched T h g g'" "balance_of g' pk (ToLower e tick) = Some b" "listed g' pk (ToLower e tick)"
proof -
  let ?lt = "ToLower e tick"
  from assms obtain us where b: "b = (case balance_of g pk ?lt of None \<Rightarrow> new_token_balance tick pk | Some b \<Rightarrow> b)"
    and us: "g_TokenUsersBalanceData g ?lt = Some us"
    and g': "g' = (set_balance g pk ?lt b)\<lparr>g_TokenUsersBalanceData := (g_TokenUsersBalanceData g)(?lt \<mapsto> insert pk us)\<rparr>"
    by (auto simp: GetUserTokenBalance_def Let_def set_balance_def split: option.splits)
  show "balance_of g' pk ?lt = Some b" by (simp add: g' balance_of_def set_balance_def)
  show "listed g' pk ?lt" by (simp add: g' listed_def)
  show "touched T h g g'" if "T ?lt = Some tick"
    unfolding g' by (rule touched_insert [OF us])
      (use that in \<open>auto simp: entry_touched_def entry_def b keyed_def new_token_balance_def both_amounts_def split: option.splits\<close>)
qed

lemma touched_mark:
  assumes "touched T h g g'" and "balance_of g u lt = Some b" and "tb_UpdateHeight b = h"
  shows "\<exists>b'. balance_of g' u lt = Some b' \<and> tb_UpdateHeight b' = h"
  using assms(1) [unfolded touched_def, THEN conjunct2, THEN spec, THEN spec, of u lt] assms(2,3)
  by (cases "balance_of g' u lt") (auto simp: entry_touched_def entry_def)

lemma listed_set_balance [simp]: "listed (set_balance g u lt b) v l = listed g v l"
  by (simp add: listed_def set_balance_def)

lemma listed_upd [simp]: "listed (upd_ticker t f g) v l = listed g v l" "listed (upd_balance u lt f' g) v l = listed g v l"
  by (simp_all add: listed_def upd_ticker_def upd_balance_def set_balance_def split: option.splits)

lemma balance_of_upd_balance:
  "balance_of (upd_balance u lt f g) v l = (if v = u \<and> l = lt then map_option f (balance_of g u lt) else balance_of g v l)"
  by (simp add: upd_balance_def split: option.splits)

lemma touched_mint_invalid: "mint_invalid g lt key mi b d = Some (err, g') \<Longrightarrow> touched T h g g'"
  by (auto simp: mint_invalid_def Let_def both_amounts_def elim!: bind_SomeE split: if_splits intro: touched_history)

lemma touched_mint_history: "mint_history g lt key mi b d = Some (err, g') \<Longrightarrow> touched T h g g'"
  by (auto simp: mint_history_def Let_def both_amounts_def elim!: bind_SomeE split: if_splits intro: touched_history)

lemma touched_mint_valid:
  assumes r: "mint_valid e g lt key tinfo mi amt d = Some (err, g')"
    and b: "balance_of g (d_PkScript d) key = Some bal" "tb_UpdateHeight bal = h" "listed g (d_PkScript d) key"
  shows "touched T h g g'"
proof -
  from r b obtain tinfo' x safe av g1 mi' bal' where
    g1: "g1 = set_balance (upd_ticker lt (\<lambda>t. t\<lparr>tk_UpdateHeight := d_Height d, tk_Deploy := tinfo'\<rparr>) g) (d_PkScript d) key
        (bal\<lparr>tb_AvailableBalanceSafe := safe, tb_AvailableBalance := av\<rparr>)"
    and h: "mint_history g1 lt key mi' bal' d = Some (err, g')"
    and av: "Decimal_Add (tb_AvailableBalance bal) x = Some av"
    and safe: "(if d_BlockTime d > 0 then Decimal_Add (tb_AvailableBalanceSafe bal) x else Some (tb_AvailableBalanceSafe bal)) = Some safe"
    by (auto simp: mint_valid_def Let_def elim!: bind_SomeE)
  have sf: "safe_follows (Some bal) (Some (bal\<lparr>tb_AvailableBalanceSafe := safe, tb_AvailableBalance := av\<rparr>))"
    by (rule safe_follows_Add) (use av safe in simp_all)
  have "touched T h g (upd_ticker lt (\<lambda>t. t\<lparr>tk_UpdateHeight := d_Height d, tk_Deploy := tinfo'\<rparr>) g)" by (simp add: touched_same)
  also have "touched T h \<dots> g1" unfolding g1 by (rule touched_marked [of _ _ _ bal]) (use b sf in auto)
  also have "touched T h g1 g'" using h by (rule touched_mint_history)
  finally show ?thesis .
qed

lemma touched_mint:
  assumes u: "GetUserTokenBalance e g tick (d_PkScript d) = Some (b, g1)" and key: "key = ToLower e tick" and T: "T key = Some tick"
  defines "g2 \<equiv> upd_balance (d_PkScript d) key (\<lambda>b. b\<lparr>tb_UpdateHeight := d_Height d\<rparr>) g1"
  shows "mint_invalid g2 lt key mi bal d = Some (err, g') \<Longrightarrow> touched T (d_Height d) g g'"
    "mint_valid e g2 lt key tinfo mi amt d = Some (err, g') \<Longrightarrow> touched T (d_Height d) g g'"
proof -
  note g1 = touched_GetUser [OF u, folded key]
  have "touched T (d_Height d) g g1" using T by (rule g1(1))
  also have "touched T (d_Height d) g1 g2"
    unfolding g2_def upd_balance_def using g1(2,3) by (auto intro: touched_marked [of _ _ _ b])
  finally have t: "touched T (d_Height d) g g2" .
  have b: "balance_of g2 (d_PkScript d) key = Some (b\<lparr>tb_UpdateHeight := d_Height d\<rparr>)" "listed g2 (d_PkScript d) key"
    using g1(2,3) by (simp_all add: g2_def balance_of_upd_balance)
  show "touched T (d_Height d) g g'" if "mint_invalid g2 lt key mi bal d = Some (err, g')"
    using touched_trans [OF t touched_mint_invalid [OF that]] .
  show "touched T (d_Height d) g g'" if "mint_valid e g2 lt key tinfo mi amt d = Some (err, g')"
    using touched_trans [OF t touched_mint_valid [OF that b(1) _ b(2)]] by simp
qed

text \<open>A name for the key of every token.\<close>

definition names :: "ext \<Rightarrow> (string \<rightharpoonup> string) \<Rightarrow> BRC20ModuleIndexer \<Rightarrow> bool" where
  "names e T g \<longleftrightarrow> (\<forall>lt t. g_InscriptionsTickerInfoMap g lt = Some t \<longrightarrow> T (ToLower e (tk_Ticker t)) = Some (tk_Ticker t))"

lemma namesD: "names e T g \<Longrightarrow> g_InscriptionsTickerInfoMap g lt = Some t \<Longrightarrow> T (ToLower e (tk_Ticker t)) = Some (tk_Ticker t)"
  by (simp add: names_def)

lemma touched_ProcessMint: "ProcessMint e g d = Some (err, g') \<Longrightarrow> names e T g \<Longrightarrow> touched T (d_Height d) g g'"
  by (auto simp: ProcessMint_def Let_def elim!: bind_SomeE split: option.splits sum.splits if_splits)
    (rule touched_mint [OF _ refl], assumption, rule namesD, assumption, assumption, assumption)+

lemma books_transfer_global_history: "transfer_global_history g lt ti iv d = Some g' \<Longrightarrow> books g' = books g"
  by (auto simp: transfer_global_history_def Let_def elim!: bind_SomeE split: if_splits dest!: books_UpdateHistory)

lemma touched_transfer_send_history: "transfer_send_history g pk lt ti v d = Some g' \<Longrightarrow> touched T h g g'"
  by (auto simp: transfer_send_history_def Let_def both_amounts_def elim!: bind_SomeE split: if_splits intro: touched_history)

lemma touched_credit:
  assumes "GetUserTokenBalance e g tick pk = Some (b, g1)" and "books g2 = books (set_balance g1 pk (ToLower e tick) b')"
    and "tb_PkScript b' = tb_PkScript b" "tb_Ticker b' = tb_Ticker b" "tb_UpdateHeight b' = h" and "T (ToLower e tick) = Some tick"
    and "safe_follows (Some b) (Some b')"
  shows "touched T h g g2"
  using touched_trans [OF touched_GetUser(1) [where T = T, OF assms(1,6)]
      touched_cong [OF touched_marked [OF touched_GetUser(2) [OF assms(1)] assms(3-5)] refl assms(2)]] touched_GetUser(3) [OF assms(1)]
    assms(7) by blast

text \<open>Credit of the receiver: the balance is set, then the burn counter, then the history is appended.\<close>

lemma transfer_receiveE:
  assumes "transfer_receive e g lt pk ti d = Some g'"
  obtains b g1 safe av b' where "GetUserTokenBalance e g (ti_Tick ti) pk = Some (b, g1)"
    "(if d_BlockTime d > 0 then Decimal_Add (tb_AvailableBalanceSafe b) (ti_Amount ti) else Some (tb_AvailableBalanceSafe b)) = Some safe"
    "Decimal_Add (tb_AvailableBalance b) (ti_Amount ti) = Some av"
    "b' = b\<lparr>tb_UpdateHeight := d_Height d, tb_AvailableBalanceSafe := safe, tb_AvailableBalance := av\<rparr>"
    "books g' = books (set_balance g1 pk (ToLower e (ti_Tick ti)) b') \<or>
     (\<exists>g2 x i g3. UpdateHistoryHeightAndGetHistoryIndex g2 x = Some (i, g3) \<and>
       books g2 = books (set_balance g1 pk (ToLower e (ti_Tick ti)) b') \<and>
       books g' = books (upd_balance pk (ToLower e (ti_Tick ti))
         (\<lambda>b. b\<lparr>tb_History := tb_History b @ [i], tb_HistoryReceive := tb_HistoryReceive b @ [i]\<rparr>) g3))"
proof -
  note r = assms [unfolded transfer_receive_def Let_def]
  from r obtain b g1 where u: "GetUserTokenBalance e g (ti_Tick ti) pk = Some (b, g1)" by (auto elim!: bind_SomeE)
  from r u obtain safe av where s: "(if d_BlockTime d > 0 then Decimal_Add (tb_AvailableBalanceSafe b) (ti_Amount ti)
      else Some (tb_AvailableBalanceSafe b)) = Some safe" "Decimal_Add (tb_AvailableBalance b) (ti_Amount ti) = Some av"
    by (auto elim!: bind_SomeE)
  let ?k = "ToLower e (ti_Tick ti)" and ?b = "b\<lparr>tb_UpdateHeight := d_Height d, tb_AvailableBalanceSafe := safe, tb_AvailableBalance := av\<rparr>"
  from r have "\<exists>g2. books g2 = books (set_balance g1 pk ?k ?b) \<and>
    (if g_EnableHistory g2 then do {
       x \<leftarrow> NewBRC20History HISTORY_RECEIVE True True ti (Some ?b) d;
       (i, g3) \<leftarrow> UpdateHistoryHeightAndGetHistoryIndex g2 x;
       Some (append_user_history pk i (upd_balance pk ?k
         (\<lambda>b. b\<lparr>tb_History := tb_History b @ [i], tb_HistoryReceive := tb_HistoryReceive b @ [i]\<rparr>) g3)) }
     else Some g2) = Some g'"
    by (simp only: u s bind.bind_lunit split_conv)
      (erule bind_SomeE, rule exI, rule conjI [rotated], assumption, auto elim!: bind_SomeE split: if_splits option.splits)
  then obtain g2 where g2: "books g2 = books (set_balance g1 pk ?k ?b)" and
    h: "g' = g2 \<or> (\<exists>x i g3. UpdateHistoryHeightAndGetHistoryIndex g2 x = Some (i, g3) \<and>
      g' = append_user_history pk i (upd_balance pk ?k
         (\<lambda>b. b\<lparr>tb_History := tb_History b @ [i], tb_HistoryReceive := tb_HistoryReceive b @ [i]\<rparr>) g3))"
    by (auto elim!: bind_SomeE split: if_splits)
  show thesis
  proof (rule that [OF u s refl])
    from h show "books g' = books (set_balance g1 pk ?k ?b) \<or>
     (\<exists>g2 x i g3. UpdateHistoryHeightAndGetHistoryIndex g2 x = Some (i, g3) \<and> books g2 = books (set_balance g1 pk ?k ?b) \<and>
       books g' = books (upd_balance pk ?k (\<lambda>b. b\<lparr>tb_History := tb_History b @ [i], tb_HistoryReceive := tb_HistoryReceive b @ [i]\<rparr>) g3))"
    proof (elim disjE exE conjE)
      fix x i g3
      assume "UpdateHistoryHeightAndGetHistoryIndex g2 x = Some (i, g3)" and "g' = append_user_history pk i (upd_balance pk ?k
         (\<lambda>b. b\<lparr>tb_History := tb_History b @ [i], tb_HistoryReceive := tb_HistoryReceive b @ [i]\<rparr>) g3)"
      with g2 show ?thesis by (intro disjI2 exI [of _ g2] exI [of _ x] exI [of _ i] exI [of _ g3] conjI) simp_all
    qed (use g2 in simp)
  qed
qed

lemma touched_transfer_receive:
  assumes "transfer_receive e g lt pk ti d = Some g'" and T: "T (ToLower e (ti_Tick ti)) = Some (ti_Tick ti)"
  shows "touched T (d_Height d) g g'"
  using assms(1)
proof (rule transfer_receiveE)
  fix b g1 safe av b'
  assume u: "GetUserTokenBalance e g (ti_Tick ti) pk = Some (b, g1)"
    and safe: "(if d_BlockTime d > 0 then Decimal_Add (tb_AvailableBalanceSafe b) (ti_Amount ti) else Some (tb_AvailableBalanceSafe b)) = Some safe"
    and av: "Decimal_Add (tb_AvailableBalance b) (ti_Amount ti) = Some av"
    and b': "b' = b\<lparr>tb_UpdateHeight := d_Height d, tb_AvailableBalanceSafe := safe, tb_AvailableBalance := av\<rparr>"
    and h: "books g' = books (set_balance g1 pk (ToLower e (ti_Tick ti)) b') \<or>
     (\<exists>g2 x i g3. UpdateHistoryHeightAndGetHistoryIndex g2 x = Some (i, g3) \<and>
       books g2 = books (set_balance g1 pk (ToLower e (ti_Tick ti)) b') \<and>
       books g' = books (upd_balance pk (ToLower e (ti_Tick ti))
         (\<lambda>b. b\<lparr>tb_History := tb_History b @ [i], tb_HistoryReceive := tb_HistoryReceive b @ [i]\<rparr>) g3))"
  have sf: "safe_follows (Some b) (Some b')" unfolding b' by (rule safe_follows_Add) (use av safe in simp_all)
  have credit: "touched T (d_Height d) g g2" if "books g2 = books (set_balance g1 pk (ToLower e (ti_Tick ti)) b')" for g2
    by (rule touched_credit [where T = T, OF u that]) (simp_all add: T sf, simp_all add: b')
  from h show ?thesis
  proof (elim disjE exE conjE)
    fix g2 x i g3
    assume g2: "UpdateHistoryHeightAndGetHistoryIndex g2 x = Some (i, g3)" "books g2 = books (set_balance g1 pk (ToLower e (ti_Tick ti)) b')"
      and g': "books g' = books (upd_balance pk (ToLower e (ti_Tick ti))
         (\<lambda>b. b\<lparr>tb_History := tb_History b @ [i], tb_HistoryReceive := tb_HistoryReceive b @ [i]\<rparr>) g3)"
    have "touched T (d_Height d) g2 g'" by (rule touched_history [OF g2(1) g']) (simp_all add: both_amounts_def)
    with credit [OF g2(2)] show ?thesis by (rule touched_trans)
  qed (rule credit)
qed

section \<open>The other handlers of the base protocol\<close>

lemma touched_transfer_apply:
  assumes r: "transfer_apply e g d lt s rc fb ti iv = Some (err, g')" and fb: "balance_of g s lt = Some fb"
    and z: "\<not> iv \<Longrightarrow> tb_ValidTransferMap fb (d_CreateIdxKey d) \<noteq> None \<Longrightarrow>
      decval (tb_TransferableBalance fb) = 0 \<Longrightarrow> decval (ti_Amount ti) = 0"
    and T: "\<not> iv \<Longrightarrow> T (ToLower e (ti_Tick ti)) = Some (ti_Tick ti)"
  shows "touched T (d_Height d) g g'"
proof (cases "iv \<or> tb_ValidTransferMap fb (d_CreateIdxKey d) = None")
  case True
  let ?g = "set_balance g s lt (fb\<lparr>tb_UpdateHeight := d_Height d\<rparr>)"
  have "touched T (d_Height d) g ?g" by (rule touched_marked [OF fb]) (auto simp: both_amounts_def)
  also have "touched T (d_Height d) ?g g'"
    using r True by (auto simp: transfer_apply_def Let_def elim!: bind_SomeE split: if_splits intro: touched_transfer_send_history)
  finally show ?thesis .
next
  case False
  then obtain tr g2 g3 where tr: "Decimal_Sub (tb_TransferableBalance fb) (ti_Amount ti) = Some tr"
    and g2: "transfer_send_history (set_balance (set_balance g s lt (fb\<lparr>tb_UpdateHeight := d_Height d\<rparr>)) s lt
        (fb\<lparr>tb_UpdateHeight := d_Height d, tb_TransferableBalance := tr,
            tb_ValidTransferMap := (tb_ValidTransferMap fb)(d_CreateIdxKey d := None)\<rparr>)) s lt ti True d = Some g2"
    and g3: "transfer_receive e g2 lt rc ti d = Some g3" "transfer_module_part e g3 lt s rc ti d = Some (err, g')"
    using r by (auto simp: transfer_apply_def Let_def elim!: bind_SomeE)
  let ?g0 = "set_balance g s lt (fb\<lparr>tb_UpdateHeight := d_Height d\<rparr>)"
  let ?g1 = "set_balance ?g0 s lt (fb\<lparr>tb_UpdateHeight := d_Height d, tb_TransferableBalance := tr,
            tb_ValidTransferMap := (tb_ValidTransferMap fb)(d_CreateIdxKey d := None)\<rparr>)"
  have "touched T (d_Height d) g ?g0" by (rule touched_marked [OF fb]) (auto simp: both_amounts_def)
  also have "touched T (d_Height d) ?g0 ?g1"
    by (rule touched_marked [of _ _ _ "fb\<lparr>tb_UpdateHeight := d_Height d\<rparr>"])
      (use False z Decimal_Sub_val [OF tr] in \<open>auto simp: both_amounts_def\<close>)
  also have "touched T (d_Height d) ?g1 g2" using g2 by (rule touched_transfer_send_history)
  also have "touched T (d_Height d) g2 g3" using g3(1) T False by (auto intro: touched_transfer_receive)
  also have "touched T (d_Height d) g3 g'" by (rule touched_same) (rule base_transfer_module_part [OF g3(2), THEN base_books])
  finally show ?thesis .
qed

lemma touched_ProcessTransfer:
  assumes r: "ProcessTransfer e g d ti iv = Some (err, g')"
    and z: "\<And>fb. \<not> iv \<Longrightarrow> balance_of g (ti_PkScript ti) (ToLower e (ti_Tick ti)) = Some fb \<Longrightarrow>
      tb_ValidTransferMap fb (d_CreateIdxKey d) \<noteq> None \<Longrightarrow> decval (tb_TransferableBalance fb) = 0 \<Longrightarrow> decval (ti_Amount ti) = 0"
    and T: "\<not> iv \<Longrightarrow> T (ToLower e (ti_Tick ti)) = Some (ti_Tick ti)"
  shows "touched T (d_Height d) g g'"
proof (cases "g_InscriptionsTickerInfoMap g (ToLower e (ti_Tick ti)) = None")
  case True
  with r show ?thesis by (simp add: ProcessTransfer_def Let_def)
next
  case False
  let ?lt = "ToLower e (ti_Tick ti)" and ?s = "ti_PkScript ti"
  let ?r = "if d_Satoshi d = 0 then ?s else d_PkScript d"
  let ?d = "d\<lparr>d_PkScript := ?r\<rparr>"
  obtain g1 where h: "transfer_global_history g ?lt ti iv ?d = Some g1"
    and c: "g' = g1 \<or> (\<exists>fb. balance_of g1 ?s ?lt = Some fb \<and> transfer_apply e g1 ?d ?lt ?s ?r fb ti iv = Some (err, g'))"
    using False r by (auto simp: ProcessTransfer_def Let_def balance_of_def elim!: bind_SomeE split: option.splits)
  have same: "books g1 = books g" using h by (rule books_transfer_global_history)
  then have "touched T (d_Height d) g g1" by (rule touched_same)
  also have "touched T (d_Height d) g1 g'"
    using c
  proof (elim disjE exE conjE)
    fix fb assume fb: "balance_of g1 ?s ?lt = Some fb" and a: "transfer_apply e g1 ?d ?lt ?s ?r fb ti iv = Some (err, g')"
    have "balance_of g ?s ?lt = Some fb" using entry_cong [OF same] fb by (simp add: entry_def fun_eq_iff)
    from touched_transfer_apply [OF a fb] z [OF _ this] T show ?thesis by simp
  qed simp
  finally show ?thesis .
qed

lemma touched_upd_books:
  assumes "books g' = books (upd_balance u lt f g)"
    and "\<And>b. tb_PkScript (f b) = tb_PkScript b" "\<And>b. tb_Ticker (f b) = tb_Ticker b" "\<And>b. tb_UpdateHeight (f b) = tb_UpdateHeight b"
      "\<And>b. both_amounts (Some (f b)) = both_amounts (Some b)" "\<And>b. safe_follows (Some b) (Some (f b))"
  shows "touched T h g g'"
  by (rule touched_cong [OF touched_upd_balance refl assms(1)]) (use assms(2-) in simp_all)

lemma touched_inscribe_transfer_history: "inscribe_transfer_history g lt ti b v d = Some g' \<Longrightarrow> touched T h g g'"
  by (auto simp: inscribe_transfer_history_def Let_def elim!: bind_SomeE split: if_splits dest!: books_UpdateHistory)
    (erule touched_upd_books; simp add: both_amounts_def)+

lemma listed_books: "books g' = books (upd_balance u lt f g) \<Longrightarrow> listed g' v l = listed g v l"
  using listed_upd(2) [of u lt f g v l] by (simp add: listed_def books_def)

lemma listed_inscribe_transfer_history: "inscribe_transfer_history g lt ti b v d = Some g' \<Longrightarrow> listed g' u l = listed g u l"
  by (auto simp: inscribe_transfer_history_def Let_def elim!: bind_SomeE split: if_splits dest!: books_UpdateHistory dest: listed_books)

lemma available_of_map: "(\<And>b. tb_AvailableBalance (f b) = tb_AvailableBalance b) \<Longrightarrow> available_of (map_option f ob) = available_of ob"
  by (cases ob) simp_all

lemma safe_of_map: "(\<And>b. tb_AvailableBalanceSafe (f b) = tb_AvailableBalanceSafe b) \<Longrightarrow> safe_of (map_option f ob) = safe_of ob"
  by (cases ob) simp_all

lemma books_balance_of: "books g' = books g \<Longrightarrow> balance_of g' = balance_of g"
  using entry_cong [of g' g] by (simp add: entry_def fun_eq_iff)

lemma safe_inscribe_transfer_history:
  assumes "inscribe_transfer_history g lt ti b v d = Some g'"
  shows "available_of (balance_of g' u l) = available_of (balance_of g u l)" "safe_of (balance_of g' u l) = safe_of (balance_of g u l)"
  using assms
  by (auto simp: inscribe_transfer_history_def Let_def balance_of_upd_balance available_of_map safe_of_map elim!: bind_SomeE split: if_splits
      dest!: books_UpdateHistory books_balance_of)

lemma touched_inscribe_transfer_apply:
  assumes r: "inscribe_transfer_apply g lt b ti d = Some (err, g')"
    and b1: "balance_of g (d_PkScript d) lt = Some b" "tb_UpdateHeight b = h" "listed g (d_PkScript d) lt"
  shows "touched T h g g'"
proof -
  from r obtain c g2 where h: "inscribe_transfer_history g lt ti b c d = Some g2"
    and c: "books g' = books g2 \<or> (\<exists>safe av tr vm. Decimal_Sub (tb_AvailableBalanceSafe b) (ti_Amount ti) = Some safe \<and>
      Decimal_Sub (tb_AvailableBalance b) (ti_Amount ti) = Some av \<and> books g' = books (upd_balance (d_PkScript d) lt
      (\<lambda>b. b\<lparr>tb_AvailableBalanceSafe := safe, tb_AvailableBalance := av, tb_TransferableBalance := tr, tb_ValidTransferMap := vm b\<rparr>) g2))"
    by (auto simp: inscribe_transfer_apply_def Let_def elim!: bind_SomeE split: if_splits) metis+
  note t = touched_inscribe_transfer_history [OF h]
  obtain b2 where b2: "balance_of g2 (d_PkScript d) lt = Some b2" "tb_UpdateHeight b2 = h"
    using touched_mark [OF t b1(1,2)] by blast
  note t
  also have "touched T h g2 g'"
    using c
  proof (elim disjE exE conjE)
    fix safe av tr vm
    assume sub: "Decimal_Sub (tb_AvailableBalanceSafe b) (ti_Amount ti) = Some safe" "Decimal_Sub (tb_AvailableBalance b) (ti_Amount ti) = Some av"
    have same: "tb_AvailableBalance b2 = tb_AvailableBalance b" "tb_AvailableBalanceSafe b2 = tb_AvailableBalanceSafe b"
      using safe_inscribe_transfer_history [OF h, of "d_PkScript d" lt] b1(1) b2(1) by simp_all
    assume "books g' = books (upd_balance (d_PkScript d) lt
      (\<lambda>b. b\<lparr>tb_AvailableBalanceSafe := safe, tb_AvailableBalance := av, tb_TransferableBalance := tr, tb_ValidTransferMap := vm b\<rparr>) g2)"
    then have g': "books g' = books (set_balance g2 (d_PkScript d) lt
      (b2\<lparr>tb_AvailableBalanceSafe := safe, tb_AvailableBalance := av, tb_TransferableBalance := tr, tb_ValidTransferMap := vm b2\<rparr>))"
      by (simp add: upd_balance_def b2)
    have sf: "safe_follows (Some b2) (Some (b2\<lparr>tb_AvailableBalanceSafe := safe, tb_AvailableBalance := av, tb_TransferableBalance := tr,
        tb_ValidTransferMap := vm b2\<rparr>))"
      by (rule safe_follows_Sub) (use sub same in simp_all)
    show ?thesis
      by (rule touched_cong [OF touched_marked [OF b2(1)] refl g'])
        (use sf b2 b1(3) listed_inscribe_transfer_history [OF h] in auto)
  qed (rule touched_same)
  finally show ?thesis .
qed

lemma touched_ProcessInscribeTransfer:
  assumes r: "ProcessInscribeTransfer e g d = Some (err, g')" and wf: "ledger_wf e g" and T: "names e T g"
  shows "touched T (d_Height d) g g'"
proof (cases "g' = g")
  case False
  let ?b = "\<lambda>lt t. (case balance_of g (d_PkScript d) lt of None \<Rightarrow> new_token_balance (tk_Ticker t) (d_PkScript d) | Some b \<Rightarrow> b)
    \<lparr>tb_UpdateHeight := d_Height d\<rparr>"
  let ?g = "\<lambda>lt t us. (set_balance g (d_PkScript d) lt (?b lt t))\<lparr>g_TokenUsersBalanceData := (g_TokenUsersBalanceData g)(lt \<mapsto> insert (d_PkScript d) us)\<rparr>"
  from False r obtain lt t info us where t: "g_InscriptionsTickerInfoMap g lt = Some t" and us: "g_TokenUsersBalanceData g lt = Some us"
    and a: "inscribe_transfer_apply (?g lt t us) lt (?b lt t) info d = Some (err, g')"
    by (auto simp: ProcessInscribeTransfer_def Let_def elim!: bind_SomeE split: option.splits sum.splits if_splits)
  have lt: "ToLower e (tk_Ticker t) = lt"
    by (rule ledger_wfD(2) [OF wf]) (simp add: tview_def t token_core_def)
  with namesD [OF T t] have name: "T lt = Some (tk_Ticker t)" by simp
  have b: "balance_of (?g lt t us) (d_PkScript d) lt = Some (?b lt t)" by (simp add: balance_of_def set_balance_def)
  have "touched T (d_Height d) g (?g lt t us)"
    by (rule touched_insert [OF us])
      (auto simp: entry_touched_def entry_def keyed_def name new_token_balance_def both_amounts_def split: option.splits)
  also have "touched T (d_Height d) (?g lt t us) g'"
    by (rule touched_inscribe_transfer_apply [OF a b]) (simp_all add: listed_def)
  finally show ?thesis .
qed simp

lemma touched_deploy_token:
  assumes r: "deploy_token g lt body tinfo d = Some (err, g')" and wf: "ledger_wf e g" and new: "tview g lt = None"
    and T: "T lt = Some (dc_BRC20Tick body)"
  shows "touched T (d_Height d) g g'"
proof -
  let ?tk = "\<lparr>tk_UpdateHeight = 0, tk_Ticker = dc_BRC20Tick body, tk_Deploy = tinfo, tk_History = [],
            tk_HistoryMint = [], tk_HistoryInscribeTransfer = [], tk_HistoryTransfer = [], tk_HistoryWithdraw = []\<rparr>"
  let ?tb = "(new_token_balance (dc_BRC20Tick body) (d_PkScript d))\<lparr>tb_UpdateHeight := d_Height d\<rparr>"
  from r obtain tk tb g1 where h: "deploy_history g tinfo d ?tk ?tb = Some (tk, tb, g1)"
    and g': "books g' = books ((set_balance g1 (d_PkScript d) lt tb)
      \<lparr>g_TokenUsersBalanceData := (g_TokenUsersBalanceData g1)(lt \<mapsto> {d_PkScript d})\<rparr>)"
    by (auto simp: deploy_token_def Let_def books_def set_balance_def elim!: bind_SomeE)
  have g1: "books g1 = books g"
    using h by (auto simp: deploy_history_def elim!: bind_SomeE split: if_splits dest!: books_UpdateHistory)
  have tb: "keyed T (d_PkScript d) lt tb" "tb_UpdateHeight tb = d_Height d" "both_amounts (Some tb) = (0, 0)"
    "tb_AvailableBalance tb = None" "tb_AvailableBalanceSafe tb = None"
    using h by (auto simp: deploy_history_def new_token_balance_def keyed_def T both_amounts_def elim!: bind_SomeE split: if_splits)
  have z: "both_amounts (balance_of g u lt) = (0, 0)" "available_of (balance_of g u lt) = None" for u
    using ledger_wfD(1) [OF wf new, of u] by (auto simp: bview_def bal_core_def both_amounts_def split: option.splits)
  then have sf: "safe_follows (balance_of g u lt) (Some tb)" for u using tb(4,5) by (simp add: safe_follows_def)
  let ?g = "(set_balance g1 (d_PkScript d) lt tb)\<lparr>g_TokenUsersBalanceData := (g_TokenUsersBalanceData g1)(lt \<mapsto> {d_PkScript d})\<rparr>"
  have new: "entry ?g u l = (if l = lt then (if u = d_PkScript d then Some tb else balance_of g u lt, u = d_PkScript d) else entry g u l)" for u l
    using g1 by (auto simp: entry_def listed_def books_def balance_of_def set_balance_def split: option.splits)
  have "entry_touched T (d_Height d) u l (entry g u l) (entry ?g u l)" for u l
    using tb z(1) [of u] sf [of u] new [of u l]
    by (cases "l = lt") (auto simp: entry_touched_refl, auto simp: entry_touched_def entry_def split: option.splits)
  moreover have "g_Durty ?g = g_Durty g" using books_durty [OF g1] by (simp add: set_balance_def)
  ultimately have "touched T (d_Height d) g ?g" unfolding touched_def by blast
  then show ?thesis by (rule touched_cong) (use g' in simp_all)
qed

lemma touched_ProcessDeploy:
  assumes r: "ProcessDeploy e g d = Some (err, g')" and wf: "ledger_wf e g" and T: "names e T g'"
  shows "touched T (d_Height d) g g'"
proof (cases "g' = g")
  case False
  with r obtain lt body tinfo where t: "g_InscriptionsTickerInfoMap g lt = None" and lt: "ToLower e (dc_BRC20Tick body) = lt"
    and p: "deploy_token g lt body tinfo d = Some (err, g')"
    by (auto simp: ProcessDeploy_def deploy_max_def deploy_limit_def GetValidUniqueLowerTickerTicker_def Let_def elim!: bind_SomeE
        split: option.splits sum.splits if_splits)
  then obtain t' where "g_InscriptionsTickerInfoMap g' lt = Some t'" "tk_Ticker t' = dc_BRC20Tick body"
    by (auto simp: deploy_token_def deploy_history_def Let_def set_balance_def elim!: bind_SomeE split: if_splits)
  from namesD [OF T this(1)] this(2) lt have "T lt = Some (dc_BRC20Tick body)" by simp
  then show ?thesis by (rule touched_deploy_token [OF p wf, rotated]) (simp add: tview_def t)
qed simp

section \<open>Events\<close>

lemma run_handler_touched:
  assumes r: "run_handler h e g d = Some (err, g')" and wf: "ledger_wf e g" and T: "names e T g" "names e T g'"
  shows "touched T (d_Height d) g g'"
proof (cases h)
  case Deploy
  with r show ?thesis by (auto intro: touched_ProcessDeploy [OF _ wf T(2)])
next
  case Mint
  with r show ?thesis by (auto intro: touched_ProcessMint [OF _ T(1)])
next
  case InscribeTransfer
  with r show ?thesis by (auto intro: touched_ProcessInscribeTransfer [OF _ wf T(1)])
qed (use r in \<open>auto intro!: touched_same base_books dest: base_handlers\<close>)

text \<open>A handler that returns an error has not touched a balance.\<close>

lemma run_handler_error: "run_handler h e g d = Some (Some er, g') \<Longrightarrow> books g' = books g"
proof (cases h)
  case Deploy
  then show "run_handler h e g d = Some (Some er, g') \<Longrightarrow> books g' = books g"
    by (auto simp: ProcessDeploy_def deploy_max_def deploy_limit_def deploy_token_def Let_def elim!: bind_SomeE
        split: option.splits sum.splits if_splits)
next
  case Mint
  then show "run_handler h e g d = Some (Some er, g') \<Longrightarrow> books g' = books g"
    by (auto simp: ProcessMint_def mint_valid_def mint_invalid_def mint_history_def Let_def elim!: bind_SomeE
        split: option.splits sum.splits if_splits)
next
  case InscribeTransfer
  then show "run_handler h e g d = Some (Some er, g') \<Longrightarrow> books g' = books g"
    by (auto simp: ProcessInscribeTransfer_def inscribe_transfer_apply_def Let_def elim!: bind_SomeE
        split: option.splits sum.splits if_splits)
qed (auto intro!: base_books dest: base_handlers)

text \<open>
  An event either leaves the balances and the mark \<open>Durty\<close> of the state, or sets the mark and marks each
  balance it changes.
\<close>

definition event_touched :: "(string \<rightharpoonup> string) \<Rightarrow> u32 \<Rightarrow> BRC20ModuleIndexer \<Rightarrow> BRC20ModuleIndexer \<Rightarrow> bool" where
  "event_touched T h g g' \<longleftrightarrow> books g' = books g \<or> touched T h (g\<lparr>g_Durty := True\<rparr>) g'"

lemma touched_durty: "touched T h g g' \<Longrightarrow> touched T h (g\<lparr>g_Durty := x\<rparr>) (g'\<lparr>g_Durty := x\<rparr>)"
  by (simp add: touched_def entry_def balance_of_def listed_def)

lemma books_durty_upd: "books g' = books g \<Longrightarrow> books (g'\<lparr>g_Durty := x\<rparr>) = books (g\<lparr>g_Durty := x\<rparr>)"
  by (simp add: books_def)

lemma event_touched_trans [trans]:
  assumes "event_touched T h g g1" and "event_touched T h g1 g'"
  shows "event_touched T h g g'"
  using assms unfolding event_touched_def
proof (elim disjE)
  assume a: "touched T h (g\<lparr>g_Durty := True\<rparr>) g1" and b: "touched T h (g1\<lparr>g_Durty := True\<rparr>) g'"
  from a have "g1\<lparr>g_Durty := True\<rparr> = g1" by (simp add: touched_def)
  with touched_trans [OF a] b show "books g' = books g \<or> touched T h (g\<lparr>g_Durty := True\<rparr>) g'" by simp
next
  assume "books g1 = books g" and "touched T h (g1\<lparr>g_Durty := True\<rparr>) g'"
  from touched_cong [OF this(2) books_durty_upd [OF this(1) [symmetric]] refl]
  show "books g' = books g \<or> touched T h (g\<lparr>g_Durty := True\<rparr>) g'" by blast
next
  assume "touched T h (g\<lparr>g_Durty := True\<rparr>) g1" and "books g' = books g1"
  from touched_cong [OF this(1) refl this(2)]
  show "books g' = books g \<or> touched T h (g\<lparr>g_Durty := True\<rparr>) g'" by blast
qed simp

lemma event_touched_cong: "event_touched T h g g' \<Longrightarrow> books g1 = books g \<Longrightarrow> event_touched T h g1 g'"
  using event_touched_trans [of T h g1 g g'] by (simp add: event_touched_def)

lemma mark_durty_touched:
  assumes "mark_durty r = Some g'" and "\<And>err g1. r = Some (err, g1) \<Longrightarrow> touched T h g g1"
    and "\<And>er g1. r = Some (Some er, g1) \<Longrightarrow> books g1 = books g"
  shows "event_touched T h g g'"
proof -
  from assms(1) obtain err g1 where r: "r = Some (err, g1)" and g': "g' = (case err of Some _ \<Rightarrow> g1 | None \<Rightarrow> g1\<lparr>g_Durty := True\<rparr>)"
    by (auto simp: mark_durty_def elim!: bind_SomeE)
  show ?thesis
    using assms(2) [OF r] assms(3) r g' by (cases err) (auto simp: event_touched_def intro: touched_durty)
qed

text \<open>The tokens keep their names, and the transfer inscriptions have the name of their token.\<close>

definition token_name :: "BRC20ModuleIndexer \<Rightarrow> string \<Rightarrow> string option" where
  "token_name g lt = map_option fst (tview g lt)"

lemma view_step_names:
  assumes "view_step e g g'" and "token_name g lt = Some ticker"
  shows "token_name g' lt = Some ticker"
  using assms
proof (induction rule: view_step.induct)
  case (same g' g)
  then show ?case using viewD(2) [OF same(1)] by (simp add: token_name_def)
qed (auto simp: token_name_def minted_view_def moved_view_def bound_view_def deployed_view_def)

lemma names_iff: "names e T g \<longleftrightarrow> (\<forall>lt ticker. token_name g lt = Some ticker \<longrightarrow> T (ToLower e ticker) = Some ticker)"
  by (auto simp: names_def token_name_def tview_def token_core_def)

lemma names_cong: "g_InscriptionsTickerInfoMap g' = g_InscriptionsTickerInfoMap g \<Longrightarrow> names e T g' = names e T g"
  by (simp add: names_def)

lemma names_back: "view_step e g g' \<Longrightarrow> names e T g' \<Longrightarrow> names e T g"
  unfolding names_iff using view_step_names by metis

definition transfers_named :: "ext \<Rightarrow> BRC20ModuleIndexer \<Rightarrow> bool" where
  "transfers_named e g \<longleftrightarrow> (\<forall>k i. g_InscriptionsValidTransferMap g k = Some i \<longrightarrow>
     token_name g (ToLower e (ti_Tick i)) = Some (ti_Tick i))"

lemma transfers_named_cong: "view g' = view g \<Longrightarrow> transfers_named e g \<Longrightarrow> transfers_named e g'"
  using viewD [of g' g] by (simp add: transfers_named_def token_name_def)

lemma transfers_named_step:
  assumes s: "view_step e g g'" and wf: "ledger_wf e g" and tn: "transfers_named e g"
  shows "transfers_named e g'"
  unfolding transfers_named_def
proof (intro allI impI)
  fix k i assume i: "g_InscriptionsValidTransferMap g' k = Some i"
  have "g_InscriptionsValidTransferMap g k = Some i \<or> (\<exists>lt. token_name g lt = Some (ti_Tick i))"
    using s i
  proof cases
    case same
    with i viewD [OF same] show ?thesis by simp
  next
    case (bound k' lt pk i')
    with i show ?thesis by (auto simp: bound_view_def token_name_def split: if_splits)
  qed (auto simp: minted_view_def moved_view_def deployed_view_def)
  then have "token_name g (ToLower e (ti_Tick i)) = Some (ti_Tick i)"
  proof (elim disjE exE)
    fix lt assume "token_name g lt = Some (ti_Tick i)"
    then show ?thesis using ledger_wfD(2) [OF wf, of lt] by (fastforce simp: token_name_def)
  qed (use tn in \<open>simp add: transfers_named_def\<close>)
  with s show "token_name g' (ToLower e (ti_Tick i)) = Some (ti_Tick i)" by (rule view_step_names)
qed

lemma reach_transfers_named: "reach e xr g \<Longrightarrow> transfers_named e g"
proof (induction rule: reach.induct)
  case (start h)
  then show ?case using init_ledger [of h] by (simp add: transfers_named_def view_def)
next
  case (event g d g')
  have wf: "ledger_wf e g" using reach_ledger [OF event(1)] by blast
  from transfers_named_step [OF process_event_view [OF event(3) ledger_wfD(4) [OF wf] event(2)] wf event.IH] show ?case .
qed (rule transfers_named_cong; simp)+

text \<open>A sender with nothing bound has no transfer of a positive amount.\<close>

lemma pending_zero:
  assumes "token_ok t" and "tok_bound t u = 0" and "tok_pending t u k = Some a"
  shows "a = 0"
proof -
  let ?p = "pend_amt (tok_pending t u)"
  have "finite (accounts ?p)" "\<forall>k. 0 \<le> ?p k" "tok_bound t u = total_of ?p"
    using assms(1) unfolding token_ok_def by blast+
  moreover have "?p k = a" using assms(3) by (rule pend_amt_Some)
  ultimately have p: "finite (accounts ?p)" "\<forall>k. 0 \<le> ?p k" "sum ?p (accounts ?p) = 0" "?p k = a"
    using assms(2) by (simp_all add: total_of_def)
  have all: "\<forall>k \<in> accounts ?p. ?p k = 0" using sum_nonneg_eq_0_iff [of "accounts ?p" ?p] p(1-3) by blast
  have "?p k = 0"
  proof (rule ccontr)
    assume nz: "?p k \<noteq> 0"
    then have "k \<in> accounts ?p" by (simp add: accounts_def)
    with all nz show False by blast
  qed
  with p(4) show ?thesis by simp
qed

lemma reach_nothing_bound:
  assumes "reach e xr g" and i: "g_InscriptionsValidTransferMap g k = Some i" and b: "balance_of g u lt = Some b"
    and k: "tb_ValidTransferMap b k \<noteq> None" and z: "decval (tb_TransferableBalance b) = 0"
  shows "decval (ti_Amount i) = 0"
proof -
  have wf: "ledger_wf e g" and ok: "tokens_ok g" using reach_ledger [OF assms(1)] by blast+
  have bv: "bview g u lt = (tb_AvailableBalance b, tb_TransferableBalance b, tb_ValidTransferMap b)"
    using b by (simp add: bview_def bal_core_def)
  then have vm: "tb_ValidTransferMap b k = Some i" using ledger_wfD(3) [OF wf bv] k i by auto
  then obtain t where t: "g_InscriptionsTickerInfoMap g lt = Some t"
    using ledger_wfD(1) [OF wf, of lt u] bv by (cases "g_InscriptionsTickerInfoMap g lt") (auto simp: tview_def)
  note l = token_of_ticker [OF t]
  from ok l have "token_ok (the (ledger_of g lt))" by (simp add: tokens_ok_def)
  from pending_zero [OF this, of u k] l bv vm z show ?thesis by simp
qed

lemma move_event_touched:
  assumes r: "move_event e xr (g\<lparr>g_BestHeight := h\<rparr>) d = Some g'" (is "move_event e xr ?best d = _")
    and g: "reach e xr g" and T: "names e T g'"
  shows "event_touched T (d_Height d) (g\<lparr>g_BestHeight := h\<rparr>) g'"
proof -
  have "ledger_wf e g" using reach_ledger [OF g] by blast
  then have wf: "ledger_wf e ?best" using ledger_wf_cong [of ?best g e] by simp
  have Tg: "names e T ?best" using names_back [OF move_event_step [OF r ledger_wfD(4) [OF wf]] T] .
  show ?thesis
    using r ledger_wfD(4) [OF wf]
  proof (cases rule: move_event_cases)
    case none
    then show ?thesis by (simp add: event_touched_def)
  next
    case (cond ai iv)
    then show ?thesis
      by (rule mark_durty_touched) (auto intro!: touched_same base_books dest: base_handlers(1))
  next
    case (trans ti iv m)
    let ?g = "?best\<lparr>g_InscriptionsTransferRemoveMap := m, g_Durty := True\<rparr>"
    have ti: "\<not> iv \<Longrightarrow> g_InscriptionsValidTransferMap g (d_CreateIdxKey d) = Some ti" using GetTransferInfoByKey_valid [OF trans(1)] by simp
    have "names e T g" using Tg names_cong [of ?best g e T] by simp
    then have name: "\<not> iv \<Longrightarrow> T (ToLower e (ti_Tick ti)) = Some (ti_Tick ti)"
      using ti reach_transfers_named [OF g] unfolding transfers_named_def names_iff by blast
    from drop_errorD [OF trans(3)] obtain err where p: "ProcessTransfer e ?g d ti iv = Some (err, g')" by blast
    have "touched T (d_Height d) ?g g'"
      by (rule touched_ProcessTransfer [where T = T, OF p _ name])
        (use reach_nothing_bound [OF g ti] in \<open>simp_all add: balance_of_def\<close>)
    from touched_cong [OF this, of "?best\<lparr>g_Durty := True\<rparr>" g'] show ?thesis by (simp add: event_touched_def books_def)
  next
    case (appr ai iv m)
    from drop_errorD [OF this] have "books g' = books (?best\<lparr>g_Durty := True\<rparr>)"
      using base_handlers(2) base_books by (fastforce simp: books_def base_state_def)
    then show ?thesis by (simp add: event_touched_def touched_same)
  next
    case (commit cf iv m)
    from drop_errorD [OF this] have "books g' = books (?best\<lparr>g_Durty := True\<rparr>)"
      using base_handlers(8) base_books by (fastforce simp: books_def base_state_def)
    then show ?thesis by (simp add: event_touched_def touched_same)
  qed
qed

lemma inscribe_event_touched:
  assumes r: "inscribe_event e g d = Some g'" and g: "ledger_wf e g" and T: "names e T g" "names e T g'"
  shows "event_touched T (d_Height d) g g'"
proof -
  have "g' = g \<or> (\<exists>h. mark_durty (run_handler h e g d) = Some g')"
    using r by (auto simp: inscribe_event_def split: if_splits option.splits)
  then show ?thesis
  proof (elim disjE exE)
    fix h assume m: "mark_durty (run_handler h e g d) = Some g'"
    show ?thesis
    proof (rule mark_durty_touched [OF m])
      fix err g1 assume h: "run_handler h e g d = Some (err, g1)"
      with m have "names e T g1" using T(2) names_cong [of g' g1 e T] by (auto simp: mark_durty_def split: option.splits)
      with h show "touched T (d_Height d) g g1" by (rule run_handler_touched [OF _ g T(1)])
    qed (rule run_handler_error)
  qed (simp add: event_touched_def)
qed

lemma process_event_touched:
  assumes r: "process_event e xr g d = Some g'" and g: "reach e xr g" and f: "fresh_key g d" and T: "names e T g'"
  shows "event_touched T (d_Height d) g g'"
proof -
  have wf: "ledger_wf e g" using reach_ledger [OF g] by blast
  have Tg: "names e T g" using names_back [OF process_event_view [OF r ledger_wfD(4) [OF wf] f] T] .
  let ?g = "g\<lparr>g_BestHeight := d_Height d\<rparr>"
  have "event_touched T (d_Height d) ?g g'"
  proof (cases "d_IsTransfer d")
    case True
    with r have "move_event e xr ?g d = Some g'" by (simp add: process_event_def Let_def)
    then show ?thesis using g T by (rule move_event_touched)
  next
    case False
    with r have "inscribe_event e ?g d = Some g'" by (simp add: process_event_def Let_def)
    then show ?thesis
      by (rule inscribe_event_touched) (use wf Tg T ledger_wf_cong [of ?g g e] names_cong [of ?g g e T] in simp_all)
  qed
  then show ?thesis by (rule event_touched_cong) simp
qed

section \<open>Reachable states\<close>

text \<open>
  In a reachable state every balance has its key, every user with a balance is a holder of the token, every
  holder has a record, and the confirmed part of a balance has the precision of the balance.
\<close>

definition accounts_ok :: "BRC20ModuleIndexer \<Rightarrow> bool" where
  "accounts_ok g \<longleftrightarrow> (\<forall>u lt b. balance_of g u lt = Some b \<longrightarrow> tb_PkScript b = u \<and> token_name g lt = Some (tb_Ticker b)) \<and>
     (\<forall>u lt. both_amounts (balance_of g u lt) = (0, 0) \<or> listed g u lt) \<and>
     (\<forall>u lt. listed g u lt \<longrightarrow> balance_of g u lt \<noteq> None) \<and>
     (\<forall>u lt p. dec_ok p (available_of (balance_of g u lt)) \<longrightarrow> dec_ok p (safe_of (balance_of g u lt)))"

lemma accounts_ok_books:
  assumes "books g' = books g" and "\<And>lt n. token_name g lt = Some n \<Longrightarrow> token_name g' lt = Some n" and "accounts_ok g"
  shows "accounts_ok g'"
  using assms(2,3) entry_cong [OF assms(1)] unfolding accounts_ok_def entry_def fun_eq_iff by auto

lemma accounts_ok_touched:
  assumes t: "touched T h g g'" and T: "T = token_name g'" and n: "\<And>lt n. token_name g lt = Some n \<Longrightarrow> token_name g' lt = Some n"
    and ok: "accounts_ok g"
  shows "accounts_ok g'"
proof -
  have e: "entry_touched T h u lt (entry g u lt) (entry g' u lt)" for u lt using t unfolding touched_def by blast
  have "tb_PkScript b = u \<and> token_name g' lt = Some (tb_Ticker b)" if "balance_of g' u lt = Some b" for u lt b
    using e [of u lt] that ok n [of lt] unfolding accounts_ok_def T
    by (cases "balance_of g u lt") (auto simp: entry_touched_def entry_def keyed_def)
  moreover have "both_amounts (balance_of g' u lt) = (0, 0) \<or> listed g' u lt" for u lt
    using e [of u lt] ok unfolding accounts_ok_def by (auto simp: entry_touched_def entry_def)
  moreover have "listed g' u lt \<longrightarrow> balance_of g' u lt \<noteq> None"
    "dec_ok p (available_of (balance_of g' u lt)) \<longrightarrow> dec_ok p (safe_of (balance_of g' u lt))" for u lt p
  proof -
    have "entry_kept (entry g u lt) (entry g' u lt)" using e [of u lt] unfolding entry_touched_def by blast
    then show "listed g' u lt \<longrightarrow> balance_of g' u lt \<noteq> None"
      "dec_ok p (available_of (balance_of g' u lt)) \<longrightarrow> dec_ok p (safe_of (balance_of g' u lt))"
      using ok unfolding accounts_ok_def entry_kept_def safe_follows_def entry_def fst_conv snd_conv by blast+
  qed
  ultimately show ?thesis unfolding accounts_ok_def by blast
qed

lemma names_self: "ledger_wf e g \<Longrightarrow> names e (token_name g) g"
  unfolding names_iff using ledger_wfD(2) [of e g] by (fastforce simp: token_name_def)

lemma accounts_ok_event:
  assumes "event_touched T h g g'" and "T = token_name g'" and "\<And>lt n. token_name g lt = Some n \<Longrightarrow> token_name g' lt = Some n"
    and "accounts_ok g"
  shows "accounts_ok g'"
proof -
  have [simp]: "token_name (g\<lparr>g_Durty := x\<rparr>) = token_name g" "accounts_ok (g\<lparr>g_Durty := x\<rparr>) = accounts_ok g" for x
    by (simp_all add: token_name_def tview_def accounts_ok_def balance_of_def listed_def fun_eq_iff)
  from assms show ?thesis
    unfolding event_touched_def using accounts_ok_books [of g' g] accounts_ok_touched [of T h "g\<lparr>g_Durty := True\<rparr>" g'] by auto
qed

lemma reach_names_self:
  assumes "reach e xr g"
  shows "names e (token_name g) g"
  using names_self reach_ledger [OF assms] by blast

lemma listed_clean: "listed (clean_holders g) u lt \<Longrightarrow> listed g u lt"
  by (auto simp: listed_def clean_holders_def split: option.splits)

lemma listed_clean_holding: "both_amounts (balance_of g u lt) \<noteq> (0, 0) \<Longrightarrow> listed (clean_holders g) u lt = listed g u lt"
  by (auto simp: listed_def clean_holders_def holder_is_empty_def both_amounts_def Decimal_Sign_def decval_def sgn_0_0 split: option.splits)

lemma accounts_ok_clean:
  assumes "accounts_ok g"
  shows "accounts_ok (clean_holders g)"
proof -
  have same: "balance_of (clean_holders g) = balance_of g" "token_name (clean_holders g) = token_name g"
    by (simp_all add: clean_holders_def balance_of_def token_name_def tview_def fun_eq_iff)
  show ?thesis
    using assms listed_clean_holding [of g] listed_clean [of g] unfolding accounts_ok_def same by blast
qed

lemma reach_accounts_ok: "reach e xr g \<Longrightarrow> accounts_ok g"
proof (induction rule: reach.induct)
  case (start h)
  then show ?case by (simp add: accounts_ok_def balance_of_def listed_def both_amounts_def Init_def initBRC20_def initModule_def zero_indexer_def)
next
  case (event g d g')
  have wf: "ledger_wf e g" using reach_ledger [OF event(1)] by blast
  note v = process_event_view [OF event(3) ledger_wfD(4) [OF wf] event(2)]
  note T = reach_names_self [OF reach.event [OF event(1-3)]]
  show ?case
    by (rule accounts_ok_event [OF process_event_touched [OF event(3,1,2) T] refl view_step_names [OF v] event.IH])
next
  case (batch_end g)
  then show ?case by (simp add: accounts_ok_clean)
qed (simp_all add: accounts_ok_def balance_of_def listed_def token_name_def tview_def PurgeHistoricalData_def)

lemma reach_holder:
  assumes "reach e xr g" and "g_TokenUsersBalanceData g lt = Some users" and "u \<in> users"
  shows "\<exists>b. balance_of g u lt = Some b"
  using reach_accounts_ok [OF assms(1)] assms(2,3) unfolding accounts_ok_def listed_def by blast

lemma reach_safe:
  assumes "reach e xr g" and "balance_of g u lt = Some b" and "dec_ok p (tb_AvailableBalance b)"
  shows "dec_ok p (tb_AvailableBalanceSafe b)"
  using reach_accounts_ok [OF assms(1), unfolded accounts_ok_def, THEN conjunct2, THEN conjunct2, THEN conjunct2, rule_format, of p u lt]
    assms(2,3) by simp

end
