(* ===== verification/Database_Props.thy ===== *)
theory Database_Props
  imports Marks Precision Service_Loop
begin

text \<open>
  What the database keeps of the state. The service saves after each block the balances that the block
  marked, and a restart takes the latest row of every balance; the theorems follow a run of the service with
  its tables.
\<close>

section \<open>A column of amounts\<close>

text \<open>
  A column of type \<open>numeric(40,18)\<close> returns the number that was written with 18 decimals, as long as it has
  at most 22 digits before the point.
\<close>

definition pads_zeros :: "(string \<Rightarrow> string) \<Rightarrow> bool" where
  "pads_zeros num \<longleftrightarrow> (\<forall>q fp. q < 10 ^ 22 \<and> list_all is_digit fp \<and> length fp \<le> 18 \<longrightarrow>
     num (decimal_text False (nat_string q) fp) = decimal_text False (nat_string q) (fp @ replicate (18 - length fp) CHR ''0''))"

lemma trim_right_replicate: "go_trim_right c (xs @ replicate n c) = go_trim_right c xs"
  unfolding go_trim_right_def rev_append rev_replicate by (subst dropWhile_append2) auto

lemma trim_right_keep: "xs \<noteq> [] \<Longrightarrow> last xs \<noteq> c \<Longrightarrow> go_trim_right c xs = xs"
  by (cases xs rule: rev_cases) (simp_all add: go_trim_right_def)

lemma last_trim_right: "go_trim_right c xs \<noteq> [] \<Longrightarrow> last (go_trim_right c xs) \<noteq> c"
  unfolding go_trim_right_def by (metis (full_types) hd_dropWhile last_rev rev_is_Nil_conv)

lemma digit_last: "list_all is_digit xs \<Longrightarrow> xs \<noteq> [] \<Longrightarrow> last xs \<noteq> CHR ''.''"
  by (metis last_in_set list_all_digit_no)

lemma padded_text:
  assumes "list_all is_digit ip" "ip \<noteq> []" "list_all is_digit fp" "fp = [] \<or> last fp \<noteq> CHR ''0''" "0 < n \<or> fp \<noteq> []"
  shows "MustNewDecimalFromString (decimal_text False ip (fp @ replicate n CHR ''0'')) p =
    do { r \<leftarrow> NewDecimalFromString (decimal_text False ip fp) p; (case r of Inl e \<Rightarrow> None | Inr val \<Rightarrow> Some val) }"
proof -
  have dots: "CHR ''.'' \<notin> set ip" "CHR ''.'' \<notin> set fp" "CHR ''.'' \<notin> set (replicate n CHR ''0'')"
    using assms list_all_digit_no by auto
  have t: "decimal_text False ip (fp @ replicate n CHR ''0'') = ip @ CHR ''.'' # fp @ replicate n CHR ''0''"
    using assms(5) by (auto simp: decimal_text_def)
  have s: "go_split CHR ''.'' (ip @ CHR ''.'' # fp @ replicate n CHR ''0'') = [ip, fp @ replicate n CHR ''0'']"
    using dots by (simp add: go_split_once go_split_no_sep)
  have z: "go_trim_right CHR ''0'' (ip @ CHR ''.'' # fp @ replicate n CHR ''0'') = ip @ CHR ''.'' # fp"
    using trim_right_replicate [of "CHR ''0''" "ip @ CHR ''.'' # fp" n] assms(4) trim_right_keep [of "ip @ CHR ''.'' # fp" "CHR ''0''"] by auto
  have d: "go_trim_right CHR ''.'' (ip @ CHR ''.'' # fp) = decimal_text False ip fp"
  proof (cases "fp = []")
    case True
    have "go_trim_right CHR ''.'' (ip @ [CHR ''.'']) = go_trim_right CHR ''.'' ip"
      using trim_right_replicate [of "CHR ''.''" ip 1] by simp
    with True assms(1,2) digit_last trim_right_keep show ?thesis by (simp add: decimal_text_def)
  next
    case False
    with assms(3) digit_last trim_right_keep [of "ip @ CHR ''.'' # fp" "CHR ''.''"] show ?thesis by (auto simp: decimal_text_def)
  qed
  have "MustNewDecimalFromString (decimal_text False ip (fp @ replicate n CHR ''0'')) p =
      do { r \<leftarrow> NewDecimalFromString (decimal_text False ip fp) p; (case r of Inl e \<Rightarrow> None | Inr val \<Rightarrow> Some val) }"
    by (simp add: MustNewDecimalFromString_def t s z d)
  then show ?thesis .
qed

text \<open>What a column of amounts gives back is read as the amount that was printed into it.\<close>

lemma column_parse:
  assumes num: "pads_zeros num" and p: "p \<le> 18" and v: "0 \<le> v" "v \<le> MaxUint64 * 10 ^ p"
    and s: "Decimal_String (Some \<lparr>Precition = p, Val = v\<rparr>) = Some s"
  shows "MustNewDecimalFromString (num s) p = Some \<lparr>Precition = p, Val = v\<rparr>"
proof -
  let ?q = "nat v div 10 ^ p" and ?r = "nat v mod 10 ^ p"
  let ?fp = "if ?r = 0 then [] else go_trim_right CHR ''0'' (zero_padded p ?r)"
  have n: "nat ((10::int) ^ p) = 10 ^ p" by (simp add: nat_power_eq)
  have form: "s = decimal_text False (nat_string ?q) ?fp"
    using s v p trimmed_fraction(3) [of ?r p]
    by (auto simp: Decimal_String_def precisionFactor_def n Let_def decimal_text_def split: if_splits)
  have fp: "list_all is_digit ?fp" "length ?fp \<le> p" "?fp = [] \<or> last ?fp \<noteq> CHR ''0''"
    using trimmed_fraction [of ?r p] last_trim_right by auto
  have "nat v \<le> nat MaxUint64 * 10 ^ p"
    using v n by (simp add: nat_le_iff nat_mult_distrib MaxUint64_def)
  then have "?q \<le> nat MaxUint64" by (simp add: div_le_mono div_le_dividend le_trans [OF div_le_mono])
  then have q: "?q < 10 ^ 22" by (simp add: MaxUint64_def)
  have "num s = decimal_text False (nat_string ?q) (?fp @ replicate (18 - length ?fp) CHR ''0'')"
    unfolding form using num q fp(1,2) p unfolding pads_zeros_def by (meson le_trans)
  moreover have "0 < 18 - length ?fp \<or> ?fp \<noteq> []" using fp(2) p by (cases "?fp = []") auto
  ultimately have "MustNewDecimalFromString (num s) p = do { r \<leftarrow> NewDecimalFromString s p; (case r of Inl e \<Rightarrow> None | Inr val \<Rightarrow> Some val) }"
    unfolding form using padded_text [OF nat_string_digits nat_string_not_Nil fp(1,3)] by metis
  moreover have "- (10 ^ p) < v" using v(1) zero_less_power [of "10::int" p] by linarith
  ultimately show ?thesis using parse_String [OF p, of v] s v(1) by auto
qed

section \<open>Saving rows\<close>

lemma save_rows_set:
  assumes "save_rows P f m keys = Some rows"
  shows "r \<in> set rows \<longleftrightarrow> (\<exists>k \<in> set keys. \<exists>v. m k = Some v \<and> P v \<and> f k v = Some r)"
    and "k \<in> set keys \<Longrightarrow> m k = Some v \<Longrightarrow> P v \<Longrightarrow> \<exists>r \<in> set rows. f k v = Some r"
  using assms by (induction keys arbitrary: rows) (auto elim!: bind_SomeE split: option.splits if_splits)

lemma SaveDataToDB_balances:
  assumes "SaveDataToDB rg h g t = Some t'"
  obtains rows where "SaveDataToDBTickerBalanceMap h (sv_balances rg) (g_UserTokensBalanceData g) = Some rows"
    "t_user_balance t' = t_user_balance t @ rows"
  using assms by (auto simp: SaveDataToDB_def elim!: bind_SomeE)

lemma at2_balance: "at2 (g_UserTokensBalanceData g) (u, lt) = balance_of g u lt"
  by (simp add: at2_def balance_of_def split: option.splits)

text \<open>The ranges of a save visit every balance.\<close>

definition covers :: "save_ranges \<Rightarrow> BRC20ModuleIndexer \<Rightarrow> bool" where
  "covers rg g \<longleftrightarrow> (\<forall>u lt. balance_of g u lt \<noteq> None \<longrightarrow> (u, lt) \<in> set (sv_balances rg))"

section \<open>Runs of the service\<close>

definition no_tables :: swap_tables where
  "no_tables = \<lparr>t_ticker_info = [], t_user_balance = [], t_transfer_state = [], t_valid_transfer = [], t_swap_info = [], t_swap_history = [],
     t_commit_chain = [], t_module_balance = [], t_pool_balance = [], t_user_lp = [], t_approve_state = [], t_valid_approve = [],
     t_cond_approve_state = [], t_valid_cond_approve = [], t_commit_state = [], t_valid_commit = [], t_withdraw_state = [],
     t_valid_withdraw = [], t_module_withdrawals = []\<rparr>"

text \<open>
  The states of the service from an empty database: the blocks have increasing heights, the events of
  a block have its height and fresh inscription keys, and a save visits all balances.
\<close>

inductive service_reach :: "ext \<Rightarrow> SwapFunctionResultCheckState option list option \<Rightarrow> u32 \<Rightarrow> service_state \<Rightarrow> bool"
  for e :: ext and xr :: "SwapFunctionResultCheckState option list option" where
  start: "service_reach e xr 0 ((Init zero_indexer)\<lparr>g_EnableHistory := b\<rparr>, no_tables)"
| block: "service_reach e xr h (g, t) \<Longrightarrow> h < h' \<Longrightarrow> \<forall>d \<in> set ds. d_Height d = h' \<Longrightarrow>
    run_fresh e xr ds (g\<lparr>g_Durty := False\<rparr>) \<noteq> None \<Longrightarrow>
    process_block e xr rg h' ds (g, t) = Some (g', t') \<Longrightarrow> covers rg g' \<Longrightarrow> service_reach e xr h' (g', t')"

lemma run_fresh_events: "run_fresh e xr ds g = Some g' \<Longrightarrow> process_events e xr ds g = Some g'"
  by (induction ds arbitrary: g) (auto elim!: bind_SomeE split: if_splits)

text \<open>A block, taken apart.\<close>

lemma process_block_cases:
  assumes "process_block e xr rg h ds (g, t) = Some (g', t')" and "run_fresh e xr ds (g\<lparr>g_Durty := False\<rparr>) \<noteq> None"
  obtains (saved) g1 where "run_fresh e xr ds (g\<lparr>g_Durty := False\<rparr>) = Some g1" "g_Durty g1"
      "SaveDataToDB rg h (clean_holders g1) t = Some t'" "g' = PurgeHistoricalData (clean_holders g1)"
    | (clean) g1 where "run_fresh e xr ds (g\<lparr>g_Durty := False\<rparr>) = Some g1" "\<not> g_Durty g1" "t' = t" "g' = clean_holders g1"
proof -
  obtain g1 where g1: "run_fresh e xr ds (g\<lparr>g_Durty := False\<rparr>) = Some g1" using assms(2) by blast
  have d: "g_Durty (clean_holders g1) = g_Durty g1" by (simp add: clean_holders_def)
  show thesis
    using assms(1) run_fresh_events [OF g1] saved [OF g1] clean [OF g1]
    by (auto simp: process_block_def ProcessUpdateLatestBRC20Loop_def UpdateBRC20BlockEventsHash_def d elim!: bind_SomeE split: if_splits)
qed

lemma service_reach_reach: "service_reach e xr h s \<Longrightarrow> reach e xr (fst s)"
proof (induction rule: service_reach.induct)
  case (start b)
  show ?case by (simp add: reach.start)
next
  case (block h g t h' ds rg g' t')
  have "reach e xr (g\<lparr>g_Durty := False\<rparr>)" using block.IH by (simp add: reach.batch_start)
  from reach_run [OF _ this] have r: "run_fresh e xr ds (g\<lparr>g_Durty := False\<rparr>) = Some g1 \<Longrightarrow> reach e xr (clean_holders g1)" for g1
    by (blast intro: reach.batch_end)
  from block(5,4) show ?case by (cases rule: process_block_cases) (auto intro: reach.purge r)
qed

text \<open>The effect of the events of a block on the balances.\<close>

lemma names_chain: "run_fresh e xr ds g = Some g' \<Longrightarrow> reach e xr g \<Longrightarrow> names e T g' \<Longrightarrow> names e T g"
proof (induction ds arbitrary: g)
  case (Cons d ds)
  then obtain g1 where g1: "fresh_key g d" "process_event e xr g d = Some g1" "run_fresh e xr ds g1 = Some g'"
    by (auto elim!: bind_SomeE split: if_splits)
  have "names e T g1" using Cons.IH [OF g1(3) reach.event [OF Cons.prems(2) g1(1,2)] Cons.prems(3)] .
  with names_back process_event_view [OF g1(2) _ g1(1)] reach_ledger [OF Cons.prems(2)] show ?case by (metis ledger_wfD(4))
qed simp

lemma run_touched:
  assumes "run_fresh e xr ds g = Some g'" and "reach e xr g" and "names e T g'" and "\<forall>d \<in> set ds. d_Height d = h"
  shows "event_touched T h g g'"
  using assms
proof (induction ds arbitrary: g)
  case Nil
  then show ?case by (simp add: event_touched_def)
next
  case (Cons d ds)
  then obtain g1 where g1: "fresh_key g d" "process_event e xr g d = Some g1" "run_fresh e xr ds g1 = Some g'"
    by (auto elim!: bind_SomeE split: if_splits)
  note r = reach.event [OF Cons.prems(2) g1(1,2)]
  have "event_touched T h g g1"
    using process_event_touched [OF g1(2) Cons.prems(2) g1(1) names_chain [OF g1(3) r Cons.prems(3)]] Cons.prems(4) by simp
  also have "event_touched T h g1 g'" using Cons.IH [OF g1(3) r Cons.prems(3)] Cons.prems(4) by simp
  finally show ?case .
qed

section \<open>The rows of the balances\<close>

text \<open>A row shows two amounts of a precision.\<close>

definition shows_amounts :: "nat \<Rightarrow> user_balance_row \<Rightarrow> int \<times> int \<Rightarrow> bool" where
  "shows_amounts p r a \<longleftrightarrow> Decimal_String (Some \<lparr>Precition = p, Val = fst a\<rparr>) = Some (ubr_available_balance r) \<and>
     Decimal_String (Some \<lparr>Precition = p, Val = snd a\<rparr>) = Some (ubr_transferable_balance r)"

text \<open>The decimals of a token.\<close>

definition decimals_of :: "BRC20ModuleIndexer \<Rightarrow> string \<Rightarrow> nat" where
  "decimals_of g lt = (case tview g lt of None \<Rightarrow> 0 | Some (_, _, _, _, dc) \<Rightarrow> unat dc)"

definition row_for :: "BRC20ModuleIndexer \<Rightarrow> string \<Rightarrow> string \<Rightarrow> user_balance_row \<Rightarrow> bool" where
  "row_for g u lt r \<longleftrightarrow> ubr_pkscript r = u \<and> token_name g lt = Some (ubr_tick r)"

text \<open>
  Every row is about a balance, is not newer than its mark, and shows its amounts when it has the
  height of the mark; and such a row exists unless the balance was never marked and is zero.
\<close>

definition rows_sound :: "BRC20ModuleIndexer \<Rightarrow> user_balance_row list \<Rightarrow> bool" where
  "rows_sound g rows \<longleftrightarrow> (\<forall>r \<in> set rows. \<exists>u lt b. row_for g u lt r \<and> balance_of g u lt = Some b \<and> ubr_block_height r \<le> tb_UpdateHeight b \<and>
     (ubr_block_height r = tb_UpdateHeight b \<longrightarrow> shows_amounts (decimals_of g lt) r (both_amounts (Some b))))"

definition rows_complete :: "BRC20ModuleIndexer \<Rightarrow> user_balance_row list \<Rightarrow> bool" where
  "rows_complete g rows \<longleftrightarrow> (\<forall>u lt b. balance_of g u lt = Some b \<longrightarrow>
     (\<exists>r \<in> set rows. row_for g u lt r \<and> ubr_block_height r = tb_UpdateHeight b) \<or>
     both_amounts (Some b) = (0, 0) \<and> (\<forall>r \<in> set rows. \<not> row_for g u lt r))"

definition marks_below :: "u32 \<Rightarrow> BRC20ModuleIndexer \<Rightarrow> bool" where
  "marks_below h g \<longleftrightarrow> (\<forall>u lt b. balance_of g u lt = Some b \<longrightarrow> tb_UpdateHeight b \<le> h)"

definition db_ok :: "u32 \<Rightarrow> BRC20ModuleIndexer \<Rightarrow> user_balance_row list \<Rightarrow> bool" where
  "db_ok h g rows \<longleftrightarrow> marks_below h g \<and> rows_sound g rows \<and> rows_complete g rows"

text \<open>Printing depends on the value only.\<close>

lemma String_decval:
  assumes "dec_ok p d" and "p \<le> 18"
  shows "Decimal_String (Some \<lparr>Precition = p, Val = decval d\<rparr>) = Decimal_String d"
proof (cases d)
  case None
  have "nat_string 0 = ''0''" by code_simp
  with None assms(2) show ?thesis by (simp add: Decimal_String_def precisionFactor_def decval_def)
next
  case (Some a)
  with assms(1) have "\<lparr>Precition = p, Val = decval d\<rparr> = a" by (cases a) (simp add: decval_def dec_ok_def)
  with Some show ?thesis by simp
qed

lemma row_shows:
  assumes "reach e xr g" and "balance_of g u lt = Some b" and "row_of_user_balance h b = Some r"
  shows "row_for g u lt r" "ubr_block_height r = h" "shows_amounts (decimals_of g lt) r (both_amounts (Some b))"
proof -
  have k: "tb_PkScript b = u" "token_name g lt = Some (tb_Ticker b)"
    using reach_accounts_ok [OF assms(1)] assms(2) by (auto simp: accounts_ok_def)
  show "row_for g u lt r" "ubr_block_height r = h"
    using assms(3) k by (auto simp: row_of_user_balance_def row_for_def elim!: bind_SomeE)
  from k(2) obtain t where t: "g_InscriptionsTickerInfoMap g lt = Some t" by (auto simp: token_name_def tview_def)
  then have p: "decimals_of g lt = token_precision t" by (simp add: decimals_of_def tview_def token_core_def token_precision_def)
  have "dec_ok (token_precision t) (tb_AvailableBalance b)" "dec_ok (token_precision t) (tb_TransferableBalance b)"
    using reach_amounts(3) [OF assms(1) t token_precision_def assms(2)] by blast+
  with assms(3) reach_bounds(1) [OF assms(1) t] show "shows_amounts (decimals_of g lt) r (both_amounts (Some b))"
    unfolding shows_amounts_def p by (auto simp: both_amounts_def row_of_user_balance_def String_decval elim!: bind_SomeE)
qed

lemma row_for_unique:
  assumes "ledger_wf e g" and "row_for g u lt r" and "row_for g v l r"
  shows "v = u \<and> l = lt"
proof -
  have "token_name g x = Some n \<Longrightarrow> ToLower e n = x" for x n
    using ledger_wfD(2) [OF assms(1), of x] by (fastforce simp: token_name_def)
  with assms(2,3) show ?thesis by (auto simp: row_for_def)
qed

text \<open>What does not change from one state to the next.\<close>

lemma view_step_decimals: "view_step e g g' \<Longrightarrow> token_name g lt \<noteq> None \<Longrightarrow> decimals_of g' lt = decimals_of g lt"
proof (induction rule: view_step.induct)
  case (same g' g)
  then show ?case using viewD(2) [OF same(1)] by (simp add: decimals_of_def)
qed (auto simp: decimals_of_def token_name_def minted_view_def moved_view_def bound_view_def deployed_view_def)

lemma run_keeps:
  "run_fresh e xr ds g = Some g' \<Longrightarrow> reach e xr g \<Longrightarrow> token_name g lt = Some n \<Longrightarrow>
   token_name g' lt = Some n \<and> decimals_of g' lt = decimals_of g lt"
proof (induction ds arbitrary: g)
  case (Cons d ds)
  then obtain g1 where g1: "fresh_key g d" "process_event e xr g d = Some g1" "run_fresh e xr ds g1 = Some g'"
    by (auto elim!: bind_SomeE split: if_splits)
  have "g_InscriptionsWithdrawRemoveMap g = None" using reach_ledger [OF Cons.prems(2)] ledger_wfD(4) by blast
  note v = process_event_view [OF g1(2) this g1(1)]
  from view_step_names [OF v Cons.prems(3)] view_step_decimals [OF v, of lt] Cons.prems(3)
    Cons.IH [OF g1(3) reach.event [OF Cons.prems(2) g1(1,2)]] show ?case by simp
qed simp

lemma touchedD:
  assumes "touched T h g g'"
  shows "balance_of g u lt = Some b \<Longrightarrow> \<exists>b'. balance_of g' u lt = Some b'"
    "balance_of g' u lt = Some b' \<Longrightarrow> tb_UpdateHeight b' = h \<or> both_amounts (Some b') = both_amounts (balance_of g u lt) \<and>
       tb_UpdateHeight b' = (case balance_of g u lt of None \<Rightarrow> 0 | Some b \<Rightarrow> tb_UpdateHeight b)"
proof -
  have e: "entry_touched T h u lt (entry g u lt) (entry g' u lt)" using assms unfolding touched_def by blast
  show "balance_of g u lt = Some b \<Longrightarrow> \<exists>b'. balance_of g' u lt = Some b'"
    using e by (cases "balance_of g' u lt") (auto simp: entry_touched_def entry_def)
  show "balance_of g' u lt = Some b' \<Longrightarrow> tb_UpdateHeight b' = h \<or> both_amounts (Some b') = both_amounts (balance_of g u lt) \<and>
       tb_UpdateHeight b' = (case balance_of g u lt of None \<Rightarrow> 0 | Some b \<Rightarrow> tb_UpdateHeight b)"
    using e by (simp add: entry_touched_def entry_def)
qed

text \<open>One block with its save.\<close>

lemma new_rows:
  assumes r: "reach e xr g" and save: "SaveDataToDBTickerBalanceMap h keys (g_UserTokensBalanceData g) = Some new" and x: "x \<in> set new"
  shows "\<exists>u lt b. row_for g u lt x \<and> balance_of g u lt = Some b \<and> tb_UpdateHeight b = h \<and> ubr_block_height x = h \<and>
    shows_amounts (decimals_of g lt) x (both_amounts (Some b))"
proof -
  from x save_rows_set(1) [OF save [unfolded SaveDataToDBTickerBalanceMap_def], of x]
  obtain u lt b where b: "balance_of g u lt = Some b" "tb_UpdateHeight b = h" "row_of_user_balance h b = Some x"
    by (metis at2_balance surj_pair)
  from row_shows [OF r b(1,3)] b show ?thesis by blast
qed

lemma rows_sound_block:
  assumes below: "marks_below h g" and sound: "rows_sound g rows" and h: "h < h'" and t: "touched T h' g g1" and r: "reach e xr g1"
    and keep: "\<And>lt n. token_name g lt = Some n \<Longrightarrow> token_name g1 lt = Some n \<and> decimals_of g1 lt = decimals_of g lt"
    and save: "SaveDataToDBTickerBalanceMap h' keys (g_UserTokensBalanceData g1) = Some new"
  shows "rows_sound g1 (rows @ new)"
  unfolding rows_sound_def
proof
  fix x assume "x \<in> set (rows @ new)"
  then show "\<exists>u lt b. row_for g1 u lt x \<and> balance_of g1 u lt = Some b \<and> ubr_block_height x \<le> tb_UpdateHeight b \<and>
    (ubr_block_height x = tb_UpdateHeight b \<longrightarrow> shows_amounts (decimals_of g1 lt) x (both_amounts (Some b)))"
  proof (cases "x \<in> set rows")
    case True
    with sound obtain u lt b where x: "row_for g u lt x" "balance_of g u lt = Some b" "ubr_block_height x \<le> tb_UpdateHeight b"
      "ubr_block_height x = tb_UpdateHeight b \<longrightarrow> shows_amounts (decimals_of g lt) x (both_amounts (Some b))" unfolding rows_sound_def by blast
    obtain b1 where b1: "balance_of g1 u lt = Some b1" using touchedD(1) [OF t x(2)] by blast
    have old: "ubr_block_height x < h'" using x(2,3) below h unfolding marks_below_def by (meson order_le_less_trans)
    have "row_for g1 u lt x" "decimals_of g1 lt = decimals_of g lt" using x(1) keep by (simp_all add: row_for_def)
    moreover from this(2) have "ubr_block_height x \<le> tb_UpdateHeight b1 \<and>
      (ubr_block_height x = tb_UpdateHeight b1 \<longrightarrow> shows_amounts (decimals_of g1 lt) x (both_amounts (Some b1)))"
      using touchedD(2) [OF t b1] old x(2-4) by auto
    ultimately show ?thesis using b1 by blast
  qed (use new_rows [OF r save] in fastforce)
qed

lemma rows_complete_block:
  assumes sound: "rows_sound g rows" and compl: "rows_complete g rows" and t: "touched T h' g g1" and r: "reach e xr g1"
    and keep: "\<And>lt n. token_name g lt = Some n \<Longrightarrow> token_name g1 lt = Some n \<and> decimals_of g1 lt = decimals_of g lt"
    and save: "SaveDataToDBTickerBalanceMap h' keys (g_UserTokensBalanceData g1) = Some new"
    and cov: "\<And>u lt b. balance_of g1 u lt = Some b \<Longrightarrow> tb_UpdateHeight b = h' \<Longrightarrow> (u, lt) \<in> set keys"
  shows "rows_complete g1 (rows @ new)"
  unfolding rows_complete_def
proof (intro allI impI)
  fix u lt b1 assume b1: "balance_of g1 u lt = Some b1"
  have wf: "ledger_wf e g1" using reach_ledger [OF r] by blast
  have up: "row_for g v l x \<Longrightarrow> row_for g1 v l x" for v l x using keep by (auto simp: row_for_def)
  have fresh: "\<not> row_for g1 u lt x" if "x \<in> set new" "tb_UpdateHeight b1 \<noteq> h'" for x
    using new_rows [OF r save that(1)] row_for_unique [OF wf] b1 that(2) by (metis option.inject)
  have old: "row_for g u lt x" "balance_of g u lt \<noteq> None" if x: "x \<in> set rows" "row_for g1 u lt x" for x
    using sound x row_for_unique [OF wf x(2)] up unfolding rows_sound_def by (metis option.distinct(1))+
  show "(\<exists>r \<in> set (rows @ new). row_for g1 u lt r \<and> ubr_block_height r = tb_UpdateHeight b1) \<or>
    both_amounts (Some b1) = (0, 0) \<and> (\<forall>r \<in> set (rows @ new). \<not> row_for g1 u lt r)"
  proof (cases "tb_UpdateHeight b1 = h'")
    case True
    from cov [OF b1 True] b1 save_rows_set(2) [OF save [unfolded SaveDataToDBTickerBalanceMap_def], of "(u, lt)" b1] True
    obtain x where x: "x \<in> set new" "row_of_user_balance h' b1 = Some x" by (auto simp: at2_balance)
    from row_shows [OF r b1 x(2)] x(1) True show ?thesis by auto
  next
    case nm: False
    note same = touchedD(2) [OF t b1]
    show ?thesis
    proof (cases "balance_of g u lt")
      case None
      with nm same old(2) fresh show ?thesis by (auto simp: both_amounts_def)
    next
      case (Some b)
      with compl have "(\<exists>x \<in> set rows. row_for g u lt x \<and> ubr_block_height x = tb_UpdateHeight b) \<or>
        both_amounts (Some b) = (0, 0) \<and> (\<forall>x \<in> set rows. \<not> row_for g u lt x)" unfolding rows_complete_def by blast
      with up old(1) fresh nm same Some show ?thesis by auto
    qed
  qed
qed

lemma marks_below_block:
  assumes "marks_below h g" and "h < h'" and t: "touched T h' g g1"
  shows "marks_below h' g1"
  unfolding marks_below_def
proof (intro allI impI)
  fix u lt b assume "balance_of g1 u lt = Some b"
  from touchedD(2) [OF t this] assms(1,2) show "tb_UpdateHeight b \<le> h'"
    unfolding marks_below_def by (cases "balance_of g u lt") (fastforce intro: order_trans)+
qed

lemma db_ok_block:
  assumes "db_ok h g rows" and "h < h'" and "touched T h' g g1" and "reach e xr g1"
    and "\<And>lt n. token_name g lt = Some n \<Longrightarrow> token_name g1 lt = Some n \<and> decimals_of g1 lt = decimals_of g lt"
    and "SaveDataToDBTickerBalanceMap h' keys (g_UserTokensBalanceData g1) = Some new"
    and "\<And>u lt b. balance_of g1 u lt = Some b \<Longrightarrow> tb_UpdateHeight b = h' \<Longrightarrow> (u, lt) \<in> set keys"
  shows "db_ok h' g1 (rows @ new)"
  using assms(1) marks_below_block [OF _ assms(2,3)] rows_sound_block [OF _ _ assms(2-6)] rows_complete_block [OF _ _ assms(3-7)]
  by (simp add: db_ok_def)

lemma db_ok_cong: "balance_of g' = balance_of g \<Longrightarrow> tview g' = tview g \<Longrightarrow> db_ok h g' rows = db_ok h g rows"
  by (simp add: db_ok_def marks_below_def rows_sound_def rows_complete_def row_for_def token_name_def decimals_of_def)

lemma db_ok_mono: "db_ok h g rows \<Longrightarrow> h \<le> h' \<Longrightarrow> db_ok h' g rows"
  by (auto simp: db_ok_def marks_below_def intro: order_trans)

lemma db_ok_empty: "db_ok 0 ((Init zero_indexer)\<lparr>g_EnableHistory := b\<rparr>) []"
  by (simp add: db_ok_def marks_below_def rows_sound_def rows_complete_def balance_of_def Init_def initBRC20_def initModule_def zero_indexer_def)

lemma clean_same [simp]:
  "balance_of (clean_holders g) = balance_of g" "tview (clean_holders g) = tview g"
  "balance_of (PurgeHistoricalData g) = balance_of g" "tview (PurgeHistoricalData g) = tview g"
  "balance_of (g\<lparr>g_Durty := x\<rparr>) = balance_of g" "tview (g\<lparr>g_Durty := x\<rparr>) = tview g"
  "g_UserTokensBalanceData (clean_holders g) = g_UserTokensBalanceData g"
  by (simp_all add: clean_holders_def PurgeHistoricalData_def balance_of_def tview_def fun_eq_iff)

lemma durty_same [simp]: "token_name (g\<lparr>g_Durty := x\<rparr>) = token_name g" "decimals_of (g\<lparr>g_Durty := x\<rparr>) = decimals_of g"
  by (simp_all add: token_name_def decimals_of_def fun_eq_iff)

lemma service_db_ok: "service_reach e xr h s \<Longrightarrow> db_ok h (fst s) (t_user_balance (snd s))"
proof (induction rule: service_reach.induct)
  case (start b)
  show ?case by (simp add: no_tables_def db_ok_empty)
next
  case (block h g t h' ds rg g' t')
  let ?g = "g\<lparr>g_Durty := False\<rparr>"
  have r: "reach e xr ?g" using service_reach_reach [OF block(1)] by (simp add: reach.batch_start)
  have ok: "db_ok h ?g (t_user_balance t)" using block.IH db_ok_cong [of ?g g h] by simp
  from block(5,4) show ?case
  proof (cases rule: process_block_cases)
    case (saved g1)
    note r1 = reach_run [OF saved(1) r]
    have et: "event_touched (token_name g1) h' ?g g1" by (rule run_touched [OF saved(1) r reach_names_self [OF r1] block(3)])
    then have t: "touched (token_name g1) h' (?g\<lparr>g_Durty := True\<rparr>) g1"
      using saved(2) by (auto simp: event_touched_def books_def)
    have ok': "db_ok h (?g\<lparr>g_Durty := True\<rparr>) (t_user_balance t)" using ok db_ok_cong [of "?g\<lparr>g_Durty := True\<rparr>" ?g h] by simp
    obtain new where new: "SaveDataToDBTickerBalanceMap h' (sv_balances rg) (g_UserTokensBalanceData g1) = Some new"
      "t_user_balance t' = t_user_balance t @ new" using SaveDataToDB_balances [OF saved(3)] by auto
    have "db_ok h' g1 (t_user_balance t @ new)"
      by (rule db_ok_block [OF ok' block(2) t r1 _ new(1)])
        (use run_keeps [OF saved(1) r] block(6) saved(4) in \<open>auto simp: covers_def\<close>)
    with saved(4) new(2) db_ok_cong [of g' g1 h'] show ?thesis by simp
  next
    case (clean g1)
    note r1 = reach_run [OF clean(1) r]
    have "event_touched (token_name g1) h' ?g g1" by (rule run_touched [OF clean(1) r reach_names_self [OF r1] block(3)])
    then have b: "books g1 = books ?g" using clean(2) by (auto simp: event_touched_def touched_def)
    then have "balance_of g1 = balance_of g" by (simp add: books_def balance_of_def fun_eq_iff)
    then have "\<not> (balance_of g1 u lt = Some b \<and> tb_UpdateHeight b = h')" for u lt b
      using block.IH block(2) unfolding db_ok_def marks_below_def by (metis fst_conv leD)
    then have "db_ok h' g1 (t_user_balance t @ [])"
      using db_ok_block [OF ok block(2) touched_same [OF b] r1, of "[]" "[]"] run_keeps [OF clean(1) r]
      by (auto simp: SaveDataToDBTickerBalanceMap_def)
    with clean(3,4) db_ok_cong [of g' g1 h'] show ?thesis by simp
  qed
qed

section \<open>Loading the balances\<close>

definition read_balance :: "(string \<Rightarrow> string) \<Rightarrow> user_balance_row \<Rightarrow> user_balance_row" where
  "read_balance num r = r\<lparr>ubr_available_balance := num (ubr_available_balance r), ubr_transferable_balance := num (ubr_transferable_balance r)\<rparr>"

lemma read_balance_key [simp]: "ubr_pkscript (read_balance num r) = ubr_pkscript r" "ubr_tick (read_balance num r) = ubr_tick r"
  by (simp_all add: read_balance_def)

lemma at2_put2: "at2 (put2 a b v m) k = (if k = (a, b) then Some v else at2 m k)"
  by (cases k) (auto simp: at2_def put2_def split: option.splits)

lemma scan_rows_put:
  assumes "\<And>r m. r \<in> set rows \<Longrightarrow> f r m = Some (Inr (put2 (fst (key r)) (snd (key r)) (v r) m))"
  shows "\<exists>m'. scan_rows f rows m = Some (Inr m') \<and>
    (\<forall>k. (\<exists>r \<in> set rows. key r = k \<and> at2 m' k = Some (v r)) \<or> (\<forall>r \<in> set rows. key r \<noteq> k) \<and> at2 m' k = at2 m k)"
  using assms
proof (induction rows arbitrary: m)
  case (Cons r rows)
  let ?m = "put2 (fst (key r)) (snd (key r)) (v r) m"
  obtain m' where m': "scan_rows f rows ?m = Some (Inr m')"
    and at: "\<And>k. (\<exists>r \<in> set rows. key r = k \<and> at2 m' k = Some (v r)) \<or> (\<forall>r \<in> set rows. key r \<noteq> k) \<and> at2 m' k = at2 ?m k"
    using Cons.IH [of ?m] Cons.prems by (metis list.set_intros(2))
  have "(\<exists>x \<in> set (r # rows). key x = k \<and> at2 m' k = Some (v x)) \<or> (\<forall>x \<in> set (r # rows). key x \<noteq> k) \<and> at2 m' k = at2 m k" for k
    using at [of k] by (cases "key r = k") (auto simp: at2_put2)
  moreover have "scan_rows f (r # rows) m = Some (Inr m')" using Cons.prems m' by (simp add: and_then_def)
  ultimately show ?case by blast
qed simp

lemma latest_exists:
  assumes "x \<in> set rows"
  shows "\<exists>r \<in> set (latest key height rows). key r = key x"
proof -
  let ?H = "height ` {r \<in> set rows. key r = key x}"
  have H: "finite ?H" "?H \<noteq> {}" using assms by auto
  from Max_in [OF H] obtain r where r: "r \<in> set rows" "key r = key x" "height r = Max ?H" by auto
  have "height y \<le> height r" if "y \<in> set rows" "key y = key r" for y
    unfolding r(3) by (rule Max_ge [OF H(1)]) (use that r(2) in auto)
  with r show ?thesis by (intro bexI [of _ r]) (auto simp: latest_def list_all_iff)
qed

lemma latest_row:
  assumes s: "service_reach e xr h (g, t)" and r: "r \<in> set (query_user_balance t)"
  obtains u lt b where "row_for g u lt r" "balance_of g u lt = Some b" "shows_amounts (decimals_of g lt) r (both_amounts (Some b))"
proof -
  let ?rows = "t_user_balance t"
  have ok: "rows_sound g ?rows" "rows_complete g ?rows" using service_db_ok [OF s] by (simp_all add: db_ok_def)
  from r have rows: "r \<in> set ?rows" and top: "\<And>x. x \<in> set ?rows \<Longrightarrow> ubr_tick x = ubr_tick r \<Longrightarrow> ubr_pkscript x = ubr_pkscript r \<Longrightarrow>
      ubr_block_height x \<le> ubr_block_height r"
    by (auto simp: query_user_balance_def latest_def list_all_iff)
  from ok(1) rows obtain u lt b where b: "row_for g u lt r" "balance_of g u lt = Some b" "ubr_block_height r \<le> tb_UpdateHeight b"
    "ubr_block_height r = tb_UpdateHeight b \<longrightarrow> shows_amounts (decimals_of g lt) r (both_amounts (Some b))" unfolding rows_sound_def by blast
  from ok(2) b(1,2) rows obtain x where x: "x \<in> set ?rows" "row_for g u lt x" "ubr_block_height x = tb_UpdateHeight b"
    unfolding rows_complete_def by blast
  from x(2) b(1) have "ubr_block_height x \<le> ubr_block_height r" by (intro top x(1)) (auto simp: row_for_def)
  with x(3) b show thesis by (intro that) auto
qed

text \<open>A loaded row has the amounts of the balance.\<close>

lemma loaded_row:
  assumes s: "service_reach e xr h (g, t)" and num: "pads_zeros num" and b: "balance_of g u lt = Some b" and f: "row_for g u lt r"
    and sh: "shows_amounts (decimals_of g lt) r (both_amounts (Some b))"
  shows "\<exists>b'. loaded_balance (decimals_of g lt) (read_balance num r) = Some b' \<and> both_amounts (Some b') = both_amounts (Some b)"
proof -
  have g: "reach e xr g" using service_reach_reach [OF s] by simp
  from f obtain tk where tk: "g_InscriptionsTickerInfoMap g lt = Some tk" by (auto simp: row_for_def token_name_def tview_def)
  have p: "decimals_of g lt = token_precision tk" using tk by (simp add: decimals_of_def tview_def token_core_def token_precision_def)
  let ?a = "decval (tb_AvailableBalance b)" and ?t = "decval (tb_TransferableBalance b)" and ?p = "token_precision tk"
  have nn: "0 \<le> ?a" "0 \<le> ?t" using reach_token(4) [OF g tk b] by blast+
  have "?a + ?t \<le> MaxUint64 * 10 ^ ?p" using reach_bounds(2) [OF g tk, of u] b by (simp add: holding_def overall_def)
  with nn have le: "?a \<le> MaxUint64 * 10 ^ ?p" "?t \<le> MaxUint64 * 10 ^ ?p" by linarith+
  have "MustNewDecimalFromString (num (ubr_available_balance r)) ?p = Some \<lparr>Precition = ?p, Val = ?a\<rparr>"
    "MustNewDecimalFromString (num (ubr_transferable_balance r)) ?p = Some \<lparr>Precition = ?p, Val = ?t\<rparr>"
    using sh nn le by (auto intro!: column_parse [OF num reach_bounds(1) [OF g tk]] simp: shows_amounts_def both_amounts_def p)
  then show ?thesis by (auto simp: loaded_balance_def read_balance_def p both_amounts_def decval_def)
qed

text \<open>A balance without a row is zero.\<close>

lemma no_row_zero:
  assumes s: "service_reach e xr h (g, t)" and no: "\<forall>r \<in> set (query_user_balance t). (ubr_pkscript r, ToLower e (ubr_tick r)) \<noteq> (u, lt)"
  shows "both_amounts (balance_of g u lt) = (0, 0)"
proof (cases "balance_of g u lt")
  case (Some b)
  have "rows_complete g (t_user_balance t)" using service_db_ok [OF s] by (simp add: db_ok_def)
  moreover have "\<not> row_for g u lt x" if x: "x \<in> set (t_user_balance t)" for x
  proof
    assume f: "row_for g u lt x"
    have wf: "ledger_wf e g" using reach_ledger service_reach_reach [OF s] by fastforce
    from latest_exists [OF x, of "\<lambda>r. (ubr_tick r, ubr_pkscript r)" ubr_block_height] no f show False
      using ledger_wfD(2) [OF wf, of lt] by (fastforce simp: query_user_balance_def row_for_def token_name_def)
  qed
  ultimately show ?thesis using Some unfolding rows_complete_def by metis
qed (simp add: both_amounts_def)

definition same_decimals :: "BRC20ModuleIndexer \<Rightarrow> (string \<rightharpoonup> BRC20TokenInfo) \<Rightarrow> bool" where
  "same_decimals g tokens \<longleftrightarrow> (\<forall>lt tk. g_InscriptionsTickerInfoMap g lt = Some tk \<longrightarrow>
     (\<exists>tk'. tokens lt = Some tk' \<and> ti_Decimal (tk_Deploy tk') = ti_Decimal (tk_Deploy tk)))"

lemma loadable_row:
  assumes s: "service_reach e xr h (g, t)" and num: "pads_zeros num" and tokens: "same_decimals g tokens"
    and r: "r \<in> read_balance num ` set (query_user_balance t)"
  defines "lt \<equiv> ToLower e (ubr_tick r)"
  shows "\<exists>b b'. token_decimals e tokens (ubr_tick r) = Inr (decimals_of g lt) \<and> loaded_balance (decimals_of g lt) r = Some b' \<and>
    balance_of g (ubr_pkscript r) lt = Some b \<and> both_amounts (Some b') = both_amounts (Some b)"
proof -
  have wf: "ledger_wf e g" using reach_ledger service_reach_reach [OF s] by fastforce
  from r obtain x where x: "x \<in> set (query_user_balance t)" "r = read_balance num x" by blast
  from latest_row [OF s x(1)] obtain u l b where b: "row_for g u l x" "balance_of g u l = Some b"
    "shows_amounts (decimals_of g l) x (both_amounts (Some b))" by blast
  from b(1) have lt: "ToLower e (ubr_tick r) = l" "ubr_pkscript r = u"
    using ledger_wfD(2) [OF wf, of l] x(2) by (fastforce simp: row_for_def token_name_def)+
  from b(1) obtain tk where tk: "g_InscriptionsTickerInfoMap g l = Some tk" by (auto simp: row_for_def token_name_def tview_def)
  with tokens obtain tk' where "tokens l = Some tk'" "ti_Decimal (tk_Deploy tk') = ti_Decimal (tk_Deploy tk)"
    unfolding same_decimals_def by blast
  with tk have "token_decimals e tokens (ubr_tick r) = Inr (decimals_of g l)"
    by (simp add: token_decimals_def lt decimals_of_def tview_def token_core_def)
  with loaded_row [OF s num b(2,1,3)] b(2) x(2) lt show ?thesis by (auto simp: lt_def)
qed

lemma load_balances:
  assumes s: "service_reach e xr h (g, t)" and num: "pads_zeros num" and tokens: "same_decimals g tokens"
    and rows: "set rows = read_balance num ` set (query_user_balance t)"
  shows "\<exists>m. LoadFromDbUserTokensBalanceData e tokens rows = Some (Inr m) \<and>
    (\<forall>u lt. both_amounts (at2 m (u, lt)) = both_amounts (balance_of g u lt))"
proof -
  note row = loadable_row [OF s num tokens, folded rows]
  define v where "v r = the (loaded_balance (decimals_of g (ToLower e (ubr_tick r))) r)" for r
  have step: "(case token_decimals e tokens (ubr_tick r) of Inl err \<Rightarrow> Some (Inl err) | Inr decimals \<Rightarrow> do {
      balance \<leftarrow> loaded_balance decimals r; Some (Inr (put2 (ubr_pkscript r) (ToLower e (ubr_tick r)) balance m)) }) =
      Some (Inr (put2 (ubr_pkscript r) (ToLower e (ubr_tick r)) (v r) m))" if "r \<in> set rows" for r m
    using row [OF that] by (auto simp: v_def)
  obtain m where m: "LoadFromDbUserTokensBalanceData e tokens rows = Some (Inr m)" and
    at: "\<And>k. (\<exists>r \<in> set rows. (ubr_pkscript r, ToLower e (ubr_tick r)) = k \<and> at2 m k = Some (v r)) \<or>
      (\<forall>r \<in> set rows. (ubr_pkscript r, ToLower e (ubr_tick r)) \<noteq> k) \<and> at2 m k = at2 Map.empty k"
    using scan_rows_put [where rows = rows and m = Map.empty and v = v and key = "\<lambda>r. (ubr_pkscript r, ToLower e (ubr_tick r))", unfolded fst_conv snd_conv, OF step]
    unfolding LoadFromDbUserTokensBalanceData_def by blast
  have "both_amounts (at2 m (u, lt)) = both_amounts (balance_of g u lt)" for u lt
    using at [of "(u, lt)"]
  proof (elim disjE bexE conjE)
    fix r assume "r \<in> set rows" "(ubr_pkscript r, ToLower e (ubr_tick r)) = (u, lt)" "at2 m (u, lt) = Some (v r)"
    with row [of r] show ?thesis by (auto simp: v_def)
  next
    assume no: "\<forall>r \<in> set rows. (ubr_pkscript r, ToLower e (ubr_tick r)) \<noteq> (u, lt)" and "at2 m (u, lt) = at2 Map.empty (u, lt)"
    then have "both_amounts (at2 m (u, lt)) = (0, 0)" by (simp add: at2_def both_amounts_def)
    moreover have "both_amounts (balance_of g u lt) = (0, 0)" using no_row_zero [OF s] no rows by simp
    ultimately show ?thesis by simp
  qed
  with m show ?thesis by blast
qed

end
