(* ===== verification/Restart.thy ===== *)
theory Restart
  imports Database_Props Swap_Scenario
begin

text \<open>
  The service over several blocks, and a restart from its tables: the balances come back, and what
  does not. The last section has a run of the service that is evaluated in the kernel.
\<close>

section \<open>A small run\<close>

definition demo_save_ranges :: save_ranges where
  "demo_save_ranges = \<lparr>sv_tickers = [''ordi''], sv_balances = [(''alice'', ''ordi''), (''bob'', ''ordi'')], sv_transfer_states = [''k3''],
     sv_transfers = [''k3''], sv_modules = [], sv_commit_ids = (\<lambda>_. []), sv_module_users = (\<lambda>_. []), sv_pools = (\<lambda>_. []), sv_lp_users = (\<lambda>_. []),
     sv_approve_states = [], sv_approves = [], sv_cond_approve_states = [], sv_cond_approves = [], sv_commit_states = [], sv_commits = [],
     sv_withdraw_states = [], sv_withdraws = [], sv_valid_withdraws = []\<rparr>"

definition demo_blocks :: "(u32 \<times> InscriptionBRC20Data list) list" where
  "demo_blocks = [(1, demo_events), (2, [(demo_event False mint_text ''k4'' ''bob'')\<lparr>d_Height := 2\<rparr>])]"

definition demo_start :: service_state where
  "demo_start = ((Init zero_indexer)\<lparr>g_EnableHistory := False\<rparr>, no_tables)"

section \<open>The loop over the blocks\<close>

text \<open>The blocks one after another, each at its own height.\<close>

fun process_blocks ::
    "ext \<Rightarrow> SwapFunctionResultCheckState option list option \<Rightarrow> (u32 \<Rightarrow> save_ranges) \<Rightarrow> (u32 \<times> InscriptionBRC20Data list) list \<Rightarrow> service_state \<Rightarrow>
     service_state option" where
  "process_blocks e xr rg [] s = Some s"
| "process_blocks e xr rg ((h, ds) # bs) s = do { s \<leftarrow> process_block e xr (rg h) h ds s; process_blocks e xr rg bs s }"

text \<open>Every block has an event and all its events have its height; the next block has another height, and none has height 0.\<close>

fun well_blocked :: "(u32 \<times> InscriptionBRC20Data list) list \<Rightarrow> bool" where
  "well_blocked [] \<longleftrightarrow> True"
| "well_blocked ((h, ds) # bs) \<longleftrightarrow> ds \<noteq> [] \<and> h \<noteq> 0 \<and> list_all (\<lambda>d. d_Height d = h) ds \<and>
     (bs \<noteq> [] \<longrightarrow> fst (hd bs) \<noteq> h) \<and> well_blocked bs"

lemma blocks_loop_same:
  "list_all (\<lambda>d. d_Height d = h) ds \<Longrightarrow> pre = [] \<or> h0 = h \<Longrightarrow> ds \<noteq> [] \<Longrightarrow>
   blocks_loop e xr rg (ds @ rest) h0 pre s = blocks_loop e xr rg rest h (pre @ ds) s"
proof (induction ds arbitrary: pre h0)
  case (Cons d ds)
  then show ?case by (cases "ds = []") auto
qed simp

lemma blocks_loop_flush:
  "pre \<noteq> [] \<Longrightarrow> h \<noteq> d_Height d \<Longrightarrow> blocks_loop e xr rg (d # rest) h pre s =
   do { s \<leftarrow> process_block e xr (rg h) h pre s; blocks_loop e xr rg (d # rest) (d_Height d) [] s }"
  by simp

lemma blocks_loop_blocks:
  assumes "well_blocked bs"
  shows "blocks_loop e xr rg (concat (map snd bs) @ [zero_data]) h0 [] s = process_blocks e xr rg bs s"
  using assms
proof (induction bs arbitrary: h0 s)
  case (Cons b bs)
  obtain h ds where b: "b = (h, ds)" by (cases b)
  let ?rest = "concat (map snd bs) @ [zero_data]"
  from Cons.prems b have w: "ds \<noteq> []" "list_all (\<lambda>d. d_Height d = h) ds" "h \<noteq> 0" "bs \<noteq> [] \<longrightarrow> fst (hd bs) \<noteq> h" "well_blocked bs"
    by auto
  obtain d tl where r: "?rest = d # tl" "h \<noteq> d_Height d"
  proof (cases bs)
    case Nil
    with w(3) that [of zero_data "[]"] show thesis by (simp add: zero_data_def)
  next
    case (Cons c cs)
    obtain h' ds' where c: "c = (h', ds')" by (cases c)
    with Cons w(4,5) that show thesis by (cases ds') auto
  qed
  have "blocks_loop e xr rg (ds @ ?rest) h0 [] s = blocks_loop e xr rg ?rest h ds s"
    using blocks_loop_same [OF w(2) _ w(1), of "[]" h0] by simp
  also have "\<dots> = do { s \<leftarrow> process_block e xr (rg h) h ds s; blocks_loop e xr rg ?rest (d_Height d) [] s }"
    unfolding r(1) by (rule blocks_loop_flush [OF w(1) r(2)])
  also have "\<dots> = process_blocks e xr rg (b # bs) s" using Cons.IH [OF w(5)] by (simp add: b)
  finally show ?case by (simp add: b)
qed (simp add: zero_data_def)

text \<open>
  C12. The service processes the events it reads block by block, the last block included: the events of
  consecutive blocks give the state and the tables of processing one block after the other, and the zero
  balances are then removed from the holders.
\<close>

theorem service_processes_every_block:
  assumes "well_blocked bs"
  shows "ProcessUpdateLatestBRC20SwapInit e xr rg startHeight (concat (map snd bs)) s =
    map_option (\<lambda>(g, t). (clean_holders g, t)) (process_blocks e xr rg bs s)"
  using blocks_loop_blocks [OF assms, of e xr rg startHeight s]
  by (cases "process_blocks e xr rg bs s") (auto simp: ProcessUpdateLatestBRC20SwapInit_def)

theorem service_processes_every_block_witness:
  "well_blocked demo_blocks \<and>
   map_option (\<lambda>(g, t). (demo_summary g, map ubr_available_balance (t_user_balance t)))
     (ProcessUpdateLatestBRC20SwapInit run_env None (\<lambda>_. demo_save_ranges) 0 (concat (map snd demo_blocks)) demo_start) =
     Some ((Some 10, Some (3, 0), Some (7, 0)), [''3'', ''2'', ''7''])"
proof
  show w: "well_blocked demo_blocks" by (simp add: demo_blocks_def demo_events_def demo_event_def)
  have "map_option (\<lambda>(g, t). (demo_summary (clean_holders g), map ubr_available_balance (t_user_balance t)))
      (process_blocks run_env None (\<lambda>_. demo_save_ranges) demo_blocks demo_start) =
      Some ((Some 10, Some (3, 0), Some (7, 0)), [''3'', ''2'', ''7''])" by code_simp
  then show "map_option (\<lambda>(g, t). (demo_summary g, map ubr_available_balance (t_user_balance t)))
      (ProcessUpdateLatestBRC20SwapInit run_env None (\<lambda>_. demo_save_ranges) 0 (concat (map snd demo_blocks)) demo_start) =
      Some ((Some 10, Some (3, 0), Some (7, 0)), [''3'', ''2'', ''7''])"
    by (auto simp: service_processes_every_block [OF w] map_option_case split: option.splits prod.splits)
qed

section \<open>A restart\<close>

lemma save_rows_none: "(\<And>k v. k \<in> set keys \<Longrightarrow> m k = Some v \<Longrightarrow> \<not> due v) \<Longrightarrow> save_rows due row m keys = Some []"
  by (induction keys) (auto split: option.splits)

text \<open>
  C24. A block that changes the state but no balance (a deployed token, a module, a commit) is saved without
  a row among the user balances. When no later block was saved before and the configured start is not after the
  block, a restart begins at the block or before it: it processes the block again, on a state that already contains it.
\<close>

theorem restart_repeats_block:
  assumes "SaveDataToDB rg h g t = Some t'"
    and "\<And>u lt b. (u, lt) \<in> set (sv_balances rg) \<Longrightarrow> balance_of g u lt = Some b \<Longrightarrow> tb_UpdateHeight b \<noteq> h"
    and "GetBrc20LatestHeightFromDB t < h" and "startHeight \<le> uint h"
  shows "start_height (uint (GetBrc20LatestHeightFromDB t')) startHeight \<le> uint h"
proof -
  have "SaveDataToDBTickerBalanceMap h (sv_balances rg) (g_UserTokensBalanceData g) = Some []"
    unfolding SaveDataToDBTickerBalanceMap_def by (rule save_rows_none) (use assms(2) at2_balance in force)
  with SaveDataToDB_balances [OF assms(1)] have "t_user_balance t' = t_user_balance t" by force
  with assms(3,4) show ?thesis by (simp add: GetBrc20LatestHeightFromDB_def start_height_def word_less_def)
qed

definition module_ranges :: save_ranges where
  "module_ranges = demo_save_ranges\<lparr>sv_balances := [(''alice'', ''sats'')], sv_modules := [swap_module]\<rparr>"

definition demo_module :: BRC20ModuleIndexer where
  "demo_module = (case run_fresh swap_env None [swap_event False CHR ''2'' ''k2'' CHR 0x02 ''alice'',
      (swap_event False CHR ''5'' ''k5'' CHR 0x05 ''alice'')\<lparr>d_Height := 2\<rparr>] swap_start of None \<Rightarrow> zero_indexer | Some g \<Rightarrow> g)"

theorem restart_repeats_block_witness:
  "\<exists>t'. SaveDataToDB module_ranges 2 demo_module no_tables = Some t' \<and> map sir_name (t_swap_info t') = [''swap''] \<and>
    start_height (uint (GetBrc20LatestHeightFromDB t')) 2 \<le> uint (2 :: u32)"
proof -
  have "map_option (\<lambda>t. map sir_name (t_swap_info t)) (SaveDataToDB module_ranges 2 demo_module no_tables) = Some [''swap'']"
    by code_simp
  then obtain t' where t: "SaveDataToDB module_ranges 2 demo_module no_tables = Some t'" "map sir_name (t_swap_info t') = [''swap'']" by auto
  have "map_option tb_UpdateHeight (balance_of demo_module ''alice'' ''sats'') = Some 1" by code_simp
  then have b: "(u, lt) \<in> set (sv_balances module_ranges) \<Longrightarrow> balance_of demo_module u lt = Some b \<Longrightarrow> tb_UpdateHeight b \<noteq> 2" for u lt b
    by (auto simp: module_ranges_def)
  have "GetBrc20LatestHeightFromDB no_tables < 2" by (simp add: GetBrc20LatestHeightFromDB_def no_tables_def)
  from restart_repeats_block [where startHeight = 2, OF t(1) b this] t show ?thesis by simp
qed

section \<open>What a reloaded state refuses\<close>

text \<open>What holds of a map built by a scan: of every entry that a row writes.\<close>

lemma and_then_Inr: "and_then r f = Some (Inr x) \<longleftrightarrow> (\<exists>a. r = Some (Inr a) \<and> f a = Some (Inr x))"
  by (auto simp: and_then_def split: option.splits sum.splits) (cases r; auto split: sum.splits)+

lemma scan_rows_inv:
  assumes "scan_rows f rows s = Some (Inr s')" and "P s" and "\<And>r s s'. r \<in> set rows \<Longrightarrow> P s \<Longrightarrow> f r s = Some (Inr s') \<Longrightarrow> P s'"
  shows "P s'"
  using assms by (induction rows arbitrary: s) (auto simp: and_then_Inr)

lemma nat_string_zero: "nat_string 0 = ''0''" by code_simp

lemma loaded_token_no_id: "loaded_token r = Some (Inr tk) \<Longrightarrow> TickInfo_GetInscriptionId (tk_Deploy tk) = replicate 64 CHR ''0'' @ ''i0''"
  by (auto simp: loaded_token_def loaded_tick_info_def TickInfo_GetInscriptionId_def inscription_id_def HashString_def
    NewInscriptionBRC20TickInfo_def zero_data_def nat_string_zero elim!: bind_SomeE split: option.splits)

lemma loaded_tokens_no_id:
  assumes "LoadFromDbTickerInfoMap e rows = Some (Inr tokens)" and "tokens lt = Some tk"
  shows "TickInfo_GetInscriptionId (tk_Deploy tk) = replicate 64 CHR ''0'' @ ''i0''"
proof -
  have "\<forall>lt tk. tokens lt = Some tk \<longrightarrow> TickInfo_GetInscriptionId (tk_Deploy tk) = replicate 64 CHR ''0'' @ ''i0''"
    by (rule scan_rows_inv [OF assms(1) [unfolded LoadFromDbTickerInfoMap_def]])
      (auto simp: and_then_Inr loaded_token_no_id split: if_splits)
  with assms(2) show ?thesis by blast
qed

text \<open>
  C22. The database has no column for the inscription of a deployed token. After a restart every mint of a
  token with \<open>self_mint\<close> is refused, whatever token inscription it names as parent: only a parent that
  decodes to the id of the null transaction passes the check.
\<close>

theorem reloaded_self_mint_refused:
  assumes "LoadDataFromDB e q rg g0 = Some (Inr g)" and "g_InscriptionsTickerInfoMap g lt = Some tk" and "ti_SelfMint (tk_Deploy tk)"
    and "MintTransferContent_Unmarshal e (d_ContentBody data) = Some body" and "GetValidUniqueLowerTickerTicker e (mt_BRC20Tick body) = Some lt"
    and "DecodeInscriptionFromBin (d_Parent data) \<noteq> replicate 64 CHR ''0'' @ ''i0''"
  shows "ProcessMint e g data = ret_err ''self mint, but parent invalid'' g"
proof -
  from assms(1) obtain tokens where "LoadFromDbTickerInfoMap e (q_ticker_info q) = Some (Inr tokens)" "g_InscriptionsTickerInfoMap g = tokens"
    by (auto simp: LoadDataFromDB_def and_then_Inr)
  with loaded_tokens_no_id assms(2) have "TickInfo_GetInscriptionId (tk_Deploy tk) = replicate 64 CHR ''0'' @ ''i0''" by blast
  with assms(2-6) show ?thesis by (simp add: ProcessMint_def)
qed

definition saved_token :: ticker_info_row where
  "saved_token = \<lparr>tir_block_height = 1, tir_tick = ''ORDIS'', tir_max_supply = ''21.000000000000000000'', tir_decimals = ''2'',
     tir_limit_per_mint = ''10.000000000000000000'', tir_minted = ''0.000000000000000000'', tir_pkscript_deployer = ''alice'', tir_self_mint = True\<rparr>"

definition saved_module :: swap_info_row where
  "saved_module = \<lparr>sir_block_height = 1, sir_module_id = swap_module, sir_name = ''swap'', sir_pkscript_deployer = ''alice'',
     sir_pkscript_sequencer = ''alice'', sir_pkscript_gas_to = ''gas'', sir_pkscript_lp_fee = ''fee'', sir_gas_tick = ''sats'',
     sir_fee_rate_swap = ''0.003''\<rparr>"

definition saved_balance :: module_balance_row where
  "saved_balance = (let z = ''0.000000000000000000'' in
     \<lparr>mbr_block_height = 1, mbr_module_id = swap_module, mbr_tick = ''ORDIS'', mbr_pkscript = ''alice'', mbr_swap_balance = ''3.000000000000000000'',
      mbr_available_balance = z, mbr_approveable_balance = z, mbr_cond_approveable_balance = z, mbr_ready_to_withdraw_amount = z\<rparr>)"

definition saved_rows :: db_rows where
  "saved_rows = \<lparr>q_ticker_info = [saved_token], q_user_balance = [], q_valid_transfer = [], q_swap_info = [saved_module], q_valid_approve = [],
     q_valid_cond_approve = [], q_valid_commit = [], q_valid_withdraw = [], q_swap_history = (\<lambda>_. []), q_commit_chain = (\<lambda>_. []),
     q_module_balance = (\<lambda>_. [saved_balance]), q_pool_balance = (\<lambda>_. []), q_user_lp = (\<lambda>_. [])\<rparr>"

definition saved_ranges :: load_ranges where
  "saved_ranges = \<lparr>ld_balances = [], ld_transfers = [], ld_module_users = (\<lambda>_. [(''alice'', ''ordis'')]), ld_lp_users = (\<lambda>_. [])\<rparr>"

definition self_mint_env :: ext where
  "self_mint_env = (demo_env JNull)\<lparr>ext_json_parse := (\<lambda>_. Some (token_json ''mint'' ''ordis'' [(''amt'', JStr ''1'')])),
     conf_ENABLE_SELF_MINT_HEIGHT := 0\<rparr>"

definition reloaded :: BRC20ModuleIndexer where
  "reloaded = (case LoadDataFromDB self_mint_env saved_rows saved_ranges (Init zero_indexer) of Some (Inr g) \<Rightarrow> g | _ \<Rightarrow> zero_indexer)"

lemma reloaded_ok:
  "LoadDataFromDB self_mint_env saved_rows saved_ranges (Init zero_indexer) = Some (Inr reloaded)"
proof -
  have "map_option (\<lambda>r. case r of Inl _ \<Rightarrow> False | Inr _ \<Rightarrow> True) (LoadDataFromDB self_mint_env saved_rows saved_ranges (Init zero_indexer)) = Some True"
    by code_simp
  then obtain r where r: "LoadDataFromDB self_mint_env saved_rows saved_ranges (Init zero_indexer) = Some r"
    "case r of Inl _ \<Rightarrow> False | Inr _ \<Rightarrow> True" by auto
  then show ?thesis by (cases r) (simp_all add: reloaded_def)
qed

theorem reloaded_self_mint_refused_witness:
  "ProcessMint self_mint_env reloaded ((demo_event False mint_text ''k2'' ''alice'')\<lparr>d_Parent := replicate 32 CHR 0x01\<rparr>) =
   ret_err ''self mint, but parent invalid'' reloaded"
proof -
  have "map_option (\<lambda>tk. ti_SelfMint (tk_Deploy tk)) (g_InscriptionsTickerInfoMap reloaded ''ordis'') = Some True" by code_simp
  then obtain tk where tk: "g_InscriptionsTickerInfoMap reloaded ''ordis'' = Some tk" "ti_SelfMint (tk_Deploy tk)" by auto
  let ?d = "(demo_event False mint_text ''k2'' ''alice'')\<lparr>d_Parent := replicate 32 CHR 0x01\<rparr>"
  have "map_option (\<lambda>b. GetValidUniqueLowerTickerTicker self_mint_env (mt_BRC20Tick b)) (MintTransferContent_Unmarshal self_mint_env (d_ContentBody ?d)) =
    Some (Some ''ordis'')" by code_simp
  then obtain body where body: "MintTransferContent_Unmarshal self_mint_env (d_ContentBody ?d) = Some body"
    "GetValidUniqueLowerTickerTicker self_mint_env (mt_BRC20Tick body) = Some ''ordis''" by auto
  have "DecodeInscriptionFromBin (d_Parent ?d) \<noteq> replicate 64 CHR ''0'' @ ''i0''" by code_simp
  from reloaded_self_mint_refused [OF reloaded_ok tk body this] show ?thesis .
qed

lemma scan_amount_precision: "scan_amount s = Some (Inr d) \<Longrightarrow> \<exists>x. d = Some x \<and> Precition x = 18"
  by (auto simp: scan_amount_def Decimal_Scan_def MAX_PRECISION_def dest!: parse_precision elim!: bind_SomeE split: sum.splits)

lemma loaded_module_balance_precision:
  "loaded_module_balance r = Some (Inr b) \<Longrightarrow> \<exists>x. mb_SwapAccountBalance b = Some x \<and> Precition x = 18"
  by (auto simp: loaded_module_balance_def and_then_Inr dest: scan_amount_precision)

lemma loaded_module_users:
  assumes "LoadFromDBModuleUserBalanceMap e rows = Some (Inr m)" and "at2 m k = Some b"
  shows "\<exists>x. mb_SwapAccountBalance b = Some x \<and> Precition x = 18"
proof -
  have "\<forall>k b. at2 m k = Some b \<longrightarrow> (\<exists>x. mb_SwapAccountBalance b = Some x \<and> Precition x = 18)"
    by (rule scan_rows_inv [OF assms(1) [unfolded LoadFromDBModuleUserBalanceMap_def]])
      (auto simp: and_then_Inr at2_put2 loaded_module_balance_precision at2_def [of Map.empty] split: if_splits)
  with assms(2) show ?thesis by blast
qed

lemma load_modules_member:
  "load_modules f ms = Some (Inr ms') \<Longrightarrow> map_of ms' mid = Some m \<Longrightarrow> \<exists>m0. f mid m0 = Some (Inr m)"
proof (induction ms arbitrary: ms')
  case (Cons a ms)
  then show ?case by (cases a) (auto simp: and_then_Inr split: if_splits)
qed simp

lemma loaded_module_precision:
  assumes "LoadDataFromDB e q rg g0 = Some (Inr g)" and "module_of g mid = Some m" and "user_balance m u lt = Some b"
  shows "\<exists>x. mb_SwapAccountBalance b = Some x \<and> Precition x = 18"
proof -
  from assms(1) obtain modules where ms: "load_modules (loadFromDBSwapModuleInfo e q rg) (LoadFromDBModuleInfoMap (q_swap_info q) []) = Some (Inr modules)"
    "g_ModulesInfoMap g = modules" by (auto simp: LoadDataFromDB_def and_then_Inr)
  with assms(2) load_modules_member obtain m0 where "loadFromDBSwapModuleInfo e q rg mid m0 = Some (Inr m)" unfolding module_of_def by blast
  then have "LoadFromDBModuleUserBalanceMap e (q_module_balance q mid) = Some (Inr (m_UsersTokenBalanceDataMap m))"
    by (auto simp: loadFromDBSwapModuleInfo_def Let_def and_then_Inr)
  from loaded_module_users [OF this, of "(u, lt)"] assms(3) show ?thesis by (auto simp: at2_def user_balance_def split: option.splits)
qed

text \<open>
  C23. The balances of a module are read back with 18 decimals, not with the decimals of their token. After a
  restart a deposit into the module by a user who has a balance there panics, for every token that has
  not 18 decimals.
\<close>

theorem reloaded_module_deposit_panics:
  assumes "LoadDataFromDB e q rg g0 = Some (Inr g)" and "module_of g mid = Some m"
    and "user_balance m sender (ToLower e (ti_Tick transferInfo)) = Some b" and "ti_Amount transferInfo = Some amt" and "Precition amt \<noteq> 18"
  shows "module_deposit e transferInfo meta data sender m = None"
proof -
  obtain x where x: "mb_SwapAccountBalance b = Some x" "Precition x = 18" using loaded_module_precision [OF assms(1-3)] by blast
  let ?h = "m\<lparr>m_History := m_History m @ [NewBRC20ModuleHistory True HISTORY_TRANSFER meta data NoData True]\<rparr>"
  have u: "user_balance ?h sender (ToLower e (ti_Tick transferInfo)) = Some b" using assms(3) by (simp add: user_balance_def)
  have "Module_GetUserTokenBalance e ?h (ti_Tick transferInfo) sender = ?h" "the_balance e ?h (ti_Tick transferInfo) sender = b"
    using u by (simp_all add: Module_GetUserTokenBalance_def the_balance_def)
  moreover have "Decimal_Add (mb_SwapAccountBalance b) (ti_Amount transferInfo) = None" using x assms(4,5) by (simp add: Decimal_Add_def)
  ultimately show ?thesis by (cases "d_BlockTime data > 0") (simp_all add: module_deposit_def Let_def)
qed

theorem reloaded_module_deposit_panics_witness:
  "\<exists>m. module_of reloaded swap_module = Some m \<and>
    module_deposit self_mint_env ((NewInscriptionBRC20TickInfo ''ordis'' ''transfer'' zero_data)\<lparr>ti_Amount := Some \<lparr>Precition = 2, Val = 100\<rparr>\<rparr>)
      zero_data zero_data ''alice'' m = None"
proof -
  have "map_option (\<lambda>m. map_option mb_Tick (user_balance m ''alice'' (ToLower self_mint_env ''ordis''))) (module_of reloaded swap_module) = Some (Some ''ORDIS'')"
    by code_simp
  then obtain m b where m: "module_of reloaded swap_module = Some m" and b: "user_balance m ''alice'' (ToLower self_mint_env ''ordis'') = Some b" by auto
  let ?t = "(NewInscriptionBRC20TickInfo ''ordis'' ''transfer'' zero_data)\<lparr>ti_Amount := Some \<lparr>Precition = 2, Val = 100\<rparr>\<rparr>"
  have "user_balance m ''alice'' (ToLower self_mint_env (ti_Tick ?t)) = Some b" using b by (simp add: NewInscriptionBRC20TickInfo_def)
  from reloaded_module_deposit_panics [OF reloaded_ok m this, of "\<lparr>Precition = 2, Val = 100\<rparr>"] m show ?thesis by simp
qed

section \<open>The balances after a restart\<close>


text \<open>What a column of type \<open>numeric(40,18)\<close> does to the text of an amount.\<close>

definition numeric18 :: "string \<Rightarrow> string" where
  "numeric18 s = (case go_split CHR ''.'' s of [ip] \<Rightarrow> ip @ CHR ''.'' # replicate 18 CHR ''0''
     | [ip, fp] \<Rightarrow> ip @ CHR ''.'' # fp @ replicate (18 - length fp) CHR ''0'' | _ \<Rightarrow> s)"

lemma numeric18_pads: "pads_zeros numeric18"
  unfolding pads_zeros_def
proof (intro allI impI, elim conjE)
  fix q :: nat and fp assume fp: "list_all is_digit fp" "length fp \<le> 18"
  have "CHR ''.'' \<notin> set (nat_string q)" "CHR ''.'' \<notin> set fp" using fp(1) list_all_digit_no nat_string_digits by auto
  with fp(2) show "numeric18 (decimal_text False (nat_string q) fp) =
      decimal_text False (nat_string q) (fp @ replicate (18 - length fp) CHR ''0'')"
    by (auto simp: numeric18_def decimal_text_def go_split_once go_split_no_sep)
qed

text \<open>The first block of the small run: its balances are those of the ranges.\<close>

definition demo_saved :: service_state where
  "demo_saved = the (process_block run_env None demo_save_ranges 1 demo_events demo_start)"

lemma demo_dom:
  "map_option (\<lambda>s. balance_of (fst s) u lt = None) (process_block run_env None demo_save_ranges 1 demo_events demo_start) =
   Some (\<not> (lt = ''ordi'' \<and> (u = ''alice'' \<or> u = ''bob'')))"
  by code_simp (auto split: if_splits)

lemma demo_amounts:
  "map_option (\<lambda>s. (both_amounts (balance_of (fst s) ''alice'' ''ordi''), both_amounts (balance_of (fst s) ''bob'' ''ordi'')))
     (process_block run_env None demo_save_ranges 1 demo_events demo_start) = Some ((3, 0), (2, 0))"
  by code_simp

lemma demo_block: "process_block run_env None demo_save_ranges 1 demo_events demo_start = Some demo_saved"
  using demo_dom [of "''''" "''''"] by (auto simp: demo_saved_def)

lemma demo_service: "service_reach run_env None 1 demo_saved"
proof -
  obtain g t where s: "demo_saved = (g, t)" by (cases demo_saved)
  have "service_reach run_env None 0 demo_start" unfolding demo_start_def by (rule service_reach.start)
  moreover have "\<forall>d \<in> set demo_events. d_Height d = 1" by (simp add: demo_events_def demo_event_def)
  moreover have "run_fresh run_env None demo_events ((fst demo_start)\<lparr>g_Durty := False\<rparr>) \<noteq> None" by code_simp
  moreover have "covers demo_save_ranges g"
    using demo_dom unfolding demo_block s by (auto simp: covers_def demo_save_ranges_def)
  ultimately show ?thesis using demo_block s service_reach.block [of run_env None 0 "fst demo_start" "snd demo_start" 1 demo_events demo_save_ranges g t] by simp
qed


end
