(* ===== verification/Api_Props.thy ===== *)
theory Api_Props
  imports Api Precision Restart "HOL-Library.Multiset"
begin

text \<open>
  What the queries return: the sorts they use, the pages, and the holders of a token in a reachable state.
\<close>

section \<open>Sorting\<close>

text \<open>A comparison that does not panic on the values it is used with, and is the strict part of an order.\<close>

locale stable_sort =
  fixes ok :: "'a \<Rightarrow> bool"
    and before :: "'a \<Rightarrow> 'a \<Rightarrow> bool option"
    and le :: "'a \<Rightarrow> 'a \<Rightarrow> bool"
  assumes before_le: "ok a \<Longrightarrow> ok b \<Longrightarrow> before a b = Some (\<not> le b a)"
    and le_total: "ok a \<Longrightarrow> ok b \<Longrightarrow> le a b \<or> le b a"
    and le_trans: "ok a \<Longrightarrow> ok b \<Longrightarrow> ok c \<Longrightarrow> le a b \<Longrightarrow> le b c \<Longrightarrow> le a c"
begin

lemma insert_by_sorted:
  "ok x \<Longrightarrow> list_all ok ys \<Longrightarrow> sorted_wrt le ys \<Longrightarrow>
   \<exists>zs. insert_by before x ys = Some zs \<and> mset zs = add_mset x (mset ys) \<and> sorted_wrt le zs"
proof (induction ys)
  case (Cons y ys)
  then have ok: "ok y" "list_all ok ys" and s: "\<forall>z \<in> set ys. le y z" "sorted_wrt le ys" by auto
  note b = before_le [OF ok(1) Cons.prems(1)]
  show ?case
  proof (cases "le x y")
    case True
    have "le x z" if "z \<in> set ys" for z
      using le_trans [OF Cons.prems(1) ok(1) _ True] s(1) ok(2) that by (auto simp: list_all_iff)
    with True b s show ?thesis by (intro exI [of _ "x # y # ys"]) simp
  next
    case False
    obtain zs where z: "insert_by before x ys = Some zs" "mset zs = add_mset x (mset ys)" "sorted_wrt le zs"
      using Cons.IH [OF Cons.prems(1) ok(2) s(2)] by blast
    have "set zs = insert x (set ys)" using z(2) by (metis set_mset_add_mset_insert set_mset_mset)
    with False le_total [OF ok(1) Cons.prems(1)] s(1) b z show ?thesis by (intro exI [of _ "y # zs"]) auto
  qed
qed simp

lemma sort_by_sorted: "list_all ok xs \<Longrightarrow> \<exists>ys. sort_by before xs = Some ys \<and> mset ys = mset xs \<and> sorted_wrt le ys"
proof (induction xs)
  case (Cons x xs)
  then obtain ys where y: "sort_by before xs = Some ys" "mset ys = mset xs" "sorted_wrt le ys" by auto
  have "list_all ok ys" using Cons.prems mset_eq_setD [OF y(2)] by (simp add: list_all_iff)
  with insert_by_sorted [of x ys] Cons.prems y show ?case by auto
qed simp

end

lemma go_less_cotrans: "go_less a c \<Longrightarrow> go_less a b \<or> go_less b c"
proof (induction a c arbitrary: b rule: go_less.induct)
  case (2 d ds)
  then show ?case by (cases b) auto
next
  case (4 x xs y ys)
  then show ?case by (cases b) auto
qed auto

interpretation by_balance: stable_sort
  "\<lambda>b. dec_ok p (tb_AvailableBalance b) \<and> dec_ok p (tb_TransferableBalance b)" balance_greater "\<lambda>a b. overall b \<le> overall a" for p
proof
  fix a b :: BRC20TokenBalance
  assume "dec_ok p (tb_AvailableBalance a) \<and> dec_ok p (tb_TransferableBalance a)" "dec_ok p (tb_AvailableBalance b) \<and> dec_ok p (tb_TransferableBalance b)"
  then obtain oa ob where "OverallBalance a = Some oa" "dec_ok p oa" "OverallBalance b = Some ob" "dec_ok p ob"
    using Decimal_Add_ok unfolding OverallBalance_def by metis
  moreover from this have "decval oa = overall a" "decval ob = overall b"
    by (auto simp: OverallBalance_def overall_def dest: Decimal_Add_val)
  ultimately show "balance_greater a b = Some (\<not> overall a \<le> overall b)"
    using Decimal_Cmp_ok [of p oa ob] by (simp add: balance_greater_def int_cmp_def)
qed auto

interpretation by_creation: stable_sort "\<lambda>_. True" created_after "\<lambda>a b. creation_index b \<le> creation_index a"
  by unfold_locales (auto simp: created_after_def)

interpretation by_deploy: stable_sort "\<lambda>_. True" deployed_before "\<lambda>a b. creation_index (tk_Deploy a) \<le> creation_index (tk_Deploy b)"
  by unfold_locales (auto simp: deployed_before_def)

interpretation by_script: stable_sort "\<lambda>_. True" "\<lambda>a b. Some (go_less (tb_PkScript b) (tb_PkScript a))" "\<lambda>a b. \<not> go_less (tb_PkScript a) (tb_PkScript b)"
  by unfold_locales (auto dest: go_less_asym go_less_cotrans)

section \<open>Pages\<close>

text \<open>The pages of a list, one after the other, are the list.\<close>

lemma pages_complete: "concat (map (\<lambda>i. page (i * limit) limit xs) [0 ..< n]) = take (n * limit) xs"
  by (induction n) (simp_all add: page_def take_add [symmetric] add.commute)

lemma those_all: "(\<And>x. x \<in> set xs \<Longrightarrow> f x \<noteq> None) \<Longrightarrow> \<exists>ys. those (map f xs) = Some ys \<and> list_all2 (\<lambda>x y. f x = Some y) xs ys"
proof (induction xs)
  case (Cons x xs)
  then obtain y ys where "f x = Some y" "those (map f xs) = Some ys" "list_all2 (\<lambda>x y. f x = Some y) xs ys" by force
  then show ?case by (intro exI [of _ "y # ys"]) simp
qed simp

lemma reply_page_rows:
  assumes "\<And>x. x \<in> set xs \<Longrightarrow> row x \<noteq> None"
  shows "\<exists>rows. reply_page row start limit xs = Some (Inr (length xs, rows)) \<and> list_all2 (\<lambda>x y. row x = Some y) (page start limit xs) rows"
proof (cases "length xs \<le> start")
  case True
  then show ?thesis by (simp add: reply_page_def page_def)
next
  case False
  have "x \<in> set (page start limit xs) \<Longrightarrow> row x \<noteq> None" for x
    using assms by (metis in_set_dropD in_set_takeD page_def)
  from those_all [of "page start limit xs" row, OF this] False show ?thesis by (auto simp: reply_page_def)
qed

text \<open>The tokens are listed in the order of their deploys.\<close>

lemma list_in_deploy_order:
  "\<exists>infos rows. mset infos = mset (values_of (g_InscriptionsTickerInfoMap g) keys) \<and>
    sorted_wrt (\<lambda>a b. creation_index (tk_Deploy a) \<le> creation_index (tk_Deploy b)) infos \<and>
    GetBRC20List (Some g) keys start limit = Some (Inr (length infos, rows)) \<and>
    rows = map (\<lambda>info. r_BRC20Tick (ti_Data (tk_Deploy info))) (page start (if limit > 0 then limit else length infos) infos)"
proof -
  let ?xs = "values_of (g_InscriptionsTickerInfoMap g) keys"
  obtain infos where i: "sort_by deployed_before ?xs = Some infos" "mset infos = mset ?xs"
    "sorted_wrt (\<lambda>a b. creation_index (tk_Deploy a) \<le> creation_index (tk_Deploy b)) infos"
    using by_deploy.sort_by_sorted [of ?xs] by (auto simp: list_all_iff)
  have l: "length infos = length ?xs" using i(2) by (metis size_mset)
  have "those (map (\<lambda>x. Some (h x)) ys) = Some (map h ys)" for h :: "BRC20TokenInfo \<Rightarrow> string" and ys by (induction ys) simp_all
  with i l show ?thesis
    by (intro exI [of _ infos]) (auto simp: GetBRC20List_def reply_page_def page_def Let_def)
qed

section \<open>The holders of a token\<close>

lemma Decimal_String_some: "dec_ok p d \<Longrightarrow> p \<le> 18 \<Longrightarrow> \<exists>s. Decimal_String d = Some s"
  by (cases d) (auto simp: Decimal_String_def precisionFactor_def Let_def split: if_splits)

lemma shown_amounts_some:
  assumes "dec_ok p (tb_AvailableBalance b)" "dec_ok p (tb_TransferableBalance b)" "dec_ok p (tb_AvailableBalanceSafe b)" "p \<le> 18"
  shows "shown_amounts b \<noteq> None"
proof -
  obtain o' where o: "OverallBalance b = Some o'" "dec_ok p o'" using Decimal_Add_ok assms unfolding OverallBalance_def by metis
  obtain u where u: "Decimal_Sub (tb_AvailableBalance b) (tb_AvailableBalanceSafe b) = Some u" "dec_ok p u" using Decimal_Sub_ok assms by metis
  show ?thesis
    using Decimal_String_some [OF o(2) assms(4)] Decimal_String_some [OF u(2) assms(4)] Decimal_String_some [OF assms(1,4)]
      Decimal_String_some [OF assms(2,4)] Decimal_String_some [OF assms(3,4)] o(1) u(1) by (auto simp: shown_amounts_def)
qed

text \<open>
  C25. The query for the holders of a deployed token. In a reachable state it returns the number of holders and one
  page of them, sorted by their balance from the greatest, whatever the order \<^term>\<open>keys\<close> in which Go visits the
  map of the holders: every holder has a balance record, and no comparison and no subtraction of the query panics,
  the one of the safe part of a balance included.
\<close>

theorem holders_query_sorted:
  assumes g: "reach e xr g" and t: "g_InscriptionsTickerInfoMap g lt = Some t" and us: "g_TokenUsersBalanceData g lt = Some users"
    and keys: "distinct keys" "set keys = users"
  shows "\<exists>hs rows. mset hs = mset (map (\<lambda>u. the (balance_of g u lt)) keys) \<and> sorted_wrt (\<lambda>a b. overall b \<le> overall a) hs \<and>
    GetBRC20TickerHolders x (Some g) keys lt start limit = Some (Inr (card users, rows)) \<and>
    list_all2 (\<lambda>b r. holder_row x b = Some r) (page start limit hs) rows"
proof -
  let ?p = "token_precision t" and ?m = "\<lambda>u. if u \<in> users then balance_of g u lt else None"
  let ?bs = "map (\<lambda>u. the (balance_of g u lt)) keys"
  have b: "\<exists>b. balance_of g u lt = Some b \<and> dec_ok ?p (tb_AvailableBalanceSafe b)" if "u \<in> users" for u
    using reach_holder [OF g us that] reach_amounts(3) [OF g t token_precision_def] reach_safe [OF g] by metis
  have sub: "values_of ?m ks = map (\<lambda>u. the (balance_of g u lt)) ks" if "set ks \<subseteq> users" for ks
    using that b by (induction ks) (fastforce simp: values_of_def List.map_filter_simps)+
  then have v: "values_of ?m keys = ?bs" using keys(2) by simp
  have n: "length ?bs = card users" using keys distinct_card [of keys] by simp
  have ok: "dec_ok ?p (tb_AvailableBalance y)" "dec_ok ?p (tb_TransferableBalance y)" "dec_ok ?p (tb_AvailableBalanceSafe y)"
    if "y \<in> set ?bs" for y
    using that b keys(2) reach_amounts(3) [OF g t token_precision_def] by force+
  obtain h1 where h1: "sort_by (\<lambda>a b. Some (go_less (tb_PkScript b) (tb_PkScript a))) ?bs = Some h1" "mset h1 = mset ?bs"
    using by_script.sort_by_sorted [of ?bs] by (auto simp: list_all_iff)
  have s1: "set h1 = set ?bs" using h1(2) by (rule mset_eq_setD)
  obtain hs where hs: "sort_by balance_greater h1 = Some hs" "mset hs = mset h1" "sorted_wrt (\<lambda>a b. overall b \<le> overall a) hs"
    using by_balance.sort_by_sorted [of ?p h1] ok(1,2) s1 by (auto simp: list_all_iff)
  have "y \<in> set hs \<Longrightarrow> holder_row x y \<noteq> None" for y
    using shown_amounts_some [OF ok reach_bounds(1) [OF g t]] mset_eq_setD [OF hs(2)] s1 by (fastforce simp: holder_row_def)
  then obtain rows where r: "reply_page (holder_row x) start limit hs = Some (Inr (length hs, rows))"
    "list_all2 (\<lambda>b r. holder_row x b = Some r) (page start limit hs) rows" using reply_page_rows [of hs "holder_row x"] by blast
  have l: "length hs = card users" using hs(2) h1(2) n by (metis size_mset)
  have q: "GetBRC20TickerHolders x (Some g) keys lt start limit = Some (Inr (card users, rows))"
  proof (cases "card users \<le> start")
    case True
    with r(2) l have "rows = []" by (simp add: page_def)
    with True n show ?thesis unfolding GetBRC20TickerHolders_def us option.case Let_def v by simp
  next
    case False
    with n r(1) l h1(1) hs(1) show ?thesis unfolding GetBRC20TickerHolders_def us option.case Let_def v by simp
  qed
  show ?thesis using hs h1(2) r(2) q by (intro exI [of _ hs] exI [of _ rows]) simp
qed

definition demo_api :: api_env where
  "demo_api = \<lparr>ae_extract = (\<lambda>script. Some (False, [script])), ae_blocks_hash = [], ae_rate_greater = (\<lambda>_ _. False)\<rparr>"

lemma demo_holders:
  "map_option (\<lambda>g. (g_TokenUsersBalanceData g ''ordi'' = Some {''alice'', ''bob''},
       map_option token_precision (g_InscriptionsTickerInfoMap g ''ordi'')))
     (run_fresh run_env None demo_events ((Init zero_indexer)\<lparr>g_EnableHistory := False\<rparr>)) = Some (True, Some 0)"
  by code_simp

theorem holders_query_sorted_witness:
  "\<exists>rows. GetBRC20TickerHolders demo_api (Some demo_state) [''bob'', ''alice''] ''ordi'' 0 1 = Some (Inr (2, rows)) \<and> length rows = 1"
proof -
  note d = demo_holders [unfolded demo_run_state(1), simplified]
  obtain t where t: "g_InscriptionsTickerInfoMap demo_state ''ordi'' = Some t" using d by auto
  have us: "g_TokenUsersBalanceData demo_state ''ordi'' = Some {''alice'', ''bob''}" using d by simp
  from holders_query_sorted [OF demo_reach(1) t us, of "[''bob'', ''alice'']" demo_api 0 1] obtain hs rows where
    h: "mset hs = mset (map (\<lambda>u. the (balance_of demo_state u ''ordi'')) [''bob'', ''alice''])"
    "GetBRC20TickerHolders demo_api (Some demo_state) [''bob'', ''alice''] ''ordi'' 0 1 = Some (Inr (card {''alice'', ''bob''}, rows))"
    "list_all2 (\<lambda>b r. holder_row demo_api b = Some r) (page 0 1 hs) rows" by auto
  have "length hs = 2" using mset_eq_length [OF h(1)] by simp
  then have "length rows = 1" using list_all2_lengthD [OF h(3)] by (simp add: page_def)
  with h(2) show ?thesis by (intro exI [of _ rows]) simp
qed

section \<open>The history of a height\<close>

text \<open>
  C26. After a block is saved the list of all records is emptied, and the query for the records of a height reads that
  list: it answers 0 for every height, also for the block that was just processed.
\<close>

theorem height_query_empty:
  assumes "process_block e xr rg h ds s = Some (g, t)" and "g_Durty g"
  shows "GetBRC20AllHistoryByHeight x (Some g) height start limit = Some (Inr (0, []))"
proof -
  obtain g0 t0 where s: "s = (g0, t0)" by (cases s)
  have "g_AllHistory g = []"
    using assms unfolding s process_block_def by (auto simp: PurgeHistoricalData_def elim!: bind_SomeE split: if_splits)
  then show ?thesis by (simp add: GetBRC20AllHistoryByHeight_def histories_of_height_def Let_def)
qed

theorem height_query_empty_witness: "GetBRC20AllHistoryByHeight demo_api (Some (fst demo_saved)) 1 0 10 = Some (Inr (0, []))"
proof -
  have "map_option (\<lambda>s. g_Durty (fst s)) (process_block run_env None demo_save_ranges 1 demo_events demo_start) = Some True" by code_simp
  then have "g_Durty (fst demo_saved)" unfolding demo_block by simp
  moreover have "process_block run_env None demo_save_ranges 1 demo_events demo_start = Some (fst demo_saved, snd demo_saved)"
    by (simp add: demo_block)
  ultimately show ?thesis using height_query_empty by blast
qed

text \<open>A request to verify an empty list of commits reads the element before the first one.\<close>

lemma verify_no_commits_panics: "service_VerifySwapCommitContent e xr (Some g) module [] commitsObj [] = None"
  by (simp add: service_VerifySwapCommitContent_def Let_def)

end
