(* ===== verification/Controller_Props.thy ===== *)
theory Controller_Props
  imports Controller Api_Props
begin

text \<open>
  What the handlers answer: the bounds on a page, and the requests they treat in an unexpected way.
\<close>

section \<open>The size of a page\<close>

named_theorems handlers \<open>definitions the handlers are unfolded with\<close>

lemmas [handlers] = checked_def answer_page_def answer_def failed_def start_param_def limit_param_def int_check_def

lemma those_length: "those xs = Some ys \<Longrightarrow> length ys = length xs"
  by (induction xs arbitrary: ys) (auto split: option.splits)

lemma reply_page_length: "reply_page row start limit xs = Some (Inr (n, rows)) \<Longrightarrow> length rows \<le> limit"
  by (auto simp: reply_page_def page_def dest: those_length split: if_splits elim!: bind_SomeE)

lemma answer_page_rows:
  assumes "answer_page x start msg reply = Some a" and "an_Data a = Some d"
  obtains n where "reply = Some (Inr (n, pr_Detail d))"
proof (cases reply)
  case (Some v)
  with assms that show thesis by (cases v) (auto simp: handlers)
qed (use assms in \<open>simp add: handlers\<close>)

text \<open>A query with a checked limit is answered with at most that many rows.\<close>

lemma limited_page:
  assumes "checked (limit_param most r) (\<lambda>limit. k limit) = Some a" and "an_Data a = Some d"
    and "\<And>limit. k limit = Some a \<Longrightarrow> length (pr_Detail d) \<le> limit"
  shows "int (length (pr_Detail d)) \<le> most"
proof -
  from assms(1,2) obtain v where "1 \<le> v" "v \<le> most" "k (nat v) = Some a"
    by (auto simp: handlers split: sum.splits option.splits if_splits)
  with assms(3) [of "nat v"] show ?thesis by linarith
qed

lemma holders_page_bounded:
  assumes "handle_TickerHolders e x keys r = Some a" and "an_Data a = Some d"
  shows "int (length (pr_Detail d)) \<le> 512"
proof -
  have no: "start_param r \<noteq> Inl msg" for msg using assms by (auto simp: handle_TickerHolders_def checked_def failed_def)
  then obtain start where s: "start_param r = Inr start" by (cases "start_param r") auto
  show ?thesis
  proof (rule limited_page [OF _ assms(2)])
    show "checked (limit_param 512 r) (\<lambda>limit. checked (ticker_param r) (\<lambda>ticker. answer_page x start ''get brc20 holders failed''
            (GetBRC20TickerHolders (gl_api x) (gl_GSwap x) keys (ToLower e ticker) start limit))) = Some a"
      using assms(1) s by (simp add: handle_TickerHolders_def checked_def)
  next
    fix limit
    assume "checked (ticker_param r) (\<lambda>ticker. answer_page x start ''get brc20 holders failed''
            (GetBRC20TickerHolders (gl_api x) (gl_GSwap x) keys (ToLower e ticker) start limit)) = Some a"
    then obtain ticker where "answer_page x start ''get brc20 holders failed''
        (GetBRC20TickerHolders (gl_api x) (gl_GSwap x) keys (ToLower e ticker) start limit) = Some a"
      using assms(2) by (auto simp: checked_def failed_def split: sum.splits)
    from answer_page_rows [OF this assms(2)] obtain n where
      "GetBRC20TickerHolders (gl_api x) (gl_GSwap x) keys (ToLower e ticker) start limit = Some (Inr (n, pr_Detail d))" .
    then show "length (pr_Detail d) \<le> limit"
      by (auto simp: GetBRC20TickerHolders_def not_ready_def Let_def dest!: reply_page_length split: option.splits if_splits elim!: bind_SomeE)
  qed
qed

section \<open>The history of a module\<close>

definition unlimited :: "string \<Rightarrow> request" where
  "unlimited ident = \<lparr>rq_query = [''cursor'' \<mapsto> ''1'', ''size'' \<mapsto> ''9223372036854775807''], rq_param = (\<lambda>_. ident)\<rparr>"

lemma unlimited_params:
  "DefaultQuery (unlimited ident) ''start'' ''0'' = ''0''" "DefaultQuery (unlimited ident) ''end'' ''0'' = ''0''"
  "DefaultQuery (unlimited ident) ''type'' '''' = ''''" "DefaultQuery (unlimited ident) ''cursor'' ''0'' = ''1''"
  "DefaultQuery (unlimited ident) ''size'' ''16'' = ''9223372036854775807''"
  "parse_int ''0'' = Some 0" "parse_int ''1'' = Some 1" "parse_int ''9223372036854775807'' = Some 9223372036854775807"
  by (simp_all add: DefaultQuery_def unlimited_def) code_simp+

lemma sum_wraps: "int_sum 1 9223372036854775807 = - 9223372036854775808"
  by code_simp

text \<open>Where the sum does not wrap, no request reads past the limit.\<close>

lemma module_history_bounded:
  assumes "handle_ModuleHistory e x r = Some a" and "an_Data a = Some d"
    and "parse_int (DefaultQuery r ''cursor'' ''0'') = Some cursor" and "parse_int (DefaultQuery r ''size'' ''16'') = Some n"
    and "cursor + n < 2 ^ 63"
  shows "cursor + int (length (pr_Detail d)) \<le> MAX_INSCRIPTION_LIMIT"
proof -
  from assms(1-4) obtain h1 h2 m where c: "0 \<le> cursor" "0 < n" "int_sum cursor n \<le> MAX_INSCRIPTION_LIMIT" and
    q: "answer_page x (nat cursor) ''get brc20 history failed''
      (GetBRC20ModuleHistory (gl_api x) (gl_GSwap x) (DefaultQuery r ''type'' '''') m h1 h2 (nat cursor) (nat n)) = Some a"
    unfolding handle_ModuleHistory_def by (auto simp: checked_def int_check_def failed_def split: sum.splits option.splits if_splits)
  from answer_page_rows [OF q assms(2)] obtain k where
    "GetBRC20ModuleHistory (gl_api x) (gl_GSwap x) (DefaultQuery r ''type'' '''') m h1 h2 (nat cursor) (nat n) = Some (Inr (k, pr_Detail d))" .
  then have "length (pr_Detail d) \<le> nat n"
    by (auto simp: GetBRC20ModuleHistory_def not_ready_def Let_def dest!: reply_page_length split: option.splits if_splits)
  moreover have "int_sum cursor n = cursor + n" using c assms(5) by (simp del: of_int_add add: int_sum_def sint_sbintrunc' signed_take_bit_int_eq_self)
  ultimately show ?thesis using c by linarith
qed

text \<open>
  C27. The check of the size adds the cursor and the size, and the sum of two integers of 64 bits wraps: with the cursor 1
  and the greatest size the answer has all records of the module but the first, however many there are.
\<close>

theorem module_history_limit_bypassed:
  assumes "gl_GSwap x = Some g" and "VerifyInscriptionId (ToLower e ident) = None"
    and "module_of g (ToLower e ident) = Some m"
    and "list_all (\<lambda>h. unat (h_Type h) < 19) (m_History m)" and "length (m_History m) < 2 ^ 63"
  shows "\<exists>d. handle_ModuleHistory e x (unlimited ident) = Some (answer d) \<and> length (pr_Detail d) = length (m_History m) - 1"
proof -
  have row: "module_history_info (gl_api x) h \<noteq> None" if "h \<in> set (m_History m)" for h
    using assms(4) that by (simp add: module_history_info_def history_name_def BRC20_HISTORY_TYPE_NAMES_def list_all_iff eval_nat_numeral)
  let ?n = "9223372036854775807 :: nat"
  have "module_history_info (gl_api x) h \<noteq> None" if "h \<in> set (page 1 ?n (m_History m))" for h
    using that row by (auto simp: page_def dest!: in_set_takeD in_set_dropD)
  from those_all [of "page 1 ?n (m_History m)" "module_history_info (gl_api x)", OF this] obtain rows where
    r: "those (map (module_history_info (gl_api x)) (page 1 ?n (m_History m))) = Some rows" by blast
  have l: "length rows = length (m_History m) - 1" using those_length [OF r] assms(5) by (simp add: page_def)
  have "\<exists>rows. GetBRC20ModuleHistory (gl_api x) (Some g) '''' (ToLower e ident) 0 0 1 ?n = Some (Inr (length (m_History m), rows)) \<and>
      length rows = length (m_History m) - 1"
    using assms(3) r l by (auto simp: GetBRC20ModuleHistory_def reply_page_def Let_def)
  then show ?thesis using assms(1,2)
    by (auto simp: handle_ModuleHistory_def unlimited_params checked_def int_check_def sum_wraps MAX_INSCRIPTION_LIMIT_def
        module_param_def id_check_def answer_page_def unlimited_def [of ident, THEN arg_cong [of _ _ rq_param], simplified])
qed

definition busy_module :: BRC20ModuleSwapInfo where
  "busy_module = one_user\<lparr>m_History := map (\<lambda>ev. NewBRC20ModuleHistory False HISTORY_TRANSFER ev ev NoData True) swap_events\<rparr>"

definition swap_site :: site where
  "swap_site = \<lparr>gl_GSwap = Some (set_module swap_start swap_module busy_module), gl_api = demo_api, gl_BlocksTime = [], gl_BestHeight = 0\<rparr>"

lemma busy_module_histories: "list_all (\<lambda>h. unat (h_Type h) < 19) (m_History busy_module)" "length (m_History busy_module) = 11"
  by code_simp+

theorem module_history_limit_bypassed_witness:
  "\<exists>d. handle_ModuleHistory swap_env swap_site (unlimited swap_module) = Some (answer d) \<and> length (pr_Detail d) = 10"
proof -
  have low: "ToLower swap_env swap_module = swap_module" and id: "VerifyInscriptionId swap_module = None" by code_simp+
  have "module_of (set_module swap_start swap_module busy_module) swap_module = Some busy_module"
    by (simp add: module_of_def set_module_def)
  with module_history_limit_bypassed [of swap_site "set_module swap_start swap_module busy_module" swap_env swap_module busy_module]
    low id busy_module_histories show ?thesis by (simp add: swap_site_def)
qed

section \<open>Requests that are refused or fail\<close>

text \<open>The ticker of a self mint token has five bytes, and no handler with a ticker accepts it, plain or in hexadecimal.\<close>

lemma self_mint_ticker_refused:
  "length ticker = 5 \<Longrightarrow> ticker_check ticker = Inl ''ticker invalid'' \<and> ticker_check (hex_encode ticker) = Inl ''ticker invalid''"
  by (simp add: ticker_check_def)

lemma ticker_check_hex: "length ticker = 4 \<Longrightarrow> ticker_check (hex_encode ticker) = Inr ticker"
  by (simp add: ticker_check_def)

text \<open>An empty list of tickers is answered twice.\<close>

lemma empty_tickers_answered_twice: "gl_GSwap x \<noteq> None \<Longrightarrow> handle_TickersInfo e x (Some []) = Some [answer [], answer []]"
  by (auto simp: handle_TickersInfo_def)

text \<open>Two requests to verify commits that panic: no commit at all, and the commit \<open>null\<close>.\<close>

lemma verify_empty_request_panics:
  "gl_GSwap x = Some g \<Longrightarrow> handle_VerifySwapCommitContent e xr x (Some \<lparr>vq_CommitsStr = [], vq_LastResults = []\<rparr>) = None"
  by (simp add: handle_VerifySwapCommitContent_def checked_def verify_no_commits_panics answer_one_def)

lemma verify_null_commit_panics:
  "ext_json_parse e c = Some JNull \<Longrightarrow> vq_CommitsStr req = [c] \<Longrightarrow> handle_VerifySwapCommitContent e xr x (Some req) = None"
  by (simp add: handle_VerifySwapCommitContent_def Unmarshal_CommitContent_def)

text \<open>With no list of blocks, which nothing in the program fills, the synchronised height is -1.\<close>

lemma no_synced_height: "ae_blocks_hash (gl_api x) = [] \<Longrightarrow> gl_GSwap x = Some g \<Longrightarrow>
    handle_BestHeight x keys = Some (answer \<lparr>bh_Height = -1, bh_BlockIdHex = '''', bh_BlockTime = 0,
      bh_Total = length (values_of (g_InscriptionsTickerInfoMap g) keys)\<rparr>)"
  by (simp add: handle_BestHeight_def checked_def ready_check_def synced_height_def)

end
