(* ===== verification/Spec2Isabelle.thy ===== *)
theory Spec2Isabelle
  imports Commit_Behaviour Loader_Props Snapshot_Props Controller_Props
begin

text \<open>
  \<^bold>\<open>The BRC-20 swap indexer.\<close>
  A verification development of the indexer under \<open>src/modules/brc20_swap_index/lib/brc20_swap\<close> and of the service
  around it (\<open>src/modules/brc20_swap_index\<close>); the paths below are relative to the first directory.

  \<^bold>\<open>The program.\<close>
  The indexer reads inscription events in the order of the chain and keeps a state: the tokens
  deployed, the balances of every user, the transfer inscriptions that are not spent, and swap
  modules. A module holds tokens deposited in it, pools of two tokens with LP tokens, and a chain of
  commits; a commit is an inscription with a list of functions (deploy a pool, add or remove liquidity,
  swap, send, decrease approvals, gas) signed by their users. Events come from a loader
  (\<open>loader/\<close>), are processed one at a time by the main loop (\<open>indexer/indexer.go\<close>), and the state is
  saved and restored (\<open>indexer/store*.go\<close>, \<open>loader/save_to_db.go\<close>, \<open>loader/load_from_db.go\<close>). The service runs the indexer over
  the blocks, publishes its state and answers queries about it over HTTP. All amounts are
  fixed-point decimals (\<open>decimal/decimal.go\<close>).

  \<^bold>\<open>How the code is modelled.\<close>
  A Go struct is a record with the field names of the struct behind a short prefix; a pointer that may
  be \<open>nil\<close> is an option; a map is a function to options, a map used as a set of flags a set, and a map
  whose order counts an association list. Integers of fixed width are words. A call that can panic
  returns an option, with \<open>None\<close> for the panic; a returned \<open>error\<close> is a value next to the state the
  call leaves, since Go keeps what was written before the error. Objects shared by two maps are stored
  once: the holders of a token are a set of users, and the balance is in the table of the user.
  The LP balances are in two tables, as in the code, and shown to agree.
  Log lines are left out. Whatever the sources import or a run is configured with is an argument of the
  definitions, the record \<open>ext\<close> of \<open>Go_Env\<close>: the JSON parser and its token stream, the Unicode tables
  behind \<open>strings.ToLower\<close>, SHA-256, the address codec, the BIP-322 check, the clock, the order in
  which \<open>range\<close> visits a map, and the configured heights and ids. The theorems hold for every choice of it.

  \<^bold>\<open>The theories,\<close> each with the sources it models.
  \<^item> \<open>Prelude\<close>: shared names and collections, outcomes of calls, and what is used of the packages
    \<open>strings\<close>, \<open>strconv\<close> and \<open>encoding/hex\<close>.
  \<^item> \<open>Decimal_Arith\<close>: \<open>decimal/decimal.go\<close>. The grammar of amounts, printing and reading back, and
    the locale \<open>amounts\<close>, the arithmetic on amounts of one precision, which the ledger proofs use.
    \<open>Evaluation\<close>: code equations on binary integers, proved equal to the definitions.
  \<^item> \<open>Go_Env\<close>: \<open>utils/utils.go\<close>, \<open>conf/conf.go\<close>. \<open>Script_Codec\<close>: \<open>utils/script/compress.go\<close>; the locale
    \<open>prefix_codec\<close> is what a reader needs to read back a field and leave the rest of the buffer.
  \<^item> \<open>Brc20_Model\<close>: \<open>model/model.go\<close>. \<open>Brc20_History\<close>: \<open>model/history.go\<close> and the binary format of a history.
    \<open>Module_Model\<close>: \<open>model/swap.go\<close>, \<open>module.go\<close>, \<open>conditional_approve.go\<close>, \<open>history_module.go\<close>.
  \<^item> \<open>Indexer_State\<close>: \<open>indexer/init.go\<close> and \<open>constant/constant.go\<close>, the state and its helpers.
    \<open>Cond_Approve\<close>: \<open>indexer/module_cond_approve.go\<close>.
  \<^item> \<open>Brc20_Ops\<close>: deploy, mint, inscribe-transfer and transfer (\<open>indexer/brc20_*.go\<close>).
    \<open>Json_Decode\<close>, \<open>Commit_Utils\<close>: \<open>indexer/module_commit_utils.go\<close> and the JSON tags.
    \<open>Module_Ops\<close>: \<open>indexer/module_create.go\<close>, \<open>module_approve.go\<close>, \<open>module_withdraw.go\<close>.
  \<^item> \<open>Commit_Functions\<close>: the eight functions of a commit (\<open>indexer/module_commit_*.go\<close>).
    \<open>Commit_Verify\<close>, \<open>Commit\<close>: \<open>module_commit_verify.go\<close>, \<open>module_commit_inscribe.go\<close>,
    \<open>module_commit.go\<close>. \<open>Indexer_Loop\<close>: \<open>indexer/indexer.go\<close>; \<open>process_event\<close> is one event.
  \<^item> \<open>Loader\<close>: \<open>loader/dump.go\<close>, \<open>load_from_data.go\<close>, \<open>load_from_json.go\<close>, \<open>load_from_log.go\<close>,
    \<open>load_input_from_db.go\<close>. \<open>Snapshot\<close>: \<open>indexer/store_into_data.go\<close>, \<open>model/store.go\<close> and \<open>DeepCopy\<close>.
  \<^item> \<open>Database\<close>: \<open>loader/save_to_db.go\<close> and the queries of \<open>loader/load_from_db.go\<close>, with \<open>SaveDataToDB\<close>.
    \<open>Database_Load\<close>: the readers of \<open>load_from_db.go\<close>, with \<open>LoadDataFromDB\<close> (\<open>indexer/store.go\<close>). A row is a
    record with the columns the code writes, a query a function of the rows, and the form in which a column
    returns an amount a parameter. \<open>Service_Loop\<close>: \<open>../../service/brc20/brc20_swap.go\<close>, which groups events to blocks,
    processes and saves them.
  \<^item> \<open>Api\<close>: the queries over the state the service publishes (\<open>../../service/brc20/brc20_api.go\<close>,
    \<open>brc20_swap_api.go\<close>). \<open>Controller\<close>: the HTTP handlers in front of them (\<open>../../controller\<close>) and the check of an
    inscription id (\<open>../utils/utils_verify.go\<close>); a request is the values of its parameters, the answer a record.

  \<^bold>\<open>What is shown of the base protocol.\<close>
  \<open>Token_Spec\<close> is an abstract token: a machine over integers with a cap, the amount minted, what each
  user has available and the pending transfers, and four steps with guards. \<open>Ledger\<close> has the sums over
  all users and the locale \<open>account_book\<close>, a store of balances whose sum changes by what one entry
  changes; it is interpreted for the five books of the program: balances, balances in a module, swap
  accounts, LP tokens and reserves. \<open>Brc20_Props\<close> gives the effect of each handler on the ledger, and
  \<open>Ledger_Inv\<close> the simulation: each event is at most one step of one abstract token. \<open>reach\<close> are the
  states reached from the initial one by events with fresh inscription keys, as the chain gives them, and by
  the steps between two batches: the mark of a changed state is reset, empty holders are removed and
  what was saved is purged. From the invariant of the abstract machine follow conservation of supply and that no
  balance is negative; \<open>Precision\<close> adds that all amounts of a token have its number of decimals, which is at most
  18, and that a balance is at most \<open>MaxUint64\<close> tokens. \<open>Marks\<close> follows single balances: an event that changes
  one gives it the height of the event, files it under its user and token, and lists the user as a holder; every holder has a balance record,
  and the safe part of a balance has the precision of the balance.

  \<^bold>\<open>What is shown of the modules.\<close>
  \<open>Module_Ledger\<close> has the effect of each function of a commit on the tokens in the custody of
  the module and on the product of the reserves of a pool, \<open>Module_Inv\<close> the invariants it keeps, and
  \<open>Module_Reach\<close> the frame: only commits change the core of a module, so that an invariant of the core
  (locale \<open>module_invariant\<close>, interpreted for the LP supply and for the chain of commits) holds in every
  reachable state. \<open>Commit_Behaviour\<close> has the loop over the parents of a commit, which ends when the
  parents lead to the chain and does not when they form a cycle, the functions that are always
  refused, and that an exact output overdraws every balance between the amount its user names and the price.

  \<^bold>\<open>What is shown of input, copies and saving.\<close>
  \<open>Loader_Props\<close>: the events that come back from a dump, field by field, the batches of a block are complete when no row is
  filtered, and the inputs on which they are not. \<open>Snapshot_Props\<close>: a copy and a saved and
  reloaded state agree with the original on the ledger and the modules, but for the map a reload forgets.
  \<open>Database_Props\<close> follows a run of the service with its tables (\<open>service_reach\<close>): the invariant \<open>db_ok\<close> says
  that the row of a balance with the height of its mark shows its amounts. \<open>Restart\<close> has what follows: the loop over the
  channel processes every block, the balances come back after a restart, and what does not come back
  (the inscription of a deploy, the decimals of module balances, the height of a block without user balances).
  \<open>Api_Props\<close>: the locale \<open>stable_sort\<close>, interpreted for the orders the queries sort by, the pages of an answer, the holders
  of a token in a reachable state, and the query that never finds a record. \<open>Controller_Props\<close>: the bounds on the size of an
  answer, the request that passes them, and the requests that are refused or panic.

  \<^bold>\<open>Loops and bounds.\<close>
  Loops over data are structural recursion. Two loops may not end and are partial functions whose value
  is \<open>None\<close> when they do not: \<open>commit_parents\<close> over the parents of a commit and \<open>db_batches\<close> over the batches
  of a block; the theorems that they return give the value. There is no fuel. The square root and the
  printing of numbers end by a measure.

  \<^bold>\<open>Concrete runs.\<close>
  \<open>Scenario\<close> and \<open>Swap_Scenario\<close> evaluate a run with a token and its transfer, and a run with two
  tokens, a module, a pool and a swap; \<open>Restart\<close> one of the service with its tables. The theorems about reachable states are applied to them, which
  shows that their hypotheses can hold.

  \<^bold>\<open>Not modelled.\<close>
  The BIP-322 check (\<open>utils/bip322\<close>, a wrapper of a script engine that is not part of the repository) is
  a parameter. The gob files, the dumps of tables for debugging, \<open>Float64\<close> (display only) and the start of the server
  (\<open>main.go\<close>) do not change the state; \<open>event/event.go\<close> builds events for a test. The database itself, its transactions and its
  errors are not modelled. \<open>src/taproot-assets\<close> is a copy of a third-party daemon that the indexer does not call.
\<close>

section \<open>The ledger of the base protocol\<close>

text \<open>
  C1. Conservation of supply. In every state the indexer reaches by processing inscription events,
  for every deployed token, the balances of all users (available and bound in transfer
  inscriptions) add up to the amount minted, which is not negative and not above the maximum.
\<close>

theorem supply_conserved:
  assumes "reach e xr g" and "g_InscriptionsTickerInfoMap g lt = Some t"
  shows "total_of (holding lt g) = decval (ti_TotalMinted (tk_Deploy t)) \<and>
    0 \<le> decval (ti_TotalMinted (tk_Deploy t)) \<and> decval (ti_TotalMinted (tk_Deploy t)) \<le> decval (ti_Max (tk_Deploy t))"
  using reach_token(1-3) [OF assms] by blast

theorem supply_conserved_witness: "total_of (holding ''ordi'' demo_state) = 5"
proof -
  obtain t where t: "g_InscriptionsTickerInfoMap demo_state ''ordi'' = Some t" "decval (ti_TotalMinted (tk_Deploy t)) = 5"
    using demo_reach(2) by (auto simp: demo_summary_def)
  from supply_conserved [OF demo_reach(1) t(1)] t(2) show ?thesis by simp
qed

text \<open>
  C2. No balance of a deployed token is ever negative, and the transferable balance of a user is
  the sum of the amounts of the transfer inscriptions the user has not moved yet.
\<close>

theorem no_negative_balance:
  assumes "reach e xr g" and "g_InscriptionsTickerInfoMap g lt = Some t" and "balance_of g u lt = Some b"
  shows "0 \<le> decval (tb_AvailableBalance b) \<and> 0 \<le> decval (tb_TransferableBalance b) \<and>
    decval (tb_TransferableBalance b) = total_of (pend_amt (\<lambda>k. map_option (\<lambda>i. decval (ti_Amount i)) (tb_ValidTransferMap b k)))"
  using reach_token(4) [OF assms] .

theorem no_negative_balance_witness:
  "\<exists>b. balance_of demo_state ''alice'' ''ordi'' = Some b \<and> decval (tb_AvailableBalance b) = 3 \<and>
    0 = total_of (pend_amt (\<lambda>k. map_option (\<lambda>i. decval (ti_Amount i)) (tb_ValidTransferMap b k)))"
proof -
  obtain t b where t: "g_InscriptionsTickerInfoMap demo_state ''ordi'' = Some t"
    and b: "balance_of demo_state ''alice'' ''ordi'' = Some b" "decval (tb_AvailableBalance b) = 3" "decval (tb_TransferableBalance b) = 0"
    using demo_reach(2) by (auto simp: demo_summary_def)
  from no_negative_balance [OF demo_reach(1) t b(1)] b show ?thesis by auto
qed

text \<open>
  C3. Refinement. One inscription event, whatever it is, changes at most one token of the abstract
  ledger, and it changes it by one step of the abstract token machine whose guard holds: a deploy,
  a mint cut at the cap, the binding of a transfer inscription or its move. The other events,
  commits, approvals and module deployments included, do not touch the ledger.
\<close>

theorem process_event_refines:
  assumes "reach e xr g" and "fresh_key g d" and "process_event e xr g d = Some g'"
  shows "ledger_of g' = ledger_of g \<or>
    (\<exists>lt op. token_guard op (ledger_of g lt) \<and> ledger_of g' = (ledger_of g)(lt := token_step op (ledger_of g lt)))"
  using process_event_step [OF assms(3) _ assms(2)] reach_ledger [OF assms(1)]
  by (auto simp: ledger_refines_def ledger_step_def)

theorem process_event_refines_witness:
  "\<exists>g. process_event run_env None g (last demo_events) = Some demo_state \<and>
     (ledger_of demo_state = ledger_of g \<or>
      (\<exists>lt op. token_guard op (ledger_of g lt) \<and> ledger_of demo_state = (ledger_of g)(lt := token_step op (ledger_of g lt))))"
proof -
  obtain g where g: "reach run_env None g" "fresh_key g (last demo_events)"
      "process_event run_env None g (last demo_events) = Some demo_state"
    by (rule demo_last)
  from process_event_refines [OF g] g(3) show ?thesis by blast
qed

text \<open>
  C4. The types of amounts. In every reachable state, the maximum of a token, what is minted of it and
  every balance and pending transfer of every user have the number of decimals the token was deployed
  with. The arithmetic panics on mixed precisions, so that the sum of the two balances of a user is
  always defined.
\<close>

theorem amounts_have_token_precision:
  assumes "reach e xr g" and "g_InscriptionsTickerInfoMap g lt = Some t" and "balance_of g u lt = Some b"
  shows "dec_ok (token_precision t) (ti_Max (tk_Deploy t)) \<and> dec_ok (token_precision t) (ti_TotalMinted (tk_Deploy t)) \<and>
    dec_ok (token_precision t) (tb_AvailableBalance b) \<and> dec_ok (token_precision t) (tb_TransferableBalance b) \<and>
    (\<forall>k i. tb_ValidTransferMap b k = Some i \<longrightarrow> dec_ok (token_precision t) (ti_Amount i)) \<and>
    (\<exists>d. OverallBalance b = Some d \<and> dec_ok (token_precision t) d)"
proof -
  note r = reach_amounts [OF assms(1,2) token_precision_def]
  then have "\<exists>d. OverallBalance b = Some d \<and> dec_ok (token_precision t) d"
    using Decimal_Add_ok assms(3) by (auto simp: OverallBalance_def)
  with r assms(3) show ?thesis by blast
qed

theorem amounts_have_token_precision_witness:
  "\<exists>t b. g_InscriptionsTickerInfoMap demo_state ''ordi'' = Some t \<and> balance_of demo_state ''alice'' ''ordi'' = Some b \<and>
     dec_ok (token_precision t) (tb_AvailableBalance b) \<and> decval (tb_AvailableBalance b) = 3"
proof -
  obtain t b where t: "g_InscriptionsTickerInfoMap demo_state ''ordi'' = Some t"
    and b: "balance_of demo_state ''alice'' ''ordi'' = Some b" "decval (tb_AvailableBalance b) = 3"
    using demo_reach(2) by (auto simp: demo_summary_def)
  from amounts_have_token_precision [OF demo_reach(1) t b(1)] t b show ?thesis by blast
qed

text \<open>
  C5. The holders. When a batch of events ends, the holders of a token are exactly the users with a balance
  that is not zero: nobody who holds the token is missing, and nobody whose balance is used up is left.
\<close>

theorem holders_are_exact:
  assumes "reach e xr g"
  shows "(\<exists>us. g_TokenUsersBalanceData (clean_holders g) lt = Some us \<and> u \<in> us) \<longleftrightarrow> holding lt g u \<noteq> 0"
proof (cases "balance_of g u lt")
  case None
  then show ?thesis using reach_holder [OF assms] by (fastforce simp: clean_holders_def holding_def split: option.splits)
next
  case (Some b)
  have acc: "token_name g lt = Some (tb_Ticker b)" "both_amounts (Some b) = (0, 0) \<or> listed g u lt"
    using reach_accounts_ok [OF assms] Some unfolding accounts_ok_def by metis+
  then obtain t where "g_InscriptionsTickerInfoMap g lt = Some t" by (auto simp: token_name_def tview_def)
  from reach_token(4) [OF assms this Some]
  have "holding lt g u = 0 \<longleftrightarrow> both_amounts (Some b) = (0, 0)"
    using Some by (auto simp: holding_def overall_def both_amounts_def)
  with acc(2) Some show ?thesis
    by (auto simp: clean_holders_def holder_is_empty_def listed_def both_amounts_def Decimal_Sign_decval sgn_0_0)
qed

theorem holders_are_exact_witness:
  "(\<exists>us. g_TokenUsersBalanceData (clean_holders demo_state) ''ordi'' = Some us \<and> ''bob'' \<in> us) \<and> holding ''ordi'' demo_state ''bob'' = 2"
proof -
  obtain b where b: "balance_of demo_state ''bob'' ''ordi'' = Some b" "decval (tb_AvailableBalance b) = 2" "decval (tb_TransferableBalance b) = 0"
    using demo_reach(2) by (auto simp: demo_summary_def)
  then have "holding ''ordi'' demo_state ''bob'' = 2" by (simp add: holding_def overall_def)
  with holders_are_exact [OF demo_reach(1), of "''ordi''" "''bob''"] show ?thesis by simp
qed

text \<open>
  C6. Bounds. A token has at most 18 decimals, and no balance is negative or above the greatest 64-bit
  number of whole tokens.
\<close>

theorem balances_bounded:
  assumes "reach e xr g" and "g_InscriptionsTickerInfoMap g lt = Some t"
  shows "token_precision t \<le> 18 \<and> 0 \<le> holding lt g u \<and> holding lt g u \<le> MaxUint64 * 10 ^ token_precision t"
proof -
  have "0 \<le> holding lt g u"
    using reach_token(4) [OF assms, of u] by (auto simp: holding_def overall_def split: option.splits)
  with reach_bounds [OF assms] show ?thesis by blast
qed

theorem balances_bounded_witness:
  "\<exists>t. g_InscriptionsTickerInfoMap demo_state ''ordi'' = Some t \<and> token_precision t \<le> 18 \<and>
    holding ''ordi'' demo_state ''alice'' \<le> MaxUint64 * 10 ^ token_precision t"
proof -
  obtain t where t: "g_InscriptionsTickerInfoMap demo_state ''ordi'' = Some t" using demo_reach(2) by (auto simp: demo_summary_def)
  from balances_bounded [OF demo_reach(1) t] t show ?thesis by blast
qed

section \<open>The swap modules\<close>

text \<open>
  C7. The LP tokens. In every reachable state, for every pool of every module, the LP balances of
  all users add up to the LP supply recorded in the pool, and the two tables in which the code keeps
  them (by pool and by user) agree.
\<close>

theorem lp_supply_conserved:
  assumes "reach e xr g" and "module_of g k = Some m" and "m_SwapPoolTotalBalanceDataMap m pair = Some p"
  shows "total_of (lp_holding pair m) = decval (pl_LpBalance p) \<and>
    (\<forall>u. decval (lp_of_user m u pair) = decval (lp_of_pool m pair u))"
proof -
  have "lp_ok m" using lp_inv.reached [OF assms(1)] assms(2) by (auto simp: all_modules_def)
  with assms(3) show ?thesis by (auto simp: lp_ok_def lp_copies_def dest: spec [of _ pair] split: option.splits)
qed

theorem lp_supply_conserved_witness:
  "\<exists>m p. module_of swap_state swap_module = Some m \<and> m_SwapPoolTotalBalanceDataMap m pool_name = Some p \<and>
     total_of (lp_holding pool_name m) = 2828 \<and> decval (lp_of_user m ''alice'' pool_name) = 1828"
proof -
  obtain m p where m: "module_of swap_state swap_module = Some m" "m_SwapPoolTotalBalanceDataMap m pool_name = Some p"
    "decval (pl_LpBalance p) = 2828" "decval (lp_of_pool m pool_name ''alice'') = 1828"
    by (rule swap_state_module)
  from lp_supply_conserved [OF swap_reach m(1,2)] m show ?thesis by metis
qed

text \<open>
  C8. Commits form a chain. In every reachable state at most one settled commit of a module is left
  that the next commit may name as its parent, so that the history of a module never forks.
\<close>

theorem commits_never_fork:
  assumes "reach e xr g" and "module_of g k = Some m"
    and "commit_parent_check m a = None" and "commit_parent_check m b = None"
  shows "a = b"
proof -
  have ok: "chain_ok m" using chain_inv.reached [OF assms(1)] assms(2) by (auto simp: all_modules_def)
  have "a = b" if "a \<noteq> ''''" "b \<noteq> ''''"
    by (rule chain_ok_tip [OF ok]) (use assms(3,4) that in \<open>auto simp: commit_parent_check_def split: if_splits\<close>)
  moreover have "a = '''' \<longleftrightarrow> b = ''''"
    using assms(3,4) by (auto simp: commit_parent_check_def split: if_splits)
  ultimately show ?thesis by blast
qed

theorem commits_never_fork_witness:
  "\<exists>m. module_of swap_state swap_module = Some m \<and> commit_parent_check m commit_id = None \<and>
     (\<forall>b. commit_parent_check m b = None \<longrightarrow> b = commit_id)"
proof -
  obtain m where m: "module_of swap_state swap_module = Some m" "m_CommitIdMap m = {commit_id}" "m_CommitIdChainMap m = {''''}"
    by (rule swap_state_module)
  then have "commit_parent_check m commit_id = None" by (simp add: commit_parent_check_def commit_id_def)
  with m(1) commits_never_fork [OF swap_reach m(1)] show ?thesis by blast
qed

text \<open>
  C9. A swap keeps the product of the reserves. When the fee rate of the module is at most 1 and no
  reserve is negative, a swap that succeeds changes one pool, leaves its reserves non-negative and
  never lowers their product: rounding always favours the pool.
\<close>

theorem swap_keeps_product:
  assumes "ProcessCommitFunctionSwap e g m f = Some (None, m')"
    and "CheckAmountVerify (m_FeeRateSwap m) 3 = Some fee" and "decval (amt_of fee) \<le> 1000"
    and "\<forall>pair p. m_SwapPoolTotalBalanceDataMap m pair = Some p \<longrightarrow> pool_nonneg p"
  shows "\<exists>pair p p'. m_SwapPoolTotalBalanceDataMap m pair = Some p \<and>
    m_SwapPoolTotalBalanceDataMap m' = (m_SwapPoolTotalBalanceDataMap m)(pair \<mapsto> p') \<and>
    pool_nonneg p' \<and> reserve_product p \<le> reserve_product p'"
  using swap_product_step [OF assms(1-3)] assms(4) by metis

theorem swap_keeps_product_witness:
  "\<exists>p'. m_SwapPoolTotalBalanceDataMap swapped pool_name = Some p' \<and> pool_nonneg p' \<and> 8000000 \<le> reserve_product p'"
proof -
  have nn: "\<forall>pair p. m_SwapPoolTotalBalanceDataMap pool_module pair = Some p \<longrightarrow> pool_nonneg p"
    by (simp add: pool_module_pools pool_nonneg_def one_pool_def units_def decval_def)
  have "decval (amt_of (Some (Some \<lparr>Precition = 3, Val = 3\<rparr>))) \<le> 1000" by (simp add: amt_of_def decval_def)
  from swap_keeps_product [OF one_swap_run pool_module_fee this nn] show ?thesis
    by (auto simp: pool_module_pools reserve_product_def one_pool_def units_def decval_def split: if_splits)
qed

text \<open>
  C10. A function of a commit that is well named moves tokens inside the module only. For every token that
  finitely many users and pools hold, what the users hold in the module and the reserves of its pools add up
  to the same amount before and after a step (the gas fee and the function), whether the step succeeds or
  not. An \<open>addLiq\<close>, \<open>removeLiq\<close> or \<open>swap\<close> is well named when it names the two tokens of its pool, and the token it
  swaps, in the letter case of the pool; every other function is. The condition is needed: with another
  letter case, which the code accepts, the reserves are mixed up (lemma \<open>wrong_case_mixes\<close>).
\<close>

theorem commit_step_conserves_custody:
  assumes "commit_step e g p sz f m = Some (r, m')" and "well_named e g m f" and "custody_fin e lt m"
  shows "custody e lt m' = custody e lt m \<and> custody_fin e lt m'"
  using commit_step_step(2) [OF assms(1,2)] assms(3) by (auto simp: shifts_def)

theorem commit_step_conserves_custody_witness:
  "custody swap_env ''ordi'' swapped = custody swap_env ''ordi'' pool_module"
  using commit_step_conserves_custody [OF one_step one_swap_named pool_module_custody] by blast

end
